(* ===== verification/Prelude.thy ===== *)
theory Prelude
  imports Main "HOL-Library.AList" "HOL-Library.Char_ord" "HOL-Library.List_Lexorder"
begin

text \<open>
  Shared vocabulary of the development: the Go values the operator computes with and the
  generic lemmas about them.

  A Go string is the list of its bytes, so it is a HOL \<open>string\<close> (a \<open>char\<close> is one byte) and
  Go's \<open><\<close> on strings is the lexicographic order of \<open>List_Lexorder\<close> over \<open>Char_ord\<close>.
  A Go map that is only looked up is a HOL map \<open>'k \<rightharpoonup> 'v\<close>.  A Go map that is ranged over is
  an association list (\<open>gomap\<close>) whose order is the order in which that particular
  \<open>range\<close> visits the keys: Go leaves it open, so theorems about such functions are stated for
  every list with the same \<open>map_of\<close>.
\<close>

named_theorems order_free \<open>facts saying that the iteration order of a Go map is irrelevant\<close>

type_synonym ('k, 'v) gomap = "('k \<times> 'v) list"

abbreviation gomap_wf :: "('k, 'v) gomap \<Rightarrow> bool" where
  "gomap_wf m \<equiv> distinct (map fst m)"

section \<open>Strings\<close>

fun join_with :: "string \<Rightarrow> string list \<Rightarrow> string" where
  "join_with sep [] = []"
| "join_with sep [x] = x"
| "join_with sep (x # y # ys) = x @ sep @ join_with sep (y # ys)"

text \<open>\<open>strings.Cut\<close> at a one-byte separator: the parts before and after its first occurrence.\<close>

fun cut_at :: "char \<Rightarrow> string \<Rightarrow> (string \<times> string) option" where
  "cut_at c [] = None"
| "cut_at c (x # xs) =
     (if x = c then Some ([], xs)
      else (case cut_at c xs of None \<Rightarrow> None | Some (a, b) \<Rightarrow> Some (x # a, b)))"

definition digit_char :: "nat \<Rightarrow> char" where
  "digit_char d = ''0123456789'' ! d"

fun dec_nat :: "nat \<Rightarrow> string" where
  "dec_nat n = (if n < 10 then [digit_char n] else dec_nat (n div 10) @ [digit_char (n mod 10)])"

declare dec_nat.simps [simp del]

definition dec_int :: "int \<Rightarrow> string" where
  "dec_int i = (if i < 0 then CHR ''-'' # dec_nat (nat (- i)) else dec_nat (nat i))"

definition hex_char :: "nat \<Rightarrow> char" where
  "hex_char d = ''0123456789abcdef'' ! d"

text \<open>\<open>hex.EncodeToString\<close>: two lower-case digits for each byte.\<close>

definition hex_byte :: "char \<Rightarrow> string" where
  "hex_byte c = [hex_char (of_char c div 16), hex_char (of_char c mod 16)]"

definition hex_encode :: "string \<Rightarrow> string" where
  "hex_encode s = concat (map hex_byte s)"

lemma join_with_Cons: "join_with sep (x # xs) = x @ (if xs = [] then [] else sep @ join_with sep xs)"
  by (cases xs) auto

lemma join_with_snoc:
  "join_with sep (xs @ [x]) = (if xs = [] then x else join_with sep xs @ sep @ x)"
  by (induction xs) (auto simp: join_with_Cons)

lemma set_join_with: "set (join_with sep xs) \<subseteq> set sep \<union> \<Union> (set ` set xs)"
  by (induction sep xs rule: join_with.induct) auto

lemma cut_at_complete: "c \<notin> set a \<Longrightarrow> cut_at c (a @ c # b) = Some (a, b)"
  by (induction a) auto

lemma cut_at_sound: "cut_at c s = Some (a, b) \<Longrightarrow> s = a @ c # b \<and> c \<notin> set a"
  by (induction s arbitrary: a) (auto split: if_splits option.splits)

lemma cut_at_Some: "cut_at c s = Some (a, b) \<longleftrightarrow> s = a @ c # b \<and> c \<notin> set a"
  using cut_at_complete cut_at_sound by blast

lemma cut_at_None: "cut_at c s = None \<longleftrightarrow> c \<notin> set s"
  by (induction s) (auto split: option.splits)

lemma length_hex_encode [simp]: "length (hex_encode s) = 2 * length s"
  by (induction s) (simp_all add: hex_encode_def hex_byte_def)

lemma of_char_less_256 [simp]: "of_char c < (256 :: nat)"
  by (metis of_char_mod_256 mod_less_divisor zero_less_numeral)

text \<open>Every hexadecimal digit is a decimal digit or one of the letters a to f.\<close>

lemma hex_char_set: "d < 16 \<Longrightarrow> hex_char d \<in> set ''0123456789abcdef''"
  unfolding hex_char_def by (rule nth_mem) simp

lemma set_hex_byte: "set (hex_byte c) \<subseteq> set ''0123456789abcdef''"
proof -
  have "hex_char (of_char c div 16) \<in> set ''0123456789abcdef''"
    by (rule hex_char_set) (use of_char_less_256 [of c] in linarith)
  moreover have "hex_char (of_char c mod 16) \<in> set ''0123456789abcdef''"
    by (rule hex_char_set) simp
  ultimately show ?thesis
    unfolding hex_byte_def list.set(2) list.set(1) by blast
qed

lemma set_hex_encode: "set (hex_encode s) \<subseteq> set ''0123456789abcdef''"
  unfolding hex_encode_def set_concat set_map using set_hex_byte by blast

section \<open>Maps in iteration order\<close>

lemma map_add_same [simp]: "m ++ m = m"
  by (rule ext) (simp add: map_add_def split: option.split)

lemma map_of_same_set:
  "gomap_wf m \<Longrightarrow> gomap_wf m' \<Longrightarrow> set m = set m' \<longleftrightarrow> map_of m = map_of m'"
  by (metis map_of_inject_set)

lemma gomap_set_eq:
  "gomap_wf m \<Longrightarrow> gomap_wf m' \<Longrightarrow> map_of m = map_of m' \<Longrightarrow> set m = set m'"
  by (simp add: map_of_same_set)

lemma gomap_keys_eq: "map_of m = map_of m' \<Longrightarrow> fst ` set m = fst ` set m'"
  by (metis dom_map_of_conv_image_fst)

text \<open>Sorting the keys of a map forgets the iteration order.\<close>

definition sorted_keys :: "(string, 'v) gomap \<Rightarrow> string list" where
  "sorted_keys m = sort (map fst m)"

lemma set_sorted_keys [simp]: "set (sorted_keys m) = dom (map_of m)"
  by (simp add: sorted_keys_def dom_map_of_conv_image_fst)

lemma sorted_sorted_keys [simp]: "sorted (sorted_keys m)"
  by (simp add: sorted_keys_def)

lemma distinct_sorted_keys [simp]: "gomap_wf m \<Longrightarrow> distinct (sorted_keys m)"
  by (simp add: sorted_keys_def)

lemma sorted_keys_cong [order_free]:
  assumes "gomap_wf m" "gomap_wf m'" "map_of m = map_of m'"
  shows "sorted_keys m = sorted_keys m'"
  by (rule sorted_distinct_set_unique) (use assms in simp_all)

text \<open>
  \<open>for k, v := range m\<close>: the n-th range statement of a function visits the keys in an order of
  its own, here \<open>visit n\<close>; \<open>visits\<close> says that it is an order of exactly those keys.
\<close>

type_synonym visit_order = "nat \<Rightarrow> string list \<Rightarrow> string list"

definition visits :: "visit_order \<Rightarrow> bool" where
  "visits visit \<longleftrightarrow> (\<forall>n ks. distinct ks \<longrightarrow> set (visit n ks) = set ks \<and> distinct (visit n ks))"

definition range_of :: "visit_order \<Rightarrow> nat \<Rightarrow> (string, 'v) gomap \<Rightarrow> (string, 'v) gomap" where
  "range_of visit n m = map (\<lambda>k. (k, the (map_of m k))) (visit n (map fst m))"

lemma fst_range_of: "map fst (range_of visit n m) = visit n (map fst m)"
  by (simp add: range_of_def comp_def)

lemma range_of_wf [simp]: "visits visit \<Longrightarrow> gomap_wf m \<Longrightarrow> gomap_wf (range_of visit n m)"
  by (simp add: visits_def fst_range_of)

lemma set_range_of [simp]: "visits visit \<Longrightarrow> gomap_wf m \<Longrightarrow> set (range_of visit n m) = set m"
  by (force simp: range_of_def visits_def)

lemma map_of_range_of [simp]:
  "visits visit \<Longrightarrow> gomap_wf m \<Longrightarrow> map_of (range_of visit n m) = map_of m"
  by (metis map_of_inject_set range_of_wf set_range_of)

lemma visits_id: "visits (\<lambda>n ks. ks)"
  by (simp add: visits_def)

section \<open>Loops that may panic\<close>

fun fold_opt :: "('x \<Rightarrow> 's \<Rightarrow> 's option) \<Rightarrow> 'x list \<Rightarrow> 's \<Rightarrow> 's option" where
  "fold_opt f [] s = Some s"
| "fold_opt f (x # xs) s = (case f x s of None \<Rightarrow> None | Some s' \<Rightarrow> fold_opt f xs s')"

lemma fold_opt_inv:
  assumes "fold_opt f xs s = Some s'" "P s" "\<And>x s s'. x \<in> set xs \<Longrightarrow> f x s = Some s' \<Longrightarrow> P s \<Longrightarrow> P s'"
  shows "P s'"
  using assms
proof (induction xs arbitrary: s)
  case Nil
  then show ?case by simp
next
  case (Cons x xs)
  then obtain s1 where s1: "f x s = Some s1" "fold_opt f xs s1 = Some s'"
    by (auto split: option.splits)
  show ?case
    by (rule Cons.IH [OF s1(2)]) (use Cons.prems s1 in \<open>auto\<close>)
qed

lemma fold_opt_total:
  assumes "P s" "\<And>x s. x \<in> set xs \<Longrightarrow> P s \<Longrightarrow> \<exists>s'. f x s = Some s' \<and> P s'"
  shows "\<exists>s'. fold_opt f xs s = Some s' \<and> P s'"
  using assms
proof (induction xs arbitrary: s)
  case Nil
  then show ?case by simp
next
  case (Cons x xs)
  obtain s1 where "f x s = Some s1" "P s1"
    using Cons.prems(2) [of x s] Cons.prems(1) by auto
  then show ?case using Cons.IH [of s1] Cons.prems(2) by auto
qed

text \<open>A map whose function may fail fails with the first element that does.\<close>

fun map_opt :: "('a \<Rightarrow> 'b option) \<Rightarrow> 'a list \<Rightarrow> 'b list option" where
  "map_opt f [] = Some []"
| "map_opt f (x # xs) =
     (case f x of None \<Rightarrow> None | Some y \<Rightarrow> (case map_opt f xs of None \<Rightarrow> None | Some ys \<Rightarrow> Some (y # ys)))"

lemma map_opt_map: "map_opt f xs = Some ys \<Longrightarrow> (\<And>x y. f x = Some y \<Longrightarrow> g y = h x) \<Longrightarrow> map g ys = map h xs"
  by (induction xs arbitrary: ys) (auto split: option.splits)

lemma map_opt_Some: "map_opt f xs = Some ys \<longleftrightarrow> list_all2 (\<lambda>x y. f x = Some y) xs ys"
proof (induction xs arbitrary: ys)
  case (Cons x xs)
  show ?case by (cases "f x"; cases "map_opt f xs") (auto simp: list_all2_Cons1 simp flip: Cons.IH)
qed auto

lemma map_opt_set: "map_opt f xs = Some ys \<Longrightarrow> y \<in> set ys \<Longrightarrow> \<exists>x \<in> set xs. f x = Some y"
  by (induction xs arbitrary: ys) (auto split: option.splits)

lemma map_opt_total: "(\<And>x. x \<in> set xs \<Longrightarrow> f x \<noteq> None) \<Longrightarrow> map_opt f xs \<noteq> None"
  by (induction xs) (auto split: option.splits)

end
