(* ===== verification/Drain.thy ===== *)
theory Drain
  imports Prelude
begin

text \<open>
  The annotation protocols of \<open>pkg/operator/drain/drain.go\<close> and
  \<open>pkg/operator/rollout/rollout.go\<close>: predicates and updates on an object's annotation map,
  and the drain state machine \<open>StateTransitions\<close>.

  An object is anything with an annotation map; \<open>obj_meta\<close> is extended by the records of the
  theories that need more of a Pod.  \<open>annotations\<close> is \<open>None\<close> for Go's nil map, which can be read
  and deleted from but not written, so every writer allocates first, as the code does.
\<close>

record obj_meta =
  annotations :: "(string \<rightharpoonup> string) option"

section \<open>Annotation maps\<close>

definition ann_has :: "string \<Rightarrow> 'a obj_meta_scheme \<Rightarrow> bool" where
  "ann_has k obj = (case annotations obj of None \<Rightarrow> False | Some ann \<Rightarrow> ann k \<noteq> None)"

definition ann_get :: "string \<Rightarrow> 'a obj_meta_scheme \<Rightarrow> string" where
  "ann_get k obj =
     (case annotations obj of None \<Rightarrow> [] | Some ann \<Rightarrow> (case ann k of None \<Rightarrow> [] | Some v \<Rightarrow> v))"

definition ann_put :: "string \<Rightarrow> string \<Rightarrow> 'a obj_meta_scheme \<Rightarrow> 'a obj_meta_scheme" where
  "ann_put k v obj =
     (let ann = (case annotations obj of None \<Rightarrow> Map.empty | Some ann \<Rightarrow> ann)
      in obj\<lparr>annotations := Some (ann(k \<mapsto> v))\<rparr>)"

definition ann_del :: "string \<Rightarrow> 'a obj_meta_scheme \<Rightarrow> 'a obj_meta_scheme" where
  "ann_del k obj = obj\<lparr>annotations := map_option (\<lambda>ann. ann(k := None)) (annotations obj)\<rparr>"

lemma ann_has_put [simp]: "ann_has k' (ann_put k v obj) \<longleftrightarrow> k' = k \<or> ann_has k' obj"
  by (simp add: ann_has_def ann_put_def Let_def split: option.split)

lemma ann_has_del [simp]: "ann_has k' (ann_del k obj) \<longleftrightarrow> k' \<noteq> k \<and> ann_has k' obj"
  by (simp add: ann_has_def ann_del_def split: option.split)

lemma ann_get_put [simp]: "ann_get k' (ann_put k v obj) = (if k' = k then v else ann_get k' obj)"
  by (simp add: ann_get_def ann_put_def Let_def split: option.split)

lemma ann_del_noop: "\<not> ann_has k obj \<Longrightarrow> ann_del k obj = obj"
  by (cases "annotations obj")
    (simp_all add: ann_has_def ann_del_def fun_upd_idem)

section \<open>Package drain: annotations\<close>

definition drain_SupportedAnnotation :: string where
  "drain_SupportedAnnotation = ''drain.planetscale.com'' @ ''/'' @ ''supported''"

definition drain_StartedAnnotation :: string where
  "drain_StartedAnnotation = ''drain.planetscale.com'' @ ''/'' @ ''started''"

definition drain_AcknowledgedAnnotation :: string where
  "drain_AcknowledgedAnnotation = ''drain.planetscale.com'' @ ''/'' @ ''acknowledged''"

definition drain_FinishedAnnotation :: string where
  "drain_FinishedAnnotation = ''drain.planetscale.com'' @ ''/'' @ ''finished''"

definition drain_Supported :: "'a obj_meta_scheme \<Rightarrow> bool" where
  "drain_Supported obj = ann_has drain_SupportedAnnotation obj"

definition drain_Started :: "'a obj_meta_scheme \<Rightarrow> bool" where
  "drain_Started obj = ann_has drain_StartedAnnotation obj"

definition drain_Acknowledged :: "'a obj_meta_scheme \<Rightarrow> bool" where
  "drain_Acknowledged obj = ann_has drain_AcknowledgedAnnotation obj"

definition drain_Finished :: "'a obj_meta_scheme \<Rightarrow> bool" where
  "drain_Finished obj = ann_has drain_FinishedAnnotation obj"

definition drain_Start :: "'a obj_meta_scheme \<Rightarrow> string \<Rightarrow> 'a obj_meta_scheme" where
  "drain_Start obj message =
     (if ann_has drain_StartedAnnotation obj then obj
      else ann_put drain_StartedAnnotation message obj)"

text \<open>\<open>time.Now().UTC().String()\<close> is the argument \<open>now\<close>.\<close>

definition drain_Acknowledge :: "string \<Rightarrow> 'a obj_meta_scheme \<Rightarrow> 'a obj_meta_scheme" where
  "drain_Acknowledge now obj =
     (if ann_has drain_AcknowledgedAnnotation obj then obj
      else ann_put drain_AcknowledgedAnnotation now obj)"

definition drain_Unacknowledge :: "'a obj_meta_scheme \<Rightarrow> 'a obj_meta_scheme" where
  "drain_Unacknowledge obj = ann_del drain_AcknowledgedAnnotation obj"

definition drain_Finish :: "string \<Rightarrow> 'a obj_meta_scheme \<Rightarrow> 'a obj_meta_scheme" where
  "drain_Finish now obj =
     (if ann_has drain_FinishedAnnotation obj then obj
      else ann_put drain_FinishedAnnotation now obj)"

definition drain_Unfinish :: "'a obj_meta_scheme \<Rightarrow> 'a obj_meta_scheme" where
  "drain_Unfinish obj = ann_del drain_FinishedAnnotation obj"

lemmas drain_annotation_names =
  drain_SupportedAnnotation_def drain_StartedAnnotation_def drain_AcknowledgedAnnotation_def
  drain_FinishedAnnotation_def

lemmas drain_defs =
  drain_Supported_def drain_Started_def drain_Acknowledged_def drain_Finished_def
  drain_Start_def drain_Acknowledge_def drain_Unacknowledge_def drain_Finish_def drain_Unfinish_def

section \<open>Package rollout: annotations\<close>

definition rollout_ScheduledAnnotation :: string where
  "rollout_ScheduledAnnotation = ''rollout.planetscale.com'' @ ''/'' @ ''scheduled''"

definition rollout_ReleasedAnnotation :: string where
  "rollout_ReleasedAnnotation = ''rollout.planetscale.com'' @ ''/'' @ ''released''"

definition rollout_CascadeAnnotation :: string where
  "rollout_CascadeAnnotation = ''rollout.planetscale.com'' @ ''/'' @ ''cascade''"

definition rollout_Scheduled :: "'a obj_meta_scheme \<Rightarrow> bool" where
  "rollout_Scheduled obj = ann_has rollout_ScheduledAnnotation obj"

definition rollout_Released :: "'a obj_meta_scheme \<Rightarrow> bool" where
  "rollout_Released obj = ann_has rollout_ReleasedAnnotation obj"

definition rollout_Cascading :: "'a obj_meta_scheme \<Rightarrow> bool" where
  "rollout_Cascading obj = ann_has rollout_CascadeAnnotation obj"

definition rollout_Schedule :: "'a obj_meta_scheme \<Rightarrow> string \<Rightarrow> 'a obj_meta_scheme" where
  "rollout_Schedule obj message = ann_put rollout_ScheduledAnnotation message obj"

definition rollout_Unschedule :: "'a obj_meta_scheme \<Rightarrow> 'a obj_meta_scheme" where
  "rollout_Unschedule obj = ann_del rollout_ReleasedAnnotation (ann_del rollout_ScheduledAnnotation obj)"

definition rollout_Release :: "'a obj_meta_scheme \<Rightarrow> 'a obj_meta_scheme" where
  "rollout_Release obj =
     (if ann_has rollout_ReleasedAnnotation obj then obj else ann_put rollout_ReleasedAnnotation [] obj)"

definition rollout_Unrelease :: "'a obj_meta_scheme \<Rightarrow> 'a obj_meta_scheme" where
  "rollout_Unrelease obj = ann_del rollout_ReleasedAnnotation obj"

definition rollout_Cascade :: "'a obj_meta_scheme \<Rightarrow> 'a obj_meta_scheme" where
  "rollout_Cascade obj =
     (if ann_has rollout_CascadeAnnotation obj then obj else ann_put rollout_CascadeAnnotation [] obj)"

definition rollout_Uncascade :: "'a obj_meta_scheme \<Rightarrow> 'a obj_meta_scheme" where
  "rollout_Uncascade obj = ann_del rollout_CascadeAnnotation obj"

lemmas rollout_annotation_names =
  rollout_ScheduledAnnotation_def rollout_ReleasedAnnotation_def rollout_CascadeAnnotation_def

lemmas rollout_defs =
  rollout_Scheduled_def rollout_Released_def rollout_Cascading_def rollout_Schedule_def
  rollout_Unschedule_def rollout_Release_def rollout_Unrelease_def rollout_Cascade_def
  rollout_Uncascade_def

text \<open>The seven annotation keys are pairwise different, so the flags are independent.\<close>

lemma annotation_keys_distinct:
  "distinct [drain_SupportedAnnotation, drain_StartedAnnotation, drain_AcknowledgedAnnotation,
     drain_FinishedAnnotation, rollout_ScheduledAnnotation, rollout_ReleasedAnnotation,
     rollout_CascadeAnnotation]"
  by (simp add: drain_annotation_names rollout_annotation_names)

lemmas annotation_keys_neq [simp] =
  annotation_keys_distinct [simplified]
  annotation_keys_distinct [simplified distinct_rev [symmetric, of "[_, _, _, _, _, _, _]"], simplified]


section \<open>The interface of a presence flag\<close>

text \<open>
  Acknowledge/Unacknowledge, Finish/Unfinish, Release/Unrelease and Cascade/Uncascade share one
  contract: the flag is the presence of a key, setting it when it is set and clearing it when it
  is clear change nothing, so an object is sent to the server only for a real change.
\<close>

locale presence_flag =
  fixes has :: "'o \<Rightarrow> bool"
    and raise :: "'o \<Rightarrow> 'o"
    and lower :: "'o \<Rightarrow> 'o"
  assumes has_raise: "has (raise x)"
    and raise_noop: "has x \<Longrightarrow> raise x = x"
    and has_lower: "\<not> has (lower x)"
    and lower_noop: "\<not> has x \<Longrightarrow> lower x = x"
begin

lemma raise_idem: "raise (raise x) = raise x"
  by (rule raise_noop) (rule has_raise)

lemma lower_idem: "lower (lower x) = lower x"
  by (rule lower_noop) (rule has_lower)

text \<open>After any run of operations the last one decides.\<close>

lemma has_run: "has (fold (\<lambda>b. if b then raise else lower) bs x) = (if bs = [] then has x else last bs)"
proof (induction bs rule: rev_induct)
  case Nil
  show ?case by simp
next
  case (snoc b bs)
  show ?case by (simp add: has_raise has_lower)
qed

text \<open>A run of operations that all agree with the flag leaves the object untouched.\<close>

lemma run_noop: "set bs \<subseteq> {has x} \<Longrightarrow> fold (\<lambda>b. if b then raise else lower) bs x = x"
  by (induction bs) (auto simp: raise_noop lower_noop)

end

interpretation drain_ack: presence_flag drain_Acknowledged "drain_Acknowledge now" drain_Unacknowledge
  for now
  by unfold_locales (simp_all add: drain_defs ann_del_noop)

interpretation drain_fin: presence_flag drain_Finished "drain_Finish now" drain_Unfinish
  for now
  by unfold_locales (simp_all add: drain_defs ann_del_noop)

interpretation rollout_rel: presence_flag rollout_Released rollout_Release rollout_Unrelease
  by unfold_locales (simp_all add: rollout_defs ann_del_noop)

interpretation rollout_casc: presence_flag rollout_Cascading rollout_Cascade rollout_Uncascade
  by unfold_locales (simp_all add: rollout_defs ann_del_noop)

section \<open>The drain state machine\<close>

datatype drain_state = NotDrainingState | DrainingState | AcknowledgedState | FinishedState

fun drain_state_String :: "drain_state \<Rightarrow> string" where
  "drain_state_String NotDrainingState = ''NotDraining''"
| "drain_state_String DrainingState = ''Draining''"
| "drain_state_String AcknowledgedState = ''DrainingAcknowledged''"
| "drain_state_String FinishedState = ''DrainingFinished''"

text \<open>
  \<open>GetState\<close> returns a state and an error; the flag is true for the error "Invalid annotations
  on object", which comes with a usable state.
\<close>

definition GetState :: "'a obj_meta_scheme \<Rightarrow> drain_state \<times> bool" where
  "GetState obj =
     (if drain_Finished obj \<and> drain_Acknowledged obj then (FinishedState, False)
      else if drain_Finished obj \<and> \<not> drain_Acknowledged obj then (FinishedState, True)
      else if drain_Acknowledged obj then (AcknowledgedState, False)
      else if drain_Started obj then (DrainingState, False)
      else (NotDrainingState, False))"

text \<open>
  The first loop of \<open>StateTransitions\<close>: acknowledge every drain that was requested, and find out
  whether it is safe to mark anything as finished.
\<close>

fun acknowledge_scan ::
    "(string, drain_state) gomap \<Rightarrow> (string, drain_state) gomap \<times> bool \<Rightarrow> (string, drain_state) gomap \<times> bool"
where
  "acknowledge_scan [] acc = acc"
| "acknowledge_scan ((name, state) # rest) (transitions, canMarkFinished) =
     acknowledge_scan rest
       (case state of
          NotDrainingState \<Rightarrow> (transitions, canMarkFinished)
        | DrainingState \<Rightarrow> (AList.update name AcknowledgedState transitions, False)
        | AcknowledgedState \<Rightarrow> (transitions, canMarkFinished)
        | FinishedState \<Rightarrow> (transitions, False))"

text \<open>The second loop: the first acknowledged name in sorted order.\<close>

definition StateTransitions :: "(string, drain_state) gomap \<Rightarrow> (string, drain_state) gomap" where
  "StateTransitions drainStates =
     (case acknowledge_scan drainStates ([], True) of
        (transitions, canMarkFinished) \<Rightarrow>
          if \<not> canMarkFinished then transitions
          else
            (case find (\<lambda>name. map_of drainStates name = Some AcknowledgedState) (sorted_keys drainStates) of
               None \<Rightarrow> transitions
             | Some name \<Rightarrow> AList.update name FinishedState transitions))"

lemma acknowledge_scan_snd:
  "snd (acknowledge_scan ds (ts, b)) \<longleftrightarrow> b \<and> (\<forall>n. (n, DrainingState) \<notin> set ds \<and> (n, FinishedState) \<notin> set ds)"
  by (induction ds "(ts, b)" arbitrary: ts b rule: acknowledge_scan.induct)
    (auto split: drain_state.splits)

lemma acknowledge_scan_fst:
  "gomap_wf ds \<Longrightarrow> map_of (fst (acknowledge_scan ds (ts, b))) =
     map_of ts ++ (\<lambda>n. if map_of ds n = Some DrainingState then Some AcknowledgedState else None)"
proof (induction ds "(ts, b)" arbitrary: ts b rule: acknowledge_scan.induct)
  case (1 ts b)
  show ?case by simp
next
  case (2 name state rest ts b)
  then have "name \<notin> dom (map_of rest)"
    by (simp add: dom_map_of_conv_image_fst)
  with 2 show ?case
    by (cases state) (auto simp: update_conv map_add_def fun_eq_iff domIff split: option.splits)
qed


text \<open>
  The abstract specification of the state machine, one object at a time and without any
  iteration order: a requested drain is acknowledged; the least acknowledged object is finished
  if no object is merely draining and none is finished already.
\<close>

definition transitions_of :: "(string \<rightharpoonup> drain_state) \<Rightarrow> string \<rightharpoonup> drain_state" where
  "transitions_of m n =
     (if m n = Some DrainingState then Some AcknowledgedState
      else if m n = Some AcknowledgedState
              \<and> (\<forall>k. m k \<noteq> Some DrainingState \<and> m k \<noteq> Some FinishedState)
              \<and> (\<forall>k. m k = Some AcknowledgedState \<longrightarrow> n \<le> k)
           then Some FinishedState
      else None)"

lemma find_sorted_Some:
  "sorted xs \<Longrightarrow> find P xs = Some x \<longleftrightarrow> x \<in> set xs \<and> P x \<and> (\<forall>y \<in> set xs. P y \<longrightarrow> x \<le> y)"
proof (induction xs)
  case Nil
  show ?case by simp
next
  case (Cons a xs)
  then show ?case by (cases "P a") (auto intro: antisym)
qed

lemma StateTransitions_map_of:
  assumes wf: "gomap_wf ds"
  shows "map_of (StateTransitions ds) = transitions_of (map_of ds)"
proof -
  let ?D = "\<lambda>n. if map_of ds n = Some DrainingState then Some AcknowledgedState else None"
  obtain ts can where scan: "acknowledge_scan ds ([], True) = (ts, can)"
    by (cases "acknowledge_scan ds ([], True)")
  have can: "can \<longleftrightarrow> (\<forall>k. map_of ds k \<noteq> Some DrainingState \<and> map_of ds k \<noteq> Some FinishedState)"
    using acknowledge_scan_snd [of ds "[]" True] unfolding scan
    by (simp add: map_of_eq_Some_iff [OF wf])
  have ts: "map_of ts = ?D"
    using acknowledge_scan_fst [OF wf, of "[]" True] unfolding scan by simp
  show ?thesis
  proof (cases can)
    case False
    then have "\<not> (\<forall>k. map_of ds k \<noteq> Some DrainingState \<and> map_of ds k \<noteq> Some FinishedState)"
      using can by simp
    with False show ?thesis
      unfolding StateTransitions_def scan transitions_of_def by (auto simp: ts fun_eq_iff)
  next
    case True
    let ?P = "\<lambda>name. map_of ds name = Some AcknowledgedState"
    note found = find_sorted_Some [OF sorted_sorted_keys [of ds], of ?P]
    show ?thesis
    proof (cases "find ?P (sorted_keys ds)")
      case None
      then have "\<forall>n. map_of ds n \<noteq> Some AcknowledgedState"
        by (auto simp: find_None_iff)
      with True None can show ?thesis
        unfolding StateTransitions_def scan transitions_of_def by (auto simp: ts fun_eq_iff)
    next
      case (Some n)
      then have n: "map_of ds n = Some AcknowledgedState"
          "\<And>k. map_of ds k = Some AcknowledgedState \<Longrightarrow> n \<le> k"
        using found by auto
      have "transitions_of (map_of ds) k = (?D(n \<mapsto> FinishedState)) k" for k
        using True can n by (auto simp: transitions_of_def intro: antisym)
      with True Some show ?thesis
        unfolding StateTransitions_def scan by (simp add: ts update_conv' fun_eq_iff)
    qed
  qed
qed

lemma StateTransitions_cong [order_free]:
  assumes "gomap_wf ds" "gomap_wf ds'" "map_of ds = map_of ds'"
  shows "map_of (StateTransitions ds) = map_of (StateTransitions ds')"
  using assms by (simp add: StateTransitions_map_of)

lemma transitions_of_Finished:
  "transitions_of m n = Some FinishedState \<longleftrightarrow>
     m n = Some AcknowledgedState
     \<and> (\<forall>k. m k \<noteq> Some DrainingState \<and> m k \<noteq> Some FinishedState)
     \<and> (\<forall>k. m k = Some AcknowledgedState \<longrightarrow> n \<le> k)"
  by (auto simp: transitions_of_def)

lemma transitions_of_Acknowledged:
  "transitions_of m n = Some AcknowledgedState \<longleftrightarrow> m n = Some DrainingState"
  by (auto simp: transitions_of_def)

lemma transitions_of_range: "transitions_of m n \<in> {None, Some AcknowledgedState, Some FinishedState}"
  by (auto simp: transitions_of_def)

lemma transitions_of_one_Finished:
  "transitions_of m n = Some FinishedState \<Longrightarrow> transitions_of m k = Some FinishedState \<Longrightarrow> k = n"
  by (auto simp: transitions_of_Finished intro: antisym)

section \<open>Properties\<close>

text \<open>C29: \<open>StateTransitions\<close> computes exactly the state machine of its documentation, whatever the
  iteration order of the map it is given: every object that is Draining becomes Acknowledged;
  the least Acknowledged name becomes Finished exactly when no object is Draining or Finished;
  no other object changes.\<close>

theorem StateTransitions_spec:
  assumes "gomap_wf ds"
  shows "map_of (StateTransitions ds) n = Some s \<longleftrightarrow>
     (s = AcknowledgedState \<and> map_of ds n = Some DrainingState) \<or>
     (s = FinishedState \<and> map_of ds n = Some AcknowledgedState
       \<and> (\<forall>k. map_of ds k \<noteq> Some DrainingState \<and> map_of ds k \<noteq> Some FinishedState)
       \<and> (\<forall>k. map_of ds k = Some AcknowledgedState \<longrightarrow> n \<le> k))"
  unfolding StateTransitions_map_of [OF assms] by (auto simp: transitions_of_def)

lemma StateTransitions_spec_witness:
  "map_of (StateTransitions [(''b'', AcknowledgedState), (''c'', NotDrainingState), (''a'', AcknowledgedState)]) ''a''
     = Some FinishedState"
  by (subst StateTransitions_spec) (auto split: if_splits)

end
