(* ===== verification/Kube.thy ===== *)
theory Kube
  imports Drain "HOL-Library.Word"
begin

text \<open>
  The Kubernetes API types the operator reads and writes, with the fields its code looks at.
  A field the modelled code only copies (custom affinity, lifecycle hooks, ...) is of type
  \<open>opaque\<close>: some serialization of it, never inspected.  A pointer is an \<open>option\<close>, a nil map is
  \<open>None\<close>.  A \<open>resource.Quantity\<close> is its exact value in units of 10 to the -9.
\<close>

type_synonym opaque = string
type_synonym object_key = "string \<times> string"
type_synonym quantity = int
type_synonym resource_list = "(string \<rightharpoonup> quantity) option"

datatype cond_status = CondTrue | CondFalse | CondUnknown | CondUnset

definition ConditionStatus :: "bool \<Rightarrow> cond_status" where
  "ConditionStatus status = (if status then CondTrue else CondFalse)"

section \<open>Pod specs\<close>

record resource_requirements =
  limits :: resource_list
  requests :: resource_list

record security_context =
  procMount :: "opaque option"
  allowPrivilegeEscalation :: "bool option"
  capabilities :: "opaque option"
  readOnlyRootFilesystem :: "bool option"
  runAsGroup :: "int option"
  runAsUser :: "int option"
  sc_rest :: opaque

record volume_mount =
  vm_name :: string
  vm_mountPath :: string
  vm_readOnly :: bool
  vm_subPath :: string
  vm_rest :: opaque

text \<open>
  The sources the operator builds: an empty directory, a secret with its mode and its items (key and path), a claim, and files
  from fields of the Pod (path and field).
\<close>

datatype volume_source =
    EmptyDir
  | SecretVolume string int "(string \<times> string) list"
  | ClaimVolume string
  | DownwardAPI "(string \<times> string) list"
  | OtherVolume opaque

record volume =
  vol_name :: string
  vol_source :: volume_source

definition vol_secretName :: "volume \<Rightarrow> string option" where
  "vol_secretName v = (case vol_source v of SecretVolume name _ _ \<Rightarrow> Some name | _ \<Rightarrow> None)"

datatype env_source = FieldRef string | OtherEnvSource opaque

record env_var =
  ev_name :: string
  ev_value :: string
  ev_valueFrom :: "env_source option"

record container_port =
  cp_name :: string
  cp_protocol :: string
  cp_port :: int

datatype probe_handler = HTTPGet string string | TCPSocket int | Exec "string list" | OtherHandler opaque

text \<open>The fields of a probe that the operator sets; a zero means the default.\<close>

record probe =
  pr_handler :: probe_handler
  pr_initialDelaySeconds :: int
  pr_periodSeconds :: int
  pr_failureThreshold :: int
  pr_successThreshold :: int
  pr_timeoutSeconds :: int

record container =
  c_name :: string
  c_image :: string
  c_imagePullPolicy :: string
  c_command :: "string list"
  c_args :: "string list"
  c_ports :: "container_port list"
  c_resources :: resource_requirements
  c_securityContext :: "security_context option"
  c_volumeMounts :: "volume_mount list"
  c_env :: "env_var list"
  c_readinessProbe :: "probe option"
  c_livenessProbe :: "probe option"
  c_lifecycle :: "opaque option"
  c_rest :: opaque

text \<open>A Pod is an object with annotations; \<open>pod_Ready\<close> is its Ready condition (\<open>podutils.IsPodReady\<close>).\<close>

record pod = obj_meta +
  pod_name :: string
  pod_labels :: "string \<rightharpoonup> string"
  pod_containers :: "container list"
  pod_Ready :: bool

record toleration =
  tol_key :: string
  tol_operator :: string
  tol_value :: string
  tol_effect :: string
  tol_seconds :: "int option"

record topology_spread_constraint =
  tsc_maxSkew :: int
  tsc_topologyKey :: string
  tsc_whenUnsatisfiable :: string
  tsc_labelSelector :: opaque
  tsc_rest :: opaque

section \<open>What every component spec can override\<close>

record SecretSource =
  sec_Name :: string
  sec_VolumeName :: string
  sec_Key :: string

record VitessImagePullPolicies =
  ip_Vtctld :: string
  ip_Vtadmin :: string
  ip_Vtorc :: string
  ip_Vtgate :: string
  ip_Vttablet :: string
  ip_Vtbackup :: string
  ip_Mysqld :: string
  ip_MysqldExporter :: string

definition no_secret :: SecretSource where
  "no_secret = \<lparr>sec_Name = [], sec_VolumeName = [], sec_Key = []\<rparr>"

definition no_pull_policies :: VitessImagePullPolicies where
  "no_pull_policies = \<lparr>ip_Vtctld = [], ip_Vtadmin = [], ip_Vtorc = [], ip_Vtgate = [], ip_Vttablet = [], ip_Vtbackup = [],
     ip_Mysqld = [], ip_MysqldExporter = []\<rparr>"

text \<open>A resource list whose length the code asks for is the list of its entries.\<close>

record listed_resources =
  lr_requests :: "(string, quantity) gomap"
  lr_limits :: "(string, quantity) gomap"

record service_overrides =
  so_Annotations :: "(string, string) gomap"
  so_ClusterIP :: string

record pod_extras =
  px_ExtraFlags :: "(string, string) gomap"
  px_ExtraEnv :: "env_var list"
  px_ExtraVolumes :: "volume list"
  px_ExtraVolumeMounts :: "volume_mount list"
  px_InitContainers :: "container list"
  px_SidecarContainers :: "container list"
  px_Affinity :: "opaque option"
  px_Annotations :: "(string, string) gomap"
  px_ExtraLabels :: "(string, string) gomap"
  px_Tolerations :: "toleration list"

section \<open>Quantities\<close>

definition NewQuantity :: "int \<Rightarrow> quantity" where
  "NewQuantity v = v * 1000000000"

definition NewMilliQuantity :: "int \<Rightarrow> quantity" where
  "NewMilliQuantity m = m * 1000000"

text \<open>\<open>Quantity.Value\<close> rounds up to an integer.\<close>

definition Quantity_Value :: "quantity \<Rightarrow> int" where
  "Quantity_Value q = - ((- q) div 1000000000)"

lemma Quantity_Value_NewQuantity [simp]: "Quantity_Value (NewQuantity v) = v"
  by (simp add: Quantity_Value_def NewQuantity_def flip: mult_minus_left)

lemma Quantity_Value_bounds: "q \<le> Quantity_Value q * 1000000000 \<and> Quantity_Value q * 1000000000 < q + 1000000000"
  unfolding Quantity_Value_def by auto

end
