(* ===== verification/Results.thy ===== *)
theory Results
  imports Prelude
begin

text \<open>
  \<open>pkg/operator/results/results.go\<close>: the builder every reconcile pass accumulates its
  \<open>reconcile.Result\<close> and first error in.  A \<open>time.Duration\<close> is its number of nanoseconds.
  Each Go method mutates the builder and returns \<open>Result()\<close>; the model returns the new builder
  and \<open>builder_Result\<close> reads it.
\<close>

record reconcile_result =
  Requeue :: bool
  RequeueAfter :: int

record 'e builder =
  result :: reconcile_result
  firstErr :: "'e option"

definition empty_builder :: "'e builder" where
  "empty_builder = \<lparr>result = \<lparr>Requeue = False, RequeueAfter = 0\<rparr>, firstErr = None\<rparr>"

definition builder_Result :: "'e builder \<Rightarrow> reconcile_result \<times> 'e option" where
  "builder_Result a = (result a, firstErr a)"

definition builder_Error :: "'e option \<Rightarrow> 'e builder \<Rightarrow> 'e builder" where
  "builder_Error err a = (if firstErr a = None then a\<lparr>firstErr := err\<rparr> else a)"

definition builder_Requeue :: "'e builder \<Rightarrow> 'e builder" where
  "builder_Requeue a = a\<lparr>result := \<lparr>Requeue = True, RequeueAfter = 0\<rparr>\<rparr>"

definition builder_RequeueAfter :: "int \<Rightarrow> 'e builder \<Rightarrow> 'e builder" where
  "builder_RequeueAfter delay a =
     (if Requeue (result a) then a
      else if RequeueAfter (result a) > 0 \<and> RequeueAfter (result a) < delay then a
      else a\<lparr>result := (result a)\<lparr>RequeueAfter := delay\<rparr>\<rparr>)"

definition builder_Merge :: "reconcile_result \<Rightarrow> 'e option \<Rightarrow> 'e builder \<Rightarrow> 'e builder" where
  "builder_Merge otherResult otherErr a =
     (let a1 = (if otherErr \<noteq> None then builder_Error otherErr a else a);
          a2 = (if Requeue otherResult then builder_Requeue a1 else a1)
      in if RequeueAfter otherResult > 0 then builder_RequeueAfter (RequeueAfter otherResult) a2 else a2)"

lemmas builder_defs =
  builder_Error_def builder_Requeue_def builder_RequeueAfter_def builder_Merge_def
  builder_Result_def empty_builder_def

section \<open>Invariant and merging\<close>

text \<open>A builder that asks for an immediate requeue carries no delay.\<close>

definition builder_ok :: "'e builder \<Rightarrow> bool" where
  "builder_ok a \<longleftrightarrow> (Requeue (result a) \<longrightarrow> RequeueAfter (result a) = 0)"

lemma builder_ok_ops [simp, intro]:
  "builder_ok empty_builder"
  "builder_ok a \<Longrightarrow> builder_ok (builder_Error e a)"
  "builder_ok (builder_Requeue a)"
  "builder_ok a \<Longrightarrow> builder_ok (builder_RequeueAfter d a)"
  "builder_ok a \<Longrightarrow> builder_ok (builder_Merge r e a)"
  by (simp_all add: builder_ok_def builder_defs Let_def)

lemma firstErr_ops [simp]:
  "firstErr empty_builder = None"
  "firstErr (builder_Error e a) = (case firstErr a of None \<Rightarrow> e | Some x \<Rightarrow> Some x)"
  "firstErr (builder_Requeue a) = firstErr a"
  "firstErr (builder_RequeueAfter d a) = firstErr a"
  "firstErr (builder_Merge r e a) = (case firstErr a of None \<Rightarrow> e | Some x \<Rightarrow> Some x)"
  by (auto simp: builder_defs Let_def split: option.split)

lemma Requeue_ops [simp]:
  "\<not> Requeue (result empty_builder)"
  "result (builder_Error e a) = result a"
  "Requeue (result (builder_Requeue a))"
  "Requeue (result (builder_RequeueAfter d a)) = Requeue (result a)"
  "Requeue (result (builder_Merge r e a)) \<longleftrightarrow> Requeue (result a) \<or> Requeue r"
  by (simp_all add: builder_defs Let_def)

text \<open>The sooner of two delays, where a delay that is not positive means that there is none.\<close>

definition sooner :: "int \<Rightarrow> int \<Rightarrow> int" where
  "sooner d e = (if d > 0 \<and> e > 0 then min d e else if d > 0 then d else if e > 0 then e else 0)"

lemma RequeueAfter_Merge:
  assumes "builder_ok a" "RequeueAfter (result a) \<ge> 0"
  shows "RequeueAfter (result (builder_Merge r e a)) =
     (if Requeue (result a) \<or> Requeue r then 0 else sooner (RequeueAfter (result a)) (RequeueAfter r))"
  using assms by (simp add: builder_ok_def builder_defs sooner_def Let_def)

definition merge_all :: "(reconcile_result \<times> 'e option) list \<Rightarrow> 'e builder \<Rightarrow> 'e builder" where
  "merge_all rs a = fold (\<lambda>(r, e). builder_Merge r e) rs a"

text \<open>What a pass that merges the results \<open>rs\<close> in order should report.\<close>

definition delays :: "(reconcile_result \<times> 'e option) list \<Rightarrow> int set" where
  "delays rs = {d. d > 0 \<and> d \<in> RequeueAfter ` fst ` set rs}"

lemma delays_snoc:
  "delays (rs @ [(r, e)]) = (if RequeueAfter r > 0 then insert (RequeueAfter r) (delays rs) else delays rs)"
  by (auto simp: delays_def)

lemma finite_delays [simp]: "finite (delays rs)"
  by (simp add: delays_def)

lemma delays_pos: "d \<in> delays rs \<Longrightarrow> d > 0"
  by (simp add: delays_def)

lemma merge_all_snoc [simp]: "merge_all (rs @ [(r, e)]) a = builder_Merge r e (merge_all rs a)"
  by (simp add: merge_all_def)

lemma merge_all_ok [simp]: "builder_ok (merge_all rs empty_builder)"
  by (induction rs rule: rev_induct) (auto simp: merge_all_def)

lemma merge_all_Requeue:
  "Requeue (result (merge_all rs empty_builder)) \<longleftrightarrow> (\<exists>(r, e) \<in> set rs. Requeue r)"
  by (induction rs rule: rev_induct) (auto simp: merge_all_def)

lemma merge_all_firstErr:
  "firstErr (merge_all rs empty_builder) = (case find (\<lambda>(r, e). e \<noteq> None) rs of None \<Rightarrow> None | Some (r, e) \<Rightarrow> e)"
proof -
  have "firstErr (merge_all rs a) =
      (case firstErr a of Some x \<Rightarrow> Some x
       | None \<Rightarrow> (case find (\<lambda>(r, e). e \<noteq> None) rs of None \<Rightarrow> None | Some (r, e) \<Rightarrow> e))" for a
    by (induction rs arbitrary: a) (auto simp: merge_all_def split: option.splits)
  then show ?thesis by simp
qed

lemma merge_all_RequeueAfter:
  "RequeueAfter (result (merge_all rs empty_builder)) =
     (if (\<exists>(r, e) \<in> set rs. Requeue r) \<or> delays rs = {} then 0 else Min (delays rs))"
proof (induction rs rule: rev_induct)
  case Nil
  show ?case by (simp add: merge_all_def empty_builder_def delays_def)
next
  case (snoc x rs)
  obtain r e where x: "x = (r, e)" by (cases x)
  have nonneg: "RequeueAfter (result (merge_all rs empty_builder)) \<ge> 0"
    using snoc delays_pos [OF Min_in [OF finite_delays]] by (auto simp: less_imp_le dest: delays_pos)
  show ?case
    using snoc delays_pos [OF Min_in [OF finite_delays [of rs]]]
    by (auto simp: x RequeueAfter_Merge [OF merge_all_ok nonneg] merge_all_Requeue delays_snoc
          sooner_def Min_insert min.commute)
qed

text \<open>However many sub-results a pass merges, the answer asks for an immediate requeue exactly
  when one of them does, otherwise for the soonest positive delay any of them asks for (none if no
  one asks), and its error is the first one that occurred.\<close>

theorem merge_all_result:
  "builder_Result (merge_all rs empty_builder) =
     (\<lparr>Requeue = (\<exists>(r, e) \<in> set rs. Requeue r),
       RequeueAfter = (if (\<exists>(r, e) \<in> set rs. Requeue r) \<or> delays rs = {} then 0 else Min (delays rs))\<rparr>,
      case find (\<lambda>(r, e). e \<noteq> None) rs of None \<Rightarrow> None | Some (r, e) \<Rightarrow> e)"
  using merge_all_Requeue [of rs] merge_all_RequeueAfter [of rs] merge_all_firstErr [of rs]
  by (simp add: builder_Result_def)

end
