(* ===== verification/Mysql.thy ===== *)
theory Mysql
  imports Prelude
begin

text \<open>
  \<open>pkg/operator/mysql/mysql.go\<close>: whether a change of the mysqld image needs a safe upgrade
  (a slow shutdown first), is harmless, or is refused as a downgrade.  The regular expression
  \<open>^(\d+)\.(\d+)\.(\d+)\<close> is a hand-written matcher; \<open>strconv.Atoi\<close> saturates at the largest
  64-bit integer, and the code drops its error.
\<close>

text \<open>\<open>strings.SplitN(s, ":", 2)\<close> has two parts exactly when there is a colon.\<close>

abbreviation split_image :: "string \<Rightarrow> (string \<times> string) option" where
  "split_image s \<equiv> cut_at CHR '':'' s"

definition is_digit :: "char \<Rightarrow> bool" where
  "is_digit c \<longleftrightarrow> c \<in> set ''0123456789''"

text \<open>The submatches of the version expression, which is anchored at the start only.\<close>

definition version_submatch :: "string \<Rightarrow> (string \<times> string \<times> string) option" where
  "version_submatch s =
     (let a = takeWhile is_digit s; s1 = dropWhile is_digit s in
      if a = [] \<or> s1 = [] \<or> hd s1 \<noteq> CHR ''.'' then None
      else let b = takeWhile is_digit (tl s1); s2 = dropWhile is_digit (tl s1) in
        if b = [] \<or> s2 = [] \<or> hd s2 \<noteq> CHR ''.'' then None
        else let c = takeWhile is_digit (tl s2) in
          if c = [] then None else Some (a, b, c))"

definition digit_value :: "char \<Rightarrow> int" where
  "digit_value c = of_char c - 48"

fun decimal_value :: "int \<Rightarrow> string \<Rightarrow> int" where
  "decimal_value acc [] = acc"
| "decimal_value acc (c # cs) = decimal_value (10 * acc + digit_value c) cs"

definition Atoi_digits :: "string \<Rightarrow> int" where
  "Atoi_digits s = min (decimal_value 0 s) 9223372036854775807"

definition image_version :: "string \<times> string \<times> string \<Rightarrow> int \<times> int \<times> int" where
  "image_version p = (case p of (a, b, c) \<Rightarrow> (Atoi_digits a, Atoi_digits b, Atoi_digits c))"

datatype mysql_error =
    MajorDowngrade string string
  | MinorDowngrade string string
  | PatchDowngrade string string

text \<open>The comparison of two parsed versions, current first; line by line as the code has it.\<close>

definition version_change ::
    "string \<Rightarrow> string \<Rightarrow> int \<times> int \<times> int \<Rightarrow> int \<times> int \<times> int \<Rightarrow> mysql_error + bool" where
  "version_change current desired cur dst =
     (case (cur, dst) of ((cur0, cur1, cur2), (dst0, dst1, dst2)) \<Rightarrow>
        if dst0 < cur0 then Inl (MajorDowngrade current desired)
        else if dst0 = cur1 \<and> dst1 < cur1 then Inl (MinorDowngrade current desired)
        else if dst0 = 8 \<and> dst1 = 0 \<and> cur0 = 8 \<and> cur1 = 0 then
          (if dst2 \<ge> 34 \<and> cur2 \<ge> 34 then Inr False
           else if dst2 < cur2 then Inl (PatchDowngrade current desired)
           else Inr (dst2 \<noteq> cur2))
        else Inr (dst0 \<noteq> cur0 \<or> dst1 \<noteq> cur1))"

definition DockerImageSafeUpgrade :: "string \<Rightarrow> string \<Rightarrow> mysql_error + bool" where
  "DockerImageSafeUpgrade currentVersionImage desiredVersionImage =
     (if currentVersionImage = [] \<or> desiredVersionImage = [] then Inr False
      else if desiredVersionImage = currentVersionImage then Inr False
      else (case (split_image currentVersionImage, split_image desiredVersionImage) of
          (Some (_, current), Some (_, desired)) \<Rightarrow>
            (case (version_submatch current, version_submatch desired) of
               (Some curStrParts, Some dstStrParts) \<Rightarrow>
                 if curStrParts = dstStrParts then Inr False
                 else version_change current desired (image_version curStrParts) (image_version dstStrParts)
             | _ \<Rightarrow> Inr True)
        | _ \<Rightarrow> Inr False))"

text \<open>
  \<open>dockerImageGetVersionToString\<close> relies on \<open>sqlparser.ConvertMySQLVersionToCommentVersion\<close>
  (a library function): \<open>conv_ok label\<close> says that it accepts the label.
\<close>

definition dockerImageGetVersionToString :: "(string \<Rightarrow> bool) \<Rightarrow> string \<Rightarrow> string option" where
  "dockerImageGetVersionToString conv_ok currentVersionImage =
     (case split_image currentVersionImage of
        None \<Rightarrow> None
      | Some (_, label) \<Rightarrow> if conv_ok label then Some (label @ ''-Vitess'') else None)"

section \<open>Properties\<close>

text \<open>The version of an image, when its tag begins with one.\<close>

definition tag_version :: "string \<Rightarrow> (int \<times> int \<times> int) option" where
  "tag_version img = (case split_image img of None \<Rightarrow> None
     | Some (_, tag) \<Rightarrow> map_option image_version (version_submatch tag))"

lemma tag_version_Some:
  assumes "tag_version img = Some v"
  obtains repo tag p where "split_image img = Some (repo, tag)" "version_submatch tag = Some p"
    "image_version p = v" "img \<noteq> []"
  using assms by (auto simp: tag_version_def split: option.splits) (metis cut_at.simps(1) option.distinct(1))

text \<open>With both versions known and different, the decision is that of \<open>version_change\<close>.\<close>

lemma DockerImageSafeUpgrade_versions:
  assumes "tag_version cur = Some u" "tag_version dst = Some v" "u \<noteq> v"
  shows "\<exists>c d. DockerImageSafeUpgrade cur dst = version_change c d u v"
  using assms by (auto elim!: tag_version_Some simp: DockerImageSafeUpgrade_def) blast+

text \<open>C32: A risky change of the MySQL version never goes through with a fast shutdown.  For two
  images with known, different versions: a lower major version is refused; an answer "no safe upgrade
  needed" means that the change stays within one major.minor series, and within 8.0 that both
  patch releases are at least 34; a patch downgrade inside 8.0 that starts or ends below 34 is refused.\<close>

theorem DockerImageSafeUpgrade_safe:
  assumes "tag_version cur = Some (c0, c1, c2)" "tag_version dst = Some (d0, d1, d2)"
    "(c0, c1, c2) \<noteq> (d0, d1, d2)"
  shows "(d0 < c0 \<longrightarrow> isl (DockerImageSafeUpgrade cur dst))
    \<and> (DockerImageSafeUpgrade cur dst = Inr False \<longrightarrow>
         d0 = c0 \<and> d1 = c1 \<and> (c0 = 8 \<and> c1 = 0 \<longrightarrow> c2 \<ge> 34 \<and> d2 \<ge> 34))
    \<and> ((c0, c1) = (8, 0) \<and> (d0, d1) = (8, 0) \<and> d2 < c2 \<and> d2 < 34 \<longrightarrow> isl (DockerImageSafeUpgrade cur dst))"
  using DockerImageSafeUpgrade_versions [OF assms] assms(3)
  by (auto simp: version_change_def split: if_splits)

theorem DockerImageSafeUpgrade_safe_witness:
  "isl (DockerImageSafeUpgrade ''mysql:8.0.30'' ''mysql:8.0.23'')"
proof -
  have "tag_version ''mysql:8.0.30'' = Some (8, 0, 30)" "tag_version ''mysql:8.0.23'' = Some (8, 0, 23)"
    by code_simp+
  then show ?thesis
    using DockerImageSafeUpgrade_safe [of "''mysql:8.0.30''" 8 0 30 "''mysql:8.0.23''" 8 0 23] by simp
qed

text \<open>The guard on minor downgrades compares the desired major version with the current minor one.
  So it lets a downgrade from the 8.4 to the 8.0 series through as an upgrade that merely wants
  a slow shutdown, while it refuses 5.8.0 to 8.0.1, which is an upgrade.\<close>

theorem minor_downgrade_accepted:
  "DockerImageSafeUpgrade ''mysql:8.4.0'' ''mysql:8.0.40'' = Inr True
   \<and> DockerImageSafeUpgrade ''mysql:5.8.0'' ''mysql:8.0.1'' = Inl (MinorDowngrade ''5.8.0'' ''8.0.1'')"
  by code_simp

end
