(* ===== verification/Drain_Reconcile.thy ===== *)
theory Drain_Reconcile
  imports Kube Results Mysql
begin

text \<open>
  The drain pass of the VitessShardReplication controller,
  \<open>pkg/controller/vitessshardreplication/reconcile_drain.go\<close>, as a function from the answers of the
  cluster (\<open>drain_env\<close>) to the effects it has, in order, and its result.

  What the pass reads (the Pod list, the shard and tablet records) and the outcome of every call
  it makes are fields of \<open>drain_env\<close>; \<open>visit\<close> is the order of each \<open>range\<close> over a map.  The
  replies of the candidates come in whatever order the channel delivers them.
\<close>

section \<open>Tablet aliases\<close>

type_synonym tablet_alias = "string \<times> 32 word"

text \<open>\<open>strconv.ParseUint(s, 10, 32)\<close>: 0 for a syntax error, the largest value when out of range.\<close>

fun ParseUint_loop :: "int \<Rightarrow> string \<Rightarrow> int" where
  "ParseUint_loop n [] = n"
| "ParseUint_loop n (c # cs) =
     (if \<not> is_digit c then 0
      else let n' = 10 * n + digit_value c in if n' > 4294967295 then 4294967295 else ParseUint_loop n' cs)"

definition TabletUidLabel :: string where "TabletUidLabel = ''planetscale.com/tablet-uid''"
definition CellLabel :: string where "CellLabel = ''planetscale.com/cell''"
definition TabletTypeLabel :: string where "TabletTypeLabel = ''planetscale.com/tablet-type''"
definition ExternalMasterTabletPoolName :: string where "ExternalMasterTabletPoolName = ''externalmaster''"
definition MysqldContainerName :: string where "MysqldContainerName = ''mysqld''"

text \<open>A Go map lookup returns the zero value for a missing key.\<close>

definition label_of :: "string \<Rightarrow> pod \<Rightarrow> string" where
  "label_of k pod = (case pod_labels pod k of None \<Rightarrow> [] | Some v \<Rightarrow> v)"

definition AliasFromPod :: "pod \<Rightarrow> tablet_alias" where
  "AliasFromPod pod = (label_of CellLabel pod, word_of_int (ParseUint_loop 0 (label_of TabletUidLabel pod)))"

section \<open>The environment of a pass\<close>

datatype tablet_type = PRIMARY | REPLICA | RDONLY | SPARE | OtherTabletType string

record tablet_info =
  ti_Alias :: tablet_alias
  ti_Type :: tablet_type

record shard_info =
  si_HasPrimary :: bool
  si_PrimaryAlias :: tablet_alias

datatype drain_error = ApiError string | UpdateError string | UpgradeError mysql_error | FetchError string

record 'p drain_env =
  env_visit :: visit_order
  alias_String :: "tablet_alias \<Rightarrow> string"
  env_now :: string
  list_pods :: "string + pod list"
  get_shard :: "string + shard_info"
  get_tablets :: "string + (string, tablet_info) gomap"
  status_tablets :: "(string, cond_status) gomap"
  using_external :: bool
  mysqld_image :: string
  update_pod :: "string \<Rightarrow> string option"
  execute_fetch :: "string \<Rightarrow> string option"
  arrival :: "tablet_info list \<Rightarrow> tablet_info list"
  replication_position :: "tablet_info \<Rightarrow> 'p option"
  position_IsZero :: "'p \<Rightarrow> bool"
  position_AtLeast :: "'p \<Rightarrow> 'p \<Rightarrow> bool"
  zero_position :: 'p
  reparent_ok :: "tablet_alias \<Rightarrow> bool"
  external_reparent_ok :: "tablet_alias \<Rightarrow> bool"
  change_type_ok :: "tablet_alias \<Rightarrow> bool"

text \<open>What a pass does to the outside, in order.\<close>

datatype drain_effect =
    UpdatePod string pod
  | ExecuteFetchAsDba string
  | PlannedReparentShard tablet_alias
  | TabletExternallyReparented tablet_alias
  | ChangeTabletTypeSpare tablet_alias
  | Event string

definition replicationRequeueDelay :: int where "replicationRequeueDelay = 5000000000"

section \<open>Helpers of the pass\<close>

definition isShardHealthy :: "(string, cond_status) gomap \<Rightarrow> bool" where
  "isShardHealthy tablets = list_all (\<lambda>(name, available). available = CondTrue) tablets"

text \<open>The Pod after the change and whether it changed; \<open>None\<close> is the panic for Draining.\<close>

definition updateDrainStatus :: "string \<Rightarrow> pod \<Rightarrow> drain_state \<Rightarrow> (pod \<times> bool) option" where
  "updateDrainStatus now pod drainStatus =
     (case drainStatus of
        FinishedState \<Rightarrow> Some (if drain_Finished pod then (pod, False) else (drain_Finish now pod, True))
      | AcknowledgedState \<Rightarrow>
          Some (if drain_Acknowledged pod then (pod, False) else (drain_Acknowledge now pod, True))
      | NotDrainingState \<Rightarrow>
          (let (pod1, u1) = (if drain_Finished pod then (drain_Unfinish pod, True) else (pod, False));
               (pod2, u2) = (if drain_Acknowledged pod1 then (drain_Unacknowledge pod1, True) else (pod1, u1))
           in Some (pod2, u2))
      | DrainingState \<Rightarrow> None)"

definition pods_by_alias :: "'p drain_env \<Rightarrow> pod list \<Rightarrow> (string, pod) gomap" where
  "pods_by_alias env podList =
     fold (\<lambda>pod m. AList.update (alias_String env (AliasFromPod pod)) pod m) podList []"

definition eligible_candidate :: "'p drain_env \<Rightarrow> shard_info \<Rightarrow> (string, pod) gomap \<Rightarrow> string \<times> tablet_info \<Rightarrow> bool" where
  "eligible_candidate env shard pods entry =
     (case entry of (tabletAliasStr, tablet) \<Rightarrow>
        if ti_Alias tablet = si_PrimaryAlias shard then False
        else (case map_of pods tabletAliasStr of
            None \<Rightarrow> False
          | Some pod \<Rightarrow>
              if using_external env \<and>
                 (label_of TabletTypeLabel pod \<noteq> ExternalMasterTabletPoolName
                  \<or> ti_Type tablet \<noteq> SPARE \<and> ti_Type tablet \<noteq> PRIMARY) then False
              else if \<not> using_external env \<and> ti_Type tablet \<noteq> REPLICA then False
              else if \<not> pod_Ready pod then False
              else if drain_Started pod \<or> drain_Acknowledged pod \<or> drain_Finished pod then False
              else True))"

text \<open>The replies are folded in arrival order, remembering the position that is farthest ahead.\<close>

fun best_reply ::
    "'p drain_env \<Rightarrow> tablet_info list \<Rightarrow> tablet_info option \<times> 'p \<Rightarrow> tablet_info option \<times> 'p"
where
  "best_reply env [] acc = acc"
| "best_reply env (tablet # rest) (best, highest) =
     best_reply env rest
       (case replication_position env tablet of
          None \<Rightarrow> (best, highest)
        | Some position \<Rightarrow>
            if position_IsZero env highest \<or> \<not> position_AtLeast env highest position
            then (Some tablet, position) else (best, highest))"

definition candidatePrimary ::
    "'p drain_env \<Rightarrow> shard_info \<Rightarrow> (string, tablet_info) gomap \<Rightarrow> (string, pod) gomap \<Rightarrow> tablet_info option" where
  "candidatePrimary env shard tablets pods =
     (let candidates = map snd (filter (eligible_candidate env shard pods) (range_of (env_visit env) 5 tablets))
      in if candidates = [] then None
         else (case fst (best_reply env (arrival env candidates) (None, zero_position env)) of
                 None \<Rightarrow> Some (hd candidates)
               | Some best \<Rightarrow> Some best))"

definition mysqld_of :: "pod \<Rightarrow> string" where
  "mysqld_of pod = (case find (\<lambda>c. c_name c = MysqldContainerName) (pod_containers pod) of
     None \<Rightarrow> [] | Some c \<Rightarrow> c_image c)"

fun disableFastShutdown ::
    "'p drain_env \<Rightarrow> (string, tablet_info) gomap \<Rightarrow> (string, pod) gomap \<Rightarrow> drain_effect list \<times> drain_error option"
where
  "disableFastShutdown env tablets [] = ([], None)"
| "disableFastShutdown env tablets ((tabletAlias, pod) # rest) =
     (case map_of tablets tabletAlias of
        None \<Rightarrow> disableFastShutdown env tablets rest
      | Some tablet \<Rightarrow>
          (case DockerImageSafeUpgrade (mysqld_of pod) (mysqld_image env) of
             Inl e \<Rightarrow> ([], Some (UpgradeError e))
           | Inr needsSafe \<Rightarrow>
               if \<not> needsSafe then disableFastShutdown env tablets rest
               else (case execute_fetch env tabletAlias of
                       Some e \<Rightarrow> ([ExecuteFetchAsDba tabletAlias], Some (FetchError tabletAlias))
                     | None \<Rightarrow>
                         (let (es, err) = disableFastShutdown env tablets rest
                          in (ExecuteFetchAsDba tabletAlias # Event ''MySQL_Upgrade'' # es, err)))))"

definition handleExternalReparent ::
    "'p drain_env \<Rightarrow> tablet_alias \<Rightarrow> tablet_alias \<Rightarrow> drain_effect list \<times> bool" where
  "handleExternalReparent env newPrimary oldPrimary =
     (if external_reparent_ok env newPrimary
      then ([TabletExternallyReparented newPrimary, ChangeTabletTypeSpare oldPrimary], change_type_ok env oldPrimary)
      else ([TabletExternallyReparented newPrimary], False))"

section \<open>The pass\<close>

record drain_pass =
  dp_pods :: "(string, pod) gomap"
  dp_drains :: "(string, drain_state) gomap"
  dp_aborting :: bool
  dp_acknowledged :: bool
  dp_builder :: "drain_error builder"
  dp_trace :: "drain_effect list"

abbreviation emit :: "drain_effect list \<Rightarrow> drain_pass \<Rightarrow> drain_pass" where
  "emit es st \<equiv> st\<lparr>dp_trace := dp_trace st @ es\<rparr>"

text \<open>
  One call of \<open>updateDrainStatus\<close> in a loop: the Pod is changed in the map (the map holds
  pointers), the API call is made when something changed, and its error is kept.  A missing Pod is
  a nil pointer, which panics.
\<close>

definition apply_update :: "'p drain_env \<Rightarrow> string \<Rightarrow> drain_state \<Rightarrow> drain_pass \<Rightarrow> drain_pass option" where
  "apply_update env alias state st =
     (case map_of (dp_pods st) alias of
        None \<Rightarrow> None
      | Some pod \<Rightarrow>
          (case updateDrainStatus (env_now env) pod state of
             None \<Rightarrow> None
           | Some (pod', hasUpdated) \<Rightarrow>
               (let st1 = st\<lparr>dp_pods := AList.update alias pod' (dp_pods st)\<rparr>
                in if \<not> hasUpdated then Some st1
                   else (case update_pod env alias of
                           None \<Rightarrow> Some (emit [UpdatePod alias pod'] st1)
                         | Some e \<Rightarrow>
                             Some (emit [UpdatePod alias pod', Event ''UpdateFailed'']
                               (st1\<lparr>dp_builder := builder_Error (Some (UpdateError e)) (dp_builder st1)\<rparr>))))))"

text \<open>Phase 2, for one Pod of the map.\<close>

definition collect_pod :: "'p drain_env \<Rightarrow> string \<times> pod \<Rightarrow> drain_pass \<Rightarrow> drain_pass option" where
  "collect_pod env entry st =
     (case entry of (alias, pod) \<Rightarrow>
        if drain_Started pod then
          (case GetState pod of (state, err) \<Rightarrow>
             Some (emit (if err then [Event ''InvalidDrainState''] else [])
               (st\<lparr>dp_drains := AList.update alias state (dp_drains st)\<rparr>)))
        else
          apply_update env alias NotDrainingState
            (if drain_Acknowledged pod \<or> drain_Finished pod
             then emit [Event ''AbortingDrain''] (st\<lparr>dp_aborting := True\<rparr>) else st))"

text \<open>Phase 3, for one transition.\<close>

definition apply_transition :: "'p drain_env \<Rightarrow> string \<Rightarrow> string \<times> drain_state \<Rightarrow> drain_pass \<Rightarrow> drain_pass option" where
  "apply_transition env primaryAliasStr entry st =
     (case entry of (alias, state) \<Rightarrow>
        if state = FinishedState \<and> alias = primaryAliasStr then Some st
        else apply_update env alias state
               (if state = AcknowledgedState then st\<lparr>dp_acknowledged := True\<rparr> else st))"

text \<open>Phase 5: whether and to which tablet to reparent.\<close>

definition reparent_phase ::
    "'p drain_env \<Rightarrow> shard_info \<Rightarrow> (string, tablet_info) gomap \<Rightarrow> string \<Rightarrow> (string, drain_state) gomap
     \<Rightarrow> drain_pass \<Rightarrow> drain_pass"
where
  "reparent_phase env shard tablets primaryAliasStr transitions st =
     (if dp_acknowledged st \<and> map_of (dp_drains st) primaryAliasStr \<noteq> Some FinishedState
      then emit [Event ''NotReparentingPrimary''] st
      else if map_of (dp_drains st) primaryAliasStr \<noteq> Some FinishedState
              \<and> map_of transitions primaryAliasStr \<noteq> Some FinishedState
      then emit [Event ''NotReparentingPrimary''] st
      else (case candidatePrimary env shard tablets (dp_pods st) of
          None \<Rightarrow> emit [Event ''DrainBlocked'']
                    (st\<lparr>dp_builder := builder_RequeueAfter replicationRequeueDelay (dp_builder st)\<rparr>)
        | Some newPrimary \<Rightarrow>
            (let (es, ok) =
               (if using_external env
                then handleExternalReparent env (ti_Alias newPrimary) (si_PrimaryAlias shard)
                else ([PlannedReparentShard (ti_Alias newPrimary)], reparent_ok env (ti_Alias newPrimary)))
             in emit (es @ [Event (if ok then ''PlannedReparent'' else ''PlannedReparentFailed'')]) st)))"

text \<open>Phases 3 to 5, once the drain states are known.\<close>

definition advance_phase ::
    "'p drain_env \<Rightarrow> shard_info \<Rightarrow> (string, tablet_info) gomap \<Rightarrow> drain_pass \<Rightarrow> drain_pass option"
where
  "advance_phase env shard tablets st =
     (let primaryAliasStr = alias_String env (si_PrimaryAlias shard);
          transitions = StateTransitions (range_of (env_visit env) 2 (dp_drains st))
      in case fold_opt (apply_transition env primaryAliasStr) (range_of (env_visit env) 3 transitions) st of
           None \<Rightarrow> None
         | Some st1 \<Rightarrow>
             (case disableFastShutdown env tablets (range_of (env_visit env) 4 (dp_pods st1)) of
                (es, Some err) \<Rightarrow>
                  Some (emit (es @ [Event ''MysqldSafeUpgradeFailed''])
                    (st1\<lparr>dp_builder := builder_Error (Some err) (dp_builder st1)\<rparr>))
              | (es, None) \<Rightarrow> Some (reparent_phase env shard tablets primaryAliasStr transitions (emit es st1))))"

definition start_pass :: "(string, pod) gomap \<Rightarrow> drain_pass" where
  "start_pass pods = \<lparr>dp_pods = pods, dp_drains = [], dp_aborting = False, dp_acknowledged = False,
     dp_builder = empty_builder, dp_trace = []\<rparr>"

abbreviation finish_pass :: "drain_pass \<Rightarrow> drain_effect list \<times> reconcile_result \<times> drain_error option" where
  "finish_pass st \<equiv> (dp_trace st, builder_Result (dp_builder st))"

definition reconcileDrain :: "'p drain_env \<Rightarrow> (drain_effect list \<times> reconcile_result \<times> drain_error option) option" where
  "reconcileDrain env =
     (case list_pods env of
        Inl e \<Rightarrow> Some ([Event ''ListFailed''], builder_Result (builder_Error (Some (ApiError e)) empty_builder))
      | Inr podList \<Rightarrow>
     (case get_shard env of
        Inl e \<Rightarrow> Some ([Event ''TopoGetFailed''], builder_Result (builder_RequeueAfter replicationRequeueDelay empty_builder))
      | Inr shard \<Rightarrow>
     (case get_tablets env of
        Inl e \<Rightarrow> Some ([Event ''TopoGetFailed''], builder_Result (builder_RequeueAfter replicationRequeueDelay empty_builder))
      | Inr tablets \<Rightarrow>
          (let pods = pods_by_alias env podList in
           if \<not> isShardHealthy (status_tablets env)
           then Some ([Event ''NotReconcilingDrain''], builder_Result empty_builder)
           else if \<not> si_HasPrimary shard
           then Some ([Event ''NotReconcilingDrain''], builder_Result empty_builder)
           else (case fold_opt (collect_pod env) (range_of (env_visit env) 1 pods) (start_pass pods) of
                   None \<Rightarrow> None
                 | Some st \<Rightarrow>
                     if dp_drains st = [] then Some (finish_pass st)
                     else if dp_aborting st then Some (finish_pass (emit [Event ''AbortingDrain''] st))
                     else map_option finish_pass (advance_phase env shard tablets st))))))"

section \<open>What the phases do\<close>

declare map_of_eq_Some_iff [simp del] Some_eq_map_of_iff [simp del]

text \<open>The drain states the pass sees: those of the Pods with a drain request.\<close>

definition drain_view :: "(string \<rightharpoonup> pod) \<Rightarrow> string \<rightharpoonup> drain_state" where
  "drain_view pods k =
     (case pods k of None \<Rightarrow> None | Some p \<Rightarrow> if drain_Started p then Some (fst (GetState p)) else None)"

text \<open>A Pod that keeps annotations of a drain that nobody requests any more.\<close>

definition aborted :: "pod \<Rightarrow> bool" where
  "aborted p \<longleftrightarrow> \<not> drain_Started p \<and> (drain_Acknowledged p \<or> drain_Finished p)"

definition cleared :: "pod \<Rightarrow> pod" where
  "cleared p = (if drain_Started p then p else drain_Unacknowledge (drain_Unfinish p))"

fun reparents :: "drain_effect \<Rightarrow> tablet_alias option" where
  "reparents (PlannedReparentShard a) = Some a"
| "reparents (TabletExternallyReparented a) = Some a"
| "reparents _ = None"

definition update_effects :: "drain_effect list \<Rightarrow> (string \<times> pod) set" where
  "update_effects es = {(k, p). UpdatePod k p \<in> set es}"

lemma update_effects_simps [simp]:
  "update_effects [] = {}"
  "update_effects (UpdatePod k p # es) = insert (k, p) (update_effects es)"
  "update_effects (Event r # es) = update_effects es"
  "update_effects (ExecuteFetchAsDba a # es) = update_effects es"
  "update_effects (PlannedReparentShard b # es) = update_effects es"
  "update_effects (TabletExternallyReparented b # es) = update_effects es"
  "update_effects (ChangeTabletTypeSpare b # es) = update_effects es"
  "update_effects (es @ es') = update_effects es \<union> update_effects es'"
  by (auto simp: update_effects_def)

lemma unfinish_noop: "\<not> drain_Finished p \<Longrightarrow> drain_Unfinish p = p"
  by (simp add: drain_Unfinish_def drain_Finished_def ann_del_noop)

lemma unacknowledge_noop: "\<not> drain_Acknowledged p \<Longrightarrow> drain_Unacknowledge p = p"
  by (simp add: drain_Unacknowledge_def drain_Acknowledged_def ann_del_noop)

lemma updateDrainStatus_clear:
  "updateDrainStatus now p NotDrainingState =
     Some (drain_Unacknowledge (drain_Unfinish p), drain_Finished p \<or> drain_Acknowledged p)"
  by (auto simp: updateDrainStatus_def ann_del_noop drain_defs)

lemma apply_update_Some:
  assumes "map_of (dp_pods st) alias = Some pod" "updateDrainStatus (env_now env) pod state = Some (pod', changed)"
  shows "\<exists>es b. apply_update env alias state st =
      Some (st\<lparr>dp_pods := AList.update alias pod' (dp_pods st), dp_builder := b, dp_trace := dp_trace st @ es\<rparr>)
    \<and> update_effects es = (if changed then {(alias, pod')} else {}) \<and> (\<forall>e \<in> set es. reparents e = None)"
proof (cases "changed")
  case False
  then show ?thesis
    using assms by (intro exI [of _ "[]"] exI [of _ "dp_builder st"]) (simp add: apply_update_def)
next
  case True
  then show ?thesis
  proof (cases "update_pod env alias")
    case None
    then show ?thesis
      using assms True by (intro exI [of _ "[UpdatePod alias pod']"] exI [of _ "dp_builder st"]) (simp add: apply_update_def)
  next
    case (Some e)
    then show ?thesis
      using assms True
      by (intro exI [of _ "[UpdatePod alias pod', Event ''UpdateFailed'']"]
            exI [of _ "builder_Error (Some (UpdateError e)) (dp_builder st)"]) (simp add: apply_update_def)
  qed
qed

text \<open>The state of the collecting loop after the keys \<open>K\<close>.\<close>

definition collect_inv :: "(string \<rightharpoonup> pod) \<Rightarrow> string set \<Rightarrow> drain_pass \<Rightarrow> bool" where
  "collect_inv pods K st \<longleftrightarrow>
     gomap_wf (dp_pods st) \<and> gomap_wf (dp_drains st)
     \<and> map_of (dp_pods st) = (\<lambda>k. if k \<in> K then map_option cleared (pods k) else pods k)
     \<and> map_of (dp_drains st) = drain_view pods |` K
     \<and> (dp_aborting st \<longleftrightarrow> (\<exists>k \<in> K. \<exists>p. pods k = Some p \<and> aborted p))
     \<and> \<not> dp_acknowledged st
     \<and> update_effects (dp_trace st) = {(k, p'). k \<in> K \<and> (\<exists>p. pods k = Some p \<and> aborted p \<and> p' = cleared p)}
     \<and> (\<forall>e \<in> set (dp_trace st). reparents e = None)"

lemma collect_invD:
  assumes "collect_inv pods K st"
  shows "dp_aborting st \<longleftrightarrow> (\<exists>k \<in> K. \<exists>p. pods k = Some p \<and> aborted p)"
    "update_effects (dp_trace st) = {(k, p'). k \<in> K \<and> (\<exists>p. pods k = Some p \<and> aborted p \<and> p' = cleared p)}"
    "\<forall>e \<in> set (dp_trace st). reparents e = None"
  using assms unfolding collect_inv_def by blast+

lemma collect_pod_step:
  assumes inv: "collect_inv pods K st" and k: "k \<notin> K" "pods k = Some p"
  shows "\<exists>st'. collect_pod env (k, p) st = Some st' \<and> collect_inv pods (insert k K) st'"
proof (cases "drain_Started p")
  case True
  then show ?thesis
    using inv k
    by (auto simp: collect_pod_def collect_inv_def drain_view_def aborted_def cleared_def update_conv
        restrict_map_def fun_eq_iff distinct_update split: prod.split)
next
  case False
  let ?st = "if drain_Acknowledged p \<or> drain_Finished p
             then emit [Event ''AbortingDrain''] (st\<lparr>dp_aborting := True\<rparr>) else st"
  have look: "map_of (dp_pods ?st) k = Some p"
    using inv k by (simp add: collect_inv_def)
  from apply_update_Some [OF look updateDrainStatus_clear, of env] obtain es b where
    step: "apply_update env k NotDrainingState ?st =
        Some (?st\<lparr>dp_pods := AList.update k (cleared p) (dp_pods ?st), dp_builder := b, dp_trace := dp_trace ?st @ es\<rparr>)"
    and es: "update_effects es = (if drain_Finished p \<or> drain_Acknowledged p then {(k, cleared p)} else {})"
      "\<forall>e \<in> set es. reparents e = None"
    using False by (auto simp: cleared_def)
  show ?thesis
    unfolding collect_pod_def using False step es inv k
    by (auto simp: collect_inv_def drain_view_def aborted_def update_conv restrict_map_def fun_eq_iff
        distinct_update)
qed

lemma collect_loop:
  assumes "collect_inv pods K st" "gomap_wf xs" "fst ` set xs \<inter> K = {}"
    "\<And>k p. (k, p) \<in> set xs \<Longrightarrow> pods k = Some p"
  shows "\<exists>st'. fold_opt (collect_pod env) xs st = Some st' \<and> collect_inv pods (K \<union> fst ` set xs) st'"
  using assms
proof (induction xs arbitrary: K st)
  case Nil
  then show ?case by simp
next
  case (Cons x xs)
  obtain k p where x: "x = (k, p)" by (cases x)
  obtain st1 where st1: "collect_pod env (k, p) st = Some st1" "collect_inv pods (insert k K) st1"
    using collect_pod_step [OF Cons.prems(1), of k p env] Cons.prems by (auto simp: x)
  have "fst ` set xs \<inter> insert k K = {}"
    using Cons.prems(2,3) by (auto simp: x)
  then show ?case
    using Cons.IH [OF st1(2)] Cons.prems(2,4) st1(1) by (simp add: x)
qed

lemma pods_by_alias_wf [simp]: "gomap_wf (pods_by_alias env podList)"
proof -
  have "gomap_wf m \<Longrightarrow> gomap_wf (fold (\<lambda>pod m. AList.update (alias_String env (AliasFromPod pod)) pod m) podList m)" for m
    by (induction podList arbitrary: m) (simp_all add: distinct_update)
  then show ?thesis by (simp add: pods_by_alias_def)
qed

lemma collect_phase:
  assumes "visits (env_visit env)" "gomap_wf pods"
  shows "\<exists>st. fold_opt (collect_pod env) (range_of (env_visit env) 1 pods) (start_pass pods) = Some st
    \<and> collect_inv (map_of pods) (fst ` set pods) st"
proof -
  have "collect_inv (map_of pods) {} (start_pass pods)"
    using assms by (auto simp: collect_inv_def start_pass_def update_effects_def)
  from collect_loop [OF this range_of_wf [OF assms], of 1 env] show ?thesis
    using assms by (simp only: set_range_of map_of_eq_Some_iff) simp
qed

text \<open>The state of the transition loop after the keys \<open>K\<close>, from the state \<open>st0\<close> the loop starts in.\<close>

definition transition_write :: "'p drain_env \<Rightarrow> string \<Rightarrow> pod \<Rightarrow> drain_state \<Rightarrow> (string \<times> pod) \<Rightarrow> bool" where
  "transition_write env primary p s w \<longleftrightarrow>
     (s = AcknowledgedState \<and> snd w = drain_Acknowledge (env_now env) p \<and> \<not> drain_Acknowledged p
      \<or> s = FinishedState \<and> fst w \<noteq> primary \<and> snd w = drain_Finish (env_now env) p \<and> \<not> drain_Finished p)"

definition transition_inv ::
    "'p drain_env \<Rightarrow> string \<Rightarrow> (string \<rightharpoonup> drain_state) \<Rightarrow> drain_pass \<Rightarrow> string set \<Rightarrow> drain_pass \<Rightarrow> bool"
where
  "transition_inv env primary ts st0 K st \<longleftrightarrow>
     gomap_wf (dp_pods st) \<and> dp_drains st = dp_drains st0
     \<and> dom (map_of (dp_pods st)) = dom (map_of (dp_pods st0))
     \<and> (\<forall>k. k \<notin> K \<longrightarrow> map_of (dp_pods st) k = map_of (dp_pods st0) k)
     \<and> (\<forall>k p'. map_of (dp_pods st) k = Some p' \<longrightarrow> \<not> drain_Acknowledged p' \<longrightarrow> \<not> drain_Finished p'
          \<longrightarrow> map_of (dp_pods st0) k = Some p')
     \<and> (dp_acknowledged st \<longleftrightarrow> dp_acknowledged st0 \<or> (\<exists>k \<in> K. ts k = Some AcknowledgedState))
     \<and> (\<exists>es. dp_trace st = dp_trace st0 @ es \<and> (\<forall>e \<in> set es. reparents e = None)
          \<and> (\<forall>(k, p') \<in> update_effects es. k \<in> K \<and>
               (\<exists>p s. map_of (dp_pods st0) k = Some p \<and> ts k = Some s \<and> transition_write env primary p s (k, p'))))"

lemma updateDrainStatus_transition:
  assumes "s \<in> {AcknowledgedState, FinishedState}"
  shows "\<exists>p' c. updateDrainStatus now p s = Some (p', c)"
  using assms by (auto simp: updateDrainStatus_def)

lemma transition_invD:
  assumes "transition_inv env primary ts st0 K st"
  shows "gomap_wf (dp_pods st)" "dp_drains st = dp_drains st0"
    "dom (map_of (dp_pods st)) = dom (map_of (dp_pods st0))"
    "k \<notin> K \<Longrightarrow> map_of (dp_pods st) k = map_of (dp_pods st0) k"
    "map_of (dp_pods st) k = Some p' \<Longrightarrow> \<not> drain_Acknowledged p' \<Longrightarrow> \<not> drain_Finished p'
       \<Longrightarrow> map_of (dp_pods st0) k = Some p'"
    "dp_acknowledged st \<longleftrightarrow> dp_acknowledged st0 \<or> (\<exists>k \<in> K. ts k = Some AcknowledgedState)"
    "\<exists>es. dp_trace st = dp_trace st0 @ es \<and> (\<forall>e \<in> set es. reparents e = None)
          \<and> (\<forall>(k, p') \<in> update_effects es. k \<in> K \<and>
               (\<exists>p s. map_of (dp_pods st0) k = Some p \<and> ts k = Some s \<and> transition_write env primary p s (k, p')))"
  using assms unfolding transition_inv_def by blast+

lemma transition_step:
  assumes inv: "transition_inv env primary ts st0 K st" and k: "k \<notin> K" "ts k = Some s"
    and s: "s \<in> {AcknowledgedState, FinishedState}" and dom: "map_of (dp_pods st0) k = Some p"
  shows "\<exists>st'. apply_transition env primary (k, s) st = Some st' \<and> transition_inv env primary ts st0 (insert k K) st'"
proof -
  obtain es0 where es0: "dp_trace st = dp_trace st0 @ es0" "\<forall>e \<in> set es0. reparents e = None"
      "\<forall>(k, p') \<in> update_effects es0. k \<in> K \<and>
        (\<exists>p s. map_of (dp_pods st0) k = Some p \<and> ts k = Some s \<and> transition_write env primary p s (k, p'))"
    using transition_invD(7) [OF inv] by blast
  show ?thesis
proof (cases "s = FinishedState \<and> k = primary")
  case True
  have "transition_inv env primary ts st0 (insert k K) st"
    unfolding transition_inv_def
  proof (intro conjI)
    show "dp_acknowledged st \<longleftrightarrow> dp_acknowledged st0 \<or> (\<exists>j \<in> insert k K. ts j = Some AcknowledgedState)"
      using transition_invD(6) [OF inv] True k(2) by simp
    show "\<exists>es. dp_trace st = dp_trace st0 @ es \<and> (\<forall>e \<in> set es. reparents e = None)
      \<and> (\<forall>(j, q') \<in> update_effects es. j \<in> insert k K \<and>
           (\<exists>q r. map_of (dp_pods st0) j = Some q \<and> ts j = Some r \<and> transition_write env primary q r (j, q')))"
      using es0 by (intro exI [of _ es0]) auto
  qed (use inv [unfolded transition_inv_def] in \<open>blast+\<close>)
  then show ?thesis using True by (simp add: apply_transition_def)
next
  case False
  let ?st = "if s = AcknowledgedState then st\<lparr>dp_acknowledged := True\<rparr> else st"
  have look: "map_of (dp_pods ?st) k = Some p"
    using transition_invD(4) [OF inv k(1)] dom by simp
  obtain p' c where p': "updateDrainStatus (env_now env) p s = Some (p', c)"
    using updateDrainStatus_transition [OF s] by blast
  have wr: "c \<Longrightarrow> transition_write env primary p s (k, p')"
    using p' s False by (auto simp: updateDrainStatus_def transition_write_def split: if_splits)
  from apply_update_Some [OF look p'] obtain es b where
    step: "apply_update env k s ?st =
        Some (?st\<lparr>dp_pods := AList.update k p' (dp_pods ?st), dp_builder := b, dp_trace := dp_trace ?st @ es\<rparr>)"
    and es: "update_effects es = (if c then {(k, p')} else {})" "\<forall>e \<in> set es. reparents e = None"
    by blast
  let ?st' = "?st\<lparr>dp_pods := AList.update k p' (dp_pods ?st), dp_builder := b, dp_trace := dp_trace ?st @ es\<rparr>"
  have step': "apply_transition env primary (k, s) st = Some ?st'"
    unfolding apply_transition_def prod.case by (subst if_not_P [OF False]) (rule step)
  have "transition_inv env primary ts st0 (insert k K) ?st'"
    unfolding transition_inv_def
  proof (intro conjI)
    show "gomap_wf (dp_pods ?st')" "dp_drains ?st' = dp_drains st0"
      using transition_invD(1,2) [OF inv] by (simp_all add: distinct_update)
    show "dom (map_of (dp_pods ?st')) = dom (map_of (dp_pods st0))"
      using transition_invD(3) [OF inv] domI [of "map_of (dp_pods st0)", OF dom]
      by (simp add: update_conv' insert_absorb)
    show "\<forall>j. j \<notin> insert k K \<longrightarrow> map_of (dp_pods ?st') j = map_of (dp_pods st0) j"
      using transition_invD(4) [OF inv] by (simp add: update_conv)
    have "drain_Acknowledged p' \<or> drain_Finished p'"
      using p' s by (auto simp: updateDrainStatus_def drain_defs split: if_splits)
    then show "\<forall>j q'. map_of (dp_pods ?st') j = Some q' \<longrightarrow> \<not> drain_Acknowledged q' \<longrightarrow> \<not> drain_Finished q'
        \<longrightarrow> map_of (dp_pods st0) j = Some q'"
      using transition_invD(5) [OF inv] by (auto simp: update_conv)
    have "dp_acknowledged st \<longleftrightarrow> dp_acknowledged st0 \<or> (\<exists>k \<in> K. ts k = Some AcknowledgedState)"
      by (rule transition_invD(6) [OF inv])
    then show "dp_acknowledged ?st' \<longleftrightarrow> dp_acknowledged st0 \<or> (\<exists>j \<in> insert k K. ts j = Some AcknowledgedState)"
      using k(2) by auto
    show "\<exists>es1. dp_trace ?st' = dp_trace st0 @ es1 \<and> (\<forall>e \<in> set es1. reparents e = None)
      \<and> (\<forall>(j, q') \<in> update_effects es1. j \<in> insert k K \<and>
           (\<exists>q r. map_of (dp_pods st0) j = Some q \<and> ts j = Some r \<and> transition_write env primary q r (j, q')))"
      using es es0 wr dom k(2) by (intro exI [of _ "es0 @ es"]) (auto split: if_splits)
  qed
  then show ?thesis using step' by blast
qed
qed

lemma transition_loop:
  assumes "transition_inv env primary ts st0 K st" "gomap_wf xs" "fst ` set xs \<inter> K = {}"
    "\<And>k s. (k, s) \<in> set xs \<Longrightarrow> ts k = Some s \<and> s \<in> {AcknowledgedState, FinishedState}
        \<and> k \<in> dom (map_of (dp_pods st0))"
  shows "\<exists>st'. fold_opt (apply_transition env primary) xs st = Some st'
     \<and> transition_inv env primary ts st0 (K \<union> fst ` set xs) st'"
  using assms
proof (induction xs arbitrary: K st)
  case Nil
  then show ?case by simp
next
  case (Cons x xs)
  obtain k s where x: "x = (k, s)" by (cases x)
  have ts: "ts k = Some s" "s \<in> {AcknowledgedState, FinishedState}" "k \<in> dom (map_of (dp_pods st0))"
    using Cons.prems(4) [of k s] by (auto simp: x)
  then obtain st1 where st1: "apply_transition env primary (k, s) st = Some st1"
      "transition_inv env primary ts st0 (insert k K) st1"
    using transition_step [OF Cons.prems(1) _ ts(1,2)] Cons.prems(3) by (auto simp: x)
  have "fst ` set xs \<inter> insert k K = {}"
    using Cons.prems(2,3) by (auto simp: x)
  then show ?case
    using Cons.IH [OF st1(2)] Cons.prems(2) Cons.prems(4) st1(1) by (auto simp: x)
qed

section \<open>What the whole pass does\<close>

lemma drain_view_restrict [simp]: "drain_view (map_of pods) |` (fst ` set pods) = drain_view (map_of pods)"
  by (auto simp: fun_eq_iff restrict_map_def drain_view_def split: option.split dest: map_of_SomeD)
    (metis fst_conv image_eqI map_of_SomeD)

lemma StateTransitions_wf [simp]: "gomap_wf (StateTransitions ds)"
proof -
  have scan: "gomap_wf ts \<Longrightarrow> gomap_wf (fst (acknowledge_scan ds (ts, b)))" for ts b
    by (induction ds "(ts, b)" arbitrary: ts b rule: acknowledge_scan.induct)
      (auto simp: distinct_update split: drain_state.splits)
  show ?thesis
    using scan [of "[]" True]
    by (auto simp: StateTransitions_def distinct_update split: prod.split option.split)
qed

lemma disableFastShutdown_effects:
  "update_effects (fst (disableFastShutdown env tablets pods)) = {}
   \<and> (\<forall>e \<in> set (fst (disableFastShutdown env tablets pods)). reparents e = None)"
  by (induction env tablets pods rule: disableFastShutdown.induct)
    (auto split: option.splits sum.splits prod.splits)

lemma best_reply_from:
  "fst (best_reply env cs acc) = Some c \<Longrightarrow> c \<in> set cs \<or> fst acc = Some c"
  by (induction env cs acc rule: best_reply.induct) (auto split: option.splits if_splits)

lemma candidatePrimary_eligible:
  assumes "candidatePrimary env shard tablets pods = Some c" "visits (env_visit env)" "gomap_wf tablets"
    "\<And>cs. set (arrival env cs) = set cs"
  shows "\<exists>s. (s, c) \<in> set tablets \<and> eligible_candidate env shard pods (s, c)"
proof -
  let ?cs = "map snd (filter (eligible_candidate env shard pods) (range_of (env_visit env) 5 tablets))"
  have "?cs \<noteq> []" using assms(1) by (auto simp: candidatePrimary_def Let_def)
  then have "c \<in> set ?cs"
    using assms(1) best_reply_from [of env "arrival env ?cs" "(None, zero_position env)" c]
      hd_in_set [of ?cs] assms(4) [of ?cs]
    by (auto simp: candidatePrimary_def Let_def simp del: set_range_of split: option.splits)
  then show ?thesis using assms(2,3) by auto
qed

lemma reparent_phase_effects:
  "\<exists>es. dp_trace (reparent_phase env shard tablets primary ts st) = dp_trace st @ es \<and> update_effects es = {}
     \<and> (\<forall>e \<in> set es. \<forall>a. reparents e = Some a \<longrightarrow>
          (\<exists>c. candidatePrimary env shard tablets (dp_pods st) = Some c \<and> ti_Alias c = a)
          \<and> (dp_acknowledged st \<longrightarrow> map_of (dp_drains st) primary = Some FinishedState)
          \<and> (map_of (dp_drains st) primary = Some FinishedState \<or> map_of ts primary = Some FinishedState))"
  by (auto simp: reparent_phase_def handleExternalReparent_def split: option.split if_splits)

text \<open>The effects that phases 3 to 5 may have, given the Pods and the drain states they start from.\<close>

definition allowed_advance ::
    "'p drain_env \<Rightarrow> shard_info \<Rightarrow> (string, tablet_info) gomap \<Rightarrow> (string, pod) gomap \<Rightarrow> drain_effect list \<Rightarrow> bool"
where
  "allowed_advance env shard tablets pods es \<longleftrightarrow>
     (let primary = alias_String env (si_PrimaryAlias shard); view = drain_view (map_of pods) in
       (\<forall>(k, p') \<in> update_effects es. \<exists>p s. map_of pods k = Some p \<and> drain_Started p
            \<and> transitions_of view k = Some s \<and> transition_write env primary p s (k, p'))
     \<and> (\<forall>e \<in> set es. \<forall>a. reparents e = Some a \<longrightarrow>
          (\<exists>s c. (s, c) \<in> set tablets \<and> eligible_candidate env shard pods (s, c) \<and> ti_Alias c = a)
          \<and> (view primary = Some FinishedState
             \<or> transitions_of view primary = Some FinishedState
               \<and> (\<forall>k. view k \<noteq> Some DrainingState))))"

lemma transitions_of_Started:
  "transitions_of (drain_view (map_of pods)) k = Some s \<Longrightarrow> \<exists>p. map_of pods k = Some p \<and> drain_Started p"
  by (auto simp: transitions_of_def drain_view_def split: if_splits option.splits)

lemma transition_write_Started:
  "transition_write env primary p s (k, p') \<Longrightarrow> drain_Started p' \<longleftrightarrow> drain_Started p"
  by (auto simp: transition_write_def drain_defs)

lemma advance_phase_allowed:
  assumes vis: "visits (env_visit env)" and tab: "gomap_wf tablets" and arr: "\<And>cs. set (arrival env cs) = set cs"
    and wf: "gomap_wf pods" and inv: "collect_inv (map_of pods) (fst ` set pods) st" and noabort: "\<not> dp_aborting st"
  shows "\<exists>st' es. advance_phase env shard tablets st = Some st' \<and> dp_trace st' = dp_trace st @ es
    \<and> allowed_advance env shard tablets pods es"
proof -
  let ?primary = "alias_String env (si_PrimaryAlias shard)"
  let ?view = "drain_view (map_of pods)"
  let ?ts = "StateTransitions (range_of (env_visit env) 2 (dp_drains st))"
  have drains: "map_of (dp_drains st) = ?view" "gomap_wf (dp_drains st)"
    using inv by (simp_all add: collect_inv_def)
  have noab: "\<not> aborted p" if "map_of pods k = Some p" for k p
  proof -
    have "k \<in> fst ` set pods" using that by (force dest: map_of_SomeD)
    then show ?thesis using inv noabort that by (auto simp: collect_inv_def)
  qed
  have pods: "map_of (dp_pods st) = map_of pods"
  proof
    fix k
    show "map_of (dp_pods st) k = map_of pods k"
      using inv noab [of k] by (cases "map_of pods k")
        (auto simp: collect_inv_def cleared_def aborted_def unfinish_noop unacknowledge_noop)
  qed
  have ts: "map_of ?ts = transitions_of ?view"
    using vis drains by (simp add: StateTransitions_map_of [OF range_of_wf])
  have "transition_inv env ?primary (map_of ?ts) st {} st"
    using inv by (auto simp: transition_inv_def collect_inv_def)
  moreover have "map_of ?ts k = Some s \<and> s \<in> {AcknowledgedState, FinishedState} \<and> k \<in> dom (map_of (dp_pods st))"
    if "(k, s) \<in> set (range_of (env_visit env) 3 ?ts)" for k s
  proof -
    have "map_of ?ts k = Some s" using that vis by (simp add: map_of_eq_Some_iff)
    then show ?thesis
      using transitions_of_Started [of pods k s] transitions_of_range [of ?view k] pods by (auto simp: ts)
  qed
  ultimately obtain st1 where
    st1: "fold_opt (apply_transition env ?primary) (range_of (env_visit env) 3 ?ts) st = Some st1"
      "transition_inv env ?primary (map_of ?ts) st (fst ` set ?ts) st1"
    using transition_loop [of env ?primary "map_of ?ts" st "{}" st "range_of (env_visit env) 3 ?ts"] vis
    by auto
  obtain es where es: "dp_trace st1 = dp_trace st @ es" "\<forall>e \<in> set es. reparents e = None"
      "\<forall>(k, p') \<in> update_effects es. \<exists>p s. map_of pods k = Some p \<and> transitions_of ?view k = Some s
         \<and> transition_write env ?primary p s (k, p')"
    using transition_invD(7) [OF st1(2)] unfolding pods ts by fast
  then have es3: "\<forall>(k, p') \<in> update_effects es. \<exists>p s. map_of pods k = Some p \<and> drain_Started p
         \<and> transitions_of ?view k = Some s \<and> transition_write env ?primary p s (k, p')"
    using transitions_of_Started [of pods] by fastforce
  obtain fs err where shut: "disableFastShutdown env tablets (range_of (env_visit env) 4 (dp_pods st1)) = (fs, err)"
    by (cases "disableFastShutdown env tablets (range_of (env_visit env) 4 (dp_pods st1))")
  have fs: "update_effects fs = {}" "\<forall>e \<in> set fs. reparents e = None"
    using disableFastShutdown_effects [of env tablets "range_of (env_visit env) 4 (dp_pods st1)"]
    unfolding shut by auto
  show ?thesis
  proof (cases err)
    case (Some e)
    let ?st' = "emit (fs @ [Event ''MysqldSafeUpgradeFailed''])
        (st1\<lparr>dp_builder := builder_Error (Some e) (dp_builder st1)\<rparr>)"
    have "advance_phase env shard tablets st = Some ?st'"
      using Some st1(1) shut by (simp add: advance_phase_def Let_def)
    moreover have "allowed_advance env shard tablets pods (es @ fs @ [Event ''MysqldSafeUpgradeFailed''])"
      using es(2) fs es3 by (auto simp: allowed_advance_def Let_def)
    ultimately show ?thesis
      using es(1) by (intro exI [of _ ?st'] exI [of _ "es @ fs @ [Event ''MysqldSafeUpgradeFailed'']"]) simp
  next
    case None
    let ?st = "emit fs st1"
    obtain gs where gs: "dp_trace (reparent_phase env shard tablets ?primary ?ts ?st) = dp_trace ?st @ gs"
      "update_effects gs = {}"
      "\<forall>e \<in> set gs. \<forall>a. reparents e = Some a \<longrightarrow>
          (\<exists>c. candidatePrimary env shard tablets (dp_pods ?st) = Some c \<and> ti_Alias c = a)
          \<and> (dp_acknowledged ?st \<longrightarrow> map_of (dp_drains ?st) ?primary = Some FinishedState)
          \<and> (map_of (dp_drains ?st) ?primary = Some FinishedState \<or> map_of ?ts ?primary = Some FinishedState)"
      using reparent_phase_effects [of env shard tablets ?primary ?ts ?st] by blast
    have elig: "eligible_candidate env shard pods (s, c)" if "eligible_candidate env shard (dp_pods st1) (s, c)" for s c
      using that transition_invD(5) [OF st1(2)] unfolding pods
      by (auto simp: eligible_candidate_def split: option.splits if_splits)
    have ack: "\<forall>k. ?view k \<noteq> Some DrainingState" if "\<not> dp_acknowledged st1"
    proof (intro allI notI)
      fix k assume "?view k = Some DrainingState"
      then have "map_of ?ts k = Some AcknowledgedState" by (simp add: ts transitions_of_def)
      moreover have "k \<in> fst ` set ?ts" using calculation by (force dest: map_of_SomeD)
      ultimately show False using transition_invD(6) [OF st1(2)] that by blast
    qed
    have "\<exists>s c. (s, c) \<in> set tablets \<and> eligible_candidate env shard pods (s, c) \<and> ti_Alias c = a"
      "?view ?primary = Some FinishedState
         \<or> transitions_of ?view ?primary = Some FinishedState \<and> (\<forall>k. ?view k \<noteq> Some DrainingState)"
      if gr: "e \<in> set gs" "reparents e = Some a" for e a
    proof -
      obtain c where c: "candidatePrimary env shard tablets (dp_pods st1) = Some c" "ti_Alias c = a"
        using gs(3) [rule_format, OF gr] by auto
      show "\<exists>s c. (s, c) \<in> set tablets \<and> eligible_candidate env shard pods (s, c) \<and> ti_Alias c = a"
        using candidatePrimary_eligible [OF c(1) vis tab arr] c(2) elig by blast
      note [simp] = transition_invD(2) [OF st1(2)]
      then show "?view ?primary = Some FinishedState
         \<or> transitions_of ?view ?primary = Some FinishedState \<and> (\<forall>k. ?view k \<noteq> Some DrainingState)"
        using gs(3) [rule_format, OF gr] drains(1) ts ack by auto
    qed
    then have "allowed_advance env shard tablets pods (es @ fs @ gs)"
      unfolding allowed_advance_def Let_def update_effects_simps using es(2) fs es3 gs(2) by auto
    moreover have "advance_phase env shard tablets st = Some (reparent_phase env shard tablets ?primary ?ts ?st)"
      using None st1(1) shut by (simp add: advance_phase_def Let_def)
    ultimately show ?thesis
      using es(1) gs(1)
      by (intro exI [of _ "reparent_phase env shard tablets ?primary ?ts ?st"] exI [of _ "es @ fs @ gs"]) simp
  qed
qed

text \<open>
  The environment behaves like Go: a range visits each key once, a map has no duplicate keys, and
  every reply that was asked for arrives.
\<close>

definition drain_env_ok :: "'p drain_env \<Rightarrow> bool" where
  "drain_env_ok env \<longleftrightarrow> visits (env_visit env) \<and> (\<forall>cs. set (arrival env cs) = set cs)
     \<and> (\<forall>tablets. get_tablets env = Inr tablets \<longrightarrow> gomap_wf tablets)"

definition quiet :: "drain_effect list \<Rightarrow> bool" where
  "quiet tr \<longleftrightarrow> update_effects tr = {} \<and> (\<forall>e \<in> set tr. reparents e = None)"

definition active_pass ::
    "'p drain_env \<Rightarrow> shard_info \<Rightarrow> (string, tablet_info) gomap \<Rightarrow> (string, pod) gomap \<Rightarrow> bool"
where
  "active_pass env shard tablets pods \<longleftrightarrow>
     (\<exists>podList. list_pods env = Inr podList \<and> pods = pods_by_alias env podList)
     \<and> get_shard env = Inr shard \<and> get_tablets env = Inr tablets
     \<and> isShardHealthy (status_tablets env) \<and> si_HasPrimary shard"

lemma active_collected:
  assumes ok: "drain_env_ok env" and act: "active_pass env shard tablets pods"
  obtains st where "fold_opt (collect_pod env) (range_of (env_visit env) 1 pods) (start_pass pods) = Some st"
    "collect_inv (map_of pods) (fst ` set pods) st"
    "reconcileDrain env =
       (if dp_drains st = [] then Some (finish_pass st)
        else if dp_aborting st then Some (finish_pass (emit [Event ''AbortingDrain''] st))
        else map_option finish_pass (advance_phase env shard tablets st))"
proof -
  have "visits (env_visit env)" "gomap_wf pods"
    using ok act by (auto simp: drain_env_ok_def active_pass_def)
  from collect_phase [OF this] obtain st where
    st: "fold_opt (collect_pod env) (range_of (env_visit env) 1 pods) (start_pass pods) = Some st"
      "collect_inv (map_of pods) (fst ` set pods) st" by blast
  show thesis
    by (rule that [OF st]) (use act st(1) in \<open>auto simp: reconcileDrain_def active_pass_def\<close>)
qed

lemma inactive_quiet:
  assumes "\<And>shard tablets pods. \<not> active_pass env shard tablets pods"
  shows "\<exists>tr r. reconcileDrain env = Some (tr, r) \<and> quiet tr"
  using assms
  by (auto simp: reconcileDrain_def active_pass_def quiet_def Let_def split: sum.split)

text \<open>A pass either does nothing, or only clears aborted drains, or advances the protocol.\<close>

lemma reconcileDrain_cases:
  assumes ok: "drain_env_ok env"
  obtains (quiet) tr r where "reconcileDrain env = Some (tr, r)" "quiet tr"
  | (abort) tr r shard tablets pods where "reconcileDrain env = Some (tr, r)" "active_pass env shard tablets pods"
      "\<exists>k p. map_of pods k = Some p \<and> aborted p"
      "update_effects tr = {(k, p'). \<exists>p. map_of pods k = Some p \<and> aborted p \<and> p' = cleared p}"
      "\<forall>e \<in> set tr. reparents e = None"
  | (advance) tr r shard tablets pods where "reconcileDrain env = Some (tr, r)" "active_pass env shard tablets pods"
      "\<forall>k p. map_of pods k = Some p \<longrightarrow> \<not> aborted p" "allowed_advance env shard tablets pods tr"
proof (cases "\<exists>shard tablets pods. active_pass env shard tablets pods")
  case False
  then show thesis using inactive_quiet [of env] quiet by blast
next
  case True
  then obtain shard tablets pods where act: "active_pass env shard tablets pods" by blast
  then obtain st where st: "collect_inv (map_of pods) (fst ` set pods) st" and
    rec: "reconcileDrain env =
       (if dp_drains st = [] then Some (finish_pass st)
        else if dp_aborting st then Some (finish_pass (emit [Event ''AbortingDrain''] st))
        else map_option finish_pass (advance_phase env shard tablets st))"
    by (elim active_collected [OF ok])
  have wf: "gomap_wf pods" using act by (auto simp: active_pass_def)
  have keys: "k \<in> fst ` set pods \<longleftrightarrow> (\<exists>p. map_of pods k = Some p)" for k
    using dom_map_of_conv_image_fst [of pods] by blast
  have upd: "update_effects (dp_trace st) = {(k, p'). \<exists>p. map_of pods k = Some p \<and> aborted p \<and> p' = cleared p}"
    using collect_invD(2) [OF st] keys by auto
  have none: "\<forall>e \<in> set (dp_trace st). reparents e = None"
    by (rule collect_invD(3) [OF st])
  have ab: "dp_aborting st \<longleftrightarrow> (\<exists>k p. map_of pods k = Some p \<and> aborted p)"
    using collect_invD(1) [OF st] keys by blast
  show thesis
  proof (cases "dp_aborting st")
    case True
    then show thesis
      using rec upd none ab act
      by (cases "dp_drains st = []") (auto intro!: abort)
  next
    case False
    then have empty: "update_effects (dp_trace st) = {}" using upd ab by auto
    show thesis
    proof (cases "dp_drains st = []")
      case True
      then show thesis using rec empty none by (auto intro!: quiet simp: quiet_def)
    next
      case nonempty: False
      from ok act have "visits (env_visit env)" "gomap_wf tablets" "\<And>cs. set (arrival env cs) = set cs"
        by (auto simp: drain_env_ok_def active_pass_def)
      from advance_phase_allowed [OF this wf st False, of shard] obtain st' es where
        adv: "advance_phase env shard tablets st = Some st'" "dp_trace st' = dp_trace st @ es"
          "allowed_advance env shard tablets pods es" by blast
      have "allowed_advance env shard tablets pods (dp_trace st')"
        using adv(2,3) empty none by (auto simp: allowed_advance_def Let_def)
      then show thesis
        using advance [of "dp_trace st'" _ shard tablets pods] rec False nonempty adv(1) act ab by auto
    qed
  qed
qed

section \<open>Properties\<close>

text \<open>C2: A pass marks at most one Pod as finished, and only when that is safe.  If a pass writes a
  Pod that carries the finished annotation, then every tablet is Available and the shard has a
  primary; the Pod is not the primary's, had a drain request that was acknowledged in the cache
  the pass read; no Pod of the shard is in an aborted drain; every other requested drain is
  acknowledged, not finished, and sorts after this Pod; and this is the only Pod the pass writes.\<close>

theorem reconcileDrain_finish_safe:
  assumes "drain_env_ok env" "reconcileDrain env = Some (tr, r)" "UpdatePod k p' \<in> set tr" "drain_Finished p'"
  shows "\<exists>podList shard p. list_pods env = Inr podList \<and> get_shard env = Inr shard
    \<and> isShardHealthy (status_tablets env) \<and> si_HasPrimary shard
    \<and> k \<noteq> alias_String env (si_PrimaryAlias shard)
    \<and> map_of (pods_by_alias env podList) k = Some p
    \<and> p' = drain_Finish (env_now env) p \<and> drain_Started p \<and> drain_Acknowledged p
    \<and> (\<forall>j q. map_of (pods_by_alias env podList) j = Some q \<longrightarrow>
          (if drain_Started q then drain_Acknowledged q \<and> \<not> drain_Finished q \<and> k \<le> j
           else \<not> drain_Acknowledged q \<and> \<not> drain_Finished q))
    \<and> (\<forall>j q'. UpdatePod j q' \<in> set tr \<longrightarrow> j = k)"
  using assms(1)
proof (cases rule: reconcileDrain_cases)
  case (quiet tr1 r1)
  then show ?thesis using assms(2,3) by (auto simp: quiet_def update_effects_def)
next
  case (abort tr1 r1 shard tablets pods)
  have "(k, p') \<in> update_effects tr1"
    using abort(1) assms(2,3) by (simp add: update_effects_def)
  then have "\<exists>p. aborted p \<and> p' = cleared p"
    unfolding abort(4) by blast
  then show ?thesis using assms(4) by (auto simp: cleared_def aborted_def drain_defs)
next
  case (advance tr1 r1 shard tablets pods)
  let ?view = "drain_view (map_of pods)" and ?primary = "alias_String env (si_PrimaryAlias shard)"
  have writes: "\<exists>q s. map_of pods j = Some q \<and> drain_Started q \<and> transitions_of ?view j = Some s
      \<and> transition_write env ?primary q s (j, q')" if "UpdatePod j q' \<in> set tr" for j q'
    using advance(1,4) assms(2) that by (auto simp: allowed_advance_def update_effects_def Let_def)
  obtain p s where p: "map_of pods k = Some p" "drain_Started p" "transitions_of ?view k = Some s"
      "transition_write env ?primary p s (k, p')"
    using writes [OF assms(3)] by blast
  have view: "?view j = (if drain_Started q then Some (fst (GetState q)) else None)" if "map_of pods j = Some q" for j q
    using that by (simp add: drain_view_def)
  have fin: "s = FinishedState"
  proof (rule ccontr)
    assume "s \<noteq> FinishedState"
    then have "p' = drain_Acknowledge (env_now env) p" "?view k = Some DrainingState"
      using p(3,4) by (auto simp: transition_write_def transitions_of_Acknowledged)
    then show False
      using assms(4) view [OF p(1)] by (auto simp: drain_defs GetState_def split: if_splits)
  qed
  then have t: "?view k = Some AcknowledgedState" "\<And>j. ?view j \<noteq> Some DrainingState \<and> ?view j \<noteq> Some FinishedState"
      "\<And>j. ?view j = Some AcknowledgedState \<Longrightarrow> k \<le> j"
    using p(3) by (auto simp: transitions_of_Finished)
  have started: "drain_Acknowledged q \<and> \<not> drain_Finished q \<and> k \<le> j"
    if "map_of pods j = Some q" "drain_Started q" for j q
    using t(2,3) [of j] view [OF that(1)] that(2) by (auto simp: GetState_def split: if_splits)
  have only: "j = k" if "UpdatePod j q' \<in> set tr" for j q'
  proof -
    obtain q s' where "transitions_of ?view j = Some s'" using writes [OF \<open>UpdatePod j q' \<in> set tr\<close>] by blast
    then have "transitions_of ?view j = Some FinishedState"
      using t(2) [of j] by (auto simp: transitions_of_def split: if_splits)
    then show ?thesis using transitions_of_one_Finished p(3) fin by blast
  qed
  have unstarted: "\<not> drain_Acknowledged q \<and> \<not> drain_Finished q"
    if "map_of pods j = Some q" "\<not> drain_Started q" for j q
    using advance(3) that unfolding aborted_def by blast
  show ?thesis
    using advance(2) p fin started unstarted only unfolding active_pass_def
    by (auto simp: transition_write_def)
qed

text \<open>C31: A pass reparents only away from a draining primary and only to a healthy replica.  When it
  starts a reparent, the primary's drain is finished or is the one the state machine finishes
  now with no other drain waiting for acknowledgement; the new primary is another tablet, whose Pod is
  Ready, has no drain annotations, and is a REPLICA (with local MySQL), or a tablet of
  the externalmaster pool of type SPARE or PRIMARY (with an external datastore).\<close>

theorem reconcileDrain_reparent_safe:
  assumes "drain_env_ok env" "reconcileDrain env = Some (tr, r)" "e \<in> set tr" "reparents e = Some a"
  shows "\<exists>podList shard tablets s c pod. list_pods env = Inr podList \<and> get_shard env = Inr shard
    \<and> get_tablets env = Inr tablets \<and> isShardHealthy (status_tablets env) \<and> si_HasPrimary shard
    \<and> a \<noteq> si_PrimaryAlias shard \<and> (s, c) \<in> set tablets \<and> ti_Alias c = a
    \<and> map_of (pods_by_alias env podList) s = Some pod \<and> pod_Ready pod
    \<and> \<not> drain_Started pod \<and> \<not> drain_Acknowledged pod \<and> \<not> drain_Finished pod
    \<and> (if using_external env then label_of TabletTypeLabel pod = ExternalMasterTabletPoolName
           \<and> (ti_Type c = SPARE \<or> ti_Type c = PRIMARY) else ti_Type c = REPLICA)
    \<and> (let view = drain_view (map_of (pods_by_alias env podList)); primary = alias_String env (si_PrimaryAlias shard)
       in view primary = Some FinishedState
          \<or> transitions_of view primary = Some FinishedState \<and> (\<forall>k. view k \<noteq> Some DrainingState))"
  using assms(1)
proof (cases rule: reconcileDrain_cases)
  case (quiet tr1 r1)
  then show ?thesis using assms(2-4) by (auto simp: quiet_def)
next
  case (abort tr1 r1 shard tablets pods)
  then show ?thesis using assms(2-4) by auto
next
  case (advance tr1 r1 shard tablets pods)
  then have al: "allowed_advance env shard tablets pods tr" using assms(2) by simp
  from al [unfolded allowed_advance_def Let_def, THEN conjunct2, rule_format, OF assms(3,4)]
  obtain s c where c: "(s, c) \<in> set tablets" "eligible_candidate env shard pods (s, c)" "ti_Alias c = a"
    and v: "drain_view (map_of pods) (alias_String env (si_PrimaryAlias shard)) = Some FinishedState
      \<or> transitions_of (drain_view (map_of pods)) (alias_String env (si_PrimaryAlias shard)) = Some FinishedState
        \<and> (\<forall>k. drain_view (map_of pods) k \<noteq> Some DrainingState)"
    by blast
  obtain pod where pod: "map_of pods s = Some pod"
    using c(2) by (auto simp: eligible_candidate_def split: option.splits if_splits)
  have el: "a \<noteq> si_PrimaryAlias shard" "pod_Ready pod" "\<not> drain_Started pod" "\<not> drain_Acknowledged pod"
     "\<not> drain_Finished pod"
     "if using_external env then label_of TabletTypeLabel pod = ExternalMasterTabletPoolName
           \<and> (ti_Type c = SPARE \<or> ti_Type c = PRIMARY) else ti_Type c = REPLICA"
    using c(2,3) pod by (auto simp: eligible_candidate_def split: option.splits if_splits)
  obtain podList where "list_pods env = Inr podList" "pods = pods_by_alias env podList"
    using advance(2) by (auto simp: active_pass_def)
  then show ?thesis
    using c(1,3) v pod el advance(2) unfolding active_pass_def Let_def
    by (intro exI [of _ podList] exI [of _ shard] exI [of _ tablets] exI [of _ s] exI [of _ c] exI [of _ pod]) simp
qed

section \<open>Witnesses\<close>

text \<open>A shard of three tablets with primary z3, in which the tablet \<open>d\<close> has an acknowledged drain.\<close>

definition example_pod :: "string \<Rightarrow> bool \<Rightarrow> pod" where
  "example_pod cell draining =
     \<lparr>annotations = Some (if draining then [drain_StartedAnnotation \<mapsto> ''upgrade'', drain_AcknowledgedAnnotation \<mapsto> ''t0''] else Map.empty),
      pod_name = cell, pod_labels = [CellLabel \<mapsto> cell, TabletUidLabel \<mapsto> ''7''], pod_containers = [], pod_Ready = True\<rparr>"

definition example_drain_env :: "string \<Rightarrow> nat drain_env" where
  "example_drain_env d =
     \<lparr>env_visit = (\<lambda>n ks. ks), alias_String = fst, env_now = ''t1'',
      list_pods = Inr (map (\<lambda>c. example_pod c (c = d)) [''z1'', ''z2'', ''z3'']),
      get_shard = Inr \<lparr>si_HasPrimary = True, si_PrimaryAlias = (''z3'', 7)\<rparr>,
      get_tablets = Inr [(''z2'', \<lparr>ti_Alias = (''z2'', 7), ti_Type = REPLICA\<rparr>), (''z3'', \<lparr>ti_Alias = (''z3'', 7), ti_Type = PRIMARY\<rparr>)],
      status_tablets = [(''z1'', CondTrue), (''z2'', CondTrue), (''z3'', CondTrue)],
      using_external = False, mysqld_image = ''mysql:8.0.30'', update_pod = (\<lambda>k. None), execute_fetch = (\<lambda>k. None),
      arrival = rev, replication_position = (\<lambda>t. Some 5), position_IsZero = (\<lambda>p. p = 0),
      position_AtLeast = (\<lambda>p q. q \<le> p), zero_position = 0, reparent_ok = (\<lambda>a. True),
      external_reparent_ok = (\<lambda>a. True), change_type_ok = (\<lambda>a. True)\<rparr>"

lemma example_drain_env_ok: "drain_env_ok (example_drain_env d)"
  by (simp add: drain_env_ok_def example_drain_env_def visits_id)

lemma example_finish:
  "case reconcileDrain (example_drain_env ''z1'') of
     Some (UpdatePod k p' # es, r) \<Rightarrow> k = ''z1'' \<and> drain_Finished p' | _ \<Rightarrow> False"
  by code_simp

lemma example_reparent:
  "case reconcileDrain (example_drain_env ''z3'') of
     Some (PlannedReparentShard a # es, r) \<Rightarrow> a = (''z2'', 7) | _ \<Rightarrow> False"
  by code_simp

theorem reconcileDrain_finish_safe_witness:
  "\<exists>tr r p'. reconcileDrain (example_drain_env ''z1'') = Some (tr, r) \<and> UpdatePod ''z1'' p' \<in> set tr
     \<and> drain_Finished p' \<and> (\<forall>j q'. UpdatePod j q' \<in> set tr \<longrightarrow> j = ''z1'')"
proof -
  obtain es r p' where run: "reconcileDrain (example_drain_env ''z1'') = Some (UpdatePod ''z1'' p' # es, r)"
      "drain_Finished p'"
    using example_finish by (auto split: option.splits prod.splits list.splits drain_effect.splits)
  then show ?thesis
    using reconcileDrain_finish_safe [OF example_drain_env_ok run(1) _ run(2), of "''z1''"]
    by (intro exI [of _ "UpdatePod ''z1'' p' # es"] exI [of _ r] exI [of _ p']) auto
qed

theorem reconcileDrain_reparent_safe_witness:
  "\<exists>tr r. reconcileDrain (example_drain_env ''z3'') = Some (tr, r) \<and> PlannedReparentShard (''z2'', 7) \<in> set tr
     \<and> (''z2'', 7 :: 32 word) \<noteq> (''z3'', 7)
     \<and> (\<exists>pod. drain_view (map_of (pods_by_alias (example_drain_env ''z3'') pod)) ''z3'' \<noteq> None)"
proof -
  obtain es r where run: "reconcileDrain (example_drain_env ''z3'') = Some (PlannedReparentShard (''z2'', 7) # es, r)"
    using example_reparent by (auto split: option.splits prod.splits list.splits drain_effect.splits)
  have z3: "alias_String (example_drain_env ''z3'') (''z3'', 7) = ''z3''"
      "get_shard (example_drain_env ''z3'') = Inr \<lparr>si_HasPrimary = True, si_PrimaryAlias = (''z3'', 7)\<rparr>"
    by (simp_all add: example_drain_env_def)
  show ?thesis
    using reconcileDrain_reparent_safe [OF example_drain_env_ok run, of "PlannedReparentShard (''z2'', 7)" "(''z2'', 7)"]
      run z3 unfolding Let_def
    by (intro exI [of _ "PlannedReparentShard (''z2'', 7) # es"] exI [of _ r])
      (auto simp: transitions_of_Finished)
qed

end
