(* ===== verification/Drain_Protocol.thy ===== *)
theory Drain_Protocol
  imports Drain_Reconcile
begin

text \<open>
  The drain protocol as a distributed system: the API server, any number of drainers, and the
  controller with its cache, interleaved in any way.

  The API server's history is the list of its worlds, one per event; a world maps tablet
  aliases to Pods with their resource version, which is the index of the event that last wrote
  the Pod.  The controller reads the whole world of an earlier index (\<open>view\<close>), never an older one
  than before: this is what one informer cache guarantees.  The writes of a pass are those of
  \<open>reconcileDrain\<close> on that view; each may reach the server at any later time until the next pass
  begins, or never, and is refused when the Pod's resource version has changed since the view.
  Replication positions, which play no role here, are their textual form.
\<close>

type_synonym world = "string \<rightharpoonup> pod \<times> nat"

record proto =
  history :: "world list"
  seen :: nat
  planned :: "(string \<times> pod) set"

abbreviation pods_at :: "world list \<Rightarrow> nat \<Rightarrow> string \<rightharpoonup> pod" where
  "pods_at H i \<equiv> (\<lambda>k. map_option fst ((H ! i) k))"

definition commit :: "string \<Rightarrow> pod option \<Rightarrow> world list \<Rightarrow> world list" where
  "commit k x H = H @ [(last H)(k := map_option (\<lambda>p. (p, length H)) x)]"

text \<open>What others may do to a Pod: anything but touch the operator's annotations or withdraw a request.\<close>

definition external_update :: "pod \<Rightarrow> pod \<Rightarrow> bool" where
  "external_update p p' \<longleftrightarrow> drain_Acknowledged p' = drain_Acknowledged p \<and> drain_Finished p' = drain_Finished p
     \<and> (drain_Started p \<longrightarrow> drain_Started p')"

definition initial :: "proto \<Rightarrow> bool" where
  "initial s \<longleftrightarrow> (\<exists>w. history s = [w] \<and> (\<forall>k p n. w k = Some (p, n) \<longrightarrow>
        n = 0 \<and> \<not> drain_Acknowledged p \<and> \<not> drain_Finished p)) \<and> seen s = 0 \<and> planned s = {}"

inductive drain_step :: "proto \<Rightarrow> proto \<Rightarrow> bool" where
  create: "last (history s) k = None \<Longrightarrow> \<not> drain_Acknowledged p \<Longrightarrow> \<not> drain_Finished p \<Longrightarrow>
    drain_step s (s\<lparr>history := commit k (Some p) (history s)\<rparr>)"
| delete: "drain_step s (s\<lparr>history := commit k None (history s)\<rparr>)"
| external: "last (history s) k = Some (p, n) \<Longrightarrow> external_update p p' \<Longrightarrow>
    drain_step s (s\<lparr>history := commit k (Some p') (history s)\<rparr>)"
| pass: "seen s \<le> v \<Longrightarrow> v < length (history s) \<Longrightarrow> drain_env_ok (env :: string drain_env) \<Longrightarrow>
    list_pods env = Inr podList \<Longrightarrow> map_of (pods_by_alias env podList) = pods_at (history s) v \<Longrightarrow>
    reconcileDrain env = Some (tr, r) \<Longrightarrow>
    drain_step s (s\<lparr>seen := v, planned := update_effects tr\<rparr>)"
| write_pod: "(k, p') \<in> planned s \<Longrightarrow> (history s ! seen s) k = Some (p, n) \<Longrightarrow>
    last (history s) k = Some (q, n) \<Longrightarrow>
    drain_step s (s\<lparr>history := commit k (Some p') (history s)\<rparr>)"

inductive drain_reachable :: "proto \<Rightarrow> bool" where
  init: "initial s \<Longrightarrow> drain_reachable s"
| step: "drain_reachable s \<Longrightarrow> drain_step s s' \<Longrightarrow> drain_reachable s'"

section \<open>The invariant\<close>

abbreviation state_at :: "world list \<Rightarrow> nat \<Rightarrow> string \<Rightarrow> drain_state option" where
  "state_at H i \<equiv> drain_view (pods_at H i)"

definition versions_ok :: "world list \<Rightarrow> bool" where
  "versions_ok H \<longleftrightarrow> (\<forall>i k p n. i < length H \<longrightarrow> (H ! i) k = Some (p, n) \<longrightarrow>
     n \<le> i \<and> (\<forall>j. n \<le> j \<longrightarrow> j \<le> i \<longrightarrow> (H ! j) k = Some (p, n)))"

definition requested :: "world list \<Rightarrow> bool" where
  "requested H \<longleftrightarrow> (\<forall>i k p n. i < length H \<longrightarrow> (H ! i) k = Some (p, n) \<longrightarrow>
     (drain_Acknowledged p \<longrightarrow> drain_Started p) \<and> (drain_Finished p \<longrightarrow> drain_Acknowledged p))"

abbreviation advanced :: "drain_state option \<Rightarrow> bool" where
  "advanced x \<equiv> x = Some AcknowledgedState \<or> x = Some FinishedState"

text \<open>Whatever is acknowledged since the view was at least requested in every world since the view.\<close>

definition grows :: "world list \<Rightarrow> nat \<Rightarrow> bool" where
  "grows H v \<longleftrightarrow> (\<forall>i j k. v \<le> i \<longrightarrow> i \<le> j \<longrightarrow> j < length H \<longrightarrow> advanced (state_at H j k) \<longrightarrow>
     state_at H i k = Some DrainingState \<or> advanced (state_at H i k))"

text \<open>Whatever is finished now was, in every world since the view, finished or the least acknowledged.\<close>

definition least_first :: "world list \<Rightarrow> nat \<Rightarrow> bool" where
  "least_first H v \<longleftrightarrow> (\<forall>i k. v \<le> i \<longrightarrow> i < length H \<longrightarrow> state_at H (length H - 1) k = Some FinishedState \<longrightarrow>
     state_at H i k = Some FinishedState
     \<or> state_at H i k = Some AcknowledgedState \<and> (\<forall>q. state_at H i q = Some AcknowledgedState \<longrightarrow> k \<le> q))"

definition one_finished :: "world list \<Rightarrow> bool" where
  "one_finished H \<longleftrightarrow> (\<forall>k j. state_at H (length H - 1) k = Some FinishedState \<longrightarrow>
     state_at H (length H - 1) j = Some FinishedState \<longrightarrow> k = j)"

text \<open>The planned writes are transitions of the states in the view.\<close>

definition plan_ok :: "world list \<Rightarrow> nat \<Rightarrow> (string \<times> pod) set \<Rightarrow> bool" where
  "plan_ok H v ws \<longleftrightarrow> (\<forall>(k, p') \<in> ws. \<exists>p now. pods_at H v k = Some p \<and> drain_Started p \<and>
     (transitions_of (state_at H v) k = Some AcknowledgedState \<and> p' = drain_Acknowledge now p
      \<or> transitions_of (state_at H v) k = Some FinishedState \<and> p' = drain_Finish now p))"

definition proto_inv :: "proto \<Rightarrow> bool" where
  "proto_inv s \<longleftrightarrow> (let H = history s; v = seen s in
     v < length H \<and> versions_ok H \<and> requested H \<and> grows H v \<and> least_first H v \<and> one_finished H
     \<and> plan_ok H v (planned s))"

section \<open>Committing a change\<close>

lemma length_commit [simp]: "length (commit k x H) = Suc (length H)"
  by (simp add: commit_def)

lemma commit_nth_old [simp]: "i < length H \<Longrightarrow> commit k x H ! i = H ! i"
  by (simp add: commit_def nth_append)

lemma commit_nth_new [simp]:
  "commit k x H ! length H = (last H)(k := map_option (\<lambda>p. (p, length H)) x)"
  by (simp add: commit_def)

lemma state_at_old [simp]: "i < length H \<Longrightarrow> state_at (commit k x H) i = state_at H i"
  by simp

lemma state_at_new:
  assumes "H \<noteq> []"
  shows "state_at (commit k x H) (length H) j =
     (if j = k then drain_view (\<lambda>_. x) k else state_at H (length H - 1) j)"
  using assms by (cases x) (simp_all add: drain_view_def last_conv_nth)

lemma versions_commit:
  assumes "versions_ok H" "H \<noteq> []"
  shows "versions_ok (commit k x H)"
  unfolding versions_ok_def
proof (intro allI impI)
  fix i j p n
  assume i: "i < length (commit k x H)" and look: "(commit k x H ! i) j = Some (p, n)"
  show "n \<le> i \<and> (\<forall>m. n \<le> m \<longrightarrow> m \<le> i \<longrightarrow> (commit k x H ! m) j = Some (p, n))"
  proof (cases "i = length H")
    case False
    then have il: "i < length H" "(H ! i) j = Some (p, n)" using i look by auto
    then have "n \<le> i" "\<And>m. n \<le> m \<Longrightarrow> m \<le> i \<Longrightarrow> (H ! m) j = Some (p, n)"
      using assms(1) unfolding versions_ok_def by blast+
    then show ?thesis using il(1) by simp
  next
    case True
    show ?thesis
    proof (cases "j = k")
      case j: True
      then have "n = i" using look True by (auto simp: map_option_case split: option.splits)
      then show ?thesis using look by (auto simp: le_antisym)
    next
      case j: False
      then have "(H ! (length H - 1)) j = Some (p, n)"
        using look True assms(2) by (simp add: last_conv_nth)
      then have old: "n \<le> length H - 1" "\<And>m. n \<le> m \<Longrightarrow> m \<le> length H - 1 \<Longrightarrow> (H ! m) j = Some (p, n)"
        using assms unfolding versions_ok_def by (metis diff_less length_greater_0_conv zero_less_one)+
      have "(commit k x H ! m) j = Some (p, n)" if "n \<le> m" "m \<le> length H" for m
        using old(2) [of m] that look True by (cases "m = length H") auto
      then show ?thesis using old(1) True by auto
    qed
  qed
qed

lemma requested_commit:
  assumes "requested H" "H \<noteq> []"
    "\<And>p. x = Some p \<Longrightarrow> (drain_Acknowledged p \<longrightarrow> drain_Started p) \<and> (drain_Finished p \<longrightarrow> drain_Acknowledged p)"
  shows "requested (commit k x H)"
  unfolding requested_def
proof (intro allI impI)
  fix i j p n
  assume i: "i < length (commit k x H)" and look: "(commit k x H ! i) j = Some (p, n)"
  show "(drain_Acknowledged p \<longrightarrow> drain_Started p) \<and> (drain_Finished p \<longrightarrow> drain_Acknowledged p)"
  proof (cases "i = length H \<and> j = k")
    case True
    then show ?thesis using look assms(3) by (auto simp: map_option_case split: option.splits)
  next
    case False
    define i' where "i' = (if i = length H then length H - 1 else i)"
    have "(H ! i') j = Some (p, n)" "i' < length H"
      using False i look assms(2) by (auto simp: i'_def last_conv_nth less_Suc_eq)
    then show ?thesis using assms(1) unfolding requested_def by blast
  qed
qed

lemma plan_commit: "v < length H \<Longrightarrow> plan_ok H v ws \<Longrightarrow> plan_ok (commit k x H) v ws"
  by (simp add: plan_ok_def)

lemma grows_commit:
  assumes "grows H v" "v < length H"
    "advanced (drain_view (\<lambda>_. x) k) \<Longrightarrow> \<forall>i. v \<le> i \<longrightarrow> i < length H \<longrightarrow>
       state_at H i k = Some DrainingState \<or> advanced (state_at H i k)"
  shows "grows (commit k x H) v"
  unfolding grows_def
proof (intro allI impI)
  fix i j m
  assume i: "v \<le> i" "i \<le> j" "j < length (commit k x H)" and adv: "advanced (state_at (commit k x H) j m)"
  have ne: "H \<noteq> []" using assms(2) by auto
  show "state_at (commit k x H) i m = Some DrainingState \<or> advanced (state_at (commit k x H) i m)"
  proof (cases "i = length H")
    case True
    then show ?thesis using i adv by (simp add: le_antisym less_Suc_eq_le)
  next
    case False
    then have il: "i < length H" using i by simp
    consider "j < length H" | "j = length H" "m \<noteq> k" | "j = length H" "m = k"
      using i(3) by fastforce
    then show ?thesis
    proof cases
      case 1
      then show ?thesis using assms(1) i adv il unfolding grows_def by (metis state_at_old)
    next
      case 2
      then have "advanced (state_at H (length H - 1) m)"
        using adv by (simp only: state_at_new [OF ne] if_False)
      moreover have "i \<le> length H - 1" "length H - 1 < length H" using il by auto
      ultimately show ?thesis using assms(1) i(1) il unfolding grows_def by (metis state_at_old)
    next
      case 3
      then have "advanced (drain_view (\<lambda>_. x) k)"
        using adv unfolding 3 state_at_new [OF ne] by simp
      then show ?thesis using assms(3) i(1) il 3 by (metis state_at_old)
    qed
  qed
qed

lemma least_first_commit:
  assumes "least_first H v" "v < length H"
    "drain_view (\<lambda>_. x) k = Some FinishedState \<Longrightarrow> \<forall>i. v \<le> i \<longrightarrow> i < length H \<longrightarrow>
       state_at H i k = Some FinishedState
       \<or> state_at H i k = Some AcknowledgedState \<and> (\<forall>q. state_at H i q = Some AcknowledgedState \<longrightarrow> k \<le> q)"
  shows "least_first (commit k x H) v"
  unfolding least_first_def
proof (intro allI impI)
  fix i m
  assume i: "v \<le> i" "i < length (commit k x H)"
    and fin: "state_at (commit k x H) (length (commit k x H) - 1) m = Some FinishedState"
  have ne: "H \<noteq> []" using assms(2) by auto
  have fin': "(if m = k then drain_view (\<lambda>_. x) k else state_at H (length H - 1) m) = Some FinishedState"
    using fin state_at_new [OF ne, of k x m] by simp
  show "state_at (commit k x H) i m = Some FinishedState
     \<or> state_at (commit k x H) i m = Some AcknowledgedState
       \<and> (\<forall>q. state_at (commit k x H) i q = Some AcknowledgedState \<longrightarrow> m \<le> q)"
  proof (cases "i = length H")
    case True
    then show ?thesis using fin by simp
  next
    case False
    then have il: "i < length H" using i by simp
    have "state_at H i m = Some FinishedState
      \<or> state_at H i m = Some AcknowledgedState \<and> (\<forall>q. state_at H i q = Some AcknowledgedState \<longrightarrow> m \<le> q)"
      using assms(1,3) i(1) il fin' unfolding least_first_def by (cases "m = k") auto
    then show ?thesis by (simp only: state_at_old [OF il])
  qed
qed

lemma one_finished_commit:
  assumes "one_finished H" "H \<noteq> []"
    "drain_view (\<lambda>_. x) k = Some FinishedState \<Longrightarrow>
       \<forall>j. j \<noteq> k \<longrightarrow> state_at H (length H - 1) j \<noteq> Some FinishedState"
  shows "one_finished (commit k x H)"
proof -
  have "state_at (commit k x H) (length (commit k x H) - 1) m =
      (if m = k then drain_view (\<lambda>_. x) k else state_at H (length H - 1) m)" for m
    using state_at_new [OF assms(2), of k x m] by simp
  then show ?thesis
    using assms(1,3) unfolding one_finished_def by metis
qed

text \<open>
  Every change to the server: it keeps the invariant when what it makes of the Pod is acceptable, in
  terms of the states of that Pod since the view.
\<close>

lemma commit_inv:
  assumes inv: "proto_inv s"
    and req: "\<And>p. x = Some p \<Longrightarrow> (drain_Acknowledged p \<longrightarrow> drain_Started p) \<and> (drain_Finished p \<longrightarrow> drain_Acknowledged p)"
    and adv: "advanced (drain_view (\<lambda>_. x) k) \<Longrightarrow> \<forall>i. seen s \<le> i \<longrightarrow> i < length (history s) \<longrightarrow>
       state_at (history s) i k = Some DrainingState \<or> advanced (state_at (history s) i k)"
    and fin: "drain_view (\<lambda>_. x) k = Some FinishedState \<Longrightarrow>
       (\<forall>j. j \<noteq> k \<longrightarrow> state_at (history s) (length (history s) - 1) j \<noteq> Some FinishedState) \<and>
       (\<forall>i. seen s \<le> i \<longrightarrow> i < length (history s) \<longrightarrow>
         state_at (history s) i k = Some FinishedState
         \<or> state_at (history s) i k = Some AcknowledgedState
           \<and> (\<forall>q. state_at (history s) i q = Some AcknowledgedState \<longrightarrow> k \<le> q))"
  shows "proto_inv (s\<lparr>history := commit k x (history s)\<rparr>)"
proof -
  note I = inv [unfolded proto_inv_def Let_def]
  have v: "seen s < length (history s)" and ne: "history s \<noteq> []" using I by auto
  show ?thesis
    unfolding proto_inv_def Let_def
    using versions_commit [OF _ ne] requested_commit [OF _ ne req] grows_commit [OF _ v adv]
      least_first_commit [OF _ v] one_finished_commit [OF _ ne] plan_commit [OF v] I v fin
    by simp
qed

section \<open>Every step keeps the invariant\<close>

lemma drain_view_const:
  "drain_view (\<lambda>_. None) k = None"
  "drain_view (\<lambda>_. Some p) k = (if drain_Started p then Some (fst (GetState p)) else None)"
  by (simp_all add: drain_view_def)

lemma GetState_advanced:
  "advanced (Some (fst (GetState p))) \<longleftrightarrow> drain_Acknowledged p \<or> drain_Finished p"
  by (simp add: GetState_def)

lemma inv_init: "initial s \<Longrightarrow> proto_inv s"
  by (auto simp: initial_def proto_inv_def Let_def versions_ok_def requested_def grows_def least_first_def
      one_finished_def plan_ok_def drain_view_def GetState_def split: option.splits if_splits)

lemma inv_create:
  assumes "proto_inv s" "\<not> drain_Acknowledged p" "\<not> drain_Finished p"
  shows "proto_inv (s\<lparr>history := commit k (Some p) (history s)\<rparr>)"
  by (rule commit_inv [OF assms(1)])
    (use assms(2,3) GetState_advanced [of p] in \<open>auto simp: drain_view_const split: if_splits\<close>)

lemma inv_delete: "proto_inv s \<Longrightarrow> proto_inv (s\<lparr>history := commit k None (history s)\<rparr>)"
  by (rule commit_inv) (simp_all add: drain_view_const)

lemma last_world: "v < length H \<Longrightarrow> last H = H ! (length H - 1) \<and> length H - 1 < length H"
  by (cases "H = []") (simp_all add: last_conv_nth)

lemma requestedD:
  "requested H \<Longrightarrow> i < length H \<Longrightarrow> (H ! i) k = Some (p, n) \<Longrightarrow>
     (drain_Acknowledged p \<longrightarrow> drain_Started p) \<and> (drain_Finished p \<longrightarrow> drain_Acknowledged p)"
  unfolding requested_def by blast

lemma versions_const:
  "versions_ok H \<Longrightarrow> i < length H \<Longrightarrow> (H ! i) k = Some (p, n) \<Longrightarrow> n \<le> j \<Longrightarrow> j \<le> i \<Longrightarrow> (H ! j) k = Some (p, n)"
  unfolding versions_ok_def by blast

lemma versions_le: "versions_ok H \<Longrightarrow> i < length H \<Longrightarrow> (H ! i) k = Some (p, n) \<Longrightarrow> n \<le> i"
  unfolding versions_ok_def by blast

lemma inv_external:
  assumes inv: "proto_inv s" and look: "last (history s) k = Some (p, n)" and ext: "external_update p p'"
  shows "proto_inv (s\<lparr>history := commit k (Some p') (history s)\<rparr>)"
proof -
  let ?H = "history s" and ?v = "seen s"
  note I = inv [unfolded proto_inv_def Let_def]
  have v: "?v < length ?H" using I by blast
  have req: "(drain_Acknowledged p \<longrightarrow> drain_Started p) \<and> (drain_Finished p \<longrightarrow> drain_Acknowledged p)"
    by (rule requestedD [of ?H "length ?H - 1" k p n]) (use I look last_world [OF v] in auto)
  have same: "drain_view (\<lambda>_. Some p') k = state_at ?H (length ?H - 1) k" if "advanced (drain_view (\<lambda>_. Some p') k)"
  proof -
    have "(?H ! (length ?H - 1)) k = Some (p, n)"
      using look last_world [OF v] by simp
    then show ?thesis
      using that ext req
      by (auto simp: drain_view_def external_update_def GetState_def split: if_splits)
  qed
  show ?thesis
  proof (rule commit_inv [OF inv])
    show "(drain_Acknowledged q \<longrightarrow> drain_Started q) \<and> (drain_Finished q \<longrightarrow> drain_Acknowledged q)"
      if "Some p' = Some q" for q
      using that req ext by (auto simp: external_update_def)
    show "\<forall>i. ?v \<le> i \<longrightarrow> i < length ?H \<longrightarrow> state_at ?H i k = Some DrainingState \<or> advanced (state_at ?H i k)"
      if "advanced (drain_view (\<lambda>_. Some p') k)"
    proof (intro allI impI)
      fix i assume "?v \<le> i" "i < length ?H"
      moreover have "i \<le> length ?H - 1" "length ?H - 1 < length ?H" using \<open>i < length ?H\<close> by auto
      moreover have "grows ?H ?v" using I by blast
      ultimately show "state_at ?H i k = Some DrainingState \<or> advanced (state_at ?H i k)"
        unfolding grows_def using that same [OF that] by metis
    qed
    show "(\<forall>j. j \<noteq> k \<longrightarrow> state_at ?H (length ?H - 1) j \<noteq> Some FinishedState) \<and>
       (\<forall>i. ?v \<le> i \<longrightarrow> i < length ?H \<longrightarrow> state_at ?H i k = Some FinishedState
         \<or> state_at ?H i k = Some AcknowledgedState \<and> (\<forall>q. state_at ?H i q = Some AcknowledgedState \<longrightarrow> k \<le> q))"
      if fin: "drain_view (\<lambda>_. Some p') k = Some FinishedState"
    proof -
      have "state_at ?H (length ?H - 1) k = Some FinishedState" using same fin by simp
      moreover have "one_finished ?H" "least_first ?H ?v" using I by blast+
      ultimately show ?thesis unfolding one_finished_def least_first_def by blast
    qed
  qed
qed

lemma inv_pass:
  assumes inv: "proto_inv s" and v: "seen s \<le> v" "v < length (history s)"
    and ok: "drain_env_ok env" and pods: "list_pods env = Inr podList"
      "map_of (pods_by_alias env podList) = pods_at (history s) v"
    and run: "reconcileDrain env = Some (tr, r)"
  shows "proto_inv (s\<lparr>seen := v, planned := update_effects tr\<rparr>)"
proof -
  let ?H = "history s"
  note I = inv [unfolded proto_inv_def Let_def]
  have g: "grows ?H v" using I v(1) unfolding grows_def by (meson order_trans)
  have l: "least_first ?H v" using I v(1) unfolding least_first_def by (meson order_trans)
  have noabort: "\<not> aborted p" if "pods_at ?H v k = Some p" for k p
    using that I v(2) unfolding aborted_def by (auto dest: requestedD)
  have "plan_ok ?H v (update_effects tr)"
    using ok
  proof (cases rule: reconcileDrain_cases)
    case (quiet tr1 r1)
    then show ?thesis using run by (simp add: quiet_def plan_ok_def)
  next
    case (abort tr1 r1 shard tablets pods)
    then have eq: "map_of pods = pods_at ?H v" using pods by (auto simp: active_pass_def)
    then show ?thesis using abort(3) noabort unfolding eq by blast
  next
    case (advance tr1 r1 shard tablets pods)
    then have "map_of pods = pods_at ?H v" using pods by (auto simp: active_pass_def)
    then show ?thesis
      using advance(1,4) run
      by (fastforce simp: plan_ok_def allowed_advance_def transition_write_def Let_def)
  qed
  then show ?thesis
    using I g l v(2) by (simp add: proto_inv_def Let_def)
qed

lemma inv_write_pod:
  assumes inv: "proto_inv s" and plan: "(k, p') \<in> planned s" and old: "(history s ! seen s) k = Some (p, n)"
    and cur: "last (history s) k = Some (q, n)"
  shows "proto_inv (s\<lparr>history := commit k (Some p') (history s)\<rparr>)"
proof -
  let ?H = "history s" and ?v = "seen s"
  note I = inv [unfolded proto_inv_def Let_def]
  have v: "?v < length ?H" and vers: "versions_ok ?H" and grow: "grows ?H ?v"
    and least: "least_first ?H ?v" using I by blast+
  have last: "(?H ! (length ?H - 1)) k = Some (q, n)" "length ?H - 1 < length ?H"
    using cur last_world [OF v] by simp_all
  have nv: "n \<le> ?v" by (rule versions_le [OF vers v old])
  have const: "(?H ! i) k = Some (q, n)" if "?v \<le> i" "i < length ?H" for i
    by (rule versions_const [OF vers last(2,1)]) (use nv that in auto)
  then have q: "q = p" using old v by force
  have state: "state_at ?H i k = state_at ?H ?v k" if "?v \<le> i" "i < length ?H" for i
    using const [OF that] const [OF order_refl v] by (simp add: drain_view_def)
  obtain now where st: "drain_Started p" and move:
     "transitions_of (state_at ?H ?v) k = Some AcknowledgedState \<and> p' = drain_Acknowledge now p
      \<or> transitions_of (state_at ?H ?v) k = Some FinishedState \<and> p' = drain_Finish now p"
    using I plan old unfolding plan_ok_def by fastforce
  have vk: "state_at ?H ?v k = Some (fst (GetState p))"
    using old st by (simp add: drain_view_def)
  have seen_k: "state_at ?H ?v k = Some DrainingState \<or> advanced (state_at ?H ?v k)"
    using move by (auto simp: transitions_of_Acknowledged transitions_of_Finished)
  have finish: "p' = drain_Finish now p" "transitions_of (state_at ?H ?v) k = Some FinishedState"
    if "drain_Finished p'"
  proof -
    have "\<not> (state_at ?H ?v k = Some DrainingState \<and> p' = drain_Acknowledge now p)"
      using that vk by (auto simp: drain_defs GetState_def split: if_splits)
    then show "p' = drain_Finish now p" "transitions_of (state_at ?H ?v) k = Some FinishedState"
      using move by (auto simp: transitions_of_Acknowledged)
  qed
  show ?thesis
  proof (rule commit_inv [OF inv])
    show "(drain_Acknowledged r \<longrightarrow> drain_Started r) \<and> (drain_Finished r \<longrightarrow> drain_Acknowledged r)"
      if "Some p' = Some r" for r
    proof -
      have "drain_Finished p' \<Longrightarrow> drain_Acknowledged p"
        using finish(2) vk by (auto simp: transitions_of_Finished GetState_def split: if_splits)
      then show ?thesis using that st move by (auto simp: drain_defs)
    qed
    show "\<forall>i. ?v \<le> i \<longrightarrow> i < length ?H \<longrightarrow> state_at ?H i k = Some DrainingState \<or> advanced (state_at ?H i k)"
      using state seen_k by metis
    show "(\<forall>j. j \<noteq> k \<longrightarrow> state_at ?H (length ?H - 1) j \<noteq> Some FinishedState) \<and>
       (\<forall>i. ?v \<le> i \<longrightarrow> i < length ?H \<longrightarrow> state_at ?H i k = Some FinishedState
         \<or> state_at ?H i k = Some AcknowledgedState \<and> (\<forall>q. state_at ?H i q = Some AcknowledgedState \<longrightarrow> k \<le> q))"
      if fin: "drain_view (\<lambda>_. Some p') k = Some FinishedState"
    proof -
      have "drain_Finished p'" using fin by (auto simp: drain_view_const GetState_def split: if_splits)
      then have t: "state_at ?H ?v k = Some AcknowledgedState"
          "\<And>j. state_at ?H ?v j \<noteq> Some DrainingState \<and> state_at ?H ?v j \<noteq> Some FinishedState"
          "\<And>j. state_at ?H ?v j = Some AcknowledgedState \<Longrightarrow> k \<le> j"
        using finish(2) by (auto simp: transitions_of_Finished)
      have low: "k \<le> j" if "?v \<le> i" "i < length ?H" "state_at ?H i j = Some AcknowledgedState" for i j
        using grow that t(2,3) unfolding grows_def by (metis order_refl)
      have none: "state_at ?H (length ?H - 1) j \<noteq> Some FinishedState" if "j \<noteq> k" for j
      proof
        assume "state_at ?H (length ?H - 1) j = Some FinishedState"
        then have "state_at ?H ?v j = Some AcknowledgedState" "j \<le> k"
          using least v t(1,2) unfolding least_first_def by (metis order_refl)+
        then show False using t(3) that by force
      qed
      show ?thesis using state t(1) low none by auto
    qed
  qed
qed

lemma reachable_inv: "drain_reachable s \<Longrightarrow> proto_inv s"
proof (induction rule: drain_reachable.induct)
  case (init s)
  then show ?case by (rule inv_init)
next
  case (step s s')
  from step(2) step(3) show ?case
    by (cases rule: drain_step.cases)
      (auto intro: inv_create inv_delete inv_external inv_pass inv_write_pod)
qed

section \<open>Properties\<close>

text \<open>C1: In every reachable state of the system at most one Pod of the shard is marked as finished,
  whatever the drainers do (short of withdrawing a request that was already acknowledged), however
  far the controller's cache lags behind, and in whatever order its writes reach the API server.\<close>

theorem at_most_one_finished:
  assumes "drain_reachable s" "last (history s) k = Some (p, n)" "last (history s) j = Some (q, m)"
    "drain_Finished p" "drain_Finished q"
  shows "k = j"
proof -
  note I = reachable_inv [OF assms(1), unfolded proto_inv_def Let_def]
  let ?H = "history s"
  have len: "?H ! (length ?H - 1) = last ?H" "length ?H - 1 < length ?H"
    using I last_world [of "seen s" ?H] by auto
  have fin: "state_at ?H (length ?H - 1) k = Some FinishedState"
    if "last ?H k = Some (p, n)" "drain_Finished p" for k p n
  proof -
    have "(drain_Acknowledged p \<longrightarrow> drain_Started p) \<and> (drain_Finished p \<longrightarrow> drain_Acknowledged p)"
      by (rule requestedD [of ?H "length ?H - 1" k p n]) (use I len that in auto)
    then show ?thesis using that len(1) by (simp add: drain_view_def GetState_def)
  qed
  have "one_finished ?H" using I by blast
  then show ?thesis
    using fin [OF assms(2,4)] fin [OF assms(3,5)] unfolding one_finished_def by blast
qed

section \<open>A run\<close>

text \<open>Two drains are requested at once; both are acknowledged, one is finished.\<close>

definition run_env :: "pod list \<Rightarrow> string drain_env" where
  "run_env pods =
     \<lparr>env_visit = (\<lambda>n ks. ks), alias_String = fst, env_now = ''t1'', list_pods = Inr pods,
      get_shard = Inr \<lparr>si_HasPrimary = True, si_PrimaryAlias = (''z3'', 7)\<rparr>, get_tablets = Inr [],
      status_tablets = [], using_external = False, mysqld_image = [], update_pod = (\<lambda>k. None),
      execute_fetch = (\<lambda>k. None), arrival = rev, replication_position = (\<lambda>t. None),
      position_IsZero = (\<lambda>p. p = []), position_AtLeast = (\<lambda>p q. True), zero_position = [],
      reparent_ok = (\<lambda>a. True), external_reparent_ok = (\<lambda>a. True), change_type_ok = (\<lambda>a. True)\<rparr>"

definition run_pod :: "string \<Rightarrow> pod" where
  "run_pod cell = drain_Start \<lparr>annotations = None, pod_name = cell, pod_labels = [CellLabel \<mapsto> cell],
     pod_containers = [], pod_Ready = True\<rparr> ''node upgrade''"

abbreviation acked_pod :: "string \<Rightarrow> pod" where
  "acked_pod cell \<equiv> drain_Acknowledge ''t1'' (run_pod cell)"

lemma run_env_simps [simp]:
  "drain_env_ok (run_env pods)" "list_pods (run_env pods) = Inr pods" "env_now (run_env pods) = ''t1''"
  by (simp_all add: drain_env_ok_def run_env_def visits_id)

lemma run_pods:
  "AliasFromPod p = (''z1'', a) \<Longrightarrow> AliasFromPod q = (''z2'', b) \<Longrightarrow>
     map_of (pods_by_alias (run_env [p, q]) [p, q]) = [''z1'' \<mapsto> p, ''z2'' \<mapsto> q]"
  by (simp add: pods_by_alias_def run_env_def fun_eq_iff)

lemma run_pod_simps [simp]:
  "fst (AliasFromPod (run_pod c)) = c" "AliasFromPod (drain_Acknowledge now p) = AliasFromPod p"
  "drain_Started (run_pod c)" "\<not> drain_Acknowledged (run_pod c)" "\<not> drain_Finished (run_pod c)"
  by (simp_all add: AliasFromPod_def run_pod_def label_of_def CellLabel_def drain_defs ann_put_def ann_has_def
      drain_annotation_names)

lemma run_pod_alias: "\<exists>u. AliasFromPod (run_pod c) = (c, u)"
  by (metis prod.collapse run_pod_simps(1))

lemma run_pass_1:
  "case reconcileDrain (run_env [run_pod ''z1'', run_pod ''z2'']) of
     None \<Rightarrow> False
   | Some (tr, r) \<Rightarrow> (case tr of [] \<Rightarrow> False | e # tr' \<Rightarrow> (case tr' of [] \<Rightarrow> False | e' # es \<Rightarrow>
       (case e of UpdatePod k p \<Rightarrow> k = ''z1'' \<and> drain_Acknowledged p \<and> \<not> drain_Finished p | _ \<Rightarrow> False) \<and>
       (case e' of UpdatePod j q \<Rightarrow> j = ''z2'' \<and> drain_Acknowledged q \<and> \<not> drain_Finished q | _ \<Rightarrow> False)))"
  by code_simp

lemma run_pass_2:
  "case reconcileDrain (run_env [acked_pod ''z1'', acked_pod ''z2'']) of
     Some (UpdatePod k p # es, r) \<Rightarrow> k = ''z1'' \<and> drain_Finished p
   | _ \<Rightarrow> False"
  by code_simp

lemma acknowledging_write:
  assumes "drain_env_ok env" "reconcileDrain env = Some (tr, r)" "UpdatePod k p' \<in> set tr"
    "drain_Acknowledged p'" "\<not> drain_Finished p'" "list_pods env = Inr podList"
  shows "\<exists>p. map_of (pods_by_alias env podList) k = Some p \<and> p' = drain_Acknowledge (env_now env) p"
  using assms(1)
proof (cases rule: reconcileDrain_cases)
  case (quiet tr1 r1)
  then show ?thesis using assms(2,3) by (auto simp: quiet_def update_effects_def)
next
  case (abort tr1 r1 shard tablets pods)
  have "(k, p') \<in> update_effects tr1"
    using abort(1) assms(2,3) by (simp add: update_effects_def)
  then show ?thesis using assms(4) unfolding abort(4) by (auto simp: cleared_def aborted_def drain_defs)
next
  case (advance tr1 r1 shard tablets pods)
  then show ?thesis
    using assms(2-6) by (fastforce simp: allowed_advance_def update_effects_def transition_write_def
        active_pass_def Let_def drain_defs)
qed

definition run_world :: "pod \<Rightarrow> nat \<Rightarrow> pod \<Rightarrow> nat \<Rightarrow> world" where
  "run_world p n q m = [''z1'' \<mapsto> (p, n), ''z2'' \<mapsto> (q, m)]"

lemma run_plan_1:
  "\<exists>tr r. reconcileDrain (run_env [run_pod ''z1'', run_pod ''z2'']) = Some (tr, r)
     \<and> (''z1'', acked_pod ''z1'') \<in> update_effects tr \<and> (''z2'', acked_pod ''z2'') \<in> update_effects tr"
proof -
  obtain p q es r where run: "reconcileDrain (run_env [run_pod ''z1'', run_pod ''z2'']) =
      Some (UpdatePod ''z1'' p # UpdatePod ''z2'' q # es, r)"
      "drain_Acknowledged p" "drain_Acknowledged q" "\<not> drain_Finished p" "\<not> drain_Finished q"
    using run_pass_1 by (auto split: option.splits prod.splits list.splits drain_effect.splits)
  obtain a b where al: "AliasFromPod (run_pod ''z1'') = (''z1'', a)" "AliasFromPod (run_pod ''z2'') = (''z2'', b)"
    using run_pod_alias by metis
  have "p = acked_pod ''z1''" "q = acked_pod ''z2''"
    using acknowledging_write [OF run_env_simps(1) run(1) _ run(2,4), of "''z1''"]
      acknowledging_write [OF run_env_simps(1) run(1) _ run(3,5), of "''z2''"] run_pods [OF al]
    by simp_all
  then show ?thesis
    using run(1) by (intro exI [of _ "UpdatePod ''z1'' p # UpdatePod ''z2'' q # es"] exI [of _ r]) simp
qed

lemma run_plan_2:
  "\<exists>tr r p. reconcileDrain (run_env [acked_pod ''z1'', acked_pod ''z2'']) = Some (tr, r)
     \<and> (''z1'', p) \<in> update_effects tr \<and> drain_Finished p"
proof -
  obtain p es r where "reconcileDrain (run_env [acked_pod ''z1'', acked_pod ''z2'']) =
      Some (UpdatePod ''z1'' p # es, r)" "drain_Finished p"
    using run_pass_2 by (auto split: option.splits prod.splits list.splits drain_effect.splits)
  then show ?thesis
    by (intro exI [of _ "UpdatePod ''z1'' p # es"] exI [of _ r] exI [of _ p]) simp
qed

lemma pass_reachable:
  assumes "drain_reachable s" "seen s \<le> v" "v < length (history s)"
    "map_of (pods_by_alias (run_env ps) ps) = pods_at (history s) v"
    "reconcileDrain (run_env ps) = Some (tr, r)"
  shows "drain_reachable (s\<lparr>seen := v, planned := update_effects tr\<rparr>)"
  using assms by (intro drain_reachable.step [OF assms(1)] drain_step.pass [of s v "run_env ps"]) auto

lemma write_reachable:
  assumes "drain_reachable s" "(k, p') \<in> planned s" "(history s ! seen s) k = Some (p, n)"
    "last (history s) k = Some (q, n)"
  shows "drain_reachable (s\<lparr>history := commit k (Some p') (history s)\<rparr>)"
  using assms by (intro drain_reachable.step [OF assms(1)] drain_step.write_pod)

lemma run_reachable:
  "\<exists>s p. drain_reachable s \<and> last (history s) = run_world p 3 (acked_pod ''z2'') 2 \<and> drain_Finished p"
proof -
  let ?P = "run_pod ''z1''" and ?Q = "run_pod ''z2''" and ?A = "acked_pod ''z1''" and ?B = "acked_pod ''z2''"
  obtain tr r where plan1: "reconcileDrain (run_env [?P, ?Q]) = Some (tr, r)"
      "(''z1'', ?A) \<in> update_effects tr" "(''z2'', ?B) \<in> update_effects tr"
    using run_plan_1 by blast
  obtain tr' r' F where plan2: "reconcileDrain (run_env [?A, ?B]) = Some (tr', r')"
      "(''z1'', F) \<in> update_effects tr'" "drain_Finished F"
    using run_plan_2 by blast
  obtain a b where al: "AliasFromPod ?P = (''z1'', a)" "AliasFromPod ?Q = (''z2'', b)"
    using run_pod_alias by metis
  have pods: "map_of (pods_by_alias (run_env [?P, ?Q]) [?P, ?Q]) = [''z1'' \<mapsto> ?P, ''z2'' \<mapsto> ?Q]"
      "map_of (pods_by_alias (run_env [?A, ?B]) [?A, ?B]) = [''z1'' \<mapsto> ?A, ''z2'' \<mapsto> ?B]"
    by (rule run_pods; simp add: al)+
  define s0 where "s0 = \<lparr>history = [run_world ?P 0 ?Q 0], seen = 0, planned = {}\<rparr>"
  have "drain_reachable s0"
    by (rule drain_reachable.init) (auto simp: s0_def initial_def run_world_def split: if_splits)
  then have "drain_reachable (s0\<lparr>seen := 0, planned := update_effects tr\<rparr>)"
    by (rule pass_reachable [OF _ _ _ _ plan1(1)]) (auto simp: pods s0_def run_world_def fun_eq_iff)
  then have r1: "drain_reachable \<lparr>history = [run_world ?P 0 ?Q 0], seen = 0, planned = update_effects tr\<rparr>"
    by (simp add: s0_def)
  have "drain_reachable \<lparr>history = [run_world ?P 0 ?Q 0, run_world ?A 1 ?Q 0], seen = 0, planned = update_effects tr\<rparr>"
    using write_reachable [OF r1, of "''z1''" ?A ?P 0 ?P] plan1(2)
    by (simp add: run_world_def commit_def fun_upd_twist)
  from write_reachable [OF this, of "''z2''" ?B ?Q 0 ?Q] plan1(3)
  have "drain_reachable \<lparr>history = [run_world ?P 0 ?Q 0, run_world ?A 1 ?Q 0, run_world ?A 1 ?B 2], seen = 0,
      planned = update_effects tr\<rparr>"
    by (simp add: run_world_def commit_def numeral_2_eq_2)
  from pass_reachable [OF this, of 2 "[?A, ?B]" tr' r'] plan2(1)
  have "drain_reachable \<lparr>history = [run_world ?P 0 ?Q 0, run_world ?A 1 ?Q 0, run_world ?A 1 ?B 2], seen = 2,
      planned = update_effects tr'\<rparr>"
    by (simp add: pods run_world_def fun_eq_iff)
  from write_reachable [OF this, of "''z1''" F ?A 1 ?A] plan2(2)
  have "drain_reachable \<lparr>history = [run_world ?P 0 ?Q 0, run_world ?A 1 ?Q 0, run_world ?A 1 ?B 2, run_world F 3 ?B 2],
      seen = 2, planned = update_effects tr'\<rparr>"
    by (simp add: run_world_def commit_def fun_upd_twist eval_nat_numeral)
  then show ?thesis
    using plan2(3) by (intro exI conjI) auto
qed

theorem at_most_one_finished_witness:
  "\<exists>s p. drain_reachable s \<and> drain_Finished p \<and> last (history s) ''z1'' = Some (p, 3)
     \<and> (\<forall>j q m. last (history s) j = Some (q, m) \<longrightarrow> drain_Finished q \<longrightarrow> ''z1'' = j)"
proof -
  obtain s p where "drain_reachable s" "last (history s) ''z1'' = Some (p, 3)" "drain_Finished p"
    using run_reachable by (auto simp: run_world_def)
  then show ?thesis using at_most_one_finished [of s "''z1''" p 3] by blast
qed

end
