(* ===== verification/KeyRange.thy ===== *)
theory KeyRange
  imports Prelude "HOL-Library.Multiset"
begin

text \<open>
  \<open>pkg/apis/planetscale/v2/keyrange.go\<close>: key ranges, their two names and their order.  The
  comparison function that \<open>SortKeyRanges\<close> passes to \<open>sort.Slice\<close> is a strict linear order, so it
  becomes the \<open>linorder\<close> instance of the type and the library's \<open>sort\<close> is \<open>SortKeyRanges\<close>:
  \<open>sort.Slice\<close> is not stable, but a linear order leaves only one sorted permutation.
\<close>

datatype VitessKeyRange = VitessKeyRange (kr_Start: string) (kr_End: string)

definition KeyRange_String :: "VitessKeyRange \<Rightarrow> string" where
  "KeyRange_String kr = kr_Start kr @ ''-'' @ kr_End kr"

definition KeyRange_SafeName :: "VitessKeyRange \<Rightarrow> string" where
  "KeyRange_SafeName kr =
     (let start = (if kr_Start kr = [] then ''x'' else kr_Start kr);
          end' = (if kr_End kr = [] then ''x'' else kr_End kr)
      in start @ ''-'' @ end')"

text \<open>The comparison closure, branch by branch.\<close>

definition key_range_before :: "VitessKeyRange \<Rightarrow> VitessKeyRange \<Rightarrow> bool" where
  "key_range_before a b =
     (if kr_Start a < kr_Start b then True
      else if kr_Start a = kr_Start b then
        (if kr_End a \<noteq> [] \<and> kr_End b = [] then True
         else if kr_End a = [] \<and> kr_End b \<noteq> [] then False
         else if kr_End a < kr_End b then True
         else False)
      else False)"

lemma key_range_before_iff:
  "key_range_before a b \<longleftrightarrow>
     kr_Start a < kr_Start b \<or>
     kr_Start a = kr_Start b \<and> kr_End a \<noteq> kr_End b \<and> kr_End a \<noteq> [] \<and>
       (kr_End b = [] \<or> kr_End a < kr_End b)"
  by (auto simp: key_range_before_def)

instantiation VitessKeyRange :: linorder
begin

definition less_VitessKeyRange :: "VitessKeyRange \<Rightarrow> VitessKeyRange \<Rightarrow> bool" where
  "less_VitessKeyRange a b = key_range_before a b"

definition less_eq_VitessKeyRange :: "VitessKeyRange \<Rightarrow> VitessKeyRange \<Rightarrow> bool" where
  "less_eq_VitessKeyRange a b = (a = b \<or> key_range_before a b)"

instance
proof
  fix a b c :: VitessKeyRange
  show "a < b \<longleftrightarrow> a \<le> b \<and> \<not> b \<le> a"
    by (auto simp: less_VitessKeyRange_def less_eq_VitessKeyRange_def key_range_before_iff)
  show "a \<le> a" by (simp add: less_eq_VitessKeyRange_def)
  show "a \<le> b \<Longrightarrow> b \<le> c \<Longrightarrow> a \<le> c"
    by (auto simp: less_eq_VitessKeyRange_def key_range_before_iff)
  show "a \<le> b \<Longrightarrow> b \<le> a \<Longrightarrow> a = b"
    by (auto simp: less_eq_VitessKeyRange_def key_range_before_iff)
  show "a \<le> b \<or> b \<le> a"
    by (cases a; cases b) (auto simp: less_eq_VitessKeyRange_def key_range_before_iff)
qed

end

definition SortKeyRanges :: "VitessKeyRange list \<Rightarrow> VitessKeyRange list" where
  "SortKeyRanges krs = sort krs"

section \<open>Well-formed bounds\<close>

text \<open>The validation pattern of the resource definition: lower-case hexadecimal digits.\<close>

definition hex_bound :: "string \<Rightarrow> bool" where
  "hex_bound s \<longleftrightarrow> set s \<subseteq> set ''0123456789abcdef''"

definition key_range_ok :: "VitessKeyRange \<Rightarrow> bool" where
  "key_range_ok kr \<longleftrightarrow> hex_bound (kr_Start kr) \<and> hex_bound (kr_End kr)"

lemma hex_bound_chars:
  "hex_bound s \<Longrightarrow> CHR ''-'' \<notin> set s"
  "hex_bound s \<Longrightarrow> CHR ''x'' \<notin> set s"
  by (auto simp: hex_bound_def)

lemma cut_KeyRange_String:
  "CHR ''-'' \<notin> set (kr_Start kr) \<Longrightarrow> cut_at CHR ''-'' (KeyRange_String kr) = Some (kr_Start kr, kr_End kr)"
  by (simp add: KeyRange_String_def cut_at_complete)

definition bound_name :: "string \<Rightarrow> string" where
  "bound_name s = (if s = [] then ''x'' else s)"

lemma SafeName_alt: "KeyRange_SafeName kr = bound_name (kr_Start kr) @ CHR ''-'' # bound_name (kr_End kr)"
  by (simp add: KeyRange_SafeName_def bound_name_def)

lemma bound_name_inj: "hex_bound s \<Longrightarrow> hex_bound t \<Longrightarrow> bound_name s = bound_name t \<Longrightarrow> s = t"
  by (auto simp: bound_name_def dest: hex_bound_chars split: if_splits)

lemma bound_name_no_dash: "hex_bound s \<Longrightarrow> CHR ''-'' \<notin> set (bound_name s)"
  by (auto simp: bound_name_def dest: hex_bound_chars)

lemma cut_SafeName:
  "key_range_ok kr \<Longrightarrow> cut_at CHR ''-'' (KeyRange_SafeName kr) =
     Some (bound_name (kr_Start kr), bound_name (kr_End kr))"
  by (simp add: SafeName_alt key_range_ok_def cut_at_complete bound_name_no_dash)

lemma bound_name_ends: "hex_bound s \<Longrightarrow> bound_name s \<noteq> [] \<and> hd (bound_name s) \<noteq> CHR ''-'' \<and> last (bound_name s) \<noteq> CHR ''-''"
proof -
  assume s: "hex_bound s"
  have "bound_name s \<noteq> []" by (simp add: bound_name_def)
  with bound_name_no_dash [OF s] show ?thesis by (metis hd_in_set last_in_set)
qed

section \<open>Properties\<close>

text \<open>\<open>SafeName\<close> is injective on valid key ranges, so two different shards never get the same
  label or object name from it, and it never begins or ends with a dash.\<close>

theorem SafeName_injective:
  assumes "key_range_ok a" "key_range_ok b"
  shows "(KeyRange_SafeName a = KeyRange_SafeName b) = (a = b)
     \<and> hd (KeyRange_SafeName a) \<noteq> CHR ''-'' \<and> last (KeyRange_SafeName a) \<noteq> CHR ''-''"
proof -
  have "a = b" if "KeyRange_SafeName a = KeyRange_SafeName b"
  proof -
    from that have "cut_at CHR ''-'' (KeyRange_SafeName a) = cut_at CHR ''-'' (KeyRange_SafeName b)"
      by simp
    then show "a = b"
      using assms by (auto simp: cut_SafeName key_range_ok_def intro: VitessKeyRange.expand bound_name_inj)
  qed
  moreover have "hd (KeyRange_SafeName a) \<noteq> CHR ''-'' \<and> last (KeyRange_SafeName a) \<noteq> CHR ''-''"
    using assms(1) bound_name_ends by (auto simp: SafeName_alt key_range_ok_def hd_append)
  ultimately show ?thesis by blast
qed

lemma SafeName_injective_witness:
  "KeyRange_SafeName (VitessKeyRange [] ''80'') \<noteq> KeyRange_SafeName (VitessKeyRange ''80'' [])"
  using SafeName_injective [of "VitessKeyRange [] ''80''" "VitessKeyRange ''80'' []"]
  by (simp add: key_range_ok_def hex_bound_def)

text \<open>\<open>SortKeyRanges\<close> returns the one permutation of its argument in which starts ascend and,
  for equal starts, ends ascend with the unbounded end last; two inputs give the same list exactly
  when they are permutations of each other.\<close>

theorem SortKeyRanges_canonical:
  "mset (SortKeyRanges krs) = mset krs \<and> sorted_wrt (\<lambda>a b. \<not> key_range_before b a) (SortKeyRanges krs)
   \<and> (SortKeyRanges krs' = SortKeyRanges krs) = (mset krs' = mset krs)"
proof (intro conjI)
  show "mset (SortKeyRanges krs) = mset krs" by (simp add: SortKeyRanges_def)
  show "sorted_wrt (\<lambda>a b. \<not> key_range_before b a) (SortKeyRanges krs)"
    unfolding SortKeyRanges_def
    by (rule sorted_wrt_mono_rel [OF _ sorted_sort])
      (auto simp: less_VitessKeyRange_def [symmetric] not_less)
  show "(SortKeyRanges krs' = SortKeyRanges krs) = (mset krs' = mset krs)"
    unfolding SortKeyRanges_def
    by (metis mset_sort properties_for_sort sorted_sort)
qed

end
