(* ===== verification/Shard.thy ===== *)
theory Shard
  imports Kube KeyRange
begin

text \<open>
  The VitessShard API type and its methods (\<open>pkg/apis/planetscale/v2/vitessshard_types.go\<close>,
  \<open>vitessshard_methods.go\<close>, \<open>vitessshard_defaults.go\<close>).  \<open>int32\<close> is \<open>32 word\<close>, compared as signed;
  a field no modelled code looks into is \<open>opaque\<close>.  Conditions are kept by the interface
  \<open>condition_store\<close>, which the shard implements with a map and the keyspace with a list.
\<close>

section \<open>Labels\<close>

text \<open>\<open>pkg/apis/planetscale/v2/labels.go\<close>.\<close>

definition ComponentLabel :: string where "ComponentLabel = ''planetscale.com/component''"
definition ClusterLabel :: string where "ClusterLabel = ''planetscale.com/cluster''"
definition KeyspaceLabel :: string where "KeyspaceLabel = ''planetscale.com/keyspace''"
definition ShardLabel :: string where "ShardLabel = ''planetscale.com/shard''"

section \<open>Conditions\<close>

record condition =
  cd_Status :: cond_status
  cd_LastTransitionTime :: "int option"
  cd_Reason :: string
  cd_Message :: string

definition new_condition :: "int \<Rightarrow> condition" where
  "new_condition now = \<lparr>cd_Status = CondUnknown, cd_LastTransitionTime = Some now, cd_Reason = [], cd_Message = []\<rparr>"

text \<open>The body both \<open>SetConditionStatus\<close> methods share: reason and message always, the time on a change.\<close>

definition update_condition :: "int \<Rightarrow> cond_status \<Rightarrow> string \<Rightarrow> string \<Rightarrow> condition \<Rightarrow> condition" where
  "update_condition now newStatus reason message cond =
     (let cond = cond\<lparr>cd_Reason := reason, cd_Message := message\<rparr>
      in if cd_Status cond \<noteq> newStatus
         then cond\<lparr>cd_Status := newStatus, cd_LastTransitionTime := Some now\<rparr> else cond)"

text \<open>\<open>StatusDuration\<close>: zero when the time of the last transition is not known.\<close>

definition StatusDuration :: "int \<Rightarrow> condition \<Rightarrow> int" where
  "StatusDuration now c = (case cd_LastTransitionTime c of None \<Rightarrow> 0 | Some t \<Rightarrow> now - t)"

locale condition_store =
  fixes get :: "'s \<Rightarrow> 'k \<Rightarrow> condition option"
    and set_status :: "int \<Rightarrow> 'k \<Rightarrow> cond_status \<Rightarrow> string \<Rightarrow> string \<Rightarrow> 's \<Rightarrow> 's"
  assumes get_set: "get (set_status now k st r m s) j =
      (if j = k then Some (update_condition now st r m (case get s k of None \<Rightarrow> new_condition now | Some c \<Rightarrow> c))
       else get s j)"
begin

lemma set_status_reads: "\<exists>c. get (set_status now k st r m s) k = Some c \<and> cd_Status c = st
    \<and> cd_Reason c = r \<and> cd_Message c = m"
  by (simp add: get_set update_condition_def Let_def)

text \<open>The clock of a condition runs from the last change of its status, however often it is set.\<close>

lemma duration_since_change:
  assumes "get s k = Some c" "cd_Status c = st"
  shows "\<exists>c'. get (set_status now k st r m s) k = Some c' \<and> StatusDuration t c' = StatusDuration t c"
  using assms by (simp add: get_set update_condition_def StatusDuration_def Let_def)

lemma duration_restarts:
  assumes "get s k = Some c" "cd_Status c \<noteq> st"
  shows "\<exists>c'. get (set_status now k st r m s) k = Some c' \<and> StatusDuration t c' = t - now"
  using assms by (simp add: get_set update_condition_def StatusDuration_def Let_def)

lemma others_unchanged: "j \<noteq> k \<Longrightarrow> get (set_status now k st r m s) j = get s j"
  by (simp add: get_set)

end

section \<open>The types\<close>

record pvc_spec =
  pvc_requests :: resource_list
  pvc_rest :: opaque

record vttablet_spec =
  vt_resources :: resource_requirements
  vt_extraFlags :: "(string, string) gomap"
  vt_vtbackupExtraFlags :: "(string, string) gomap"
  vt_lifecycle :: opaque
  vt_terminationGracePeriod :: "int option"

record mysqld_spec =
  my_resources :: resource_requirements
  my_configOverrides :: string

record exporter_spec =
  me_extraFlags :: "(string, string) gomap"
  me_resources :: listed_resources

record external_datastore =
  ed_User :: string
  ed_Host :: string
  ed_Port :: "32 word"
  ed_Database :: string
  ed_CredentialsSecret :: SecretSource
  ed_ServerCACertSecret :: "SecretSource option"

record tablet_pool =
  tp_Cell :: string
  tp_Type :: string
  tp_Name :: string
  tp_Replicas :: "32 word"
  tp_DataVolumeClaimTemplate :: "pvc_spec option"
  tp_BackupLocationName :: string
  tp_Vttablet :: vttablet_spec
  tp_Mysqld :: "mysqld_spec option"
  tp_MysqldExporter :: "exporter_spec option"
  tp_ExternalDatastore :: "external_datastore option"
  tp_Annotations :: "(string, string) gomap"
  tp_ExtraLabels :: "(string, string) gomap"
  tp_Affinity :: "opaque option"
  tp_ExtraEnv :: "env_var list"
  tp_ExtraVolumes :: "volume list"
  tp_ExtraVolumeMounts :: "volume_mount list"
  tp_InitContainers :: "container list"
  tp_SidecarContainers :: "container list"
  tp_Tolerations :: "toleration list"
  tp_TopologySpreadConstraints :: "topology_spread_constraint list"

definition ReplicaPoolType :: string where "ReplicaPoolType = ''replica''"
definition RdonlyPoolType :: string where "RdonlyPoolType = ''rdonly''"
definition ExternalMasterPoolType :: string where "ExternalMasterPoolType = ''externalmaster''"
definition ExternalReplicaPoolType :: string where "ExternalReplicaPoolType = ''externalreplica''"
definition ExternalRdonlyPoolType :: string where "ExternalRdonlyPoolType = ''externalrdonly''"

record replication_spec =
  rs_InitializeMaster :: "bool option"
  rs_InitializeBackup :: "bool option"
  rs_RecoverRestartedMaster :: "bool option"

record shard_template =
  st_TabletPools :: "tablet_pool list"
  st_DatabaseInitScriptSecret :: SecretSource
  st_Replication :: replication_spec
  st_Annotations :: "(string \<rightharpoonup> string) option"

record gcs_location =
  gcs_Bucket :: string
  gcs_KeyPrefix :: string
  gcs_AuthSecret :: "SecretSource option"

record s3_location =
  s3_Region :: string
  s3_Bucket :: string
  s3_Endpoint :: string
  s3_ForcePathStyle :: bool
  s3_KeyPrefix :: string
  s3_AuthSecret :: "SecretSource option"
  s3_MinPartSize :: int

record azblob_location =
  az_Account :: string
  az_Container :: string
  az_KeyPrefix :: string
  az_AuthSecret :: SecretSource

text \<open>A Ceph location has only its secret.\<close>

record backup_location =
  bl_Name :: string
  bl_GCS :: "gcs_location option"
  bl_S3 :: "s3_location option"
  bl_Azblob :: "azblob_location option"
  bl_Ceph :: "SecretSource option"
  bl_Volume :: "volume_source option"
  bl_VolumeSubPath :: string
  bl_Annotations :: "(string, string) gomap"

definition backup_location_named :: "string \<Rightarrow> backup_location" where
  "backup_location_named name =
     \<lparr>bl_Name = name, bl_GCS = None, bl_S3 = None, bl_Azblob = None, bl_Ceph = None, bl_Volume = None, bl_VolumeSubPath = [],
      bl_Annotations = []\<rparr>"

lemma backup_location_named_simps [simp]:
  "bl_Name (backup_location_named name) = name" "bl_Annotations (backup_location_named name) = []"
  by (simp_all add: backup_location_named_def)

record shard_spec = shard_template +
  ss_Name :: string
  ss_ZoneMap :: "string \<rightharpoonup> string"
  ss_KeyRange :: VitessKeyRange
  ss_BackupLocations :: "backup_location list"

record tablet_status =
  ts_PoolType :: string
  ts_Index :: "32 word"
  ts_Running :: cond_status
  ts_Ready :: cond_status
  ts_Available :: cond_status
  ts_DataVolumeBound :: cond_status
  ts_Type :: string
  ts_PendingChanges :: string

definition NewVitessTabletStatus :: "string \<Rightarrow> 32 word \<Rightarrow> tablet_status" where
  "NewVitessTabletStatus poolType index =
     \<lparr>ts_PoolType = poolType, ts_Index = index, ts_Running = CondUnknown, ts_Ready = CondUnknown,
      ts_Available = CondUnknown, ts_DataVolumeBound = CondUnknown, ts_Type = [], ts_PendingChanges = []\<rparr>"

record orphan_status =
  os_Reason :: string
  os_Message :: string

record shard_status =
  sh_Tablets :: "(string, tablet_status) gomap"
  sh_OrphanedTablets :: "(string, orphan_status) gomap"
  sh_Cells :: "string list"
  sh_VtorcAvailable :: cond_status
  sh_HasMaster :: cond_status
  sh_HasInitialBackup :: cond_status
  sh_ServingWrites :: cond_status
  sh_Idle :: cond_status
  sh_Conditions :: "(string \<rightharpoonup> condition) option"
  sh_MasterAlias :: string
  sh_LowestPodGeneration :: int

definition NewVitessShardStatus :: shard_status where
  "NewVitessShardStatus =
     \<lparr>sh_Tablets = [], sh_OrphanedTablets = [], sh_Cells = [], sh_VtorcAvailable = CondUnknown,
      sh_HasMaster = CondUnknown, sh_HasInitialBackup = CondUnknown, sh_ServingWrites = CondUnknown,
      sh_Idle = CondUnknown, sh_Conditions = Some Map.empty, sh_MasterAlias = [], sh_LowestPodGeneration = 0\<rparr>"

section \<open>Methods\<close>

definition IsExternalMaster :: "tablet_status \<Rightarrow> bool" where
  "IsExternalMaster t \<longleftrightarrow> ts_PoolType t = ''externalmaster''"

definition IsRunning :: "tablet_status \<Rightarrow> bool" where
  "IsRunning t \<longleftrightarrow> ts_Running t = CondTrue"

definition InitTabletType :: "string \<Rightarrow> string" where
  "InitTabletType t =
     (if t = ExternalMasterPoolType then ''spare''
      else if t = ExternalReplicaPoolType then ''replica''
      else if t = ExternalRdonlyPoolType then ''rdonly''
      else t)"

definition IsMatch :: "tablet_pool \<Rightarrow> tablet_pool \<Rightarrow> bool" where
  "IsMatch t inputPool \<longleftrightarrow>
     tp_Type t = tp_Type inputPool \<and> tp_Cell t = tp_Cell inputPool \<and> tp_Name t = tp_Name inputPool"

definition UsingExternalDatastore :: "'a shard_template_scheme \<Rightarrow> bool" where
  "UsingExternalDatastore s = list_ex (\<lambda>p. tp_ExternalDatastore p \<noteq> None) (st_TabletPools s)"

definition AllPoolsUsingMysqld :: "'a shard_template_scheme \<Rightarrow> bool" where
  "AllPoolsUsingMysqld s = list_all (\<lambda>p. tp_Mysqld p \<noteq> None) (st_TabletPools s)"

definition MasterEligibleTabletCount :: "'a shard_template_scheme \<Rightarrow> 32 word" where
  "MasterEligibleTabletCount s =
     fold (\<lambda>pool count. if tp_Type pool = ReplicaPoolType \<or> tp_Type pool = ExternalMasterPoolType
                        then count + tp_Replicas pool else count) (st_TabletPools s) 0"

definition BackupLocation :: "'a shard_spec_scheme \<Rightarrow> string \<Rightarrow> backup_location option" where
  "BackupLocation s name = find (\<lambda>l. bl_Name l = name) (ss_BackupLocations s)"

fun backups_enabled_scan :: "'a shard_spec_scheme \<Rightarrow> tablet_pool list \<Rightarrow> bool" where
  "backups_enabled_scan s [] = False"
| "backups_enabled_scan s (pool # rest) =
     (if tp_BackupLocationName pool \<noteq> [] then True
      else if BackupLocation s [] \<noteq> None then True
      else backups_enabled_scan s rest)"

definition BackupsEnabled :: "'a shard_spec_scheme \<Rightarrow> bool" where
  "BackupsEnabled s = backups_enabled_scan s (st_TabletPools s)"

definition GetCells :: "'a shard_template_scheme \<Rightarrow> string set" where
  "GetCells s = set (map tp_Cell (st_TabletPools s))"

definition CellInCluster :: "'a shard_spec_scheme \<Rightarrow> string \<Rightarrow> bool" where
  "CellInCluster s cellName \<longleftrightarrow> ss_ZoneMap s cellName \<noteq> None"

definition TabletAliases :: "shard_status \<Rightarrow> string list" where
  "TabletAliases s = sorted_keys (sh_Tablets s)"

definition shard_GetCondition :: "shard_status \<Rightarrow> string \<Rightarrow> condition option" where
  "shard_GetCondition s condType = (case sh_Conditions s of None \<Rightarrow> None | Some m \<Rightarrow> m condType)"

definition shard_SetConditionStatus ::
    "int \<Rightarrow> string \<Rightarrow> cond_status \<Rightarrow> string \<Rightarrow> string \<Rightarrow> shard_status \<Rightarrow> shard_status"
where
  "shard_SetConditionStatus now condType newStatus reason message s =
     (let m = (case sh_Conditions s of None \<Rightarrow> Map.empty | Some m \<Rightarrow> m);
          cond = (case m condType of None \<Rightarrow> new_condition now | Some c \<Rightarrow> c)
      in s\<lparr>sh_Conditions := Some (m(condType \<mapsto> update_condition now newStatus reason message cond))\<rparr>)"

interpretation shard_conditions: condition_store shard_GetCondition shard_SetConditionStatus
  by unfold_locales
    (simp add: shard_GetCondition_def shard_SetConditionStatus_def Let_def split: option.split)

definition DefaultVitessReplicationSpec :: "replication_spec \<Rightarrow> replication_spec" where
  "DefaultVitessReplicationSpec r =
     (let d = (\<lambda>x. case x of None \<Rightarrow> Some True | Some b \<Rightarrow> Some b)
      in \<lparr>rs_InitializeMaster = d (rs_InitializeMaster r), rs_InitializeBackup = d (rs_InitializeBackup r),
          rs_RecoverRestartedMaster = d (rs_RecoverRestartedMaster r)\<rparr>)"

definition DefaultVitessShardTemplate :: "'a shard_template_scheme \<Rightarrow> 'a shard_template_scheme" where
  "DefaultVitessShardTemplate s = s\<lparr>st_Replication := DefaultVitessReplicationSpec (st_Replication s)\<rparr>"

section \<open>Sums of replicas\<close>

text \<open>
  The \<open>int32\<close> sums the API computes, and the exact sums they stand for as long as they fit.
\<close>

definition sum_replicas :: "tablet_pool list \<Rightarrow> 32 word" where
  "sum_replicas pools = fold (\<lambda>p n. n + tp_Replicas p) pools 0"

lemma sum_replicas_fold: "fold (\<lambda>p n. n + tp_Replicas p) pools n = n + sum_list (map tp_Replicas pools)"
  by (induction pools arbitrary: n) (simp_all add: add.assoc)

lemma sum_replicas_list: "sum_replicas pools = sum_list (map tp_Replicas pools)"
  by (simp add: sum_replicas_def sum_replicas_fold)

lemma of_int_sum: "(of_int (sum_list (map f xs)) :: 32 word) = sum_list (map (\<lambda>x. of_int (f x)) xs)"
  by (induction xs) simp_all

lemma sum_replicas_of_int: "sum_replicas pools = of_int (sum_list (map (\<lambda>p. sint (tp_Replicas p)) pools))"
  by (simp add: sum_replicas_list of_int_sum)

lemma sint_of_int32: "- (2 ^ 31) \<le> i \<Longrightarrow> i < 2 ^ 31 \<Longrightarrow> sint (word_of_int i :: 32 word) = i"
  by (simp add: sint_sbintrunc' signed_take_bit_int_eq_self_iff)

lemma sum_replicas_exact:
  assumes "0 \<le> sum_list (map (\<lambda>p. sint (tp_Replicas p)) pools)"
    "sum_list (map (\<lambda>p. sint (tp_Replicas p)) pools) < 2 ^ 31"
  shows "sint (sum_replicas pools) = sum_list (map (\<lambda>p. sint (tp_Replicas p)) pools)"
  unfolding sum_replicas_of_int by (rule sint_of_int32) (use assms in auto)

lemma BackupsEnabled_iff:
  "BackupsEnabled s \<longleftrightarrow> (\<exists>p \<in> set (st_TabletPools s). tp_BackupLocationName p \<noteq> []
      \<or> (\<exists>l \<in> set (ss_BackupLocations s). bl_Name l = []))"
proof -
  have "backups_enabled_scan s pools \<longleftrightarrow> (\<exists>p \<in> set pools. tp_BackupLocationName p \<noteq> [] \<or> BackupLocation s [] \<noteq> None)" for pools
    by (induction s pools rule: backups_enabled_scan.induct) auto
  moreover have "BackupLocation s [] \<noteq> None \<longleftrightarrow> (\<exists>l \<in> set (ss_BackupLocations s). bl_Name l = [])"
    by (auto simp: BackupLocation_def find_None_iff)
  ultimately show ?thesis by (simp add: BackupsEnabled_def)
qed

end
