(* ===== verification/Reconciler.thy ===== *)
theory Reconciler
  imports Kube Results Shard
begin

text \<open>
  \<open>pkg/operator/reconciler\<close>: the generic reconciliation of one Kubernetes object (\<open>object.go\<close>) and
  of a set of objects (\<open>object_set.go\<close>) under a strategy.

  An object is its metadata and a body of any type; the API server's answers, the scheme's defaulting and
  semantic comparison, \<open>controllerutil.SetControllerReference\<close> and the diff text are fields of the
  environment.  The result of a function is its effects in order and its error.
  The lookups of an object's kind and metadata, which cannot fail for registered types, are left out.
\<close>

record 'b kobj = obj_meta +
  ko_key :: object_key
  ko_labels :: "string \<rightharpoonup> string"
  ko_UID :: string
  ko_deleting :: bool
  ko_evictable :: bool
  ko_body :: 'b

text \<open>
  \<open>ko_deleting\<close>: the deletion timestamp is set.  \<open>ko_evictable\<close>: the object is a Pod with restart policy
  Always or OnFailure in phase Failed.
\<close>

text \<open>A fresh object with nothing but its key and body.\<close>

definition blank_object :: "'b \<Rightarrow> object_key \<Rightarrow> 'b kobj" where
  "blank_object body key =
     \<lparr>annotations = None, ko_key = key, ko_labels = Map.empty, ko_UID = [], ko_deleting = False, ko_evictable = False, ko_body = body\<rparr>"

datatype ('b, 'e) get_answer = NotFound | GetError 'e | Found "'b kobj"

datatype ('b) kube_effect =
    DeleteObj "'b kobj"
  | CreateObj "'b kobj"
  | UpdateObj "'b kobj"
  | CallNew object_key
  | CallStatus object_key "'b kobj"
  | CallOrphanStatus object_key "'b kobj" orphan_status
  | RecordEvent string

record 'b strategy =
  New :: "object_key \<Rightarrow> 'b kobj"
  UpdateInPlace :: "(object_key \<Rightarrow> 'b kobj \<Rightarrow> 'b kobj) option"
  UpdateRollingInPlace :: "(object_key \<Rightarrow> 'b kobj \<Rightarrow> 'b kobj) option"
  UpdateRecreate :: "(object_key \<Rightarrow> 'b kobj \<Rightarrow> 'b kobj) option"
  UpdateRollingRecreate :: "(object_key \<Rightarrow> 'b kobj \<Rightarrow> 'b kobj) option"
  has_Status :: bool
  has_OrphanStatus :: bool
  PrepareForTurndown :: "(object_key \<Rightarrow> 'b kobj \<Rightarrow> 'b kobj \<times> orphan_status option) option"

record ('b, 'e) kube_env =
  kget :: "object_key \<Rightarrow> ('b, 'e) get_answer"
  kdelete :: "'b kobj \<Rightarrow> 'e option"
  kcreate :: "'b kobj \<Rightarrow> 'e option"
  kupdate :: "'b kobj \<Rightarrow> 'e option"
  klist :: "'e + 'b kobj list"
  set_owner :: "'b kobj \<Rightarrow> 'e + 'b kobj"
  defaulted :: "'b kobj \<Rightarrow> 'b kobj"
  semantic_equal :: "'b kobj \<Rightarrow> 'b kobj \<Rightarrow> bool"
  describe :: "'b kobj \<Rightarrow> 'b kobj \<Rightarrow> string"
  collision :: 'e

type_synonym ('b, 'e) outcome = "'b kube_effect list \<times> 'e option"

text \<open>A hook that is nil leaves the object alone.\<close>

definition apply_hook :: "(object_key \<Rightarrow> 'b kobj \<Rightarrow> 'b kobj) option \<Rightarrow> object_key \<Rightarrow> 'b kobj \<Rightarrow> 'b kobj" where
  "apply_hook h key obj = (case h of None \<Rightarrow> obj | Some f \<Rightarrow> f key obj)"

definition hasMatchingLabels :: "'b kobj \<Rightarrow> (string, string) gomap \<Rightarrow> bool" where
  "hasMatchingLabels obj expectedLabels =
     list_all (\<lambda>(k, v). (case ko_labels obj k of None \<Rightarrow> [] | Some w \<Rightarrow> w) = v) expectedLabels"

text \<open>\<open>deepEqual\<close> first fills the defaults into both objects, which stay changed.\<close>

definition deepEqual :: "('b, 'e) kube_env \<Rightarrow> 'b kobj \<Rightarrow> 'b kobj \<Rightarrow> bool" where
  "deepEqual env a b = semantic_equal env (defaulted env a) (defaulted env b)"

definition updateInPlace :: "('b, 'e) kube_env \<Rightarrow> 'b kobj \<Rightarrow> 'b kobj \<Rightarrow> ('b, 'e) outcome" where
  "updateInPlace env curObj newObj =
     (case set_owner env newObj of
        Inl e \<Rightarrow> ([RecordEvent ''UpdateFailed''], Some e)
      | Inr newObj \<Rightarrow>
          if deepEqual env curObj newObj then ([], None)
          else (case kupdate env (defaulted env newObj) of
                  Some e \<Rightarrow> ([UpdateObj (defaulted env newObj), RecordEvent ''UpdateFailed''], Some e)
                | None \<Rightarrow> ([UpdateObj (defaulted env newObj), RecordEvent ''Updated''], None)))"

definition kube_delete :: "('b, 'e) kube_env \<Rightarrow> 'b kobj \<Rightarrow> ('b, 'e) outcome" where
  "kube_delete env curObj =
     (case kdelete env curObj of
        Some e \<Rightarrow> ([DeleteObj curObj, RecordEvent ''DeleteFailed''], Some e)
      | None \<Rightarrow> ([DeleteObj curObj, RecordEvent ''Deleted''], None))"

definition drainAndDelete :: "('b, 'e) kube_env \<Rightarrow> 'b kobj \<Rightarrow> 'b kobj \<Rightarrow> 'b kobj \<Rightarrow> ('b, 'e) outcome" where
  "drainAndDelete env curObj updatedObjInPlace updatedObjRecreate =
     (if drain_Supported curObj \<and> \<not> drain_Finished curObj
      then let newObj = drain_Start updatedObjInPlace ''rolling update'';
               newObj = rollout_Schedule newObj (describe env newObj updatedObjRecreate)
           in updateInPlace env curObj newObj
      else kube_delete env curObj)"

abbreviation then_effects :: "'b kube_effect list \<Rightarrow> ('b, 'e) outcome \<Rightarrow> ('b, 'e) outcome" where
  "then_effects es out \<equiv> (es @ fst out, snd out)"

text \<open>The evicted Pod is deleted to make room for its name; the pass goes on as if it did not exist.\<close>

definition remove_evicted :: "('b, 'e) kube_env \<Rightarrow> 'b kobj option \<Rightarrow> 'b kube_effect list \<times> ('e + 'b kobj option)" where
  "remove_evicted env curObj =
     (case curObj of
        None \<Rightarrow> ([], Inr None)
      | Some pod \<Rightarrow>
          if ko_evictable pod then
            (case kdelete env pod of
               Some e \<Rightarrow> ([DeleteObj pod, RecordEvent ''DeleteFailed''], Inl e)
             | None \<Rightarrow> ([DeleteObj pod, RecordEvent ''Deleted''], Inr None))
          else ([], Inr (Some pod)))"

definition reconcile_unwanted ::
    "('b, 'e) kube_env \<Rightarrow> 'b strategy \<Rightarrow> (string, string) gomap \<Rightarrow> object_key \<Rightarrow> 'b kobj option \<Rightarrow> ('b, 'e) outcome"
where
  "reconcile_unwanted env s labels key curObj =
     (case curObj of
        None \<Rightarrow> ([], None)
      | Some cur \<Rightarrow>
          if ko_deleting cur then ([], None)
          else if \<not> hasMatchingLabels cur labels then ([RecordEvent ''NameCollision''], None)
          else (case PrepareForTurndown s of
                  None \<Rightarrow> kube_delete env cur
                | Some prepare \<Rightarrow>
                    (case prepare key cur of
                       (newObj, None) \<Rightarrow> kube_delete env cur
                     | (newObj, Some orphanStatus) \<Rightarrow>
                         then_effects ([RecordEvent ''TurndownBlocked'']
                             @ (if has_OrphanStatus s then [CallOrphanStatus key cur orphanStatus] else []))
                           (updateInPlace env cur newObj))))"

definition create_object :: "('b, 'e) kube_env \<Rightarrow> 'b strategy \<Rightarrow> object_key \<Rightarrow> ('b, 'e) outcome" where
  "create_object env s key =
     (case set_owner env ((New s key)\<lparr>ko_key := key\<rparr>) of
        Inl e \<Rightarrow> ([CallNew key, RecordEvent ''CreateFailed''], Some e)
      | Inr newObj \<Rightarrow>
          (case kcreate env newObj of
             Some e \<Rightarrow> ([CallNew key, CreateObj newObj, RecordEvent ''CreateFailed''], Some e)
           | None \<Rightarrow> ([CallNew key, CreateObj newObj, RecordEvent ''Created''], None)))"

text \<open>The updates of an existing object; \<open>updated\<close> already reflects the immediate in-place changes.\<close>

definition apply_rolling ::
    "('b, 'e) kube_env \<Rightarrow> 'b strategy \<Rightarrow> object_key \<Rightarrow> 'b kobj \<Rightarrow> 'b kobj \<Rightarrow> ('b, 'e) outcome"
where
  "apply_rolling env s key cur updated =
     (if rollout_Released cur then
        let updated = apply_hook (UpdateRollingInPlace s) key updated
        in (case UpdateRollingRecreate s of
              None \<Rightarrow> updateInPlace env cur (rollout_Unschedule updated)
            | Some f \<Rightarrow>
                let recreate = f key updated
                in if \<not> deepEqual env updated recreate
                   then drainAndDelete env cur (defaulted env updated) (defaulted env recreate)
                   else updateInPlace env cur (rollout_Unschedule (defaulted env updated)))
      else
        let rolled = apply_hook (UpdateRollingRecreate s) key (apply_hook (UpdateRollingInPlace s) key updated)
        in if deepEqual env updated rolled
           then updateInPlace env cur (rollout_Unschedule (defaulted env updated))
           else updateInPlace env cur
             (rollout_Schedule (defaulted env updated) (describe env (defaulted env updated) (defaulted env rolled))))"

definition update_object ::
    "('b, 'e) kube_env \<Rightarrow> 'b strategy \<Rightarrow> object_key \<Rightarrow> 'b kobj \<Rightarrow> ('b, 'e) outcome"
where
  "update_object env s key cur =
     (let updated = apply_hook (UpdateInPlace s) key cur
      in case UpdateRecreate s of
           None \<Rightarrow> apply_rolling env s key cur updated
         | Some f \<Rightarrow>
             if \<not> deepEqual env updated (f key updated) then kube_delete env cur
             else apply_rolling env s key cur (defaulted env updated))"

definition reconcile_wanted ::
    "('b, 'e) kube_env \<Rightarrow> 'b strategy \<Rightarrow> (string, string) gomap \<Rightarrow> object_key \<Rightarrow> 'b kobj option \<Rightarrow> ('b, 'e) outcome"
where
  "reconcile_wanted env s labels key curObj =
     (case curObj of
        None \<Rightarrow> create_object env s key
      | Some cur \<Rightarrow>
          if \<not> hasMatchingLabels cur labels then ([RecordEvent ''NameCollision''], Some (collision env))
          else then_effects (if has_Status s then [CallStatus key cur] else [])
                 (if ko_deleting cur then ([], None) else update_object env s key cur))"

definition ReconcileObject ::
    "('b, 'e) kube_env \<Rightarrow> 'b strategy \<Rightarrow> (string, string) gomap \<Rightarrow> object_key \<Rightarrow> bool \<Rightarrow> ('b, 'e) outcome"
where
  "ReconcileObject env s labels key wanted =
     (case kget env key of
        GetError e \<Rightarrow> ([RecordEvent ''GetFailed''], Some e)
      | answer \<Rightarrow>
          (case remove_evicted env (case answer of Found cur \<Rightarrow> Some cur | _ \<Rightarrow> None) of
             (es, Inl e) \<Rightarrow> (es, Some e)
           | (es, Inr curObj) \<Rightarrow>
               then_effects es
                 (if \<not> wanted then reconcile_unwanted env s labels key curObj
                  else reconcile_wanted env s labels key curObj)))"

text \<open>The set: first every wanted key, then every listed object that is not wanted.\<close>

fun reconcile_keys ::
    "('b, 'e) kube_env \<Rightarrow> 'b strategy \<Rightarrow> (string, string) gomap \<Rightarrow> bool \<Rightarrow> object_key list \<Rightarrow> 'e builder
     \<Rightarrow> 'b kube_effect list \<times> 'e builder"
where
  "reconcile_keys env s labels wanted [] b = ([], b)"
| "reconcile_keys env s labels wanted (key # keys) b =
     (case ReconcileObject env s labels key wanted of
        (es, err) \<Rightarrow>
          (case reconcile_keys env s labels wanted keys (if err = None then b else builder_Error err b) of
             (es', b') \<Rightarrow> (es @ es', b')))"

definition ReconcileObjectSet ::
    "('b, 'e) kube_env \<Rightarrow> 'b strategy \<Rightarrow> (string, string) gomap \<Rightarrow> object_key list \<Rightarrow> ('b, 'e) outcome"
where
  "ReconcileObjectSet env s labels keys =
     (case klist env of
        Inl e \<Rightarrow> ([RecordEvent ''ListFailed''], Some e)
      | Inr objs \<Rightarrow>
          (case reconcile_keys env s labels True keys empty_builder of
             (es, b) \<Rightarrow>
               (case reconcile_keys env s labels False (filter (\<lambda>k. k \<notin> set keys) (map ko_key objs)) b of
                  (es', b') \<Rightarrow> (es @ es', snd (builder_Result b')))))"

section \<open>What a pass may delete\<close>

fun writes :: "'b kube_effect \<Rightarrow> 'b kobj option" where
  "writes (DeleteObj obj) = Some obj"
| "writes (CreateObj obj) = Some obj"
| "writes (UpdateObj obj) = Some obj"
| "writes _ = None"

lemma updateInPlace_effects:
  "DeleteObj obj \<notin> set (fst (updateInPlace env cur new))" "CreateObj obj \<notin> set (fst (updateInPlace env cur new))"
  by (auto simp: updateInPlace_def split: sum.split option.split)

lemma kube_delete_effects:
  "DeleteObj obj \<in> set (fst (kube_delete env cur)) \<Longrightarrow> obj = cur" "CreateObj obj \<notin> set (fst (kube_delete env cur))"
  by (auto simp: kube_delete_def split: option.splits)

lemma drainAndDelete_delete:
  "DeleteObj obj \<in> set (fst (drainAndDelete env cur u r)) \<Longrightarrow>
     obj = cur \<and> (drain_Supported cur \<longrightarrow> drain_Finished cur)"
  by (auto simp: drainAndDelete_def Let_def updateInPlace_effects dest: kube_delete_effects(1) split: if_splits)

lemma apply_rolling_delete:
  "DeleteObj obj \<in> set (fst (apply_rolling env s key cur u)) \<Longrightarrow>
     obj = cur \<and> rollout_Released cur \<and> UpdateRollingRecreate s \<noteq> None \<and> (drain_Supported cur \<longrightarrow> drain_Finished cur)"
  by (auto simp: apply_rolling_def Let_def updateInPlace_effects dest: drainAndDelete_delete
      split: if_splits option.splits)

lemma update_object_delete:
  "DeleteObj obj \<in> set (fst (update_object env s key cur)) \<Longrightarrow>
     obj = cur \<and> ((\<exists>f. UpdateRecreate s = Some f
            \<and> \<not> deepEqual env (apply_hook (UpdateInPlace s) key cur) (f key (apply_hook (UpdateInPlace s) key cur)))
        \<or> rollout_Released cur \<and> UpdateRollingRecreate s \<noteq> None \<and> (drain_Supported cur \<longrightarrow> drain_Finished cur))"
  by (auto simp: update_object_def Let_def dest: apply_rolling_delete kube_delete_effects(1) split: if_splits option.splits)

lemma create_object_delete: "DeleteObj obj \<notin> set (fst (create_object env s key))"
  by (auto simp: create_object_def split: sum.split option.split)

lemma reconcile_wanted_delete:
  "DeleteObj obj \<in> set (fst (reconcile_wanted env s labels key c)) \<Longrightarrow>
     c = Some obj \<and> hasMatchingLabels obj labels \<and> \<not> ko_deleting obj
     \<and> DeleteObj obj \<in> set (fst (update_object env s key obj))"
  by (auto simp: reconcile_wanted_def create_object_delete dest: update_object_delete split: option.splits if_splits)

lemma reconcile_unwanted_delete:
  "DeleteObj obj \<in> set (fst (reconcile_unwanted env s labels key c)) \<Longrightarrow>
     c = Some obj \<and> hasMatchingLabels obj labels \<and> \<not> ko_deleting obj
     \<and> (\<forall>prepare. PrepareForTurndown s = Some prepare \<longrightarrow> snd (prepare key obj) = None)"
  by (auto simp: reconcile_unwanted_def updateInPlace_effects dest: kube_delete_effects(1)
      split: option.splits if_splits prod.splits)

definition may_delete ::
    "('b, 'e) kube_env \<Rightarrow> 'b strategy \<Rightarrow> (string, string) gomap \<Rightarrow> object_key \<Rightarrow> bool \<Rightarrow> 'b kobj \<Rightarrow> bool"
where
  "may_delete env s labels key wanted obj \<longleftrightarrow>
     kget env key = Found obj \<and> (ko_evictable obj \<or> hasMatchingLabels obj labels \<and> \<not> ko_deleting obj \<and>
    (if wanted then
       (\<exists>f. UpdateRecreate s = Some f
          \<and> \<not> deepEqual env (apply_hook (UpdateInPlace s) key obj) (f key (apply_hook (UpdateInPlace s) key obj)))
       \<or> rollout_Released obj \<and> UpdateRollingRecreate s \<noteq> None \<and> (drain_Supported obj \<longrightarrow> drain_Finished obj)
     else (\<forall>prepare. PrepareForTurndown s = Some prepare \<longrightarrow> snd (prepare key obj) = None)))"

lemma ReconcileObject_delete_reason:
  assumes "DeleteObj obj \<in> set (fst (ReconcileObject env s labels key wanted))"
  shows "kget env key = Found obj \<and> (ko_evictable obj \<or> hasMatchingLabels obj labels \<and> \<not> ko_deleting obj \<and>
    (if wanted then
       (\<exists>f. UpdateRecreate s = Some f
          \<and> \<not> deepEqual env (apply_hook (UpdateInPlace s) key obj) (f key (apply_hook (UpdateInPlace s) key obj)))
       \<or> rollout_Released obj \<and> UpdateRollingRecreate s \<noteq> None \<and> (drain_Supported obj \<longrightarrow> drain_Finished obj)
     else (\<forall>prepare. PrepareForTurndown s = Some prepare \<longrightarrow> snd (prepare key obj) = None)))"
proof (cases "kget env key")
  case NotFound
  then show ?thesis using assms
    by (auto simp: ReconcileObject_def remove_evicted_def dest: reconcile_wanted_delete reconcile_unwanted_delete split: if_splits)
next
  case (GetError e)
  then show ?thesis using assms by (auto simp: ReconcileObject_def)
next
  case (Found cur)
  show ?thesis
  proof (cases "ko_evictable cur")
    case True
    then have "obj = cur"
      using assms Found by (auto simp: ReconcileObject_def remove_evicted_def dest: reconcile_wanted_delete
          reconcile_unwanted_delete split: if_splits option.splits)
    then show ?thesis using Found True by simp
  next
    case False
    then show ?thesis
      using assms Found reconcile_wanted_delete [of obj env s labels key "Some cur"]
        reconcile_unwanted_delete [of obj env s labels key "Some cur"] update_object_delete [of obj env s key obj]
      by (auto simp: ReconcileObject_def remove_evicted_def split: if_splits)
  qed
qed

lemma ReconcileObject_may_delete:
  "DeleteObj obj \<in> set (fst (ReconcileObject env s labels key wanted)) \<Longrightarrow> may_delete env s labels key wanted obj"
  unfolding may_delete_def by (rule ReconcileObject_delete_reason)

text \<open>C4: The reconciler deletes an object only for one of these reasons: it is an evicted Pod; or its
  labels are the expected ones, it is not being deleted already, and either it is unwanted and the
  turndown hook agrees, or it is wanted and an immediate-recreate change is due, or a rolling
  recreate is due that was released and, if the object supports draining, its drain has finished.\<close>

theorem ReconcileObject_delete_safe:
  assumes "DeleteObj obj \<in> set (fst (ReconcileObject env s labels key wanted))"
  shows "kget env key = Found obj \<and> (ko_evictable obj \<or> hasMatchingLabels obj labels \<and> \<not> ko_deleting obj \<and>
    (if wanted then
       (\<exists>f. UpdateRecreate s = Some f
          \<and> \<not> deepEqual env (apply_hook (UpdateInPlace s) key obj) (f key (apply_hook (UpdateInPlace s) key obj)))
       \<or> rollout_Released obj \<and> UpdateRollingRecreate s \<noteq> None \<and> (drain_Supported obj \<longrightarrow> drain_Finished obj)
     else (\<forall>prepare. PrepareForTurndown s = Some prepare \<longrightarrow> snd (prepare key obj) = None)))"
  using assms by (rule ReconcileObject_delete_reason)

section \<open>What a pass schedules\<close>

lemma ann: "ko_body (ann_put k v obj) = ko_body obj" "ko_body (ann_del k obj) = ko_body obj"
  by (simp_all add: ann_put_def ann_del_def Let_def)

text \<open>Rolling changes wait for their release, and the annotation says so.  For an existing wanted object
  that is ours, is not released and needs no immediate recreation, a pass does exactly the
  in-place update to an object that has the scheduled annotation if and only if the rolling
  hooks would still change something; and a released object whose recreation is due but whose drain is
  not finished is not deleted: it gets a drain request and stays scheduled.\<close>

theorem ReconcileObject_schedules:
  assumes "kget env key = Found cur" "\<not> ko_evictable cur" "hasMatchingLabels cur labels" "\<not> ko_deleting cur"
    "UpdateRecreate s = None" "\<not> has_Status s"
  shows "(\<not> rollout_Released cur \<longrightarrow>
           (let now = apply_hook (UpdateInPlace s) key cur;
                later = apply_hook (UpdateRollingRecreate s) key (apply_hook (UpdateRollingInPlace s) key now)
            in \<exists>new. ReconcileObject env s labels key True = updateInPlace env cur new
                 \<and> (rollout_Scheduled new \<longleftrightarrow> \<not> deepEqual env now later) \<and> ko_body new = ko_body (defaulted env now)))
       \<and> (rollout_Released cur \<and> drain_Supported cur \<and> \<not> drain_Finished cur \<longrightarrow>
           (\<forall>f. UpdateRollingRecreate s = Some f \<longrightarrow>
             (let now = apply_hook (UpdateRollingInPlace s) key (apply_hook (UpdateInPlace s) key cur) in
               \<not> deepEqual env now (f key now) \<longrightarrow>
               (\<exists>new. ReconcileObject env s labels key True = updateInPlace env cur new
                  \<and> drain_Started new \<and> rollout_Scheduled new \<and> ko_body new = ko_body (defaulted env now)))))"
proof -
  have run: "ReconcileObject env s labels key True = apply_rolling env s key cur (apply_hook (UpdateInPlace s) key cur)"
    using assms by (simp add: ReconcileObject_def remove_evicted_def reconcile_wanted_def update_object_def)
  let ?now = "apply_hook (UpdateInPlace s) key cur"
  let ?later = "apply_hook (UpdateRollingRecreate s) key (apply_hook (UpdateRollingInPlace s) key ?now)"
  have "\<exists>new. ReconcileObject env s labels key True = updateInPlace env cur new
      \<and> (rollout_Scheduled new \<longleftrightarrow> \<not> deepEqual env ?now ?later) \<and> ko_body new = ko_body (defaulted env ?now)"
    if "\<not> rollout_Released cur"
    using that unfolding run apply_rolling_def Let_def
    by (intro exI [of _ "if deepEqual env ?now ?later then rollout_Unschedule (defaulted env ?now)
          else rollout_Schedule (defaulted env ?now) (describe env (defaulted env ?now) (defaulted env ?later))"])
      (simp add: rollout_defs ann)
  moreover have "\<exists>new. ReconcileObject env s labels key True = updateInPlace env cur new
      \<and> drain_Started new \<and> rollout_Scheduled new \<and> ko_body new = ko_body (defaulted env u)"
    if "rollout_Released cur" "drain_Supported cur" "\<not> drain_Finished cur" "UpdateRollingRecreate s = Some f"
      "u = apply_hook (UpdateRollingInPlace s) key ?now" "\<not> deepEqual env u (f key u)" for f u
  proof -
    let ?d = "drain_Start (defaulted env u) ''rolling update''"
    have started: "drain_Started ?d" "ko_body ?d = ko_body (defaulted env u)"
      by (simp_all add: drain_defs ann)
    show ?thesis
      using that started unfolding run apply_rolling_def Let_def
      by (intro exI [of _ "rollout_Schedule ?d (describe env ?d (defaulted env (f key u)))"])
        (simp add: drainAndDelete_def Let_def rollout_defs drain_Started_def ann)
  qed
  ultimately show ?thesis by (simp add: Let_def)
qed

section \<open>Sets\<close>

lemma reconcile_keys_trace:
  "fst (reconcile_keys env s labels wanted keys b) =
     concat (map (\<lambda>k. fst (ReconcileObject env s labels k wanted)) keys)"
  by (induction keys arbitrary: b) (simp_all add: case_prod_unfold)

lemma find_SomeD: "find P xs = Some x \<Longrightarrow> P x"
  by (induction xs) (auto split: if_splits)

lemma reconcile_keys_error:
  "firstErr (snd (reconcile_keys env s labels wanted keys b)) =
     (case firstErr b of Some e \<Rightarrow> Some e
      | None \<Rightarrow> (case find (\<lambda>k. snd (ReconcileObject env s labels k wanted) \<noteq> None) keys of
                  None \<Rightarrow> None | Some k \<Rightarrow> snd (ReconcileObject env s labels k wanted)))"
  by (induction keys arbitrary: b) (auto simp: case_prod_unfold split: option.split)

text \<open>Reconciling a set first reconciles every wanted object, then turns down every listed object that
  is not wanted, each exactly as alone and whatever errors occur on the way; and it reports
  an error exactly when one of these steps did, namely the first one.\<close>

theorem ReconcileObjectSet_spec:
  assumes "klist env = Inr objs"
  shows "fst (ReconcileObjectSet env s labels keys) =
      concat (map (\<lambda>k. fst (ReconcileObject env s labels k True)) keys)
      @ concat (map (\<lambda>k. fst (ReconcileObject env s labels k False)) (filter (\<lambda>k. k \<notin> set keys) (map ko_key objs)))
    \<and> snd (ReconcileObjectSet env s labels keys) =
      (case find (\<lambda>(k, wanted). snd (ReconcileObject env s labels k wanted) \<noteq> None)
          (map (\<lambda>k. (k, True)) keys @ map (\<lambda>k. (k, False)) (filter (\<lambda>k. k \<notin> set keys) (map ko_key objs))) of
        None \<Rightarrow> None | Some (k, wanted) \<Rightarrow> snd (ReconcileObject env s labels k wanted))"
proof -
  have find_app: "find P (xs @ ys) = (case find P xs of None \<Rightarrow> find P ys | Some x \<Rightarrow> Some x)"
    for P :: "object_key \<times> bool \<Rightarrow> bool" and xs ys
    by (induction xs) auto
  have find_map: "find (\<lambda>(k, w). Q k w) (map (\<lambda>k. (k, c)) ks) = map_option (\<lambda>k. (k, c)) (find (\<lambda>k. Q k c) ks)"
    for Q and c :: bool and ks :: "object_key list"
    by (induction ks) auto
  let ?rest = "filter (\<lambda>k. k \<notin> set keys) (map ko_key objs)"
  let ?one = "reconcile_keys env s labels True keys empty_builder"
  have set: "ReconcileObjectSet env s labels keys =
      (fst ?one @ fst (reconcile_keys env s labels False ?rest (snd ?one)),
       firstErr (snd (reconcile_keys env s labels False ?rest (snd ?one))))"
    using assms by (simp add: ReconcileObjectSet_def builder_Result_def split: prod.split)
  show ?thesis
    unfolding set fst_conv snd_conv reconcile_keys_trace reconcile_keys_error find_app find_map
    by (auto split: option.split dest: find_SomeD)
qed

text \<open>What a client of the set reconciler relies on: every deletion has its reason, every creation was asked for.\<close>

lemma ReconcileObjectSet_member:
  assumes "e \<in> set (fst (ReconcileObjectSet env s labels keys))" "e \<noteq> RecordEvent ''ListFailed''"
  shows "\<exists>key. e \<in> set (fst (ReconcileObject env s labels key (key \<in> set keys)))"
proof (cases "klist env")
  case (Inl err)
  then show ?thesis using assms by (simp add: ReconcileObjectSet_def)
next
  case (Inr objs)
  have "fst (ReconcileObjectSet env s labels keys) =
      concat (map (\<lambda>k. fst (ReconcileObject env s labels k True)) keys)
      @ concat (map (\<lambda>k. fst (ReconcileObject env s labels k False)) (filter (\<lambda>k. k \<notin> set keys) (map ko_key objs)))"
    by (simp add: ReconcileObjectSet_def Inr case_prod_unfold reconcile_keys_trace)
  then have "(\<exists>k. k \<in> set keys \<and> e \<in> set (fst (ReconcileObject env s labels k True)))
      \<or> (\<exists>k. k \<notin> set keys \<and> e \<in> set (fst (ReconcileObject env s labels k False)))"
    using assms(1) by (simp del: split_paired_Ex) blast
  then show ?thesis
  proof (elim disjE exE conjE)
    fix k assume "k \<in> set keys" "e \<in> set (fst (ReconcileObject env s labels k True))"
    then show ?thesis by (intro exI [of _ k]) simp
  next
    fix k assume "k \<notin> set keys" "e \<in> set (fst (ReconcileObject env s labels k False))"
    then show ?thesis by (intro exI [of _ k]) simp
  qed
qed

lemma ReconcileObjectSet_may_delete:
  "DeleteObj obj \<in> set (fst (ReconcileObjectSet env s labels keys)) \<Longrightarrow> \<exists>key. may_delete env s labels key (key \<in> set keys) obj"
  by (drule ReconcileObjectSet_member) (auto dest: ReconcileObject_may_delete)

lemma updated_creates: "CreateObj obj \<notin> set (fst (update_object env s key cur))"
  by (auto simp: update_object_def apply_rolling_def drainAndDelete_def updateInPlace_effects kube_delete_effects Let_def
      split: option.splits)

lemma ReconcileObject_creates:
  "CreateObj obj \<in> set (fst (ReconcileObject env s labels key wanted)) \<Longrightarrow>
     wanted \<and> CallNew key \<in> set (fst (ReconcileObject env s labels key wanted))
     \<and> set_owner env ((New s key)\<lparr>ko_key := key\<rparr>) = Inr obj
     \<and> (kget env key = NotFound \<or> (\<exists>cur. kget env key = Found cur \<and> ko_evictable cur))"
  by (auto simp: ReconcileObject_def remove_evicted_def reconcile_wanted_def reconcile_unwanted_def create_object_def
        updated_creates updateInPlace_effects kube_delete_effects
      split: get_answer.splits option.splits sum.splits if_splits prod.splits)

lemma reconcile_keys_effects:
  "key \<in> set keys \<Longrightarrow> set (fst (ReconcileObject env s labels key wanted)) \<subseteq> set (fst (reconcile_keys env s labels wanted keys b))"
  by (auto simp: reconcile_keys_trace)

lemma ReconcileObjectSet_wanted_effects:
  assumes "key \<in> set keys" "klist env = Inr objs"
  shows "set (fst (ReconcileObject env s labels key True)) \<subseteq> set (fst (ReconcileObjectSet env s labels keys))"
  using reconcile_keys_effects [OF assms(1), of env s labels True empty_builder] assms(2)
  by (auto simp: ReconcileObjectSet_def split: prod.split)

lemma ReconcileObjectSet_creates:
  assumes "CreateObj obj \<in> set (fst (ReconcileObjectSet env s labels keys))"
  shows "\<exists>key \<in> set keys. CallNew key \<in> set (fst (ReconcileObjectSet env s labels keys))
       \<and> set_owner env ((New s key)\<lparr>ko_key := key\<rparr>) = Inr obj
       \<and> (kget env key = NotFound \<or> (\<exists>cur. kget env key = Found cur \<and> ko_evictable cur))"
proof -
  obtain objs where list: "klist env = Inr objs"
    using assms by (auto simp: ReconcileObjectSet_def split: sum.splits)
  from ReconcileObjectSet_member [OF assms]
  obtain key where "CreateObj obj \<in> set (fst (ReconcileObject env s labels key (key \<in> set keys)))" by auto
  from ReconcileObject_creates [OF this] have key: "key \<in> set keys"
    "CallNew key \<in> set (fst (ReconcileObject env s labels key True))"
    "set_owner env ((New s key)\<lparr>ko_key := key\<rparr>) = Inr obj"
    "kget env key = NotFound \<or> (\<exists>cur. kget env key = Found cur \<and> ko_evictable cur)" by auto
  then show ?thesis using ReconcileObjectSet_wanted_effects [OF key(1) list] by blast
qed

section \<open>Witnesses\<close>

text \<open>A Pod whose body is a version number; version 2 is wanted and needs a rolling recreation.\<close>

definition example_obj :: "string list \<Rightarrow> nat kobj" where
  "example_obj flags = \<lparr>annotations = Some (map_of (map (\<lambda>k. (k, [])) flags)), ko_key = (''ns'', ''pod''),
     ko_labels = [''app'' \<mapsto> ''x''], ko_UID = ''u'', ko_deleting = False, ko_evictable = False, ko_body = 1\<rparr>"

definition example_strategy :: "nat strategy" where
  "example_strategy = \<lparr>New = (\<lambda>k. example_obj []), UpdateInPlace = None, UpdateRollingInPlace = None,
     UpdateRecreate = None, UpdateRollingRecreate = Some (\<lambda>k obj. obj\<lparr>ko_body := 2\<rparr>), has_Status = False,
     has_OrphanStatus = False, PrepareForTurndown = None\<rparr>"

definition example_kube :: "string list \<Rightarrow> (nat, string) kube_env" where
  "example_kube flags = \<lparr>kget = (\<lambda>k. if k = (''ns'', ''pod'') then Found (example_obj flags) else NotFound),
     kdelete = (\<lambda>x. None), kcreate = (\<lambda>x. Some ''quota''), kupdate = (\<lambda>x. None), klist = Inr [example_obj flags],
     set_owner = Inr, defaulted = (\<lambda>x. x), semantic_equal = (\<lambda>a b. ko_body a = ko_body b),
     describe = (\<lambda>a b. ''image''), collision = ''collision''\<rparr>"

lemmas example_kube_defs = example_obj_def example_strategy_def example_kube_def ReconcileObject_def
  remove_evicted_def reconcile_wanted_def hasMatchingLabels_def update_object_def apply_rolling_def
  apply_hook_def deepEqual_def drainAndDelete_def kube_delete_def Let_def

theorem ReconcileObject_delete_safe_witness:
  "\<exists>obj. DeleteObj obj \<in> set (fst (ReconcileObject
        (example_kube [rollout_ReleasedAnnotation, drain_SupportedAnnotation, drain_FinishedAnnotation])
        example_strategy [(''app'', ''x'')] (''ns'', ''pod'') True)) \<and> drain_Supported obj \<and> drain_Finished obj"
proof -
  let ?flags = "[rollout_ReleasedAnnotation, drain_SupportedAnnotation, drain_FinishedAnnotation]"
  have "DeleteObj (example_obj ?flags) \<in> set (fst (ReconcileObject (example_kube ?flags)
      example_strategy [(''app'', ''x'')] (''ns'', ''pod'') True))"
    by (simp add: example_kube_defs drain_defs rollout_defs ann_has_def)
  moreover from ReconcileObject_delete_safe [OF this]
  have "drain_Finished (example_obj ?flags)"
    by (simp add: example_kube_defs drain_defs ann_has_def)
  ultimately show ?thesis by (auto simp: example_obj_def drain_defs ann_has_def)
qed

theorem ReconcileObject_schedules_witness:
  "\<exists>new. ReconcileObject (example_kube []) example_strategy [(''app'', ''x'')] (''ns'', ''pod'') True
      = updateInPlace (example_kube []) (example_obj []) new \<and> rollout_Scheduled new \<and> ko_body new = 1"
  using ReconcileObject_schedules [of "example_kube []" "(''ns'', ''pod'')" "example_obj []" "[(''app'', ''x'')]" example_strategy]
  by (simp add: example_kube_defs rollout_defs ann_has_def)

theorem ReconcileObjectSet_spec_witness:
  "snd (ReconcileObjectSet (example_kube []) example_strategy [] [(''ns'', ''new'')]) = Some ''quota''"
  using ReconcileObjectSet_spec [of "example_kube []" "[example_obj []]" example_strategy "[]" "[(''ns'', ''new'')]"]
  by (simp add: example_kube_defs create_object_def)

end
