(* ===== verification/Rollout.thy ===== *)
theory Rollout
  imports Drain_Reconcile Shard
begin

text \<open>
  Rolling updates of a shard: \<open>pkg/controller/vitessshard/reconcile_rollout.go\<close> releases one scheduled
  tablet at a time, \<open>reconcile_disk.go\<close> starts such a cascade for a change of disk size.

  A nil Pod that is looked into panics (\<open>None\<close>).  The answers of the topology and of the API server and
  \<open>topoproto\<close>'s alias formats are parameters.
\<close>

section \<open>Releasing the next tablet\<close>

record rollout_env =
  ro_visit :: visit_order
  ro_alias_String :: "tablet_alias \<Rightarrow> string"
  ro_shard :: obj_meta
  ro_tablets :: "(string, tablet_status) gomap"
  ro_spec :: shard_spec
  ro_pods :: "string + pod list"
  ro_primary :: "string + string"
  ro_update_shard :: "string option"
  ro_update_pod :: "string \<Rightarrow> string option"
  ro_delete_pod :: "string \<Rightarrow> string option"

datatype rollout_effect =
    ReleasePod string pod
  | DeletePod string
  | UpdateShard obj_meta
  | RolloutEvent string

definition tabletPodsFromShard :: "(tablet_alias \<Rightarrow> string) \<Rightarrow> pod list \<Rightarrow> (string, pod) gomap" where
  "tabletPodsFromShard alias_str podList =
     fold (\<lambda>pod m. AList.update (alias_str (AliasFromPod pod)) pod m) podList []"

text \<open>
  The first loop of \<open>getNextScheduledTablet\<close>: the scheduled tablets so far, or the early return of a
  scheduled tablet that is already drained.
\<close>

fun scheduled_scan ::
    "(string, pod) gomap \<Rightarrow> string list \<Rightarrow> string list \<Rightarrow> (string + string list) option"
where
  "scheduled_scan pods [] acc = Some (Inr acc)"
| "scheduled_scan pods (tabletKey # rest) acc =
     (case map_of pods tabletKey of
        None \<Rightarrow> None
      | Some pod \<Rightarrow>
          if rollout_Scheduled pod then
            (if drain_Finished pod then Some (Inl tabletKey)
             else scheduled_scan pods rest (if tabletKey \<in> set acc then acc else acc @ [tabletKey]))
          else scheduled_scan pods rest acc)"

definition getNextScheduledTablet ::
    "visit_order \<Rightarrow> string list \<Rightarrow> (string, pod) gomap \<Rightarrow> string \<Rightarrow> string option option"
where
  "getNextScheduledTablet visit tabletKeys pods primaryAlias =
     (case scheduled_scan pods tabletKeys [] of
        None \<Rightarrow> None
      | Some (Inl tabletKey) \<Rightarrow> Some (Some tabletKey)
      | Some (Inr scheduled) \<Rightarrow>
          (case find (\<lambda>k. k \<noteq> primaryAlias) (visit 1 scheduled) of
             Some k \<Rightarrow> Some (Some k)
           | None \<Rightarrow> Some (if primaryAlias \<in> set scheduled then Some primaryAlias else None)))"

datatype gate = Pass | Paused string

text \<open>Every desired tablet must be Available, have a Pod, and not be released already.\<close>

fun rollout_gate :: "(string, tablet_status) gomap \<Rightarrow> (string, pod) gomap \<Rightarrow> string list \<Rightarrow> gate" where
  "rollout_gate tablets pods [] = Pass"
| "rollout_gate tablets pods (tabletKey # rest) =
     (if map_option ts_Available (map_of tablets tabletKey) \<noteq> Some CondTrue then Paused tabletKey
      else (case map_of pods tabletKey of
              None \<Rightarrow> Paused tabletKey
            | Some pod \<Rightarrow> if rollout_Released pod then Paused tabletKey else rollout_gate tablets pods rest))"

definition releaseTabletPod :: "rollout_env \<Rightarrow> string \<Rightarrow> pod \<Rightarrow> bool \<Rightarrow> rollout_effect \<times> string option" where
  "releaseTabletPod env key pod deletePod =
     (if deletePod then (DeletePod key, ro_delete_pod env key)
      else (ReleasePod key (rollout_Release pod), ro_update_pod env key))"

definition uncascadeShard :: "rollout_env \<Rightarrow> rollout_effect \<times> string option" where
  "uncascadeShard env = (UpdateShard (rollout_Uncascade (ro_shard env)), ro_update_shard env)"

type_synonym rollout_result = "rollout_effect list \<times> reconcile_result \<times> string option"

abbreviation rollout_done :: "rollout_effect list \<Rightarrow> string option \<Rightarrow> rollout_result option" where
  "rollout_done es err \<equiv> Some (es, builder_Result (if err = None then empty_builder else builder_Error err empty_builder))"

text \<open>A tablet that is the only one eligible to be primary can only be deleted.\<close>

definition lone_master :: "shard_spec \<Rightarrow> pod \<Rightarrow> bool" where
  "lone_master spec pod \<longleftrightarrow>
     sint (MasterEligibleTabletCount spec) < 2
     \<and> (label_of TabletTypeLabel pod = ReplicaPoolType \<or> label_of TabletTypeLabel pod = ExternalMasterPoolType)"

definition reconcileRollout :: "rollout_env \<Rightarrow> rollout_result option" where
  "reconcileRollout env =
     (if \<not> rollout_Cascading (ro_shard env) then rollout_done [] None
      else (case ro_pods env of
          Inl e \<Rightarrow> rollout_done [] (Some e)
        | Inr podList \<Rightarrow>
            let pods = tabletPodsFromShard (ro_alias_String env) podList;
                tabletKeys = sorted_keys (ro_tablets env)
            in (case rollout_gate (ro_tablets env) pods tabletKeys of
                  Paused k \<Rightarrow> rollout_done [RolloutEvent ''RolloutPaused''] None
                | Pass \<Rightarrow>
                    (case ro_primary env of
                       Inl e \<Rightarrow> rollout_done [RolloutEvent ''RolloutBlocked''] (Some e)
                     | Inr primaryAlias \<Rightarrow>
                         (case getNextScheduledTablet (ro_visit env) tabletKeys pods primaryAlias of
                            None \<Rightarrow> None
                          | Some next \<Rightarrow>
                              if next = None \<or> next = Some [] then
                                (case uncascadeShard env of
                                   (eff, Some e) \<Rightarrow> rollout_done [eff, RolloutEvent ''UncascadeFailed''] (Some e)
                                 | (eff, None) \<Rightarrow> rollout_done [eff, RolloutEvent ''RollingRestartComplete''] None)
                              else
                                (case map_of pods (the next) of
                                   None \<Rightarrow> None
                                 | Some pod \<Rightarrow>
                                     (case releaseTabletPod env (the next) pod (lone_master (ro_spec env) pod) of
                                        (eff, Some e) \<Rightarrow> rollout_done [eff, RolloutEvent ''RollingRestartBlocked''] (Some e)
                                      | (eff, None) \<Rightarrow> rollout_done [eff] None)))))))"

section \<open>Starting a cascade for disk sizes\<close>

record claim =
  cl_capacity :: quantity
  cl_requested :: quantity
  cl_conditions :: "(string \<times> cond_status) list"

datatype 'a lookup = Missing | LookupError string | Got 'a

record disk_env =
  dk_strategy :: string
  dk_external :: "string list option"
  dk_parse_alias :: "string \<Rightarrow> tablet_alias option"
  dk_claim :: "string \<Rightarrow> claim lookup"
  dk_rollout :: rollout_env

definition ResourceChangesAllowed :: "string list \<Rightarrow> string \<Rightarrow> bool" where
  "ResourceChangesAllowed allowed resource = list_ex (\<lambda>r. r = resource) allowed"

definition checkPVCFileSystemResizeCondition :: "claim \<Rightarrow> bool" where
  "checkPVCFileSystemResizeCondition pvc =
     (case find (\<lambda>(ty, st). ty = ''FileSystemResizePending'') (cl_conditions pvc) of
        None \<Rightarrow> False | Some (ty, st) \<Rightarrow> st = CondTrue)"

text \<open>\<open>None\<close> is the error of an alias that does not parse.\<close>

fun pool_keys ::
    "(string \<Rightarrow> tablet_alias option) \<Rightarrow> (string, tablet_status) gomap \<Rightarrow> string \<Rightarrow> string \<Rightarrow> string list \<Rightarrow> string list option"
where
  "pool_keys parse tablets poolCell poolType [] = Some []"
| "pool_keys parse tablets poolCell poolType (k # ks) =
     (case parse k of
        None \<Rightarrow> None
      | Some tabletAlias \<Rightarrow>
          (case pool_keys parse tablets poolCell poolType ks of
             None \<Rightarrow> None
           | Some rest \<Rightarrow>
               Some (if map_option ts_PoolType (map_of tablets k) \<noteq> Some poolType \<or> fst tabletAlias \<noteq> poolCell
                     then rest else k # rest)))"

definition tabletKeysForPool :: "disk_env \<Rightarrow> string \<Rightarrow> string \<Rightarrow> string list option" where
  "tabletKeysForPool env poolCell poolType =
     pool_keys (dk_parse_alias env) (ro_tablets (dk_rollout env)) poolCell poolType
       (sorted_keys (ro_tablets (dk_rollout env)))"

datatype disk_scan = DiskDone bool | DiskWait string | DiskError string

text \<open>The inner loop over the tablets of a pool, with the flag \<open>anythingChanged\<close>.\<close>

fun disk_tablets :: "disk_env \<Rightarrow> (string, pod) gomap \<Rightarrow> quantity \<Rightarrow> string list \<Rightarrow> bool \<Rightarrow> disk_scan" where
  "disk_tablets env pods requested [] changed = DiskDone changed"
| "disk_tablets env pods requested (k # ks) changed =
     (case map_of pods k of
        None \<Rightarrow> disk_tablets env pods requested ks changed
      | Some pod \<Rightarrow>
          (case dk_claim env (pod_name pod) of
             Missing \<Rightarrow> disk_tablets env pods requested ks changed
           | LookupError e \<Rightarrow> DiskError e
           | Got pvc \<Rightarrow>
               if Quantity_Value (cl_capacity pvc) = Quantity_Value requested
               then disk_tablets env pods requested ks changed
               else if Quantity_Value (cl_requested pvc) \<noteq> Quantity_Value requested then DiskWait k
               else if \<not> checkPVCFileSystemResizeCondition pvc then DiskWait k
               else if \<not> rollout_Scheduled pod then DiskWait k
               else disk_tablets env pods requested ks True))"

fun disk_pools :: "disk_env \<Rightarrow> (string, pod) gomap \<Rightarrow> tablet_pool list \<Rightarrow> bool \<Rightarrow> disk_scan" where
  "disk_pools env pods [] changed = DiskDone changed"
| "disk_pools env pods (pool # pools) changed =
     (case (case tp_DataVolumeClaimTemplate pool of None \<Rightarrow> None
            | Some t \<Rightarrow> (case pvc_requests t of None \<Rightarrow> None | Some m \<Rightarrow> m ''storage'')) of
        None \<Rightarrow> disk_pools env pods pools changed
      | Some requested \<Rightarrow>
          (case tabletKeysForPool env (tp_Cell pool) (tp_Type pool) of
             None \<Rightarrow> DiskError ''invalid tablet alias''
           | Some ks \<Rightarrow>
               (case disk_tablets env pods requested ks changed of
                  DiskDone changed' \<Rightarrow> disk_pools env pods pools changed'
                | other \<Rightarrow> other)))"

definition disk_allowed :: "disk_env \<Rightarrow> bool" where
  "disk_allowed env \<longleftrightarrow>
     dk_strategy env = ''Immediate''
     \<or> (case dk_external env of None \<Rightarrow> False | Some allowed \<Rightarrow> ResourceChangesAllowed allowed ''storage'')"

definition reconcileDisk :: "disk_env \<Rightarrow> rollout_result" where
  "reconcileDisk env =
     (let ro = dk_rollout env; out = (\<lambda>es err. (es, builder_Result (builder_Error err empty_builder))) in
      if \<not> disk_allowed env then out [] None
      else if rollout_Cascading (ro_shard ro) then out [] None
      else (case ro_pods ro of
          Inl e \<Rightarrow> out [] (Some e)
        | Inr podList \<Rightarrow>
            (case disk_pools env (tabletPodsFromShard (ro_alias_String ro) podList) (st_TabletPools (ro_spec ro)) False of
               DiskError e \<Rightarrow> out [] (Some e)
             | DiskWait k \<Rightarrow> out [RolloutEvent ''PVCResizeWaiting''] None
             | DiskDone changed \<Rightarrow>
                 if changed then out [UpdateShard (rollout_Cascade (ro_shard ro))] (ro_update_shard ro)
                 else out [] None)))"

section \<open>Lemmas\<close>

lemma rollout_gate_Pass:
  "rollout_gate tablets pods ks = Pass \<longleftrightarrow>
     (\<forall>k \<in> set ks. (\<exists>t. map_of tablets k = Some t \<and> ts_Available t = CondTrue)
        \<and> (\<exists>p. map_of pods k = Some p \<and> \<not> rollout_Released p))"
  by (induction ks) (auto split: option.split)

lemma scheduled_scan_Inl:
  "scheduled_scan pods ks acc = Some (Inl k) \<Longrightarrow>
     k \<in> set ks \<and> (\<exists>p. map_of pods k = Some p \<and> rollout_Scheduled p \<and> drain_Finished p)"
  by (induction ks arbitrary: acc) (auto split: option.splits if_splits)

lemma scheduled_scan_Inr:
  "scheduled_scan pods ks acc = Some (Inr s) \<Longrightarrow> distinct acc \<Longrightarrow>
     distinct s \<and> set s = set acc \<union> {k \<in> set ks. \<exists>p. map_of pods k = Some p \<and> rollout_Scheduled p}
     \<and> (\<forall>k \<in> set ks. \<forall>p. map_of pods k = Some p \<longrightarrow> rollout_Scheduled p \<longrightarrow> \<not> drain_Finished p)"
proof (induction ks arbitrary: acc)
  case Nil
  then show ?case by simp
next
  case (Cons k ks)
  obtain p where p: "map_of pods k = Some p" using Cons.prems(1) by (auto split: option.splits)
  show ?case
  proof (cases "rollout_Scheduled p")
    case True
    then have "scheduled_scan pods ks (if k \<in> set acc then acc else acc @ [k]) = Some (Inr s)" "\<not> drain_Finished p"
      using Cons.prems(1) p by (auto split: if_splits)
    with Cons.IH [of "if k \<in> set acc then acc else acc @ [k]"] Cons.prems(2) p True show ?thesis
      by (auto split: if_splits)
  next
    case False
    then show ?thesis using Cons p by auto
  qed
qed

lemma scheduled_scan_total:
  "(\<And>k. k \<in> set ks \<Longrightarrow> map_of pods k \<noteq> None) \<Longrightarrow> scheduled_scan pods ks acc \<noteq> None"
  by (induction ks arbitrary: acc) (auto split: option.split)

text \<open>The choice: a drained scheduled tablet, else any other than the primary, else the primary.\<close>

lemma getNextScheduledTablet_choice:
  assumes "getNextScheduledTablet visit ks pods primary = Some next" "visits visit"
  shows "(\<forall>k. next = Some k \<longrightarrow> k \<in> set ks \<and> (\<exists>p. map_of pods k = Some p \<and> rollout_Scheduled p
            \<and> (drain_Finished p \<or> k \<noteq> primary
               \<or> (\<forall>j \<in> set ks. \<forall>q. map_of pods j = Some q \<longrightarrow> rollout_Scheduled q \<longrightarrow> j = primary))))
    \<and> (next = None \<longrightarrow> (\<forall>k \<in> set ks. \<forall>p. map_of pods k = Some p \<longrightarrow> \<not> rollout_Scheduled p))"
proof -
  obtain r where r: "scheduled_scan pods ks [] = Some r"
    using assms(1) by (auto simp: getNextScheduledTablet_def split: option.splits)
  show ?thesis
  proof (cases r)
    case (Inl k)
    then show ?thesis
      using assms(1) r scheduled_scan_Inl [of pods ks "[]" k] by (auto simp: getNextScheduledTablet_def)
  next
    case (Inr s)
    have s: "distinct s" "set s = {k \<in> set ks. \<exists>p. map_of pods k = Some p \<and> rollout_Scheduled p}"
      using scheduled_scan_Inr [of pods ks "[]" s] r Inr by auto
    then have visit: "set (visit 1 s) = set s" using assms(2) by (simp add: visits_def)
    show ?thesis
    proof (cases "find (\<lambda>k. k \<noteq> primary) (visit 1 s)")
      case None
      then have "\<forall>k \<in> set s. k = primary" using visit by (auto simp: find_None_iff)
      then show ?thesis
        using assms(1) r Inr None s(2) by (auto simp: getNextScheduledTablet_def split: if_splits)
    next
      case (Some k)
      then have "k \<in> set s" "k \<noteq> primary" using visit by (auto simp: find_Some_iff)
      then show ?thesis
        using assms(1) r Inr Some s(2) by (auto simp: getNextScheduledTablet_def)
    qed
  qed
qed

lemma getNextScheduledTablet_total:
  "scheduled_scan pods ks [] \<noteq> None \<Longrightarrow> \<exists>next. getNextScheduledTablet visit ks pods primary = Some next"
  by (auto simp: getNextScheduledTablet_def split: option.split sum.split)

definition all_ready :: "rollout_env \<Rightarrow> (string, pod) gomap \<Rightarrow> bool" where
  "all_ready env pods \<longleftrightarrow> (\<forall>k t. map_of (ro_tablets env) k = Some t \<longrightarrow>
     ts_Available t = CondTrue \<and> (\<exists>p. map_of pods k = Some p \<and> \<not> rollout_Released p))"

lemma gate_all_ready:
  "rollout_gate (ro_tablets env) pods (sorted_keys (ro_tablets env)) = Pass \<longleftrightarrow> all_ready env pods"
  by (force simp: rollout_gate_Pass all_ready_def)

text \<open>The three ways a pass can end, besides pausing.\<close>

lemma reconcileRollout_cases:
  assumes "visits (ro_visit env)"
  obtains (nothing) es r where "reconcileRollout env = Some (es, r)" "\<forall>e \<in> set es. \<exists>s. e = RolloutEvent s"
  | (complete) es r pods s where "reconcileRollout env = Some (es, r)"
      "\<exists>podList. ro_pods env = Inr podList \<and> pods = tabletPodsFromShard (ro_alias_String env) podList"
      "rollout_Cascading (ro_shard env)" "all_ready env pods"
      "es = [UpdateShard (rollout_Uncascade (ro_shard env)), RolloutEvent s]"
      "\<forall>k \<in> dom (map_of (ro_tablets env)). k \<noteq> [] \<longrightarrow> (\<forall>p. map_of pods k = Some p \<longrightarrow> \<not> rollout_Scheduled p) \<or> map_of (ro_tablets env) [] \<noteq> None"
  | (release) es r pods primary k p eff evs where "reconcileRollout env = Some (es, r)"
      "\<exists>podList. ro_pods env = Inr podList \<and> pods = tabletPodsFromShard (ro_alias_String env) podList"
      "rollout_Cascading (ro_shard env)" "all_ready env pods" "ro_primary env = Inr primary"
      "k \<in> dom (map_of (ro_tablets env))" "map_of pods k = Some p" "rollout_Scheduled p"
      "drain_Finished p \<or> k \<noteq> primary \<or>
        (\<forall>j q. map_of (ro_tablets env) j \<noteq> None \<longrightarrow> map_of pods j = Some q \<longrightarrow> rollout_Scheduled q \<longrightarrow> j = primary)"
      "es = eff # evs" "\<forall>e \<in> set evs. \<exists>s. e = RolloutEvent s"
      "eff = (if lone_master (ro_spec env) p then DeletePod k else ReleasePod k (rollout_Release p))"
proof -
  note D = reconcileRollout_def Let_def
  show thesis
  proof (cases "rollout_Cascading (ro_shard env)")
    case False
    then have "reconcileRollout env = rollout_done [] None" by (simp add: D)
    then show thesis by (rule nothing) simp
  next
    case casc: True
    show thesis
    proof (cases "ro_pods env")
      case (Inl e)
      then have "reconcileRollout env = rollout_done [] (Some e)"
        using casc by (simp add: D)
      then show thesis by (rule nothing) simp
    next
      case pl: (Inr podList)
      let ?pods = "tabletPodsFromShard (ro_alias_String env) podList"
      let ?keys = "sorted_keys (ro_tablets env)"
      show thesis
      proof (cases "rollout_gate (ro_tablets env) ?pods ?keys")
        case (Paused k)
        then have "reconcileRollout env = rollout_done [RolloutEvent ''RolloutPaused''] None"
          using casc pl by (simp add: D)
        then show thesis by (rule nothing) simp
      next
        case Pass
        then have ready: "all_ready env ?pods" by (simp add: gate_all_ready)
        show thesis
        proof (cases "ro_primary env")
          case (Inl e)
          then have "reconcileRollout env = rollout_done [RolloutEvent ''RolloutBlocked''] (Some e)"
            using casc pl Pass by (simp add: D)
          then show thesis by (rule nothing) simp
        next
          case pr: (Inr primary)
          have "scheduled_scan ?pods ?keys [] \<noteq> None"
            by (rule scheduled_scan_total) (use ready in \<open>force simp: all_ready_def\<close>)
          then obtain next' where nx: "getNextScheduledTablet (ro_visit env) ?keys ?pods primary = Some next'"
            using getNextScheduledTablet_total by blast
          note choice = getNextScheduledTablet_choice [OF nx assms]
          show thesis
          proof (cases "next' = None \<or> next' = Some []")
            case True
            obtain s err where un: "reconcileRollout env =
                rollout_done [UpdateShard (rollout_Uncascade (ro_shard env)), RolloutEvent s] err"
            proof (cases "ro_update_shard env")
              case None
              then have "reconcileRollout env = rollout_done
                  [UpdateShard (rollout_Uncascade (ro_shard env)), RolloutEvent ''RollingRestartComplete''] None"
                using casc pl Pass pr nx True by (auto simp: D uncascadeShard_def)
              then show thesis by (rule that)
            next
              case (Some e)
              then have "reconcileRollout env = rollout_done
                  [UpdateShard (rollout_Uncascade (ro_shard env)), RolloutEvent ''UncascadeFailed''] (Some e)"
                using casc pl Pass pr nx True by (auto simp: D uncascadeShard_def)
              then show thesis by (rule that)
            qed
            show thesis
              by (rule complete [OF un])
                (use casc pl ready choice True in \<open>auto simp: set_sorted_keys\<close>)
          next
            case False
            then obtain k where k: "next' = Some k" "k \<noteq> []" by auto
            then obtain p where p: "k \<in> set ?keys" "map_of ?pods k = Some p" "rollout_Scheduled p"
               "drain_Finished p \<or> k \<noteq> primary
               \<or> (\<forall>j \<in> set ?keys. \<forall>q. map_of ?pods j = Some q \<longrightarrow> rollout_Scheduled q \<longrightarrow> j = primary)"
              using choice by auto
            let ?eff = "if lone_master (ro_spec env) p then DeletePod k else ReleasePod k (rollout_Release p)"
            obtain evs err where run: "reconcileRollout env = rollout_done (?eff # evs) err"
                "\<forall>e \<in> set evs. \<exists>s. e = RolloutEvent s"
            proof (cases "snd (releaseTabletPod env k p (lone_master (ro_spec env) p))")
              case None
              then have "reconcileRollout env = rollout_done (?eff # []) None"
                using casc pl Pass pr nx k p by (auto simp: D releaseTabletPod_def split: prod.split)
              then show thesis by (rule that) simp
            next
              case (Some e)
              then have "reconcileRollout env = rollout_done (?eff # [RolloutEvent ''RollingRestartBlocked'']) (Some e)"
                using casc pl Pass pr nx k p by (auto simp: D releaseTabletPod_def split: prod.split)
              then show thesis by (rule that) simp
            qed
            show thesis
              by (rule release [OF run(1) _ _ ready pr _ p(2,3) _ refl run(2) refl])
                (use casc pl p in \<open>auto simp: domIff\<close>)
          qed
        qed
      qed
    qed
  qed
qed

section \<open>Properties\<close>

fun disrupts :: "rollout_effect \<Rightarrow> string option" where
  "disrupts (ReleasePod k p) = Some k"
| "disrupts (DeletePod k) = Some k"
| "disrupts _ = None"

text \<open>C5: A rollout pass never panics and disrupts at most one tablet, as safely as it can.  If it releases or
  deletes a tablet's Pod, then the shard is cascading, every desired tablet is Available and has
  a Pod that is not being released, the Pod is scheduled, and it is the primary only if it is
  drained already or nothing else is scheduled; it is deleted outright exactly when no other
  tablet could become primary.\<close>

theorem reconcileRollout_safe:
  assumes "visits (ro_visit env)"
  shows "\<exists>es r. reconcileRollout env = Some (es, r) \<and>
    (\<forall>e k. e \<in> set es \<longrightarrow> disrupts e = Some k \<longrightarrow>
      (\<exists>podList primary p. ro_pods env = Inr podList \<and> ro_primary env = Inr primary
        \<and> rollout_Cascading (ro_shard env)
        \<and> all_ready env (tabletPodsFromShard (ro_alias_String env) podList)
        \<and> map_of (ro_tablets env) k \<noteq> None
        \<and> map_of (tabletPodsFromShard (ro_alias_String env) podList) k = Some p \<and> rollout_Scheduled p
        \<and> (k = primary \<longrightarrow> drain_Finished p \<or> (\<forall>j q. map_of (ro_tablets env) j \<noteq> None \<longrightarrow>
              map_of (tabletPodsFromShard (ro_alias_String env) podList) j = Some q \<longrightarrow> rollout_Scheduled q \<longrightarrow> j = primary))
        \<and> e = (if lone_master (ro_spec env) p then DeletePod k else ReleasePod k (rollout_Release p))
        \<and> (\<forall>e' \<in> set es. disrupts e' \<noteq> None \<longrightarrow> e' = e)))"
  using assms
proof (cases rule: reconcileRollout_cases)
  case (nothing es r)
  then show ?thesis by (intro exI [of _ es] exI [of _ r]) fastforce
next
  case (complete es r pods s)
  then show ?thesis by auto
next
  case (release es r pods primary k p eff evs)
  have dis: "disrupts eff = Some k" unfolding release(12) by simp
  have only: "e = eff" if "e \<in> set es" "disrupts e \<noteq> None" for e
    using that release(10,11) by auto
  obtain podList where pl: "ro_pods env = Inr podList" "pods = tabletPodsFromShard (ro_alias_String env) podList"
    using release(2) by blast
  have "\<exists>podList primary p. ro_pods env = Inr podList \<and> ro_primary env = Inr primary
        \<and> rollout_Cascading (ro_shard env)
        \<and> all_ready env (tabletPodsFromShard (ro_alias_String env) podList)
        \<and> map_of (ro_tablets env) j \<noteq> None
        \<and> map_of (tabletPodsFromShard (ro_alias_String env) podList) j = Some p \<and> rollout_Scheduled p
        \<and> (j = primary \<longrightarrow> drain_Finished p \<or> (\<forall>i q. map_of (ro_tablets env) i \<noteq> None \<longrightarrow>
              map_of (tabletPodsFromShard (ro_alias_String env) podList) i = Some q \<longrightarrow> rollout_Scheduled q \<longrightarrow> i = primary))
        \<and> e = (if lone_master (ro_spec env) p then DeletePod j else ReleasePod j (rollout_Release p))
        \<and> (\<forall>e' \<in> set es. disrupts e' \<noteq> None \<longrightarrow> e' = e)"
    if e: "e \<in> set es" "disrupts e = Some j" for e j
  proof -
    have "e = eff" "j = k" using only [OF e(1)] e(2) dis by auto
    then show ?thesis
      using pl release(3-9) release(12) only
      by (intro exI [of _ podList] exI [of _ primary] exI [of _ p]) (auto simp: domIff)
  qed
  then show ?thesis using release(1) by blast
qed

text \<open>C33: The cascade ends only when it is complete: when a pass clears the cascading annotation, every desired
  tablet (no alias is the empty string) is Available and none has an update scheduled any more.\<close>

theorem reconcileRollout_complete:
  assumes "visits (ro_visit env)" "reconcileRollout env = Some (es, r)" "UpdateShard shard \<in> set es"
    "map_of (ro_tablets env) [] = None"
  shows "shard = rollout_Uncascade (ro_shard env)
    \<and> (\<exists>podList. ro_pods env = Inr podList \<and> (\<forall>k t. map_of (ro_tablets env) k = Some t \<longrightarrow>
        ts_Available t = CondTrue
        \<and> (\<exists>p. map_of (tabletPodsFromShard (ro_alias_String env) podList) k = Some p
              \<and> \<not> rollout_Released p \<and> \<not> rollout_Scheduled p)))"
  using assms(1)
proof (cases rule: reconcileRollout_cases)
  case (nothing es' r')
  then show ?thesis using assms(2,3) by auto
next
  case (complete es' r' pods s)
  then obtain podList where pl: "ro_pods env = Inr podList" "pods = tabletPodsFromShard (ro_alias_String env) podList"
    by blast
  have "ts_Available t = CondTrue \<and> (\<exists>p. map_of pods k = Some p \<and> \<not> rollout_Released p \<and> \<not> rollout_Scheduled p)"
    if t: "map_of (ro_tablets env) k = Some t" for k t
  proof -
    have "k \<noteq> []" using t assms(4) by auto
    then show ?thesis using complete(4,6) t assms(4) by (fastforce simp: all_ready_def)
  qed
  then show ?thesis using complete(1,5) assms(2,3) pl by auto
next
  case (release es' r' pods primary k p eff evs)
  then show ?thesis using assms(2,3) by (auto split: if_splits)
qed

text \<open>A change of disk size starts a cascade only when every affected tablet is prepared for it.  If a pass
  marks the shard as cascading, then the update strategy permits it, and for every pool that
  requests a size and every tablet of that pool whose claim has another capacity, the
  claim already requests the new size, is waiting for the file system resize, and the Pod has an
  update scheduled.\<close>

theorem reconcileDisk_prepared:
  assumes "UpdateShard shard \<in> set (fst (reconcileDisk env))"
  shows "disk_allowed env \<and> \<not> rollout_Cascading (ro_shard (dk_rollout env)) \<and> shard = rollout_Cascade (ro_shard (dk_rollout env))
    \<and> (\<exists>podList. ro_pods (dk_rollout env) = Inr podList \<and>
        (\<forall>pool t m q ks k pod pvc. pool \<in> set (st_TabletPools (ro_spec (dk_rollout env))) \<longrightarrow>
           tp_DataVolumeClaimTemplate pool = Some t \<longrightarrow> pvc_requests t = Some m \<longrightarrow> m ''storage'' = Some q \<longrightarrow>
           tabletKeysForPool env (tp_Cell pool) (tp_Type pool) = Some ks \<longrightarrow> k \<in> set ks \<longrightarrow>
           map_of (tabletPodsFromShard (ro_alias_String (dk_rollout env)) podList) k = Some pod \<longrightarrow>
           dk_claim env (pod_name pod) = Got pvc \<longrightarrow> Quantity_Value (cl_capacity pvc) \<noteq> Quantity_Value q \<longrightarrow>
           Quantity_Value (cl_requested pvc) = Quantity_Value q \<and> checkPVCFileSystemResizeCondition pvc
           \<and> rollout_Scheduled pod))"
proof -
  let ?ro = "dk_rollout env"
  have tablets: "Quantity_Value (cl_requested pvc) = Quantity_Value q \<and> checkPVCFileSystemResizeCondition pvc \<and> rollout_Scheduled pod"
    if "disk_tablets env pods q ks c = DiskDone c'" "k \<in> set ks" "map_of pods k = Some pod"
      "dk_claim env (pod_name pod) = Got pvc" "Quantity_Value (cl_capacity pvc) \<noteq> Quantity_Value q"
    for pods q ks c c' k pod pvc
    using that by (induction env pods q ks c rule: disk_tablets.induct) (auto split: option.splits lookup.splits if_splits)
  have pools: "\<exists>c1 c2. disk_tablets env pods q ks c1 = DiskDone c2"
    if "disk_pools env pods ps c = DiskDone c'" "pool \<in> set ps" "tp_DataVolumeClaimTemplate pool = Some t"
      "pvc_requests t = Some m" "m ''storage'' = Some q" "tabletKeysForPool env (tp_Cell pool) (tp_Type pool) = Some ks"
    for pods ps c c' pool t m q ks
    using that by (induction env pods ps c rule: disk_pools.induct)
      (auto split: option.splits disk_scan.splits, blast)
  obtain podList c' where run: "disk_allowed env" "\<not> rollout_Cascading (ro_shard ?ro)" "ro_pods ?ro = Inr podList"
      "disk_pools env (tabletPodsFromShard (ro_alias_String ?ro) podList) (st_TabletPools (ro_spec ?ro)) False = DiskDone c'"
      "shard = rollout_Cascade (ro_shard ?ro)"
    using assms by (auto simp: reconcileDisk_def Let_def split: if_splits sum.splits disk_scan.splits)
  show ?thesis
  proof (intro conjI exI [of _ podList] allI impI)
    fix pool t m q ks k pod pvc
    assume a: "pool \<in> set (st_TabletPools (ro_spec ?ro))" "tp_DataVolumeClaimTemplate pool = Some t"
      "pvc_requests t = Some m" "m ''storage'' = Some q" "tabletKeysForPool env (tp_Cell pool) (tp_Type pool) = Some ks"
      and b: "k \<in> set ks" "map_of (tabletPodsFromShard (ro_alias_String ?ro) podList) k = Some pod"
      "dk_claim env (pod_name pod) = Got pvc" "Quantity_Value (cl_capacity pvc) \<noteq> Quantity_Value q"
    obtain c1 c2 where "disk_tablets env (tabletPodsFromShard (ro_alias_String ?ro) podList) q ks c1 = DiskDone c2"
      using pools [OF run(4) a] by blast
    from tablets [OF this b]
    show "Quantity_Value (cl_requested pvc) = Quantity_Value q" "checkPVCFileSystemResizeCondition pvc"
      "rollout_Scheduled pod" by blast+
  qed (use run in blast)+
qed

section \<open>Witnesses\<close>

definition example_rollout :: "string list \<Rightarrow> rollout_env" where
  "example_rollout flags =
     \<lparr>ro_visit = (\<lambda>n ks. ks), ro_alias_String = fst,
      ro_shard = \<lparr>annotations = Some [rollout_CascadeAnnotation \<mapsto> []]\<rparr>,
      ro_tablets = [(''z1'', (NewVitessTabletStatus ''replica'' 1)\<lparr>ts_Available := CondTrue\<rparr>)],
      ro_spec = \<lparr>st_TabletPools = [], st_DatabaseInitScriptSecret = no_secret,
        st_Replication = \<lparr>rs_InitializeMaster = None, rs_InitializeBackup = None, rs_RecoverRestartedMaster = None\<rparr>,
        st_Annotations = None, ss_Name = ''-'', ss_ZoneMap = Map.empty, ss_KeyRange = VitessKeyRange [] [],
        ss_BackupLocations = []\<rparr>,
      ro_pods = Inr [\<lparr>annotations = Some (map_of (map (\<lambda>k. (k, [])) flags)), pod_name = ''p1'',
        pod_labels = [CellLabel \<mapsto> ''z1'', TabletTypeLabel \<mapsto> ''rdonly''], pod_containers = [], pod_Ready = True\<rparr>],
      ro_primary = Inr ''z2'', ro_update_shard = None, ro_update_pod = (\<lambda>k. None), ro_delete_pod = (\<lambda>k. None)\<rparr>"

theorem reconcileRollout_safe_witness:
  "\<exists>es r p. reconcileRollout (example_rollout [rollout_ScheduledAnnotation]) = Some (es, r)
     \<and> ReleasePod ''z1'' p \<in> set es \<and> rollout_Released p"
proof -
  have run: "case reconcileRollout (example_rollout [rollout_ScheduledAnnotation]) of
      Some (e # es, r) \<Rightarrow> (case e of ReleasePod k p \<Rightarrow> k = ''z1'' | _ \<Rightarrow> False) | _ \<Rightarrow> False"
    by code_simp
  then obtain es r p where run: "reconcileRollout (example_rollout [rollout_ScheduledAnnotation]) = Some (ReleasePod ''z1'' p # es, r)"
    by (auto split: option.splits list.splits rollout_effect.splits)
  let ?env = "example_rollout [rollout_ScheduledAnnotation]"
  have "visits (ro_visit ?env)" by (simp add: example_rollout_def visits_id)
  note safe = reconcileRollout_safe [OF this, unfolded run option.inject prod.inject]
  have "\<exists>q. ReleasePod ''z1'' p = (if lone_master (ro_spec ?env) q then DeletePod ''z1''
      else ReleasePod ''z1'' (rollout_Release q))"
    using safe
    by (elim exE conjE, erule_tac x = "ReleasePod ''z1'' p" in allE, erule_tac x = "''z1''" in allE,
        hypsubst, simp only: list.set insertI1 disrupts.simps simp_thms, elim exE conjE, intro exI)
  then have "rollout_Released p" by (auto simp: rollout_rel.has_raise split: if_splits)
  then show ?thesis using run by (intro exI [of _ "ReleasePod ''z1'' p # es"] exI [of _ r] exI [of _ p]) simp
qed

theorem reconcileRollout_complete_witness:
  "\<exists>es r shard. reconcileRollout (example_rollout []) = Some (es, r) \<and> UpdateShard shard \<in> set es
     \<and> \<not> rollout_Cascading shard"
proof -
  have "case reconcileRollout (example_rollout []) of
      Some (e # es, r) \<Rightarrow> (case e of UpdateShard m \<Rightarrow> True | _ \<Rightarrow> False) | _ \<Rightarrow> False"
    by code_simp
  then obtain es r m where run: "reconcileRollout (example_rollout []) = Some (UpdateShard m # es, r)"
    by (auto split: option.splits list.splits rollout_effect.splits)
  have "m = rollout_Uncascade (ro_shard (example_rollout []))"
    using reconcileRollout_complete [OF _ run, of m] by (simp add: example_rollout_def visits_id)
  then show ?thesis
    using run by (intro exI [of _ "UpdateShard m # es"] exI [of _ r] exI [of _ m]) (simp add: rollout_casc.has_lower)
qed

definition example_disk :: disk_env where
  "example_disk = \<lparr>dk_strategy = ''Immediate'', dk_external = None, dk_parse_alias = (\<lambda>k. Some (k, 0)),
     dk_claim = (\<lambda>k. Got \<lparr>cl_capacity = NewQuantity 10, cl_requested = NewQuantity 20,
        cl_conditions = [(''FileSystemResizePending'', CondTrue)]\<rparr>),
     dk_rollout = (example_rollout [rollout_ScheduledAnnotation])\<lparr>ro_shard := \<lparr>annotations = None\<rparr>,
       ro_spec := (ro_spec (example_rollout []))\<lparr>st_TabletPools :=
         [\<lparr>tp_Cell = ''z1'', tp_Type = ''replica'', tp_Name = [], tp_Replicas = 1,
           tp_DataVolumeClaimTemplate = Some \<lparr>pvc_requests = Some [''storage'' \<mapsto> NewQuantity 20], pvc_rest = []\<rparr>,
           tp_BackupLocationName = [],
           tp_Vttablet = \<lparr>vt_resources = \<lparr>limits = None, requests = None\<rparr>, vt_extraFlags = [],
             vt_vtbackupExtraFlags = [], vt_lifecycle = [], vt_terminationGracePeriod = None\<rparr>,
           tp_Mysqld = None, tp_MysqldExporter = None, tp_ExternalDatastore = None, tp_Annotations = [], tp_ExtraLabels = [], tp_Affinity = None, tp_ExtraEnv = [],
      tp_ExtraVolumes = [], tp_ExtraVolumeMounts = [], tp_InitContainers = [], tp_SidecarContainers = [],
      tp_Tolerations = [], tp_TopologySpreadConstraints = []\<rparr>]\<rparr>\<rparr>\<rparr>"

theorem reconcileDisk_prepared_witness:
  "\<exists>shard. UpdateShard shard \<in> set (fst (reconcileDisk example_disk)) \<and> rollout_Cascading shard
     \<and> disk_allowed example_disk"
proof -
  have "case fst (reconcileDisk example_disk) of e # es \<Rightarrow> (case e of UpdateShard m \<Rightarrow> True | _ \<Rightarrow> False) | _ \<Rightarrow> False"
    by code_simp
  then obtain m es where run: "fst (reconcileDisk example_disk) = UpdateShard m # es"
    by (auto split: list.splits rollout_effect.splits)
  then show ?thesis
    using reconcileDisk_prepared [of m example_disk] by (auto simp: rollout_casc.has_raise)
qed

end
