(* ===== verification/Replication_Init.thy ===== *)
theory Replication_Init
  imports Drain_Reconcile Shard
begin

text \<open>
  Starting replication on a new shard: \<open>init_shard_primary.go\<close>, \<open>init_restored_shard.go\<close>,
  \<open>tablet_externally_reparent.go\<close> and the controller's \<open>Reconcile\<close> in
  \<open>pkg/controller/vitessshardreplication\<close>.  A shard gets its first primary in one of three ways,
  by the kind of its data: \<open>InitShardPrimary\<close> erases the replication positions, so it is for shards that
  never had a backup; a shard with backups elects the restored replica that is farthest ahead; a shard
  on external MySQL tells Vitess about the primary that is already there.

  The answers of the topology and of the tablets are fields of \<open>init_env\<close>.  Checks that run in
  goroutines only read, so they are functions of the tablet; what depends on their timing is the
  order in which the channel delivers the statuses, \<open>ie_arrival\<close>.  Every row of \<open>SHOW DATABASES\<close> has
  one column, so an answer is the list of the names.
\<close>

section \<open>The environment\<close>

record ('p, 'd) init_env =
  ie_visit :: visit_order
  ie_name :: string
  ie_spec :: shard_spec
  ie_status :: shard_status
  ie_ParseTabletAlias :: "string \<Rightarrow> tablet_alias option"
  ie_AliasIsZero :: "tablet_alias \<Rightarrow> bool"
  ie_ErrNotReplica :: string
  ie_TabletDbName :: "tablet_info \<Rightarrow> string"
  ie_GetTablet :: "tablet_alias \<Rightarrow> string + tablet_info"
  ie_ReplicationStatus :: "tablet_info \<Rightarrow> string option"
  ie_ShowDatabases :: "tablet_info \<Rightarrow> string + string list"
  ie_PrimaryPosition :: "tablet_info \<Rightarrow> string + string"
  ie_DecodePosition :: "string \<Rightarrow> string + 'p"
  ie_AtLeast :: "'p \<Rightarrow> 'p \<Rightarrow> bool"
  ie_InitShardPrimary :: "tablet_alias \<Rightarrow> string option"
  ie_ExternallyReparented :: "tablet_alias \<Rightarrow> string option"
  ie_LockShard :: "string option"
  ie_unlock :: "string option \<Rightarrow> string option"
  ie_CheckShardLocked :: "string option"
  ie_GetShard :: "string \<Rightarrow> string + shard_info"
  ie_GetKeyspaceDurability :: "string + string"
  ie_GetDurabilityPolicy :: "string \<Rightarrow> string + 'd"
  ie_SemiSyncAckers :: "'d \<Rightarrow> tablet_info \<Rightarrow> int"
  ie_IsReplicaSemiSync :: "'d \<Rightarrow> tablet_info \<Rightarrow> tablet_info \<Rightarrow> bool"
  ie_GetTabletMap :: "string + (string, tablet_info) gomap"
  ie_arrival :: "tablet_info list \<Rightarrow> tablet_info list"
  ie_UpdateShardFields :: "tablet_alias \<Rightarrow> string option"
  ie_PromoteReplica :: "tablet_alias \<Rightarrow> string option"

text \<open>What the passes do to the outside, in order.\<close>

datatype init_effect =
    InitShardPrimary tablet_alias
  | InitExternallyReparented tablet_alias
  | LockShard
  | UnlockShard
  | PromoteReplica tablet_alias bool
  | SetShardPrimary tablet_alias
  | SetReplicationSource tablet_alias tablet_alias bool
  | InitEvent string

type_synonym init_result = "init_effect list \<times> string builder"

section \<open>Errors that mean: not a replica\<close>

fun Contains :: "string \<Rightarrow> string \<Rightarrow> bool" where
  "Contains [] sub \<longleftrightarrow> sub = []"
| "Contains (c # s) sub \<longleftrightarrow> take (length sub) (c # s) = sub \<or> Contains s sub"

definition errNotReplicaStrings :: "string list" where
  "errNotReplicaStrings = [''no slave status'', ''no replication status'']"

definition isErrNotReplica :: "('p, 'd) init_env \<Rightarrow> string \<Rightarrow> bool" where
  "isErrNotReplica env err =
     (if Contains err (ie_ErrNotReplica env) then True
      else list_ex (Contains err) errNotReplicaStrings)"

definition tabletDatabaseExists :: "('p, 'd) init_env \<Rightarrow> tablet_info \<Rightarrow> string + bool" where
  "tabletDatabaseExists env tablet =
     (let dbName = ie_TabletDbName env tablet
      in if dbName = [] then Inl ''couldn't determine database name''
         else (case ie_ShowDatabases env tablet of
                 Inl err \<Rightarrow> Inl err
               | Inr names \<Rightarrow> Inr (list_ex (\<lambda>n. n = dbName) names)))"

section \<open>A shard that never had a backup\<close>

text \<open>\<open>readyForShardInit\<close>: the error that keeps the tablet from being initialized, if any.\<close>

definition readyForShardInit :: "('p, 'd) init_env \<Rightarrow> string \<Rightarrow> tablet_alias \<Rightarrow> string option" where
  "readyForShardInit env name tabletAlias =
     (case ie_GetTablet env tabletAlias of
        Inl err \<Rightarrow> Some (''failed to get topology record for tablet '' @ name @ '': '' @ err)
      | Inr ti \<Rightarrow>
          (case ie_ReplicationStatus env ti of
             None \<Rightarrow> Some (''replication was previously configured on tablet '' @ name)
           | Some err \<Rightarrow>
               if \<not> isErrNotReplica env err
               then Some (''failed to get replication status for tablet '' @ name @ '': '' @ err)
               else (case tabletDatabaseExists env ti of
                       Inl err \<Rightarrow> Some (''couldn't determine whether tablet '' @ name @ '' database exists: '' @ err)
                     | Inr dbExists \<Rightarrow>
                         if dbExists then Some (''the database was already created on tablet '' @ name) else None)))"

fun ready_scan :: "(string, tablet_status) gomap \<Rightarrow> string builder \<Rightarrow> init_effect list \<times> string builder \<times> bool" where
  "ready_scan [] b = ([], b, True)"
| "ready_scan ((name, tablet) # rest) b =
     (if ts_Running tablet \<noteq> CondTrue then ([InitEvent ''InitShardWaiting''], b, False)
      else if ts_Type tablet = ''master'' then ([InitEvent ''InitShardBlocked''], b, False)
      else if ts_Type tablet = [] \<or> ts_Type tablet = ''unknown''
      then ([InitEvent ''InitShardWaiting''], builder_RequeueAfter replicationRequeueDelay b, False)
      else if ts_Type tablet = ''restore'' then ([InitEvent ''InitShardWaiting''], b, False)
      else ready_scan rest b)"

definition readyForPrimary :: "('p, 'd) init_env \<Rightarrow> string builder \<Rightarrow> init_effect list \<times> string builder \<times> bool" where
  "readyForPrimary env b =
     (case sh_HasMaster (ie_status env) of
        CondTrue \<Rightarrow> ([], b, False)
      | CondUnknown \<Rightarrow> ([], builder_RequeueAfter replicationRequeueDelay b, False)
      | _ \<Rightarrow>
          if sh_Tablets (ie_status env) = [] then ([], b, False)
          else ready_scan (range_of (ie_visit env) 1 (sh_Tablets (ie_status env))) b)"

text \<open>
  The loop that parses the aliases, remembers the first replica as the candidate and starts the
  checks: \<open>None\<close> when an alias cannot be parsed.
\<close>

fun candidate_scan ::
    "('p, 'd) init_env \<Rightarrow> (string, tablet_status) gomap \<Rightarrow> tablet_alias option
     \<Rightarrow> (tablet_alias option \<times> (string \<times> tablet_alias) list) option"
where
  "candidate_scan env [] candidate = Some (candidate, [])"
| "candidate_scan env ((name, tablet) # rest) candidate =
     (case ie_ParseTabletAlias env name of
        None \<Rightarrow> None
      | Some tabletAlias \<Rightarrow>
          (case candidate_scan env rest
                  (if candidate = None \<and> ts_Type tablet = ''replica'' then Some tabletAlias else candidate) of
             None \<Rightarrow> None
           | Some (c, started) \<Rightarrow> Some (c, (name, tabletAlias) # started)))"

definition initShardPrimary :: "('p, 'd) init_env \<Rightarrow> init_result" where
  "initShardPrimary env =
     (if UsingExternalDatastore (ie_spec env) \<or> BackupsEnabled (ie_spec env) then ([], empty_builder)
      else (case readyForPrimary env empty_builder of
          (es, b, False) \<Rightarrow> (es, b)
        | (es, b, True) \<Rightarrow>
            (case candidate_scan env (range_of (ie_visit env) 2 (sh_Tablets (ie_status env))) None of
               None \<Rightarrow> (es @ [InitEvent ''InternalError''], b)
             | Some (primaryCandidate, started) \<Rightarrow>
                 if list_ex (\<lambda>(name, a). readyForShardInit env name a \<noteq> None) started
                 then (es @ [InitEvent ''InitShardBlocked''], builder_RequeueAfter replicationRequeueDelay b)
                 else (case primaryCandidate of
                         None \<Rightarrow> (es @ [InitEvent ''InitShardBlocked''], b)
                       | Some a \<Rightarrow>
                           if ie_InitShardPrimary env a \<noteq> None
                           then (es @ [InitShardPrimary a, InitEvent ''InitShardFailed''],
                                 builder_RequeueAfter replicationRequeueDelay b)
                           else (es @ [InitShardPrimary a, InitEvent ''InitShardPrimary''], b)))))"

section \<open>A shard on external MySQL\<close>

fun external_scan :: "('p, 'd) init_env \<Rightarrow> (string, tablet_status) gomap \<Rightarrow> string + tablet_alias option" where
  "external_scan env [] = Inr None"
| "external_scan env ((name, tablet) # rest) =
     (if \<not> (IsExternalMaster tablet \<and> IsRunning tablet) then external_scan env rest
      else (case ie_ParseTabletAlias env name of
              None \<Rightarrow> Inl name
            | Some a \<Rightarrow> Inr (Some a)))"

definition tabletExternallyReparent :: "('p, 'd) init_env \<Rightarrow> init_result" where
  "tabletExternallyReparent env =
     (if \<not> UsingExternalDatastore (ie_spec env) then ([], empty_builder)
      else if sh_HasMaster (ie_status env) = CondTrue then ([], empty_builder)
      else if (case ie_GetShard env (ie_name env) of Inl err \<Rightarrow> False | Inr shard \<Rightarrow> si_HasPrimary shard)
      then ([], empty_builder)
      else (case external_scan env (range_of (ie_visit env) 3 (sh_Tablets (ie_status env))) of
              Inl name \<Rightarrow> ([InitEvent ''InternalError''], empty_builder)
            | Inr None \<Rightarrow> ([InitEvent ''ExternalPrimaryShardBlocked''], empty_builder)
            | Inr (Some a) \<Rightarrow>
                if ie_ExternallyReparented env a \<noteq> None
                then ([InitExternallyReparented a, InitEvent ''TabletExternallyReparentedFailed''],
                      builder_RequeueAfter replicationRequeueDelay empty_builder)
                else ([InitExternallyReparented a, InitEvent ''TabletExternallyReparented''], empty_builder)))"

section \<open>A shard restored from a backup\<close>

record 'p tabletStatus =
  st_replicationConfigured :: bool
  st_replicationPosition :: "'p option"
  st_databaseExists :: bool
  st_tablet :: tablet_info
  st_err :: "string option"

text \<open>Positions that were not read are the zero value, here \<open>None\<close>; a status with an error is never used.\<close>

definition getTabletStatus :: "('p, 'd) init_env \<Rightarrow> tablet_info \<Rightarrow> 'p tabletStatus" where
  "getTabletStatus env tablet =
     (let status = \<lparr>st_replicationConfigured = False, st_replicationPosition = None, st_databaseExists = False,
                    st_tablet = tablet, st_err = None\<rparr>;
          check_position = (\<lambda>status.
            (case ie_PrimaryPosition env tablet of
               Inl err \<Rightarrow> status\<lparr>st_err := Some (''couldn't get replicaiton position: '' @ err)\<rparr>
             | Inr positionStr \<Rightarrow>
                 (case ie_DecodePosition env positionStr of
                    Inl err \<Rightarrow> status\<lparr>st_err := Some (''couldn't get replicaiton position: '' @ err)\<rparr>
                  | Inr p \<Rightarrow>
                      (case tabletDatabaseExists env tablet of
                         Inl err \<Rightarrow> status\<lparr>st_replicationPosition := Some p,
                                      st_err := Some (''couldn't determine whether database exists: '' @ err)\<rparr>
                       | Inr x \<Rightarrow> status\<lparr>st_replicationPosition := Some p, st_databaseExists := x\<rparr>))))
      in case ie_ReplicationStatus env tablet of
           None \<Rightarrow> check_position (status\<lparr>st_replicationConfigured := True\<rparr>)
         | Some err \<Rightarrow>
             if isErrNotReplica env err then check_position status
             else status\<lparr>st_err := Some (''couldn't determine whether replication is configured: '' @ err)\<rparr>)"

definition behind :: "('p, 'd) init_env \<Rightarrow> 'p tabletStatus \<Rightarrow> 'p tabletStatus \<Rightarrow> bool" where
  "behind env s t = (case (st_replicationPosition s, st_replicationPosition t) of
     (Some p, Some q) \<Rightarrow> \<not> ie_AtLeast env p q | _ \<Rightarrow> False)"

text \<open>The loop over the statuses in arrival order: the candidate and the restored replicas.\<close>

definition elect_step :: "('p, 'd) init_env \<Rightarrow> 'p tabletStatus
    \<Rightarrow> 'p tabletStatus option \<times> 'p tabletStatus list \<Rightarrow> 'p tabletStatus option \<times> 'p tabletStatus list" where
  "elect_step env status acc =
     (case acc of (candidate, restoredReplicas) \<Rightarrow>
        if st_err status \<noteq> None then acc
        else if \<not> st_databaseExists status then acc
        else (case ti_Type (st_tablet status) of
            REPLICA \<Rightarrow>
              ((case candidate of
                  None \<Rightarrow> Some status
                | Some c \<Rightarrow> if behind env c status then Some status else Some c),
               restoredReplicas @ [status])
          | RDONLY \<Rightarrow> (candidate, restoredReplicas @ [status])
          | _ \<Rightarrow> acc))"

fun find_existing :: "(string, tablet_info) gomap \<Rightarrow> tablet_info option \<Rightarrow> string + tablet_info option" where
  "find_existing [] existing = Inr existing"
| "find_existing ((name, tablet) # rest) existing =
     (if ti_Type tablet = PRIMARY
      then (if existing \<noteq> None
            then Inl (''can't elect primary: shard has multiple tablets that claim to be primary: '' @ name)
            else find_existing rest (Some tablet))
      else find_existing rest existing)"

text \<open>The election, while the lock is held.\<close>

definition elect_locked :: "('p, 'd) init_env \<Rightarrow> init_effect list \<times> (string + tablet_alias)" where
  "elect_locked env =
     (case ie_GetShard env (ss_Name (ie_spec env)) of
        Inl err \<Rightarrow> ([], Inl err)
      | Inr shard \<Rightarrow>
     (if \<not> ie_AliasIsZero env (si_PrimaryAlias shard)
      then ([], Inl ''can't elect primary: shard already has a primary'')
      else (case ie_GetKeyspaceDurability env of
        Inl err \<Rightarrow> ([], Inl err)
      | Inr keyspaceDurability \<Rightarrow>
     (case ie_GetDurabilityPolicy env keyspaceDurability of
        Inl err \<Rightarrow> ([], Inl err)
      | Inr durability \<Rightarrow>
     (case ie_GetTabletMap env of
        Inl err \<Rightarrow> ([], Inl (''can't get tablets for shard: '' @ err))
      | Inr tablets \<Rightarrow>
     (case find_existing (range_of (ie_visit env) 4 tablets) None of
        Inl err \<Rightarrow> ([], Inl err)
      | Inr (Some existingPrimary) \<Rightarrow>
          (case ie_CheckShardLocked env of
             Some err \<Rightarrow> ([], Inl (''lost topology lock; aborting: '' @ err))
           | None \<Rightarrow>
               (case ie_UpdateShardFields env (ti_Alias existingPrimary) of
                  Some err \<Rightarrow> ([SetShardPrimary (ti_Alias existingPrimary)],
                               Inl (''failed to fix shard record for already-promoted primary: '' @ err))
                | None \<Rightarrow> ([SetShardPrimary (ti_Alias existingPrimary)], Inr (ti_Alias existingPrimary))))
      | Inr None \<Rightarrow>
          (case fold (elect_step env)
                  (map (getTabletStatus env) (ie_arrival env (map snd (range_of (ie_visit env) 5 tablets))))
                  (None, []) of
             (None, _) \<Rightarrow> ([], Inl ''can't elect primary: didn't find any valid candidate'')
           | (Some candidate, restoredReplicas) \<Rightarrow>
               (let primary = st_tablet candidate;
                    promote = PromoteReplica (ti_Alias primary) (ie_SemiSyncAckers env durability primary > 0);
                    sources = map (\<lambda>s. SetReplicationSource (ti_Alias (st_tablet s)) (ti_Alias primary)
                                         (ie_IsReplicaSemiSync env durability primary (st_tablet s)))
                                (filter (\<lambda>s. ti_Alias (st_tablet s) \<noteq> ti_Alias primary) restoredReplicas)
                in case ie_CheckShardLocked env of
                     Some err \<Rightarrow> ([], Inl (''lost topology lock; aborting: '' @ err))
                   | None \<Rightarrow>
                       (case ie_PromoteReplica env (ti_Alias primary) of
                          Some err \<Rightarrow> ([promote], Inl (''failed to promote tablet to primary: '' @ err))
                        | None \<Rightarrow>
                            (case ie_UpdateShardFields env (ti_Alias primary) of
                               Some err \<Rightarrow> ([promote, SetShardPrimary (ti_Alias primary)],
                                            Inl (''failed to update shard record: '' @ err))
                             | None \<Rightarrow> (promote # SetShardPrimary (ti_Alias primary) # sources,
                                        Inr (ti_Alias primary))))))))))))"

text \<open>The deferred \<open>unlock\<close> may replace a nil error by its own.\<close>

definition electInitialShardPrimary :: "('p, 'd) init_env \<Rightarrow> init_effect list \<times> (string + tablet_alias)" where
  "electInitialShardPrimary env =
     (case ie_LockShard env of
        Some err \<Rightarrow> ([], Inl err)
      | None \<Rightarrow>
          (case elect_locked env of
             (es, r) \<Rightarrow>
               (LockShard # es @ [UnlockShard],
                case (r, ie_unlock env (case r of Inl err \<Rightarrow> Some err | Inr _ \<Rightarrow> None)) of
                  (_, Some err) \<Rightarrow> Inl err
                | (Inl err, None) \<Rightarrow> Inr ([], 0)
                | (Inr a, None) \<Rightarrow> Inr a)))"

definition initRestoredShard :: "('p, 'd) init_env \<Rightarrow> init_result" where
  "initRestoredShard env =
     (if \<not> BackupsEnabled (ie_spec env) \<or> UsingExternalDatastore (ie_spec env) then ([], empty_builder)
      else (case sh_HasMaster (ie_status env) of
          CondTrue \<Rightarrow> ([], empty_builder)
        | CondUnknown \<Rightarrow> ([], builder_RequeueAfter replicationRequeueDelay empty_builder)
        | _ \<Rightarrow>
            if sh_HasInitialBackup (ie_status env) \<noteq> CondTrue then ([InitEvent ''InitShardWaiting''], empty_builder)
            else if \<not> list_ex (\<lambda>(name, tablet). ts_Running tablet = CondTrue
                          \<and> (ts_Type tablet = ''replica'' \<or> ts_Type tablet = ''master''))
                      (range_of (ie_visit env) 6 (sh_Tablets (ie_status env)))
            then ([InitEvent ''InitShardWaiting''], builder_RequeueAfter replicationRequeueDelay empty_builder)
            else (case electInitialShardPrimary env of
                    (es, Inl err) \<Rightarrow> (es @ [InitEvent ''InitShardFailed''],
                                     builder_RequeueAfter replicationRequeueDelay empty_builder)
                  | (es, Inr primaryAlias) \<Rightarrow> (es @ [InitEvent ''InitShardPrimary''], empty_builder))))"

section \<open>The controller\<close>

definition merge_result :: "init_result \<Rightarrow> string builder \<Rightarrow> string builder" where
  "merge_result r b = builder_Merge (fst (builder_Result (snd r))) (snd (builder_Result (snd r))) b"

text \<open>\<open>*vts.Spec.Replication.InitializeMaster\<close> panics on nil: \<open>None\<close>.\<close>

definition initReplication :: "('p, 'd) init_env \<Rightarrow> init_result option" where
  "initReplication env =
     (case rs_InitializeMaster (st_Replication (ie_spec env)) of
        None \<Rightarrow> None
      | Some False \<Rightarrow> Some ([], empty_builder)
      | Some True \<Rightarrow>
          (let ism = initShardPrimary env; ter = tabletExternallyReparent env; irs = initRestoredShard env
           in Some (fst ism @ fst ter @ fst irs,
                merge_result irs (merge_result ter (merge_result ism empty_builder)))))"

datatype replication_error = GetError string | EnvError string | InitError string | DrainError drain_error

datatype replication_effect = InitEffect init_effect | DrainEffect drain_effect | TopoConnectFailed | ResyncEnqueue

text \<open>
  The object as it was read, the connections that can fail, and what the two halves of the pass see.
  \<open>re_init\<close> and \<open>re_drain\<close> are functions of the object after its defaults have been filled in.
\<close>

datatype 'o get_reply = GetNotFound | GetFailed string | Got 'o

record vts_object =
  vo_Generation :: int
  vo_ObservedGeneration :: int
  vo_Spec :: shard_spec

record ('p, 'd) replication_env =
  re_get :: "vts_object get_reply"
  re_open :: "string option"
  re_vtenv :: "string option"
  re_init :: "shard_spec \<Rightarrow> ('p, 'd) init_env"
  re_drain :: "shard_spec \<Rightarrow> 'p drain_env"

definition replication_Reconcile ::
    "('p, 'd) replication_env \<Rightarrow> (replication_effect list \<times> reconcile_result \<times> replication_error option) option"
where
  "replication_Reconcile env =
     (case re_get env of
        GetNotFound \<Rightarrow> Some ([], builder_Result empty_builder)
      | GetFailed err \<Rightarrow> Some ([], builder_Result (builder_Error (Some (GetError err)) empty_builder))
      | Got vts \<Rightarrow>
     (let spec = DefaultVitessShardTemplate (vo_Spec vts)
      in if vo_ObservedGeneration vts = 0 \<or> vo_ObservedGeneration vts \<noteq> vo_Generation vts
         then Some ([], builder_Result empty_builder)
         else if re_open env \<noteq> None
         then Some ([TopoConnectFailed], builder_Result (builder_RequeueAfter replicationRequeueDelay empty_builder))
         else (case re_vtenv env of
             Some err \<Rightarrow> Some ([], builder_Result (builder_Error (Some (EnvError err)) empty_builder))
           | None \<Rightarrow>
               (case initReplication (re_init env spec) of
                  None \<Rightarrow> None
                | Some (es, ib) \<Rightarrow>
                    (case reconcileDrain (re_drain env spec) of
                       None \<Rightarrow> None
                     | Some (ds, dr, derr) \<Rightarrow>
                         Some (map InitEffect es @ map DrainEffect ds @ [ResyncEnqueue],
                           builder_Result (builder_Merge dr (map_option DrainError derr)
                             (builder_Merge (result ib) (map_option InitError (firstErr ib)) empty_builder))))))))"

section \<open>What the checks establish\<close>

text \<open>A tablet Vitess has never initialized: registered, not replicating, without a database.\<close>

definition pristine :: "('p, 'd) init_env \<Rightarrow> tablet_alias \<Rightarrow> bool" where
  "pristine env a \<longleftrightarrow> (\<exists>ti err names. ie_GetTablet env a = Inr ti
     \<and> ie_ReplicationStatus env ti = Some err \<and> isErrNotReplica env err
     \<and> ie_TabletDbName env ti \<noteq> [] \<and> ie_ShowDatabases env ti = Inr names \<and> ie_TabletDbName env ti \<notin> set names)"

lemma tabletDatabaseExists_Inr:
  "tabletDatabaseExists env t = Inr x \<longleftrightarrow>
     ie_TabletDbName env t \<noteq> [] \<and> (\<exists>names. ie_ShowDatabases env t = Inr names \<and> x = (ie_TabletDbName env t \<in> set names))"
  by (auto simp: tabletDatabaseExists_def Let_def list_ex_iff split: sum.split)

lemma readyForShardInit_pristine: "readyForShardInit env name a = None \<longleftrightarrow> pristine env a"
  by (auto simp: readyForShardInit_def pristine_def tabletDatabaseExists_Inr
        split: sum.splits option.splits if_splits)
    (auto simp: tabletDatabaseExists_def Let_def split: if_splits)

text \<open>What Kubernetes and the topology must say of a tablet before anyone talks to it.\<close>

definition init_ready :: "tablet_status \<Rightarrow> bool" where
  "init_ready t \<longleftrightarrow> ts_Running t = CondTrue \<and> ts_Type t \<notin> {[], ''unknown'', ''restore'', ''master''}"

lemma ready_scan_True: "ready_scan m b = (es, b', True) \<longleftrightarrow> (\<forall>(n, t) \<in> set m. init_ready t) \<and> es = [] \<and> b' = b"
  by (induction m b rule: ready_scan.induct) (auto simp: init_ready_def)

lemma readyForPrimary_True:
  assumes "visits (ie_visit env)" "gomap_wf (sh_Tablets (ie_status env))"
    "readyForPrimary env b = (es, b', True)"
  shows "sh_HasMaster (ie_status env) \<notin> {CondTrue, CondUnknown}" "sh_Tablets (ie_status env) \<noteq> []"
    "\<forall>(n, t) \<in> set (sh_Tablets (ie_status env)). init_ready t" "es = []" "b' = b"
  using assms by (auto simp: readyForPrimary_def ready_scan_True split: cond_status.splits if_splits)

lemma candidate_scan_Some:
  assumes "candidate_scan env m c0 = Some (c, started)"
  shows "(\<forall>(n, t) \<in> set m. \<exists>a. ie_ParseTabletAlias env n = Some a \<and> (n, a) \<in> set started)
    \<and> (\<forall>a. c = Some a \<longrightarrow> c0 = Some a \<or> (\<exists>(n, t) \<in> set m. ie_ParseTabletAlias env n = Some a \<and> ts_Type t = ''replica''))"
  using assms
  by (induction env m c0 arbitrary: started rule: candidate_scan.induct) (fastforce split: option.splits if_splits)+

definition initializable :: "('p, 'd) init_env \<Rightarrow> tablet_alias \<Rightarrow> bool" where
  "initializable env a \<longleftrightarrow>
     \<not> UsingExternalDatastore (ie_spec env) \<and> \<not> BackupsEnabled (ie_spec env)
     \<and> sh_HasMaster (ie_status env) \<notin> {CondTrue, CondUnknown}
     \<and> (\<forall>(n, t) \<in> set (sh_Tablets (ie_status env)).
          init_ready t \<and> (\<exists>b. ie_ParseTabletAlias env n = Some b \<and> pristine env b))
     \<and> (\<exists>(n, t) \<in> set (sh_Tablets (ie_status env)). ie_ParseTabletAlias env n = Some a \<and> ts_Type t = ''replica'')"

text \<open>An effect that gives the shard a primary.\<close>

fun makes_primary :: "init_effect \<Rightarrow> tablet_alias option" where
  "makes_primary (InitShardPrimary a) = Some a"
| "makes_primary (InitExternallyReparented a) = Some a"
| "makes_primary (PromoteReplica a s) = Some a"
| "makes_primary _ = None"

definition primaries :: "init_effect list \<Rightarrow> init_effect list" where
  "primaries es = filter (\<lambda>e. makes_primary e \<noteq> None) es"

lemma primaries_simps [simp]:
  "primaries [] = []"
  "primaries (e # es) = (if makes_primary e = None then primaries es else e # primaries es)"
  "primaries (es @ fs) = primaries es @ primaries fs"
  by (simp_all add: primaries_def)

lemma initShardPrimary_cases:
  assumes "visits (ie_visit env)" "gomap_wf (sh_Tablets (ie_status env))"
  shows "primaries (fst (initShardPrimary env)) = []
    \<or> (\<exists>a. primaries (fst (initShardPrimary env)) = [InitShardPrimary a] \<and> initializable env a)"
proof -
  have waiting: "primaries es = []" if "ready_scan m b = (es, b', r)" for m b es b' and r :: bool
    using that by (induction m b rule: ready_scan.induct) (auto split: if_splits)
  have none: "primaries es = []" if "readyForPrimary env empty_builder = (es, b', r)" for es b' and r :: bool
    using that by (auto simp: readyForPrimary_def split: cond_status.splits if_splits dest: waiting)
  have found: "initializable env a"
    if guard: "\<not> UsingExternalDatastore (ie_spec env)" "\<not> BackupsEnabled (ie_spec env)"
      and ready: "readyForPrimary env empty_builder = (es, b, True)"
      and scan: "candidate_scan env (range_of (ie_visit env) 2 (sh_Tablets (ie_status env))) None = Some (Some a, started)"
      and ok: "\<not> list_ex (\<lambda>(name, a). readyForShardInit env name a \<noteq> None) started" for es b a started
  proof -
    have ok: "pristine env c" if "(n, c) \<in> set started" for n c
      using ok that by (auto simp: list_ex_iff readyForShardInit_pristine)
    show ?thesis
      using candidate_scan_Some [OF scan] readyForPrimary_True [OF assms ready] guard assms ok
      unfolding initializable_def by simp blast
  qed
  show ?thesis
    by (auto simp: initShardPrimary_def dest: none found split: prod.splits bool.splits option.splits)
qed

definition external_primary :: "('p, 'd) init_env \<Rightarrow> tablet_alias \<Rightarrow> bool" where
  "external_primary env a \<longleftrightarrow>
     UsingExternalDatastore (ie_spec env) \<and> sh_HasMaster (ie_status env) \<noteq> CondTrue
     \<and> (\<exists>(n, t) \<in> set (sh_Tablets (ie_status env)). ie_ParseTabletAlias env n = Some a \<and> IsExternalMaster t \<and> IsRunning t)"

lemma external_scan_Some:
  "external_scan env m = Inr (Some a) \<Longrightarrow>
     \<exists>(n, t) \<in> set m. ie_ParseTabletAlias env n = Some a \<and> IsExternalMaster t \<and> IsRunning t"
  by (induction env m rule: external_scan.induct) (auto split: if_splits option.splits)

lemma tabletExternallyReparent_cases:
  assumes "visits (ie_visit env)" "gomap_wf (sh_Tablets (ie_status env))"
  shows "primaries (fst (tabletExternallyReparent env)) = []
    \<or> (\<exists>a. primaries (fst (tabletExternallyReparent env)) = [InitExternallyReparented a] \<and> external_primary env a)"
proof -
  have "external_primary env a"
    if "UsingExternalDatastore (ie_spec env)" "sh_HasMaster (ie_status env) \<noteq> CondTrue"
      "external_scan env (range_of (ie_visit env) 3 (sh_Tablets (ie_status env))) = Inr (Some a)" for a
    using external_scan_Some [OF that(3)] that(1,2) assms by (simp add: external_primary_def)
  then show ?thesis
    by (simp add: tabletExternallyReparent_def split: sum.splits option.splits)
qed

section \<open>The election\<close>

text \<open>A tablet that finished restoring, at position \<open>p\<close>.\<close>

definition restored :: "('p, 'd) init_env \<Rightarrow> tablet_info \<Rightarrow> 'p \<Rightarrow> bool" where
  "restored env t p \<longleftrightarrow>
     (\<forall>err. ie_ReplicationStatus env t = Some err \<longrightarrow> isErrNotReplica env err)
     \<and> (\<exists>s. ie_PrimaryPosition env t = Inr s \<and> ie_DecodePosition env s = Inr p)
     \<and> tabletDatabaseExists env t = Inr True"

lemma getTabletStatus_simps [simp]: "st_tablet (getTabletStatus env t) = t"
  by (auto simp: getTabletStatus_def Let_def split: option.splits sum.splits)

lemma getTabletStatus_restored:
  "st_err (getTabletStatus env t) = None \<and> st_databaseExists (getTabletStatus env t) \<longleftrightarrow> (\<exists>p. restored env t p)"
  "restored env t p \<Longrightarrow> st_replicationPosition (getTabletStatus env t) = Some p"
  by (auto simp: getTabletStatus_def restored_def Let_def split: option.splits sum.splits)

lemma restored_unique: "restored env t p \<Longrightarrow> restored env t q \<Longrightarrow> p = q"
  by (auto simp: restored_def)

definition electable :: "('p, 'd) init_env \<Rightarrow> tablet_info \<Rightarrow> 'p \<Rightarrow> bool" where
  "electable env t p \<longleftrightarrow> ti_Type t = REPLICA \<and> restored env t p"

text \<open>The positions of restored replicas can be compared: they all come from one history.\<close>

definition one_history :: "('p, 'd) init_env \<Rightarrow> tablet_info set \<Rightarrow> bool" where
  "one_history env ts \<longleftrightarrow>
     (\<forall>t \<in> ts. \<forall>t' \<in> ts. \<forall>p q. electable env t p \<longrightarrow> electable env t' q \<longrightarrow> ie_AtLeast env p q \<or> ie_AtLeast env q p)
     \<and> (\<forall>p q r. ie_AtLeast env p q \<longrightarrow> ie_AtLeast env q r \<longrightarrow> ie_AtLeast env p r)"

lemma elect_step_tablet:
  "elect_step env (getTabletStatus env t) (c, rs) =
     (if \<exists>p. electable env t p
      then (case c of None \<Rightarrow> Some (getTabletStatus env t)
            | Some s \<Rightarrow> if behind env s (getTabletStatus env t) then Some (getTabletStatus env t) else Some s,
            rs @ [getTabletStatus env t])
      else if ti_Type t = RDONLY \<and> (\<exists>p. restored env t p) then (c, rs @ [getTabletStatus env t])
      else (c, rs))"
  using getTabletStatus_restored(1) [of env t]
  by (auto simp: elect_step_def electable_def split: tablet_type.split)

text \<open>
  Invariant of the loop over the statuses that arrived: the candidate is one of the electable
  tablets, none of them is ahead of it, and there is one as soon as there is an electable tablet.
\<close>

definition candidate_ok :: "('p, 'd) init_env \<Rightarrow> tablet_info list \<Rightarrow> 'p tabletStatus option \<Rightarrow> bool" where
  "candidate_ok env ts c \<longleftrightarrow>
     (case c of
        None \<Rightarrow> \<forall>t \<in> set ts. \<forall>p. \<not> electable env t p
      | Some s \<Rightarrow> \<exists>t \<in> set ts. \<exists>p. s = getTabletStatus env t \<and> electable env t p
          \<and> (one_history env (set ts) \<longrightarrow> (\<forall>t' \<in> set ts. \<forall>q. electable env t' q \<longrightarrow> ie_AtLeast env p q)))"

definition restored_ok :: "('p, 'd) init_env \<Rightarrow> tablet_info list \<Rightarrow> 'p tabletStatus list \<Rightarrow> bool" where
  "restored_ok env ts rs \<longleftrightarrow> (\<forall>s \<in> set rs. \<exists>t \<in> set ts. s = getTabletStatus env t \<and> (\<exists>p. restored env t p))"

lemma one_history_mono: "one_history env ts \<Longrightarrow> us \<subseteq> ts \<Longrightarrow> one_history env us"
  unfolding one_history_def by blast

lemma restored_ok_step:
  assumes "restored_ok env ts rs"
  shows "restored_ok env (ts @ [t]) (snd (elect_step env (getTabletStatus env t) (c, rs)))"
  using assms unfolding elect_step_tablet restored_ok_def
  by (cases "\<exists>p. electable env t p") (auto simp: electable_def)

lemma candidate_okI:
  assumes "u \<in> set ts" "electable env u p"
    "\<And>t q. one_history env (set ts) \<Longrightarrow> t \<in> set ts \<Longrightarrow> electable env t q \<Longrightarrow> ie_AtLeast env p q"
  shows "candidate_ok env ts (Some (getTabletStatus env u))"
  unfolding candidate_ok_def option.case using assms by blast

lemma candidate_ok_skip:
  assumes "candidate_ok env ts c" "\<And>p. \<not> electable env t p"
  shows "candidate_ok env (ts @ [t]) c"
proof (cases c)
  case None
  then show ?thesis using assms by (auto simp: candidate_ok_def)
next
  case (Some s)
  then obtain u p where u: "u \<in> set ts" "s = getTabletStatus env u" "electable env u p"
    and best: "one_history env (set ts) \<longrightarrow> (\<forall>t' \<in> set ts. \<forall>q. electable env t' q \<longrightarrow> ie_AtLeast env p q)"
    using assms(1) by (auto simp: candidate_ok_def)
  have "ie_AtLeast env p q" if "one_history env (set (ts @ [t]))" "t' \<in> set (ts @ [t])" "electable env t' q" for t' q
    using that best assms(2) one_history_mono [OF that(1), of "set ts"] by auto
  then show ?thesis unfolding Some u(2) using u(1) by (intro candidate_okI [OF _ u(3)]) simp_all
qed

lemma candidate_ok_step:
  assumes "candidate_ok env ts c" "electable env t p"
  shows "candidate_ok env (ts @ [t]) (fst (elect_step env (getTabletStatus env t) (c, rs)))"
proof -
  have pos: "st_replicationPosition (getTabletStatus env t) = Some p"
    using assms(2) by (simp add: electable_def getTabletStatus_restored(2))
  have same: "q = p" if "electable env t q" for q
    using that assms(2) restored_unique by (auto simp: electable_def)
  have refl: "ie_AtLeast env p p" if "one_history env (set (ts @ [t]))"
    using that assms(2) unfolding one_history_def by auto
  have new: "candidate_ok env (ts @ [t]) (Some (getTabletStatus env t))"
    if "\<And>t' q. one_history env (set (ts @ [t])) \<Longrightarrow> t' \<in> set ts \<Longrightarrow> electable env t' q \<Longrightarrow> ie_AtLeast env p q"
    using that same refl by (intro candidate_okI [OF _ assms(2)]) auto
  show ?thesis
  proof (cases c)
    case None
    then have "\<not> electable env t' q" if "t' \<in> set ts" for t' q
      using assms(1) that by (simp add: candidate_ok_def)
    moreover have "fst (elect_step env (getTabletStatus env t) (c, rs)) = Some (getTabletStatus env t)"
      using assms(2) None by (auto simp: elect_step_tablet)
    ultimately show ?thesis using new by auto
  next
    case (Some s)
    then obtain u q where u: "u \<in> set ts" "s = getTabletStatus env u" "electable env u q"
      and best: "one_history env (set ts) \<longrightarrow> (\<forall>t' \<in> set ts. \<forall>r. electable env t' r \<longrightarrow> ie_AtLeast env q r)"
      using assms(1) by (auto simp: candidate_ok_def)
    have posu: "st_replicationPosition s = Some q"
      using u by (simp add: electable_def getTabletStatus_restored(2))
    have bestq: "ie_AtLeast env q r"
      if "one_history env (set (ts @ [t]))" "t' \<in> set ts" "electable env t' r" for t' r
      using best that one_history_mono [OF that(1), of "set ts"] by auto
    have step: "fst (elect_step env (getTabletStatus env t) (c, rs)) =
        Some (if ie_AtLeast env q p then s else getTabletStatus env t)"
      using Some assms(2) posu pos by (auto simp: elect_step_tablet behind_def)
    show ?thesis
    proof (cases "ie_AtLeast env q p")
      case True
      have "ie_AtLeast env q r" if "one_history env (set (ts @ [t]))" "t' \<in> set (ts @ [t])" "electable env t' r" for t' r
        using that bestq True same by auto
      then show ?thesis
        using u(1) candidate_okI [OF _ u(3), of "ts @ [t]"] unfolding step by (simp add: True u(2))
    next
      case False
      have "ie_AtLeast env p r" if h: "one_history env (set (ts @ [t]))" "t' \<in> set ts" "electable env t' r" for t' r
      proof -
        have "ie_AtLeast env p q" using h(1) u assms(2) False unfolding one_history_def by auto
        then show ?thesis using h(1) bestq [OF h] unfolding one_history_def by blast
      qed
      then show ?thesis using new unfolding step by (simp add: False)
    qed
  qed
qed

lemma election_fold:
  assumes "fold (elect_step env) (map (getTabletStatus env) ts) (None, []) = acc"
  shows "candidate_ok env ts (fst acc) \<and> restored_ok env ts (snd acc)"
  using assms
proof (induction ts arbitrary: acc rule: rev_induct)
  case Nil
  then show ?case by (auto simp: candidate_ok_def restored_ok_def)
next
  case (snoc t ts)
  obtain c rs where acc: "fold (elect_step env) (map (getTabletStatus env) ts) (None, []) = (c, rs)"
    by fastforce
  have ok: "candidate_ok env ts c" "restored_ok env ts rs" using snoc.IH [OF acc] by auto
  have "fst (elect_step env (getTabletStatus env t) (c, rs)) = c" if "\<nexists>p. electable env t p"
    using that by (simp add: elect_step_tablet)
  then have "candidate_ok env (ts @ [t]) (fst (elect_step env (getTabletStatus env t) (c, rs)))"
    using candidate_ok_skip [OF ok(1)] candidate_ok_step [OF ok(1)] by (cases "\<exists>p. electable env t p") auto
  then show ?case using restored_ok_step [OF ok(2), of t c] snoc.prems acc by simp
qed

lemma find_existing_spec:
  "find_existing m e = Inr r \<Longrightarrow>
     (r = None \<longrightarrow> e = None \<and> (\<forall>(n, t) \<in> set m. ti_Type t \<noteq> PRIMARY))
     \<and> (\<forall>t. r = Some t \<longrightarrow> e = Some t \<and> (\<forall>(n, t') \<in> set m. ti_Type t' \<noteq> PRIMARY)
          \<or> e = None \<and> (\<exists>n. (n, t) \<in> set m) \<and> ti_Type t = PRIMARY \<and> (\<forall>(n, t') \<in> set m. ti_Type t' = PRIMARY \<longrightarrow> t' = t))"
  by (induction m e rule: find_existing.induct) (fastforce split: if_splits)+

text \<open>The shard record names no primary and the tablet records do not either.\<close>

definition without_primary :: "('p, 'd) init_env \<Rightarrow> (string, tablet_info) gomap \<Rightarrow> bool" where
  "without_primary env tablets \<longleftrightarrow>
     (\<exists>shard. ie_GetShard env (ss_Name (ie_spec env)) = Inr shard \<and> ie_AliasIsZero env (si_PrimaryAlias shard))
     \<and> ie_GetTabletMap env = Inr tablets \<and> (\<forall>(n, t) \<in> set tablets. ti_Type t \<noteq> PRIMARY)"

definition elected :: "('p, 'd) init_env \<Rightarrow> tablet_info \<Rightarrow> bool" where
  "elected env t \<longleftrightarrow> (\<exists>tablets p. without_primary env tablets \<and> t \<in> snd ` set tablets \<and> electable env t p
     \<and> (one_history env (snd ` set tablets) \<longrightarrow>
          (\<forall>t' \<in> snd ` set tablets. \<forall>q. electable env t' q \<longrightarrow> ie_AtLeast env p q)))"

text \<open>Exactly one tablet claims to be primary, and the shard record does not know.\<close>

definition unrecorded_primary :: "('p, 'd) init_env \<Rightarrow> tablet_info \<Rightarrow> bool" where
  "unrecorded_primary env t \<longleftrightarrow> (\<exists>shard tablets. ie_GetShard env (ss_Name (ie_spec env)) = Inr shard
     \<and> ie_AliasIsZero env (si_PrimaryAlias shard) \<and> ie_GetTabletMap env = Inr tablets
     \<and> t \<in> snd ` set tablets \<and> ti_Type t = PRIMARY \<and> (\<forall>(n, t') \<in> set tablets. ti_Type t' = PRIMARY \<longrightarrow> t' = t))"

definition follows :: "('p, 'd) init_env \<Rightarrow> tablet_alias \<Rightarrow> init_effect \<Rightarrow> bool" where
  "follows env a e \<longleftrightarrow> (\<exists>tablets x b p. e = SetReplicationSource (ti_Alias x) a b \<and> ti_Alias x \<noteq> a
     \<and> ie_GetTabletMap env = Inr tablets \<and> x \<in> snd ` set tablets \<and> restored env x p)"

definition init_env_ok :: "('p, 'd) init_env \<Rightarrow> bool" where
  "init_env_ok env \<longleftrightarrow> visits (ie_visit env) \<and> gomap_wf (sh_Tablets (ie_status env))
     \<and> (\<forall>tablets. ie_GetTabletMap env = Inr tablets \<longrightarrow> gomap_wf tablets)
     \<and> (\<forall>ts. set (ie_arrival env ts) = set ts) \<and> (\<forall>err. ie_unlock env (Some err) \<noteq> None)"

lemma elect_outcome:
  assumes ok: "init_env_ok env"
    and shard: "ie_GetShard env (ss_Name (ie_spec env)) = Inr shard" "ie_AliasIsZero env (si_PrimaryAlias shard)"
    and tablets: "ie_GetTabletMap env = Inr tablets"
      "find_existing (range_of (ie_visit env) 4 tablets) None = Inr None"
    and run: "fold (elect_step env) (map (getTabletStatus env) (ie_arrival env (map snd (range_of (ie_visit env) 5 tablets))))
        (None, []) = (Some c, rs)"
  shows "elected env (st_tablet c)"
    "\<And>s. s \<in> set rs \<Longrightarrow> st_tablet s \<in> snd ` set tablets \<and> (\<exists>p. restored env (st_tablet s) p)"
proof -
  have wf: "visits (ie_visit env)" "gomap_wf tablets"
    and arr: "\<And>ts. set (ie_arrival env ts) = set ts"
    using ok tablets(1) by (auto simp: init_env_ok_def)
  have set: "set (ie_arrival env (map snd (range_of (ie_visit env) 5 tablets))) = snd ` set tablets"
    using wf by (simp add: arr)
  have none: "\<forall>(n, t) \<in> set tablets. ti_Type t \<noteq> PRIMARY"
    using find_existing_spec [OF tablets(2)] wf by simp
  have ok: "candidate_ok env (ie_arrival env (map snd (range_of (ie_visit env) 5 tablets))) (Some c)"
    "restored_ok env (ie_arrival env (map snd (range_of (ie_visit env) 5 tablets))) rs"
    using election_fold [OF run] by simp_all
  show "elected env (st_tablet c)"
    using ok(1) shard tablets(1) none unfolding candidate_ok_def set elected_def without_primary_def by force
  show "st_tablet s \<in> snd ` set tablets \<and> (\<exists>p. restored env (st_tablet s) p)" if s: "s \<in> set rs" for s
  proof -
    obtain t where "t \<in> snd ` set tablets" "s = getTabletStatus env t" "\<exists>p. restored env t p"
      using bspec [OF ok(2) [unfolded restored_ok_def set] s] by (elim bexE conjE) 
    then show ?thesis by simp
  qed
qed

lemma elect_existing:
  assumes "init_env_ok env" "ie_GetTabletMap env = Inr tablets"
    "find_existing (range_of (ie_visit env) 4 tablets) None = Inr (Some t)"
  shows "t \<in> snd ` set tablets \<and> ti_Type t = PRIMARY \<and> (\<forall>(n, t') \<in> set tablets. ti_Type t' = PRIMARY \<longrightarrow> t' = t)"
  using find_existing_spec [OF assms(3)] assms(1,2) by (force simp: init_env_ok_def)

text \<open>The four ways an election can go: the effects under the lock and the answer.\<close>

definition election_trace :: "('p, 'd) init_env \<Rightarrow> init_effect list \<Rightarrow> (string + tablet_alias) \<Rightarrow> bool" where
  "election_trace env es r \<longleftrightarrow>
     es = [] \<and> (\<exists>err. r = Inl err)
     \<or> ie_CheckShardLocked env = None \<and>
       ((\<exists>t. unrecorded_primary env t \<and> es = [SetShardPrimary (ti_Alias t)]
           \<and> (r = Inr (ti_Alias t) \<and> ie_UpdateShardFields env (ti_Alias t) = None \<or> (\<exists>err. r = Inl err)))
        \<or> (\<exists>t s. elected env t \<and>
             ((es = [PromoteReplica (ti_Alias t) s] \<and> (\<exists>err. r = Inl err))
              \<or> (es = [PromoteReplica (ti_Alias t) s, SetShardPrimary (ti_Alias t)]
                 \<and> ie_PromoteReplica env (ti_Alias t) = None \<and> (\<exists>err. r = Inl err))
              \<or> (\<exists>sources. es = PromoteReplica (ti_Alias t) s # SetShardPrimary (ti_Alias t) # sources
                 \<and> ie_PromoteReplica env (ti_Alias t) = None \<and> ie_UpdateShardFields env (ti_Alias t) = None
                 \<and> (\<forall>e \<in> set sources. follows env (ti_Alias t) e) \<and> r = Inr (ti_Alias t)))))"

lemma elect_locked_trace:
  assumes ok: "init_env_ok env" and run: "elect_locked env = (es, r)"
  shows "election_trace env es r"
proof -
  consider (nothing) "es = []" "\<exists>err. r = Inl err"
    | (found) shard tablets res where
        "ie_GetShard env (ss_Name (ie_spec env)) = Inr shard" "ie_AliasIsZero env (si_PrimaryAlias shard)"
        "ie_GetTabletMap env = Inr tablets" "find_existing (range_of (ie_visit env) 4 tablets) None = Inr res"
        "ie_CheckShardLocked env = None"
    using run by (auto simp: elect_locked_def Let_def split: sum.splits option.splits if_splits prod.splits)
  then show ?thesis
  proof cases
    case nothing
    then show ?thesis by (simp add: election_trace_def)
  next
    case found
    show ?thesis
    proof (cases res)
      case (Some t)
      have t: "unrecorded_primary env t"
        using elect_existing [OF ok found(3)] found(1-4) Some unfolding unrecorded_primary_def by blast
      have "es = [] \<and> (\<exists>err. r = Inl err) \<or> es = [SetShardPrimary (ti_Alias t)]
          \<and> (r = Inr (ti_Alias t) \<and> ie_UpdateShardFields env (ti_Alias t) = None \<or> (\<exists>err. r = Inl err))"
        using run found Some by (auto simp: elect_locked_def split: sum.splits option.splits)
      then show ?thesis using t found(5) unfolding election_trace_def by blast
    next
      case None
      obtain c rs where loop: "fold (elect_step env)
          (map (getTabletStatus env) (ie_arrival env (map snd (range_of (ie_visit env) 5 tablets)))) (None, []) = (c, rs)"
        by fastforce
      show ?thesis
      proof (cases c)
        case None
        then show ?thesis using run found loop \<open>res = None\<close>
          by (auto simp: elect_locked_def election_trace_def split: sum.splits)
      next
        case (Some s)
        note outcome = elect_outcome [OF ok found(1-3) found(4) [unfolded \<open>res = None\<close>] loop [unfolded Some]]
        have "follows env (ti_Alias (st_tablet s)) (SetReplicationSource (ti_Alias (st_tablet u)) (ti_Alias (st_tablet s)) b)"
          if "u \<in> set rs" "ti_Alias (st_tablet u) \<noteq> ti_Alias (st_tablet s)" for u b
          using outcome(2) [OF that(1)] that(2) found(3) unfolding follows_def by blast
        then show ?thesis using run found loop Some \<open>res = None\<close> outcome(1)
          by (auto simp: elect_locked_def election_trace_def Let_def split: sum.splits option.splits)
      qed
    qed
  qed
qed

lemma electInitialShardPrimary_trace:
  assumes ok: "init_env_ok env" and run: "electInitialShardPrimary env = (es, r)"
  obtains (unlocked) "es = []" "\<exists>err. r = Inl err"
    | (locked) mid r' where "election_trace env mid r'" "es = LockShard # mid @ [UnlockShard]"
        "\<And>a. r = Inr a \<Longrightarrow> r' = Inr a"
proof (cases "ie_LockShard env")
  case None
  obtain mid r' where mid: "elect_locked env = (mid, r')" by fastforce
  have "ie_unlock env (Some err) \<noteq> None" for err
    using ok by (simp add: init_env_ok_def)
  then have "es = LockShard # mid @ [UnlockShard]" "\<And>a. r = Inr a \<Longrightarrow> r' = Inr a"
    using run None mid
    by (auto simp: electInitialShardPrimary_def simp del: not_None_eq split: option.splits sum.splits)
  then show ?thesis using locked elect_locked_trace [OF ok mid] by blast
next
  case (Some err)
  then show ?thesis using unlocked run by (auto simp: electInitialShardPrimary_def)
qed

lemma election_trace_primaries:
  assumes "election_trace env es r"
  shows "primaries es = [] \<or> (\<exists>t s. elected env t \<and> primaries es = [PromoteReplica (ti_Alias t) s])"
proof -
  have none: "primaries fs = []" if "\<forall>e \<in> set fs. follows env a e" for fs a
    using that by (induction fs) (auto simp: follows_def)
  show ?thesis using assms none unfolding election_trace_def by fastforce
qed

definition promotion_allowed :: "('p, 'd) init_env \<Rightarrow> bool" where
  "promotion_allowed env \<longleftrightarrow> BackupsEnabled (ie_spec env) \<and> \<not> UsingExternalDatastore (ie_spec env)
     \<and> sh_HasMaster (ie_status env) \<notin> {CondTrue, CondUnknown} \<and> sh_HasInitialBackup (ie_status env) = CondTrue"

lemma initRestoredShard_cases:
  assumes "init_env_ok env"
  shows "primaries (fst (initRestoredShard env)) = []
    \<or> (\<exists>t s. elected env t \<and> primaries (fst (initRestoredShard env)) = [PromoteReplica (ti_Alias t) s]
         \<and> promotion_allowed env)"
proof -
  obtain es r where run: "electInitialShardPrimary env = (es, r)" by fastforce
  have "primaries es = [] \<or> (\<exists>t s. elected env t \<and> primaries es = [PromoteReplica (ti_Alias t) s])"
  proof (rule electInitialShardPrimary_trace [OF assms run])
    fix mid r'
    assume "election_trace env mid r'" "es = LockShard # mid @ [UnlockShard]"
    then show ?thesis using election_trace_primaries [of env mid r'] by simp
  qed simp
  then show ?thesis
    by (auto simp: initRestoredShard_def run promotion_allowed_def split: cond_status.splits sum.splits)
qed

text \<open>The three ways exclude each other by what the shard's data is.\<close>

lemma init_parts:
  assumes ok: "init_env_ok env"
  defines "es \<equiv> fst (initShardPrimary env) @ fst (tabletExternallyReparent env) @ fst (initRestoredShard env)"
  shows "primaries es = []
      \<or> (\<exists>a. primaries es = [InitShardPrimary a] \<and> initializable env a)
      \<or> (\<exists>a. primaries es = [InitExternallyReparented a] \<and> external_primary env a)
      \<or> (\<exists>t s. elected env t \<and> primaries es = [PromoteReplica (ti_Alias t) s] \<and> promotion_allowed env)"
proof -
  have wf: "visits (ie_visit env)" "gomap_wf (sh_Tablets (ie_status env))"
    using ok by (simp_all add: init_env_ok_def)
  consider "UsingExternalDatastore (ie_spec env)" | "\<not> UsingExternalDatastore (ie_spec env)" "BackupsEnabled (ie_spec env)"
    | "\<not> UsingExternalDatastore (ie_spec env)" "\<not> BackupsEnabled (ie_spec env)" by blast
  then show ?thesis
  proof cases
    case 1
    then show ?thesis using tabletExternallyReparent_cases [OF wf]
      by (simp add: es_def initShardPrimary_def initRestoredShard_def) blast
  next
    case 2
    then show ?thesis using initRestoredShard_cases [OF ok]
      by (simp add: es_def initShardPrimary_def tabletExternallyReparent_def) blast
  next
    case 3
    then show ?thesis using initShardPrimary_cases [OF wf]
      by (simp add: es_def initRestoredShard_def tabletExternallyReparent_def) blast
  qed
qed

text \<open>C6: A pass that starts replication never panics once the defaults are filled in, makes at most one primary, and
  only in the way that fits the shard.  \<open>InitShardPrimary\<close>, which erases replication positions, is called only if the
  shard has no backups and no external MySQL, is known to have no primary, and every one of its tablets is running,
  registered, not restoring, has never replicated and has no database.  A replica is promoted only if the shard has
  backups, is known to have no primary, and the initial backup exists; the replica has finished restoring and, the
  positions being comparable, no other restored replica is ahead of it.  A tablet is announced as externally reparented
  only on external MySQL, if it is a running tablet of the external primary pool.\<close>

theorem initReplication_safe:
  assumes "init_env_ok env" "initReplication (env\<lparr>ie_spec := DefaultVitessShardTemplate (ie_spec env)\<rparr>) = out"
  shows "let env = env\<lparr>ie_spec := DefaultVitessShardTemplate (ie_spec env)\<rparr>
    in \<exists>es b. out = Some (es, b) \<and> length (filter (\<lambda>e. makes_primary e \<noteq> None) es) \<le> 1
      \<and> (\<forall>a. InitShardPrimary a \<in> set es \<longrightarrow> initializable env a)
      \<and> (\<forall>a. InitExternallyReparented a \<in> set es \<longrightarrow> external_primary env a)
      \<and> (\<forall>a s. PromoteReplica a s \<in> set es \<longrightarrow> (\<exists>t. elected env t \<and> a = ti_Alias t)
           \<and> BackupsEnabled (ie_spec env) \<and> \<not> UsingExternalDatastore (ie_spec env)
           \<and> sh_HasMaster (ie_status env) \<notin> {CondTrue, CondUnknown} \<and> sh_HasInitialBackup (ie_status env) = CondTrue)"
proof -
  define e where "e = env\<lparr>ie_spec := DefaultVitessShardTemplate (ie_spec env)\<rparr>"
  have ok: "init_env_ok e" using assms(1) by (simp add: e_def init_env_ok_def)
  obtain b where set: "rs_InitializeMaster (st_Replication (ie_spec e)) = Some b"
    by (cases "rs_InitializeMaster (st_Replication (ie_spec env))")
      (auto simp: e_def DefaultVitessShardTemplate_def DefaultVitessReplicationSpec_def Let_def)
  have member: "x \<in> set (primaries es)" if "x \<in> set es" "makes_primary x \<noteq> None" for x es
    using that by (simp add: primaries_def)
  obtain es b' where out: "out = Some (es, b')" and es: "es = [] \<or>
      es = fst (initShardPrimary e) @ fst (tabletExternallyReparent e) @ fst (initRestoredShard e)"
    using assms(2) set by (cases b) (auto simp: e_def [symmetric] initReplication_def Let_def)
  have parts: "primaries es = []
      \<or> (\<exists>a. primaries es = [InitShardPrimary a] \<and> initializable e a)
      \<or> (\<exists>a. primaries es = [InitExternallyReparented a] \<and> external_primary e a)
      \<or> (\<exists>t s. elected e t \<and> primaries es = [PromoteReplica (ti_Alias t) s] \<and> promotion_allowed e)"
    using es init_parts [OF ok] by auto
  have at_most: "length (primaries es) \<le> 1" using parts by (elim disjE exE conjE) simp_all
  have "initializable e a" if "InitShardPrimary a \<in> set es" for a
    using parts member [OF that] by (elim disjE exE conjE) simp_all
  moreover have "external_primary e a" if "InitExternallyReparented a \<in> set es" for a
    using parts member [OF that] by (elim disjE exE conjE) simp_all
  moreover have "(\<exists>t. elected e t \<and> a = ti_Alias t) \<and> promotion_allowed e"
    if "PromoteReplica a s \<in> set es" for a s
  proof -
    have "PromoteReplica a s \<in> set (primaries es)" by (rule member [OF that]) simp
    then show ?thesis using parts by (elim disjE exE conjE) auto
  qed
  ultimately show ?thesis
    using at_most unfolding e_def [symmetric] Let_def out primaries_def promotion_allowed_def by blast
qed

text \<open>An election does everything under the shard lock and gives the lock back.  The shard record is changed only to a
  tablet that alone claims to be primary already or to the replica whose promotion just succeeded; the other restored
  tablets are pointed at a primary only after the shard record names it; and if the election answers with a
  tablet then the shard record names that tablet.\<close>

theorem electInitialShardPrimary_spec:
  assumes "init_env_ok env" "electInitialShardPrimary env = (es, r)"
  shows "(es = [] \<or> (\<exists>mid. es = LockShard # mid @ [UnlockShard] \<and> LockShard \<notin> set mid \<and> UnlockShard \<notin> set mid))
    \<and> (\<forall>a. SetShardPrimary a \<in> set es \<longrightarrow> ie_CheckShardLocked env = None
         \<and> ((\<exists>t. unrecorded_primary env t \<and> a = ti_Alias t)
            \<or> (\<exists>t s. elected env t \<and> a = ti_Alias t \<and> PromoteReplica a s \<in> set es \<and> ie_PromoteReplica env a = None)))
    \<and> (\<forall>x a s. SetReplicationSource x a s \<in> set es \<longrightarrow>
         x \<noteq> a \<and> SetShardPrimary a \<in> set es \<and> ie_UpdateShardFields env a = None)
    \<and> (\<forall>a. r = Inr a \<longrightarrow> SetShardPrimary a \<in> set es \<and> ie_UpdateShardFields env a = None)"
proof (rule electInitialShardPrimary_trace [OF assms], goal_cases)
  case 1
  then show ?case by auto
next
  case (2 mid r')
  have "x \<noteq> a \<and> b = a" if "\<forall>e \<in> set fs. follows env a e" "SetReplicationSource x b s \<in> set fs" for fs a x b s
    using bspec [OF that] by (auto simp: follows_def)
  moreover have "LockShard \<notin> set fs" "UnlockShard \<notin> set fs" "SetShardPrimary b \<notin> set fs"
    if "\<forall>e \<in> set fs. follows env a e" for fs a b
    using that by (auto simp: follows_def)
  ultimately show ?case
    using 2 unfolding election_trace_def
    by (elim disjE conjE exE) (simp_all del: split_paired_All split_paired_Ex, blast+)
qed

text \<open>Two restored replicas at positions 3 and 7.\<close>

definition example_init :: "tablet_status \<Rightarrow> string option \<Rightarrow> (int, unit) init_env" where
  "example_init status existing =
     \<lparr>ie_visit = (\<lambda>n ks. ks), ie_name = ''s'',
      ie_spec = \<lparr>st_TabletPools = [], st_DatabaseInitScriptSecret = no_secret,
        st_Replication = \<lparr>rs_InitializeMaster = None, rs_InitializeBackup = None, rs_RecoverRestartedMaster = None\<rparr>,
        st_Annotations = None, ss_Name = ''-'', ss_ZoneMap = Map.empty, ss_KeyRange = VitessKeyRange [] [],
        ss_BackupLocations = []\<rparr>,
      ie_status = NewVitessShardStatus\<lparr>sh_HasMaster := CondFalse, sh_Tablets := [(''z1'', status)]\<rparr>,
      ie_ParseTabletAlias = (\<lambda>n. Some (n, 1)), ie_AliasIsZero = (\<lambda>a. fst a = []),
      ie_ErrNotReplica = ''not a replica'', ie_TabletDbName = (\<lambda>t. ''db''),
      ie_GetTablet = (\<lambda>a. Inr \<lparr>ti_Alias = a, ti_Type = REPLICA\<rparr>),
      ie_ReplicationStatus = (\<lambda>t. Some ''no slave status''),
      ie_ShowDatabases = (\<lambda>t. Inr (case existing of None \<Rightarrow> [] | Some d \<Rightarrow> [d])),
      ie_PrimaryPosition = (\<lambda>t. Inr (fst (ti_Alias t))),
      ie_DecodePosition = (\<lambda>s. Inr (if s = ''z1'' then 3 else 7)), ie_AtLeast = (\<ge>),
      ie_InitShardPrimary = (\<lambda>a. None), ie_ExternallyReparented = (\<lambda>a. None),
      ie_LockShard = None, ie_unlock = id, ie_CheckShardLocked = None,
      ie_GetShard = (\<lambda>s. Inr \<lparr>si_HasPrimary = False, si_PrimaryAlias = ([], 0)\<rparr>),
      ie_GetKeyspaceDurability = Inr ''none'', ie_GetDurabilityPolicy = (\<lambda>s. Inr ()),
      ie_SemiSyncAckers = (\<lambda>d t. 0), ie_IsReplicaSemiSync = (\<lambda>d t u. False),
      ie_GetTabletMap = Inr [(''z1'', \<lparr>ti_Alias = (''z1'', 1), ti_Type = REPLICA\<rparr>),
                            (''z2'', \<lparr>ti_Alias = (''z2'', 1), ti_Type = REPLICA\<rparr>)],
      ie_arrival = (\<lambda>ts. ts), ie_UpdateShardFields = (\<lambda>a. None), ie_PromoteReplica = (\<lambda>a. None)\<rparr>"

definition example_replica :: tablet_status where
  "example_replica = (NewVitessTabletStatus ''replica'' 1)\<lparr>ts_Running := CondTrue, ts_Type := ''replica''\<rparr>"

lemma example_init_ok: "init_env_ok (example_init st d)"
  by (simp add: init_env_ok_def example_init_def visits_id)

theorem initReplication_safe_witness:
  "initializable ((example_init example_replica None)\<lparr>ie_spec := DefaultVitessShardTemplate
      (ie_spec (example_init example_replica None))\<rparr>) (''z1'', 1)"
proof -
  let ?env = "(example_init example_replica None)\<lparr>ie_spec := DefaultVitessShardTemplate
      (ie_spec (example_init example_replica None))\<rparr>"
  have "case initReplication ?env of Some (es, b) \<Rightarrow> (case es of InitShardPrimary a # _ \<Rightarrow> a = (''z1'', 1) | _ \<Rightarrow> False) | None \<Rightarrow> False"
    by code_simp
  then obtain es b where run: "initReplication ?env = Some (InitShardPrimary (''z1'', 1) # es, b)"
    by (auto split: option.splits list.splits init_effect.splits)
  show ?thesis
    using initReplication_safe [OF example_init_ok run] unfolding Let_def by auto
qed

theorem electInitialShardPrimary_spec_witness:
  "\<exists>es. electInitialShardPrimary (example_init example_replica (Some ''db'')) = (es, Inr (''z2'', 1))
     \<and> SetShardPrimary (''z2'', 1) \<in> set es"
proof -
  have "snd (electInitialShardPrimary (example_init example_replica (Some ''db''))) = Inr (''z2'', 1)"
    by code_simp
  then obtain es where run: "electInitialShardPrimary (example_init example_replica (Some ''db'')) = (es, Inr (''z2'', 1))"
    by (metis prod.collapse)
  show ?thesis
    using run electInitialShardPrimary_spec [OF example_init_ok run] by blast
qed

end
