(* ===== verification/Md5.thy ===== *)
theory Md5
  imports Prelude "HOL-Library.Word"
begin

text \<open>
  Go's \<open>crypto/md5\<close> as RFC 1321 defines it, executable in the kernel: object names, tablet UIDs
  and content hashes all come from it.  Bytes are \<open>int\<close> values below 256 inside the algorithm;
  \<open>md5_Sum\<close> works on Go strings.
\<close>

unbundle bit_operations_syntax

type_synonym u32 = "32 word"

text \<open>The per-round rotation amounts and the sine table.\<close>

definition md5_shift :: "nat list" where
  "md5_shift = concat (replicate 4 [7,12,17,22]) @ concat (replicate 4 [5,9,14,20])
     @ concat (replicate 4 [4,11,16,23]) @ concat (replicate 4 [6,10,15,21])"

definition md5_K :: "u32 list" where
  "md5_K = [0xd76aa478,0xe8c7b756,0x242070db,0xc1bdceee,0xf57c0faf,0x4787c62a,0xa8304613,0xfd469501,
0x698098d8,0x8b44f7af,0xffff5bb1,0x895cd7be,0x6b901122,0xfd987193,0xa679438e,0x49b40821,
0xf61e2562,0xc040b340,0x265e5a51,0xe9b6c7aa,0xd62f105d,0x02441453,0xd8a1e681,0xe7d3fbc8,
0x21e1cde6,0xc33707d6,0xf4d50d87,0x455a14ed,0xa9e3e905,0xfcefa3f8,0x676f02d9,0x8d2a4c8a,
0xfffa3942,0x8771f681,0x6d9d6122,0xfde5380c,0xa4beea44,0x4bdecfa9,0xf6bb4b60,0xbebfbc70,
0x289b7ec6,0xeaa127fa,0xd4ef3085,0x04881d05,0xd9d4d039,0xe6db99e5,0x1fa27cf8,0xc4ac5665,
0xf4292244,0x432aff97,0xab9423a7,0xfc93a039,0x655b59c3,0x8f0ccc92,0xffeff47d,0x85845dd1,
0x6fa87e4f,0xfe2ce6e0,0xa3014314,0x4e0811a1,0xf7537e82,0xbd3af235,0x2ad7d2bb,0xeb86d391]"

fun le_word :: "int list \<Rightarrow> int" where
  "le_word [] = 0" | "le_word (b # bs) = b + 256 * le_word bs"

fun le_bytes :: "nat \<Rightarrow> int \<Rightarrow> int list" where
  "le_bytes 0 n = []" | "le_bytes (Suc k) n = n mod 256 # le_bytes k (n div 256)"

fun chunks :: "nat \<Rightarrow> nat \<Rightarrow> 'a list \<Rightarrow> 'a list list" where
  "chunks 0 k xs = []" | "chunks (Suc n) k xs = take k xs # chunks n k (drop k xs)"

definition md5_pad :: "int list \<Rightarrow> int list" where
  "md5_pad bs = bs @ [128] @ replicate ((119 - length bs mod 64) mod 64) 0 @ le_bytes 8 (8 * int (length bs))"

type_synonym md5_state = "u32 \<times> u32 \<times> u32 \<times> u32"

definition rotl32 :: "nat \<Rightarrow> u32 \<Rightarrow> u32" where
  "rotl32 s x = (push_bit s x) OR (drop_bit (32 - s) x)"

definition md5_round :: "u32 list \<Rightarrow> nat \<Rightarrow> md5_state \<Rightarrow> md5_state" where
  "md5_round M i st = (case st of (a, b, c, d) \<Rightarrow>
     let (f, g) =
       (if i < 16 then ((b AND c) OR (NOT b AND d), i)
        else if i < 32 then ((d AND b) OR (NOT d AND c), (5 * i + 1) mod 16)
        else if i < 48 then (b XOR c XOR d, (3 * i + 5) mod 16)
        else (c XOR (b OR NOT d), (7 * i) mod 16))
     in (d, b + rotl32 (md5_shift ! i) (a + f + md5_K ! i + M ! g), b, c))"

definition md5_block :: "md5_state \<Rightarrow> int list \<Rightarrow> md5_state" where
  "md5_block st bs =
     (let M = map (\<lambda>c. word_of_int (le_word c)) (chunks 16 4 bs);
          st' = fold (md5_round M) [0..<64] st
      in case (st, st') of ((a, b, c, d), (a', b', c', d')) \<Rightarrow> (a + a', b + b', c + c', d + d'))"

definition md5_bytes :: "int list \<Rightarrow> int list" where
  "md5_bytes bs =
     (let p = md5_pad bs;
          st = fold (\<lambda>blk st. md5_block st blk) (chunks (length p div 64) 64 p)
                 (0x67452301, 0xefcdab89, 0x98badcfe, 0x10325476)
      in case st of (a, b, c, d) \<Rightarrow> concat (map (\<lambda>w. le_bytes 4 (uint w)) [a, b, c, d]))"

definition md5_Sum :: "string \<Rightarrow> string" where
  "md5_Sum s = map (\<lambda>b. char_of (nat b)) (md5_bytes (map of_char s))"

lemma length_le_bytes [simp]: "length (le_bytes k n) = k"
  by (induction k arbitrary: n) simp_all

lemma length_md5_Sum [simp]: "length (md5_Sum s) = 16"
  by (simp add: md5_Sum_def md5_bytes_def Let_def split: prod.split)

text \<open>The test vector of RFC 1321 for the one-letter message a.\<close>

lemma md5_test_vector: "hex_encode (md5_Sum ''a'') = ''0cc175b9c0f1b6a831c399e269772661''"
  by code_simp

end
