(* ===== verification/Names.thy ===== *)
theory Names
  imports Md5
begin

text \<open>
  The package \<open>names\<close> (\<open>join.go\<close>, \<open>join_constraints.go\<close>): deterministic object names that end in
  a hash of their parts.  A rune is an \<open>int\<close> code point; the decoder is the one a Go
  \<open>range\<close> over a string uses, an invalid byte being U+FFFD of width one.  A panic is \<open>None\<close>.
\<close>

section \<open>Runes\<close>

abbreviation byte_at :: "string \<Rightarrow> nat \<Rightarrow> int" where
  "byte_at s i \<equiv> (if i < length s then of_char (s ! i) else - 1)"

abbreviation cont_byte :: "int \<Rightarrow> bool" where
  "cont_byte b \<equiv> 128 \<le> b \<and> b \<le> 191"

text \<open>The second byte must lie in a range that depends on the first (no overlong forms, no surrogates).\<close>

definition second_lo :: "int \<Rightarrow> int" where
  "second_lo b = (if b = 0xE0 then 0xA0 else if b = 0xF0 then 0x90 else 0x80)"

definition second_hi :: "int \<Rightarrow> int" where
  "second_hi b = (if b = 0xED then 0x9F else if b = 0xF4 then 0x8F else 0xBF)"

definition decode_rune :: "string \<Rightarrow> int \<times> nat" where
  "decode_rune s =
     (let b0 = byte_at s 0; b1 = byte_at s 1; b2 = byte_at s 2; b3 = byte_at s 3;
          ok1 = (second_lo b0 \<le> b1 \<and> b1 \<le> second_hi b0)
      in if b0 < 0x80 then (b0, 1)
         else if 0xC2 \<le> b0 \<and> b0 \<le> 0xDF \<and> ok1 then ((b0 - 0xC0) * 64 + (b1 - 128), 2)
         else if 0xE0 \<le> b0 \<and> b0 \<le> 0xEF \<and> ok1 \<and> cont_byte b2
           then ((b0 - 0xE0) * 4096 + (b1 - 128) * 64 + (b2 - 128), 3)
         else if 0xF0 \<le> b0 \<and> b0 \<le> 0xF4 \<and> ok1 \<and> cont_byte b2 \<and> cont_byte b3
           then ((b0 - 0xF0) * 262144 + (b1 - 128) * 4096 + (b2 - 128) * 64 + (b3 - 128), 4)
         else (0xFFFD, 1))"

lemma decode_rune_width: "0 < snd (decode_rune s)"
  by (simp add: decode_rune_def Let_def)

function go_runes :: "string \<Rightarrow> int list" where
  "go_runes s = (if s = [] then [] else
     (case decode_rune s of (r, w) \<Rightarrow> r # go_runes (drop w s)))"
  by pat_completeness auto
termination
proof (relation "measure length")
  show "(drop w s, s) \<in> measure length" if "s \<noteq> []" "(r, w) = decode_rune s" for s r w
    using that(1) decode_rune_width [of s, folded that(2)] by (cases s) auto
qed simp

declare go_runes.simps [simp del]

text \<open>The characters the name rules talk about; every one of them is ASCII.\<close>

definition isLowercaseLetter :: "int \<Rightarrow> bool" where
  "isLowercaseLetter r \<longleftrightarrow> of_char (CHR ''a'') \<le> r \<and> r \<le> of_char (CHR ''z'')"

definition isUppercaseLetter :: "int \<Rightarrow> bool" where
  "isUppercaseLetter r \<longleftrightarrow> of_char (CHR ''A'') \<le> r \<and> r \<le> of_char (CHR ''Z'')"

definition isDigit :: "int \<Rightarrow> bool" where
  "isDigit r \<longleftrightarrow> of_char (CHR ''0'') \<le> r \<and> r \<le> of_char (CHR ''9'')"

definition isLowercaseAlphanumeric :: "int \<Rightarrow> bool" where
  "isLowercaseAlphanumeric r \<longleftrightarrow> isLowercaseLetter r \<or> isDigit r"

text \<open>\<open>strings.ToLower\<close> on ASCII strings.\<close>

definition ToLower :: "string \<Rightarrow> string" where
  "ToLower s = map (\<lambda>c. if isUppercaseLetter (of_char c) then char_of (of_char c + 32 :: nat) else c) s"

section \<open>Hash and the deprecated joins\<close>

definition hashBytes :: nat where "hashBytes = 4"
definition hashLength :: nat where "hashLength = 2 * hashBytes"

definition Hash :: "string list \<Rightarrow> string" where
  "Hash parts = hex_encode (take hashBytes (md5_Sum (concat (map (\<lambda>p. p @ [CHR 0x00]) parts))))"

definition DeprecatedJoin :: "string list \<Rightarrow> string" where
  "DeprecatedJoin parts = join_with ''-'' (parts @ [Hash parts])"

definition DeprecatedJoinSalt :: "string list \<Rightarrow> string list \<Rightarrow> string" where
  "DeprecatedJoinSalt salt parts = join_with ''-'' (parts @ [Hash (salt @ parts)])"

section \<open>Names under constraints\<close>

definition truncationMark :: string where "truncationMark = ''---''"

definition minTruncatedLength :: nat where
  "minTruncatedLength = 1 + length truncationMark + hashLength"

record Constraints =
  MaxLength :: int
  ValidFirstChar :: "int \<Rightarrow> bool"

definition DefaultConstraints :: Constraints where
  "DefaultConstraints = \<lparr>MaxLength = 253, ValidFirstChar = isLowercaseAlphanumeric\<rparr>"

definition ServiceConstraints :: Constraints where
  "ServiceConstraints = \<lparr>MaxLength = 63, ValidFirstChar = isLowercaseLetter\<rparr>"

definition name_transform :: "int \<Rightarrow> int" where
  "name_transform r =
     (if isLowercaseAlphanumeric r \<or> r = of_char (CHR ''-'') then r
      else if isUppercaseLetter r then r + 32
      else of_char (CHR ''-''))"

text \<open>\<open>strings.Map transform part\<close>; the results are ASCII, so each rune is one byte again.\<close>

definition transform_part :: "string \<Rightarrow> string" where
  "transform_part p = map (\<lambda>r. char_of (nat (name_transform r))) (go_runes p)"

definition fix_first :: "Constraints \<Rightarrow> string \<Rightarrow> string" where
  "fix_first cons p =
     (if length p = 0 \<or> \<not> ValidFirstChar cons (of_char (p ! 0)) then ''x'' @ p else p)"

definition JoinSaltWithConstraints :: "Constraints \<Rightarrow> string list \<Rightarrow> string list \<Rightarrow> string option" where
  "JoinSaltWithConstraints cons salt parts =
     (if MaxLength cons < int minTruncatedLength then None
      else if length parts = 0 then Some []
      else
        let hash = Hash (salt @ parts);
            newParts = map transform_part parts;
            newParts = newParts[0 := fix_first cons (newParts ! 0)];
            partialResult = join_with ''-'' newParts;
            predictedLength = int (length partialResult) + 1 + int (length hash)
        in if predictedLength \<le> MaxLength cons then Some (partialResult @ ''-'' @ hash)
           else let cutLength = predictedLength - MaxLength cons + 2
                in Some (take (nat (int (length partialResult) - cutLength)) partialResult
                         @ truncationMark @ hash))"

definition JoinWithConstraints :: "Constraints \<Rightarrow> string list \<Rightarrow> string option" where
  "JoinWithConstraints cons parts = JoinSaltWithConstraints cons [] parts"

section \<open>What the hash guarantees\<close>

lemmas hash_consts = hashBytes_def hashLength_def truncationMark_def minTruncatedLength_def

lemma length_Hash [simp]: "length (Hash parts) = 8"
  by (simp add: Hash_def hash_consts)

definition name_char :: "char \<Rightarrow> bool" where
  "name_char c \<longleftrightarrow> isLowercaseAlphanumeric (of_char c) \<or> c = CHR ''-''"

lemma name_char_hex: "c \<in> set ''0123456789abcdef'' \<Longrightarrow> name_char c"
  by (auto simp: name_char_def isLowercaseAlphanumeric_def isLowercaseLetter_def isDigit_def)

lemma name_char_Hash: "c \<in> set (Hash parts) \<Longrightarrow> name_char c"
  unfolding Hash_def using set_hex_encode name_char_hex by blast

lemma name_char_dash [simp]: "name_char (CHR ''-'')"
  by (simp add: name_char_def)

lemma name_char_x [simp]: "name_char (CHR ''x'')"
  by (simp add: name_char_def isLowercaseAlphanumeric_def isLowercaseLetter_def)

lemma name_transform_range: "isLowercaseAlphanumeric (name_transform r) \<or> name_transform r = 45"
  by (auto simp: name_transform_def isLowercaseAlphanumeric_def isLowercaseLetter_def
      isUppercaseLetter_def isDigit_def)

lemma of_char_char_of_int:
  "0 \<le> r \<Longrightarrow> r < 256 \<Longrightarrow> of_char (char_of (nat r)) = (r :: int)"
  by (metis nat_0_le nat_less_numeral_power_cancel_iff of_char_of of_nat_of_char mod_less
      nat_less_iff of_nat_numeral)

lemma name_transform_bounds: "45 \<le> name_transform r \<and> name_transform r < 123"
  using name_transform_range [of r]
  by (auto simp: isLowercaseAlphanumeric_def isLowercaseLetter_def isDigit_def)

lemma name_char_transform: "c \<in> set (transform_part p) \<Longrightarrow> name_char c"
proof -
  assume "c \<in> set (transform_part p)"
  then obtain r where c: "c = char_of (nat (name_transform r))"
    by (auto simp: transform_part_def)
  have of_c: "(of_char c :: int) = name_transform r"
    unfolding c by (rule of_char_char_of_int) (use name_transform_bounds [of r] in auto)
  have "c = CHR ''-''" if "name_transform r = 45"
    using of_c that of_char_eq_iff [of c "CHR ''-''", where ?'a = int] by simp
  then show ?thesis
    using name_transform_range [of r] of_c by (auto simp: name_char_def)
qed

lemma name_char_fix_first: "\<forall>c \<in> set p. name_char c \<Longrightarrow> c \<in> set (fix_first cons p) \<Longrightarrow> name_char c"
  by (auto simp: fix_first_def split: if_splits)

definition sane_parts :: "Constraints \<Rightarrow> string list \<Rightarrow> string list" where
  "sane_parts cons parts = (map transform_part parts)[0 := fix_first cons (map transform_part parts ! 0)]"

lemma name_char_sane_parts:
  assumes "p \<in> set (sane_parts cons parts)" "c \<in> set p"
  shows "name_char c"
proof (cases parts)
  case Nil then show ?thesis using assms by (simp add: sane_parts_def)
next
  case (Cons q qs)
  then have "p = fix_first cons (transform_part q) \<or> p \<in> transform_part ` set qs"
    using assms(1) by (auto simp: sane_parts_def)
  then show ?thesis
    using assms(2) name_char_fix_first [of "transform_part q"] name_char_transform by blast
qed

lemma name_char_partial: "c \<in> set (join_with ''-'' (sane_parts cons parts)) \<Longrightarrow> name_char c"
  using set_join_with [of "''-''" "sane_parts cons parts"] name_char_sane_parts [of _ cons parts]
  by fastforce

text \<open>The two ways in which a name is put together.\<close>

lemma Join_cases:
  assumes "JoinSaltWithConstraints cons salt parts = Some n" "parts \<noteq> []"
  obtains (full) "n = join_with ''-'' (sane_parts cons parts) @ ''-'' @ Hash (salt @ parts)"
      "int (length (join_with ''-'' (sane_parts cons parts))) + 9 \<le> MaxLength cons"
      "12 \<le> MaxLength cons"
  | (cut) k where
      "n = take k (join_with ''-'' (sane_parts cons parts)) @ ''---'' @ Hash (salt @ parts)"
      "int k = MaxLength cons - 11" "12 \<le> MaxLength cons"
      "k < length (join_with ''-'' (sane_parts cons parts))"
proof (cases "int (length (join_with ''-'' (sane_parts cons parts))) + 9 \<le> MaxLength cons")
  case True
  then show thesis
    using assms full by (auto simp: JoinSaltWithConstraints_def sane_parts_def hash_consts Let_def
        split: if_splits)
next
  case False
  have 12: "12 \<le> MaxLength cons"
    using assms(1) by (auto simp: JoinSaltWithConstraints_def hash_consts split: if_splits)
  show thesis
  proof (rule cut [of "nat (MaxLength cons - 11)"])
    show "n = take (nat (MaxLength cons - 11)) (join_with ''-'' (sane_parts cons parts)) @ ''---''
      @ Hash (salt @ parts)"
      using assms False 12 by (auto simp: JoinSaltWithConstraints_def sane_parts_def hash_consts Let_def
          algebra_simps split: if_splits)
  qed (use 12 False in auto)
qed

section \<open>Valid, bounded, collision-resistant\<close>

lemma hd_fix_first:
  assumes "ValidFirstChar cons (of_char (CHR ''x''))"
  shows "fix_first cons p \<noteq> [] \<and> ValidFirstChar cons (of_char (hd (fix_first cons p)))"
  using assms by (cases p) (auto simp: fix_first_def)

lemma hd_sane_partial:
  assumes "ValidFirstChar cons (of_char (CHR ''x''))" "parts \<noteq> []"
  shows "join_with ''-'' (sane_parts cons parts) \<noteq> []
    \<and> ValidFirstChar cons (of_char (hd (join_with ''-'' (sane_parts cons parts))))"
  using assms hd_fix_first [of cons "transform_part (hd parts)"]
  by (cases parts) (auto simp: sane_parts_def join_with_Cons)

lemma Join_total: "12 \<le> MaxLength cons \<Longrightarrow> \<exists>n. JoinSaltWithConstraints cons salt parts = Some n"
  by (simp add: JoinSaltWithConstraints_def hash_consts Let_def)

lemma Join_suffix:
  assumes "JoinSaltWithConstraints cons salt parts = Some n" "parts \<noteq> []"
  shows "drop (length n - 8) n = Hash (salt @ parts)"
  using assms by (rule Join_cases) simp_all

lemma Join_bounded:
  assumes "JoinSaltWithConstraints cons salt parts = Some n" "parts \<noteq> []"
  shows "int (length n) \<le> MaxLength cons"
  using assms by (rule Join_cases) simp_all

lemma Join_chars:
  assumes "JoinSaltWithConstraints cons salt parts = Some n" "parts \<noteq> []" "c \<in> set n"
  shows "name_char c"
  using assms(1,2)
proof (cases rule: Join_cases)
  case full
  then show ?thesis using assms(3) name_char_partial name_char_Hash by auto
next
  case (cut k)
  then show ?thesis using assms(3) name_char_partial name_char_Hash by (auto dest!: in_set_takeD)
qed

lemma Join_first:
  assumes "JoinSaltWithConstraints cons salt parts = Some n" "parts \<noteq> []"
    "ValidFirstChar cons (of_char (CHR ''x''))"
  shows "n \<noteq> [] \<and> ValidFirstChar cons (of_char (hd n))"
  using assms(1,2)
proof (cases rule: Join_cases)
  case full
  then show ?thesis using hd_sane_partial [OF assms(3,2)] by simp
next
  case (cut k)
  then have "0 < k" by linarith
  then show ?thesis using cut hd_sane_partial [OF assms(3,2)] by simp
qed

text \<open>C30: every generated name is accepted by Kubernetes and carries the hash of all its inputs.
  As long as the limit leaves room for a hash and the letter x may start a name, the function
  returns; the name is non-empty, within the limit, made of lower-case letters, digits and hyphens
  only, whatever bytes the parts hold, starts with an allowed character, and its last eight
  characters are the hash of salt and parts.\<close>

theorem JoinSaltWithConstraints_valid:
  assumes "int minTruncatedLength \<le> MaxLength cons" "parts \<noteq> []"
    "ValidFirstChar cons (of_char (CHR ''x''))"
  shows "\<exists>n. JoinSaltWithConstraints cons salt parts = Some n \<and> n \<noteq> []
     \<and> int (length n) \<le> MaxLength cons
     \<and> list_all (\<lambda>c. isLowercaseAlphanumeric (of_char c) \<or> c = CHR ''-'') n
     \<and> ValidFirstChar cons (of_char (hd n))
     \<and> drop (length n - hashLength) n = Hash (salt @ parts)"
proof -
  obtain n where n: "JoinSaltWithConstraints cons salt parts = Some n"
    using Join_total [of cons salt parts] assms(1) by (auto simp: hash_consts)
  show ?thesis
    using Join_suffix [OF n assms(2)] Join_bounded [OF n assms(2)] Join_chars [OF n assms(2)]
      Join_first [OF n assms(2,3)] n
    by (auto simp: list_all_iff name_char_def hash_consts)
qed

theorem JoinSaltWithConstraints_valid_witness:
  "\<exists>n. JoinSaltWithConstraints ServiceConstraints [''salt''] [''9-Lives'', ''vttablet''] = Some n \<and> n \<noteq> []
     \<and> int (length n) \<le> 63
     \<and> list_all (\<lambda>c. isLowercaseAlphanumeric (of_char c) \<or> c = CHR ''-'') n
     \<and> isLowercaseLetter (of_char (hd n))
     \<and> drop (length n - hashLength) n = Hash [''salt'', ''9-Lives'', ''vttablet'']"
  using JoinSaltWithConstraints_valid [of ServiceConstraints "[''9-Lives'', ''vttablet'']" "[''salt'']"]
  by (simp add: ServiceConstraints_def hash_consts isLowercaseLetter_def)

section \<open>Compatibility with the deprecated names\<close>

lemma go_runes_ascii: "\<forall>c \<in> set s. of_char c < (128 :: int) \<Longrightarrow> go_runes s = map of_char s"
proof (induction s)
  case Nil
  show ?case by (simp add: go_runes.simps)
next
  case (Cons c s)
  then have "decode_rune (c # s) = (of_char c, 1)" by (simp add: decode_rune_def)
  then show ?case using Cons by (subst go_runes.simps) simp
qed

lemma transform_part_id:
  assumes "\<forall>c \<in> set p. name_char c"
  shows "transform_part p = p"
proof -
  have range: "(of_char c :: int) < 128 \<and> name_transform (of_char c) = of_char c \<and> nat (of_char c) = of_char c"
    if "name_char c" for c
    using that of_nat_of_char [of c, where ?'a = int]
    by (auto simp: name_char_def name_transform_def isLowercaseAlphanumeric_def isLowercaseLetter_def
        isDigit_def)
  then have "go_runes p = map of_char p" using assms by (intro go_runes_ascii) blast
  then show ?thesis
    using assms range by (simp add: transform_part_def map_idI)
qed

text \<open>upgrading the operator does not rename objects.  When the parts are already made of
  name characters, the first one starts legally and the result is short enough,
  \<open>JoinSaltWithConstraints\<close> yields exactly the name of the frozen \<open>DeprecatedJoinSalt\<close>, and without
  salt the one of \<open>DeprecatedJoin\<close>.\<close>

theorem JoinSaltWithConstraints_compatible:
  assumes "parts \<noteq> []" "\<forall>p \<in> set parts. list_all (\<lambda>c. isLowercaseAlphanumeric (of_char c) \<or> c = CHR ''-'') p"
    "hd parts \<noteq> []" "ValidFirstChar cons (of_char (hd (hd parts)))"
    "int (length (DeprecatedJoinSalt salt parts)) \<le> MaxLength cons" "int minTruncatedLength \<le> MaxLength cons"
  shows "JoinSaltWithConstraints cons salt parts = Some (DeprecatedJoinSalt salt parts)
    \<and> DeprecatedJoinSalt [] parts = DeprecatedJoin parts"
proof -
  obtain q qs where parts: "parts = q # qs" using assms(1) by (cases parts) auto
  have ids: "map transform_part parts = parts"
    using assms(2) by (intro map_idI transform_part_id) (auto simp: list_all_iff name_char_def)
  have first: "fix_first cons q = q"
    using assms(3,4) by (cases q) (auto simp: parts fix_first_def)
  have "int (length (join_with ''-'' parts)) + 9 \<le> MaxLength cons"
    using assms(1,5) by (simp add: DeprecatedJoinSalt_def join_with_snoc)
  then show ?thesis
    using ids first assms(1,6)
    by (simp add: JoinSaltWithConstraints_def Let_def hash_consts parts DeprecatedJoinSalt_def
        DeprecatedJoin_def join_with_snoc [of _ "q # qs", simplified])
qed

theorem JoinSaltWithConstraints_compatible_witness:
  "JoinSaltWithConstraints DefaultConstraints [''zone1''] [''example'', ''vttablet'']
     = Some (DeprecatedJoinSalt [''zone1''] [''example'', ''vttablet''])"
  using JoinSaltWithConstraints_compatible [of "[''example'', ''vttablet'']" DefaultConstraints "[''zone1'']"]
  by (simp add: DefaultConstraints_def hash_consts DeprecatedJoinSalt_def isLowercaseAlphanumeric_def
      isLowercaseLetter_def)

end
