(* ===== verification/Lockserver.thy ===== *)
theory Lockserver
  imports Names Kube
begin

text \<open>
  \<open>pkg/operator/lockserver\<close>: how the components of a cluster reach the topology servers.  The name of
  an etcd lockserver is generated by package \<open>names\<close>; a panic of the generator is \<open>None\<close>, and a nil
  result of the functions is the inner \<open>None\<close>.
\<close>

record params =
  Implementation :: string
  Address :: string
  RootPath :: string

record etcd_template = pod_extras +
  et_Image :: string
  et_ImagePullPolicy :: string
  et_ImagePullSecrets :: "string list"
  et_Resources :: listed_resources
  et_AccessModes :: "string list"
  et_StorageRequests :: "(string, quantity) gomap"
  et_ClaimRest :: opaque
  et_CreatePDB :: "bool option"
  et_CreateClientService :: "bool option"
  et_CreatePeerService :: "bool option"
  et_AdvertisePeerURLs :: "string list"
  et_LocalMemberIndex :: "32 word option"
  et_ClientService :: "service_overrides option"
  et_PeerService :: "service_overrides option"

text \<open>\<open>EtcdLockserverTemplate{}\<close>: the zero value.\<close>

definition empty_extras :: pod_extras where
  "empty_extras = \<lparr>px_ExtraFlags = [], px_ExtraEnv = [], px_ExtraVolumes = [], px_ExtraVolumeMounts = [],
     px_InitContainers = [], px_SidecarContainers = [], px_Affinity = None, px_Annotations = [],
     px_ExtraLabels = [], px_Tolerations = []\<rparr>"

definition no_resources :: listed_resources where
  "no_resources = \<lparr>lr_requests = [], lr_limits = []\<rparr>"

definition empty_etcd_template :: etcd_template where
  "empty_etcd_template = pod_extras.extend empty_extras
     (etcd_template.fields [] [] [] no_resources [] [] [] None None None [] None None None)"

record LockserverSpec =
  lss_External :: "params option"
  lss_Etcd :: "etcd_template option"
  lss_CellInfoAddress :: string

definition EtcdClientPort :: nat where "EtcdClientPort = 2379"
definition VitessEtcdImplementationName :: string where "VitessEtcdImplementationName = ''etcd2''"
definition EtcdComponentName :: string where "EtcdComponentName = ''etcd''"

definition EtcdLockserverNameConstraints :: Constraints where
  "EtcdLockserverNameConstraints =
     \<lparr>MaxLength = MaxLength ServiceConstraints - int (length ''-client''),
      ValidFirstChar = ValidFirstChar ServiceConstraints\<rparr>"

definition LocalEtcdName :: "string \<Rightarrow> string \<Rightarrow> string option" where
  "LocalEtcdName clusterName cellName =
     JoinWithConstraints EtcdLockserverNameConstraints [clusterName, cellName, EtcdComponentName]"

definition GlobalEtcdName :: "string \<Rightarrow> string option" where
  "GlobalEtcdName clusterName = JoinWithConstraints EtcdLockserverNameConstraints [clusterName, EtcdComponentName]"

definition etcd_client_address :: "string \<Rightarrow> string \<Rightarrow> string" where
  "etcd_client_address name namespace =
     name @ ''-client.'' @ namespace @ ''.svc:'' @ dec_nat EtcdClientPort"

definition GlobalConnectionParams :: "LockserverSpec \<Rightarrow> string \<Rightarrow> string \<Rightarrow> params option option" where
  "GlobalConnectionParams lockSpec namespace clusterName =
     (case lss_External lockSpec of
        Some ext \<Rightarrow> Some (Some ext)
      | None \<Rightarrow>
          (case lss_Etcd lockSpec of
             Some _ \<Rightarrow>
               map_option (\<lambda>address. Some \<lparr>Implementation = VitessEtcdImplementationName, Address = address,
                   RootPath = ''/vitess/'' @ clusterName @ ''/global''\<rparr>)
                 (if length (lss_CellInfoAddress lockSpec) = 0
                  then map_option (\<lambda>n. etcd_client_address n namespace) (GlobalEtcdName clusterName)
                  else Some (lss_CellInfoAddress lockSpec))
           | None \<Rightarrow> Some None))"

definition LocalConnectionParams ::
    "LockserverSpec \<Rightarrow> LockserverSpec \<Rightarrow> string \<Rightarrow> string \<Rightarrow> string \<Rightarrow> params option option"
where
  "LocalConnectionParams globalSpec cellSpec namespace clusterName cellName =
     (let rootPath = ''/vitess/'' @ clusterName @ ''/local/'' @ cellName
      in case lss_External cellSpec of
           Some ext \<Rightarrow> Some (Some ext)
         | None \<Rightarrow>
             (case lss_Etcd cellSpec of
                Some _ \<Rightarrow>
                  map_option (\<lambda>address. Some \<lparr>Implementation = VitessEtcdImplementationName, Address = address,
                      RootPath = rootPath\<rparr>)
                    (if length (lss_CellInfoAddress cellSpec) = 0
                     then map_option (\<lambda>n. etcd_client_address n namespace) (LocalEtcdName clusterName cellName)
                     else Some (lss_CellInfoAddress cellSpec))
              | None \<Rightarrow>
                  map_option (map_option (\<lambda>g. \<lparr>Implementation = Implementation g, Address = Address g,
                      RootPath = rootPath\<rparr>))
                    (GlobalConnectionParams globalSpec namespace clusterName)))"

section \<open>Names\<close>

text \<open>The names leave room for the suffixes of the Services made from them.\<close>

lemma etcd_name:
  assumes "JoinWithConstraints EtcdLockserverNameConstraints parts = Some n" "parts \<noteq> []"
  shows "length n + length ''-client'' \<le> 63 \<and> n \<noteq> [] \<and> isLowercaseLetter (of_char (hd n))"
  using Join_bounded [OF assms [unfolded JoinWithConstraints_def]]
    Join_first [OF assms [unfolded JoinWithConstraints_def]]
  by (simp add: EtcdLockserverNameConstraints_def ServiceConstraints_def isLowercaseLetter_def)

lemma etcd_name_total: "\<exists>n. JoinWithConstraints EtcdLockserverNameConstraints parts = Some n"
  unfolding JoinWithConstraints_def
  by (rule Join_total) (simp add: EtcdLockserverNameConstraints_def ServiceConstraints_def)

lemma GlobalEtcdName_total: "\<exists>n. GlobalEtcdName c = Some n"
  unfolding GlobalEtcdName_def by (rule etcd_name_total)

lemma LocalEtcdName_total: "\<exists>n. LocalEtcdName c x = Some n"
  unfolding LocalEtcdName_def by (rule etcd_name_total)

section \<open>Root paths keep the records apart\<close>

lemma Global_root_path:
  "lss_External s = None \<Longrightarrow> GlobalConnectionParams s ns c = Some (Some p) \<Longrightarrow>
     RootPath p = ''/vitess/'' @ c @ ''/global''"
  by (auto simp: GlobalConnectionParams_def split: option.splits)

lemma Local_root_path:
  "lss_External s = None \<Longrightarrow> LocalConnectionParams g s ns c x = Some (Some p) \<Longrightarrow>
     RootPath p = ''/vitess/'' @ c @ ''/local/'' @ x"
  by (auto simp: LocalConnectionParams_def Let_def split: option.splits)

lemma append_slash_eq:
  assumes "(CHR ''/'') \<notin> set a" "(CHR ''/'') \<notin> set b"
  shows "a @ ''/'' @ s = b @ ''/'' @ t \<longleftrightarrow> a = b \<and> s = t"
proof
  assume "a @ ''/'' @ s = b @ ''/'' @ t"
  then have "cut_at CHR ''/'' (a @ CHR ''/'' # s) = cut_at CHR ''/'' (b @ CHR ''/'' # t)" by simp
  then show "a = b \<and> s = t"
    unfolding cut_at_complete [OF assms(1)] cut_at_complete [OF assms(2)] by simp
qed simp

text \<open>The records of different clusters and cells never mix.  The functions always return; a local
  lockserver the operator names itself keeps its records under a root path that determines the
  cluster and the cell, and that is never a global root path, even for a cell called global.\<close>

theorem connection_params_isolated:
  assumes "(CHR ''/'') \<notin> set c" "(CHR ''/'') \<notin> set c'"
    and "lss_External s = None" "lss_External s' = None" "lss_External g' = None"
    and "LocalConnectionParams g s ns c x = Some (Some p)"
  shows "(LocalConnectionParams g' s' ns' c' x' = Some (Some p') \<and> RootPath p = RootPath p' \<longrightarrow> c = c' \<and> x = x')
    \<and> (GlobalConnectionParams g' ns' c' = Some (Some p') \<longrightarrow> RootPath p \<noteq> RootPath p')
    \<and> GlobalConnectionParams g' ns' c' \<noteq> None \<and> LocalConnectionParams g' s' ns' c' x' \<noteq> None"
proof (intro conjI impI)
  have p: "RootPath p = ''/vitess/'' @ c @ ''/local/'' @ x" by (rule Local_root_path [OF assms(3,6)])
  show "c = c'" "x = x'"
    if "LocalConnectionParams g' s' ns' c' x' = Some (Some p') \<and> RootPath p = RootPath p'"
    using that p Local_root_path [OF assms(4), of g' ns' c' x' p']
      append_slash_eq [OF assms(1,2), of "''local/'' @ x" "''local/'' @ x'"] by simp_all
  show "RootPath p \<noteq> RootPath p'" if "GlobalConnectionParams g' ns' c' = Some (Some p')"
    using p Global_root_path [OF assms(5) that]
      append_slash_eq [OF assms(1,2), of "''local/'' @ x" "''global''"] by simp
  show g: "GlobalConnectionParams g' ns' c' \<noteq> None"
    using GlobalEtcdName_total [of c'] by (auto simp: GlobalConnectionParams_def split: option.splits)
  show "LocalConnectionParams g' s' ns' c' x' \<noteq> None"
    using g LocalEtcdName_total [of c' x']
    by (auto simp: LocalConnectionParams_def Let_def split: option.splits)
qed

lemma connection_params_isolated_witness:
  "let g = \<lparr>lss_External = None, lss_Etcd = Some empty_etcd_template, lss_CellInfoAddress = ''etcd:2379''\<rparr>;
       l = \<lparr>lss_External = None, lss_Etcd = None, lss_CellInfoAddress = []\<rparr>
   in \<exists>p p'. LocalConnectionParams g l ''ns'' ''c'' ''global'' = Some (Some p)
        \<and> GlobalConnectionParams g ''ns'' ''c'' = Some (Some p') \<and> Address p = Address p' \<and> RootPath p \<noteq> RootPath p'"
proof -
  let ?g = "\<lparr>lss_External = None, lss_Etcd = Some empty_etcd_template, lss_CellInfoAddress = ''etcd:2379''\<rparr>"
  let ?l = "\<lparr>lss_External = None, lss_Etcd = None, lss_CellInfoAddress = []\<rparr>"
  obtain p where p: "LocalConnectionParams ?g ?l ''ns'' ''c'' ''global'' = Some (Some p)" "Address p = ''etcd:2379''"
    by (simp add: LocalConnectionParams_def GlobalConnectionParams_def)
  obtain p' where p': "GlobalConnectionParams ?g ''ns'' ''c'' = Some (Some p')" "Address p' = ''etcd:2379''"
    by (simp add: GlobalConnectionParams_def)
  have "RootPath p \<noteq> RootPath p'"
    using connection_params_isolated [of "''c''" "''c''" ?l ?l ?g ?g "''ns''" "''global''" p "''ns''" "''global''" p'] p p'
    by simp
  then show ?thesis using p p' by (simp add: Let_def)
qed

text \<open>The Service names made from an etcd lockserver's name by appending \<open>-client\<close> are valid: at most 63
  characters and starting with a letter, for every cluster and cell name.\<close>

theorem etcd_service_names:
  "\<exists>n m. LocalEtcdName clusterName cellName = Some n \<and> GlobalEtcdName clusterName = Some m
     \<and> length (n @ ''-client'') \<le> 63 \<and> length (m @ ''-client'') \<le> 63
     \<and> n \<noteq> [] \<and> isLowercaseLetter (of_char (hd n)) \<and> m \<noteq> [] \<and> isLowercaseLetter (of_char (hd m))"
proof -
  obtain n where n: "LocalEtcdName clusterName cellName = Some n" using LocalEtcdName_total by blast
  obtain m where m: "GlobalEtcdName clusterName = Some m" using GlobalEtcdName_total by blast
  show ?thesis
    using n m etcd_name [OF n [unfolded LocalEtcdName_def]] etcd_name [OF m [unfolded GlobalEtcdName_def]] by simp
qed

end
