(* ===== verification/ConnPool.thy ===== *)
theory ConnPool
  imports Lockserver
begin

text \<open>
  The shared pool of topology connections, \<open>pkg/operator/toposerver/connpool.go\<close>, as a concurrent system.

  Each atomic section of the code (what happens under \<open>mapMu\<close> or a connection's \<open>mu\<close>) is one operation; the
  goroutines interleave them.  \<open>openMu\<close> is the list of its readers (the calls of \<open>Open\<close> and \<open>checkConn\<close> in
  progress): the collector, its writer, runs only when there are none.  A connection is a pointer, so
  it is an index into a heap; \<open>cn_closed\<close> counts how often its server was closed.  Times are in nanoseconds.
\<close>

section \<open>State\<close>

datatype conn_status = Connecting | Connected | ConnectFailed

record conn =
  cn_status :: conn_status
  cn_refCount :: int
  cn_lastOpened :: int
  cn_lastChecked :: int
  cn_closed :: nat

record pool =
  conns :: "(params, nat) gomap"
  deadConns :: "nat list"
  heap :: "nat \<Rightarrow> conn"
  next_conn :: nat
  clock :: int
  checks_due :: "params list"
  getting :: "nat list"
  waiting :: "nat list"
  probing :: "(params \<times> nat) list"
  users :: "nat list"

text \<open>
  \<open>getting\<close>: calls of \<open>Open\<close> that got a connection from the map and have not counted their reference yet;
  \<open>waiting\<close>: those that have and wait for the attempt; \<open>probing\<close>: liveness checks in progress; \<open>users\<close>:
  connections returned to callers that have not called \<open>Close\<close>; \<open>checks_due\<close>: started check goroutines.
\<close>

definition idleTTL :: int where "idleTTL = 60000000000"
definition livenessCheckPeriod :: int where "livenessCheckPeriod = 10000000000"

definition newConn :: "int \<Rightarrow> conn" where
  "newConn t = \<lparr>cn_status = Connecting, cn_refCount = 0, cn_lastOpened = t, cn_lastChecked = t, cn_closed = 0\<rparr>"

abbreviation set_conn :: "nat \<Rightarrow> conn \<Rightarrow> pool \<Rightarrow> pool" where
  "set_conn i c p \<equiv> p\<lparr>heap := (heap p)(i := c)\<rparr>"

definition failed :: "conn \<Rightarrow> bool" where "failed c \<longleftrightarrow> cn_status c = ConnectFailed"
definition succeeded :: "conn \<Rightarrow> bool" where "succeeded c \<longleftrightarrow> cn_status c = Connected"

section \<open>Operations\<close>

text \<open>\<open>connPool.get\<close>, up to the counters: the connection to wait for and the pool after it.\<close>

definition pool_get :: "params \<Rightarrow> pool \<Rightarrow> nat \<times> pool" where
  "pool_get params p =
     (case map_of (conns p) params of
        Some i \<Rightarrow>
          if failed (heap p i) then
            (next_conn p, p\<lparr>conns := AList.update params (next_conn p) (AList.delete params (conns p)),
               heap := (heap p)(next_conn p := newConn (clock p)), next_conn := Suc (next_conn p)\<rparr>)
          else (i, if succeeded (heap p i) then p\<lparr>checks_due := checks_due p @ [params]\<rparr> else p)
      | None \<Rightarrow>
          (next_conn p, p\<lparr>conns := AList.update params (next_conn p) (conns p),
             heap := (heap p)(next_conn p := newConn (clock p)), next_conn := Suc (next_conn p)\<rparr>))"

text \<open>The start and the end of \<open>Conn.open\<close>; it fails with the attempt's error or with the timeout.\<close>

definition open_ref :: "nat \<Rightarrow> pool \<Rightarrow> pool" where
  "open_ref i p = set_conn i ((heap p i)\<lparr>cn_refCount := cn_refCount (heap p i) + 1, cn_lastOpened := clock p\<rparr>) p"

definition open_unref :: "nat \<Rightarrow> pool \<Rightarrow> pool" where
  "open_unref i p = set_conn i ((heap p i)\<lparr>cn_refCount := cn_refCount (heap p i) - 1\<rparr>) p"

definition conn_Close :: "nat \<Rightarrow> pool \<Rightarrow> pool" where
  "conn_Close i p = set_conn i ((heap p i)\<lparr>cn_refCount := cn_refCount (heap p i) - 1\<rparr>) p"

text \<open>\<open>Conn.shouldCheck\<close>: the answer, and the pool after it (a positive answer records the time).\<close>

definition shouldCheck :: "nat \<Rightarrow> pool \<Rightarrow> bool \<times> pool" where
  "shouldCheck i p =
     (if clock p - cn_lastChecked (heap p i) \<ge> livenessCheckPeriod
      then (True, set_conn i ((heap p i)\<lparr>cn_lastChecked := clock p\<rparr>) p)
      else (False, p))"

text \<open>\<open>checkConn\<close>: the part before the remote read, and what a failed check does.\<close>

definition check_begin :: "params \<Rightarrow> pool \<Rightarrow> pool" where
  "check_begin params p =
     (case map_of (conns p) params of
        None \<Rightarrow> p
      | Some i \<Rightarrow>
          if \<not> succeeded (heap p i) then p
          else case shouldCheck i p of
              (True, p') \<Rightarrow> p'\<lparr>probing := (params, i) # probing p'\<rparr>
            | (False, p') \<Rightarrow> p')"

definition check_dead :: "params \<Rightarrow> nat \<Rightarrow> pool \<Rightarrow> pool" where
  "check_dead params i p =
     (if map_of (conns p) params \<noteq> Some i then p
      else p\<lparr>conns := AList.delete params (conns p), deadConns := deadConns p @ [i]\<rparr>)"

text \<open>
  The collector: the entries it keeps and the connections it closes.  Closing a connection whose attempt has
  not finished dereferences its nil server: \<open>None\<close>.
\<close>

definition idle :: "pool \<Rightarrow> nat \<Rightarrow> bool" where
  "idle p i \<longleftrightarrow> cn_refCount (heap p i) \<le> 0 \<and> clock p - cn_lastOpened (heap p i) > idleTTL"

fun gc_active :: "pool \<Rightarrow> (params, nat) gomap \<Rightarrow> ((params, nat) gomap \<times> nat list) option" where
  "gc_active p [] = Some ([], [])"
| "gc_active p ((params, i) # rest) =
     (case gc_active p rest of
        None \<Rightarrow> None
      | Some (keep, close) \<Rightarrow>
          if failed (heap p i) then Some (keep, close)
          else if idle p i
          then (if cn_status (heap p i) = Connecting then None else Some (keep, i # close))
          else Some ((params, i) # keep, close))"

definition close_all :: "nat list \<Rightarrow> (nat \<Rightarrow> conn) \<Rightarrow> nat \<Rightarrow> conn" where
  "close_all is h = fold (\<lambda>i h. h(i := (h i)\<lparr>cn_closed := Suc (cn_closed (h i))\<rparr>)) is h"

definition gc :: "pool \<Rightarrow> pool option" where
  "gc p = (case gc_active p (conns p) of
     None \<Rightarrow> None
   | Some (keep, close) \<Rightarrow>
       Some (p\<lparr>conns := keep,
          heap := close_all (close @ filter (\<lambda>i. cn_refCount (heap p i) \<le> 0) (deadConns p)) (heap p),
          deadConns := filter (\<lambda>i. \<not> cn_refCount (heap p i) \<le> 0) (deadConns p)\<rparr>))"

section \<open>Interleaving\<close>

inductive pool_step :: "pool \<Rightarrow> pool \<Rightarrow> bool" where
  tick: "0 \<le> d \<Longrightarrow> pool_step p (p\<lparr>clock := clock p + d\<rparr>)"
| connect: "i < next_conn p \<Longrightarrow> cn_status (heap p i) = Connecting \<Longrightarrow> st \<in> {Connected, ConnectFailed} \<Longrightarrow>
    pool_step p (set_conn i ((heap p i)\<lparr>cn_status := st\<rparr>) p)"
| open_get: "pool_get params p = (i, p') \<Longrightarrow> pool_step p (p'\<lparr>getting := i # getting p'\<rparr>)"
| open_count: "i \<in> set (getting p) \<Longrightarrow>
    pool_step p ((open_ref i p)\<lparr>getting := remove1 i (getting p), waiting := i # waiting p\<rparr>)"
| open_ok: "i \<in> set (waiting p) \<Longrightarrow> succeeded (heap p i) \<Longrightarrow>
    pool_step p (p\<lparr>waiting := remove1 i (waiting p), users := i # users p\<rparr>)"
| open_error: "i \<in> set (waiting p) \<Longrightarrow>
    pool_step p ((open_unref i p)\<lparr>waiting := remove1 i (waiting p)\<rparr>)"
| close_conn: "i \<in> set (users p) \<Longrightarrow>
    pool_step p ((conn_Close i p)\<lparr>users := remove1 i (users p)\<rparr>)"
| check: "params \<in> set (checks_due p) \<Longrightarrow>
    pool_step p (check_begin params (p\<lparr>checks_due := remove1 params (checks_due p)\<rparr>))"
| check_ok: "pool_step p (p\<lparr>probing := remove1 x (probing p)\<rparr>)"
| check_bad: "(params, i) \<in> set (probing p) \<Longrightarrow>
    pool_step p (check_dead params i (p\<lparr>probing := remove1 (params, i) (probing p)\<rparr>))"
| collect: "getting p = [] \<Longrightarrow> waiting p = [] \<Longrightarrow> probing p = [] \<Longrightarrow> gc p = Some p' \<Longrightarrow> pool_step p p'"

inductive pool_reachable :: "pool \<Rightarrow> bool" where
  init: "pool_reachable \<lparr>conns = [], deadConns = [], heap = h, next_conn = 0, clock = t, checks_due = [],
    getting = [], waiting = [], probing = [], users = []\<rparr>"
| step: "pool_reachable p \<Longrightarrow> pool_step p p' \<Longrightarrow> pool_reachable p'"

section \<open>The invariant\<close>

abbreviation live :: "pool \<Rightarrow> nat set" where
  "live p \<equiv> set (map snd (conns p)) \<union> set (deadConns p)"

text \<open>
  The connections of the map and of the dead list are all different, allocated and not closed; whatever someone opens
  is among them unless its attempt failed; a used connection is among them and connected; references
  count the openers and the users.
\<close>

definition pool_inv :: "pool \<Rightarrow> bool" where
  "pool_inv p \<longleftrightarrow>
     gomap_wf (conns p) \<and> distinct (map snd (conns p) @ deadConns p)
     \<and> (\<forall>i \<in> live p. i < next_conn p \<and> cn_closed (heap p i) = 0)
     \<and> (\<forall>i \<in> set (deadConns p) \<union> snd ` set (probing p). i < next_conn p \<and> succeeded (heap p i))
     \<and> (\<forall>i \<in> set (getting p) \<union> set (waiting p). i < next_conn p \<and> (i \<in> live p \<or> failed (heap p i)))
     \<and> (\<forall>i \<in> set (users p). i \<in> live p \<and> succeeded (heap p i))
     \<and> (\<forall>i < next_conn p. cn_refCount (heap p i) = int (count_list (waiting p) i + count_list (users p) i)
          \<and> cn_closed (heap p i) \<le> 1)"

lemma pool_invI:
  assumes "gomap_wf (conns p)" "distinct (map snd (conns p) @ deadConns p)"
    and "\<And>i. i \<in> live p \<Longrightarrow> i < next_conn p \<and> cn_closed (heap p i) = 0"
    and "\<And>i. i \<in> set (deadConns p) \<or> i \<in> snd ` set (probing p) \<Longrightarrow> i < next_conn p \<and> succeeded (heap p i)"
    and "\<And>i. i \<in> set (getting p) \<or> i \<in> set (waiting p) \<Longrightarrow> i < next_conn p \<and> (i \<in> live p \<or> failed (heap p i))"
    and "\<And>i. i \<in> set (users p) \<Longrightarrow> i \<in> live p \<and> succeeded (heap p i)"
    and "\<And>i. i < next_conn p \<Longrightarrow> cn_refCount (heap p i) = int (count_list (waiting p) i + count_list (users p) i)
          \<and> cn_closed (heap p i) \<le> 1"
  shows "pool_inv p"
  unfolding pool_inv_def using assms by blast

lemma pool_invD:
  assumes "pool_inv p"
  shows "gomap_wf (conns p)" "distinct (map snd (conns p) @ deadConns p)"
    and "\<And>i. i \<in> live p \<Longrightarrow> i < next_conn p \<and> cn_closed (heap p i) = 0"
    and "\<And>i. i \<in> set (deadConns p) \<or> i \<in> snd ` set (probing p) \<Longrightarrow> i < next_conn p \<and> succeeded (heap p i)"
    and "\<And>i. i \<in> set (getting p) \<or> i \<in> set (waiting p) \<Longrightarrow> i < next_conn p \<and> (i \<in> live p \<or> failed (heap p i))"
    and "\<And>i. i \<in> set (users p) \<Longrightarrow> i \<in> live p \<and> succeeded (heap p i)"
    and "\<And>i. i < next_conn p \<Longrightarrow> cn_refCount (heap p i) = int (count_list (waiting p) i + count_list (users p) i)
          \<and> cn_closed (heap p i) \<le> 1"
  using assms unfolding pool_inv_def by blast+

lemma count_list_remove1 [simp]:
  "i \<in> set xs \<Longrightarrow> count_list (remove1 i xs) j = (if j = i then count_list xs j - 1 else count_list xs j)"
  by (induction xs) auto

lemma count_list_pos: "i \<in> set xs \<Longrightarrow> 0 < count_list xs i"
  using count_list_0_iff[of xs i] by simp

lemma in_live_next: "pool_inv p \<Longrightarrow> i \<in> live p \<Longrightarrow> i < next_conn p"
  using pool_invD(3) by blast

lemma not_live_fresh: "pool_inv p \<Longrightarrow> next_conn p \<notin> live p"
  using pool_invD(3)[of p "next_conn p"] by auto

text \<open>An update of one connection that keeps what the invariant reads of it.\<close>

lemma pool_inv_same_conn:
  assumes inv: "pool_inv p" and "cn_status c = cn_status (heap p i)" "cn_refCount c = cn_refCount (heap p i)"
    "cn_closed c = cn_closed (heap p i)"
  shows "pool_inv (set_conn i c p)"
proof (rule pool_invI, goal_cases)
  case (3 j) then show ?case using pool_invD(3)[OF inv, of j] assms by auto
next
  case (4 j) then show ?case using pool_invD(4)[OF inv, of j] assms by (auto simp: succeeded_def)
next
  case (5 j) then show ?case using pool_invD(5)[OF inv, of j] assms by (auto simp: failed_def)
next
  case (6 j) then show ?case using pool_invD(6)[OF inv, of j] assms by (auto simp: succeeded_def)
next
  case (7 j) then show ?case using pool_invD(7)[OF inv, of j] assms by auto
qed (use pool_invD(1,2)[OF inv] in auto)

lemma pool_inv_fields:
  assumes "pool_inv p"
  shows "pool_inv (p\<lparr>clock := t\<rparr>)" "pool_inv (p\<lparr>checks_due := cs\<rparr>)"
  using assms unfolding pool_inv_def by simp_all

lemma connect_inv:
  assumes inv: "pool_inv p" and "cn_status (heap p i) = Connecting"
  shows "pool_inv (set_conn i ((heap p i)\<lparr>cn_status := st\<rparr>) p)"
proof (rule pool_invI, goal_cases)
  case (3 j) then show ?case using pool_invD(3)[OF inv, of j] assms by auto
next
  case (4 j) then show ?case using pool_invD(4)[OF inv, of j] assms by (auto simp: succeeded_def)
next
  case (5 j) then show ?case using pool_invD(5)[OF inv, of j] assms by (auto simp: failed_def)
next
  case (6 j) then show ?case using pool_invD(6)[OF inv, of j] assms by (auto simp: succeeded_def)
next
  case (7 j) then show ?case using pool_invD(7)[OF inv, of j] assms by auto
qed (use pool_invD(1,2)[OF inv] in auto)


text \<open>The connection that \<open>get\<close> hands out is in the pool; nobody but the map loses anything.\<close>

definition opened_inv :: "nat \<Rightarrow> pool \<Rightarrow> bool" where
  "opened_inv i p \<longleftrightarrow> pool_inv p \<and> i < next_conn p \<and> (i \<in> live p \<or> failed (heap p i))"

lemma snd_AList_update_fresh:
  "k \<notin> fst ` set m \<Longrightarrow> AList.update k v m = m @ [(k, v)]"
  by (induction m) auto

lemma snd_delete: "set (map snd (AList.delete k m)) \<subseteq> set (map snd m)"
  by (induction m) auto

lemma distinct_snd_delete: "distinct (map snd m) \<Longrightarrow> distinct (map snd (AList.delete k m))"
proof (induction m)
  case (Cons a m)
  then show ?case using snd_delete [of k m] by (cases a) auto
qed simp

lemma snd_delete_other:
  assumes "gomap_wf m" "i \<in> set (map snd m)" "map_of m k \<noteq> Some i"
  shows "i \<in> set (map snd (AList.delete k m))"
proof -
  obtain k' where k': "(k', i) \<in> set m" using assms(2) by auto
  have "k' \<noteq> k" using assms k' by auto
  then show ?thesis using k' by (force simp: AList.delete_eq image_iff)
qed

lemma new_entry_inv:
  fixes p :: pool and t :: int
  assumes inv: "pool_inv p" and cs: "k \<notin> fst ` set cs" "gomap_wf cs" "distinct (map snd cs)"
    "set (map snd cs) \<subseteq> set (map snd (conns p))"
    and lost: "\<And>i. i \<in> set (map snd (conns p)) \<Longrightarrow> i \<notin> set (map snd cs) \<Longrightarrow> failed (heap p i)"
  defines "p' \<equiv> p\<lparr>conns := AList.update k (next_conn p) cs, heap := (heap p)(next_conn p := newConn t),
      next_conn := Suc (next_conn p)\<rparr>"
  shows "opened_inv (next_conn p) p'"
proof -
  have conns': "conns p' = cs @ [(k, next_conn p)]"
    by (simp add: p'_def snd_AList_update_fresh cs(1))
  have next': "next_conn p' = Suc (next_conn p)" by (simp add: p'_def)
  have fresh: "next_conn p \<notin> live p" by (rule not_live_fresh [OF inv])
  have keep: "heap p' j = heap p j" if "j < next_conn p" for j using that by (simp add: p'_def)
  have live': "live p' = insert (next_conn p) (set (map snd cs) \<union> set (deadConns p))"
    unfolding conns' by (auto simp: p'_def)
  have still: "j \<in> live p' \<or> failed (heap p' j)" if "j \<in> live p" "j < next_conn p" for j
    unfolding live' using that lost [of j] keep [of j] by auto
  have "pool_inv p'"
  proof (rule pool_invI, goal_cases)
    case 1 then show ?case using cs by (simp add: conns')
  next
    case 2
    have "deadConns p' = deadConns p" by (simp add: p'_def)
    moreover have "distinct (map snd cs @ deadConns p)"
      using cs(3,4) pool_invD(2)[OF inv] by (auto simp del: set_map)
    moreover have "next_conn p \<notin> set (map snd cs) \<union> set (deadConns p)" using cs(4) fresh by blast
    ultimately show ?case unfolding conns' by simp
  next
    case (3 j)
    then have "j = next_conn p \<or> j \<in> live p" unfolding live' using cs(4) by auto
    then show ?case
    proof
      assume "j \<in> live p"
      then show ?thesis using pool_invD(3)[OF inv, of j] keep[of j] by (simp add: p'_def)
    qed (simp add: p'_def newConn_def)
  next
    case (4 j) then show ?case using pool_invD(4)[OF inv, of j] keep[of j] by (auto simp: p'_def)
  next
    case (5 j)
    then have j: "j < next_conn p" "j \<in> live p \<or> failed (heap p j)"
      using pool_invD(5)[OF inv, of j] by (auto simp: p'_def)
    then have "j \<in> live p' \<or> failed (heap p' j)" using still [of j] keep [of j] by metis
    then show ?case using j(1) next' by simp
  next
    case (6 j)
    then have j: "j \<in> live p" "succeeded (heap p j)"
      using pool_invD(6)[OF inv, of j] by (auto simp: p'_def)
    have "\<not> failed (heap p' j)" "succeeded (heap p' j)"
      using j(2) keep [of j] in_live_next [OF inv j(1)] by (simp_all add: failed_def succeeded_def)
    then show ?case using still [OF j(1) in_live_next [OF inv j(1)]] by blast
  next
    case (7 j)
    show ?case
    proof (cases "j = next_conn p")
      case True
      have "j \<notin> set (waiting p)" "j \<notin> set (users p)"
        using True pool_invD(5,6)[OF inv, of j] fresh by auto
      then show ?thesis using True by (simp add: p'_def newConn_def)
    next
      case False
      then show ?thesis using 7 pool_invD(7)[OF inv, of j] keep[of j] by (simp add: p'_def less_Suc_eq)
    qed
  qed
  moreover have "next_conn p \<in> live p'" unfolding live' by simp
  ultimately show ?thesis by (simp add: opened_inv_def p'_def)
qed

lemma pool_get_inv:
  assumes inv: "pool_inv p" and get: "pool_get params p = (i, p')"
  shows "opened_inv i p'"
proof (cases "map_of (conns p) params")
  case None
  have "opened_inv (next_conn p) (p\<lparr>conns := AList.update params (next_conn p) (conns p),
      heap := (heap p)(next_conn p := newConn (clock p)), next_conn := Suc (next_conn p)\<rparr>)"
    by (rule new_entry_inv [OF inv]) (use None pool_invD(1,2)[OF inv] in \<open>auto simp: map_of_eq_None_iff\<close>)
  then show ?thesis using get None by (auto simp: pool_get_def)
next
  case (Some j)
  show ?thesis
  proof (cases "failed (heap p j)")
    case True
    have "opened_inv (next_conn p) (p\<lparr>conns := AList.update params (next_conn p) (AList.delete params (conns p)),
        heap := (heap p)(next_conn p := newConn (clock p)), next_conn := Suc (next_conn p)\<rparr>)"
    proof (rule new_entry_inv [OF inv], goal_cases)
      case (5 i)
      then show ?case using True Some snd_delete_other [OF pool_invD(1)[OF inv], of i params] by auto
    qed (use pool_invD(1,2)[OF inv] distinct_snd_delete [of "conns p" params]
        in \<open>auto simp: AList.delete_eq distinct_map_filter\<close>)
    then show ?thesis using get Some True by (auto simp: pool_get_def)
  next
    case False
    have "j \<in> live p" using map_of_SomeD [OF Some] by force
    then show ?thesis
      using get Some False inv in_live_next [OF inv, of j]
      by (auto simp: pool_get_def opened_inv_def pool_inv_fields split: if_splits)
  qed
qed


section \<open>Every step keeps the invariant\<close>

lemma open_count_inv:
  assumes inv: "pool_inv p" and i: "i \<in> set (getting p)"
  shows "pool_inv ((open_ref i p)\<lparr>getting := remove1 i (getting p), waiting := i # waiting p\<rparr>)"
    (is "pool_inv ?p'")
proof (rule pool_invI, goal_cases)
  case (3 j) then show ?case using pool_invD(3)[OF inv, of j] by (auto simp: open_ref_def)
next
  case (4 j) then show ?case using pool_invD(4)[OF inv, of j] by (auto simp: open_ref_def succeeded_def)
next
  case (5 j)
  then have "j \<in> set (getting p) \<or> j \<in> set (waiting p)"
    using i set_remove1_subset [of i "getting p"] by auto
  then show ?case using pool_invD(5)[OF inv, of j] by (auto simp: open_ref_def failed_def)
next
  case (6 j) then show ?case using pool_invD(6)[OF inv, of j] by (auto simp: open_ref_def succeeded_def)
next
  case (7 j) then show ?case using pool_invD(7)[OF inv, of j] by (auto simp: open_ref_def)
qed (use pool_invD(1,2)[OF inv] in \<open>auto simp: open_ref_def\<close>)

lemma open_ok_inv:
  assumes inv: "pool_inv p" and i: "i \<in> set (waiting p)" "succeeded (heap p i)"
  shows "pool_inv (p\<lparr>waiting := remove1 i (waiting p), users := i # users p\<rparr>)"
proof (rule pool_invI, goal_cases)
  case (5 j)
  then show ?case using pool_invD(5)[OF inv, of j] by (auto dest: notin_set_remove1)
next
  case (6 j)
  have "\<not> failed (heap p i)" using i by (simp add: failed_def succeeded_def)
  then show ?case using 6 pool_invD(5,6)[OF inv, of j] i by auto
next
  case (7 j)
  then show ?case using pool_invD(7)[OF inv, of j] i(1) count_list_pos [OF i(1)] by (auto simp: of_nat_diff)
qed (use pool_invD(1-4)[OF inv] in auto)

lemma open_error_inv:
  assumes inv: "pool_inv p" and i: "i \<in> set (waiting p)"
  shows "pool_inv ((open_unref i p)\<lparr>waiting := remove1 i (waiting p)\<rparr>)"
proof (rule pool_invI, goal_cases)
  case (3 j) then show ?case using pool_invD(3)[OF inv, of j] by (auto simp: open_unref_def)
next
  case (4 j) then show ?case using pool_invD(4)[OF inv, of j] by (auto simp: open_unref_def succeeded_def)
next
  case (5 j)
  then show ?case using pool_invD(5)[OF inv, of j] by (auto simp: open_unref_def failed_def dest: notin_set_remove1)
next
  case (6 j) then show ?case using pool_invD(6)[OF inv, of j] by (auto simp: open_unref_def succeeded_def)
next
  case (7 j)
  then show ?case using pool_invD(7)[OF inv, of j] i(1) count_list_pos [OF i(1)]
    by (auto simp: open_unref_def of_nat_diff)
qed (use pool_invD(1,2)[OF inv] in \<open>auto simp: open_unref_def\<close>)

lemma close_conn_inv:
  assumes inv: "pool_inv p" and i: "i \<in> set (users p)"
  shows "pool_inv ((conn_Close i p)\<lparr>users := remove1 i (users p)\<rparr>)"
proof (rule pool_invI, goal_cases)
  case (3 j) then show ?case using pool_invD(3)[OF inv, of j] by (auto simp: conn_Close_def)
next
  case (4 j) then show ?case using pool_invD(4)[OF inv, of j] by (auto simp: conn_Close_def succeeded_def)
next
  case (5 j) then show ?case using pool_invD(5)[OF inv, of j] by (auto simp: conn_Close_def failed_def)
next
  case (6 j)
  then show ?case using pool_invD(6)[OF inv, of j] by (auto simp: conn_Close_def succeeded_def dest: notin_set_remove1)
next
  case (7 j)
  then show ?case using pool_invD(7)[OF inv, of j] i(1) count_list_pos [OF i(1)]
    by (auto simp: conn_Close_def of_nat_diff)
qed (use pool_invD(1,2)[OF inv] in \<open>auto simp: conn_Close_def\<close>)

lemma check_begin_inv:
  assumes inv: "pool_inv p"
  shows "pool_inv (check_begin params p)"
proof (cases "map_of (conns p) params")
  case None
  then show ?thesis using inv by (simp add: check_begin_def)
next
  case (Some i)
  let ?q = "set_conn i ((heap p i)\<lparr>cn_lastChecked := clock p\<rparr>) p"
  have q: "pool_inv ?q" by (rule pool_inv_same_conn [OF inv]) simp_all
  have live: "i \<in> live p" using map_of_SomeD [OF Some] by force
  have "pool_inv (?q\<lparr>probing := (params, i) # probing ?q\<rparr>)" if s: "succeeded (heap p i)"
  proof (rule pool_invI, goal_cases)
    case (4 j)
    then have "j = i \<or> j \<in> set (deadConns ?q) \<or> j \<in> snd ` set (probing ?q)" by auto
    then show ?case
    proof
      assume "j = i" then show ?thesis using s in_live_next [OF inv live] by (simp add: succeeded_def)
    next
      assume "j \<in> set (deadConns ?q) \<or> j \<in> snd ` set (probing ?q)"
      then show ?thesis using pool_invD(4)[OF q, of j] by simp
    qed
  qed (use pool_invD[OF q] in \<open>auto\<close>)
  then show ?thesis using Some inv q by (auto simp: check_begin_def shouldCheck_def)
qed

lemma probing_subset_inv:
  assumes inv: "pool_inv p"
  shows "pool_inv (p\<lparr>probing := remove1 x (probing p)\<rparr>)"
proof (rule pool_invI, goal_cases)
  case (4 j)
  then have "j \<in> set (deadConns p) \<or> j \<in> snd ` set (probing p)"
    using set_remove1_subset [of x "probing p"] by auto
  then show ?case using pool_invD(4)[OF inv] by auto
qed (use pool_invD[OF inv] in auto)

lemma check_dead_inv:
  assumes inv: "pool_inv p" and probed: "i < next_conn p" "succeeded (heap p i)"
  shows "pool_inv (check_dead params i p)"
proof (cases "map_of (conns p) params = Some i")
  case False
  then show ?thesis using inv by (simp add: check_dead_def)
next
  case True
  let ?p' = "p\<lparr>conns := AList.delete params (conns p), deadConns := deadConns p @ [i]\<rparr>"
  have i: "(params, i) \<in> set (conns p)" by (rule map_of_SomeD [OF True])
  have only: "k = params" if "(k, i) \<in> set (conns p)" for k
    using that i pool_invD(2)[OF inv] inj_onD [of snd "set (conns p)" "(k, i)" "(params, i)"]
    by (auto simp: distinct_map)
  have moved: "live ?p' = live p"
  proof -
    have "set (conns p) = insert (params, i) (set (AList.delete params (conns p)))"
      using i pool_invD(1)[OF inv] by (auto simp: AList.delete_eq) (metis map_of_is_SomeI option.inject)
    then have "set (map snd (conns p)) = insert i (set (map snd (AList.delete params (conns p))))"
      by (simp only: set_map image_insert snd_conv)
    then show ?thesis by auto
  qed
  have "pool_inv ?p'"
  proof (rule pool_invI, goal_cases)
    case 2
    have "i \<notin> set (map snd (AList.delete params (conns p)))"
      using only by (auto simp: AList.delete_eq)
    moreover have "i \<notin> set (deadConns p)" using pool_invD(2)[OF inv] i by force
    ultimately show ?case
      using pool_invD(2)[OF inv] distinct_snd_delete [of "conns p" params] snd_delete [of params "conns p"]
      by auto
  next
    case (3 j) then show ?case unfolding moved using pool_invD(3)[OF inv, of j] by simp
  next
    case (4 j) then show ?case using pool_invD(4)[OF inv, of j] probed by auto
  next
    case (5 j) then show ?case unfolding moved using pool_invD(5)[OF inv, of j] by simp
  next
    case (6 j) then show ?case unfolding moved using pool_invD(6)[OF inv, of j] by simp
  qed (use pool_invD(1,7)[OF inv] distinct_delete in auto)
  then show ?thesis using True by (simp add: check_dead_def)
qed


text \<open>What the collector keeps and what it closes.\<close>

lemma gc_active_filter:
  "gc_active p m = Some (keep, close) \<Longrightarrow>
   keep = filter (\<lambda>e. \<not> failed (heap p (snd e)) \<and> \<not> idle p (snd e)) m
   \<and> close = map snd (filter (\<lambda>e. \<not> failed (heap p (snd e)) \<and> idle p (snd e)) m)"
  by (induction p m arbitrary: keep close rule: gc_active.induct) (auto split: option.splits if_splits)

lemma gc_active_sets:
  "gc_active p m = Some (keep, close) \<Longrightarrow>
   set keep = {e \<in> set m. \<not> failed (heap p (snd e)) \<and> \<not> idle p (snd e)}
   \<and> set close = snd ` {e \<in> set m. \<not> failed (heap p (snd e)) \<and> idle p (snd e)}"
  by (drule gc_active_filter) auto

lemma gc_active_panics:
  "gc_active p m = None \<longleftrightarrow> (\<exists>j \<in> snd ` set m. cn_status (heap p j) = Connecting \<and> idle p j)"
  by (induction m rule: list.induct) (auto split: option.splits if_splits simp: failed_def)

lemma gc_active_no_panic:
  "j \<in> snd ` set m \<Longrightarrow> gc_active p m = Some r \<Longrightarrow> cn_status (heap p j) = Connecting \<Longrightarrow> \<not> idle p j"
  using gc_active_panics [of p m] by auto

lemma gc_active_distinct:
  assumes "gc_active p m = Some (keep, close)" "gomap_wf m" "distinct (map snd m)"
  shows "gomap_wf keep \<and> distinct (map snd keep @ close)"
proof -
  have "inj_on snd (set m)" using assms(3) by (simp add: distinct_map)
  then have "snd ` set keep \<inter> set close = {}"
    unfolding gc_active_sets [OF assms(1), THEN conjunct1] gc_active_sets [OF assms(1), THEN conjunct2]
    by (auto simp: inj_on_def)
  then show ?thesis using gc_active_filter [OF assms(1)] assms(2,3) by (simp add: distinct_map_filter)
qed

lemma close_all_apply:
  "distinct is \<Longrightarrow>
   close_all is h i = (if i \<in> set is then (h i)\<lparr>cn_closed := Suc (cn_closed (h i))\<rparr> else h i)"
  unfolding close_all_def by (induction "is" arbitrary: h) auto

lemma gc_Some:
  assumes inv: "pool_inv p" and gc: "gc p = Some p'"
  obtains keep close where
    "gc_active p (conns p) = Some (keep, close)"
    "p' = p\<lparr>conns := keep, deadConns := filter (\<lambda>i. \<not> cn_refCount (heap p i) \<le> 0) (deadConns p), heap := heap p'\<rparr>"
    "\<And>j. heap p' j =
       (if j \<in> set close \<or> j \<in> set (deadConns p) \<and> cn_refCount (heap p j) \<le> 0
        then (heap p j)\<lparr>cn_closed := Suc (cn_closed (heap p j))\<rparr> else heap p j)"
    "set keep \<subseteq> set (conns p)" "set close \<subseteq> snd ` set (conns p)"
    "gomap_wf keep" "distinct (map snd keep)" "snd ` set keep \<inter> set close = {}"
proof -
  obtain keep close where a: "gc_active p (conns p) = Some (keep, close)"
    using gc by (auto simp: gc_def split: option.splits)
  let ?idle = "filter (\<lambda>i. cn_refCount (heap p i) \<le> 0) (deadConns p)"
  let ?used = "filter (\<lambda>i. \<not> cn_refCount (heap p i) \<le> 0) (deadConns p)"
  have p': "p' = p\<lparr>conns := keep, heap := close_all (close @ ?idle) (heap p), deadConns := ?used\<rparr>"
    using gc a by (simp add: gc_def)
  have sub: "set keep \<subseteq> set (conns p)" "set close \<subseteq> snd ` set (conns p)"
    using gc_active_sets [OF a] by auto
  have dist: "gomap_wf keep" "distinct (map snd keep)" "distinct close" "snd ` set keep \<inter> set close = {}"
    using gc_active_distinct [OF a pool_invD(1)[OF inv]] pool_invD(2)[OF inv] by auto
  have "distinct (close @ ?idle)" using dist(3) sub(2) pool_invD(2)[OF inv] by auto
  then have h: "heap p' j =
      (if j \<in> set close \<or> j \<in> set (deadConns p) \<and> cn_refCount (heap p j) \<le> 0
       then (heap p j)\<lparr>cn_closed := Suc (cn_closed (heap p j))\<rparr> else heap p j)" for j
    using close_all_apply [of "close @ ?idle" "heap p" j] by (simp add: p')
  show thesis by (rule that [OF a _ h sub dist(1,2,4)]) (simp add: p')
qed

text \<open>A connection in use survives the collector.\<close>

lemma gc_used:
  assumes inv: "pool_inv p" and gc: "gc p = Some p'" and used: "i \<in> set (users p)"
  shows "i \<in> live p' \<and> heap p' i = heap p i \<and> 0 < cn_refCount (heap p i)"
proof -
  obtain keep close where g: "gc_active p (conns p) = Some (keep, close)"
    "p' = p\<lparr>conns := keep, deadConns := filter (\<lambda>i. \<not> cn_refCount (heap p i) \<le> 0) (deadConns p), heap := heap p'\<rparr>"
    "\<And>j. heap p' j =
       (if j \<in> set close \<or> j \<in> set (deadConns p) \<and> cn_refCount (heap p j) \<le> 0
        then (heap p j)\<lparr>cn_closed := Suc (cn_closed (heap p j))\<rparr> else heap p j)"
    by (rule gc_Some [OF inv gc]) blast
  have l: "i \<in> live p" "succeeded (heap p i)" using pool_invD(6)[OF inv used] by auto
  have pos: "0 < cn_refCount (heap p i)"
    using pool_invD(7)[OF inv in_live_next [OF inv l(1)]] count_list_pos [OF used] by simp
  then have "\<not> idle p i" "\<not> failed (heap p i)"
    using l(2) by (auto simp: idle_def failed_def succeeded_def)
  moreover have "i \<notin> set close"
    using gc_active_sets [OF g(1)] \<open>\<not> idle p i\<close> by auto
  moreover have conns': "conns p' = keep" "deadConns p' = filter (\<lambda>i. \<not> cn_refCount (heap p i) \<le> 0) (deadConns p)"
    by (subst g(2), simp)+
  ultimately show ?thesis
    using l(1) pos g(3)[of i] gc_active_sets [OF g(1)] by (auto simp del: not_le simp: conns')
qed

lemma gc_inv:
  assumes inv: "pool_inv p" and quiet: "getting p = []" "waiting p = []" "probing p = []" and gc: "gc p = Some p'"
  shows "pool_inv p'"
proof -
  obtain keep close where a: "gc_active p (conns p) = Some (keep, close)"
    and p': "p' = p\<lparr>conns := keep, deadConns := filter (\<lambda>i. \<not> cn_refCount (heap p i) \<le> 0) (deadConns p), heap := heap p'\<rparr>"
    and h: "\<And>j. heap p' j =
       (if j \<in> set close \<or> j \<in> set (deadConns p) \<and> cn_refCount (heap p j) \<le> 0
        then (heap p j)\<lparr>cn_closed := Suc (cn_closed (heap p j))\<rparr> else heap p j)"
    and sub: "set keep \<subseteq> set (conns p)" "set close \<subseteq> snd ` set (conns p)"
    and dist: "gomap_wf keep" "distinct (map snd keep)" "snd ` set keep \<inter> set close = {}"
    by (rule gc_Some [OF inv gc]) blast
  have f: "conns p' = keep" "deadConns p' = filter (\<lambda>i. \<not> cn_refCount (heap p i) \<le> 0) (deadConns p)"
    "next_conn p' = next_conn p" "probing p' = []" "getting p' = []" "waiting p' = []" "users p' = users p"
    by (subst p', simp add: quiet)+
  have dead: "distinct (deadConns p)" "snd ` set (conns p) \<inter> set (deadConns p) = {}"
    using pool_invD(2)[OF inv] by auto
  have open': "j \<in> live p \<and> heap p' j = heap p j" if "j \<in> live p'" for j
  proof -
    have "snd ` set keep \<subseteq> snd ` set (conns p)" using sub(1) by blast
    then have "j \<in> live p" "j \<notin> set close" "\<not> (j \<in> set (deadConns p) \<and> cn_refCount (heap p j) \<le> 0)"
      using that sub(2) dist(3) dead(2) unfolding f set_map set_filter by blast+
    then show ?thesis using h [of j] by simp
  qed
  show ?thesis
  proof (rule pool_invI, goal_cases)
    case 2 then show ?case using dist dead sub(1) by (auto simp: f)
  next
    case (3 j) then show ?case using open' [OF 3] pool_invD(3)[OF inv, of j] by (simp add: f(3))
  next
    case (4 j)
    then have "j \<in> set (deadConns p)" by (simp add: f)
    then show ?case using pool_invD(4)[OF inv, of j] h [of j] by (simp add: succeeded_def f(3))
  next
    case (6 j)
    then have "j \<in> set (users p)" by (simp add: f)
    then show ?case using gc_used [OF inv gc, of j] pool_invD(6)[OF inv, of j] by simp
  next
    case (7 j)
    then have j: "j < next_conn p" by (simp add: f)
    have "cn_closed (heap p' j) \<le> 1"
      using h [of j] sub(2) pool_invD(3)[OF inv, of j] pool_invD(7)[OF inv j] by (auto split: if_splits)
    moreover have "cn_refCount (heap p' j) = cn_refCount (heap p j)" using h [of j] by simp
    ultimately show ?case using pool_invD(7)[OF inv j] by (simp add: f quiet)
  qed (use dist in \<open>auto simp: f\<close>)
qed

lemma pool_step_inv: "pool_step p p' \<Longrightarrow> pool_inv p \<Longrightarrow> pool_inv p'"
proof (induction rule: pool_step.induct)
  case (open_get params p i p')
  have o: "opened_inv i p'" by (rule pool_get_inv [OF open_get(2) open_get(1)])
  then have inv: "pool_inv p'" by (simp add: opened_inv_def)
  show ?case
  proof (rule pool_invI, goal_cases)
    case (5 j) then show ?case using o pool_invD(5)[OF inv, of j] by (auto simp: opened_inv_def)
  qed (use pool_invD[OF inv] in auto)
next
  case (check params p)
  show ?case by (rule check_begin_inv) (rule pool_inv_fields(2) [OF check(2)])
next
  case (check_bad params i p)
  have "i < next_conn p \<and> succeeded (heap p i)"
    using check_bad(1) by (intro pool_invD(4) [OF check_bad(2)]) force
  then show ?case
    by (intro check_dead_inv probing_subset_inv [OF check_bad(2)]) auto
qed (simp_all add: pool_inv_fields connect_inv open_count_inv open_ok_inv open_error_inv close_conn_inv
      probing_subset_inv gc_inv)

lemma pool_reachable_inv: "pool_reachable p \<Longrightarrow> pool_inv p"
proof (induction rule: pool_reachable.induct)
  case (init h t)
  show ?case by (rule pool_invI) auto
next
  case (step p p')
  then show ?case by (blast intro: pool_step_inv)
qed


section \<open>Safety of the pool\<close>

text \<open>C7: In every state the pool can reach, whatever the interleaving of callers, liveness checks and the
  collector, a connection that some caller holds is connected and its server has not been closed, and no
  server is ever closed twice.\<close>

theorem pool_connection_usable:
  assumes "pool_reachable p"
  shows "(i \<in> set (users p) \<longrightarrow> succeeded (heap p i) \<and> cn_closed (heap p i) = 0)
       \<and> (i < next_conn p \<longrightarrow> cn_closed (heap p i) \<le> 1)"
proof -
  have inv: "pool_inv p" by (rule pool_reachable_inv [OF assms])
  show ?thesis
    using pool_invD(3)[OF inv, of i] pool_invD(6)[OF inv, of i] pool_invD(7)[OF inv, of i] by blast
qed

text \<open>A run: a caller opens a connection, it is made, and the caller holds it for 100 seconds.\<close>

definition example_params :: params where
  "example_params = \<lparr>Implementation = ''etcd2'', Address = ''etcd:2379'', RootPath = ''/vitess''\<rparr>"

definition example_pool :: "conn_status \<Rightarrow> int \<Rightarrow> nat list \<Rightarrow> pool" where
  "example_pool st refs us =
     \<lparr>conns = [(example_params, 0)], deadConns = [],
      heap = (\<lambda>i. newConn 0)(0 := (newConn 0)\<lparr>cn_status := st, cn_refCount := refs\<rparr>),
      next_conn = 1, clock = 100000000000, checks_due = [], getting = [], waiting = [], probing = [], users = us\<rparr>"

lemma example_waiting:
  "pool_reachable \<lparr>conns = [(example_params, 0)], deadConns = [],
     heap = (\<lambda>i. newConn 0)(0 := (newConn 0)\<lparr>cn_refCount := 1\<rparr>),
     next_conn = 1, clock = 0, checks_due = [], getting = [], waiting = [0], probing = [], users = []\<rparr>"
    (is "pool_reachable ?w")
proof -
  let ?init = "\<lparr>conns = [], deadConns = [], heap = (\<lambda>i. newConn 0), next_conn = 0, clock = 0, checks_due = [],
    getting = [], waiting = [], probing = [], users = []\<rparr>"
  let ?got = "\<lparr>conns = [(example_params, 0)], deadConns = [], heap = (\<lambda>i. newConn 0)(0 := newConn 0),
    next_conn = 1, clock = 0, checks_due = [], getting = [0], waiting = [], probing = [], users = []\<rparr>"
  have get: "pool_step ?init ?got"
    using pool_step.open_get [of example_params ?init 0 "?got\<lparr>getting := []\<rparr>"] by (simp add: pool_get_def)
  have "pool_step ?got ?w"
    using pool_step.open_count [of 0 ?got] by (simp add: open_ref_def newConn_def)
  then show ?thesis
    using get pool_reachable.init pool_reachable.step by blast
qed

lemma example_used: "pool_reachable (example_pool Connected 1 [0])"
proof -
  let ?w = "\<lparr>conns = [(example_params, 0)], deadConns = [],
     heap = (\<lambda>i. newConn 0)(0 := (newConn 0)\<lparr>cn_refCount := 1\<rparr>),
     next_conn = 1, clock = 0, checks_due = [], getting = [], waiting = [0], probing = [], users = []\<rparr>"
  let ?c = "?w\<lparr>heap := (heap ?w)(0 := (heap ?w 0)\<lparr>cn_status := Connected\<rparr>)\<rparr>"
  have "pool_step ?w ?c"
    by (rule pool_step.connect) (simp_all add: newConn_def)
  moreover have "pool_step ?c (?c\<lparr>waiting := [], users := [0]\<rparr>)"
    using pool_step.open_ok [of 0 ?c] by (simp add: succeeded_def)
  moreover have "pool_step (?c\<lparr>waiting := [], users := [0]\<rparr>) (example_pool Connected 1 [0])"
    using pool_step.tick [of 100000000000 "?c\<lparr>waiting := [], users := [0]\<rparr>"]
    by (simp add: example_pool_def newConn_def)
  ultimately show ?thesis using example_waiting pool_reachable.step by blast
qed

lemma example_timed_out: "pool_reachable (example_pool Connecting 0 [])"
proof -
  let ?w = "\<lparr>conns = [(example_params, 0)], deadConns = [],
     heap = (\<lambda>i. newConn 0)(0 := (newConn 0)\<lparr>cn_refCount := 1\<rparr>),
     next_conn = 1, clock = 0, checks_due = [], getting = [], waiting = [0], probing = [], users = []\<rparr>"
  let ?e = "(open_unref 0 ?w)\<lparr>waiting := []\<rparr>"
  have "pool_step ?w ?e"
    using pool_step.open_error [of 0 ?w] by simp
  moreover have "pool_step ?e (example_pool Connecting 0 [])"
    using pool_step.tick [of 100000000000 ?e]
    by (simp add: example_pool_def open_unref_def newConn_def)
  ultimately show ?thesis using example_waiting pool_reachable.step by blast
qed

lemma pool_connection_usable_witness:
  "0 \<in> set (users (example_pool Connected 1 [0])) \<and> succeeded (heap (example_pool Connected 1 [0]) 0)
   \<and> cn_closed (heap (example_pool Connected 1 [0]) 0) = 0"
  using pool_connection_usable [OF example_used, of 0] by (simp add: example_pool_def)

text \<open>One run of the collector on a reachable pool closes exactly the established connections that are
  unused and idle and the dead ones nobody holds, each once; it keeps the entries that are neither failed
  nor idle; and a connection in use stays in the pool unchanged.\<close>

theorem gc_spec:
  assumes "pool_reachable p" "gc p = Some p'"
  shows "conns p' = filter (\<lambda>e. \<not> failed (heap p (snd e)) \<and> \<not> idle p (snd e)) (conns p)
    \<and> deadConns p' = filter (\<lambda>i. 0 < cn_refCount (heap p i)) (deadConns p)
    \<and> (\<forall>j. cn_closed (heap p' j) = cn_closed (heap p j)
          + (if j \<in> snd ` set (conns p) \<and> succeeded (heap p j) \<and> idle p j
              \<or> j \<in> set (deadConns p) \<and> cn_refCount (heap p j) \<le> 0 then 1 else 0))
    \<and> (\<forall>j \<in> set (users p). j \<in> live p' \<and> heap p' j = heap p j)"
proof -
  have inv: "pool_inv p" by (rule pool_reachable_inv [OF assms(1)])
  obtain keep close where g: "gc_active p (conns p) = Some (keep, close)"
    "p' = p\<lparr>conns := keep, deadConns := filter (\<lambda>i. \<not> cn_refCount (heap p i) \<le> 0) (deadConns p), heap := heap p'\<rparr>"
    "\<And>j. heap p' j =
       (if j \<in> set close \<or> j \<in> set (deadConns p) \<and> cn_refCount (heap p j) \<le> 0
        then (heap p j)\<lparr>cn_closed := Suc (cn_closed (heap p j))\<rparr> else heap p j)"
    by (rule gc_Some [OF inv assms(2)]) blast
  have "conns p' = filter (\<lambda>e. \<not> failed (heap p (snd e)) \<and> \<not> idle p (snd e)) (conns p)"
    using gc_active_filter [OF g(1)] by (subst g(2)) simp
  moreover have "deadConns p' = filter (\<lambda>i. 0 < cn_refCount (heap p i)) (deadConns p)"
    by (subst g(2)) (simp add: not_le)
  moreover have "\<forall>j \<in> set (users p). j \<in> live p' \<and> heap p' j = heap p j"
    using gc_used [OF inv assms(2)] by blast
  moreover have "j \<in> set close \<longleftrightarrow> j \<in> snd ` set (conns p) \<and> succeeded (heap p j) \<and> idle p j" for j
  proof -
    have "j \<in> set close \<longleftrightarrow> j \<in> snd ` set (conns p) \<and> \<not> failed (heap p j) \<and> idle p j"
      unfolding gc_active_sets [OF g(1), THEN conjunct2] by auto
    then show ?thesis
      using gc_active_no_panic [OF _ g(1), of j] by (cases "cn_status (heap p j)") (auto simp: failed_def succeeded_def)
  qed
  then have "\<forall>j. cn_closed (heap p' j) = cn_closed (heap p j)
      + (if j \<in> snd ` set (conns p) \<and> succeeded (heap p j) \<and> idle p j
          \<or> j \<in> set (deadConns p) \<and> cn_refCount (heap p j) \<le> 0 then 1 else 0)"
    using g(3) by simp
  ultimately show ?thesis by blast
qed

lemma gc_spec_witness:
  "\<exists>p'. gc (example_pool Connected 1 [0]) = Some p' \<and> 0 \<in> live p'"
proof -
  obtain p' where g: "gc (example_pool Connected 1 [0]) = Some p'"
    by (simp add: gc_def example_pool_def failed_def idle_def)
  have "\<forall>j \<in> set (users (example_pool Connected 1 [0])). j \<in> live p'"
    using gc_spec [OF example_used g] by blast
  moreover have "users (example_pool Connected 1 [0]) = [0]" by (simp add: example_pool_def)
  ultimately show ?thesis using g by auto
qed

text \<open>The collector panics exactly when a pooled connection is unused and idle while its attempt is still running,
  and such a pool is reachable with nobody opening: the only caller gave up and the attempt outlived the idle time.\<close>

theorem gc_panics:
  "(gc p = None \<longleftrightarrow> (\<exists>j \<in> snd ` set (conns p). cn_status (heap p j) = Connecting \<and> idle p j))
   \<and> (\<exists>q. pool_reachable q \<and> getting q = [] \<and> waiting q = [] \<and> probing q = [] \<and> gc q = None)"
proof (intro conjI exI)
  show "gc p = None \<longleftrightarrow> (\<exists>j \<in> snd ` set (conns p). cn_status (heap p j) = Connecting \<and> idle p j)"
    using gc_active_panics [of p "conns p"] by (auto simp: gc_def split: option.split)
  show "pool_reachable (example_pool Connecting 0 [])" by (rule example_timed_out)
qed (simp_all add: example_pool_def gc_def failed_def idle_def idleTTL_def newConn_def)

end
