(* ===== verification/Topo.thy ===== *)
theory Topo
  imports Lockserver Results Shard "HOL-Library.Multiset"
begin

text \<open>
  Reconciling the records of the topology server with the objects of the cluster: package
  \<open>operator/vitesstopo\<close> (cells, shards, keyspaces) and the topology passes of the cluster, cell and shard
  controllers.  A call that changes the topology is an effect; its error, if any, is an answer of the
  environment.  \<open>topo.IsErrType(err, topo.NoNode)\<close> is the constructor \<open>NoNode\<close>.
\<close>

section \<open>Calls and sweeps\<close>

datatype topo_error = NoNode | TopoErr string

datatype topo_call =
    DeleteCellInfo string
  | DeleteShard string string
  | DeleteVSchema string
  | DeleteKeyspace string
  | DeleteTablet "string \<times> nat"
  | RemoveShardCell string string string
  | DeleteSrvKeyspace string string
  | UpdateCellInfo string string string
  | UpdateCellsAlias string "string list"

datatype topo_effect = Call topo_call | TopoEvent string string

type_synonym topo_replies = "topo_call \<Rightarrow> topo_error option"

definition topoRequeueDelay :: int where "topoRequeueDelay = 5000000000"

definition real_error :: "topo_error option \<Rightarrow> bool" where
  "real_error err \<longleftrightarrow> err \<noteq> None \<and> err \<noteq> Some NoNode"

text \<open>
  A loop that tries every candidate and goes on after a failure: one step is the effects of one
  candidate and whether it asked for a retry.
\<close>

type_synonym 'x sweep_step = "'x \<Rightarrow> topo_effect list \<times> bool"

definition sweep :: "'x sweep_step \<Rightarrow> 'x list \<Rightarrow> topo_effect list \<times> string builder" where
  "sweep step names =
     (concat (map (fst \<circ> step) names),
      fold (\<lambda>n b. if snd (step n) then builder_RequeueAfter topoRequeueDelay b else b) names empty_builder)"

lemma RequeueAfter_again [simp]:
  "builder_RequeueAfter d (builder_RequeueAfter d b) = builder_RequeueAfter d b"
  by (simp add: builder_RequeueAfter_def)

lemma sweep_fold:
  "fold (\<lambda>n b. if snd (step n) then builder_RequeueAfter d b else b) names b =
     (if \<exists>n \<in> set names. snd (step n) then builder_RequeueAfter d b else b)"
  by (induction names arbitrary: b) auto

lemma sweep_builder:
  "snd (sweep step names) =
     (if \<exists>n \<in> set names. snd (step n) then builder_RequeueAfter topoRequeueDelay empty_builder else empty_builder)"
  unfolding sweep_def by (simp add: sweep_fold)

lemma sweep_result:
  "builder_Result (snd (sweep step names)) =
     (\<lparr>Requeue = False, RequeueAfter = (if \<exists>n \<in> set names. snd (step n) then topoRequeueDelay else 0)\<rparr>, None)"
  unfolding sweep_builder by (simp add: builder_defs)

text \<open>Merging the result of a sweep into an empty builder and returning it changes nothing.\<close>

abbreviation pass_result :: "topo_effect list \<times> string builder \<Rightarrow> topo_effect list \<times> reconcile_result \<times> string option" where
  "pass_result x \<equiv> (fst x, builder_Result (snd x))"

definition merged :: "topo_effect list \<times> reconcile_result \<times> string option \<Rightarrow> string builder
    \<Rightarrow> topo_effect list \<times> string builder" where
  "merged x b = (fst x, builder_Merge (fst (snd x)) (snd (snd x)) b)"

lemma merged_sweep [simp]:
  "builder_Result (snd (merged (pass_result (sweep step names)) empty_builder)) = builder_Result (snd (sweep step names))"
  by (simp add: merged_def sweep_result) (simp add: builder_defs topoRequeueDelay_def Let_def)

text \<open>
  What every pruner promises: the step of a name issues calls only if the name is a candidate, only those that belong to it, the
  removal among them unless a preparation failed, and asks for a retry exactly if a call failed.
\<close>

definition calls :: "topo_effect list \<Rightarrow> topo_call list" where
  "calls es = concat (map (\<lambda>e. case e of Call c \<Rightarrow> [c] | TopoEvent _ _ \<Rightarrow> []) es)"

lemma calls_simps [simp]:
  "calls [] = []" "calls (Call c # es) = c # calls es" "calls (TopoEvent r n # es) = calls es"
  "calls (es @ fs) = calls es @ calls fs"
  by (simp_all add: calls_def)

lemma calls_concat: "calls (concat ess) = concat (map calls ess)"
  by (induction ess) simp_all

locale pruner =
  fixes step :: "'x sweep_step"
    and candidate :: "'x \<Rightarrow> bool"
    and belongs :: "'x \<Rightarrow> topo_call \<Rightarrow> bool"
    and removal :: "'x \<Rightarrow> topo_call"
    and failed :: "topo_call \<Rightarrow> bool"
  assumes own_calls: "c \<in> set (calls (fst (step n))) \<Longrightarrow> candidate n \<and> belongs n c"
    and retries: "snd (step n) \<longleftrightarrow> (\<exists>c \<in> set (calls (fst (step n))). failed c)"
    and completes: "candidate n \<Longrightarrow> \<not> snd (step n) \<Longrightarrow> removal n \<in> set (calls (fst (step n)))"
begin

lemma sweep_removes_only: "c \<in> set (calls (fst (sweep step names))) \<Longrightarrow> \<exists>n \<in> set names. candidate n \<and> belongs n c"
  using own_calls by (fastforce simp: sweep_def calls_concat)

text \<open>A sweep that asks for no retry has removed everything it was given.\<close>

lemma sweep_complete:
  assumes "RequeueAfter (fst (builder_Result (snd (sweep step names)))) = 0" "n \<in> set names" "candidate n"
  shows "removal n \<in> set (calls (fst (sweep step names))) \<and> \<not> failed (removal n)"
proof -
  have ok: "\<not> snd (step n)"
    using assms sweep_result [of step names] by (auto simp: topoRequeueDelay_def split: if_splits)
  then have "removal n \<in> set (calls (fst (step n)))" by (rule completes [OF assms(3)])
  then show ?thesis using ok retries assms(2) by (auto simp: sweep_def calls_concat)
qed

lemma sweep_retry_iff:
  "RequeueAfter (fst (builder_Result (snd (sweep step names)))) = topoRequeueDelay \<longleftrightarrow>
     (\<exists>c \<in> set (calls (fst (sweep step names))). failed c)"
  using sweep_result [of step names] retries
  by (auto simp: sweep_def calls_concat topoRequeueDelay_def split: if_splits)

end

section \<open>Package vitesstopo\<close>

text \<open>A desired cell maps to a pointer to its lockserver spec, which could be nil.\<close>

type_synonym desired_cells = "(string, LockserverSpec option) gomap"

definition CellsToPrune :: "string list \<Rightarrow> desired_cells \<Rightarrow> (string, orphan_status) gomap \<Rightarrow> string list" where
  "CellsToPrune cellNames desiredCells orphanedCells =
     filter (\<lambda>name. (case map_of desiredCells name of Some (Some _) \<Rightarrow> False | _ \<Rightarrow> True)
                    \<and> map_of orphanedCells name = None) cellNames"

definition delete_cell_step :: "topo_replies \<Rightarrow> string sweep_step" where
  "delete_cell_step reply cellName =
     (let err = reply (DeleteCellInfo cellName)
      in if real_error err then ([Call (DeleteCellInfo cellName), TopoEvent ''TopoCleanupFailed'' cellName], True)
         else if err = None then ([Call (DeleteCellInfo cellName), TopoEvent ''TopoCleanup'' cellName], False)
         else ([Call (DeleteCellInfo cellName)], False))"

definition DeleteCells :: "topo_replies \<Rightarrow> string list \<Rightarrow> topo_effect list \<times> string builder" where
  "DeleteCells reply cellNames = sweep (delete_cell_step reply) cellNames"

definition list_failed :: "string \<Rightarrow> topo_effect list \<times> string builder" where
  "list_failed err = ([TopoEvent ''TopoListFailed'' err], builder_RequeueAfter topoRequeueDelay empty_builder)"

definition PruneCells ::
    "topo_replies \<Rightarrow> string + string list \<Rightarrow> desired_cells \<Rightarrow> (string, orphan_status) gomap
     \<Rightarrow> topo_effect list \<times> reconcile_result \<times> string option"
where
  "PruneCells reply listed desiredCells orphanedCells =
     pass_result
       (case listed of
          Inl err \<Rightarrow> list_failed err
        | Inr cellNames \<Rightarrow>
            merged (pass_result (DeleteCells reply (CellsToPrune cellNames desiredCells orphanedCells))) empty_builder)"

definition ShardsToPrune :: "string list \<Rightarrow> string set \<Rightarrow> (string, orphan_status) gomap \<Rightarrow> string list" where
  "ShardsToPrune currentShards desiredShards orphanedShards =
     filter (\<lambda>name. name \<notin> desiredShards \<and> map_of orphanedShards name = None) currentShards"

definition delete_shard_step :: "topo_replies \<Rightarrow> string \<Rightarrow> string sweep_step" where
  "delete_shard_step reply keyspaceName name =
     (if real_error (reply (DeleteShard keyspaceName name))
      then ([Call (DeleteShard keyspaceName name), TopoEvent ''TopoCleanupFailed'' name], True)
      else ([Call (DeleteShard keyspaceName name), TopoEvent ''TopoCleanup'' name], False))"

definition DeleteShards ::
    "string option \<Rightarrow> topo_replies \<Rightarrow> string \<Rightarrow> string list \<Rightarrow> topo_effect list \<times> string builder"
where
  "DeleteShards vtEnvErr reply keyspaceName shardNames =
     (case vtEnvErr of
        Some err \<Rightarrow> ([], builder_Error (Some err) empty_builder)
      | None \<Rightarrow> sweep (delete_shard_step reply keyspaceName) shardNames)"

definition PruneShards ::
    "string option \<Rightarrow> topo_replies \<Rightarrow> string + string list \<Rightarrow> string \<Rightarrow> string set \<Rightarrow> (string, orphan_status) gomap
     \<Rightarrow> topo_effect list \<times> reconcile_result \<times> string option"
where
  "PruneShards vtEnvErr reply listed keyspaceName desiredShards orphanedShards =
     pass_result
       (case listed of
          Inl err \<Rightarrow> list_failed err
        | Inr shardNames \<Rightarrow>
            merged (pass_result (DeleteShards vtEnvErr reply keyspaceName
                (ShardsToPrune shardNames desiredShards orphanedShards))) empty_builder)"

definition KeyspacesToPrune :: "string list \<Rightarrow> string set \<Rightarrow> (string, orphan_status) gomap \<Rightarrow> string list" where
  "KeyspacesToPrune keyspaceNames desiredKeyspaces orphanedKeyspaces =
     filter (\<lambda>name. name \<notin> desiredKeyspaces \<and> map_of orphanedKeyspaces name = None) keyspaceNames"

definition delete_keyspace_step :: "topo_replies \<Rightarrow> string sweep_step" where
  "delete_keyspace_step reply name =
     (if real_error (reply (DeleteVSchema name))
      then ([Call (DeleteVSchema name), TopoEvent ''TopoCleanupFailed'' name], True)
      else if real_error (reply (DeleteKeyspace name))
      then ([Call (DeleteVSchema name), TopoEvent ''TopoCleanup'' name,
             Call (DeleteKeyspace name), TopoEvent ''TopoCleanupFailed'' name], True)
      else ([Call (DeleteVSchema name), TopoEvent ''TopoCleanup'' name,
             Call (DeleteKeyspace name), TopoEvent ''TopoCleanup'' name], False))"

definition DeleteKeyspaces :: "string option \<Rightarrow> topo_replies \<Rightarrow> string list \<Rightarrow> topo_effect list \<times> string builder" where
  "DeleteKeyspaces vtEnvErr reply keyspaceNames =
     (case vtEnvErr of
        Some err \<Rightarrow> ([], builder_Error (Some err) empty_builder)
      | None \<Rightarrow> sweep (delete_keyspace_step reply) keyspaceNames)"

text \<open>The desired keyspaces are given by the names of the keyspace templates.\<close>

definition PruneKeyspaces ::
    "string option \<Rightarrow> topo_replies \<Rightarrow> string + string list \<Rightarrow> string list \<Rightarrow> (string, orphan_status) gomap
     \<Rightarrow> topo_effect list \<times> reconcile_result \<times> string option"
where
  "PruneKeyspaces vtEnvErr reply listed keyspaces orphanedKeyspaces =
     pass_result
       (case listed of
          Inl err \<Rightarrow> list_failed err
        | Inr keyspaceNames \<Rightarrow>
            merged (pass_result (DeleteKeyspaces vtEnvErr reply
                (KeyspacesToPrune keyspaceNames (set keyspaces) orphanedKeyspaces))) empty_builder)"

interpretation cells: pruner "delete_cell_step reply" "\<lambda>_. True" "\<lambda>n c. c = DeleteCellInfo n" DeleteCellInfo
    "\<lambda>c. real_error (reply c)" for reply
  by unfold_locales (auto simp: delete_cell_step_def Let_def real_error_def split: if_splits)

interpretation shards: pruner "delete_shard_step reply ks" "\<lambda>_. True" "\<lambda>n c. c = DeleteShard ks n" "DeleteShard ks"
    "\<lambda>c. real_error (reply c)" for reply ks
  by unfold_locales (auto simp: delete_shard_step_def split: if_splits)

interpretation keyspaces: pruner "delete_keyspace_step reply" "\<lambda>_. True" "\<lambda>n c. c = DeleteVSchema n \<or> c = DeleteKeyspace n"
    DeleteKeyspace "\<lambda>c. real_error (reply c)" for reply
  by unfold_locales (auto simp: delete_keyspace_step_def split: if_splits)

end
