(* ===== verification/Update.thy ===== *)
theory Update
  imports Kube
begin

text \<open>
  \<open>pkg/operator/update\<close>: merging a desired object into the current one without touching what
  other controllers put there.  Slices of named items are merged by one loop that occurs eight
  times in \<open>podspec.go\<close>; it is stated once as \<open>upsert\<close> and its contract once as the locale
  \<open>keyed_merge\<close>, interpreted on every slice type.
\<close>

section \<open>metadata.go and resource lists: string maps\<close>

text \<open>\<open>StringMap(dst, src)\<close> allocates a nil destination and ranges over the source.\<close>

definition StringMap :: "(string \<rightharpoonup> 'v) option \<Rightarrow> (string, 'v) gomap \<Rightarrow> (string \<rightharpoonup> 'v) option" where
  "StringMap dst src =
     Some (fold (\<lambda>(k, v) m. m(k \<mapsto> v)) src (case dst of None \<Rightarrow> Map.empty | Some m \<Rightarrow> m))"

definition Labels :: "(string \<rightharpoonup> string) option \<Rightarrow> (string, string) gomap \<Rightarrow> (string \<rightharpoonup> string) option" where
  "Labels dst src = StringMap dst src"

definition Annotations :: "(string \<rightharpoonup> string) option \<Rightarrow> (string, string) gomap \<Rightarrow> (string \<rightharpoonup> string) option" where
  "Annotations dst src = StringMap dst src"

abbreviation nil_safe :: "('k \<rightharpoonup> 'v) option \<Rightarrow> 'k \<rightharpoonup> 'v" where
  "nil_safe m \<equiv> (case m of None \<Rightarrow> Map.empty | Some m' \<Rightarrow> m')"

lemma fold_map_upd: "gomap_wf src \<Longrightarrow> fold (\<lambda>(k, v) m. m(k \<mapsto> v)) src m = m ++ map_of src"
proof (induction src arbitrary: m)
  case Nil
  show ?case by simp
next
  case (Cons kv src)
  obtain k v where kv: "kv = (k, v)" by (cases kv)
  with Cons.prems have "k \<notin> dom (map_of src)"
    by (simp add: dom_map_of_conv_image_fst)
  with Cons show ?case
    by (auto simp: kv map_add_def fun_eq_iff domIff split: option.split)
qed

lemma StringMap_eq: "gomap_wf src \<Longrightarrow> StringMap dst src = Some (nil_safe dst ++ map_of src)"
  by (simp add: StringMap_def fold_map_upd)

lemma StringMap_cong [order_free]:
  "gomap_wf src \<Longrightarrow> gomap_wf src' \<Longrightarrow> map_of src = map_of src' \<Longrightarrow> StringMap dst src = StringMap dst src'"
  by (simp add: StringMap_eq)

lemma StringMap_idem: "gomap_wf src \<Longrightarrow> StringMap (StringMap dst src) src = StringMap dst src"
  by (simp add: StringMap_eq map_add_def fun_eq_iff split: option.split)

text \<open>\<open>ResourceList\<close> allocates a nil destination and copies every entry of the source.\<close>

definition ResourceList :: "resource_list \<Rightarrow> resource_list \<Rightarrow> resource_list" where
  "ResourceList dst src = Some (nil_safe dst ++ nil_safe src)"

definition ResourceRequirements ::
    "resource_requirements \<Rightarrow> resource_requirements \<Rightarrow> resource_requirements" where
  "ResourceRequirements dst src =
     dst\<lparr>limits := ResourceList (limits dst) (limits src),
         requests := ResourceList (requests dst) (requests src)\<rparr>"

lemma ResourceRequirements_idem:
  "ResourceRequirements (ResourceRequirements dst src) src = ResourceRequirements dst src"
  by (simp add: ResourceRequirements_def ResourceList_def map_add_def fun_eq_iff split: option.split)

section \<open>podspec.go: the merge loop\<close>

text \<open>
  The body of the \<open>srcLoop\<close>: the first destination item that matches is updated in place,
  otherwise the source item is appended.  Items appended for an earlier source item are
  candidates for a later one, as in the code, where \<open>range *dst\<close> is evaluated again.
\<close>

fun upsert :: "('d \<Rightarrow> 'd \<Rightarrow> bool) \<Rightarrow> ('d \<Rightarrow> 'd \<Rightarrow> 'd) \<Rightarrow> 'd list \<Rightarrow> 'd \<Rightarrow> 'd list" where
  "upsert same upd [] s = [s]"
| "upsert same upd (d # ds) s = (if same d s then upd d s # ds else d # upsert same upd ds s)"

definition Volumes :: "volume list \<Rightarrow> volume list \<Rightarrow> volume list" where
  "Volumes dst src = foldl (upsert (\<lambda>d s. vol_name d = vol_name s) (\<lambda>d s. s)) dst src"

definition VolumeMounts :: "volume_mount list \<Rightarrow> volume_mount list \<Rightarrow> volume_mount list" where
  "VolumeMounts dst src = foldl (upsert (\<lambda>d s. vm_mountPath d = vm_mountPath s) (\<lambda>d s. s)) dst src"

definition LocalObjectReferences :: "string list \<Rightarrow> string list \<Rightarrow> string list" where
  "LocalObjectReferences dst src = foldl (upsert (\<lambda>d s. d = s) (\<lambda>d s. s)) dst src"

definition Env :: "env_var list \<Rightarrow> env_var list \<Rightarrow> env_var list" where
  "Env dst src = foldl (upsert (\<lambda>d s. ev_name d = ev_name s) (\<lambda>d s. s)) dst src"

text \<open>\<open>Toleration.MatchToleration\<close> is a method of the Kubernetes API library: an argument.\<close>

definition Tolerations ::
    "(toleration \<Rightarrow> toleration \<Rightarrow> bool) \<Rightarrow> toleration list \<Rightarrow> toleration list \<Rightarrow> toleration list" where
  "Tolerations MatchToleration dst src = foldl (upsert MatchToleration (\<lambda>d s. s)) dst src"

text \<open>
  \<open>metav1.LabelSelectorAsMap\<close> is a library function as well: \<open>None\<close> is its error, which the code
  turns into an empty map, and a nil selector gives a nil map, which \<open>reflect.DeepEqual\<close> tells
  apart from an empty one.
\<close>

type_synonym selector_map = "opaque \<Rightarrow> (string, string) gomap option option"

definition selector_key :: "selector_map \<Rightarrow> topology_spread_constraint \<Rightarrow> (string \<rightharpoonup> string) option" where
  "selector_key LabelSelectorAsMap t =
     (case LabelSelectorAsMap (tsc_labelSelector t) of None \<Rightarrow> Some Map.empty | Some m \<Rightarrow> map_option map_of m)"

definition TopologySpreadConstraints ::
    "selector_map \<Rightarrow> topology_spread_constraint list \<Rightarrow>
     topology_spread_constraint list \<Rightarrow> topology_spread_constraint list" where
  "TopologySpreadConstraints LabelSelectorAsMap dst src =
     foldl (upsert (\<lambda>d s. selector_key LabelSelectorAsMap d = selector_key LabelSelectorAsMap s)
              (\<lambda>d s. s)) dst src"

definition SecurityContext ::
    "security_context option \<Rightarrow> security_context option \<Rightarrow> security_context option" where
  "SecurityContext dst src =
     (case (dst, src) of
        (Some d, Some s) \<Rightarrow>
          Some (s\<lparr>procMount := (if procMount s = None then procMount d else procMount s),
                  allowPrivilegeEscalation := (if allowPrivilegeEscalation s = None
                      then allowPrivilegeEscalation d else allowPrivilegeEscalation s),
                  capabilities := (if capabilities s = None then capabilities d else capabilities s),
                  readOnlyRootFilesystem := (if readOnlyRootFilesystem s = None
                      then readOnlyRootFilesystem d else readOnlyRootFilesystem s),
                  runAsGroup := (if runAsGroup s = None then runAsGroup d else runAsGroup s)\<rparr>)
      | _ \<Rightarrow> src)"

definition PodContainer :: "container \<Rightarrow> container \<Rightarrow> container" where
  "PodContainer dst src =
     src\<lparr>c_resources := ResourceRequirements (c_resources dst) (c_resources src),
         c_securityContext := SecurityContext (c_securityContext dst) (c_securityContext src),
         c_volumeMounts := VolumeMounts (c_volumeMounts dst) (c_volumeMounts src),
         c_imagePullPolicy := (if c_imagePullPolicy src \<noteq> [] then c_imagePullPolicy src
                               else c_imagePullPolicy dst)\<rparr>"

definition PodTemplateContainer :: "container \<Rightarrow> container \<Rightarrow> container" where
  "PodTemplateContainer dst src =
     src\<lparr>c_resources := ResourceRequirements (c_resources dst) (c_resources src),
         c_securityContext := SecurityContext (c_securityContext dst) (c_securityContext src)\<rparr>"

definition PodContainers :: "container list \<Rightarrow> container list \<Rightarrow> container list" where
  "PodContainers dst src = foldl (upsert (\<lambda>d s. c_name d = c_name s) PodContainer) dst src"

definition PodTemplateContainers :: "container list \<Rightarrow> container list \<Rightarrow> container list" where
  "PodTemplateContainers dst src = foldl (upsert (\<lambda>d s. c_name d = c_name s) PodTemplateContainer) dst src"


section \<open>The contract of a keyed merge\<close>

text \<open>
  What every one of these slice merges promises its callers, proved once: items are identified
  by \<open>key\<close>, and updating an item keeps its key.
\<close>

locale keyed_merge =
  fixes key :: "'d \<Rightarrow> 'k"
    and upd :: "'d \<Rightarrow> 'd \<Rightarrow> 'd"
    and merge :: "'d list \<Rightarrow> 'd list \<Rightarrow> 'd list"
  assumes merge_loop: "merge dst src = foldl (upsert (\<lambda>d s. key d = key s) upd) dst src"
    and key_upd: "key d = key s \<Longrightarrow> key (upd d s) = key s"
begin

abbreviation ups :: "'d list \<Rightarrow> 'd \<Rightarrow> 'd list" where
  "ups \<equiv> upsert (\<lambda>d s. key d = key s) upd"

lemma merge_Nil [simp]: "merge dst [] = dst"
  by (simp add: merge_loop)

lemma merge_Cons [simp]: "merge dst (s # src) = merge (ups dst s) src"
  by (simp add: merge_loop)

lemma keys_ups: "map key (ups ds s) = map key ds @ (if key s \<in> key ` set ds then [] else [key s])"
  by (induction ds) (auto simp: key_upd)

lemma distinct_ups: "distinct (map key ds) \<Longrightarrow> distinct (map key (ups ds s))"
  by (simp add: keys_ups)

lemma distinct_merge: "distinct (map key dst) \<Longrightarrow> distinct (map key (merge dst src))"
proof (induction src arbitrary: dst)
  case Nil
  then show ?case by simp
next
  case (Cons s src)
  show ?case unfolding merge_Cons by (rule Cons.IH) (rule distinct_ups [OF Cons.prems])
qed

lemma keys_ups_set: "key ` set (ups ds s) = insert (key s) (key ` set ds)"
proof -
  have "key ` set (ups ds s) = set (map key (ups ds s))" by simp
  also have "\<dots> = insert (key s) (key ` set ds)" unfolding keys_ups by auto
  finally show ?thesis .
qed

lemma keys_merge: "key ` set (merge dst src) = key ` set dst \<union> key ` set src"
  by (induction src arbitrary: dst) (auto simp: keys_ups_set)

text \<open>Items the source does not name stay as they are, in their order.\<close>

lemma ups_foreign: "filter (\<lambda>d. key d \<noteq> key s) (ups ds s) = filter (\<lambda>d. key d \<noteq> key s) ds"
  by (induction ds) (auto simp: key_upd)

lemma ups_filter:
  "\<forall>d. P d \<longrightarrow> key d \<noteq> key s \<Longrightarrow> filter P (ups ds s) = filter P ds"
  by (induction ds) (auto simp: key_upd)

lemma merge_foreign:
  "filter (\<lambda>d. key d \<notin> key ` set src) (merge dst src) = filter (\<lambda>d. key d \<notin> key ` set src) dst"
proof -
  have "filter P (merge dst src) = filter P dst"
    if "\<forall>d. P d \<longrightarrow> key d \<notin> key ` set src" for P
    using that
  proof (induction src arbitrary: dst)
    case Nil
    then show ?case by simp
  next
    case (Cons s src)
    then have "filter P (merge (ups dst s) src) = filter P (ups dst s)"
      by (intro Cons.IH) auto
    also have "\<dots> = filter P dst"
      using Cons.prems by (intro ups_filter) auto
    finally show ?case by simp
  qed
  then show ?thesis by simp
qed

text \<open>The existing items keep their positions: the keys of the result extend those of \<open>dst\<close>.\<close>

lemma merge_keys_prefix: "\<exists>ks. map key (merge dst src) = map key dst @ ks"
proof (induction src arbitrary: dst)
  case Nil
  then show ?case by simp
next
  case (Cons s src)
  from Cons [of "ups dst s"] show ?case by (auto simp: keys_ups)
qed

lemma ups_present: "d \<in> set ds \<Longrightarrow> distinct (map key ds) \<Longrightarrow> key d = key s \<Longrightarrow> upd d s \<in> set (ups ds s)"
  by (induction ds) (auto simp: image_iff)

lemma ups_other: "d \<in> set ds \<Longrightarrow> key d \<noteq> key s \<Longrightarrow> d \<in> set (ups ds s)"
  by (induction ds) auto

lemma ups_absent: "key s \<notin> key ` set ds \<Longrightarrow> ups ds s = ds @ [s]"
  by (induction ds) auto

lemma merge_other: "d \<in> set ds \<Longrightarrow> key d \<notin> key ` set src \<Longrightarrow> d \<in> set (merge ds src)"
proof (induction src arbitrary: ds)
  case Nil
  then show ?case by simp
next
  case (Cons s src)
  then show ?case unfolding merge_Cons by (intro Cons.IH ups_other) auto
qed

text \<open>What becomes of a desired item when no two desired items share a key.\<close>

lemma merge_desired:
  assumes "distinct (map key dst)" "distinct (map key src)" "s \<in> set src"
  shows "(\<forall>d \<in> set dst. key d = key s \<longrightarrow> upd d s \<in> set (merge dst src)) \<and>
         (key s \<notin> key ` set dst \<longrightarrow> s \<in> set (merge dst src))"
  using assms
proof (induction src arbitrary: dst)
  case Nil
  then show ?case by simp
next
  case (Cons t src)
  show ?case
  proof (cases "s = t")
    case True
    with Cons.prems have fresh: "key s \<notin> key ` set src" by auto
    have "upd d s \<in> set (merge (ups dst s) src)" if "d \<in> set dst" "key d = key s" for d
      using that fresh Cons.prems(1) by (intro merge_other ups_present) (auto simp: key_upd)
    moreover have "s \<in> set (merge (ups dst s) src)" if "key s \<notin> key ` set dst"
      using that fresh by (intro merge_other) (auto simp: ups_absent)
    ultimately show ?thesis by (simp add: True)
  next
    case False
    with Cons.prems have s: "s \<in> set src" by simp
    from this Cons.prems(2) have "key s \<noteq> key t" by (auto simp: image_iff)
    then have "d \<in> set (ups dst t)" if "d \<in> set dst" "key d = key s" for d
      using that by (intro ups_other) auto
    with Cons.IH [OF distinct_ups [OF Cons.prems(1)] _ s, of t] Cons.prems(2) \<open>key s \<noteq> key t\<close>
    show ?thesis by (simp add: keys_ups_set)
  qed
qed

end

text \<open>
  When applying the same desired item twice is the same as applying it once (for the items that
  are \<open>ok\<close>), so is the whole merge: a reconcile pass that finds its own output does not write
  again.
\<close>

locale stable_merge = keyed_merge key upd merge
  for key :: "'d \<Rightarrow> 'k"
    and upd :: "'d \<Rightarrow> 'd \<Rightarrow> 'd"
    and merge :: "'d list \<Rightarrow> 'd list \<Rightarrow> 'd list" +
  fixes ok :: "'d \<Rightarrow> bool"
  assumes upd_idem: "ok s \<Longrightarrow> upd (upd d s) s = upd d s"
    and upd_self: "ok s \<Longrightarrow> upd s s = s"
begin

definition settled :: "'d list \<Rightarrow> 'd \<Rightarrow> bool" where
  "settled ds s \<longleftrightarrow> ups ds s = ds"

lemma ups_settled: "ok s \<Longrightarrow> settled (ups ds s) s"
  unfolding settled_def by (induction ds) (auto simp: key_upd upd_idem upd_self)

lemma settled_member: "ok s \<Longrightarrow> distinct (map key ds) \<Longrightarrow> s \<in> set ds \<Longrightarrow> settled ds s"
  unfolding settled_def by (induction ds) (auto simp: upd_self image_iff)

lemma settled_ups: "settled ds t \<Longrightarrow> key s \<noteq> key t \<Longrightarrow> settled (ups ds s) t"
  unfolding settled_def
proof (induction ds)
  case Nil
  then show ?case by simp
next
  case (Cons d ds)
  then show ?case by (auto simp: key_upd split: if_splits)
qed

lemma merge_settled: "settled ds t \<Longrightarrow> key t \<notin> key ` set src \<Longrightarrow> settled (merge ds src) t"
proof (induction src arbitrary: ds)
  case Nil
  then show ?case by simp
next
  case (Cons s src)
  then show ?case unfolding merge_Cons by (intro Cons.IH settled_ups) auto
qed

lemma merge_all_settled:
  "distinct (map key src) \<Longrightarrow> t \<in> set src \<Longrightarrow> ok t \<Longrightarrow> settled (merge ds src) t"
proof (induction src arbitrary: ds)
  case Nil
  then show ?case by simp
next
  case (Cons s src)
  show ?case
  proof (cases "t = s")
    case True
    with Cons.prems show ?thesis
      unfolding merge_Cons True by (intro merge_settled ups_settled) auto
  next
    case False
    with Cons.prems show ?thesis unfolding merge_Cons by (intro Cons.IH) auto
  qed
qed

lemma merge_noop: "\<forall>t \<in> set src. settled ds t \<Longrightarrow> merge ds src = ds"
  by (induction src) (auto simp: settled_def)

lemma merge_idem:
  "distinct (map key src) \<Longrightarrow> \<forall>s \<in> set src. ok s \<Longrightarrow> merge (merge dst src) src = merge dst src"
  by (rule merge_noop) (simp add: merge_all_settled)

lemma merge_self: "distinct (map key ds) \<Longrightarrow> \<forall>s \<in> set ds. ok s \<Longrightarrow> merge ds ds = ds"
  by (rule merge_noop) (simp add: settled_member)

end

text \<open>
  Where the desired item simply replaces the existing one, merging settles for any desired items: of several with one key
  the last wins, in the second merge as in the first.
\<close>

locale replacing_merge = keyed_merge key "\<lambda>d s. s" merge
  for key :: "'d \<Rightarrow> 'k"
    and merge :: "'d list \<Rightarrow> 'd list \<Rightarrow> 'd list"
begin

lemma merge_snoc: "merge dst (src @ [s]) = ups (merge dst src) s"
  by (simp add: merge_loop)

lemma ups_same: "key s = key t \<Longrightarrow> ups (ups ds s) t = ups ds t"
  by (induction ds) auto

lemma ups_commute: "key s \<noteq> key t \<Longrightarrow> key t \<in> key ` set ds \<Longrightarrow> ups (ups ds s) t = ups (ups ds t) s"
  by (induction ds) auto

lemma merge_overwritten: "key ` set src \<subseteq> key ` set ds \<Longrightarrow> ups (merge (ups ds s) src) s = ups (merge ds src) s"
proof (induction src arbitrary: ds)
  case Nil
  show ?case by (simp add: ups_same)
next
  case (Cons t src)
  show ?case
  proof (cases "key s = key t")
    case True
    then show ?thesis by (simp add: ups_same)
  next
    case False
    with Cons.prems have "ups (ups ds s) t = ups (ups ds t) s" by (intro ups_commute) auto
    moreover have "key ` set src \<subseteq> key ` set (ups ds t)" using Cons.prems by (auto simp: keys_ups_set)
    ultimately show ?thesis using Cons.IH by simp
  qed
qed

lemma settles: "merge (merge dst src) src = merge dst src"
proof (induction src rule: rev_induct)
  case Nil
  show ?case by simp
next
  case (snoc s src)
  have "merge (merge dst (src @ [s])) (src @ [s]) = ups (merge (ups (merge dst src) s) src) s" by (simp only: merge_snoc)
  also have "\<dots> = ups (merge (merge dst src) src) s" by (rule merge_overwritten) (simp add: keys_merge)
  finally show ?case by (simp only: snoc.IH merge_snoc)
qed

lemma append_twice: "merge (merge dst a) b = merge dst (a @ b)"
  by (simp add: merge_loop)

text \<open>Two merges one after the other settle together.\<close>

lemma settles_twice: "merge (merge (merge (merge dst a) b) a) b = merge (merge dst a) b"
  using settles [of dst "a @ b"] by (simp only: append_twice append_assoc)

end

sublocale replacing_merge \<subseteq> stable_merge key "\<lambda>d s. s" merge "\<lambda>_. True"
  by unfold_locales simp_all

section \<open>The contract holds for every slice the operator merges\<close>

lemma SecurityContext_idem: "SecurityContext (SecurityContext d s) s = SecurityContext d s"
  by (auto simp: SecurityContext_def split: option.split)

lemma SecurityContext_self: "SecurityContext s s = s"
  by (auto simp: SecurityContext_def split: option.split)

interpretation volumes: replacing_merge vol_name Volumes
  by unfold_locales (simp_all add: Volumes_def)

interpretation volume_mounts: replacing_merge vm_mountPath VolumeMounts
  by unfold_locales (simp_all add: VolumeMounts_def)

interpretation object_refs: replacing_merge "\<lambda>x. x" LocalObjectReferences
  by unfold_locales (simp_all add: LocalObjectReferences_def)

interpretation env: replacing_merge ev_name Env
  by unfold_locales (simp_all add: Env_def)

interpretation spread: replacing_merge "selector_key f" "TopologySpreadConstraints f" for f
  by unfold_locales (simp_all add: TopologySpreadConstraints_def)

text \<open>
  For containers the item update is itself a merge, so it is stable only on well-formed items:
  mount paths are unique and the resource lists are allocated.
\<close>

definition container_wf :: "container \<Rightarrow> bool" where
  "container_wf c \<longleftrightarrow> distinct (map vm_mountPath (c_volumeMounts c))
     \<and> limits (c_resources c) \<noteq> None \<and> requests (c_resources c) \<noteq> None"

lemma ResourceRequirements_self:
  "limits r \<noteq> None \<Longrightarrow> requests r \<noteq> None \<Longrightarrow> ResourceRequirements r r = r"
  by (cases r) (auto simp: ResourceRequirements_def ResourceList_def)

interpretation pod_containers: stable_merge c_name PodContainer PodContainers container_wf
  by unfold_locales
    (simp_all add: PodContainers_def PodContainer_def container_wf_def ResourceRequirements_idem
      ResourceRequirements_self SecurityContext_idem SecurityContext_self
      volume_mounts.settles volume_mounts.merge_self)

text \<open>
  \<open>ResourceList\<close> turns a nil list into an empty one, a difference that neither the API server nor the semantic comparison of the
  reconciler sees: containers are the same if they are once their lists are allocated.  The merge respects that.
\<close>

definition allocated :: "container \<Rightarrow> container" where
  "allocated c =
     c\<lparr>c_resources := \<lparr>limits = Some (nil_safe (limits (c_resources c))), requests = Some (nil_safe (requests (c_resources c)))\<rparr>\<rparr>"

lemma allocated_facts [simp]:
  "c_name (allocated c) = c_name c" "c_volumeMounts (allocated c) = c_volumeMounts c"
  "container_wf (allocated c) \<longleftrightarrow> distinct (map vm_mountPath (c_volumeMounts c))"
  "allocated (allocated c) = allocated c"
  by (simp_all add: allocated_def container_wf_def)

lemma PodContainer_allocated: "PodContainer (allocated d) (allocated s) = allocated (PodContainer d s)"
  by (simp add: PodContainer_def allocated_def ResourceRequirements_def ResourceList_def)

lemma PodContainers_allocated:
  "PodContainers (map allocated dst) (map allocated src) = map allocated (PodContainers dst src)"
proof -
  have "upsert (\<lambda>d s. c_name d = c_name s) PodContainer (map allocated ds) (allocated s) =
      map allocated (upsert (\<lambda>d s. c_name d = c_name s) PodContainer ds s)" for ds s
    by (induction ds) (simp_all add: PodContainer_allocated)
  then show ?thesis unfolding PodContainers_def by (induction src arbitrary: dst) simp_all
qed

lemma PodContainers_settles:
  assumes "distinct (map c_name src)" "\<forall>c \<in> set src. distinct (map vm_mountPath (c_volumeMounts c))"
  shows "map allocated (PodContainers (PodContainers dst src) src) = map allocated (PodContainers dst src)"
proof -
  have "distinct (map c_name (map allocated src))" using assms(1) by (simp add: comp_def)
  moreover have "\<forall>c \<in> set (map allocated src). container_wf c" using assms(2) by simp
  ultimately show ?thesis using pod_containers.merge_idem by (simp only: PodContainers_allocated [symmetric])
qed

lemma PodContainers_settles_twice:
  assumes "distinct (map c_name (a @ b))" "\<forall>c \<in> set (a @ b). distinct (map vm_mountPath (c_volumeMounts c))"
  shows "map allocated (PodContainers (PodContainers (PodContainers (PodContainers dst a) b) a) b) =
    map allocated (PodContainers (PodContainers dst a) b)"
proof -
  have "PodContainers (PodContainers d a) b = PodContainers d (a @ b)" for d by (simp add: PodContainers_def)
  then show ?thesis using PodContainers_settles [OF assms, of dst] by simp
qed

interpretation template_containers:
  stable_merge c_name PodTemplateContainer PodTemplateContainers container_wf
  by unfold_locales
    (simp_all add: PodTemplateContainers_def PodTemplateContainer_def container_wf_def
      ResourceRequirements_idem ResourceRequirements_self SecurityContext_idem SecurityContext_self)

section \<open>Properties\<close>

text \<open>Updating the containers of a Pod never touches a container the operator does not
  manage: those injected by admission webhooks keep their content and their order, and every
  managed container is found by name in the result.\<close>

theorem PodContainers_foreign_untouched:
  "filter (\<lambda>c. c_name c \<notin> c_name ` set src) (PodContainers dst src) =
     filter (\<lambda>c. c_name c \<notin> c_name ` set src) dst
   \<and> c_name ` set (PodContainers dst src) = c_name ` set dst \<union> c_name ` set src"
  by (simp only: pod_containers.merge_foreign pod_containers.keys_merge)

text \<open>Merging the same desired containers into a Pod again changes nothing, so a reconcile
  pass over an up-to-date Pod schedules no update.\<close>

theorem PodContainers_idempotent:
  assumes "distinct (map c_name src)" "\<forall>s \<in> set src. container_wf s"
  shows "PodContainers (PodContainers dst src) src = PodContainers dst src"
  by (rule pod_containers.merge_idem [OF assms])

definition example_container :: "string \<Rightarrow> container" where
  "example_container n =
     \<lparr>c_name = n, c_image = ''img'', c_imagePullPolicy = [], c_command = [], c_args = [], c_ports = [],
      c_resources = \<lparr>limits = Some Map.empty, requests = Some [''cpu'' \<mapsto> 1]\<rparr>,
      c_securityContext = None,
      c_volumeMounts = [\<lparr>vm_name = ''v'', vm_mountPath = ''/v'', vm_readOnly = True, vm_subPath = [], vm_rest = []\<rparr>],
      c_env = [], c_readinessProbe = None, c_livenessProbe = None, c_lifecycle = None, c_rest = []\<rparr>"

lemma PodContainers_idempotent_witness:
  "PodContainers (PodContainers [example_container ''istio'', example_container ''vttablet'']
      [example_container ''vttablet'', example_container ''mysqld''])
      [example_container ''vttablet'', example_container ''mysqld''] =
   PodContainers [example_container ''istio'', example_container ''vttablet'']
      [example_container ''vttablet'', example_container ''mysqld'']"
  by (rule PodContainers_idempotent) (simp_all add: example_container_def container_wf_def)

end
