(* ===== verification/Keyspace.thy ===== *)
theory Keyspace
  imports Shard Update
begin

text \<open>
  The VitessKeyspace API type (\<open>pkg/apis/planetscale/v2/vitesskeyspace_types.go\<close>,
  \<open>vitesskeyspace_methods.go\<close>, \<open>vitesskeyspace_defaults.go\<close>): partitionings, the shards they define and their
  counts, and the list of conditions; and the updates of keyspace templates in
  \<open>pkg/operator/update\<close> (\<open>resources.go\<close>, \<open>partitionings.go\<close>).

  \<open>key.GenerateShardRanges\<close> belongs to Vitess; it is the argument \<open>gen\<close>, from the number of parts
  and the hex width to the shard names, \<open>None\<close> being its error.
\<close>

section \<open>Partitionings\<close>

record keyrange_shard = shard_template +
  ks_KeyRange :: VitessKeyRange

record equal_partitioning =
  ep_Parts :: "32 word"
  ep_HexWidth :: "32 word"
  ep_ShardTemplate :: shard_template

record partitioning =
  pt_Equal :: "equal_partitioning option"
  pt_Custom :: "keyrange_shard list option"

type_synonym range_generator = "int \<Rightarrow> int \<Rightarrow> string list option"

fun cut_ranges :: "string list \<Rightarrow> VitessKeyRange list option" where
  "cut_ranges [] = Some []"
| "cut_ranges (r # rs) =
     (case cut_at CHR ''-'' r of
        None \<Rightarrow> None
      | Some (start, end') \<Rightarrow> map_option ((#) (VitessKeyRange start end')) (cut_ranges rs))"

text \<open>\<open>None\<close> is a panic: the number of parts is out of range, or a name has no dash.\<close>

definition KeyRanges :: "range_generator \<Rightarrow> equal_partitioning \<Rightarrow> VitessKeyRange list option" where
  "KeyRanges gen p =
     (case gen (sint (ep_Parts p)) (sint (ep_HexWidth p)) of None \<Rightarrow> None | Some ranges \<Rightarrow> cut_ranges ranges)"

definition FillFromByteKeyRange :: "string \<times> string \<Rightarrow> VitessKeyRange" where
  "FillFromByteKeyRange kr = VitessKeyRange (hex_encode (fst kr)) (hex_encode (snd kr))"

type_synonym shard_map = "(VitessKeyRange \<times> keyrange_shard) list"

definition equal_shard :: "shard_template \<Rightarrow> VitessKeyRange \<Rightarrow> keyrange_shard" where
  "equal_shard t kr = shard_template.extend t \<lparr>ks_KeyRange = kr\<rparr>"

text \<open>One partitioning is entered into the map; later entries overwrite earlier ones.\<close>

definition add_partitioning :: "range_generator \<Rightarrow> partitioning \<Rightarrow> shard_map \<Rightarrow> shard_map option" where
  "add_partitioning gen p m =
     (case pt_Equal p of
        Some e \<Rightarrow>
          (case KeyRanges gen e of
             None \<Rightarrow> None
           | Some krs \<Rightarrow> Some (fold (\<lambda>kr. AList.update kr (equal_shard (ep_ShardTemplate e) kr)) krs m))
      | None \<Rightarrow>
          (case pt_Custom p of
             Some shards \<Rightarrow> Some (fold (\<lambda>s. AList.update (ks_KeyRange s) s) shards m)
           | None \<Rightarrow> Some m))"

text \<open>\<open>order\<close> is the order in which the range over the finished map visits the keys.\<close>

definition ShardTemplates ::
    "range_generator \<Rightarrow> (VitessKeyRange list \<Rightarrow> VitessKeyRange list) \<Rightarrow> partitioning list \<Rightarrow> keyrange_shard list option"
where
  "ShardTemplates gen order partitionings =
     (case fold_opt (add_partitioning gen) partitionings [] of
        None \<Rightarrow> None
      | Some shardMap \<Rightarrow>
          Some (map (\<lambda>kr. the (map_of shardMap kr)) (SortKeyRanges (order (map fst shardMap)))))"

definition TabletPools :: "partitioning \<Rightarrow> tablet_pool list" where
  "TabletPools p =
     (case pt_Equal p of
        Some e \<Rightarrow> st_TabletPools (ep_ShardTemplate e)
      | None \<Rightarrow> (case pt_Custom p of Some shards \<Rightarrow> concat (map st_TabletPools shards) | None \<Rightarrow> []))"

text \<open>A map whose values are empty structs is the list of its keys; \<open>order\<close> is its range.\<close>

definition CellNames :: "(string list \<Rightarrow> string list) \<Rightarrow> partitioning list \<Rightarrow> string list" where
  "CellNames order partitionings =
     sort (order (remdups (map tp_Cell (concat (map TabletPools partitionings)))))"

definition ShardNameSet :: "range_generator \<Rightarrow> partitioning \<Rightarrow> string set option" where
  "ShardNameSet gen p =
     (case pt_Equal p of
        Some e \<Rightarrow> map_option (\<lambda>krs. set (map KeyRange_String krs)) (KeyRanges gen e)
      | None \<Rightarrow>
          (case pt_Custom p of
             Some shards \<Rightarrow> Some (set (map (\<lambda>s. KeyRange_String (ks_KeyRange s)) shards))
           | None \<Rightarrow> Some {}))"

definition TotalReplicas :: "partitioning \<Rightarrow> 32 word" where
  "TotalReplicas p =
     (case pt_Equal p of
        Some e \<Rightarrow> sum_replicas (st_TabletPools (ep_ShardTemplate e)) * ep_Parts e
      | None \<Rightarrow>
          (case pt_Custom p of
             Some shards \<Rightarrow> fold (\<lambda>s n. fold (\<lambda>pool n. n + tp_Replicas pool) (st_TabletPools s) n) shards 0
           | None \<Rightarrow> 0))"

section \<open>Status\<close>

record keyspace_shard_status =
  kss_HasMaster :: cond_status
  kss_ServingWrites :: cond_status
  kss_DesiredTablets :: "32 word"
  kss_Tablets :: "32 word"
  kss_ReadyTablets :: "32 word"
  kss_UpdatedTablets :: "32 word"
  kss_PendingChanges :: string
  kss_Cells :: "string list"

definition NewVitessKeyspaceShardStatus :: "keyrange_shard \<Rightarrow> keyspace_shard_status" where
  "NewVitessKeyspaceShardStatus spec =
     \<lparr>kss_HasMaster = CondUnknown, kss_ServingWrites = CondUnknown,
      kss_DesiredTablets = sum_replicas (st_TabletPools spec), kss_Tablets = 0, kss_ReadyTablets = 0,
      kss_UpdatedTablets = 0, kss_PendingChanges = [], kss_Cells = []\<rparr>"

record partitioning_status =
  ps_ShardNames :: "string list"
  ps_ServingWrites :: cond_status
  ps_DesiredTablets :: "32 word"
  ps_Tablets :: "32 word"
  ps_ReadyTablets :: "32 word"
  ps_UpdatedTablets :: "32 word"
  ps_DesiredShards :: "32 word"
  ps_ReadyShards :: "32 word"

definition NewVitessKeyspacePartitioningStatus ::
    "range_generator \<Rightarrow> partitioning \<Rightarrow> partitioning_status option"
where
  "NewVitessKeyspacePartitioningStatus gen p =
     map_option (\<lambda>shards. \<lparr>ps_ShardNames = sorted_list_of_set shards, ps_ServingWrites = CondUnknown,
        ps_DesiredTablets = TotalReplicas p, ps_Tablets = 0, ps_ReadyTablets = 0, ps_UpdatedTablets = 0,
        ps_DesiredShards = of_nat (card shards), ps_ReadyShards = 0\<rparr>) (ShardNameSet gen p)"

datatype WorkflowState = WorkflowRunning | WorkflowCopying | WorkflowError | WorkflowUnknown

record resharding_status =
  rsh_Workflow :: string
  rsh_State :: WorkflowState
  rsh_SourceShards :: "string list"
  rsh_TargetShards :: "string list"
  rsh_CopyProgress :: int

type_synonym typed_condition = "string \<times> condition"

record keyspace_status =
  kst_Shards :: "(string, keyspace_shard_status) gomap"
  kst_Partitionings :: "partitioning_status list"
  kst_OrphanedShards :: "(string, orphan_status) gomap"
  kst_Idle :: cond_status
  kst_Resharding :: "resharding_status option"
  kst_Conditions :: "typed_condition list"

definition NewVitessKeyspaceStatus :: keyspace_status where
  "NewVitessKeyspaceStatus =
     \<lparr>kst_Shards = [], kst_Partitionings = [], kst_OrphanedShards = [], kst_Idle = CondUnknown,
      kst_Resharding = None, kst_Conditions = []\<rparr>"

definition GetCondition :: "keyspace_status \<Rightarrow> string \<Rightarrow> condition option" where
  "GetCondition s ty = map_option snd (find (\<lambda>c. fst c = ty) (kst_Conditions s))"

fun set_condition :: "typed_condition \<Rightarrow> typed_condition list \<Rightarrow> typed_condition list" where
  "set_condition new [] = [new]"
| "set_condition new (c # cs) = (if fst c = fst new then new # cs else c # set_condition new cs)"

definition keyspace_SetConditionStatus ::
    "int \<Rightarrow> string \<Rightarrow> cond_status \<Rightarrow> string \<Rightarrow> string \<Rightarrow> keyspace_status \<Rightarrow> keyspace_status"
where
  "keyspace_SetConditionStatus now condType newStatus reason message s =
     (let cond = (case GetCondition s condType of None \<Rightarrow> new_condition now | Some c \<Rightarrow> c)
      in s\<lparr>kst_Conditions := set_condition (condType, update_condition now newStatus reason message cond) (kst_Conditions s)\<rparr>)"

lemma find_set_condition:
  "find (\<lambda>c. fst c = j) (set_condition new cs) =
     (if j = fst new then Some new else find (\<lambda>c. fst c = j) cs)"
  by (induction cs) auto

interpretation keyspace_conditions: condition_store GetCondition keyspace_SetConditionStatus
  by unfold_locales
    (simp add: GetCondition_def keyspace_SetConditionStatus_def Let_def find_set_condition)

lemma set_condition_keys:
  "map fst (set_condition new cs) = (if fst new \<in> fst ` set cs then map fst cs else map fst cs @ [fst new])"
  by (induction cs) auto

section \<open>Updates of a keyspace template\<close>

definition partitioningKey :: "range_generator \<Rightarrow> partitioning \<Rightarrow> string option" where
  "partitioningKey gen p = map_option (\<lambda>names. join_with '','' (sorted_list_of_set names)) (ShardNameSet gen p)"

definition PartitioningSet :: "range_generator \<Rightarrow> partitioning list \<Rightarrow> partitioning list \<Rightarrow> partitioning list option" where
  "PartitioningSet gen dst src =
     (case fold_opt (\<lambda>p m. map_option (\<lambda>k. m(k \<mapsto> p)) (partitioningKey gen p)) dst Map.empty of
        None \<Rightarrow> None
      | Some dstMap \<Rightarrow>
          fold_opt (\<lambda>p result. map_option (\<lambda>k. result @ [case dstMap k of Some q \<Rightarrow> q | None \<Rightarrow> p]) (partitioningKey gen p))
            src [])"

definition StorageResource :: "resource_list \<Rightarrow> resource_list \<Rightarrow> resource_list" where
  "StorageResource dst src =
     (case (case src of None \<Rightarrow> None | Some m \<Rightarrow> m ''storage'') of
        None \<Rightarrow> dst
      | Some v \<Rightarrow> Some ((case dst of None \<Rightarrow> Map.empty | Some m \<Rightarrow> m)(''storage'' \<mapsto> v)))"

definition matchingTabletPool :: "tablet_pool \<Rightarrow> tablet_pool list \<Rightarrow> tablet_pool option" where
  "matchingTabletPool dst src = find (\<lambda>s. IsMatch s dst) src"

text \<open>A destination pool without a claim template is a nil pointer that is dereferenced.\<close>

definition update_pool_size :: "tablet_pool list \<Rightarrow> tablet_pool \<Rightarrow> tablet_pool option" where
  "update_pool_size src dst =
     (case matchingTabletPool dst src of
        None \<Rightarrow> Some dst
      | Some requested \<Rightarrow>
          (case tp_DataVolumeClaimTemplate requested of
             None \<Rightarrow> Some dst
           | Some want \<Rightarrow>
               (case tp_DataVolumeClaimTemplate dst of
                  None \<Rightarrow> None
                | Some have' \<Rightarrow> Some (dst\<lparr>tp_DataVolumeClaimTemplate :=
                    Some (have'\<lparr>pvc_requests := StorageResource (pvc_requests have') (pvc_requests want)\<rparr>)\<rparr>))))"

definition updateTabletPoolDiskSize :: "tablet_pool list \<Rightarrow> tablet_pool list \<Rightarrow> tablet_pool list option" where
  "updateTabletPoolDiskSize dst src = map_opt (update_pool_size src) dst"

definition ShardDiskSize :: "tablet_pool list \<Rightarrow> tablet_pool list \<Rightarrow> tablet_pool list option" where
  "ShardDiskSize dst src = updateTabletPoolDiskSize dst src"

definition partitioningTypesMatch :: "partitioning \<Rightarrow> partitioning \<Rightarrow> bool" where
  "partitioningTypesMatch dst src =
     (if pt_Equal dst \<noteq> None \<and> pt_Equal src = None then False
      else if pt_Equal dst = None \<and> pt_Equal src \<noteq> None then False
      else if pt_Custom dst \<noteq> None \<and> pt_Custom src = None then False
      else if pt_Custom dst = None \<and> pt_Custom src \<noteq> None then False
      else True)"

definition equalPartitioningsMatch :: "equal_partitioning \<Rightarrow> equal_partitioning \<Rightarrow> bool" where
  "equalPartitioningsMatch dst src \<longleftrightarrow> ep_Parts dst = ep_Parts src"

definition customPartitioningsMatch :: "keyrange_shard list \<Rightarrow> keyrange_shard list \<Rightarrow> bool" where
  "customPartitioningsMatch dst src \<longleftrightarrow>
     length dst = length src \<and> list_all2 (\<lambda>d s. ks_KeyRange d = ks_KeyRange s) dst src"

definition partitioningsMatch :: "partitioning \<Rightarrow> partitioning \<Rightarrow> bool" where
  "partitioningsMatch dst src =
     (if \<not> partitioningTypesMatch dst src then False
      else (case (pt_Equal dst, pt_Equal src) of
          (Some d, Some s) \<Rightarrow> equalPartitioningsMatch d s
        | _ \<Rightarrow> (case (pt_Custom dst, pt_Custom src) of
              (Some d, Some s) \<Rightarrow> customPartitioningsMatch d s
            | _ \<Rightarrow> False)))"

definition keyspacePartitioningsAreValid :: "partitioning list \<Rightarrow> partitioning list \<Rightarrow> bool" where
  "keyspacePartitioningsAreValid dst src \<longleftrightarrow> length dst = length src \<and> list_all2 partitioningsMatch dst src"

text \<open>Indexing the source beyond its end panics, as does a missing equal or custom part.\<close>

fun update_custom_sizes :: "keyrange_shard list \<Rightarrow> keyrange_shard list \<Rightarrow> keyrange_shard list option" where
  "update_custom_sizes [] src = Some []"
| "update_custom_sizes (d # dst) [] = None"
| "update_custom_sizes (d # dst) (s # src) =
     (case updateTabletPoolDiskSize (st_TabletPools d) (st_TabletPools s) of
        None \<Rightarrow> None
      | Some pools \<Rightarrow> map_option ((#) (d\<lparr>st_TabletPools := pools\<rparr>)) (update_custom_sizes dst src))"

definition update_partitioning_size :: "partitioning \<Rightarrow> partitioning \<Rightarrow> partitioning option" where
  "update_partitioning_size dst src =
     (case (case pt_Equal dst of
              None \<Rightarrow> Some None
            | Some d \<Rightarrow>
                (case pt_Equal src of
                   None \<Rightarrow> None
                 | Some s \<Rightarrow>
                     map_option (\<lambda>pools. Some (d\<lparr>ep_ShardTemplate := (ep_ShardTemplate d)\<lparr>st_TabletPools := pools\<rparr>\<rparr>))
                       (updateTabletPoolDiskSize (st_TabletPools (ep_ShardTemplate d)) (st_TabletPools (ep_ShardTemplate s))))) of
        None \<Rightarrow> None
      | Some eq \<Rightarrow>
          (case pt_Custom dst of
             None \<Rightarrow> Some (dst\<lparr>pt_Equal := eq\<rparr>)
           | Some d \<Rightarrow>
               (case pt_Custom src of
                  None \<Rightarrow> None
                | Some s \<Rightarrow> map_option (\<lambda>c. dst\<lparr>pt_Equal := eq, pt_Custom := Some c\<rparr>) (update_custom_sizes d s))))"

fun updateDiskSize :: "partitioning list \<Rightarrow> partitioning list \<Rightarrow> partitioning list option" where
  "updateDiskSize [] src = Some []"
| "updateDiskSize (d # dst) [] = None"
| "updateDiskSize (d # dst) (s # src) =
     (case update_partitioning_size d s of
        None \<Rightarrow> None
      | Some p \<Rightarrow> map_option ((#) p) (updateDiskSize dst src))"

definition KeyspaceDiskSize :: "partitioning list \<Rightarrow> partitioning list \<Rightarrow> partitioning list option" where
  "KeyspaceDiskSize dst src =
     (if \<not> keyspacePartitioningsAreValid dst src then Some dst else updateDiskSize dst src)"

definition GOMAXPROCS :: "env_var list \<Rightarrow> resource_requirements \<Rightarrow> env_var list" where
  "GOMAXPROCS dst resources =
     (case (case limits resources of None \<Rightarrow> None | Some m \<Rightarrow> m ''cpu'') of
        None \<Rightarrow> dst
      | Some cpu \<Rightarrow> Env dst [\<lparr>ev_name = ''GOMAXPROCS'', ev_value = dec_int (Quantity_Value cpu), ev_valueFrom = None\<rparr>])"

section \<open>The shards a keyspace defines\<close>

text \<open>
  The specification: each partitioning defines a shard for some key ranges; the last partitioning
  (and the last shard of a custom one) that defines a key range wins.
\<close>

definition defined_by :: "range_generator \<Rightarrow> partitioning \<Rightarrow> VitessKeyRange \<rightharpoonup> keyrange_shard" where
  "defined_by gen p =
     (case pt_Equal p of
        Some e \<Rightarrow> (\<lambda>kr. if (\<exists>krs. KeyRanges gen e = Some krs \<and> kr \<in> set krs)
                         then Some (equal_shard (ep_ShardTemplate e) kr) else None)
      | None \<Rightarrow>
          (case pt_Custom p of
             Some shards \<Rightarrow> map_of (rev (map (\<lambda>s. (ks_KeyRange s, s)) shards))
           | None \<Rightarrow> Map.empty))"

definition defined_shards :: "range_generator \<Rightarrow> partitioning list \<Rightarrow> VitessKeyRange \<rightharpoonup> keyrange_shard" where
  "defined_shards gen ps = foldl (\<lambda>m p. m ++ defined_by gen p) Map.empty ps"

lemma map_of_fold_update:
  "map_of (fold (\<lambda>x. AList.update (f x) (g x)) xs m) = map_of m ++ map_of (rev (map (\<lambda>x. (f x, g x)) xs))"
  by (induction xs arbitrary: m) (simp_all add: update_conv' map_add_assoc [symmetric] map_add_upd_left map_add_def fun_eq_iff split: option.split)

lemma map_of_rev_same:
  "map_of (rev (map (\<lambda>k. (k, g k)) ks)) = (\<lambda>k. if k \<in> set ks then Some (g k) else None)"
  by (induction ks) (auto simp: fun_eq_iff map_add_def split: option.splits)

lemma gomap_wf_fold_update: "gomap_wf m \<Longrightarrow> gomap_wf (fold (\<lambda>x. AList.update (f x) (g x)) xs m)"
  by (induction xs arbitrary: m) (simp_all add: distinct_update)

lemma add_partitioning_map:
  assumes "add_partitioning gen p m = Some m'"
  shows "map_of m' = map_of m ++ defined_by gen p \<and> (gomap_wf m \<longrightarrow> gomap_wf m')"
  using assms
  by (auto simp: add_partitioning_def defined_by_def map_of_fold_update map_of_rev_same gomap_wf_fold_update
      split: option.splits)

lemma shard_map_defined:
  assumes "fold_opt (add_partitioning gen) ps m = Some m'" "gomap_wf m"
  shows "map_of m' = foldl (\<lambda>m p. m ++ defined_by gen p) (map_of m) ps \<and> gomap_wf m'"
  using assms
proof (induction ps arbitrary: m)
  case Nil
  then show ?case by simp
next
  case (Cons p ps)
  then obtain m1 where "add_partitioning gen p m = Some m1" "fold_opt (add_partitioning gen) ps m1 = Some m'"
    by (auto split: option.splits)
  then show ?case
    using Cons.IH [of m1] Cons.prems(2) add_partitioning_map [of gen p m m1] by simp
qed

lemma defined_by_key: "defined_by gen p kr = Some s \<Longrightarrow> ks_KeyRange s = kr"
  by (auto simp: defined_by_def equal_shard_def shard_template.defs split: option.splits if_splits
      dest!: map_of_SomeD)

lemma defined_shards_key: "defined_shards gen ps kr = Some s \<Longrightarrow> ks_KeyRange s = kr"
proof -
  have "(\<And>kr s. m kr = Some s \<Longrightarrow> ks_KeyRange s = kr) \<Longrightarrow>
      foldl (\<lambda>m p. m ++ defined_by gen p) m ps kr = Some s \<Longrightarrow> ks_KeyRange s = kr" for m
  proof (induction ps arbitrary: m)
    case Nil
    then show ?case by simp
  next
    case (Cons p ps)
    show ?case
      by (rule Cons.IH [of "m ++ defined_by gen p"]) (use Cons.prems defined_by_key in \<open>auto simp: map_add_Some_iff\<close>)
  qed
  from this [of Map.empty] show "defined_shards gen ps kr = Some s \<Longrightarrow> ks_KeyRange s = kr"
    by (simp add: defined_shards_def)
qed

lemma ShardTemplates_sorted:
  assumes "ShardTemplates gen order ps = Some shards" "\<And>ks. mset (order ks) = mset ks"
  shows "map ks_KeyRange shards = sorted_list_of_set (dom (defined_shards gen ps))
    \<and> (\<forall>s. s \<in> set shards \<longleftrightarrow> defined_shards gen ps (ks_KeyRange s) = Some s)"
proof -
  obtain m where m: "fold_opt (add_partitioning gen) ps [] = Some m"
    and shards: "shards = map (\<lambda>kr. the (map_of m kr)) (SortKeyRanges (order (map fst m)))"
    using assms(1) by (auto simp: ShardTemplates_def split: option.splits)
  have map: "map_of m = defined_shards gen ps" "gomap_wf m"
    using shard_map_defined [OF m] by (simp_all add: defined_shards_def)
  have "mset (order (map fst m)) = mset (map fst m)" by (rule assms(2))
  then have sorted: "SortKeyRanges (order (map fst m)) = sorted_list_of_set (dom (map_of m))"
    using map(2) unfolding SortKeyRanges_def
    by (metis dom_map_of_conv_image_fst list.set_map mset_sort properties_for_sort sorted_list_of_set_sort_remdups
        distinct_remdups_id sorted_sort)
  have fin: "finite (dom (map_of m))" by (rule finite_dom_map_of)
  have the: "map_of m kr = Some (the (map_of m kr))" if "kr \<in> dom (map_of m)" for kr
    using that by auto
  have key: "ks_KeyRange (the (map_of m kr)) = kr" if "kr \<in> dom (map_of m)" for kr
    using the [OF that] map(1) defined_shards_key by metis
  have "map ks_KeyRange shards = sorted_list_of_set (dom (map_of m))"
    unfolding shards sorted using key fin by (auto intro!: map_idI simp: comp_def)
  moreover have "s \<in> set shards \<longleftrightarrow> map_of m (ks_KeyRange s) = Some s" for s
  proof
    assume "s \<in> set shards"
    then obtain kr where "kr \<in> dom (map_of m)" "s = the (map_of m kr)"
      unfolding shards sorted set_map set_sorted_list_of_set [OF fin] by blast
    then show "map_of m (ks_KeyRange s) = Some s" using key [of kr] the [of kr] by simp
  next
    assume s: "map_of m (ks_KeyRange s) = Some s"
    then have "s = the (map_of m (ks_KeyRange s))" "ks_KeyRange s \<in> dom (map_of m)" by auto
    then show "s \<in> set shards" unfolding shards sorted set_map set_sorted_list_of_set [OF fin] by (rule image_eqI)
  qed
  ultimately show ?thesis using map(1) by simp
qed

text \<open>C21: \<open>ShardTemplates\<close> lists exactly the shards the keyspace defines, one for each key range of any
  partitioning, the definition of the last partitioning winning, in ascending order of key
  ranges; in particular the result does not depend on the order of Go's map iteration.\<close>

theorem ShardTemplates_spec:
  assumes "ShardTemplates gen order ps = Some shards" "\<And>ks. mset (order ks) = mset ks"
  shows "map ks_KeyRange shards = sorted_list_of_set (dom (defined_shards gen ps))
    \<and> (\<forall>s. s \<in> set shards \<longleftrightarrow> defined_shards gen ps (ks_KeyRange s) = Some s)"
  by (rule ShardTemplates_sorted [OF assms])

definition example_pool :: "string \<Rightarrow> 32 word \<Rightarrow> tablet_pool" where
  "example_pool cell n =
     \<lparr>tp_Cell = cell, tp_Type = ReplicaPoolType, tp_Name = [], tp_Replicas = n,
      tp_DataVolumeClaimTemplate = Some \<lparr>pvc_requests = Some [''storage'' \<mapsto> NewQuantity 10], pvc_rest = []\<rparr>,
      tp_BackupLocationName = [],
      tp_Vttablet = \<lparr>vt_resources = \<lparr>limits = None, requests = None\<rparr>, vt_extraFlags = [],
         vt_vtbackupExtraFlags = [], vt_lifecycle = [], vt_terminationGracePeriod = None\<rparr>,
      tp_Mysqld = None, tp_MysqldExporter = None, tp_ExternalDatastore = None, tp_Annotations = [], tp_ExtraLabels = [], tp_Affinity = None, tp_ExtraEnv = [],
      tp_ExtraVolumes = [], tp_ExtraVolumeMounts = [], tp_InitContainers = [], tp_SidecarContainers = [],
      tp_Tolerations = [], tp_TopologySpreadConstraints = []\<rparr>"

definition example_template :: "tablet_pool list \<Rightarrow> shard_template" where
  "example_template pools =
     \<lparr>st_TabletPools = pools, st_DatabaseInitScriptSecret = no_secret,
      st_Replication = \<lparr>rs_InitializeMaster = None, rs_InitializeBackup = None, rs_RecoverRestartedMaster = None\<rparr>,
      st_Annotations = None\<rparr>"

text \<open>A generator that knows one and two parts.\<close>

definition example_gen :: range_generator where
  "example_gen parts width =
     (if parts = 1 then Some [''-''] else if parts = 2 then Some [''-80'', ''80-''] else None)"

definition example_equal :: "32 word \<Rightarrow> partitioning" where
  "example_equal n = \<lparr>pt_Equal = Some \<lparr>ep_Parts = n, ep_HexWidth = 0,
     ep_ShardTemplate = example_template [example_pool ''z1'' 2, example_pool ''z2'' 1]\<rparr>, pt_Custom = None\<rparr>"

theorem ShardTemplates_spec_witness:
  "\<exists>shards. ShardTemplates example_gen rev [example_equal 1, example_equal 2] = Some shards
     \<and> map ks_KeyRange shards = [VitessKeyRange [] ''80'', VitessKeyRange [] [], VitessKeyRange ''80'' []]
     \<and> map ks_KeyRange shards =
         sorted_list_of_set (dom (defined_shards example_gen [example_equal 1, example_equal 2]))"
proof -
  have run: "case ShardTemplates example_gen rev [example_equal 1, example_equal 2] of None \<Rightarrow> False
      | Some shards \<Rightarrow> map ks_KeyRange shards = [VitessKeyRange [] ''80'', VitessKeyRange [] [], VitessKeyRange ''80'' []]"
    by code_simp
  then obtain shards where sh: "ShardTemplates example_gen rev [example_equal 1, example_equal 2] = Some shards"
    "map ks_KeyRange shards = [VitessKeyRange [] ''80'', VitessKeyRange [] [], VitessKeyRange ''80'' []]"
    by (auto split: option.splits)
  then show ?thesis using ShardTemplates_spec [OF sh(1)] by auto
qed

section \<open>Replica counts\<close>

text \<open>What validation ensures of a partitioning: its shards have different key ranges, and an equal
  partitioning into n parts has n of them.\<close>

definition ranges_ok :: "range_generator \<Rightarrow> partitioning \<Rightarrow> bool" where
  "ranges_ok gen p =
     (case pt_Equal p of
        Some e \<Rightarrow> (case KeyRanges gen e of None \<Rightarrow> False
           | Some krs \<Rightarrow> distinct krs \<and> of_nat (length krs) = ep_Parts e)
      | None \<Rightarrow> (case pt_Custom p of None \<Rightarrow> True | Some shards \<Rightarrow> distinct (map ks_KeyRange shards)))"

lemma fold_sum_replicas:
  "fold (\<lambda>s n. fold (\<lambda>pool n. n + tp_Replicas pool) (st_TabletPools s) n) shards n
     = n + sum_list (map (\<lambda>s. sum_replicas (st_TabletPools s)) shards)"
  by (induction shards arbitrary: n) (simp_all add: sum_replicas_fold sum_replicas_list add.assoc)

lemma sum_replicas_concat:
  "sum_replicas (concat pss) = sum_list (map sum_replicas pss)"
  by (induction pss) (simp_all add: sum_replicas_list)

lemma map_of_rev_distinct:
  "distinct (map f xs) \<Longrightarrow> map_of (rev (map (\<lambda>x. (f x, x)) xs)) k = Some y \<longleftrightarrow> y \<in> set xs \<and> f y = k"
  by (subst map_of_eq_Some_iff) (auto simp: rev_map [symmetric] comp_def distinct_map)

lemma desired_sum:
  assumes "map ks_KeyRange shards = sorted_list_of_set (dom (defined_shards gen [p]))"
    "\<And>s. s \<in> set shards \<longleftrightarrow> defined_shards gen [p] (ks_KeyRange s) = Some s" "ranges_ok gen p"
  shows "sum_list (map (\<lambda>s. sum_replicas (st_TabletPools s)) shards) = TotalReplicas p"
proof -
  let ?f = "\<lambda>s :: keyrange_shard. sum_replicas (st_TabletPools s)"
  have "distinct shards" using assms(1) by (metis distinct_map distinct_sorted_list_of_set)
  then have sum: "sum_list (map ?f shards) = sum ?f (set shards)"
    by (rule sum_list_distinct_conv_sum_set)
  have def_p: "defined_shards gen [p] = defined_by gen p" by (simp add: defined_shards_def)
  show ?thesis
  proof (cases "pt_Equal p")
    case (Some e)
    obtain krs where krs: "KeyRanges gen e = Some krs" "distinct krs" "of_nat (length krs) = ep_Parts e"
      using assms(3) Some by (auto simp: ranges_ok_def split: option.splits)
    let ?g = "equal_shard (ep_ShardTemplate e)"
    have key: "ks_KeyRange (?g kr) = kr" "st_TabletPools (?g kr) = st_TabletPools (ep_ShardTemplate e)" for kr
      by (simp_all add: equal_shard_def shard_template.defs)
    have mem: "s \<in> set shards \<longleftrightarrow> ks_KeyRange s \<in> set krs \<and> s = ?g (ks_KeyRange s)" for s
      using assms(2) [of s] Some krs(1) by (auto simp: def_p defined_by_def)
    have set: "set shards = ?g ` set krs"
      using mem key(1) by (auto simp: image_iff)
    have inj: "inj_on ?g (set krs)" using key(1) by (metis inj_onI)
    have "sum ?f (set shards) = (\<Sum>kr\<in>set krs. ?f (?g kr))"
      unfolding set by (rule sum.reindex_cong [OF inj]) auto
    also have "\<dots> = of_nat (length krs) * sum_replicas (st_TabletPools (ep_ShardTemplate e))"
      using krs(2) by (simp add: key(2) distinct_card)
    finally show ?thesis
      using sum krs(3) Some by (simp add: TotalReplicas_def mult.commute)
  next
    case None
    show ?thesis
    proof (cases "pt_Custom p")
      case (Some cs)
      then have "distinct (map ks_KeyRange cs)" using assms(3) None by (simp add: ranges_ok_def)
      moreover from this have "set shards = set cs"
        using assms(2) None Some by (auto simp: def_p defined_by_def map_of_rev_distinct)
      ultimately have "sum ?f (set shards) = sum_list (map ?f cs)"
        by (metis distinct_map sum_list_distinct_conv_sum_set)
      then show ?thesis
        using sum None Some by (simp add: TotalReplicas_def fold_sum_replicas)
    next
      case none: None
      then have "s \<notin> set shards" for s using assms(2) [of s] None by (simp add: def_p defined_by_def)
      then have "shards = []" by (cases shards) auto
      then show ?thesis using None none by (simp add: TotalReplicas_def)
    qed
  qed
qed

text \<open>The tablets the shards of a keyspace want add up to what its partitioning wants: the
  \<open>DesiredTablets\<close> of the shards that \<open>ShardTemplates\<close> yields sum to \<open>TotalReplicas\<close>, as
  \<open>int32\<close> values with wrap-around; and when the sum of the replicas of the pools of a custom partitioning
  fits into an \<open>int32\<close>, \<open>TotalReplicas\<close> is that sum.\<close>

theorem DesiredTablets_total:
  assumes "ShardTemplates gen order [p] = Some shards" "\<And>ks. mset (order ks) = mset ks" "ranges_ok gen p"
  shows "sum_list (map (\<lambda>s. kss_DesiredTablets (NewVitessKeyspaceShardStatus s)) shards) = TotalReplicas p
    \<and> (\<forall>n. pt_Equal p = None \<longrightarrow> n = (\<Sum>pool\<leftarrow>TabletPools p. sint (tp_Replicas pool)) \<longrightarrow> 0 \<le> n \<longrightarrow> n < 2 ^ 31
         \<longrightarrow> sint (TotalReplicas p) = n)"
proof -
  have "sum_list (map (\<lambda>s. kss_DesiredTablets (NewVitessKeyspaceShardStatus s)) shards) = TotalReplicas p"
    using desired_sum [of shards gen p] ShardTemplates_sorted [OF assms(1,2)] assms(3)
    by (simp add: NewVitessKeyspaceShardStatus_def)
  moreover have "pt_Equal p = None \<Longrightarrow> TotalReplicas p = sum_replicas (TabletPools p)"
    by (auto simp: TotalReplicas_def TabletPools_def fold_sum_replicas sum_replicas_concat comp_def
        sum_replicas_list [of "[]"] split: option.split)
  ultimately show ?thesis using sum_replicas_exact [of "TabletPools p"] by simp
qed

theorem DesiredTablets_total_witness:
  "\<exists>shards. ShardTemplates example_gen rev [example_equal 2] = Some shards
     \<and> sum_list (map (\<lambda>s. kss_DesiredTablets (NewVitessKeyspaceShardStatus s)) shards) = 6"
proof -
  have "case ShardTemplates example_gen rev [example_equal 2] of None \<Rightarrow> False | Some shards \<Rightarrow> length shards = 2"
    by code_simp
  then obtain shards where sh: "ShardTemplates example_gen rev [example_equal 2] = Some shards"
    by (auto split: option.splits)
  have "ranges_ok example_gen (example_equal 2)" "TotalReplicas (example_equal 2) = 6"
    by code_simp+
  then show ?thesis using DesiredTablets_total [OF sh] sh by simp
qed

section \<open>Keeping existing partitionings\<close>

lemma partitioning_fold:
  assumes "fold_opt (\<lambda>p m. map_option (\<lambda>k. m(k \<mapsto> p)) (partitioningKey gen p)) dst m = Some m'"
  shows "m' k = (case find (\<lambda>p. partitioningKey gen p = Some k) (rev dst) of None \<Rightarrow> m k | Some p \<Rightarrow> Some p)
     \<and> (\<forall>p \<in> set dst. partitioningKey gen p \<noteq> None)"
  using assms
proof (induction dst arbitrary: m)
  case Nil
  then show ?case by simp
next
  case (Cons p dst)
  then obtain j where j: "partitioningKey gen p = Some j" by (auto split: option.splits)
  have "find P (xs @ [x]) = (case find P xs of None \<Rightarrow> if P x then Some x else None | Some y \<Rightarrow> Some y)"
    for P :: "partitioning \<Rightarrow> bool" and xs x
    by (induction xs) auto
  then show ?case
    using Cons.IH [of "m(j \<mapsto> p)"] Cons.prems j by (auto split: option.splits)
qed

lemma result_fold:
  assumes "fold_opt (\<lambda>p result. map_option (\<lambda>k. result @ [g k p]) (partitioningKey gen p)) src acc = Some r"
  shows "(\<forall>p \<in> set src. partitioningKey gen p \<noteq> None)
     \<and> r = acc @ map (\<lambda>p. g (the (partitioningKey gen p)) p) src"
  using assms
proof (induction src arbitrary: acc)
  case Nil
  then show ?case by simp
next
  case (Cons p src)
  then obtain k where "partitioningKey gen p = Some k" by (auto split: option.splits)
  then show ?case using Cons.IH [of "acc @ [g k p]"] Cons.prems by simp
qed

lemma PartitioningSet_result:
  assumes "PartitioningSet gen dst src = Some r"
  shows "r = map (\<lambda>p. case find (\<lambda>q. partitioningKey gen q = partitioningKey gen p) (rev dst) of
                 None \<Rightarrow> p | Some q \<Rightarrow> q) src"
    "p \<in> set src \<union> set dst \<Longrightarrow> partitioningKey gen p \<noteq> None"
proof -
  obtain m where m: "fold_opt (\<lambda>p m. map_option (\<lambda>k. m(k \<mapsto> p)) (partitioningKey gen p)) dst Map.empty = Some m"
    and r: "fold_opt (\<lambda>p result. map_option (\<lambda>k. result @ [case m k of Some q \<Rightarrow> q | None \<Rightarrow> p]) (partitioningKey gen p))
            src [] = Some r"
    using assms by (auto simp: PartitioningSet_def split: option.splits)
  have mk: "m k = find (\<lambda>p. partitioningKey gen p = Some k) (rev dst)" for k
    using partitioning_fold [OF m, of k] by (auto split: option.splits)
  note res = result_fold [where g = "\<lambda>k p. case m k of Some q \<Rightarrow> q | None \<Rightarrow> p", OF r]
  show "p \<in> set src \<union> set dst \<Longrightarrow> partitioningKey gen p \<noteq> None"
    using res partitioning_fold [OF m] by auto
  have "the (partitioningKey gen p) = k \<longleftrightarrow> partitioningKey gen p = Some k" if "p \<in> set src" for p k
    using res that by auto
  then show "r = map (\<lambda>p. case find (\<lambda>q. partitioningKey gen q = partitioningKey gen p) (rev dst) of
                 None \<Rightarrow> p | Some q \<Rightarrow> q) src"
    using res by (auto simp: mk intro!: map_cong split: option.split)
qed

text \<open>Changing the set of partitionings never edits an existing one.  The result of \<open>PartitioningSet\<close>
  has the partitionings of the source in their order, by the sets of shards they contain, and
  for each one the destination already had it keeps the destination's (latest) content; running
  the update again changes nothing.\<close>

theorem PartitioningSet_keeps_content:
  assumes "PartitioningSet gen dst src = Some r"
  shows "map (partitioningKey gen) r = map (partitioningKey gen) src
    \<and> r = map (\<lambda>p. case find (\<lambda>q. partitioningKey gen q = partitioningKey gen p) (rev dst) of
                 None \<Rightarrow> p | Some q \<Rightarrow> q) src
    \<and> (\<forall>r'. distinct (map (partitioningKey gen) src) \<longrightarrow> PartitioningSet gen r src = Some r' \<longrightarrow> r' = r)"
proof (intro conjI allI impI)
  let ?pick = "\<lambda>dst p. case find (\<lambda>q. partitioningKey gen q = partitioningKey gen p) (rev dst) of None \<Rightarrow> p | Some q \<Rightarrow> q"
  have key: "partitioningKey gen (?pick dst p) = partitioningKey gen p" for dst p
    by (auto simp: find_Some_iff split: option.splits)
  show r: "r = map (?pick dst) src" by (rule PartitioningSet_result(1) [OF assms])
  show "map (partitioningKey gen) r = map (partitioningKey gen) src" unfolding r by (simp add: key)
  fix r' assume dist: "distinct (map (partitioningKey gen) src)" and r': "PartitioningSet gen r src = Some r'"
  have "?pick r p = ?pick dst p" if "p \<in> set src" for p
  proof -
    have mem: "?pick dst p \<in> set (rev r)" unfolding r using that by simp
    then obtain q where q: "find (\<lambda>q. partitioningKey gen q = partitioningKey gen p) (rev r) = Some q"
      using key [of p dst] by (cases "find (\<lambda>q. partitioningKey gen q = partitioningKey gen p) (rev r)")
        (auto simp: find_None_iff)
    then have "q \<in> set r" "partitioningKey gen q = partitioningKey gen p"
      by (auto simp: find_Some_iff in_set_conv_nth) (metis length_rev nth_mem set_rev in_set_conv_nth)
    then obtain p' where "p' \<in> set src" "q = ?pick dst p'" "partitioningKey gen p' = partitioningKey gen p"
      unfolding r using key by auto
    then show ?thesis using dist that q by (auto simp: distinct_map dest: inj_onD)
  qed
  then show "r' = r" unfolding PartitioningSet_result(1) [OF r'] r by simp
qed

theorem PartitioningSet_keeps_content_witness:
  "\<exists>r. PartitioningSet example_gen [example_equal 2] [example_equal 1, example_equal 2] = Some r
     \<and> map (partitioningKey example_gen) r = [Some ''-'', Some ''-80,80-'']"
proof -
  have "case PartitioningSet example_gen [example_equal 2] [example_equal 1, example_equal 2] of
      None \<Rightarrow> False | Some r \<Rightarrow> length r = 2"
    by code_simp
  then obtain r where r: "PartitioningSet example_gen [example_equal 2] [example_equal 1, example_equal 2] = Some r"
    by (auto split: option.splits)
  have "map (partitioningKey example_gen) [example_equal 1, example_equal 2] = [Some ''-'', Some ''-80,80-'']"
    by code_simp
  then show ?thesis using PartitioningSet_keeps_content [OF r] r by metis
qed

section \<open>Disk sizes only\<close>

definition erase_requests :: "resource_list \<Rightarrow> string \<rightharpoonup> quantity" where
  "erase_requests rl = (case rl of None \<Rightarrow> Map.empty | Some m \<Rightarrow> m(''storage'' := None))"

text \<open>A pool without the size of its disk, and a partitioning without any disk sizes.\<close>

definition erase_pool :: "tablet_pool \<Rightarrow> tablet_pool" where
  "erase_pool p = p\<lparr>tp_DataVolumeClaimTemplate :=
     map_option (\<lambda>t. t\<lparr>pvc_requests := Some (erase_requests (pvc_requests t))\<rparr>) (tp_DataVolumeClaimTemplate p)\<rparr>"

definition erase_shard :: "'a shard_template_scheme \<Rightarrow> 'a shard_template_scheme" where
  "erase_shard s = s\<lparr>st_TabletPools := map erase_pool (st_TabletPools s)\<rparr>"

definition erase_partitioning :: "partitioning \<Rightarrow> partitioning" where
  "erase_partitioning p = p\<lparr>
     pt_Equal := map_option (\<lambda>e. e\<lparr>ep_ShardTemplate := erase_shard (ep_ShardTemplate e)\<rparr>) (pt_Equal p),
     pt_Custom := map_option (map erase_shard) (pt_Custom p)\<rparr>"

lemma erase_StorageResource [simp]: "erase_requests (StorageResource dst src) = erase_requests dst"
  by (auto simp: erase_requests_def StorageResource_def split: option.split)

lemma update_pool_size_erase: "update_pool_size src d = Some p \<Longrightarrow> erase_pool p = erase_pool d"
  by (auto simp: update_pool_size_def erase_pool_def split: option.splits)

lemma update_pools_erase: "updateTabletPoolDiskSize dst src = Some ps \<Longrightarrow> map erase_pool ps = map erase_pool dst"
  unfolding updateTabletPoolDiskSize_def
  by (induction dst arbitrary: ps) (auto split: option.splits dest: update_pool_size_erase)

lemma update_custom_erase: "update_custom_sizes dst src = Some c \<Longrightarrow> map erase_shard c = map erase_shard dst"
  by (induction dst src arbitrary: c rule: update_custom_sizes.induct)
    (auto simp: erase_shard_def update_pools_erase split: option.splits)

lemma update_partitioning_erase:
  "update_partitioning_size d s = Some p \<Longrightarrow> erase_partitioning p = erase_partitioning d"
  by (auto simp: update_partitioning_size_def erase_partitioning_def erase_shard_def update_pools_erase
      dest!: update_custom_erase split: option.splits)

lemma updateDiskSize_erase:
  "updateDiskSize dst src = Some r \<Longrightarrow> map erase_partitioning r = map erase_partitioning dst"
  by (induction dst src arbitrary: r rule: updateDiskSize.induct)
    (auto dest: update_partitioning_erase split: option.splits)

text \<open>The pools that have a match with a claim template in the source get its storage request.\<close>

definition storage_of :: "tablet_pool \<Rightarrow> quantity option" where
  "storage_of p = (case tp_DataVolumeClaimTemplate p of None \<Rightarrow> None
     | Some t \<Rightarrow> (case pvc_requests t of None \<Rightarrow> None | Some m \<Rightarrow> m ''storage''))"

definition wanted_storage :: "tablet_pool list \<Rightarrow> tablet_pool \<Rightarrow> quantity option" where
  "wanted_storage src d =
     (case matchingTabletPool d src of None \<Rightarrow> storage_of d
      | Some w \<Rightarrow> (case storage_of w of None \<Rightarrow> storage_of d | Some q \<Rightarrow> Some q))"

lemma update_pool_size_storage: "update_pool_size src d = Some p \<Longrightarrow> storage_of p = wanted_storage src d"
  by (auto simp: update_pool_size_def storage_of_def wanted_storage_def StorageResource_def split: option.splits)

text \<open>Updating disk sizes changes nothing else.  Whatever \<open>KeyspaceDiskSize\<close> returns agrees with the
  old partitionings in everything but the storage requests of the pools; it is the old value
  when the partitionings do not line up; and in each pool list it updates, every pool gets the
  storage request of the first source pool with its type, cell and name that has one.\<close>

theorem KeyspaceDiskSize_only_storage:
  assumes "KeyspaceDiskSize dst src = Some r"
  shows "map erase_partitioning r = map erase_partitioning dst
    \<and> (\<not> keyspacePartitioningsAreValid dst src \<longrightarrow> r = dst)
    \<and> (\<forall>ps ds ss. updateTabletPoolDiskSize ds ss = Some ps \<longrightarrow> map storage_of ps = map (wanted_storage ss) ds)"
  using assms updateDiskSize_erase [of dst src r] update_pool_size_storage
  by (auto simp: KeyspaceDiskSize_def updateTabletPoolDiskSize_def intro!: map_opt_map split: if_splits)

theorem KeyspaceDiskSize_only_storage_witness:
  "\<exists>r. KeyspaceDiskSize [example_equal 2] [example_equal 2] = Some r
     \<and> map erase_partitioning r = [erase_partitioning (example_equal 2)]"
proof -
  have "case KeyspaceDiskSize [example_equal 2] [example_equal 2] of None \<Rightarrow> False | Some r \<Rightarrow> True"
    by code_simp
  then obtain r where "KeyspaceDiskSize [example_equal 2] [example_equal 2] = Some r"
    by (auto split: option.splits)
  then show ?thesis using KeyspaceDiskSize_only_storage [of "[example_equal 2]" "[example_equal 2]" r] by auto
qed

end
