(* ===== verification/Defaults.thy ===== *)
theory Defaults
  imports Keyspace Lockserver
begin

text \<open>
  The specs of the cluster and the cells (\<open>vitesscluster_types.go\<close>, \<open>vitesscell_types.go\<close>) and the functions
  that fill in what the user left out (\<open>vitesscluster_defaults.go\<close>, \<open>vitesskeyspace_defaults.go\<close>,
  \<open>vitesscell_defaults.go\<close>, \<open>etcdlockserver_defaults.go\<close>), in place, as functions of the old value.
  A pointer is an \<open>option\<close>; the command line's \<open>DefaultEtcdImage\<close> is an argument.
\<close>

section \<open>The contract of a defaulting function\<close>

text \<open>
  It establishes what later code relies on and leaves complete values alone, so it can run any
  number of times: the controllers default the same object on every pass.
\<close>

locale defaulting =
  fixes default :: "'a \<Rightarrow> 'a" and complete :: "'a \<Rightarrow> bool"
  assumes completes: "complete (default x)"
    and keeps: "complete x \<Longrightarrow> default x = x"
begin

lemma idempotent: "default (default x) = default x"
  by (rule keeps) (rule completes)

lemma complete_iff: "complete x \<longleftrightarrow> default x = x"
  using completes [of x] keeps by auto

lemma on_list: "defaulting (map default) (list_all complete)"
proof
  show "list_all complete (map default xs)" for xs using completes by (simp add: list_all_iff)
  show "list_all complete xs \<Longrightarrow> map default xs = xs" for xs
    using keeps by (simp add: list_all_iff map_idI)
qed

lemma on_option: "defaulting (map_option default) (case_option True complete)"
  by unfold_locales (auto simp: completes keeps split: option.splits)

end

section \<open>Specs\<close>

record TopoReconcileConfig =
  tr_RegisterCellsAliases :: "bool option"
  tr_RegisterCells :: "bool option"
  tr_PruneCells :: "bool option"
  tr_PruneKeyspaces :: "bool option"
  tr_PruneSrvKeyspaces :: "bool option"
  tr_PruneShards :: "bool option"
  tr_PruneShardCells :: "bool option"
  tr_PruneTablets :: "bool option"

definition ExternalVitessClusterUpdateStrategyType :: string where
  "ExternalVitessClusterUpdateStrategyType = ''External''"

definition ImmediateVitessClusterUpdateStrategyType :: string where
  "ImmediateVitessClusterUpdateStrategyType = ''Immediate''"

record VitessClusterUpdateStrategy =
  us_Type :: "string option"
  us_External :: "string list option"

record MysqldImage =
  mi_Mysql56Compatible :: string
  mi_Mysql80Compatible :: string
  mi_MariadbCompatible :: string
  mi_Mariadb103Compatible :: string

record MysqldImageNew =
  mn_Mysql56Compatible :: string
  mn_Mysql80Compatible :: string

record VitessImages =
  im_Vtctld :: string
  im_Vtadmin :: string
  im_Vtorc :: string
  im_Vtgate :: string
  im_Vttablet :: string
  im_Vtbackup :: string
  im_Mysqld :: "MysqldImage option"
  im_MysqldExporter :: string

record VitessKeyspaceImages =
  ki_Vttablet :: string
  ki_Vtorc :: string
  ki_Vtbackup :: string
  ki_Mysqld :: "MysqldImage option"
  ki_MysqldExporter :: string

record VitessKeyspaceTemplateImages =
  kt_Vttablet :: string
  kt_Vtorc :: string
  kt_Vtbackup :: string
  kt_Mysqld :: "MysqldImageNew option"
  kt_MysqldExporter :: string

record VitessDashboardSpec = pod_extras +
  db_Cells :: "string list"
  db_Replicas :: "32 word option"
  db_Resources :: listed_resources
  db_Service :: "service_overrides option"

record VtAdminSpec = pod_extras +
  va_Rbac :: "opaque option"
  va_Cells :: "string list"
  va_APIAddresses :: "string list"
  va_Replicas :: "32 word option"
  va_WebResources :: listed_resources
  va_APIResources :: listed_resources
  va_FetchCredentials :: string
  va_ReadOnly :: "bool option"
  va_Service :: "service_overrides option"

record VitessOrchestratorSpec = pod_extras +
  vo_Resources :: listed_resources
  vo_Service :: "service_overrides option"

text \<open>The TLS part of \<open>SecureTransport\<close>: the three secrets of its \<open>TLS\<close> field, and whether it is required.\<close>

record VitessGatewayTLS =
  tls_ClientCACertSecret :: "SecretSource option"
  tls_CertSecret :: "SecretSource option"
  tls_KeySecret :: "SecretSource option"

record VitessGatewaySecureTransport =
  gst_Required :: bool
  gst_TLS :: "VitessGatewayTLS option"

record VitessCellGatewaySpec = pod_extras +
  gw_Replicas :: "32 word option"
  gw_Autoscaler :: "opaque option"
  gw_Resources :: listed_resources
  gw_StaticAuthentication :: "SecretSource option"
  gw_SecureTransport :: "VitessGatewaySecureTransport option"
  gw_Service :: "service_overrides option"
  gw_TopologySpreadConstraints :: "topology_spread_constraint list"
  gw_Lifecycle :: opaque
  gw_TerminationGracePeriodSeconds :: "int option"
  gw_Strategy :: opaque

record VitessCellTemplate =
  ct_Name :: string
  ct_Zone :: string
  ct_Lockserver :: LockserverSpec
  ct_Gateway :: VitessCellGatewaySpec

record VitessKeyspaceTemplate =
  kt_Name :: string
  kt_DatabaseName :: string
  kt_DurabilityPolicy :: string
  kt_VitessOrchestrator :: "VitessOrchestratorSpec option"
  kt_Partitionings :: "partitioning list"
  kt_TurndownPolicy :: string
  kt_Annotations :: "(string \<rightharpoonup> string) option"
  kt_Images :: VitessKeyspaceTemplateImages
  kt_SidecarDbName :: string

record ClusterBackupSpec =
  cb_Locations :: "backup_location list"
  cb_Engine :: string
  cb_Subcontroller :: "opaque option"
  cb_Schedules :: "opaque list"

record VitessClusterSpec =
  vc_Images :: VitessImages
  vc_ImagePullPolicies :: VitessImagePullPolicies
  vc_ImagePullSecrets :: "string list"
  vc_Backup :: "ClusterBackupSpec option"
  vc_GlobalLockserver :: LockserverSpec
  vc_VitessDashboard :: "VitessDashboardSpec option"
  vc_VtAdmin :: "VtAdminSpec option"
  vc_Cells :: "VitessCellTemplate list"
  vc_Keyspaces :: "VitessKeyspaceTemplate list"
  vc_ExtraVitessFlags :: "(string, string) gomap"
  vc_TopologyReconciliation :: "TopoReconcileConfig option"
  vc_UpdateStrategy :: "VitessClusterUpdateStrategy option"
  vc_GatewayService :: "service_overrides option"
  vc_TabletService :: "service_overrides option"

section \<open>Methods\<close>

text \<open>The cell template with that name; the zone map of the cluster, later cells overwriting earlier ones.\<close>

definition cluster_Cell :: "VitessClusterSpec \<Rightarrow> string \<Rightarrow> VitessCellTemplate option" where
  "cluster_Cell s cellName = find (\<lambda>c. ct_Name c = cellName) (vc_Cells s)"

definition ZoneMap :: "VitessClusterSpec \<Rightarrow> string \<rightharpoonup> string" where
  "ZoneMap s = fold (\<lambda>cell zones. zones(ct_Name cell \<mapsto> ct_Zone cell)) (vc_Cells s) Map.empty"

definition MysqldImage_Image :: "MysqldImage \<Rightarrow> string" where
  "MysqldImage_Image i =
     (if mi_Mysql56Compatible i \<noteq> [] then mi_Mysql56Compatible i
      else if mi_Mysql80Compatible i \<noteq> [] then mi_Mysql80Compatible i
      else if mi_MariadbCompatible i \<noteq> [] then mi_MariadbCompatible i
      else if mi_Mariadb103Compatible i \<noteq> [] then mi_Mariadb103Compatible i
      else [])"

definition MysqldImage_Flavor :: "MysqldImage \<Rightarrow> string" where
  "MysqldImage_Flavor i =
     (if mi_Mysql56Compatible i \<noteq> [] then ''MySQL56''
      else if mi_Mysql80Compatible i \<noteq> [] then ''MySQL80''
      else if mi_MariadbCompatible i \<noteq> [] then ''MariaDB''
      else if mi_Mariadb103Compatible i \<noteq> [] then ''MariaDB103''
      else [])"

definition SecretSource_IsSet :: "SecretSource \<Rightarrow> bool" where
  "SecretSource_IsSet s \<longleftrightarrow> sec_Key s \<noteq> [] \<and> (sec_Name s \<noteq> [] \<or> sec_VolumeName s \<noteq> [])"

text \<open>The secrets whose change restarts the gateways: those of the TLS configuration and of the extra volumes.\<close>

definition ReloadSecretNames :: "VitessCellGatewaySpec \<Rightarrow> string set" where
  "ReloadSecretNames s =
     set (case gw_SecureTransport s of
            None \<Rightarrow> []
          | Some st \<Rightarrow>
              (case gst_TLS st of
                 None \<Rightarrow> []
               | Some tls \<Rightarrow>
                   (case tls_ClientCACertSecret tls of None \<Rightarrow> [] | Some c \<Rightarrow> [sec_Name c])
                   @ (case tls_CertSecret tls of None \<Rightarrow> [] | Some c \<Rightarrow> [sec_Name c])
                   @ (case tls_KeySecret tls of None \<Rightarrow> [] | Some c \<Rightarrow> [sec_Name c])))
     \<union> set (List.map_filter vol_secretName (px_ExtraVolumes s))"


section \<open>Filling in defaults\<close>

definition fill :: "'a \<Rightarrow> 'a option \<Rightarrow> 'a option" where
  "fill d x = (case x of None \<Rightarrow> Some d | Some y \<Rightarrow> Some y)"

definition fill_list :: "'a list \<Rightarrow> 'a list \<Rightarrow> 'a list" where
  "fill_list d x = (if length x = 0 then d else x)"

lemma fill_simps [simp]:
  "fill d None = Some d" "fill d (Some y) = Some y" "fill d x \<noteq> None" "x \<noteq> None \<Longrightarrow> fill d x = x"
  "\<exists>y. fill d x = Some y"
  by (auto simp: fill_def split: option.split)

lemma fill_list_simps [simp]:
  "fill_list d [] = d" "x \<noteq> [] \<Longrightarrow> fill_list d x = x" "fill_list d x = [] \<longleftrightarrow> d = [] \<and> x = []"
  by (auto simp: fill_list_def)

lemma fill_list_again [simp]: "fill_list d (fill_list d x) = fill_list d x"
  by (simp add: fill_list_def)

definition Mi :: int where "Mi = 2 ^ 20"
definition Gi :: int where "Gi = 2 ^ 30"

text \<open>The CPU request and the memory request and limit of a component.\<close>

definition default_requests :: "int \<Rightarrow> int \<Rightarrow> (string, quantity) gomap" where
  "default_requests cpuMillis memoryBytes =
     [(''cpu'', NewMilliQuantity cpuMillis), (''memory'', NewQuantity memoryBytes)]"

definition default_limits :: "int \<Rightarrow> (string, quantity) gomap" where
  "default_limits memoryBytes = [(''memory'', NewQuantity memoryBytes)]"

definition default_resources :: "int \<Rightarrow> int \<Rightarrow> listed_resources \<Rightarrow> listed_resources" where
  "default_resources cpuMillis memoryBytes r =
     \<lparr>lr_requests = fill_list (default_requests cpuMillis memoryBytes) (lr_requests r),
      lr_limits = fill_list (default_limits memoryBytes) (lr_limits r)\<rparr>"

definition resources_set :: "listed_resources \<Rightarrow> bool" where
  "resources_set r \<longleftrightarrow> lr_requests r \<noteq> [] \<and> lr_limits r \<noteq> []"

interpretation resources: defaulting "default_resources cpu mem" resources_set for cpu mem
  by unfold_locales
    (auto simp: default_resources_def resources_set_def default_requests_def default_limits_def)

definition DefaultServiceOverrides :: "service_overrides option \<Rightarrow> service_overrides option" where
  "DefaultServiceOverrides so = fill \<lparr>so_Annotations = [], so_ClusterIP = []\<rparr> so"

interpretation overrides: defaulting DefaultServiceOverrides "\<lambda>so. so \<noteq> None"
  by unfold_locales (simp_all add: DefaultServiceOverrides_def)

lemma overrides_Some [simp]: "\<exists>y. DefaultServiceOverrides x = Some y"
  using overrides.completes by auto

definition DefaultEtcdLockserverTemplate :: "string \<Rightarrow> etcd_template \<Rightarrow> etcd_template" where
  "DefaultEtcdLockserverTemplate DefaultEtcdImage ls =
     ls\<lparr>et_Image := fill_list DefaultEtcdImage (et_Image ls),
        et_AccessModes := fill_list [''ReadWriteOnce''] (et_AccessModes ls),
        et_StorageRequests :=
          (if map_of (et_StorageRequests ls) ''storage'' = None
           then AList.update ''storage'' (NewQuantity (1 * Gi)) (et_StorageRequests ls)
           else et_StorageRequests ls),
        et_Resources := default_resources 100 (256 * Mi) (et_Resources ls),
        et_CreatePDB := fill True (et_CreatePDB ls),
        et_CreateClientService := fill True (et_CreateClientService ls),
        et_CreatePeerService := fill True (et_CreatePeerService ls),
        et_ClientService := DefaultServiceOverrides (et_ClientService ls),
        et_PeerService := DefaultServiceOverrides (et_PeerService ls)\<rparr>"

definition etcd_set :: "string \<Rightarrow> etcd_template \<Rightarrow> bool" where
  "etcd_set img ls \<longleftrightarrow>
     (et_Image ls = [] \<longrightarrow> img = []) \<and> et_AccessModes ls \<noteq> [] \<and> map_of (et_StorageRequests ls) ''storage'' \<noteq> None
     \<and> resources_set (et_Resources ls) \<and> et_CreatePDB ls \<noteq> None \<and> et_CreateClientService ls \<noteq> None
     \<and> et_CreatePeerService ls \<noteq> None \<and> et_ClientService ls \<noteq> None \<and> et_PeerService ls \<noteq> None"

interpretation etcd: defaulting "DefaultEtcdLockserverTemplate img" "etcd_set img" for img
proof
  show "etcd_set img (DefaultEtcdLockserverTemplate img ls)" for ls
    by (auto simp: etcd_set_def DefaultEtcdLockserverTemplate_def update_conv' overrides.completes resources.completes)
  show "etcd_set img ls \<Longrightarrow> DefaultEtcdLockserverTemplate img ls = ls" for ls
    by (cases "et_Image ls = []")
      (auto simp: etcd_set_def DefaultEtcdLockserverTemplate_def overrides.keeps resources.keeps)
qed

definition defaultGlobalLockserver :: "string \<Rightarrow> LockserverSpec \<Rightarrow> LockserverSpec" where
  "defaultGlobalLockserver img gls =
     (if lss_External gls \<noteq> None then gls
      else gls\<lparr>lss_Etcd := Some (DefaultEtcdLockserverTemplate img
                  (case lss_Etcd gls of None \<Rightarrow> empty_etcd_template | Some e \<Rightarrow> e))\<rparr>)"

definition DefaultLocalLockserver :: "string \<Rightarrow> LockserverSpec \<Rightarrow> LockserverSpec" where
  "DefaultLocalLockserver img ls =
     (if lss_External ls \<noteq> None then ls
      else ls\<lparr>lss_Etcd := map_option (DefaultEtcdLockserverTemplate img) (lss_Etcd ls)\<rparr>)"

interpretation global_lockserver: defaulting "defaultGlobalLockserver img"
    "\<lambda>ls. lss_External ls \<noteq> None \<or> (\<exists>e. lss_Etcd ls = Some e \<and> etcd_set img e)" for img
  by unfold_locales (auto simp: defaultGlobalLockserver_def etcd.completes etcd.keeps split: option.split)

interpretation local_lockserver: defaulting "DefaultLocalLockserver img"
    "\<lambda>ls. lss_External ls \<noteq> None \<or> (\<forall>e. lss_Etcd ls = Some e \<longrightarrow> etcd_set img e)" for img
proof
  show "lss_External (DefaultLocalLockserver img ls) \<noteq> None \<or>
      (\<forall>e. lss_Etcd (DefaultLocalLockserver img ls) = Some e \<longrightarrow> etcd_set img e)" for ls
    by (auto simp: DefaultLocalLockserver_def etcd.completes)
  show "lss_External ls \<noteq> None \<or> (\<forall>e. lss_Etcd ls = Some e \<longrightarrow> etcd_set img e) \<Longrightarrow>
      DefaultLocalLockserver img ls = ls" for ls
    by (cases "lss_Etcd ls") (auto simp: DefaultLocalLockserver_def etcd.keeps)
qed

definition DefaultVitessImages :: "VitessImages \<Rightarrow> VitessImages \<Rightarrow> VitessImages" where
  "DefaultVitessImages dst src =
     dst\<lparr>im_Vtctld := fill_list (im_Vtctld src) (im_Vtctld dst),
         im_Vtadmin := fill_list (im_Vtadmin src) (im_Vtadmin dst),
         im_Vtorc := fill_list (im_Vtorc src) (im_Vtorc dst),
         im_Vtgate := fill_list (im_Vtgate src) (im_Vtgate dst),
         im_Vttablet := fill_list (im_Vttablet src) (im_Vttablet dst),
         im_Vtbackup := fill_list (im_Vtbackup src) (im_Vtbackup dst),
         im_Mysqld := (if im_Mysqld dst = None then im_Mysqld src else im_Mysqld dst),
         im_MysqldExporter := fill_list (im_MysqldExporter src) (im_MysqldExporter dst)\<rparr>"

text \<open>\<open>DefaultImages\<close>, with the two images that a flag can change at their built-in values.\<close>

definition DefaultImages :: VitessImages where
  "DefaultImages =
     \<lparr>im_Vtctld = ''vitess/lite:latest'', im_Vtadmin = [], im_Vtorc = ''vitess/lite:latest'',
      im_Vtgate = ''vitess/lite:latest'', im_Vttablet = ''vitess/lite:latest'', im_Vtbackup = ''vitess/lite:latest'',
      im_Mysqld = Some \<lparr>mi_Mysql56Compatible = [], mi_Mysql80Compatible = ''mysql:8.0.40'',
        mi_MariadbCompatible = [], mi_Mariadb103Compatible = []\<rparr>,
      im_MysqldExporter = ''prom/mysqld-exporter:v0.18.0''\<rparr>"

definition images_set :: "VitessImages \<Rightarrow> VitessImages \<Rightarrow> bool" where
  "images_set src i \<longleftrightarrow>
     (im_Vtctld i = [] \<longrightarrow> im_Vtctld src = []) \<and> (im_Vtadmin i = [] \<longrightarrow> im_Vtadmin src = [])
     \<and> (im_Vtorc i = [] \<longrightarrow> im_Vtorc src = []) \<and> (im_Vtgate i = [] \<longrightarrow> im_Vtgate src = [])
     \<and> (im_Vttablet i = [] \<longrightarrow> im_Vttablet src = []) \<and> (im_Vtbackup i = [] \<longrightarrow> im_Vtbackup src = [])
     \<and> (im_Mysqld i = None \<longrightarrow> im_Mysqld src = None) \<and> (im_MysqldExporter i = [] \<longrightarrow> im_MysqldExporter src = [])"

lemma fill_list_id: "(x = [] \<longrightarrow> d = []) \<Longrightarrow> fill_list d x = x"
  by (auto simp: fill_list_def)

interpretation images: defaulting "\<lambda>i. DefaultVitessImages i src" "images_set src" for src
  by unfold_locales (auto simp: DefaultVitessImages_def images_set_def fill_list_id)

definition empty_dashboard :: VitessDashboardSpec where
  "empty_dashboard = pod_extras.extend empty_extras (VitessDashboardSpec.fields [] None no_resources None)"

definition DefaultVitessDashboard :: "VitessDashboardSpec option \<Rightarrow> VitessDashboardSpec option" where
  "DefaultVitessDashboard dashboard =
     (let d = (case dashboard of None \<Rightarrow> empty_dashboard | Some d \<Rightarrow> d)
      in Some (d\<lparr>db_Replicas := fill 1 (db_Replicas d),
                 db_Resources := default_resources 100 (128 * Mi) (db_Resources d),
                 db_Service := DefaultServiceOverrides (db_Service d)\<rparr>))"

interpretation dashboard: defaulting DefaultVitessDashboard
    "\<lambda>x. \<exists>d. x = Some d \<and> db_Replicas d \<noteq> None \<and> resources_set (db_Resources d) \<and> db_Service d \<noteq> None"
  by unfold_locales
    (auto simp: DefaultVitessDashboard_def Let_def overrides.completes overrides.keeps resources.completes resources.keeps)

definition DefaultVtAdmin :: "VtAdminSpec option \<Rightarrow> VtAdminSpec option" where
  "DefaultVtAdmin dashboard =
     (case dashboard of
        None \<Rightarrow> None
      | Some d \<Rightarrow>
          Some (d\<lparr>va_Replicas := fill 1 (va_Replicas d),
                  va_WebResources := default_resources 100 (128 * Mi) (va_WebResources d),
                  va_APIResources := default_resources 100 (128 * Mi) (va_APIResources d),
                  va_FetchCredentials := fill_list ''omit'' (va_FetchCredentials d),
                  va_Service := DefaultServiceOverrides (va_Service d)\<rparr>))"

interpretation vtadmin: defaulting DefaultVtAdmin
    "\<lambda>x. \<forall>d. x = Some d \<longrightarrow> va_Replicas d \<noteq> None \<and> resources_set (va_WebResources d)
        \<and> resources_set (va_APIResources d) \<and> va_FetchCredentials d \<noteq> [] \<and> va_Service d \<noteq> None"
  by unfold_locales
    (auto simp: DefaultVtAdmin_def overrides.completes overrides.keeps resources.completes resources.keeps
      split: option.split)


definition empty_orchestrator :: VitessOrchestratorSpec where
  "empty_orchestrator = pod_extras.extend empty_extras (VitessOrchestratorSpec.fields no_resources None)"

definition DefaultVitessOrchestrator :: "VitessOrchestratorSpec option \<Rightarrow> VitessOrchestratorSpec option" where
  "DefaultVitessOrchestrator vtorc =
     (let v = (case vtorc of None \<Rightarrow> empty_orchestrator | Some v \<Rightarrow> v)
      in Some (v\<lparr>vo_Resources := default_resources 100 (128 * Mi) (vo_Resources v),
                 vo_Service := DefaultServiceOverrides (vo_Service v)\<rparr>))"

interpretation orchestrator: defaulting DefaultVitessOrchestrator
    "\<lambda>x. \<exists>v. x = Some v \<and> resources_set (vo_Resources v) \<and> vo_Service v \<noteq> None"
  by unfold_locales
    (auto simp: DefaultVitessOrchestrator_def Let_def overrides.keeps resources.completes resources.keeps)

definition empty_topo_config :: TopoReconcileConfig where
  "empty_topo_config = \<lparr>tr_RegisterCellsAliases = None, tr_RegisterCells = None, tr_PruneCells = None,
     tr_PruneKeyspaces = None, tr_PruneSrvKeyspaces = None, tr_PruneShards = None, tr_PruneShardCells = None,
     tr_PruneTablets = None\<rparr>"

definition DefaultTopoReconcileConfig :: "TopoReconcileConfig option \<Rightarrow> TopoReconcileConfig option" where
  "DefaultTopoReconcileConfig confPtr =
     (let conf = (case confPtr of None \<Rightarrow> empty_topo_config | Some c \<Rightarrow> c)
      in Some \<lparr>tr_RegisterCellsAliases = fill True (tr_RegisterCellsAliases conf),
               tr_RegisterCells = fill True (tr_RegisterCells conf),
               tr_PruneCells = fill True (tr_PruneCells conf),
               tr_PruneKeyspaces = fill True (tr_PruneKeyspaces conf),
               tr_PruneSrvKeyspaces = fill True (tr_PruneSrvKeyspaces conf),
               tr_PruneShards = fill True (tr_PruneShards conf),
               tr_PruneShardCells = fill True (tr_PruneShardCells conf),
               tr_PruneTablets = fill True (tr_PruneTablets conf)\<rparr>)"

definition topo_config_set :: "TopoReconcileConfig option \<Rightarrow> bool" where
  "topo_config_set x \<longleftrightarrow> (case x of None \<Rightarrow> False | Some c \<Rightarrow>
     tr_RegisterCellsAliases c \<noteq> None \<and> tr_RegisterCells c \<noteq> None \<and> tr_PruneCells c \<noteq> None
     \<and> tr_PruneKeyspaces c \<noteq> None \<and> tr_PruneSrvKeyspaces c \<noteq> None \<and> tr_PruneShards c \<noteq> None
     \<and> tr_PruneShardCells c \<noteq> None \<and> tr_PruneTablets c \<noteq> None)"

interpretation topo_config: defaulting DefaultTopoReconcileConfig topo_config_set
proof
  show "topo_config_set (DefaultTopoReconcileConfig x)" for x
    by (simp add: topo_config_set_def DefaultTopoReconcileConfig_def Let_def)
  show "topo_config_set x \<Longrightarrow> DefaultTopoReconcileConfig x = x" for x
    by (cases x) (simp_all add: topo_config_set_def DefaultTopoReconcileConfig_def Let_def)
qed

definition DefaultUpdateStrategy :: "VitessClusterUpdateStrategy option \<Rightarrow> VitessClusterUpdateStrategy option" where
  "DefaultUpdateStrategy updateStratPtr =
     (let u = (case updateStratPtr of None \<Rightarrow> \<lparr>us_Type = None, us_External = None\<rparr> | Some u \<Rightarrow> u);
          u = u\<lparr>us_Type := fill ExternalVitessClusterUpdateStrategyType (us_Type u)\<rparr>
      in Some (if us_Type u = Some ExternalVitessClusterUpdateStrategyType
               then u\<lparr>us_External := fill [] (us_External u)\<rparr> else u))"

definition update_strategy_set :: "VitessClusterUpdateStrategy option \<Rightarrow> bool" where
  "update_strategy_set x \<longleftrightarrow> (case x of None \<Rightarrow> False | Some u \<Rightarrow>
     us_Type u \<noteq> None \<and> (us_Type u = Some ExternalVitessClusterUpdateStrategyType \<longrightarrow> us_External u \<noteq> None))"

interpretation update_strategy: defaulting DefaultUpdateStrategy update_strategy_set
  by unfold_locales
    (auto simp: update_strategy_set_def DefaultUpdateStrategy_def Let_def split: option.splits)

definition DefaultVitessGateway :: "VitessCellGatewaySpec \<Rightarrow> VitessCellGatewaySpec" where
  "DefaultVitessGateway gtway =
     gtway\<lparr>gw_Replicas := fill 2 (gw_Replicas gtway),
           gw_Resources := default_resources 500 (1 * Gi) (gw_Resources gtway),
           gw_Service := DefaultServiceOverrides (gw_Service gtway)\<rparr>"

interpretation gateway: defaulting DefaultVitessGateway
    "\<lambda>g. gw_Replicas g \<noteq> None \<and> resources_set (gw_Resources g) \<and> gw_Service g \<noteq> None"
  by unfold_locales
    (auto simp: DefaultVitessGateway_def overrides.keeps resources.completes resources.keeps)

text \<open>The replication flags of a shard template, and the shards of a keyspace template.\<close>

definition replication_set :: "'a shard_template_scheme \<Rightarrow> bool" where
  "replication_set s \<longleftrightarrow>
     rs_InitializeMaster (st_Replication s) \<noteq> None \<and> rs_InitializeBackup (st_Replication s) \<noteq> None
     \<and> rs_RecoverRestartedMaster (st_Replication s) \<noteq> None"

interpretation shard_templates: defaulting
    "DefaultVitessShardTemplate :: 'a shard_template_scheme \<Rightarrow> 'a shard_template_scheme" replication_set
  by unfold_locales
    (auto simp: DefaultVitessShardTemplate_def DefaultVitessReplicationSpec_def replication_set_def Let_def
      split: option.splits)

definition defaultCustomPartitioning :: "keyrange_shard list option \<Rightarrow> keyrange_shard list option" where
  "defaultCustomPartitioning customPartition = map_option (map DefaultVitessShardTemplate) customPartition"

definition defaultEqualPartitioning :: "equal_partitioning option \<Rightarrow> equal_partitioning option" where
  "defaultEqualPartitioning equalPartition =
     map_option (\<lambda>e. e\<lparr>ep_ShardTemplate := DefaultVitessShardTemplate (ep_ShardTemplate e)\<rparr>) equalPartition"

definition default_partitioning :: "partitioning \<Rightarrow> partitioning" where
  "default_partitioning p =
     p\<lparr>pt_Equal := defaultEqualPartitioning (pt_Equal p), pt_Custom := defaultCustomPartitioning (pt_Custom p)\<rparr>"

definition partitioning_set :: "partitioning \<Rightarrow> bool" where
  "partitioning_set p \<longleftrightarrow>
     (\<forall>e \<in> set_option (pt_Equal p). replication_set (ep_ShardTemplate e))
     \<and> case_option True (list_all replication_set) (pt_Custom p)"

interpretation equal_partitioning: defaulting defaultEqualPartitioning
    "\<lambda>x. \<forall>e \<in> set_option x. replication_set (ep_ShardTemplate e)"
  by unfold_locales
    (auto simp: defaultEqualPartitioning_def shard_templates.completes shard_templates.keeps
      intro: option.map_ident_strong)

interpretation custom_partitioning: defaulting defaultCustomPartitioning
    "case_option True (list_all replication_set)"
  using defaulting.on_option [OF shard_templates.on_list]
  unfolding defaultCustomPartitioning_def [abs_def] .

interpretation partitionings: defaulting default_partitioning partitioning_set
  using equal_partitioning.completes equal_partitioning.keeps custom_partitioning.completes custom_partitioning.keeps
  by unfold_locales (auto simp: default_partitioning_def partitioning_set_def)

definition VitessKeyspaceTurndownPolicyRequireIdle :: string where
  "VitessKeyspaceTurndownPolicyRequireIdle = ''RequireIdle''"

definition DefaultVitessKeyspaceTemplate :: "VitessKeyspaceTemplate \<Rightarrow> VitessKeyspaceTemplate" where
  "DefaultVitessKeyspaceTemplate keyspace =
     keyspace\<lparr>kt_TurndownPolicy := fill_list VitessKeyspaceTurndownPolicyRequireIdle (kt_TurndownPolicy keyspace),
              kt_Partitionings := map default_partitioning (kt_Partitionings keyspace)\<rparr>"

definition keyspace_template_set :: "VitessKeyspaceTemplate \<Rightarrow> bool" where
  "keyspace_template_set k \<longleftrightarrow> kt_TurndownPolicy k \<noteq> [] \<and> list_all partitioning_set (kt_Partitionings k)"

interpretation keyspace_template: defaulting DefaultVitessKeyspaceTemplate keyspace_template_set
  using defaulting.completes [OF partitionings.on_list] defaulting.keeps [OF partitionings.on_list]
  by unfold_locales
    (auto simp: DefaultVitessKeyspaceTemplate_def keyspace_template_set_def VitessKeyspaceTurndownPolicyRequireIdle_def)

definition DefaultVitessKeyspaceTemplates :: "VitessKeyspaceTemplate list \<Rightarrow> VitessKeyspaceTemplate list" where
  "DefaultVitessKeyspaceTemplates keyspaces = map DefaultVitessKeyspaceTemplate keyspaces"

interpretation keyspace_templates: defaulting DefaultVitessKeyspaceTemplates "list_all keyspace_template_set"
  using keyspace_template.on_list unfolding DefaultVitessKeyspaceTemplates_def .

definition defaultClusterBackup :: "ClusterBackupSpec option \<Rightarrow> ClusterBackupSpec option" where
  "defaultClusterBackup backup = map_option (\<lambda>b. b\<lparr>cb_Engine := fill_list ''builtin'' (cb_Engine b)\<rparr>) backup"

interpretation cluster_backup: defaulting defaultClusterBackup "\<lambda>x. \<forall>b \<in> set_option x. cb_Engine b \<noteq> []"
  by unfold_locales (auto simp: defaultClusterBackup_def intro: option.map_ident_strong)

definition DefaultVitessCluster :: "string \<Rightarrow> VitessClusterSpec \<Rightarrow> VitessClusterSpec" where
  "DefaultVitessCluster DefaultEtcdImage vt =
     vt\<lparr>vc_GlobalLockserver := defaultGlobalLockserver DefaultEtcdImage (vc_GlobalLockserver vt),
        vc_Images := DefaultVitessImages (vc_Images vt) DefaultImages,
        vc_VitessDashboard := DefaultVitessDashboard (vc_VitessDashboard vt),
        vc_VtAdmin := DefaultVtAdmin (vc_VtAdmin vt),
        vc_Keyspaces := DefaultVitessKeyspaceTemplates (vc_Keyspaces vt),
        vc_Backup := defaultClusterBackup (vc_Backup vt),
        vc_TopologyReconciliation := DefaultTopoReconcileConfig (vc_TopologyReconciliation vt),
        vc_UpdateStrategy := DefaultUpdateStrategy (vc_UpdateStrategy vt),
        vc_GatewayService := DefaultServiceOverrides (vc_GatewayService vt),
        vc_TabletService := DefaultServiceOverrides (vc_TabletService vt)\<rparr>"

text \<open>What the controllers dereference or rely on without asking.\<close>

definition cluster_ready :: "string \<Rightarrow> VitessClusterSpec \<Rightarrow> bool" where
  "cluster_ready img vt \<longleftrightarrow>
     (lss_External (vc_GlobalLockserver vt) \<noteq> None \<or> (\<exists>e. lss_Etcd (vc_GlobalLockserver vt) = Some e \<and> etcd_set img e))
     \<and> images_set DefaultImages (vc_Images vt)
     \<and> (\<exists>d. vc_VitessDashboard vt = Some d \<and> db_Replicas d \<noteq> None \<and> resources_set (db_Resources d) \<and> db_Service d \<noteq> None)
     \<and> (\<forall>d. vc_VtAdmin vt = Some d \<longrightarrow> va_Replicas d \<noteq> None \<and> resources_set (va_WebResources d)
            \<and> resources_set (va_APIResources d) \<and> va_FetchCredentials d \<noteq> [] \<and> va_Service d \<noteq> None)
     \<and> list_all keyspace_template_set (vc_Keyspaces vt)
     \<and> (\<forall>b \<in> set_option (vc_Backup vt). cb_Engine b \<noteq> [])
     \<and> topo_config_set (vc_TopologyReconciliation vt) \<and> update_strategy_set (vc_UpdateStrategy vt)
     \<and> vc_GatewayService vt \<noteq> None \<and> vc_TabletService vt \<noteq> None"

interpretation cluster: defaulting "DefaultVitessCluster img" "cluster_ready img" for img
proof
  fix vt
  show "cluster_ready img (DefaultVitessCluster img vt)"
    unfolding cluster_ready_def DefaultVitessCluster_def
    by (simp add: keyspace_templates.completes topo_config.completes update_strategy.completes overrides.completes)
      (intro conjI global_lockserver.completes [simplified] images.completes dashboard.completes [simplified]
        vtadmin.completes [simplified] cluster_backup.completes [simplified])
next
  fix vt
  assume r: "cluster_ready img vt"
  note parts = r [unfolded cluster_ready_def]
  have "defaultGlobalLockserver img (vc_GlobalLockserver vt) = vc_GlobalLockserver vt"
    by (rule global_lockserver.keeps) (use parts in blast)
  moreover have "DefaultVitessImages (vc_Images vt) DefaultImages = vc_Images vt"
    by (rule images.keeps) (use parts in blast)
  moreover have "DefaultVitessDashboard (vc_VitessDashboard vt) = vc_VitessDashboard vt"
    by (rule dashboard.keeps) (use parts in blast)
  moreover have "DefaultVtAdmin (vc_VtAdmin vt) = vc_VtAdmin vt"
    by (rule vtadmin.keeps) (use parts in blast)
  moreover have "defaultClusterBackup (vc_Backup vt) = vc_Backup vt"
    by (rule cluster_backup.keeps) (use parts in blast)
  ultimately show "DefaultVitessCluster img vt = vt"
    using parts by (simp add: DefaultVitessCluster_def keyspace_templates.keeps topo_config.keeps
        update_strategy.keeps overrides.keeps)
qed

section \<open>Keyspace and cell objects\<close>

definition DefaultVitessKeyspaceImages :: "VitessKeyspaceImages \<Rightarrow> VitessImages \<Rightarrow> VitessKeyspaceImages" where
  "DefaultVitessKeyspaceImages dst clusterDefaults =
     dst\<lparr>ki_Vttablet := fill_list (im_Vttablet clusterDefaults) (ki_Vttablet dst),
         ki_Vtorc := fill_list (im_Vtorc clusterDefaults) (ki_Vtorc dst),
         ki_Vtbackup := fill_list (im_Vtbackup clusterDefaults) (ki_Vtbackup dst),
         ki_Mysqld := (if ki_Mysqld dst = None then im_Mysqld clusterDefaults else ki_Mysqld dst),
         ki_MysqldExporter := fill_list (im_MysqldExporter clusterDefaults) (ki_MysqldExporter dst)\<rparr>"

text \<open>A nil \<open>dst.Mysqld\<close> is dereferenced when the source overrides the image.\<close>

definition override_image :: "string \<Rightarrow> string \<Rightarrow> string" where
  "override_image src dst = (if src \<noteq> [] then src else dst)"

definition MergeVitessKeyspaceTemplateImages ::
    "VitessKeyspaceImages \<Rightarrow> VitessKeyspaceTemplateImages \<Rightarrow> VitessKeyspaceImages option"
where
  "MergeVitessKeyspaceTemplateImages dst src =
     (let dst = dst\<lparr>ki_Vttablet := override_image (kt_Vttablet src) (ki_Vttablet dst),
                    ki_Vtorc := override_image (kt_Vtorc src) (ki_Vtorc dst),
                    ki_Vtbackup := override_image (kt_Vtbackup src) (ki_Vtbackup dst),
                    ki_MysqldExporter := override_image (kt_MysqldExporter src) (ki_MysqldExporter dst)\<rparr>
      in case kt_Mysqld src of
           None \<Rightarrow> Some dst
         | Some new \<Rightarrow>
             map_option (\<lambda>old. dst\<lparr>ki_Mysqld := Some (old\<lparr>mi_Mysql56Compatible := mn_Mysql56Compatible new,
                                                        mi_Mysql80Compatible := mn_Mysql80Compatible new\<rparr>)\<rparr>)
               (ki_Mysqld dst))"

definition DefaultVitessCellImages :: "string \<Rightarrow> VitessImages \<Rightarrow> string" where
  "DefaultVitessCellImages dstVtgate clusterDefaults = fill_list (im_Vtgate clusterDefaults) dstVtgate"

section \<open>Properties\<close>

lemma ZoneMap_fold:
  fixes cells :: "VitessCellTemplate list"
  shows "(fold (\<lambda>cell zones. zones(ct_Name cell \<mapsto> ct_Zone cell)) cells m) x \<noteq> None \<longleftrightarrow>
     m x \<noteq> None \<or> (\<exists>c \<in> set cells. ct_Name c = x)"
  by (induction cells arbitrary: m) auto

text \<open>The cells of the zone map are exactly the cells of the cluster.\<close>

lemma ZoneMap_dom: "ZoneMap s x \<noteq> None \<longleftrightarrow> cluster_Cell s x \<noteq> None"
  unfolding ZoneMap_def cluster_Cell_def by (subst ZoneMap_fold) (auto simp: find_None_iff)

section \<open>What the user set is kept\<close>

text \<open>
  \<open>kept old new\<close>: a field that was set has its value still.  One predicate per type says that for the fields a default may fill,
  and that all other fields are the same.
\<close>

abbreviation kept :: "'a option \<Rightarrow> 'a option \<Rightarrow> bool" where
  "kept old new \<equiv> \<forall>v. old = Some v \<longrightarrow> new = Some v"

abbreviation kept_list :: "'a list \<Rightarrow> 'a list \<Rightarrow> bool" where
  "kept_list old new \<equiv> old \<noteq> [] \<longrightarrow> new = old"

definition resources_kept :: "listed_resources \<Rightarrow> listed_resources \<Rightarrow> bool" where
  "resources_kept old new \<longleftrightarrow> kept_list (lr_requests old) (lr_requests new) \<and> kept_list (lr_limits old) (lr_limits new)"

definition etcd_kept :: "etcd_template \<Rightarrow> etcd_template \<Rightarrow> bool" where
  "etcd_kept old new \<longleftrightarrow>
     kept_list (et_Image old) (et_Image new) \<and> kept_list (et_AccessModes old) (et_AccessModes new)
     \<and> (\<forall>k v. map_of (et_StorageRequests old) k = Some v \<longrightarrow> map_of (et_StorageRequests new) k = Some v)
     \<and> resources_kept (et_Resources old) (et_Resources new) \<and> kept (et_CreatePDB old) (et_CreatePDB new)
     \<and> kept (et_CreateClientService old) (et_CreateClientService new) \<and> kept (et_CreatePeerService old) (et_CreatePeerService new)
     \<and> kept (et_ClientService old) (et_ClientService new) \<and> kept (et_PeerService old) (et_PeerService new)
     \<and> new = old\<lparr>et_Image := et_Image new, et_AccessModes := et_AccessModes new, et_StorageRequests := et_StorageRequests new,
          et_Resources := et_Resources new, et_CreatePDB := et_CreatePDB new, et_CreateClientService := et_CreateClientService new,
          et_CreatePeerService := et_CreatePeerService new, et_ClientService := et_ClientService new,
          et_PeerService := et_PeerService new\<rparr>"

definition lockserver_kept :: "LockserverSpec \<Rightarrow> LockserverSpec \<Rightarrow> bool" where
  "lockserver_kept old new \<longleftrightarrow>
     (if lss_External old \<noteq> None then new = old
      else new = old\<lparr>lss_Etcd := lss_Etcd new\<rparr>
        \<and> (\<forall>e. lss_Etcd old = Some e \<longrightarrow> (\<exists>e'. lss_Etcd new = Some e' \<and> etcd_kept e e')))"

definition images_kept :: "VitessImages \<Rightarrow> VitessImages \<Rightarrow> bool" where
  "images_kept old new \<longleftrightarrow>
     kept_list (im_Vtctld old) (im_Vtctld new) \<and> kept_list (im_Vtadmin old) (im_Vtadmin new)
     \<and> kept_list (im_Vtorc old) (im_Vtorc new) \<and> kept_list (im_Vtgate old) (im_Vtgate new)
     \<and> kept_list (im_Vttablet old) (im_Vttablet new) \<and> kept_list (im_Vtbackup old) (im_Vtbackup new)
     \<and> kept (im_Mysqld old) (im_Mysqld new) \<and> kept_list (im_MysqldExporter old) (im_MysqldExporter new)"

definition dashboard_kept :: "VitessDashboardSpec \<Rightarrow> VitessDashboardSpec \<Rightarrow> bool" where
  "dashboard_kept old new \<longleftrightarrow>
     kept (db_Replicas old) (db_Replicas new) \<and> resources_kept (db_Resources old) (db_Resources new)
     \<and> kept (db_Service old) (db_Service new)
     \<and> new = old\<lparr>db_Replicas := db_Replicas new, db_Resources := db_Resources new, db_Service := db_Service new\<rparr>"

definition vtadmin_kept :: "VtAdminSpec \<Rightarrow> VtAdminSpec \<Rightarrow> bool" where
  "vtadmin_kept old new \<longleftrightarrow>
     kept (va_Replicas old) (va_Replicas new) \<and> resources_kept (va_WebResources old) (va_WebResources new)
     \<and> resources_kept (va_APIResources old) (va_APIResources new) \<and> kept_list (va_FetchCredentials old) (va_FetchCredentials new)
     \<and> kept (va_Service old) (va_Service new)
     \<and> new = old\<lparr>va_Replicas := va_Replicas new, va_WebResources := va_WebResources new, va_APIResources := va_APIResources new,
          va_FetchCredentials := va_FetchCredentials new, va_Service := va_Service new\<rparr>"

definition shard_template_kept :: "'a shard_template_scheme \<Rightarrow> 'a shard_template_scheme \<Rightarrow> bool" where
  "shard_template_kept old new \<longleftrightarrow>
     kept (rs_InitializeMaster (st_Replication old)) (rs_InitializeMaster (st_Replication new))
     \<and> kept (rs_InitializeBackup (st_Replication old)) (rs_InitializeBackup (st_Replication new))
     \<and> kept (rs_RecoverRestartedMaster (st_Replication old)) (rs_RecoverRestartedMaster (st_Replication new))
     \<and> new = old\<lparr>st_Replication := st_Replication new\<rparr>"

definition partitioning_kept :: "partitioning \<Rightarrow> partitioning \<Rightarrow> bool" where
  "partitioning_kept old new \<longleftrightarrow>
     rel_option (\<lambda>a b. shard_template_kept (ep_ShardTemplate a) (ep_ShardTemplate b) \<and> b = a\<lparr>ep_ShardTemplate := ep_ShardTemplate b\<rparr>)
       (pt_Equal old) (pt_Equal new)
     \<and> rel_option (list_all2 shard_template_kept) (pt_Custom old) (pt_Custom new)
     \<and> new = old\<lparr>pt_Equal := pt_Equal new, pt_Custom := pt_Custom new\<rparr>"

definition keyspace_template_kept :: "VitessKeyspaceTemplate \<Rightarrow> VitessKeyspaceTemplate \<Rightarrow> bool" where
  "keyspace_template_kept old new \<longleftrightarrow>
     kept_list (kt_TurndownPolicy old) (kt_TurndownPolicy new)
     \<and> list_all2 partitioning_kept (kt_Partitionings old) (kt_Partitionings new)
     \<and> new = old\<lparr>kt_TurndownPolicy := kt_TurndownPolicy new, kt_Partitionings := kt_Partitionings new\<rparr>"

definition topo_config_kept :: "TopoReconcileConfig \<Rightarrow> TopoReconcileConfig \<Rightarrow> bool" where
  "topo_config_kept old new \<longleftrightarrow>
     kept (tr_RegisterCellsAliases old) (tr_RegisterCellsAliases new) \<and> kept (tr_RegisterCells old) (tr_RegisterCells new)
     \<and> kept (tr_PruneCells old) (tr_PruneCells new) \<and> kept (tr_PruneKeyspaces old) (tr_PruneKeyspaces new)
     \<and> kept (tr_PruneSrvKeyspaces old) (tr_PruneSrvKeyspaces new) \<and> kept (tr_PruneShards old) (tr_PruneShards new)
     \<and> kept (tr_PruneShardCells old) (tr_PruneShardCells new) \<and> kept (tr_PruneTablets old) (tr_PruneTablets new)"

definition update_strategy_kept :: "VitessClusterUpdateStrategy \<Rightarrow> VitessClusterUpdateStrategy \<Rightarrow> bool" where
  "update_strategy_kept old new \<longleftrightarrow> kept (us_Type old) (us_Type new) \<and> kept (us_External old) (us_External new)"

text \<open>The cluster.  An optional part that the user gave is there, with what it had set; the lists of keyspaces and cells keep their length.\<close>

definition kept_part :: "('a \<Rightarrow> 'a \<Rightarrow> bool) \<Rightarrow> 'a option \<Rightarrow> 'a option \<Rightarrow> bool" where
  "kept_part le old new \<longleftrightarrow> (\<forall>v. old = Some v \<longrightarrow> (\<exists>w. new = Some w \<and> le v w))"

definition cluster_kept :: "VitessClusterSpec \<Rightarrow> VitessClusterSpec \<Rightarrow> bool" where
  "cluster_kept old new \<longleftrightarrow>
     images_kept (vc_Images old) (vc_Images new) \<and> lockserver_kept (vc_GlobalLockserver old) (vc_GlobalLockserver new)
     \<and> kept_part dashboard_kept (vc_VitessDashboard old) (vc_VitessDashboard new)
     \<and> rel_option vtadmin_kept (vc_VtAdmin old) (vc_VtAdmin new)
     \<and> list_all2 keyspace_template_kept (vc_Keyspaces old) (vc_Keyspaces new)
     \<and> rel_option (\<lambda>a b. kept_list (cb_Engine a) (cb_Engine b) \<and> b = a\<lparr>cb_Engine := cb_Engine b\<rparr>) (vc_Backup old) (vc_Backup new)
     \<and> kept_part topo_config_kept (vc_TopologyReconciliation old) (vc_TopologyReconciliation new)
     \<and> kept_part update_strategy_kept (vc_UpdateStrategy old) (vc_UpdateStrategy new)
     \<and> kept (vc_GatewayService old) (vc_GatewayService new) \<and> kept (vc_TabletService old) (vc_TabletService new)
     \<and> new = old\<lparr>vc_Images := vc_Images new, vc_GlobalLockserver := vc_GlobalLockserver new,
          vc_VitessDashboard := vc_VitessDashboard new, vc_VtAdmin := vc_VtAdmin new, vc_Keyspaces := vc_Keyspaces new,
          vc_Backup := vc_Backup new, vc_TopologyReconciliation := vc_TopologyReconciliation new,
          vc_UpdateStrategy := vc_UpdateStrategy new, vc_GatewayService := vc_GatewayService new,
          vc_TabletService := vc_TabletService new\<rparr>"

lemma resources_are_kept: "resources_kept r (default_resources cpu mem r)"
  by (simp add: resources_kept_def default_resources_def)

lemma overrides_are_kept: "kept so (DefaultServiceOverrides so)"
  by (simp add: DefaultServiceOverrides_def)

lemma etcd_is_kept: "etcd_kept e (DefaultEtcdLockserverTemplate img e)"
  by (auto simp: etcd_kept_def DefaultEtcdLockserverTemplate_def resources_are_kept overrides_are_kept update_conv')

lemma lockserver_is_kept: "lockserver_kept ls (defaultGlobalLockserver img ls)"
  by (simp add: lockserver_kept_def defaultGlobalLockserver_def etcd_is_kept)

lemma images_are_kept: "images_kept i (DefaultVitessImages i src)"
  by (simp add: images_kept_def DefaultVitessImages_def)

lemma dashboard_is_kept: "kept_part dashboard_kept d (DefaultVitessDashboard d)"
  by (simp add: kept_part_def dashboard_kept_def DefaultVitessDashboard_def Let_def resources_are_kept overrides_are_kept)

lemma vtadmin_is_kept: "rel_option vtadmin_kept d (DefaultVtAdmin d)"
  by (cases d) (simp_all add: vtadmin_kept_def DefaultVtAdmin_def resources_are_kept overrides_are_kept)

lemma shard_template_is_kept: "shard_template_kept s (DefaultVitessShardTemplate s)"
  by (simp add: shard_template_kept_def DefaultVitessShardTemplate_def DefaultVitessReplicationSpec_def Let_def)

lemma partitioning_is_kept: "partitioning_kept p (default_partitioning p)"
proof -
  have "rel_option (\<lambda>a b. shard_template_kept (ep_ShardTemplate a) (ep_ShardTemplate b) \<and> b = a\<lparr>ep_ShardTemplate := ep_ShardTemplate b\<rparr>)
      e (defaultEqualPartitioning e)" for e
    by (cases e) (simp_all add: defaultEqualPartitioning_def shard_template_is_kept)
  moreover have "rel_option (list_all2 shard_template_kept) c (defaultCustomPartitioning c)" for c
    by (cases c) (simp_all add: defaultCustomPartitioning_def list_all2_map2 list_all2_same shard_template_is_kept)
  ultimately show ?thesis by (simp add: partitioning_kept_def default_partitioning_def)
qed

lemma keyspace_template_is_kept: "keyspace_template_kept k (DefaultVitessKeyspaceTemplate k)"
  by (simp add: keyspace_template_kept_def DefaultVitessKeyspaceTemplate_def list_all2_map2 list_all2_same partitioning_is_kept)

lemma backup_is_kept:
  "rel_option (\<lambda>a b. kept_list (cb_Engine a) (cb_Engine b) \<and> b = a\<lparr>cb_Engine := cb_Engine b\<rparr>) b (defaultClusterBackup b)"
  by (cases b) (simp_all add: defaultClusterBackup_def)

lemma topo_config_is_kept: "kept_part topo_config_kept c (DefaultTopoReconcileConfig c)"
  by (simp add: kept_part_def topo_config_kept_def DefaultTopoReconcileConfig_def Let_def)

lemma update_strategy_is_kept: "kept_part update_strategy_kept u (DefaultUpdateStrategy u)"
  by (simp add: kept_part_def update_strategy_kept_def DefaultUpdateStrategy_def Let_def)

lemma cluster_is_kept: "cluster_kept vt (DefaultVitessCluster img vt)"
  unfolding cluster_kept_def
  by (intro conjI)
    (simp_all add: DefaultVitessCluster_def DefaultVitessKeyspaceTemplates_def list_all2_map2 list_all2_same images_are_kept
      lockserver_is_kept dashboard_is_kept vtadmin_is_kept keyspace_template_is_kept backup_is_kept topo_config_is_kept
      update_strategy_is_kept overrides_are_kept)

text \<open>C22: Defaulting a cluster makes it safe to reconcile and is idempotent.  After it every pointer the
  controllers dereference is set, a complete cluster is left alone, defaulting twice is defaulting
  once, and what the user set is kept: every image, flag, resource list, pointer and policy that has a value keeps it, in each
  keyspace, partitioning and shard template too, and all that has no default stays as it is.\<close>

theorem DefaultVitessCluster_ready:
  "cluster_ready img (DefaultVitessCluster img vt)
   \<and> DefaultVitessCluster img (DefaultVitessCluster img vt) = DefaultVitessCluster img vt
   \<and> (cluster_ready img vt \<longleftrightarrow> DefaultVitessCluster img vt = vt)
   \<and> cluster_kept vt (DefaultVitessCluster img vt)"
  by (intro conjI cluster.completes cluster.idempotent cluster.complete_iff cluster_is_kept)

text \<open>A cluster that sets the update strategy and nothing else.\<close>

definition example_cluster :: VitessClusterSpec where
  "example_cluster =
     \<lparr>vc_Images = \<lparr>im_Vtctld = [], im_Vtadmin = [], im_Vtorc = [], im_Vtgate = ''vtgate:1'', im_Vttablet = [],
        im_Vtbackup = [], im_Mysqld = None, im_MysqldExporter = []\<rparr>,
      vc_ImagePullPolicies = no_pull_policies, vc_ImagePullSecrets = [], vc_Backup = None,
      vc_GlobalLockserver = \<lparr>lss_External = None, lss_Etcd = None, lss_CellInfoAddress = []\<rparr>,
      vc_VitessDashboard = None, vc_VtAdmin = None, vc_Cells = [], vc_Keyspaces = [], vc_ExtraVitessFlags = [],
      vc_TopologyReconciliation = None,
      vc_UpdateStrategy = Some \<lparr>us_Type = Some ''Immediate'', us_External = None\<rparr>,
      vc_GatewayService = None, vc_TabletService = None\<rparr>"

lemma DefaultVitessCluster_ready_witness:
  "\<exists>u'. vc_UpdateStrategy (DefaultVitessCluster ''etcd:v3'' example_cluster) = Some u' \<and> us_Type u' = Some ''Immediate''"
  using DefaultVitessCluster_ready [of "''etcd:v3''" example_cluster]
  by (auto simp: example_cluster_def cluster_kept_def kept_part_def update_strategy_kept_def)

lemma Image_Flavor: "MysqldImage_Image m = [] \<longleftrightarrow> MysqldImage_Flavor m = []"
  by (simp add: MysqldImage_Image_def MysqldImage_Flavor_def)

text \<open>The images of a keyspace: whatever the keyspace template overrides, the merge cannot panic once the cluster's
  own images are complete, an image the template sets wins, one it leaves out is the cluster's, and a
  MySQL image always has a flavor.\<close>

theorem keyspace_images_merge:
  assumes "im_Mysqld clusterImages \<noteq> None"
  shows "\<exists>images. MergeVitessKeyspaceTemplateImages (DefaultVitessKeyspaceImages dst clusterImages) src = Some images
     \<and> (kt_Vttablet src \<noteq> [] \<longrightarrow> ki_Vttablet images = kt_Vttablet src)
     \<and> (kt_Vttablet src = [] \<and> ki_Vttablet dst = [] \<longrightarrow> ki_Vttablet images = im_Vttablet clusterImages)
     \<and> (kt_Mysqld src = None \<and> ki_Mysqld dst = None \<longrightarrow> ki_Mysqld images = im_Mysqld clusterImages)
     \<and> (\<forall>m. ki_Mysqld images = Some m \<longrightarrow> (MysqldImage_Image m = [] \<longleftrightarrow> MysqldImage_Flavor m = []))"
proof -
  let ?dst = "DefaultVitessKeyspaceImages dst clusterImages"
  obtain old where old: "ki_Mysqld ?dst = Some old" using assms
    by (cases "ki_Mysqld dst") (auto simp: DefaultVitessKeyspaceImages_def)
  have vttablet: "ki_Vttablet ?dst = fill_list (im_Vttablet clusterImages) (ki_Vttablet dst)"
    by (simp add: DefaultVitessKeyspaceImages_def)
  have mysqld: "ki_Mysqld dst = None \<Longrightarrow> ki_Mysqld ?dst = im_Mysqld clusterImages"
    by (simp add: DefaultVitessKeyspaceImages_def)
  obtain images where images: "MergeVitessKeyspaceTemplateImages ?dst src = Some images"
      "ki_Vttablet images = override_image (kt_Vttablet src) (ki_Vttablet ?dst)"
      "kt_Mysqld src = None \<longrightarrow> ki_Mysqld images = ki_Mysqld ?dst"
    by (cases "kt_Mysqld src") (simp_all add: MergeVitessKeyspaceTemplateImages_def Let_def old)
  show ?thesis
    using images vttablet mysqld by (simp add: override_image_def Image_Flavor)
qed

lemma keyspace_images_merge_witness:
  "\<exists>images. MergeVitessKeyspaceTemplateImages
      (DefaultVitessKeyspaceImages \<lparr>ki_Vttablet = [], ki_Vtorc = [], ki_Vtbackup = [], ki_Mysqld = None,
         ki_MysqldExporter = []\<rparr> DefaultImages)
      \<lparr>kt_Vttablet = [], kt_Vtorc = [], kt_Vtbackup = [],
       kt_Mysqld = Some \<lparr>mn_Mysql56Compatible = [], mn_Mysql80Compatible = ''mysql:8.4''\<rparr>, kt_MysqldExporter = []\<rparr>
     = Some images \<and> ki_Vttablet images = ''vitess/lite:latest''"
  using keyspace_images_merge [of DefaultImages
      "\<lparr>ki_Vttablet = [], ki_Vtorc = [], ki_Vtbackup = [], ki_Mysqld = None, ki_MysqldExporter = []\<rparr>"
      "\<lparr>kt_Vttablet = [], kt_Vtorc = [], kt_Vtbackup = [],
        kt_Mysqld = Some \<lparr>mn_Mysql56Compatible = [], mn_Mysql80Compatible = ''mysql:8.4''\<rparr>, kt_MysqldExporter = []\<rparr>"]
  by (auto simp: DefaultImages_def)

end
