(* ===== verification/Topo_Controllers.thy ===== *)
theory Topo_Controllers
  imports Topo Defaults
begin

text \<open>
  The topology passes of the controllers: \<open>vitesscluster/reconcile_topo.go\<close>, \<open>vitessshard/reconcile_topo.go\<close>,
  \<open>vitesscell/reconcile_topo.go\<close> and \<open>vitesscell/reconcile_keyspaces.go\<close>, with \<open>operator/stringsets\<close>.
  The answers of the topology server and \<open>topo.InCellList\<close> are fields of an environment; \<open>None\<close> is a panic.
\<close>

section \<open>Package stringsets\<close>

definition count_strings :: "string list \<Rightarrow> (string, int) gomap" where
  "count_strings x = fold (\<lambda>s diff. AList.update s ((case map_of diff s of None \<Rightarrow> 0 | Some n \<Rightarrow> n) + 1) diff) x []"

fun subtract_strings :: "(string, int) gomap \<Rightarrow> string list \<Rightarrow> (string, int) gomap option" where
  "subtract_strings diff [] = Some diff"
| "subtract_strings diff (s # y) =
     (case map_of diff s of
        None \<Rightarrow> None
      | Some n \<Rightarrow> subtract_strings (if n - 1 = 0 then AList.delete s diff else AList.update s (n - 1) diff) y)"

definition stringsets_Equal :: "string list \<Rightarrow> string list \<Rightarrow> bool" where
  "stringsets_Equal x y =
     (if length x \<noteq> length y then False
      else (case subtract_strings (count_strings x) y of None \<Rightarrow> False | Some diff \<Rightarrow> length diff = 0))"

text \<open>A difference map represents a multiset: it has an entry for exactly the elements.\<close>

definition represents :: "(string, int) gomap \<Rightarrow> string multiset \<Rightarrow> bool" where
  "represents diff M \<longleftrightarrow> gomap_wf diff \<and> (\<forall>s. map_of diff s = (if s \<in># M then Some (int (count M s)) else None))"

lemma represents_add:
  assumes "represents diff M"
  shows "represents (AList.update s ((case map_of diff s of None \<Rightarrow> 0 | Some n \<Rightarrow> n) + 1) diff) (add_mset s M)"
  using assms by (auto simp: represents_def distinct_update update_conv' not_in_iff)

lemma represents_count: "represents (count_strings x) (mset x)"
proof -
  have "represents (fold (\<lambda>s diff. AList.update s ((case map_of diff s of None \<Rightarrow> 0 | Some n \<Rightarrow> n) + 1) diff) x diff)
      (M + mset x)" if "represents diff M" for diff M
    using that
  proof (induction x arbitrary: diff M)
    case (Cons s x)
    show ?case using Cons.IH [OF represents_add [OF Cons.prems]] by simp
  qed simp
  from this [of "[]" "{#}"] show ?thesis by (simp add: count_strings_def represents_def)
qed

lemma represents_remove:
  assumes "represents diff M" "s \<in># M"
  shows "represents (if int (count M s) - 1 = 0 then AList.delete s diff else AList.update s (int (count M s) - 1) diff)
     (M - {#s#})"
proof (cases "count M s = 1")
  case True
  then show ?thesis
    using assms by (auto simp: represents_def distinct_delete delete_conv' in_diff_count)
next
  case False
  moreover have "0 < count M s" using assms(2) by simp
  ultimately have "1 < count M s" by linarith
  then show ?thesis
    using assms False by (auto simp: represents_def distinct_update update_conv' in_diff_count of_nat_diff)
qed

lemma represents_empty: "represents diff M \<Longrightarrow> length diff = 0 \<longleftrightarrow> M = {#}"
proof
  assume r: "represents diff M" and "length diff = 0"
  then have "s \<notin># M" for s by (auto simp: represents_def split: if_splits)
  then show "M = {#}" using multiset_nonemptyE [of M] by blast
next
  assume "represents diff M" "M = {#}"
  then have "map_of diff (fst (hd diff)) = None" by (simp add: represents_def)
  then show "length diff = 0" by (cases diff) auto
qed

lemma subtract_strings_iff:
  "represents diff M \<Longrightarrow> (case subtract_strings diff y of None \<Rightarrow> \<not> mset y \<subseteq># M | Some d \<Rightarrow> mset y \<subseteq># M \<and> represents d (M - mset y))"
proof (induction y arbitrary: diff M)
  case Nil
  then show ?case by simp
next
  case (Cons s y)
  show ?case
  proof (cases "s \<in># M")
    case True
    then have "map_of diff s = Some (int (count M s))" using Cons.prems by (simp add: represents_def)
    moreover define d' where
      "d' = (if int (count M s) - 1 = 0 then AList.delete s diff else AList.update s (int (count M s) - 1) diff)"
    ultimately have "subtract_strings diff (s # y) = subtract_strings d' y" by simp
    moreover have "represents d' (M - {#s#})"
      unfolding d'_def by (rule represents_remove [OF Cons.prems True])
    ultimately show ?thesis
      using Cons.IH [of d' "M - {#s#}"] True by (auto simp: insert_subset_eq_iff split: option.splits)
  next
    case False
    then have "map_of diff s = None" using Cons.prems by (simp add: represents_def)
    then show ?thesis using False by (auto simp: insert_subset_eq_iff)
  qed
qed

lemma stringsets_Equal_mset: "stringsets_Equal x y \<longleftrightarrow> mset x = mset y"
proof (cases "length x = length y")
  case True
  show ?thesis
  proof (cases "subtract_strings (count_strings x) y")
    case None
    then have "\<not> mset y \<subseteq># mset x" using subtract_strings_iff [OF represents_count [of x], of y] by simp
    then show ?thesis using None by (auto simp: stringsets_Equal_def)
  next
    case (Some d)
    then have d: "mset y \<subseteq># mset x" "represents d (mset x - mset y)"
      using subtract_strings_iff [OF represents_count [of x], of y] by simp_all
    have "mset x = mset y \<longleftrightarrow> mset x - mset y = {#}"
      using d(1) by (metis Diff_eq_empty_iff_mset subset_mset.antisym subset_mset.refl)
    then show ?thesis
      using Some True represents_empty [OF d(2)] by (simp add: stringsets_Equal_def)
  qed
next
  case False
  then have "mset x \<noteq> mset y" by (metis size_mset)
  then show ?thesis using False by (simp add: stringsets_Equal_def)
qed


section \<open>The cluster's cells\<close>

record topo_env =
  te_open_err :: "string option"
  te_vtenv_err :: "string option"
  te_reply :: topo_replies
  te_aliases :: "string + (string \<rightharpoonup> string list)"
  te_cell_reads :: "string \<Rightarrow> (string \<times> string) list"
  te_cell_err :: "string \<Rightarrow> string option"
  te_cell_names :: "string + string list"
  te_keyspace_names :: "string + string list"
  te_visit :: visit_order

text \<open>
  \<open>UpdateCellInfoFields\<close> runs the callback on the record it read (address and root), again after every
  write conflict: \<open>te_cell_reads\<close> are these records.  The callback's \<open>NoUpdateNeeded\<close> is \<open>None\<close>.
\<close>

definition update_cell_fields :: "params \<Rightarrow> string \<times> string \<Rightarrow> (string \<times> string) option" where
  "update_cell_fields p ci = (if fst ci = Address p \<and> snd ci = RootPath p then None else Some (Address p, RootPath p))"

definition register_cell_step ::
    "topo_env \<Rightarrow> LockserverSpec \<Rightarrow> string \<Rightarrow> string \<Rightarrow> string \<Rightarrow> string \<times> LockserverSpec option
     \<Rightarrow> (topo_effect list \<times> bool) option"
where
  "register_cell_step env globalLockserver namespace clusterName globalTopoImpl cell =
     (case cell of (name, spec) \<Rightarrow>
        case spec of
          None \<Rightarrow> None
        | Some lockserverSpec \<Rightarrow>
            (case LocalConnectionParams globalLockserver lockserverSpec namespace clusterName name of
               None \<Rightarrow> None
             | Some None \<Rightarrow> Some ([TopoEvent ''TopoInvalid'' name], False)
             | Some (Some p) \<Rightarrow>
                 if Implementation p \<noteq> globalTopoImpl then Some ([TopoEvent ''TopoInvalid'' name], False)
                 else
                   let writes = map (update_cell_fields p) (te_cell_reads env name);
                       err = te_cell_err env name
                   in Some ((if err = None \<and> writes \<noteq> [] \<and> last writes \<noteq> None
                             then [Call (UpdateCellInfo name (Address p) (RootPath p))] else [])
                            @ (if err \<noteq> None then [TopoEvent ''TopoUpdateFailed'' name] else [])
                            @ (if list_ex (\<lambda>w. w \<noteq> None) writes then [TopoEvent ''TopoUpdated'' name] else []),
                          err \<noteq> None)))"

definition RegisterCells ::
    "topo_env \<Rightarrow> LockserverSpec \<Rightarrow> string \<Rightarrow> string \<Rightarrow> string \<Rightarrow> desired_cells
     \<Rightarrow> (topo_effect list \<times> reconcile_result \<times> string option) option"
where
  "RegisterCells env globalLockserver namespace clusterName globalTopoImpl desiredCells =
     map_option (\<lambda>steps. pass_result (sweep id steps))
       (map_opt (register_cell_step env globalLockserver namespace clusterName globalTopoImpl)
          (range_of (te_visit env) 2 desiredCells))"

definition add_to_alias :: "string \<Rightarrow> (string, string list) gomap \<Rightarrow> (string, string list) gomap" where
  "add_to_alias name cellsAlias =
     (let alias = ''planetscale_operator_default''
      in case map_of cellsAlias alias of
           Some cells \<Rightarrow> AList.update alias (cells @ [name]) cellsAlias
         | None \<Rightarrow> AList.update alias [name] cellsAlias)"

definition buildCellsAliases :: "visit_order \<Rightarrow> desired_cells \<Rightarrow> (string, string list) gomap" where
  "buildCellsAliases visit desiredCells = fold add_to_alias (map fst (range_of visit 0 desiredCells)) []"

fun alias_loop ::
    "topo_replies \<Rightarrow> (string \<rightharpoonup> string list) \<Rightarrow> (string, string list) gomap \<Rightarrow> topo_effect list \<times> topo_error option"
where
  "alias_loop reply current [] = ([], None)"
| "alias_loop reply current ((alias, cells) # rest) =
     (if (case current alias of None \<Rightarrow> False | Some cur \<Rightarrow> stringsets_Equal cells cur)
      then alias_loop reply current rest
      else
        (case reply (UpdateCellsAlias alias cells) of
           Some err \<Rightarrow> ([Call (UpdateCellsAlias alias cells), TopoEvent ''TopoCellAlias'' alias], Some err)
         | None \<Rightarrow>
             (case alias_loop reply current rest of
                (es, err) \<Rightarrow> ([Call (UpdateCellsAlias alias cells), TopoEvent ''TopoCellAlias'' alias] @ es, err))))"

definition topo_error_string :: "topo_error \<Rightarrow> string" where
  "topo_error_string e = (case e of NoNode \<Rightarrow> ''node doesn't exist'' | TopoErr s \<Rightarrow> s)"

definition registerCellsAliases :: "topo_env \<Rightarrow> desired_cells \<Rightarrow> topo_effect list \<times> string option" where
  "registerCellsAliases env desiredCells =
     (case te_aliases env of
        Inl err \<Rightarrow> ([TopoEvent ''TopoCellAlias'' err], Some err)
      | Inr current \<Rightarrow>
          (case alias_loop (te_reply env) current (range_of (te_visit env) 1 (buildCellsAliases (te_visit env) desiredCells)) of
             (es, err) \<Rightarrow> (es, map_option topo_error_string err)))"

text \<open>The cluster: its metadata, spec and the orphans its status holds at this point of the pass.\<close>

record topo_cluster =
  tc_Name :: string
  tc_Namespace :: string
  tc_Spec :: VitessClusterSpec
  tc_OrphanedCells :: "(string, orphan_status) gomap"
  tc_OrphanedKeyspaces :: "(string, orphan_status) gomap"

definition cluster_desired_cells :: "topo_cluster \<Rightarrow> desired_cells" where
  "cluster_desired_cells vt =
     fold (\<lambda>cell m. AList.update (ct_Name cell) (Some (ct_Lockserver cell)) m) (vc_Cells (tc_Spec vt)) []"

text \<open>A merge of a later part of the pass, after the effects so far; a panic anywhere is the panic of the pass.\<close>

definition then_merge ::
    "(topo_effect list \<times> string builder) option \<Rightarrow> (topo_effect list \<times> reconcile_result \<times> string option) option
     \<Rightarrow> (topo_effect list \<times> string builder) option"
where
  "then_merge acc part =
     (case acc of None \<Rightarrow> None
      | Some (es, b) \<Rightarrow>
          (case part of None \<Rightarrow> None
           | Some x \<Rightarrow> (case merged x b of (es', b') \<Rightarrow> Some (es @ es', b'))))"

text \<open>A configuration flag: \<open>None\<close> when the pointer to it, or to the configuration, is nil.\<close>

definition topo_flag :: "(TopoReconcileConfig \<Rightarrow> bool option) \<Rightarrow> TopoReconcileConfig option \<Rightarrow> bool option" where
  "topo_flag f conf = (case conf of None \<Rightarrow> None | Some c \<Rightarrow> f c)"

definition when_flag ::
    "bool option \<Rightarrow> (topo_effect list \<times> string builder) option \<Rightarrow>
     (topo_effect list \<times> reconcile_result \<times> string option) option \<Rightarrow> (topo_effect list \<times> string builder) option"
where
  "when_flag flag acc part =
     (case acc of None \<Rightarrow> None
      | Some _ \<Rightarrow> (case flag of None \<Rightarrow> None | Some b \<Rightarrow> if b then then_merge acc part else acc))"

definition reconcileCellTopology ::
    "topo_env \<Rightarrow> topo_cluster \<Rightarrow> string \<Rightarrow> (topo_effect list \<times> reconcile_result \<times> string option) option"
where
  "reconcileCellTopology env vt globalTopoImpl =
     (let desiredCells = cluster_desired_cells vt;
          conf = vc_TopologyReconciliation (tc_Spec vt);
          after_aliases = (\<lambda>es.
            map_option pass_result
              (when_flag (topo_flag tr_PruneCells conf)
                (when_flag (topo_flag tr_RegisterCells conf) (Some (es, empty_builder))
                  (RegisterCells env (vc_GlobalLockserver (tc_Spec vt)) (tc_Namespace vt) (tc_Name vt) globalTopoImpl
                     desiredCells))
                (Some (PruneCells (te_reply env) (te_cell_names env) desiredCells (tc_OrphanedCells vt)))))
      in case topo_flag tr_RegisterCellsAliases conf of
           None \<Rightarrow> None
         | Some False \<Rightarrow> after_aliases []
         | Some True \<Rightarrow>
             (case registerCellsAliases env desiredCells of
                (es, Some err) \<Rightarrow> Some (es, builder_Result (builder_Error (Some err) empty_builder))
              | (es, None) \<Rightarrow> after_aliases es))"

definition reconcileKeyspaceTopology ::
    "topo_env \<Rightarrow> topo_cluster \<Rightarrow> (topo_effect list \<times> reconcile_result \<times> string option) option"
where
  "reconcileKeyspaceTopology env vt =
     map_option pass_result
       (when_flag (topo_flag tr_PruneKeyspaces (vc_TopologyReconciliation (tc_Spec vt))) (Some ([], empty_builder))
         (Some (PruneKeyspaces (te_vtenv_err env) (te_reply env) (te_keyspace_names env)
            (map kt_Name (vc_Keyspaces (tc_Spec vt))) (tc_OrphanedKeyspaces vt))))"

definition cluster_reconcileTopology ::
    "topo_env \<Rightarrow> topo_cluster \<Rightarrow> (topo_effect list \<times> reconcile_result \<times> string option) option"
where
  "cluster_reconcileTopology env vt =
     (case GlobalConnectionParams (vc_GlobalLockserver (tc_Spec vt)) (tc_Namespace vt) (tc_Name vt) of
        None \<Rightarrow> None
      | Some None \<Rightarrow> Some ([TopoEvent ''TopoInvalid'' (tc_Name vt)], builder_Result empty_builder)
      | Some (Some globalParams) \<Rightarrow>
          (case te_open_err env of
             Some err \<Rightarrow>
               Some ([TopoEvent ''TopoConnectFailed'' err], builder_Result (builder_RequeueAfter topoRequeueDelay empty_builder))
           | None \<Rightarrow>
               map_option pass_result
                 (then_merge
                   (then_merge (Some ([], empty_builder)) (reconcileCellTopology env vt (Implementation globalParams)))
                   (reconcileKeyspaceTopology env vt))))"


section \<open>The shard\<close>

record topo_tablet =
  tt_alias :: "string \<times> nat"
  tt_type :: string

text \<open>The shard record: \<open>sr_PrimaryAlias\<close> is its primary's alias as a string, if it has one.\<close>

record shard_rec =
  sr_HasPrimary :: bool
  sr_PrimaryAlias :: "string option"
  sr_IsPrimaryServing :: bool

record shard_topo_env =
  se_open_err :: "string option"
  se_vtenv_err :: "string option"
  se_shard :: "string + shard_rec"
  se_serving_cells :: "string + string list"
  se_tablets :: "string + (string, topo_tablet) gomap"
  se_reply :: topo_replies
  se_in_cell_list :: "string \<Rightarrow> string list \<Rightarrow> bool"
  se_visit :: visit_order

definition prune_tablet_step ::
    "shard_topo_env \<Rightarrow> shard_spec \<Rightarrow> shard_status \<Rightarrow> (string \<times> topo_tablet) sweep_step"
where
  "prune_tablet_step env spec status nt =
     (case nt of (name, tablet) \<Rightarrow>
        if \<not> CellInCluster spec (fst (tt_alias tablet)) then ([], False)
        else if map_of (sh_Tablets status) name = None \<and> map_of (sh_OrphanedTablets status) name = None
        then if se_reply env (DeleteTablet (tt_alias tablet)) \<noteq> None
             then ([Call (DeleteTablet (tt_alias tablet)), TopoEvent ''TopoCleanupFailed'' name], True)
             else ([Call (DeleteTablet (tt_alias tablet)), TopoEvent ''TopoCleanup'' name], False)
        else ([], False))"

definition pruneTablets ::
    "shard_topo_env \<Rightarrow> shard_spec \<Rightarrow> shard_status \<Rightarrow> (string, topo_tablet) gomap \<Rightarrow> topo_effect list \<times> string builder"
where
  "pruneTablets env spec status tablets =
     sweep (prune_tablet_step env spec status) (range_of (se_visit env) 1 tablets)"

definition prune_shard_cell_step ::
    "shard_topo_env \<Rightarrow> string \<Rightarrow> shard_spec \<Rightarrow> shard_status \<Rightarrow> string sweep_step"
where
  "prune_shard_cell_step env keyspaceName spec status cellName =
     (if \<not> CellInCluster spec cellName then ([], False)
      else if se_in_cell_list env cellName (sh_Cells status) then ([], False)
      else if se_reply env (RemoveShardCell keyspaceName (ss_Name spec) cellName) \<noteq> None
      then ([Call (RemoveShardCell keyspaceName (ss_Name spec) cellName), TopoEvent ''TopoCleanupFailed'' cellName], True)
      else ([Call (RemoveShardCell keyspaceName (ss_Name spec) cellName), TopoEvent ''TopoCleanup'' cellName], False))"

definition pruneShardCells ::
    "shard_topo_env \<Rightarrow> shard_spec \<Rightarrow> shard_status \<Rightarrow> string \<Rightarrow> string list \<Rightarrow> topo_effect list \<times> string builder"
where
  "pruneShardCells env spec status keyspaceName servingCells =
     sweep (prune_shard_cell_step env keyspaceName spec status) servingCells"

text \<open>The two halves of the pass: the shard record, and the tablet records.\<close>

definition shard_record_phase ::
    "shard_topo_env \<Rightarrow> TopoReconcileConfig option \<Rightarrow> shard_spec \<Rightarrow> string \<Rightarrow> shard_status
     \<Rightarrow> ((topo_effect list \<times> string builder) \<times> shard_status) option"
where
  "shard_record_phase env conf spec keyspaceName status =
     (case se_shard env of
        Inl err \<Rightarrow> Some (([TopoEvent ''TopoGetFailed'' err], builder_RequeueAfter topoRequeueDelay empty_builder), status)
      | Inr shard \<Rightarrow>
          let status = status\<lparr>sh_HasMaster := ConditionStatus (sr_HasPrimary shard),
                sh_MasterAlias := (case sr_PrimaryAlias shard of None \<Rightarrow> sh_MasterAlias status | Some a \<Rightarrow> a),
                sh_ServingWrites := ConditionStatus (sr_IsPrimaryServing shard)\<rparr>
          in case se_serving_cells env of
               Inl err \<Rightarrow>
                 Some (([TopoEvent ''TopoGetFailed'' err], builder_RequeueAfter topoRequeueDelay empty_builder), status)
             | Inr servingCells \<Rightarrow>
                 let status = status\<lparr>sh_Idle := ConditionStatus (length servingCells = 0)\<rparr>
                 in map_option (\<lambda>r. (r, status))
                      (when_flag (topo_flag tr_PruneShardCells conf) (Some ([], empty_builder))
                        (Some (pass_result (pruneShardCells env spec status keyspaceName servingCells)))))"

definition set_tablet_types :: "(string, topo_tablet) gomap \<Rightarrow> shard_status \<Rightarrow> shard_status" where
  "set_tablet_types tablets status = status\<lparr>sh_Tablets := map (\<lambda>(name, st).
     (name, case map_of tablets name of None \<Rightarrow> st | Some t \<Rightarrow> st\<lparr>ts_Type := ToLower (tt_type t)\<rparr>)) (sh_Tablets status)\<rparr>"

definition tablet_records_phase ::
    "shard_topo_env \<Rightarrow> TopoReconcileConfig option \<Rightarrow> shard_spec \<Rightarrow> topo_effect list \<times> string builder \<Rightarrow> shard_status
     \<Rightarrow> ((topo_effect list \<times> string builder) \<times> shard_status) option"
where
  "tablet_records_phase env conf spec acc status =
     (case se_tablets env of
        Inl err \<Rightarrow>
          Some ((fst acc @ [TopoEvent ''TopoGetFailed'' err], builder_RequeueAfter topoRequeueDelay (snd acc)), status)
      | Inr tablets \<Rightarrow>
          let status = set_tablet_types tablets status
          in map_option (\<lambda>r. (r, status))
               (when_flag (topo_flag tr_PruneTablets conf) (Some acc)
                 (Some (pass_result (pruneTablets env spec status tablets)))))"

definition shard_reconcileTopology ::
    "shard_topo_env \<Rightarrow> TopoReconcileConfig option \<Rightarrow> shard_spec \<Rightarrow> string \<Rightarrow> shard_status
     \<Rightarrow> (topo_effect list \<times> (reconcile_result \<times> string option) \<times> shard_status) option"
where
  "shard_reconcileTopology env conf spec keyspaceName status =
     (case se_open_err env of
        Some err \<Rightarrow>
          Some ([TopoEvent ''TopoConnectFailed'' err],
            builder_Result (builder_RequeueAfter topoRequeueDelay empty_builder), status)
      | None \<Rightarrow>
          (case se_vtenv_err env of
             Some err \<Rightarrow> Some ([], builder_Result (builder_Error (Some err) empty_builder), status)
           | None \<Rightarrow>
               (case shard_record_phase env conf spec keyspaceName status of
                  None \<Rightarrow> None
                | Some (acc, status) \<Rightarrow>
                    map_option (\<lambda>((es, b), status). (es, builder_Result b, status))
                      (tablet_records_phase env conf spec acc status))))"

section \<open>The cell\<close>

definition prune_srv_keyspace_step :: "topo_replies \<Rightarrow> string \<Rightarrow> string set \<Rightarrow> string sweep_step" where
  "prune_srv_keyspace_step reply cell wanted name =
     (if name \<in> wanted then ([], False)
      else if reply (DeleteSrvKeyspace cell name) \<noteq> None
      then ([Call (DeleteSrvKeyspace cell name), TopoEvent ''TopoCleanupBlocked'' name], True)
      else ([Call (DeleteSrvKeyspace cell name), TopoEvent ''TopoCleanup'' name], False))"

record cell_topo_env =
  ce_open_err :: "string option"
  ce_keyspaces :: "string + (string \<times> partitioning list) list"
  ce_srv_names :: "string + string list"
  ce_srv_names_again :: "string + string list"
  ce_reply :: topo_replies
  ce_order :: "string list \<Rightarrow> string list"

definition pruneSrvKeyspaces ::
    "cell_topo_env \<Rightarrow> string \<Rightarrow> string list \<Rightarrow> topo_effect list \<times> reconcile_result \<times> string option"
where
  "pruneSrvKeyspaces env cell keyspaces =
     pass_result
       (case ce_srv_names env of
          Inl err \<Rightarrow> list_failed err
        | Inr names \<Rightarrow> sweep (prune_srv_keyspace_step (ce_reply env) cell (set keyspaces)) names)"

definition cell_reconcileTopology ::
    "cell_topo_env \<Rightarrow> TopoReconcileConfig option \<Rightarrow> string \<Rightarrow> string list
     \<Rightarrow> (topo_effect list \<times> reconcile_result \<times> string option) option"
where
  "cell_reconcileTopology env conf cell keyspaces =
     map_option pass_result
       (when_flag (topo_flag tr_PruneSrvKeyspaces conf) (Some ([], empty_builder))
         (Some (pruneSrvKeyspaces env cell keyspaces)))"

text \<open>The status fields of a cell that this pass reads and writes; \<open>cs_etcd\<close> is the local etcd's availability.\<close>

record cell_status =
  cs_etcd :: "cond_status option"
  cs_Keyspaces :: "string set"
  cs_Idle :: cond_status

definition reconcileKeyspaces ::
    "cell_topo_env \<Rightarrow> TopoReconcileConfig option \<Rightarrow> string \<Rightarrow> cell_status
     \<Rightarrow> (topo_effect list \<times> (reconcile_result \<times> string option) \<times> cell_status) option"
where
  "reconcileKeyspaces env conf cell status =
     (case ce_keyspaces env of
        Inl err \<Rightarrow> Some ([TopoEvent ''ListFailed'' err], builder_Result (builder_Error (Some err) empty_builder), status)
      | Inr items \<Rightarrow>
          let keyspaces = map fst (filter (\<lambda>(name, parts). cell \<in> set (CellNames (ce_order env) parts)) items);
                   status = status\<lparr>cs_Keyspaces := cs_Keyspaces status \<union> set keyspaces,
                     cs_Idle := (if length keyspaces > 0 then CondFalse else cs_Idle status)\<rparr>
               in if cs_etcd status \<noteq> None \<and> cs_etcd status \<noteq> Some CondTrue
                  then Some ([TopoEvent ''TopoWaiting'' cell], builder_Result empty_builder, status)
                  else
                    (case ce_open_err env of
                       Some err \<Rightarrow>
                         Some ([TopoEvent ''TopoConnectFailed'' err],
                           builder_Result (builder_RequeueAfter topoRequeueDelay empty_builder), status)
                     | None \<Rightarrow>
                         (case then_merge (Some ([], empty_builder)) (cell_reconcileTopology env conf cell keyspaces) of
                            None \<Rightarrow> None
                          | Some (es, b) \<Rightarrow>
                              (case ce_srv_names_again env of
                                 Inl err \<Rightarrow>
                                   Some (es @ [TopoEvent ''TopoListFailed'' err],
                                     builder_Result (builder_RequeueAfter topoRequeueDelay b), status)
                               | Inr srvNames \<Rightarrow>
                                   Some (es, builder_Result b,
                                     status\<lparr>cs_Idle := ConditionStatus (length srvNames = 0 \<and> length keyspaces = 0)\<rparr>)))))"


section \<open>What the passes may remove\<close>

lemma when_flag_Some:
  "when_flag flag acc part = Some (es, b) \<Longrightarrow>
     \<exists>es0 b0. acc = Some (es0, b0) \<and> (flag = Some False \<and> es = es0 \<or>
        flag = Some True \<and> (\<exists>es1 r. part = Some (es1, r) \<and> es = es0 @ es1))"
  by (auto simp: when_flag_def then_merge_def merged_def split: option.splits if_splits prod.splits)

lemma when_flag_total: "flag \<noteq> None \<Longrightarrow> acc \<noteq> None \<Longrightarrow> part \<noteq> None \<Longrightarrow> when_flag flag acc part \<noteq> None"
  by (auto simp: when_flag_def then_merge_def merged_def split: prod.splits)

lemma then_merge_Some:
  "then_merge acc part = Some (es, b) \<Longrightarrow>
     \<exists>es0 b0 es1 r. acc = Some (es0, b0) \<and> part = Some (es1, r) \<and> es = es0 @ es1"
  by (auto simp: then_merge_def merged_def split: option.splits prod.splits)

lemma calls_list_failed [simp]: "calls (fst (list_failed err)) = []"
  by (simp add: list_failed_def)

lemma PruneCells_calls:
  assumes "c \<in> set (calls (fst (PruneCells reply listed desired orphaned)))"
  shows "\<exists>names n. listed = Inr names \<and> n \<in> set names \<and> c = DeleteCellInfo n
     \<and> (\<forall>s. map_of desired n \<noteq> Some (Some s)) \<and> map_of orphaned n = None"
proof (cases listed)
  case (Inl err)
  then show ?thesis using assms by (simp add: PruneCells_def)
next
  case (Inr names)
  then obtain n where "n \<in> set (CellsToPrune names desired orphaned)" "c = DeleteCellInfo n"
    using assms cells.sweep_removes_only [of c reply] by (auto simp: PruneCells_def DeleteCells_def merged_def)
  then show ?thesis using Inr by (auto simp: CellsToPrune_def split: option.splits)
qed

lemma delete_keyspace_order:
  "c \<in> set (calls (fst (sweep (delete_keyspace_step reply) names))) \<Longrightarrow>
     \<exists>n \<in> set names. c = DeleteVSchema n \<or> c = DeleteKeyspace n \<and> \<not> real_error (reply (DeleteVSchema n))"
  by (auto simp: sweep_def calls_concat delete_keyspace_step_def split: if_splits)

lemma PruneKeyspaces_calls:
  assumes "c \<in> set (calls (fst (PruneKeyspaces vtEnvErr reply listed wanted orphaned)))"
  shows "\<exists>names n. listed = Inr names \<and> n \<in> set names \<and> n \<notin> set wanted \<and> map_of orphaned n = None
     \<and> (c = DeleteVSchema n \<or> c = DeleteKeyspace n \<and> \<not> real_error (reply (DeleteVSchema n)))"
proof (cases listed)
  case (Inl err)
  then show ?thesis using assms by (simp add: PruneKeyspaces_def)
next
  case (Inr names)
  then obtain n where "n \<in> set (KeyspacesToPrune names (set wanted) orphaned)"
      "c = DeleteVSchema n \<or> c = DeleteKeyspace n \<and> \<not> real_error (reply (DeleteVSchema n))"
    using assms delete_keyspace_order [of c reply]
    by (auto simp: PruneKeyspaces_def DeleteKeyspaces_def merged_def split: option.splits)
  then show ?thesis using Inr by (auto simp: KeyspacesToPrune_def)
qed

lemma PruneKeyspaces_complete:
  assumes "PruneKeyspaces None reply (Inr names) wanted orphaned = (es, r, err)" "RequeueAfter r = 0"
    "n \<in> set names" "n \<notin> set wanted" "map_of orphaned n = None"
  shows "DeleteKeyspace n \<in> set (calls es) \<and> \<not> real_error (reply (DeleteKeyspace n))"
proof -
  let ?names = "KeyspacesToPrune names (set wanted) orphaned"
  have "builder_Result (snd (sweep (delete_keyspace_step reply) ?names)) = (r, err)"
    "es = fst (sweep (delete_keyspace_step reply) ?names)"
    using assms(1) merged_sweep [of "delete_keyspace_step reply" ?names]
    by (auto simp: PruneKeyspaces_def DeleteKeyspaces_def merged_def)
  then show ?thesis
    using keyspaces.sweep_complete [of reply ?names n] assms(2-5) by (simp add: KeyspacesToPrune_def)
qed

text \<open>Pruning keyspaces is safe and complete.  Only keyspaces the topology lists that are neither in the cluster nor
  kept by a blocked turn-down are touched, a keyspace record is deleted only after its vschema is gone,
  and a pass that neither fails nor asks for a retry has deleted every such keyspace.\<close>

theorem PruneKeyspaces_spec:
  "(\<forall>c \<in> set (calls (fst (PruneKeyspaces vtEnvErr reply listed wanted orphaned))).
      \<exists>names n. listed = Inr names \<and> n \<in> set names \<and> n \<notin> set wanted \<and> map_of orphaned n = None
       \<and> (c = DeleteVSchema n \<or> c = DeleteKeyspace n \<and> \<not> real_error (reply (DeleteVSchema n))))
   \<and> (\<forall>es r err names n. PruneKeyspaces None reply (Inr names) wanted orphaned = (es, r, err) \<and> RequeueAfter r = 0
        \<and> n \<in> set names \<and> n \<notin> set wanted \<and> map_of orphaned n = None \<longrightarrow>
        DeleteKeyspace n \<in> set (calls es) \<and> \<not> real_error (reply (DeleteKeyspace n)))"
  using PruneKeyspaces_calls PruneKeyspaces_complete by blast

lemma PruneKeyspaces_spec_witness:
  "\<exists>es r. PruneKeyspaces None (\<lambda>_. None) (Inr [''old'', ''main'']) [''main''] [] = (es, r, None)
     \<and> DeleteKeyspace ''old'' \<in> set (calls es)"
proof -
  have run: "\<exists>es. PruneKeyspaces None (\<lambda>_. None) (Inr [''old'', ''main'']) [''main''] []
      = (es, \<lparr>Requeue = False, RequeueAfter = 0\<rparr>, None)"
    by (simp add: PruneKeyspaces_def DeleteKeyspaces_def KeyspacesToPrune_def merged_def delete_keyspace_step_def
        real_error_def sweep_def builder_defs Let_def)
  then show ?thesis
    using PruneKeyspaces_spec [of None "\<lambda>_. None" "Inr []" "[''main'']" "[]"] by fastforce
qed


section \<open>The cluster's pass\<close>

lemma desired_fold:
  fixes cells :: "VitessCellTemplate list"
  shows "map_of (fold (\<lambda>cell m. AList.update (ct_Name cell) (Some (ct_Lockserver cell)) m) cells m) n = Some x \<Longrightarrow>
     map_of m n = Some x \<or> (\<exists>cell \<in> set cells. ct_Name cell = n \<and> x = Some (ct_Lockserver cell))"
proof (induction cells arbitrary: m)
  case (Cons a cells)
  show ?case using Cons.IH [OF Cons.prems [simplified]] by (auto simp: update_conv' split: if_splits)
qed simp

lemma desired_fold_dom:
  fixes cells :: "VitessCellTemplate list"
  shows "map_of (fold (\<lambda>cell m. AList.update (ct_Name cell) (Some (ct_Lockserver cell)) m) cells m) n = None \<longleftrightarrow>
     map_of m n = None \<and> (\<forall>cell \<in> set cells. ct_Name cell \<noteq> n)"
  by (induction cells arbitrary: m) (auto simp: update_conv')

lemma desired_fold_wf:
  fixes cells :: "VitessCellTemplate list"
  shows "gomap_wf m \<Longrightarrow> gomap_wf (fold (\<lambda>cell m. AList.update (ct_Name cell) (Some (ct_Lockserver cell)) m) cells m)"
  by (induction cells arbitrary: m) (auto simp: distinct_update)

lemma cluster_desired_cells:
  "gomap_wf (cluster_desired_cells vt)"
  "map_of (cluster_desired_cells vt) n = Some x \<Longrightarrow>
     \<exists>cell \<in> set (vc_Cells (tc_Spec vt)). ct_Name cell = n \<and> x = Some (ct_Lockserver cell)"
  "fst ` set (cluster_desired_cells vt) = ct_Name ` set (vc_Cells (tc_Spec vt))"
proof -
  show "gomap_wf (cluster_desired_cells vt)" unfolding cluster_desired_cells_def by (rule desired_fold_wf) simp
  show "map_of (cluster_desired_cells vt) n = Some x \<Longrightarrow>
     \<exists>cell \<in> set (vc_Cells (tc_Spec vt)). ct_Name cell = n \<and> x = Some (ct_Lockserver cell)"
    unfolding cluster_desired_cells_def using desired_fold [of "vc_Cells (tc_Spec vt)" "[]" n x] by simp
  have "k \<in> fst ` set (cluster_desired_cells vt) \<longleftrightarrow> k \<in> ct_Name ` set (vc_Cells (tc_Spec vt))" for k
    using desired_fold_dom [of "vc_Cells (tc_Spec vt)" "[]" k]
    by (auto simp: cluster_desired_cells_def map_of_eq_None_iff)
  then show "fst ` set (cluster_desired_cells vt) = ct_Name ` set (vc_Cells (tc_Spec vt))" by blast
qed

lemma add_to_alias_fold:
  "fold add_to_alias names [(''planetscale_operator_default'', cells)] = [(''planetscale_operator_default'', cells @ names)]"
  by (induction names arbitrary: cells) (simp_all add: add_to_alias_def)

lemma buildCellsAliases_single:
  "buildCellsAliases visit desired =
     (if range_of visit 0 desired = [] then []
      else [(''planetscale_operator_default'', map fst (range_of visit 0 desired))])"
proof (cases "range_of visit 0 desired")
  case (Cons x xs)
  then show ?thesis
    using add_to_alias_fold [of "map fst xs" "[fst x]"]
    by (simp add: buildCellsAliases_def) (simp add: add_to_alias_def)
qed (simp add: buildCellsAliases_def)

lemma alias_loop_calls:
  "c \<in> set (calls (fst (alias_loop reply current m))) \<Longrightarrow> \<exists>alias cells. c = UpdateCellsAlias alias cells \<and> (alias, cells) \<in> set m"
  by (induction m rule: alias_loop.induct) (auto split: if_splits option.splits prod.splits)

lemma registerCellsAliases_calls:
  assumes "visits (te_visit env)" "c \<in> set (calls (fst (registerCellsAliases env desired)))" "gomap_wf desired"
  shows "\<exists>cells. c = UpdateCellsAlias ''planetscale_operator_default'' cells \<and> set cells = fst ` set desired"
proof -
  let ?m = "buildCellsAliases (te_visit env) desired"
  have wf: "gomap_wf ?m" by (simp add: buildCellsAliases_single)
  obtain a cells where c: "c = UpdateCellsAlias a cells" "(a, cells) \<in> set (range_of (te_visit env) 1 ?m)"
  proof (cases "te_aliases env")
    case (Inl err)
    then show thesis using assms(2) by (simp add: registerCellsAliases_def)
  next
    case (Inr current)
    then have "c \<in> set (calls (fst (alias_loop (te_reply env) current (range_of (te_visit env) 1 ?m))))"
      using assms(2) by (simp add: registerCellsAliases_def split: prod.splits)
    then show thesis using alias_loop_calls that by blast
  qed
  then have "(a, cells) \<in> set ?m" using assms(1) wf by simp
  moreover have "set (map fst (range_of (te_visit env) 0 desired)) = fst ` set desired"
    using assms(1,3) by simp
  ultimately show ?thesis using c by (auto simp: buildCellsAliases_single split: if_splits)
qed

lemma register_cell_calls:
  assumes "register_cell_step env g ns cl impl (name, spec) = Some (es, b)" "c \<in> set (calls es)"
  shows "\<exists>l p. spec = Some l \<and> LocalConnectionParams g l ns cl name = Some (Some p) \<and> Implementation p = impl
     \<and> c = UpdateCellInfo name (Address p) (RootPath p)"
  using assms by (auto simp: register_cell_step_def Let_def split: option.splits if_splits)

lemma RegisterCells_calls:
  assumes "visits (te_visit env)" "gomap_wf desired" "RegisterCells env g ns cl impl desired = Some (es, r)"
    "c \<in> set (calls es)"
  shows "\<exists>name l p. map_of desired name = Some (Some l) \<and> LocalConnectionParams g l ns cl name = Some (Some p)
     \<and> Implementation p = impl \<and> c = UpdateCellInfo name (Address p) (RootPath p)"
proof -
  obtain steps where steps:
    "map_opt (register_cell_step env g ns cl impl) (range_of (te_visit env) 2 desired) = Some steps"
    "es = concat (map fst steps)"
    using assms(3) by (auto simp: RegisterCells_def sweep_def)
  then obtain x where "x \<in> set steps" "c \<in> set (calls (fst x))"
    using assms(4) by (auto simp: calls_concat)
  moreover then obtain name spec where "(name, spec) \<in> set (range_of (te_visit env) 2 desired)"
      "register_cell_step env g ns cl impl (name, spec) = Some (fst x, snd x)"
    using map_opt_set [OF steps(1)] by fastforce
  ultimately show ?thesis
    using register_cell_calls [of env g ns cl impl name spec "fst x" "snd x" c] assms(1,2)
    by (auto intro: map_of_is_SomeI)
qed


text \<open>What one pass of the cluster controller may do to the topology.\<close>

definition allowed_call :: "topo_cluster \<Rightarrow> topo_call \<Rightarrow> bool" where
  "allowed_call vt c \<longleftrightarrow>
     (let spec = tc_Spec vt; conf = vc_TopologyReconciliation spec
      in (case c of
            DeleteCellInfo n \<Rightarrow>
              topo_flag tr_PruneCells conf = Some True \<and> (\<forall>cell \<in> set (vc_Cells spec). ct_Name cell \<noteq> n)
              \<and> map_of (tc_OrphanedCells vt) n = None
          | DeleteVSchema n \<Rightarrow>
              topo_flag tr_PruneKeyspaces conf = Some True \<and> (\<forall>k \<in> set (vc_Keyspaces spec). kt_Name k \<noteq> n)
              \<and> map_of (tc_OrphanedKeyspaces vt) n = None
          | DeleteKeyspace n \<Rightarrow>
              topo_flag tr_PruneKeyspaces conf = Some True \<and> (\<forall>k \<in> set (vc_Keyspaces spec). kt_Name k \<noteq> n)
              \<and> map_of (tc_OrphanedKeyspaces vt) n = None
          | UpdateCellInfo n addr root \<Rightarrow>
              topo_flag tr_RegisterCells conf = Some True \<and> (\<exists>cell \<in> set (vc_Cells spec). ct_Name cell = n \<and>
                (\<exists>p. LocalConnectionParams (vc_GlobalLockserver spec) (ct_Lockserver cell) (tc_Namespace vt) (tc_Name vt) n
                       = Some (Some p) \<and> addr = Address p \<and> root = RootPath p))
          | UpdateCellsAlias a cells \<Rightarrow>
              topo_flag tr_RegisterCellsAliases conf = Some True \<and> set cells = ct_Name ` set (vc_Cells spec)
          | _ \<Rightarrow> False))"

lemma reconcileCellTopology_calls:
  assumes "visits (te_visit env)" "reconcileCellTopology env vt impl = Some (es, r)" "c \<in> set (calls es)"
  shows "allowed_call vt c"
proof -
  let ?conf = "vc_TopologyReconciliation (tc_Spec vt)"
  let ?desired = "cluster_desired_cells vt"
  let ?register = "RegisterCells env (vc_GlobalLockserver (tc_Spec vt)) (tc_Namespace vt) (tc_Name vt) impl ?desired"
  let ?prune = "PruneCells (te_reply env) (te_cell_names env) ?desired (tc_OrphanedCells vt)"
  note wf = cluster_desired_cells(1) [of vt]
  have alias_ok: "allowed_call vt c"
    if "topo_flag tr_RegisterCellsAliases ?conf = Some True" "c \<in> set (calls (fst (registerCellsAliases env ?desired)))" for c
    using registerCellsAliases_calls [OF assms(1) that(2) wf] that(1) cluster_desired_cells(3) [of vt]
    by (auto simp: allowed_call_def Let_def)
  have register_ok: "allowed_call vt c"
    if "topo_flag tr_RegisterCells ?conf = Some True" "?register = Some (es1, r1)" "c \<in> set (calls es1)" for c es1 r1
    using RegisterCells_calls [OF assms(1) wf that(2,3)] that(1) cluster_desired_cells(2) [of vt]
    by (fastforce simp: allowed_call_def Let_def)
  have prune_ok: "allowed_call vt c"
    if flag: "topo_flag tr_PruneCells ?conf = Some True" and c: "c \<in> set (calls (fst ?prune))" for c
  proof -
    obtain n where n: "c = DeleteCellInfo n" "\<forall>s. map_of ?desired n \<noteq> Some (Some s)" "map_of (tc_OrphanedCells vt) n = None"
      using PruneCells_calls [OF c] by blast
    have "n \<notin> fst ` set ?desired"
      using n(2) cluster_desired_cells(2) [of vt n] by (auto simp: map_of_eq_None_iff dest: map_of_SomeD)
        (metis map_of_eq_None_iff fst_conv image_eqI option.exhaust)
    then show ?thesis
      using n flag cluster_desired_cells(3) [of vt] by (force simp: allowed_call_def Let_def)
  qed
  have rest: "c \<in> set (calls es0) \<or> allowed_call vt c"
    if w: "when_flag (topo_flag tr_PruneCells ?conf)
          (when_flag (topo_flag tr_RegisterCells ?conf) (Some (es0, empty_builder)) ?register) (Some ?prune) = Some (es, b)"
 for es0 b
  proof -
    obtain es1 b1 where e1: "when_flag (topo_flag tr_RegisterCells ?conf) (Some (es0, empty_builder)) ?register = Some (es1, b1)"
      and "c \<in> set (calls es1) \<or> allowed_call vt c"
      using when_flag_Some [OF w] assms(3) prune_ok by fastforce
    then show ?thesis using when_flag_Some [OF e1] register_ok by fastforce
  qed
  show ?thesis
    using assms(2,3) alias_ok rest
    by (fastforce simp: reconcileCellTopology_def Let_def split: option.splits bool.splits prod.splits)
qed

lemma reconcileKeyspaceTopology_calls:
  assumes "reconcileKeyspaceTopology env vt = Some (es, r)" "c \<in> set (calls es)"
  shows "allowed_call vt c"
proof -
  obtain b where w: "when_flag (topo_flag tr_PruneKeyspaces (vc_TopologyReconciliation (tc_Spec vt))) (Some ([], empty_builder))
      (Some (PruneKeyspaces (te_vtenv_err env) (te_reply env) (te_keyspace_names env)
         (map kt_Name (vc_Keyspaces (tc_Spec vt))) (tc_OrphanedKeyspaces vt))) = Some (es, b)"
    using assms(1) by (auto simp: reconcileKeyspaceTopology_def)
  show ?thesis
    using when_flag_Some [OF w] assms(2) PruneKeyspaces_calls [of c "te_vtenv_err env" "te_reply env" "te_keyspace_names env"
        "map kt_Name (vc_Keyspaces (tc_Spec vt))" "tc_OrphanedKeyspaces vt"]
    by (fastforce simp: allowed_call_def Let_def)
qed


lemma cluster_pass_calls:
  assumes "visits (te_visit env)" "cluster_reconcileTopology env vt = Some (es, r)" "c \<in> set (calls es)"
  shows "allowed_call vt c"
proof -
  obtain g where "GlobalConnectionParams (vc_GlobalLockserver (tc_Spec vt)) (tc_Namespace vt) (tc_Name vt) = Some (Some g)"
    and "\<exists>b. then_merge (then_merge (Some ([], empty_builder)) (reconcileCellTopology env vt (Implementation g)))
      (reconcileKeyspaceTopology env vt) = Some (es, b)"
    using assms(2,3) by (auto simp: cluster_reconcileTopology_def split: option.splits)
  then obtain b where b: "then_merge (then_merge (Some ([], empty_builder)) (reconcileCellTopology env vt (Implementation g)))
      (reconcileKeyspaceTopology env vt) = Some (es, b)" by blast
  obtain es0 b0 es1 r1 where e: "then_merge (Some ([], empty_builder)) (reconcileCellTopology env vt (Implementation g)) = Some (es0, b0)"
      "reconcileKeyspaceTopology env vt = Some (es1, r1)" "es = es0 @ es1"
    using then_merge_Some [OF b] by blast
  then obtain r0 where "reconcileCellTopology env vt (Implementation g) = Some (es0, r0)"
    using then_merge_Some [OF e(1)] by auto
  then show ?thesis
    using assms(1,3) e(2,3) reconcileCellTopology_calls [of env vt "Implementation g" es0 r0 c]
      reconcileKeyspaceTopology_calls [of env vt es1 r1 c] by auto
qed

text \<open>No panic, once the cluster has its defaults.\<close>

lemma topo_flags_set:
  "topo_config_set conf \<Longrightarrow> topo_flag tr_RegisterCellsAliases conf \<noteq> None \<and> topo_flag tr_RegisterCells conf \<noteq> None
     \<and> topo_flag tr_PruneCells conf \<noteq> None \<and> topo_flag tr_PruneKeyspaces conf \<noteq> None
     \<and> topo_flag tr_PruneShardCells conf \<noteq> None \<and> topo_flag tr_PruneTablets conf \<noteq> None
     \<and> topo_flag tr_PruneSrvKeyspaces conf \<noteq> None"
  by (simp add: topo_config_set_def topo_flag_def split: option.splits)

lemma ConnectionParams_total:
  "GlobalConnectionParams g ns c \<noteq> None" "LocalConnectionParams g s ns c x \<noteq> None"
proof -
  show g: "GlobalConnectionParams g ns c \<noteq> None"
    using GlobalEtcdName_total [of c] by (auto simp: GlobalConnectionParams_def split: option.splits)
  show "LocalConnectionParams g s ns c x \<noteq> None"
    using g LocalEtcdName_total [of c x]
    by (auto simp: LocalConnectionParams_def Let_def split: option.splits)
qed

lemma RegisterCells_total:
  assumes "visits (te_visit env)"
  shows "RegisterCells env g ns cl impl (cluster_desired_cells vt) \<noteq> None"
proof -
  have "register_cell_step env g ns cl impl cell \<noteq> None" if c: "cell \<in> set (cluster_desired_cells vt)" for cell
  proof -
    obtain name spec where cell: "cell = (name, spec)" by (cases cell)
    have "map_of (cluster_desired_cells vt) name = Some spec"
      using c cell cluster_desired_cells(1) [of vt] by (auto intro: map_of_is_SomeI)
    then obtain l where "spec = Some l" using cluster_desired_cells(2) by blast
    then show ?thesis
      using cell ConnectionParams_total(2) [of g l ns cl name]
      by (auto simp: register_cell_step_def Let_def split: option.splits)
  qed
  then have "map_opt (register_cell_step env g ns cl impl) (range_of (te_visit env) 2 (cluster_desired_cells vt)) \<noteq> None"
    using assms cluster_desired_cells(1) [of vt] by (intro map_opt_total) simp
  then show ?thesis by (simp add: RegisterCells_def)
qed

lemma cluster_pass_total:
  assumes "visits (te_visit env)" "topo_config_set (vc_TopologyReconciliation (tc_Spec vt))"
  shows "cluster_reconcileTopology env vt \<noteq> None"
proof -
  note flags = topo_flags_set [OF assms(2)]
  have "reconcileKeyspaceTopology env vt \<noteq> None"
    unfolding reconcileKeyspaceTopology_def using flags by (simp add: when_flag_total)
  moreover have "reconcileCellTopology env vt impl \<noteq> None" for impl
  proof -
    have "when_flag (topo_flag tr_PruneCells (vc_TopologyReconciliation (tc_Spec vt)))
        (when_flag (topo_flag tr_RegisterCells (vc_TopologyReconciliation (tc_Spec vt))) (Some (es, empty_builder))
          (RegisterCells env (vc_GlobalLockserver (tc_Spec vt)) (tc_Namespace vt) (tc_Name vt) impl (cluster_desired_cells vt)))
        (Some prune) \<noteq> None" for es prune
      using flags RegisterCells_total [OF assms(1)] by (intro when_flag_total) simp_all
    moreover obtain b where "topo_flag tr_RegisterCellsAliases (vc_TopologyReconciliation (tc_Spec vt)) = Some b"
      using flags by blast
    ultimately show ?thesis
      by (cases b; cases "registerCellsAliases env (cluster_desired_cells vt)";
          cases "snd (registerCellsAliases env (cluster_desired_cells vt))")
        (simp_all add: reconcileCellTopology_def Let_def)
  qed
  moreover have "then_merge acc part \<noteq> None" if "acc \<noteq> None" "part \<noteq> None" for acc part
    using that by (auto simp: then_merge_def merged_def split: prod.splits)
  ultimately have "then_merge (then_merge (Some ([], empty_builder)) (reconcileCellTopology env vt impl))
      (reconcileKeyspaceTopology env vt) \<noteq> None" for impl
    by simp
  then show ?thesis
    using ConnectionParams_total(1) [of "vc_GlobalLockserver (tc_Spec vt)" "tc_Namespace vt" "tc_Name vt"]
    unfolding cluster_reconcileTopology_def
    by (cases "te_open_err env") (simp_all del: not_None_eq split: option.split)
qed

text \<open>C8: A topology pass over a cluster with its defaults filled in never panics, and whatever the topology answers and
  in whatever order Go visits its maps, it deletes only records of cells and keyspaces that the
  cluster does not have and no blocked turn-down keeps, writes only the addresses and root paths its
  own cells should have, and registers the alias with exactly the cluster's cells; nothing else is
  called, and nothing that the configuration has switched off.\<close>

theorem cluster_topology_safe:
  assumes "visits (te_visit env)" "tc_Spec vt = DefaultVitessCluster img spec"
  shows "\<exists>es r. cluster_reconcileTopology env vt = Some (es, r) \<and> (\<forall>c \<in> set (calls es). allowed_call vt c)"
proof -
  have "topo_config_set (vc_TopologyReconciliation (tc_Spec vt))"
    using cluster.completes [of img spec] assms(2) by (simp add: cluster_ready_def)
  then obtain x where "cluster_reconcileTopology env vt = Some x"
    using cluster_pass_total [OF assms(1)] by blast
  then show ?thesis using cluster_pass_calls [OF assms(1)] by (cases x) auto
qed

definition example_topo_env :: topo_env where
  "example_topo_env =
     \<lparr>te_open_err = None, te_vtenv_err = None, te_reply = (\<lambda>_. None), te_aliases = Inr Map.empty,
      te_cell_reads = (\<lambda>_. []), te_cell_err = (\<lambda>_. None), te_cell_names = Inr [''zone1''],
      te_keyspace_names = Inr [''old''], te_visit = (\<lambda>n ks. ks)\<rparr>"

lemma cluster_topology_safe_witness:
  "\<exists>es r. cluster_reconcileTopology example_topo_env
      \<lparr>tc_Name = ''c'', tc_Namespace = ''ns'', tc_Spec = DefaultVitessCluster ''etcd:v3'' example_cluster,
       tc_OrphanedCells = [], tc_OrphanedKeyspaces = []\<rparr> = Some (es, r)"
  using cluster_topology_safe [of example_topo_env
      "\<lparr>tc_Name = ''c'', tc_Namespace = ''ns'', tc_Spec = DefaultVitessCluster ''etcd:v3'' example_cluster,
       tc_OrphanedCells = [], tc_OrphanedKeyspaces = []\<rparr>" "''etcd:v3''" example_cluster]
  by (auto simp: example_topo_env_def visits_id)

section \<open>The shard's and the cell's pass\<close>

interpretation tablets: pruner "prune_tablet_step env spec status"
    "\<lambda>(name, t). CellInCluster spec (fst (tt_alias t)) \<and> map_of (sh_Tablets status) name = None
        \<and> map_of (sh_OrphanedTablets status) name = None"
    "\<lambda>(name, t) c. c = DeleteTablet (tt_alias t)" "\<lambda>(name, t). DeleteTablet (tt_alias t)"
    "\<lambda>c. se_reply env c \<noteq> None" for env spec status
  by unfold_locales (auto simp: prune_tablet_step_def split: if_splits)

interpretation shard_cells: pruner "prune_shard_cell_step env ks spec status"
    "\<lambda>n. CellInCluster spec n \<and> \<not> se_in_cell_list env n (sh_Cells status)"
    "\<lambda>n c. c = RemoveShardCell ks (ss_Name spec) n" "RemoveShardCell ks (ss_Name spec)"
    "\<lambda>c. se_reply env c \<noteq> None" for env ks spec status
  by unfold_locales (auto simp: prune_shard_cell_step_def split: if_splits)

interpretation srv_keyspaces: pruner "prune_srv_keyspace_step reply cell wanted" "\<lambda>n. n \<notin> wanted"
    "\<lambda>n c. c = DeleteSrvKeyspace cell n" "DeleteSrvKeyspace cell" "\<lambda>c. reply c \<noteq> None" for reply cell wanted
  by unfold_locales (auto simp: prune_srv_keyspace_step_def split: if_splits)


lemma map_of_map_values:
  "map_of (map (\<lambda>(name, st). (name, f name st)) m) n = map_option (f n) (map_of m n)"
  by (induction m) auto

lemma shard_record_phase_spec:
  assumes "shard_record_phase env conf spec ks status = Some (acc, status')"
  shows "sh_Tablets status' = sh_Tablets status \<and> sh_OrphanedTablets status' = sh_OrphanedTablets status
    \<and> (\<forall>c \<in> set (calls (fst acc)). \<exists>n. c = RemoveShardCell ks (ss_Name spec) n \<and> CellInCluster spec n
         \<and> \<not> se_in_cell_list env n (sh_Cells status) \<and> topo_flag tr_PruneShardCells conf = Some True)
    \<and> (sh_Idle status' \<noteq> sh_Idle status \<longrightarrow> (\<exists>cells. se_serving_cells env = Inr cells \<and> sh_Idle status' = ConditionStatus (cells = [])))"
proof (cases "se_shard env")
  case (Inl err)
  then show ?thesis using assms by (auto simp: shard_record_phase_def)
next
  case (Inr shard)
  show ?thesis
  proof (cases "se_serving_cells env")
    case (Inl err)
    then show ?thesis using Inr assms by (auto simp: shard_record_phase_def Let_def)
  next
    case cells: (Inr cells)
    define st where "st = status\<lparr>sh_HasMaster := ConditionStatus (sr_HasPrimary shard),
        sh_MasterAlias := (case sr_PrimaryAlias shard of None \<Rightarrow> sh_MasterAlias status | Some a \<Rightarrow> a),
        sh_ServingWrites := ConditionStatus (sr_IsPrimaryServing shard),
        sh_Idle := ConditionStatus (cells = [])\<rparr>"
    have w: "when_flag (topo_flag tr_PruneShardCells conf) (Some ([], empty_builder))
        (Some (pass_result (pruneShardCells env spec st ks cells))) = Some acc" and st': "status' = st"
      using assms Inr cells by (auto simp: shard_record_phase_def Let_def st_def)
    have st: "sh_Cells st = sh_Cells status" "sh_Tablets st = sh_Tablets status"
        "sh_OrphanedTablets st = sh_OrphanedTablets status" "sh_Idle st = ConditionStatus (cells = [])"
      by (simp_all add: st_def)
    obtain es b where acc: "acc = (es, b)" by (cases acc)
    have "\<exists>n. c = RemoveShardCell ks (ss_Name spec) n \<and> CellInCluster spec n
         \<and> \<not> se_in_cell_list env n (sh_Cells status) \<and> topo_flag tr_PruneShardCells conf = Some True"
      if "c \<in> set (calls (fst acc))" for c
      using when_flag_Some [OF w [unfolded acc]] that st(1) acc
        shard_cells.sweep_removes_only [of c env ks spec st cells]
      by (auto simp: pruneShardCells_def)
    then show ?thesis using st st' cells by auto
  qed
qed

text \<open>C9: A topology pass of a shard deletes a tablet record only if the topology lists it, its cell belongs to the
  cluster, and the tablet is neither desired nor kept by a blocked turn-down; it removes a cell from
  the shard record only if the cell belongs to the cluster and has no tablets; it makes no other call,
  and it never adds or drops a tablet of the status.\<close>

theorem shard_topology_safe:
  assumes "visits (se_visit env)" "\<And>tablets. se_tablets env = Inr tablets \<Longrightarrow> gomap_wf tablets"
    "shard_reconcileTopology env conf spec ks status = Some (es, r, status')"
  shows "(\<forall>c \<in> set (calls es).
        (\<exists>tablets name t. se_tablets env = Inr tablets \<and> map_of tablets name = Some t \<and> c = DeleteTablet (tt_alias t)
           \<and> CellInCluster spec (fst (tt_alias t)) \<and> map_of (sh_Tablets status) name = None
           \<and> map_of (sh_OrphanedTablets status) name = None \<and> topo_flag tr_PruneTablets conf = Some True)
      \<or> (\<exists>n. c = RemoveShardCell ks (ss_Name spec) n \<and> CellInCluster spec n
           \<and> \<not> se_in_cell_list env n (sh_Cells status) \<and> topo_flag tr_PruneShardCells conf = Some True))
    \<and> map fst (sh_Tablets status') = map fst (sh_Tablets status)"
proof (cases "se_open_err env = None \<and> se_vtenv_err env = None")
  case False
  then show ?thesis using assms(3) by (auto simp: shard_reconcileTopology_def split: option.splits)
next
  case True
  then obtain acc st1 b where phase: "shard_record_phase env conf spec ks status = Some (acc, st1)"
      "tablet_records_phase env conf spec acc st1 = Some ((es, b), status')"
    using assms(3) by (auto simp: shard_reconcileTopology_def split: option.splits)
  note rec = shard_record_phase_spec [OF phase(1)]
  show ?thesis
  proof (cases "se_tablets env")
    case (Inl err)
    then show ?thesis using phase(2) rec by (auto simp: tablet_records_phase_def)
  next
    case (Inr tablets)
    let ?st = "set_tablet_types tablets st1"
    have w: "when_flag (topo_flag tr_PruneTablets conf) (Some acc) (Some (pass_result (pruneTablets env spec ?st tablets)))
        = Some (es, b)" and st': "status' = ?st"
      using phase(2) Inr by (auto simp: tablet_records_phase_def Let_def)
    have keys: "map_of (sh_Tablets ?st) n = None \<longleftrightarrow> map_of (sh_Tablets status) n = None" for n
      using rec by (simp add: set_tablet_types_def map_of_map_values)
    have orphans: "sh_OrphanedTablets ?st = sh_OrphanedTablets status"
      using rec by (simp add: set_tablet_types_def)
    have tablet: "\<exists>name t. map_of tablets name = Some t \<and> c = DeleteTablet (tt_alias t)
           \<and> CellInCluster spec (fst (tt_alias t)) \<and> map_of (sh_Tablets status) name = None
           \<and> map_of (sh_OrphanedTablets status) name = None"
      if c: "c \<in> set (calls (fst (pruneTablets env spec ?st tablets)))" for c
    proof -
      obtain name t where "(name, t) \<in> set (range_of (se_visit env) 1 tablets)" "c = DeleteTablet (tt_alias t)"
          "CellInCluster spec (fst (tt_alias t))" "map_of (sh_Tablets ?st) name = None"
          "map_of (sh_OrphanedTablets ?st) name = None"
      proof -
        obtain n where n: "n \<in> set (range_of (se_visit env) 1 tablets)"
          "case n of (name, t) \<Rightarrow> CellInCluster spec (fst (tt_alias t)) \<and> map_of (sh_Tablets ?st) name = None
             \<and> map_of (sh_OrphanedTablets ?st) name = None"
          "case n of (name, t) \<Rightarrow> c = DeleteTablet (tt_alias t)"
          using tablets.sweep_removes_only [OF c [unfolded pruneTablets_def]] by blast
        show thesis by (cases n) (use that n in simp)
      qed
      then show ?thesis
        using keys [of name] orphans assms(1,2) Inr by (auto intro: map_of_is_SomeI)
    qed
    have "(es = fst acc) \<or> topo_flag tr_PruneTablets conf = Some True \<and> es = fst acc @ fst (pruneTablets env spec ?st tablets)"
      using when_flag_Some [OF w] by auto
    moreover have "map fst (sh_Tablets status') = map fst (sh_Tablets status)"
      using st' rec by (simp add: set_tablet_types_def comp_def case_prod_beta)
    ultimately show ?thesis using rec tablet Inr by auto
  qed
qed


definition example_shard_env :: shard_topo_env where
  "example_shard_env =
     \<lparr>se_open_err = None, se_vtenv_err = None,
      se_shard = Inr \<lparr>sr_HasPrimary = True, sr_PrimaryAlias = Some ''zone1-1'', sr_IsPrimaryServing = True\<rparr>,
      se_serving_cells = Inr [''zone1''],
      se_tablets = Inr [(''zone1-9'', \<lparr>tt_alias = (''zone1'', 9), tt_type = ''REPLICA''\<rparr>)],
      se_reply = (\<lambda>_. None), se_in_cell_list = (\<lambda>c cs. c \<in> set cs), se_visit = (\<lambda>n ks. ks)\<rparr>"

definition example_shard_spec :: shard_spec where
  "example_shard_spec = shard_template.extend
     \<lparr>st_TabletPools = [], st_DatabaseInitScriptSecret = no_secret,
      st_Replication = \<lparr>rs_InitializeMaster = None, rs_InitializeBackup = None, rs_RecoverRestartedMaster = None\<rparr>,
      st_Annotations = None\<rparr>
     (shard_spec.fields ''-'' [''zone1'' \<mapsto> ''z''] (VitessKeyRange [] []) [])"

lemma shard_topology_safe_witness:
  "\<exists>es r status'. shard_reconcileTopology example_shard_env (DefaultTopoReconcileConfig None) example_shard_spec ''ks''
      NewVitessShardStatus = Some (es, r, status') \<and> DeleteTablet (''zone1'', 9) \<in> set (calls es)
      \<and> map fst (sh_Tablets status') = []"
proof -
  obtain es r status' where run: "shard_reconcileTopology example_shard_env (DefaultTopoReconcileConfig None)
      example_shard_spec ''ks'' NewVitessShardStatus = Some (es, r, status')" "DeleteTablet (''zone1'', 9) \<in> set (calls es)"
    by (auto simp: shard_reconcileTopology_def shard_record_phase_def tablet_records_phase_def example_shard_env_def
        DefaultTopoReconcileConfig_def empty_topo_config_def topo_flag_def when_flag_def then_merge_def merged_def
        pruneShardCells_def pruneTablets_def sweep_def prune_shard_cell_step_def prune_tablet_step_def range_of_def
        example_shard_spec_def shard_template.defs shard_spec.defs CellInCluster_def NewVitessShardStatus_def
        set_tablet_types_def builder_Result_def)
  have "map fst (sh_Tablets status') = map fst (sh_Tablets NewVitessShardStatus)"
    using shard_topology_safe [OF _ _ run(1)] by (simp add: example_shard_env_def visits_id)
  then show ?thesis using run by (simp add: NewVitessShardStatus_def)
qed

text \<open>A cell is reported idle only if it is known to be: the pass listed the cell's serving keyspaces and found none,
  and no keyspace is deployed in it; and serving keyspaces are removed from the cell only when no keyspace object
  is deployed there under that name.\<close>

theorem cell_idle_and_prune:
  assumes "reconcileKeyspaces env conf cell status = Some (es, r, status')"
  shows "(cs_Idle status' = CondTrue \<and> cs_Idle status \<noteq> CondTrue \<longrightarrow>
       ce_srv_names_again env = Inr []
       \<and> (\<exists>items. ce_keyspaces env = Inr items \<and> (\<forall>(name, parts) \<in> set items. cell \<notin> set (CellNames (ce_order env) parts))))
    \<and> (\<forall>c \<in> set (calls es). \<exists>items n. c = DeleteSrvKeyspace cell n \<and> ce_keyspaces env = Inr items
         \<and> (\<forall>(name, parts) \<in> set items. cell \<in> set (CellNames (ce_order env) parts) \<longrightarrow> name \<noteq> n))"
proof (cases "ce_keyspaces env")
  case (Inl err)
  then show ?thesis using assms by (auto simp: reconcileKeyspaces_def)
next
  case (Inr items)
  define ks where "ks = map fst (filter (\<lambda>(name, parts). cell \<in> set (CellNames (ce_order env) parts)) items)"
  have ks_empty: "ks = [] \<longleftrightarrow> (\<forall>(name, parts) \<in> set items. cell \<notin> set (CellNames (ce_order env) parts))"
    by (auto simp: ks_def filter_empty_conv)
  have ks_mem: "n \<in> set ks \<longleftrightarrow> (\<exists>(name, parts) \<in> set items. cell \<in> set (CellNames (ce_order env) parts) \<and> name = n)" for n
    by (force simp: ks_def)
  have removed: "\<exists>n. c = DeleteSrvKeyspace cell n \<and> n \<notin> set ks"
    if pass: "cell_reconcileTopology env conf cell ks = Some (es1, r1)" and "c \<in> set (calls es1)" for es1 r1 c
  proof -
    obtain b1 where w: "when_flag (topo_flag tr_PruneSrvKeyspaces conf) (Some ([], empty_builder))
        (Some (pruneSrvKeyspaces env cell ks)) = Some (es1, b1)"
      using pass by (auto simp: cell_reconcileTopology_def)
    then have "c \<in> set (calls (fst (pruneSrvKeyspaces env cell ks)))"
      using when_flag_Some [OF w] that(2) by auto
    then show ?thesis
      using srv_keyspaces.sweep_removes_only [of c "ce_reply env" cell "set ks"]
      by (auto simp: pruneSrvKeyspaces_def split: sum.splits)
  qed
  have "(calls es = [] \<or> (\<exists>es0 r0. cell_reconcileTopology env conf cell ks = Some (es0, r0) \<and> calls es = calls es0))
    \<and> (cs_Idle status' = CondTrue \<and> cs_Idle status \<noteq> CondTrue \<longrightarrow> ce_srv_names_again env = Inr [] \<and> ks = [])"
  proof (cases "cs_etcd status \<noteq> None \<and> cs_etcd status \<noteq> Some CondTrue \<or> ce_open_err env \<noteq> None")
    case True
    then show ?thesis using assms Inr
      by (auto simp: reconcileKeyspaces_def Let_def ks_def [symmetric] split: if_splits option.splits)
  next
    case False
    then have open': "ce_open_err env = None" and etcd: "(cs_etcd status \<noteq> None \<and> cs_etcd status \<noteq> Some CondTrue) = False"
      by blast+
    let ?m = "then_merge (Some ([], empty_builder)) (cell_reconcileTopology env conf cell ks)"
    obtain es0 b where m: "?m = Some (es0, b)"
    proof (cases ?m)
      case None
      then show thesis using assms Inr open' etcd
        by (simp add: reconcileKeyspaces_def Let_def ks_def [symmetric] del: not_None_eq)
    qed (use that in force)
    have rest: "case ce_srv_names_again env of
          Inl err \<Rightarrow> es = es0 @ [TopoEvent ''TopoListFailed'' err] \<and> cs_Idle status' = (if length ks > 0 then CondFalse else cs_Idle status)
        | Inr srvNames \<Rightarrow> es = es0 \<and> cs_Idle status' = ConditionStatus (length srvNames = 0 \<and> length ks = 0)"
      using assms Inr open' etcd m
      by (cases "ce_srv_names_again env") (auto simp: reconcileKeyspaces_def Let_def ks_def [symmetric] simp del: not_None_eq)
    obtain r0 where "cell_reconcileTopology env conf cell ks = Some (es0, r0)" using then_merge_Some [OF m] by auto
    then show ?thesis
      using rest by (cases "ce_srv_names_again env") (auto simp: ConditionStatus_def split: if_splits)
  qed
  then have idle: "cs_Idle status' = CondTrue \<and> cs_Idle status \<noteq> CondTrue \<Longrightarrow> ce_srv_names_again env = Inr [] \<and> ks = []"
    and gone: "\<forall>c \<in> set (calls es). \<exists>n. c = DeleteSrvKeyspace cell n \<and> n \<notin> set ks"
    using removed by auto
  have "\<exists>items n. c = DeleteSrvKeyspace cell n \<and> ce_keyspaces env = Inr items
         \<and> (\<forall>(name, parts) \<in> set items. cell \<in> set (CellNames (ce_order env) parts) \<longrightarrow> name \<noteq> n)"
    if "c \<in> set (calls es)" for c
  proof -
    obtain n where n: "c = DeleteSrvKeyspace cell n" "n \<notin> set ks" using gone \<open>c \<in> set (calls es)\<close> by blast
    have "\<forall>(name, parts) \<in> set items. cell \<in> set (CellNames (ce_order env) parts) \<longrightarrow> name \<noteq> n"
      using n(2) ks_mem [of n] by auto
    then show ?thesis using n(1) Inr by blast
  qed
  then show ?thesis using idle ks_empty Inr by simp
qed

lemma cell_idle_and_prune_witness:
  "\<exists>es r. reconcileKeyspaces
       \<lparr>ce_open_err = None, ce_keyspaces = Inr [], ce_srv_names = Inr [''old''], ce_srv_names_again = Inr [],
        ce_reply = (\<lambda>_. None), ce_order = id\<rparr> (DefaultTopoReconcileConfig None) ''zone1''
       \<lparr>cs_etcd = None, cs_Keyspaces = {}, cs_Idle = CondUnknown\<rparr>
     = Some (es, r, \<lparr>cs_etcd = None, cs_Keyspaces = {}, cs_Idle = CondTrue\<rparr>)
     \<and> (\<forall>c \<in> set (calls es). \<exists>n. c = DeleteSrvKeyspace ''zone1'' n)"
proof -
  let ?env = "\<lparr>ce_open_err = None, ce_keyspaces = Inr [], ce_srv_names = Inr [''old''], ce_srv_names_again = Inr [],
        ce_reply = (\<lambda>_. None), ce_order = id\<rparr>"
  obtain es r where run: "reconcileKeyspaces ?env (DefaultTopoReconcileConfig None) ''zone1''
       \<lparr>cs_etcd = None, cs_Keyspaces = {}, cs_Idle = CondUnknown\<rparr>
     = Some (es, r, \<lparr>cs_etcd = None, cs_Keyspaces = {}, cs_Idle = CondTrue\<rparr>)"
    by (auto simp: reconcileKeyspaces_def cell_reconcileTopology_def pruneSrvKeyspaces_def when_flag_def then_merge_def
        merged_def topo_flag_def DefaultTopoReconcileConfig_def empty_topo_config_def sweep_def
        prune_srv_keyspace_step_def builder_Result_def ConditionStatus_def)
  have "\<exists>n. c = DeleteSrvKeyspace ''zone1'' n" if "c \<in> set (calls es)" for c
    using bspec [OF conjunct2 [OF cell_idle_and_prune [OF run]] that] by (elim exE conjE) (rule exI)
  then show ?thesis by (intro exI conjI) (rule run, simp)
qed

text \<open>\<open>stringsets.Equal\<close> decides equality as multisets: same elements, same multiplicities, any order.\<close>

theorem stringsets_Equal_spec: "stringsets_Equal x y \<longleftrightarrow> mset x = mset y"
  by (rule stringsets_Equal_mset)

end
