(* ===== verification/Sha256.thy ===== *)
theory Sha256
  imports Md5
begin

text \<open>
  Go's \<open>crypto/sha256\<close> as FIPS 180-4 defines it, executable in the kernel: the offsets of generated backup
  schedules come from it.
\<close>

definition sha_K :: "u32 list" where
  "sha_K = [1116352408,1899447441,3049323471,3921009573,961987163,1508970993,2453635748,2870763221,
3624381080,310598401,607225278,1426881987,1925078388,2162078206,2614888103,3248222580,
3835390401,4022224774,264347078,604807628,770255983,1249150122,1555081692,1996064986,
2554220882,2821834349,2952996808,3210313671,3336571891,3584528711,113926993,338241895,
666307205,773529912,1294757372,1396182291,1695183700,1986661051,2177026350,2456956037,
2730485921,2820302411,3259730800,3345764771,3516065817,3600352804,4094571909,275423344,
430227734,506948616,659060556,883997877,958139571,1322822218,1537002063,1747873779,
1955562222,2024104815,2227730452,2361852424,2428436474,2756734187,3204031479,3329325298]"

definition sha_pad :: "int list \<Rightarrow> int list" where
  "sha_pad bs = bs @ [128] @ replicate ((119 - length bs mod 64) mod 64) 0 @ rev (le_bytes 8 (8 * int (length bs)))"

definition rotr32 :: "nat \<Rightarrow> u32 \<Rightarrow> u32" where
  "rotr32 s x = (drop_bit s x) OR (push_bit (32 - s) x)"

text \<open>The message schedule: 48 more words, each from the last 16.\<close>

fun sha_schedule :: "nat \<Rightarrow> u32 list \<Rightarrow> u32 list" where
  "sha_schedule 0 W = W"
| "sha_schedule (Suc n) W =
     (let t = length W; w15 = W ! (t - 15); w2 = W ! (t - 2);
          s0 = rotr32 7 w15 XOR rotr32 18 w15 XOR drop_bit 3 w15;
          s1 = rotr32 17 w2 XOR rotr32 19 w2 XOR drop_bit 10 w2
      in sha_schedule n (W @ [W ! (t - 16) + s0 + W ! (t - 7) + s1]))"

type_synonym sha_state = "u32 \<times> u32 \<times> u32 \<times> u32 \<times> u32 \<times> u32 \<times> u32 \<times> u32"

definition sha_round :: "u32 \<times> u32 \<Rightarrow> sha_state \<Rightarrow> sha_state" where
  "sha_round kw st = (case (kw, st) of ((k, w), (a, b, c, d, e, f, g, h)) \<Rightarrow>
     let t1 = h + (rotr32 6 e XOR rotr32 11 e XOR rotr32 25 e) + ((e AND f) XOR (NOT e AND g)) + k + w;
         t2 = (rotr32 2 a XOR rotr32 13 a XOR rotr32 22 a) + ((a AND b) XOR (a AND c) XOR (b AND c))
     in (t1 + t2, a, b, c, d + t1, e, f, g))"

definition sha_block :: "int list \<Rightarrow> sha_state \<Rightarrow> sha_state" where
  "sha_block bs st =
     (let W = sha_schedule 48 (map (\<lambda>c. word_of_int (le_word (rev c))) (chunks 16 4 bs))
      in case (st, fold sha_round (zip sha_K W) st) of
           ((a, b, c, d, e, f, g, h), (a', b', c', d', e', f', g', h')) \<Rightarrow>
             (a + a', b + b', c + c', d + d', e + e', f + f', g + g', h + h'))"

definition sha_bytes :: "int list \<Rightarrow> int list" where
  "sha_bytes bs =
     (let p = sha_pad bs
      in case fold sha_block (chunks (length p div 64) 64 p)
             (1779033703, 3144134277, 1013904242, 2773480762, 1359893119, 2600822924, 528734635, 1541459225) of
           (a, b, c, d, e, f, g, h) \<Rightarrow> concat (map (\<lambda>w. rev (le_bytes 4 (uint w))) [a, b, c, d, e, f, g, h]))"

definition sha256_Sum :: "string \<Rightarrow> string" where
  "sha256_Sum s = map (\<lambda>b. char_of (nat b)) (sha_bytes (map of_char s))"

lemma length_sha256_Sum [simp]: "length (sha256_Sum s) = 32"
  by (simp add: sha256_Sum_def sha_bytes_def Let_def split: prod.split)

end
