(* ===== verification/Backup_Schedule.thy ===== *)
theory Backup_Schedule
  imports Sha256 Shard Names
begin

text \<open>
  The VitessBackupSchedule API type and its methods (\<open>vitessbackupschedule_types.go\<close>,
  \<open>vitessbackupschedule_methods.go\<close>), the cron expressions derived from a frequency
  (\<open>schedule_generator.go\<close>) and the search for missed runs (\<open>getNextSchedule\<close>).

  Times and durations are nanoseconds; Go's zero time is \<open>zero_time\<close>.  The cron package is not under \<open>src/\<close>:
  \<open>cron.ParseStandard\<close> is a parameter that yields a function for \<open>Schedule.Next\<close>.
  \<open>time.ParseDuration\<close> and the RFC 3339 format are parameters as well.
\<close>

section \<open>The type\<close>

definition BackupScopeShard :: string where "BackupScopeShard = ''Shard''"
definition BackupScopeKeyspace :: string where "BackupScopeKeyspace = ''Keyspace''"
definition BackupScopeCluster :: string where "BackupScopeCluster = ''Cluster''"
definition BackupMethodVtbackup :: string where "BackupMethodVtbackup = ''vtbackup''"
definition BackupMethodVtctldclient :: string where "BackupMethodVtctldclient = ''vtctldclient''"
definition ForbidConcurrent :: string where "ForbidConcurrent = ''Forbid''"

record backup_strategy =
  sg_Name :: string
  sg_Scope :: string
  sg_Keyspace :: string
  sg_Shard :: string
  sg_ExtraFlags :: "(string, string) gomap"

record schedule_template =
  bt_Name :: string
  bt_Schedule :: string
  bt_Frequency :: string
  bt_BackupMethod :: string
  bt_Strategy :: "backup_strategy list"
  bt_Resources :: resource_requirements
  bt_SuccessfulJobsHistoryLimit :: "32 word option"
  bt_FailedJobsHistoryLimit :: "32 word option"
  bt_Suspend :: "bool option"
  bt_StartingDeadlineSeconds :: "int option"
  bt_ConcurrencyPolicy :: string
  bt_AllowedMissedRuns :: "int option"
  bt_JobTimeoutMinutes :: "32 word"
  bt_Annotations :: "(string \<rightharpoonup> string) option"
  bt_Affinity :: "opaque option"
  bt_Tolerations :: "toleration list option"

record schedule_spec = schedule_template +
  bs_Cluster :: string
  bs_Image :: string
  bs_ImagePullPolicy :: string

record schedule_status =
  bk_LastScheduledTimes :: "(string, int) gomap option"
  bk_GeneratedSchedules :: "(string, string) gomap option"
  bk_NextScheduledTimes :: "(string, int) gomap option"

record backup_schedule =
  vb_Name :: string
  vb_Namespace :: string
  vb_Labels :: "(string \<rightharpoonup> string) option"
  vb_Annotations :: "(string \<rightharpoonup> string) option"
  vb_CreationTimestamp :: int
  vb_Spec :: schedule_spec
  vb_Status :: schedule_status

text \<open>The status a pass works on: its three maps, none of them nil.\<close>

record schedule_maps =
  sm_LastScheduledTimes :: "(string, int) gomap"
  sm_GeneratedSchedules :: "(string, string) gomap"
  sm_NextScheduledTimes :: "(string, int) gomap"

definition NewVitessBackupScheduleStatus :: "schedule_status \<Rightarrow> schedule_maps" where
  "NewVitessBackupScheduleStatus status =
     \<lparr>sm_LastScheduledTimes = (case bk_LastScheduledTimes status of None \<Rightarrow> [] | Some m \<Rightarrow> m),
      sm_GeneratedSchedules = (case bk_GeneratedSchedules status of None \<Rightarrow> [] | Some m \<Rightarrow> m),
      sm_NextScheduledTimes = (case bk_NextScheduledTimes status of None \<Rightarrow> [] | Some m \<Rightarrow> m)\<rparr>"

section \<open>Validation\<close>

definition minute :: int where "minute = 60000000000"

text \<open>
  \<open>int(frequency.Minutes())\<close>.  The float it goes through is exact for whole minutes; for any other duration
  the next test rejects the result, whichever way it was rounded.
\<close>

definition whole_minutes :: "int \<Rightarrow> int" where
  "whole_minutes frequency = frequency div minute"

definition ValidateBackupFrequency :: "int \<Rightarrow> string option" where
  "ValidateBackupFrequency frequency =
     (let totalMinutes = whole_minutes frequency
      in if totalMinutes < 1 then Some ''frequency must be at least 1 minute''
         else if frequency \<noteq> totalMinutes * minute then Some ''frequency must be expressible in whole minutes''
         else if totalMinutes < 60 then
           (if 60 mod totalMinutes \<noteq> 0 then Some ''sub-hour values must divide evenly into 1 hour'' else None)
         else if totalMinutes < 1440 then
           (if totalMinutes mod 60 \<noteq> 0 then Some ''intra-day values must be whole hours''
            else if 24 mod (totalMinutes div 60) \<noteq> 0 then Some ''hourly values must divide evenly into 24 hours''
            else None)
         else if totalMinutes = 1440 then None
         else Some ''maximum supported value is 24h'')"

definition ValidateScheduleConfig :: "(string \<Rightarrow> string + int) \<Rightarrow> 'a schedule_template_scheme \<Rightarrow> string option" where
  "ValidateScheduleConfig ParseDuration t =
     (let hasSchedule = (bt_Schedule t \<noteq> []); hasFrequency = (bt_Frequency t \<noteq> [])
      in if hasSchedule \<and> hasFrequency then Some ''Schedule and Frequency are mutually exclusive, set only one''
         else if \<not> hasSchedule \<and> \<not> hasFrequency then Some ''one of Schedule or Frequency must be set''
         else if hasFrequency then
           (case ParseDuration (bt_Frequency t) of
              Inl err \<Rightarrow> Some (''invalid Frequency: '' @ err)
            | Inr frequency \<Rightarrow> ValidateBackupFrequency frequency)
         else None)"

definition validate_strategy :: "backup_strategy \<Rightarrow> string option" where
  "validate_strategy s =
     (let scope = (if sg_Scope s = [] then BackupScopeShard else sg_Scope s)
      in if scope = BackupScopeShard then
           (if sg_Keyspace s = [] then Some ''Keyspace is required for Shard scope''
            else if sg_Shard s = [] then Some ''Shard is required for Shard scope'' else None)
         else if scope = BackupScopeKeyspace then
           (if sg_Keyspace s = [] then Some ''Keyspace is required for Keyspace scope''
            else if sg_Shard s \<noteq> [] then Some ''Shard must not be set for Keyspace scope'' else None)
         else if scope = BackupScopeCluster then
           (if sg_Keyspace s \<noteq> [] then Some ''Keyspace must not be set for Cluster scope''
            else if sg_Shard s \<noteq> [] then Some ''Shard must not be set for Cluster scope'' else None)
         else Some ''unknown scope'')"

fun validate_strategies :: "backup_strategy list \<Rightarrow> string option" where
  "validate_strategies [] = None"
| "validate_strategies (s # rest) = (case validate_strategy s of Some err \<Rightarrow> Some err | None \<Rightarrow> validate_strategies rest)"

definition ValidateStrategies :: "'a schedule_template_scheme \<Rightarrow> string option" where
  "ValidateStrategies t = validate_strategies (bt_Strategy t)"

definition GetFailedJobsLimit :: "'a schedule_template_scheme \<Rightarrow> 32 word" where
  "GetFailedJobsLimit t = (case bt_FailedJobsHistoryLimit t of None \<Rightarrow> - 1 | Some n \<Rightarrow> n)"

definition GetSuccessfulJobsLimit :: "'a schedule_template_scheme \<Rightarrow> 32 word" where
  "GetSuccessfulJobsLimit t = (case bt_SuccessfulJobsHistoryLimit t of None \<Rightarrow> - 1 | Some n \<Rightarrow> n)"

definition DefaultAllowedMissedRuns :: int where "DefaultAllowedMissedRuns = 100"

definition GetMissedRunsLimit :: "'a schedule_template_scheme \<Rightarrow> int" where
  "GetMissedRunsLimit t = (case bt_AllowedMissedRuns t of None \<Rightarrow> DefaultAllowedMissedRuns | Some n \<Rightarrow> n)"

section \<open>A cron expression for a frequency\<close>

text \<open>\<open>cron.ParseStandard\<close>: an error or the \<open>Next\<close> function of the schedule.\<close>

type_synonym cron_parser = "string \<Rightarrow> string + (int \<Rightarrow> int)"

definition cronFromInterval :: "cron_parser \<Rightarrow> int \<Rightarrow> int \<Rightarrow> string + string" where
  "cronFromInterval ParseStandard totalMinutes offsetMinutes =
     (if totalMinutes < 1 then Inl ''interval must be at least 1 minute''
      else if offsetMinutes < 0 \<or> offsetMinutes \<ge> totalMinutes then Inl ''offset out of range''
      else
        (let expr =
          (if totalMinutes \<ge> 1440 \<and> totalMinutes mod 1440 = 0 then
             (let dayOffset = offsetMinutes mod 1440; hh = dayOffset div 60; mm = dayOffset mod 60
              in if totalMinutes = 1440 then dec_int mm @ '' '' @ dec_int hh @ '' * * *''
                 else dec_int mm @ '' '' @ dec_int hh @ '' */'' @ dec_int (totalMinutes div 1440) @ '' * *'')
           else if totalMinutes \<ge> 60 \<and> totalMinutes mod 60 = 0 then
             (let stepHours = totalMinutes div 60; mm = offsetMinutes mod 60;
                  startHour = (offsetMinutes div 60) mod stepHours
              in if stepHours = 1 then dec_int mm @ '' * * * *''
                 else dec_int mm @ '' '' @ dec_int startHour @ ''/'' @ dec_int stepHours @ '' * * *'')
           else if totalMinutes < 60 then
             dec_int (offsetMinutes mod totalMinutes) @ ''/'' @ dec_int totalMinutes @ '' * * * *''
           else dec_int (offsetMinutes mod 60) @ '' '' @ dec_int (offsetMinutes div 60) @ '' * * *'')
         in case ParseStandard expr of
              Inl err \<Rightarrow> Inl (''generated invalid cron expression '' @ expr)
            | Inr _ \<Rightarrow> Inr expr))"

text \<open>\<open>binary.BigEndian.Uint64\<close> of the first eight bytes.\<close>

definition BigEndian_Uint64 :: "string \<Rightarrow> int" where
  "BigEndian_Uint64 s = le_word (rev (map of_char (take 8 s)))"

definition schedule_hash :: "string \<Rightarrow> string \<Rightarrow> string \<Rightarrow> string \<Rightarrow> int" where
  "schedule_hash cluster keyspace shard scheduleName =
     BigEndian_Uint64 (sha256_Sum (cluster @ ''|'' @ keyspace @ ''|'' @ shard @ ''|'' @ scheduleName))"

definition generateCronFromFrequency ::
    "cron_parser \<Rightarrow> int \<Rightarrow> string \<Rightarrow> string \<Rightarrow> string \<Rightarrow> string \<Rightarrow> string + string"
where
  "generateCronFromFrequency ParseStandard frequency cluster keyspace shard scheduleName =
     (case ValidateBackupFrequency frequency of
        Some err \<Rightarrow> Inl err
      | None \<Rightarrow>
          (let totalMinutes = whole_minutes frequency;
               hashVal = schedule_hash cluster keyspace shard scheduleName
           in cronFromInterval ParseStandard totalMinutes (hashVal mod totalMinutes)))"

section \<open>Missed runs\<close>

text \<open>The zero \<open>time.Time\<close>: the first of January of year 1.\<close>

definition zero_time :: int where "zero_time = - 62135596800000000000"

definition int64 :: "int \<Rightarrow> int" where "int64 i = sint (word_of_int i :: 64 word)"

text \<open>
  The loop over the runs since \<open>t\<close>: it counts them and gives up beyond the limit, so it ends even if
  \<open>Next\<close> does not move on.
\<close>

function missed_loop :: "(int \<Rightarrow> int) \<Rightarrow> int \<Rightarrow> int \<Rightarrow> int \<Rightarrow> int \<Rightarrow> int \<Rightarrow> string + int" where
  "missed_loop Next now' limit t lastMissed missedRuns =
     (if t > now' then Inr lastMissed
      else if missedRuns + 1 > limit then Inl ''too many missed runs, check clock skew or increase .spec.allowedMissedRun''
      else missed_loop Next now' limit (Next t) t (missedRuns + 1))"
  by pat_completeness auto
termination
  by (relation "measure (\<lambda>(_, _, limit, _, _, missedRuns). nat (limit - missedRuns))") auto

declare missed_loop.simps [simp del]

definition getNextSchedule ::
    "cron_parser \<Rightarrow> string \<Rightarrow> backup_schedule \<Rightarrow> int \<Rightarrow> int option \<Rightarrow> string + (int \<times> int)"
where
  "getNextSchedule ParseStandard cronSchedule vbsc now' mostRecentTime =
     (case ParseStandard cronSchedule of
        Inl err \<Rightarrow> Inl (''unable to parse schedule: '' @ err)
      | Inr Next \<Rightarrow>
          (let mostRecent = (case mostRecentTime of None \<Rightarrow> vb_CreationTimestamp vbsc | Some t \<Rightarrow> t);
               mostRecent = (case bt_StartingDeadlineSeconds (vb_Spec vbsc) of
                   None \<Rightarrow> mostRecent
                 | Some s \<Rightarrow>
                     (let schedulingDeadline = now' + int64 (- 1000000000 * s)
                      in if schedulingDeadline > mostRecent then schedulingDeadline else mostRecent))
           in if mostRecent > now' then Inr (zero_time, Next now')
              else (case missed_loop Next now' (GetMissedRunsLimit (vb_Spec vbsc)) (Next mostRecent) zero_time 0 of
                      Inl err \<Rightarrow> Inl err
                    | Inr lastMissed \<Rightarrow> Inr (lastMissed, Next now'))))"

section \<open>The generated schedule keeps its cadence\<close>

text \<open>
  What the fields of a cron expression mean, as cron documents it: a star, one value, or every \<open>k\<close>-th
  value from a first one up to the end of the field's range.  An expression with a minute and an hour field fires
  at the minutes of every day that match both.
\<close>

datatype cron_field = EveryValue | AtValue int | FromStep int int

fun field_text :: "cron_field \<Rightarrow> string" where
  "field_text EveryValue = ''*''"
| "field_text (AtValue v) = dec_int v"
| "field_text (FromStep s k) = dec_int s @ ''/'' @ dec_int k"

fun field_matches :: "cron_field \<Rightarrow> int \<Rightarrow> bool" where
  "field_matches EveryValue v \<longleftrightarrow> True"
| "field_matches (AtValue n) v \<longleftrightarrow> v = n"
| "field_matches (FromStep s k) v \<longleftrightarrow> s \<le> v \<and> (v - s) mod k = 0"

fun field_in_range :: "int \<Rightarrow> cron_field \<Rightarrow> bool" where
  "field_in_range n EveryValue \<longleftrightarrow> True"
| "field_in_range n (AtValue v) \<longleftrightarrow> 0 \<le> v \<and> v < n"
| "field_in_range n (FromStep s k) \<longleftrightarrow> 0 \<le> s \<and> s < n \<and> 0 < k \<and> k \<le> n"

definition daily_text :: "cron_field \<Rightarrow> cron_field \<Rightarrow> string" where
  "daily_text mi ho = field_text mi @ '' '' @ field_text ho @ '' * * *''"

text \<open>Whether the expression fires in the minute \<open>t\<close> of a count that starts at a midnight.\<close>

definition daily_fires :: "cron_field \<Rightarrow> cron_field \<Rightarrow> int \<Rightarrow> bool" where
  "daily_fires mi ho t \<longleftrightarrow> field_matches mi (t mod 60) \<and> field_matches ho ((t div 60) mod 24)"

definition accepts_daily :: "cron_parser \<Rightarrow> bool" where
  "accepts_daily ParseStandard \<longleftrightarrow>
     (\<forall>mi ho. field_in_range 60 mi \<longrightarrow> field_in_range 24 ho \<longrightarrow> (\<exists>sched. ParseStandard (daily_text mi ho) = Inr sched))"

lemma whole_minutes_exact [simp]: "whole_minutes (n * minute) = n"
  by (simp add: whole_minutes_def minute_def)

lemma ValidateBackupFrequency_None:
  "ValidateBackupFrequency f = None \<longleftrightarrow> (\<exists>n. f = n * minute \<and>
     (0 < n \<and> n < 60 \<and> n dvd 60 \<or> (\<exists>h. n = 60 * h \<and> 0 < h \<and> h \<le> 24 \<and> h dvd 24)))"
proof
  assume valid: "ValidateBackupFrequency f = None"
  define n where "n = whole_minutes f"
  have n: "1 \<le> n" "f = n * minute" "n \<le> 1440" "n < 60 \<longrightarrow> 60 mod n = 0"
    "60 \<le> n \<longrightarrow> n mod 60 = 0 \<and> 24 mod (n div 60) = 0"
    using valid unfolding ValidateBackupFrequency_def n_def Let_def by (simp_all split: if_splits)
  then show "\<exists>n. f = n * minute \<and> (0 < n \<and> n < 60 \<and> n dvd 60 \<or> (\<exists>h. n = 60 * h \<and> 0 < h \<and> h \<le> 24 \<and> h dvd 24))"
  proof (intro exI [of _ n] conjI)
    show "0 < n \<and> n < 60 \<and> n dvd 60 \<or> (\<exists>h. n = 60 * h \<and> 0 < h \<and> h \<le> 24 \<and> h dvd 24)"
    proof (cases "n < 60")
      case False
      then have "n = 60 * (n div 60)" "0 < n div 60" "n div 60 \<le> 24" "n div 60 dvd 24"
        using n by (auto simp: dvd_eq_mod_eq_0)
      then show ?thesis by blast
    qed (use n in \<open>auto simp: dvd_eq_mod_eq_0\<close>)
  qed simp
next
  assume "\<exists>n. f = n * minute \<and> (0 < n \<and> n < 60 \<and> n dvd 60 \<or> (\<exists>h. n = 60 * h \<and> 0 < h \<and> h \<le> 24 \<and> h dvd 24))"
  then obtain n where f: "f = n * minute"
    and n: "0 < n \<and> n < 60 \<and> n dvd 60 \<or> (\<exists>h. n = 60 * h \<and> 0 < h \<and> h \<le> 24 \<and> h dvd 24)" by blast
  from n show "ValidateBackupFrequency f = None"
  proof (elim disjE exE conjE)
    assume "0 < n" "n < 60" "n dvd 60"
    then show ?thesis by (simp add: ValidateBackupFrequency_def f dvd_eq_mod_eq_0)
  next
    fix h assume "n = 60 * h" "0 < h" "h \<le> 24" "h dvd 24"
    then show ?thesis by (simp add: ValidateBackupFrequency_def f dvd_eq_mod_eq_0 Let_def)
  qed
qed

lemma step_residue:
  assumes "0 \<le> s" "s < (k :: int)" "0 \<le> v"
  shows "s \<le> v \<and> (v - s) mod k = 0 \<longleftrightarrow> v mod k = s"
proof
  assume "s \<le> v \<and> (v - s) mod k = 0"
  then have "v mod k = s mod k" by (simp add: mod_eq_dvd_iff dvd_eq_mod_eq_0)
  then show "v mod k = s" using assms by simp
next
  assume eq: "v mod k = s"
  have "s \<le> v" using eq assms zmod_le_nonneg_dividend [of v k] by simp
  moreover have "(v - s) mod k = 0" using eq by (metis minus_mod_eq_mult_div mod_mult_self1_is_0)
  ultimately show "s \<le> v \<and> (v - s) mod k = 0" by simp
qed

lemma mod_60_split:
  assumes "0 < h"
  shows "t mod (60 * h) = off \<longleftrightarrow> (t div 60) mod h = off div 60 \<and> t mod 60 = off mod (60 :: int)"
proof -
  have split: "t mod (60 * h) = 60 * ((t div 60) mod h) + t mod 60"
    using assms by (simp add: zmod_zmult2_eq)
  show ?thesis
  proof
    assume "t mod (60 * h) = off"
    then have "off = 60 * ((t div 60) mod h) + t mod 60" using split by simp
    then show "(t div 60) mod h = off div 60 \<and> t mod 60 = off mod 60" by simp
  next
    assume "(t div 60) mod h = off div 60 \<and> t mod 60 = off mod 60"
    then show "t mod (60 * h) = off" unfolding split by simp
  qed
qed

lemma fires_hourly:
  assumes "0 < h" "h dvd (24 :: int)" "0 \<le> off" "off < 60 * h"
  shows "daily_fires (AtValue (off mod 60)) (FromStep (off div 60) h) t \<longleftrightarrow> t mod (60 * h) = off"
proof -
  have "((t div 60) mod 24) mod h = (t div 60) mod h"
    using assms(2) by (rule mod_mod_cancel)
  moreover have "off div 60 < h" "0 \<le> off div 60" using assms by auto
  ultimately show ?thesis
    using step_residue [of "off div 60" h "(t div 60) mod 24"]
    by (auto simp: daily_fires_def mod_60_split [OF assms(1)])
qed

lemma fires_minutes:
  assumes "0 < n" "n dvd (60 :: int)" "0 \<le> off" "off < n"
  shows "daily_fires (FromStep off n) EveryValue t \<longleftrightarrow> t mod n = off"
proof -
  have "(t mod 60) mod n = t mod n" using assms(2) by (rule mod_mod_cancel)
  then show ?thesis using step_residue [of off n "t mod 60"] assms by (simp add: daily_fires_def)
qed

lemma fires_day:
  assumes "0 \<le> off" "off < (1440 :: int)"
  shows "daily_fires (AtValue (off mod 60)) (AtValue (off div 60)) t \<longleftrightarrow> t mod 1440 = off"
  using mod_60_split [of 24 t off] by (auto simp: daily_fires_def)

lemma cronFromInterval_daily:
  assumes accepts: "accepts_daily ParseStandard" and off: "0 \<le> off" "off < n"
    and n: "0 < n \<and> n < 60 \<and> n dvd 60 \<or> (\<exists>h. n = 60 * h \<and> 0 < h \<and> h \<le> 24 \<and> h dvd 24)"
  shows "\<exists>mi ho. cronFromInterval ParseStandard n off = Inr (daily_text mi ho) \<and> (\<forall>t. daily_fires mi ho t \<longleftrightarrow> t mod n = off)"
proof -
  have parses: "\<exists>sched. ParseStandard (daily_text mi ho) = Inr sched" if "field_in_range 60 mi" "field_in_range 24 ho" for mi ho
    using accepts that by (simp add: accepts_daily_def)
  show ?thesis
  proof (cases "n < 60")
    case True
    then have d: "n dvd 60" using n by auto
    have "cronFromInterval ParseStandard n off = Inr (daily_text (FromStep off n) EveryValue)"
      using parses [of "FromStep off n" EveryValue] True off
      by (auto simp: cronFromInterval_def Let_def daily_text_def mod_pos_pos_trivial)
    then show ?thesis using fires_minutes d off by fastforce
  next
    case False
    then obtain h where h: "n = 60 * h" "0 < h" "h \<le> 24" "h dvd 24" using n by auto
    have hour: "off div 60 < h" "0 \<le> off div 60" using off h by auto
    consider "h = 24" | "h = 1" | "1 < h" "h < 24" using h by linarith
    then show ?thesis
    proof cases
      case 1
      have "cronFromInterval ParseStandard n off = Inr (daily_text (AtValue (off mod 60)) (AtValue (off div 60)))"
        using parses [of "AtValue (off mod 60)" "AtValue (off div 60)"] off hour h 1
        by (auto simp: cronFromInterval_def Let_def daily_text_def mod_pos_pos_trivial)
      then show ?thesis using fires_day [OF off(1)] off h 1 by fastforce
    next
      case 2
      have "cronFromInterval ParseStandard n off = Inr (daily_text (AtValue (off mod 60)) EveryValue)"
        using parses [of "AtValue (off mod 60)" EveryValue] off h 2
        by (auto simp: cronFromInterval_def Let_def daily_text_def)
      moreover have "daily_fires (AtValue (off mod 60)) EveryValue t \<longleftrightarrow> t mod n = off" for t
        using off h 2 by (simp add: daily_fires_def mod_pos_pos_trivial)
      ultimately show ?thesis by blast
    next
      case 3
      have "cronFromInterval ParseStandard n off = Inr (daily_text (AtValue (off mod 60)) (FromStep (off div 60) h))"
        using parses [of "AtValue (off mod 60)" "FromStep (off div 60) h"] off h hour 3
        by (auto simp: cronFromInterval_def Let_def daily_text_def mod_pos_pos_trivial)
      then show ?thesis using fires_hourly [OF h(2,4) off(1)] off h by fastforce
    qed
  qed
qed

text \<open>C38: For every frequency that validation accepts, and only for those, a cron expression is generated, and it keeps the
  frequency exactly: it fires once in every interval of that length, always at the same offset into it, across
  hours and days.  The offset depends on nothing but the cluster, keyspace, shard and name of the schedule.\<close>

theorem generateCronFromFrequency_exact:
  assumes "accepts_daily ParseStandard"
  shows "case generateCronFromFrequency ParseStandard f cluster keyspace shard name of
      Inl err \<Rightarrow> ValidateBackupFrequency f \<noteq> None
    | Inr expr \<Rightarrow> ValidateBackupFrequency f = None \<and> f = whole_minutes f * minute \<and>
        (\<exists>mi ho. expr = daily_text mi ho \<and> (\<forall>t. daily_fires mi ho t \<longleftrightarrow>
           t mod whole_minutes f = schedule_hash cluster keyspace shard name mod whole_minutes f))"
proof (cases "ValidateBackupFrequency f")
  case None
  then obtain n where n: "f = n * minute"
    "0 < n \<and> n < 60 \<and> n dvd 60 \<or> (\<exists>h. n = 60 * h \<and> 0 < h \<and> h \<le> 24 \<and> h dvd 24)"
    unfolding ValidateBackupFrequency_None by blast
  have w: "whole_minutes f = n" by (simp add: n(1))
  have "0 < n" using n(2) by auto
  then have "0 \<le> schedule_hash cluster keyspace shard name mod n" "schedule_hash cluster keyspace shard name mod n < n"
    by simp_all
  then obtain mi ho where "cronFromInterval ParseStandard n (schedule_hash cluster keyspace shard name mod n)
      = Inr (daily_text mi ho)" "\<forall>t. daily_fires mi ho t \<longleftrightarrow> t mod n = schedule_hash cluster keyspace shard name mod n"
    using cronFromInterval_daily [OF assms _ _ n(2)] by blast
  then show ?thesis using None
    by (simp add: generateCronFromFrequency_def w n(1)) (intro exI [of _ mi] exI [of _ ho], simp)
next
  case (Some err)
  then show ?thesis by (simp add: generateCronFromFrequency_def)
qed

text \<open>A parser that accepts everything, and a frequency of six hours.\<close>

theorem generateCronFromFrequency_exact_witness:
  "\<exists>expr mi ho. generateCronFromFrequency (\<lambda>s. Inr id) 21600000000000 ''c'' ''k'' ''-'' ''n'' = Inr expr
     \<and> expr = daily_text mi ho \<and> (\<forall>t. daily_fires mi ho t \<longleftrightarrow> t mod 360 = schedule_hash ''c'' ''k'' ''-'' ''n'' mod 360)"
proof -
  have "accepts_daily (\<lambda>s. Inr id)" by (simp add: accepts_daily_def)
  note exact = generateCronFromFrequency_exact [OF this, of 21600000000000 "''c''" "''k''" "''-''" "''n''"]
  have "ValidateBackupFrequency 21600000000000 = None" "whole_minutes 21600000000000 = 360"
    by (simp_all add: ValidateBackupFrequency_def whole_minutes_def minute_def)
  then show ?thesis using exact by (auto split: sum.splits)
qed

section \<open>The search for missed runs\<close>

text \<open>The firing times of a schedule, and what \<open>Schedule.Next\<close> promises: the first one after a time.\<close>

definition next_of :: "(int \<Rightarrow> bool) \<Rightarrow> (int \<Rightarrow> int) \<Rightarrow> bool" where
  "next_of fires Next \<longleftrightarrow> (\<forall>t. fires (Next t) \<and> t < Next t \<and> (\<forall>s. fires s \<longrightarrow> t < s \<longrightarrow> Next t \<le> s))"

definition missed :: "(int \<Rightarrow> bool) \<Rightarrow> int \<Rightarrow> int \<Rightarrow> int set" where
  "missed fires start now' = {s. fires s \<and> start < s \<and> s \<le> now'}"

lemma finite_missed [simp]: "finite (missed fires start now')"
  by (rule finite_subset [of _ "{start..now'}"]) (auto simp: missed_def)

lemma missed_Next:
  assumes "next_of fires Next"
  shows "missed fires start now' =
    (if Next start > now' then {} else insert (Next start) (missed fires (Next start) now'))"
    and "Next start \<notin> missed fires (Next start) now'"
proof -
  have step: "fires (Next start)" "start < Next start" "\<And>s. fires s \<Longrightarrow> start < s \<Longrightarrow> Next start \<le> s"
    using assms by (auto simp: next_of_def)
  show "missed fires start now' =
    (if Next start > now' then {} else insert (Next start) (missed fires (Next start) now'))"
  proof (cases "Next start > now'")
    case True
    have "\<not> (fires s \<and> start < s \<and> s \<le> now')" for s using step(3) [of s] True by auto
    then show ?thesis by (simp add: True missed_def)
  next
    case False
    have "fires s \<and> start < s \<and> s \<le> now' \<longleftrightarrow> s = Next start \<or> fires s \<and> Next start < s \<and> s \<le> now'" for s
      using step(1,2) step(3) [of s] False by auto
    then show ?thesis by (auto simp: False missed_def)
  qed
  show "Next start \<notin> missed fires (Next start) now'" by (simp add: missed_def)
qed

lemma missed_loop_spec:
  assumes "next_of fires Next"
  shows "missed_loop Next now' limit (Next start) prev runs =
     (if missed fires start now' \<noteq> {} \<and> runs + int (card (missed fires start now')) > limit
      then Inl ''too many missed runs, check clock skew or increase .spec.allowedMissedRun''
      else Inr (if missed fires start now' = {} then prev else Max (missed fires start now')))"
proof (induction "card (missed fires start now')" arbitrary: start prev runs)
  case 0
  then have "missed fires start now' = {}" by simp
  then show ?case using missed_Next(1) [OF assms, of start now']
    by (simp add: missed_loop.simps [of _ _ _ "Next start"] split: if_splits)
next
  case (Suc n)
  then have ne: "missed fires start now' \<noteq> {}" by auto
  then have le: "\<not> Next start > now'" and ins: "missed fires start now' = insert (Next start) (missed fires (Next start) now')"
    using missed_Next(1) [OF assms, of start now'] by (simp_all split: if_splits)
  have n: "n = card (missed fires (Next start) now')"
    using Suc.hyps(2) missed_Next(2) [OF assms, of start now'] by (simp add: ins)
  have max: "Max (missed fires start now') =
      (if missed fires (Next start) now' = {} then Next start else Max (missed fires (Next start) now'))"
  proof (cases "missed fires (Next start) now' = {}")
    case False
    then have "Next start \<le> Max (missed fires (Next start) now')"
      using Max_in [OF finite_missed False] by (simp add: missed_def)
    then show ?thesis using False by (simp add: ins)
  qed (simp add: ins)
  have pos: "card (missed fires (Next start) now') > 0 \<longleftrightarrow> missed fires (Next start) now' \<noteq> {}"
    by (simp add: card_gt_0_iff)
  show ?case
    using Suc.hyps(1) [OF n, of "Next start" "runs + 1"] ne le Suc.hyps(2) n pos
    by (subst missed_loop.simps) (auto simp: max)
qed

text \<open>The time the search starts from: the last known run or the creation, but not before the deadline.\<close>

definition search_start :: "backup_schedule \<Rightarrow> int \<Rightarrow> int option \<Rightarrow> int" where
  "search_start vbsc now' mostRecentTime =
     (let t = (case mostRecentTime of None \<Rightarrow> vb_CreationTimestamp vbsc | Some t \<Rightarrow> t)
      in case bt_StartingDeadlineSeconds (vb_Spec vbsc) of
           None \<Rightarrow> t | Some s \<Rightarrow> max t (now' + int64 (- 1000000000 * s)))"

text \<open>The search for missed runs always ends.  With \<open>start\<close> the last known run or the creation of the schedule, moved up to
  the starting deadline, it returns the latest firing time that lies after \<open>start\<close> and not after now, or the zero time if there is
  none, together with the first firing time after now; it fails exactly if more runs were missed than are
  allowed.\<close>

theorem getNextSchedule_spec:
  assumes "ParseStandard cron = Inr Next" "next_of fires Next"
  shows "let start = search_start vbsc now' mostRecentTime; runs = {s. fires s \<and> start < s \<and> s \<le> now'}
    in case getNextSchedule ParseStandard cron vbsc now' mostRecentTime of
         Inl err \<Rightarrow> runs \<noteq> {} \<and> int (card runs) > GetMissedRunsLimit (vb_Spec vbsc)
       | Inr (lastMissed, nextRun) \<Rightarrow>
           lastMissed = (if runs = {} then zero_time else Max runs)
           \<and> (runs = {} \<or> int (card runs) \<le> GetMissedRunsLimit (vb_Spec vbsc))
           \<and> fires nextRun \<and> nextRun > now' \<and> (\<forall>s. fires s \<longrightarrow> s > now' \<longrightarrow> nextRun \<le> s)"
proof -
  define start where "start = search_start vbsc now' mostRecentTime"
  have run: "getNextSchedule ParseStandard cron vbsc now' mostRecentTime =
      (if start > now' then Inr (zero_time, Next now')
       else (case missed_loop Next now' (GetMissedRunsLimit (vb_Spec vbsc)) (Next start) zero_time 0 of
               Inl err \<Rightarrow> Inl err | Inr lastMissed \<Rightarrow> Inr (lastMissed, Next now')))"
    by (auto simp: getNextSchedule_def assms(1) start_def search_start_def Let_def max_def split: option.splits)
  have next': "fires (Next now')" "Next now' > now'" "\<forall>s. fires s \<longrightarrow> s > now' \<longrightarrow> Next now' \<le> s"
    using assms(2) by (auto simp: next_of_def)
  show ?thesis
  proof (cases "start > now'")
    case True
    have "missed fires start now' = {}" using True by (auto simp: missed_def)
    then show ?thesis
      using True next' by (simp add: run missed_def flip: start_def)
  next
    case False
    then show ?thesis
      using next' unfolding start_def [symmetric] run Let_def missed_def [symmetric] missed_loop_spec [OF assms(2)]
      by simp
  qed
qed

text \<open>A schedule that fires at every multiple of ten, last run at 5, now at 34.\<close>

theorem getNextSchedule_spec_witness:
  "\<exists>vbsc. getNextSchedule (\<lambda>s. Inr (\<lambda>t. 10 * (t div 10 + 1))) ''x'' vbsc 34 (Some 5) = Inr (30, 40)"
proof -
  let ?next = "\<lambda>t :: int. 10 * (t div 10 + 1)"
  let ?fires = "\<lambda>t :: int. t mod 10 = 0"
  define vbsc where "vbsc = \<lparr>vb_Name = [], vb_Namespace = [], vb_Labels = None, vb_Annotations = None,
    vb_CreationTimestamp = 0, vb_Spec = \<lparr>bt_Name = [], bt_Schedule = ''x'', bt_Frequency = [], bt_BackupMethod = [],
      bt_Strategy = [], bt_Resources = \<lparr>limits = None, requests = None\<rparr>, bt_SuccessfulJobsHistoryLimit = None, bt_FailedJobsHistoryLimit = None,
      bt_Suspend = None, bt_StartingDeadlineSeconds = None, bt_ConcurrencyPolicy = [], bt_AllowedMissedRuns = None,
      bt_JobTimeoutMinutes = 10, bt_Annotations = None, bt_Affinity = None, bt_Tolerations = None,
      bs_Cluster = [], bs_Image = [], bs_ImagePullPolicy = []\<rparr>,
    vb_Status = \<lparr>bk_LastScheduledTimes = None, bk_GeneratedSchedules = None, bk_NextScheduledTimes = None\<rparr>\<rparr>"
  have "next_of ?fires ?next" unfolding next_of_def by presburger
  note spec = getNextSchedule_spec [OF refl this, where cron = "''x''", of vbsc 34 "Some 5"]
  have start: "search_start vbsc 34 (Some 5) = 5" by (simp add: search_start_def vbsc_def)
  have runs: "{s :: int. s mod 10 = 0 \<and> 5 < s \<and> s \<le> 34} = {10, 20, 30}" by (auto; presburger)
  have "getNextSchedule (\<lambda>s. Inr ?next) ''x'' vbsc 34 (Some 5) = Inr (30, 40)"
    using spec unfolding start runs Let_def
    by (auto simp: GetMissedRunsLimit_def DefaultAllowedMissedRuns_def vbsc_def split: sum.splits prod.splits) presburger+
  then show ?thesis by blast
qed

end
