(* ===== verification/Vitess_Flags.thy ===== *)
theory Vitess_Flags
  imports Shard Names
begin

text \<open>
  What the builders of Pods share: flags of Vitess binaries (\<open>pkg/operator/vitess/flags.go\<close>), mounted secrets
  (\<open>pkg/operator/secrets/volume_mount.go\<close>), providers collected at start (\<open>pkg/operator/lazy\<close>) and backup storage
  locations (\<open>pkg/operator/vitessbackup/storage*.go\<close>).
\<close>

section \<open>Formatting\<close>

text \<open>\<open>time.Duration\<close> prints itself: hours, minutes and seconds, or a smaller unit below one second.\<close>

fun strip_zeros :: "string \<Rightarrow> string" where
  "strip_zeros [] = []"
| "strip_zeros (c # cs) = (if c = CHR ''0'' then strip_zeros cs else c # cs)"

text \<open>The last \<open>w\<close> decimal digits of a number.\<close>

fun dec_digits :: "nat \<Rightarrow> int \<Rightarrow> string" where
  "dec_digits 0 v = []"
| "dec_digits (Suc w) v = dec_digits w (v div 10) @ [digit_char (nat (v mod 10))]"

text \<open>\<open>fmtFrac\<close>: the last \<open>prec\<close> digits as a fraction without trailing zeros, no point if they are all zero.\<close>

definition fmtFrac :: "int \<Rightarrow> nat \<Rightarrow> string" where
  "fmtFrac v prec = (case rev (strip_zeros (rev (dec_digits prec v))) of [] \<Rightarrow> [] | ds \<Rightarrow> CHR ''.'' # ds)"

definition Duration_String :: "int \<Rightarrow> string" where
  "Duration_String d =
     (let u = \<bar>d\<bar>; sign = (if d < 0 then ''-'' else [])
      in if u = 0 then ''0s''
         else if u < 1000 then sign @ dec_int u @ ''ns''
         else if u < 1000000 then sign @ dec_int (u div 1000) @ fmtFrac u 3 @ [CHR 0xC2, CHR 0xB5, CHR ''s'']
         else if u < 1000000000 then sign @ dec_int (u div 1000000) @ fmtFrac u 6 @ ''ms''
         else (let secs = u div 1000000000; mins = secs div 60; hours = mins div 60
               in sign @ (if hours > 0 then dec_int hours @ ''h'' else [])
                  @ (if mins > 0 then dec_int (mins mod 60) @ ''m'' else [])
                  @ dec_int (secs mod 60) @ fmtFrac u 9 @ ''s''))"

section \<open>Flags\<close>

datatype flag_value = FString string | FBool bool | FInt int | FDuration int

text \<open>The verb \<open>%v\<close>.\<close>

fun flag_text :: "flag_value \<Rightarrow> string" where
  "flag_text (FString s) = s"
| "flag_text (FBool b) = (if b then ''true'' else ''false'')"
| "flag_text (FInt i) = dec_int i"
| "flag_text (FDuration d) = Duration_String d"

type_synonym flags = "(string, flag_value) gomap"

definition set_flag :: "string \<Rightarrow> flag_value \<Rightarrow> flags \<Rightarrow> flags" where
  "set_flag = AList.update"

definition flags_Merge :: "flags \<Rightarrow> flags \<Rightarrow> flags" where
  "flags_Merge f flags = fold (\<lambda>(key, value). set_flag key value) flags f"

definition flag_arg :: "string \<Rightarrow> string \<Rightarrow> string" where
  "flag_arg key value = ''--'' @ key @ ''='' @ value"

definition FormatArgs :: "flags \<Rightarrow> string list" where
  "FormatArgs f = map (\<lambda>key. flag_arg key (flag_text (the (map_of f key)))) (sorted_keys f)"

text \<open>The type assertion panics on a value that is not a string: \<open>None\<close>.\<close>

definition boolean_arg :: "string \<Rightarrow> string \<Rightarrow> string" where
  "boolean_arg key v =
     (let value = ToLower v
      in if value = ''true'' then ''--'' @ key
         else if value = ''false'' then ''--no-'' @ key
         else flag_arg key value)"

definition FormatArgsConvertBoolean :: "flags \<Rightarrow> string list option" where
  "FormatArgsConvertBoolean f =
     map_opt (\<lambda>key. (case map_of f key of Some (FString v) \<Rightarrow> Some (boolean_arg key v) | _ \<Rightarrow> None)) (sorted_keys f)"

section \<open>Providers\<close>

text \<open>A lazy value is the list of its providers, in the order of registration.\<close>

definition lazy_concat :: "('s \<Rightarrow> 'x list) list \<Rightarrow> 's \<Rightarrow> 'x list" where
  "lazy_concat providers spec = concat (map (\<lambda>p. p spec) providers)"

definition lazy_merge :: "('s \<Rightarrow> (string, 'v) gomap) list \<Rightarrow> 's \<Rightarrow> (string, 'v) gomap" where
  "lazy_merge providers spec = fold (\<lambda>p res. fold (\<lambda>(k, v). AList.update k v) (p spec) res) providers []"

section \<open>Paths\<close>

text \<open>\<open>filepath.Clean\<close> on the elements of a path, and \<open>filepath.Join\<close>.\<close>

fun path_elements :: "string \<Rightarrow> string \<Rightarrow> string list" where
  "path_elements cur [] = [rev cur]"
| "path_elements cur (c # cs) = (if c = CHR ''/'' then rev cur # path_elements [] cs else path_elements (c # cur) cs)"

definition clean_step :: "bool \<Rightarrow> string list \<Rightarrow> string \<Rightarrow> string list" where
  "clean_step rooted stack e =
     (if e = [] \<or> e = ''.'' then stack
      else if e = ''..'' then
        (case stack of
           [] \<Rightarrow> if rooted then [] else [''..'']
         | newest # rest \<Rightarrow> if newest = ''..'' then ''..'' # stack else rest)
      else e # stack)"

definition filepath_Clean :: "string \<Rightarrow> string" where
  "filepath_Clean path =
     (let rooted = (case path of [] \<Rightarrow> False | c # _ \<Rightarrow> c = CHR ''/'');
          elements = rev (foldl (clean_step rooted) [] (path_elements [] path))
      in if rooted then ''/'' @ join_with ''/'' elements
         else if elements = [] then ''.'' else join_with ''/'' elements)"

definition filepath_Join :: "string list \<Rightarrow> string" where
  "filepath_Join parts =
     (let parts = filter (\<lambda>e. e \<noteq> []) parts in if parts = [] then [] else filepath_Clean (join_with ''/'' parts))"

section \<open>Mounted secrets\<close>

record VolumeMount =
  sm_Secret :: SecretSource
  sm_DirName :: string
  sm_AbsolutePath :: string

definition VolumeMountRootDir :: string where "VolumeMountRootDir = ''/vt/secrets''"
definition volumeMountMode :: int where "volumeMountMode = 292"

definition secret_Mount :: "SecretSource \<Rightarrow> string \<Rightarrow> VolumeMount" where
  "secret_Mount secretSource dirName = \<lparr>sm_Secret = secretSource, sm_DirName = dirName, sm_AbsolutePath = []\<rparr>"

definition VolumeName :: "VolumeMount \<Rightarrow> string" where
  "VolumeName v =
     (if sec_VolumeName (sm_Secret v) \<noteq> [] then sec_VolumeName (sm_Secret v) else sm_DirName v @ ''-secret'')"

definition DirPath :: "VolumeMount \<Rightarrow> string" where
  "DirPath v = (if sm_AbsolutePath v \<noteq> [] then sm_AbsolutePath v else filepath_Join [VolumeMountRootDir, sm_DirName v])"

definition FilePath :: "VolumeMount \<Rightarrow> string" where
  "FilePath v = filepath_Join [DirPath v, sec_Key (sm_Secret v)]"

definition PodVolumes :: "VolumeMount \<Rightarrow> volume list" where
  "PodVolumes v =
     (if sec_Name (sm_Secret v) = [] then []
      else [\<lparr>vol_name = VolumeName v,
              vol_source = SecretVolume (sec_Name (sm_Secret v)) volumeMountMode [(sec_Key (sm_Secret v), sec_Key (sm_Secret v))]\<rparr>])"

definition ContainerVolumeMount :: "VolumeMount \<Rightarrow> volume_mount" where
  "ContainerVolumeMount v =
     \<lparr>vm_name = VolumeName v, vm_mountPath = DirPath v, vm_readOnly = True, vm_subPath = [], vm_rest = []\<rparr>"

section \<open>Backup storage\<close>

definition trim_right :: "char \<Rightarrow> string \<Rightarrow> string" where
  "trim_right c s = rev (dropWhile (\<lambda>x. x = c) (rev s))"

definition rootKeyPrefix :: "string \<Rightarrow> string \<Rightarrow> string" where
  "rootKeyPrefix userPrefix clusterName =
     (let userPrefix = trim_right (CHR ''/'') userPrefix
      in if userPrefix = [] then clusterName else userPrefix @ ''/'' @ clusterName)"

definition gcsAuthDirName :: string where "gcsAuthDirName = ''gcs-backup-auth''"
definition s3AuthDirName :: string where "s3AuthDirName = ''s3-backup-auth''"
definition azblobAuthDirName :: string where "azblobAuthDirName = ''azblob-backup-auth''"
definition cephAuthDirName :: string where "cephAuthDirName = ''ceph-backup-auth''"
definition fileBackupStorageVolumeName :: string where "fileBackupStorageVolumeName = ''vitess-backups''"
definition fileBackupStorageMountPath :: string where "fileBackupStorageMountPath = ''/vt/backups''"

definition gcsBackupFlags :: "gcs_location \<Rightarrow> string \<Rightarrow> flags" where
  "gcsBackupFlags gcs clusterName =
     [(''backup_storage_implementation'', FString ''gcs''),
      (''gcs_backup_storage_bucket'', FString (gcs_Bucket gcs)),
      (''gcs_backup_storage_root'', FString (rootKeyPrefix (gcs_KeyPrefix gcs) clusterName))]"

definition s3BackupFlags :: "s3_location \<Rightarrow> string \<Rightarrow> flags" where
  "s3BackupFlags s3 clusterName =
     (let flags = [(''backup_storage_implementation'', FString ''s3''),
            (''s3_backup_aws_region'', FString (s3_Region s3)),
            (''s3_backup_storage_bucket'', FString (s3_Bucket s3)),
            (''s3_backup_storage_root'', FString (rootKeyPrefix (s3_KeyPrefix s3) clusterName)),
            (''s3_backup_force_path_style'', FBool (s3_ForcePathStyle s3))];
          flags = (if s3_MinPartSize s3 > 0 then set_flag ''s3_backup_aws_min_partsize'' (FInt (s3_MinPartSize s3)) flags else flags)
      in if s3_Endpoint s3 \<noteq> [] then set_flag ''s3_backup_aws_endpoint'' (FString (s3_Endpoint s3)) flags else flags)"

definition azblobBackupFlags :: "azblob_location \<Rightarrow> string \<Rightarrow> flags" where
  "azblobBackupFlags azblob clusterName =
     [(''backup_storage_implementation'', FString ''azblob''),
      (''azblob_backup_account_name'', FString (az_Account azblob)),
      (''azblob_backup_account_key_file'', FString (FilePath (secret_Mount (az_AuthSecret azblob) azblobAuthDirName))),
      (''azblob_backup_container_name'', FString (az_Container azblob)),
      (''azblob_backup_storage_root'', FString (rootKeyPrefix (az_KeyPrefix azblob) clusterName))]"

definition cephBackupFlags :: "SecretSource \<Rightarrow> flags" where
  "cephBackupFlags ceph =
     [(''backup_storage_implementation'', FString ''ceph''),
      (''ceph_backup_storage_config'', FString (FilePath (secret_Mount ceph cephAuthDirName)))]"

definition fileBackupFlags :: "string \<Rightarrow> flags" where
  "fileBackupFlags clusterName =
     [(''backup_storage_implementation'', FString ''file''),
      (''file_backup_storage_root'', FString (rootKeyPrefix fileBackupStorageMountPath clusterName))]"

definition StorageFlags :: "backup_location \<Rightarrow> string \<Rightarrow> flags" where
  "StorageFlags backupLocation clusterName =
     (case bl_GCS backupLocation of Some gcs \<Rightarrow> gcsBackupFlags gcs clusterName
      | None \<Rightarrow> (case bl_S3 backupLocation of Some s3 \<Rightarrow> s3BackupFlags s3 clusterName
      | None \<Rightarrow> (case bl_Azblob backupLocation of Some azblob \<Rightarrow> azblobBackupFlags azblob clusterName
      | None \<Rightarrow> (case bl_Ceph backupLocation of Some ceph \<Rightarrow> cephBackupFlags ceph
      | None \<Rightarrow> (case bl_Volume backupLocation of Some _ \<Rightarrow> fileBackupFlags clusterName | None \<Rightarrow> [])))))"

text \<open>The secret of a location with its directory, if the location has one.\<close>

definition optional_secret :: "string \<Rightarrow> SecretSource option \<Rightarrow> VolumeMount list" where
  "optional_secret dirName secret = (case secret of None \<Rightarrow> [] | Some s \<Rightarrow> [secret_Mount s dirName])"

definition gcsBackupVolumes :: "gcs_location \<Rightarrow> volume list" where
  "gcsBackupVolumes gcs = concat (map PodVolumes (optional_secret gcsAuthDirName (gcs_AuthSecret gcs)))"

definition gcsBackupVolumeMounts :: "gcs_location \<Rightarrow> volume_mount list" where
  "gcsBackupVolumeMounts gcs = map ContainerVolumeMount (optional_secret gcsAuthDirName (gcs_AuthSecret gcs))"

definition s3BackupVolumes :: "s3_location \<Rightarrow> volume list" where
  "s3BackupVolumes s3 = concat (map PodVolumes (optional_secret s3AuthDirName (s3_AuthSecret s3)))"

definition s3BackupVolumeMounts :: "s3_location \<Rightarrow> volume_mount list" where
  "s3BackupVolumeMounts s3 = map ContainerVolumeMount (optional_secret s3AuthDirName (s3_AuthSecret s3))"

definition fileBackupVolumes :: "volume_source \<Rightarrow> volume list" where
  "fileBackupVolumes source = [\<lparr>vol_name = fileBackupStorageVolumeName, vol_source = source\<rparr>]"

definition fileBackupVolumeMounts :: "string \<Rightarrow> volume_mount list" where
  "fileBackupVolumeMounts subPath =
     [\<lparr>vm_name = fileBackupStorageVolumeName, vm_mountPath = fileBackupStorageMountPath, vm_readOnly = False,
       vm_subPath = subPath, vm_rest = []\<rparr>]"

definition StorageVolumes :: "backup_location \<Rightarrow> volume list" where
  "StorageVolumes backupLocation =
     (case bl_GCS backupLocation of Some gcs \<Rightarrow> gcsBackupVolumes gcs
      | None \<Rightarrow> (case bl_S3 backupLocation of Some s3 \<Rightarrow> s3BackupVolumes s3
      | None \<Rightarrow> (case bl_Azblob backupLocation of Some azblob \<Rightarrow> PodVolumes (secret_Mount (az_AuthSecret azblob) azblobAuthDirName)
      | None \<Rightarrow> (case bl_Ceph backupLocation of Some ceph \<Rightarrow> PodVolumes (secret_Mount ceph cephAuthDirName)
      | None \<Rightarrow> (case bl_Volume backupLocation of Some v \<Rightarrow> fileBackupVolumes v | None \<Rightarrow> [])))))"

definition StorageVolumeMounts :: "backup_location \<Rightarrow> volume_mount list" where
  "StorageVolumeMounts backupLocation =
     (case bl_GCS backupLocation of Some gcs \<Rightarrow> gcsBackupVolumeMounts gcs
      | None \<Rightarrow> (case bl_S3 backupLocation of Some s3 \<Rightarrow> s3BackupVolumeMounts s3
      | None \<Rightarrow> (case bl_Azblob backupLocation of
                   Some azblob \<Rightarrow> [ContainerVolumeMount (secret_Mount (az_AuthSecret azblob) azblobAuthDirName)]
      | None \<Rightarrow> (case bl_Ceph backupLocation of Some ceph \<Rightarrow> [ContainerVolumeMount (secret_Mount ceph cephAuthDirName)]
      | None \<Rightarrow> (case bl_Volume backupLocation of
                   Some _ \<Rightarrow> fileBackupVolumeMounts (bl_VolumeSubPath backupLocation) | None \<Rightarrow> [])))))"

definition credentials_env :: "string \<Rightarrow> VolumeMount list \<Rightarrow> env_var list" where
  "credentials_env name mounts = map (\<lambda>m. \<lparr>ev_name = name, ev_value = FilePath m, ev_valueFrom = None\<rparr>) mounts"

definition StorageEnvVars :: "backup_location \<Rightarrow> env_var list" where
  "StorageEnvVars backupLocation =
     (case bl_GCS backupLocation of
        Some gcs \<Rightarrow> credentials_env ''GOOGLE_APPLICATION_CREDENTIALS'' (optional_secret gcsAuthDirName (gcs_AuthSecret gcs))
      | None \<Rightarrow> (case bl_S3 backupLocation of
        Some s3 \<Rightarrow> credentials_env ''AWS_SHARED_CREDENTIALS_FILE'' (optional_secret s3AuthDirName (s3_AuthSecret s3))
      | None \<Rightarrow> (case bl_Ceph backupLocation of
        Some ceph \<Rightarrow> credentials_env ''CEPH_CREDENTIALS_FILE'' [secret_Mount ceph cephAuthDirName]
      | None \<Rightarrow> [])))"

section \<open>Facts\<close>

lemma map_of_set_flag [simp]: "map_of (set_flag k v f) = (map_of f)(k \<mapsto> v)"
  by (simp add: set_flag_def update_conv')

lemma gomap_wf_set_flag: "gomap_wf f \<Longrightarrow> gomap_wf (set_flag k v f)"
  by (simp add: set_flag_def distinct_update)

lemma fold_update_wf: "gomap_wf f \<Longrightarrow> gomap_wf (fold (\<lambda>(k, v). AList.update k v) m f)"
  by (induction m arbitrary: f) (auto simp: distinct_update)

lemma map_of_set_all: "gomap_wf m \<Longrightarrow> map_of (fold (\<lambda>(k, v). AList.update k v) m f) = map_of f ++ map_of m"
proof (induction m arbitrary: f)
  case (Cons kv m)
  obtain k v where kv: "kv = (k, v)" by (cases kv)
  with Cons.prems have "k \<notin> dom (map_of m)" by (simp add: dom_map_of_conv_image_fst)
  with Cons kv show ?case by (auto simp: update_conv' map_add_def fun_eq_iff domIff split: option.split)
qed simp

lemma flags_Merge_wf: "gomap_wf f \<Longrightarrow> gomap_wf (flags_Merge f g)"
  by (simp add: flags_Merge_def set_flag_def fold_update_wf)

lemma map_of_flags_Merge: "gomap_wf g \<Longrightarrow> map_of (flags_Merge f g) = map_of f ++ map_of g"
  by (simp add: flags_Merge_def set_flag_def map_of_set_all)

lemma lazy_merge_wf: "gomap_wf (lazy_merge ps spec)"
proof -
  have "gomap_wf (fold (\<lambda>p res. fold (\<lambda>(k, v). AList.update k v) (p spec) res) ps m)" if "gomap_wf m" for m :: "(string, 'a) gomap"
    using that by (induction ps arbitrary: m) (simp_all add: fold_update_wf)
  then show ?thesis by (simp add: lazy_merge_def)
qed

lemma FormatArgs_cong [order_free]:
  "gomap_wf f \<Longrightarrow> gomap_wf g \<Longrightarrow> map_of f = map_of g \<Longrightarrow> FormatArgs f = FormatArgs g"
  unfolding FormatArgs_def by (metis sorted_keys_cong)

end
