(* ===== verification/Content_Hash.thy ===== *)
theory Content_Hash
  imports Update Md5 "HOL-Library.AList" "HOL-Library.Multiset"
begin

text \<open>
  \<open>pkg/operator/contenthash\<close>, hashes of lists, maps and parts of Pod specs, and \<open>pkg/operator/desiredstatehash\<close>, the builder
  of the annotation that changes when something disappears from the desired state of a Pod.  The hashes are written out
  with MD5; what they promise is stated as a reduction: equal hashes mean equal content, or the code has just hashed two
  different strings to the same digest.
\<close>

section \<open>slices.go and maps.go\<close>

definition StringList :: "string list \<Rightarrow> string" where
  "StringList xs = hex_encode (md5_Sum (concat (map md5_Sum xs)))"

definition StringMapKeys :: "(string, 'v) gomap \<Rightarrow> string" where
  "StringMapKeys m = StringList (sorted_keys m)"

text \<open>\<open>BytesMap\<close> and \<open>StringMap\<close> differ in the type of the values only.\<close>

definition hash_StringMap :: "(string, string) gomap \<Rightarrow> string" where
  "hash_StringMap m =
     hex_encode (md5_Sum (concat (map (\<lambda>k. md5_Sum k @ md5_Sum (the (map_of m k))) (sorted_keys m))))"

definition BytesMap :: "(string, string) gomap \<Rightarrow> string" where
  "BytesMap m = hash_StringMap m"

section \<open>tolerations.go and topology\_spread\_constraints.go\<close>

definition toleration_strings :: "toleration \<Rightarrow> string list" where
  "toleration_strings t =
     [tol_key t, tol_operator t, tol_value t, tol_effect t,
      (case tol_seconds t of None \<Rightarrow> ''nil'' | Some s \<Rightarrow> dec_int s)]"

definition hash_Tolerations :: "toleration list \<Rightarrow> string" where
  "hash_Tolerations tols = hex_encode (md5_Sum (concat (map md5_Sum (concat (map toleration_strings tols)))))"

text \<open>
  \<open>string(tsc.MaxSkew)\<close> converts the number as a code point: its UTF-8 encoding, or that of U+FFFD where there is
  no such code point.
\<close>

definition utf8 :: "int \<Rightarrow> string" where
  "utf8 r = map (\<lambda>b. char_of (nat b))
     (if r < 0x80 then [r]
      else if r < 0x800 then [0xC0 + r div 64, 0x80 + r mod 64]
      else if r < 0x10000 then [0xE0 + r div 4096, 0x80 + r div 64 mod 64, 0x80 + r mod 64]
      else [0xF0 + r div 262144, 0x80 + r div 4096 mod 64, 0x80 + r div 64 mod 64, 0x80 + r mod 64])"

definition string_of_rune :: "int \<Rightarrow> string" where
  "string_of_rune r = utf8 (if r < 0 \<or> 0xD800 \<le> r \<and> r \<le> 0xDFFF \<or> 0x10FFFF < r then 0xFFFD else r)"

definition selector_labels :: "selector_map \<Rightarrow> topology_spread_constraint \<Rightarrow> (string, string) gomap" where
  "selector_labels LabelSelectorAsMap t =
     (case LabelSelectorAsMap (tsc_labelSelector t) of None \<Rightarrow> [] | Some m \<Rightarrow> (case m of None \<Rightarrow> [] | Some l \<Rightarrow> l))"

definition constraint_strings :: "selector_map \<Rightarrow> topology_spread_constraint \<Rightarrow> string list" where
  "constraint_strings LabelSelectorAsMap t =
     [string_of_rune (tsc_maxSkew t), tsc_topologyKey t, tsc_whenUnsatisfiable t,
      hash_StringMap (selector_labels LabelSelectorAsMap t)]"

definition hash_TopologySpreadConstraints :: "selector_map \<Rightarrow> topology_spread_constraint list \<Rightarrow> string" where
  "hash_TopologySpreadConstraints LabelSelectorAsMap tscs =
     hex_encode (md5_Sum (concat (map md5_Sum (concat (map (constraint_strings LabelSelectorAsMap) tscs)))))"

section \<open>containers.go\<close>

definition volumeMountUpdates :: "volume_mount list \<Rightarrow> string" where
  "volumeMountUpdates mounts = StringList (sort (map vm_mountPath mounts))"

definition resource_keys :: "resource_list \<Rightarrow> string list" where
  "resource_keys l = sorted_list_of_set (dom (nil_safe l))"

definition resourceListKeys :: "resource_list \<Rightarrow> string" where
  "resourceListKeys l = StringList (resource_keys l)"

definition container_content :: "container \<Rightarrow> (string, string) gomap" where
  "container_content c =
     [(''VolumeMounts'', volumeMountUpdates (c_volumeMounts c))]
     @ (if resource_keys (limits (c_resources c)) \<noteq> [] then [(''ResourceLimits'', resourceListKeys (limits (c_resources c)))] else [])
     @ (if resource_keys (requests (c_resources c)) \<noteq> []
        then [(''ResourceRequests'', resourceListKeys (requests (c_resources c)))] else [])"

definition ContainerUpdates :: "container \<Rightarrow> string" where
  "ContainerUpdates c = hash_StringMap (container_content c)"

text \<open>A name that occurs twice is entered twice, and its last entry stays.\<close>

definition containers_content :: "container list \<Rightarrow> (string, string) gomap" where
  "containers_content cs = fold (\<lambda>c m. AList.update (c_name c) (ContainerUpdates c) m) cs []"

definition ContainersUpdates :: "container list \<Rightarrow> string" where
  "ContainersUpdates cs = hash_StringMap (containers_content cs)"

section \<open>The builder\<close>

type_synonym hash_builder = "(string, string) gomap"

definition NewBuilder :: hash_builder where
  "NewBuilder = []"

definition Builder_String :: "hash_builder \<Rightarrow> string" where
  "Builder_String b = hash_StringMap b"

definition add_item :: "string \<Rightarrow> string option \<Rightarrow> hash_builder \<Rightarrow> hash_builder" where
  "add_item itemName h b = (case h of None \<Rightarrow> b | Some v \<Rightarrow> AList.update itemName v b)"

text \<open>Every method skips an empty value, so that a new kind of item leaves the hashes of Pods without it as they are.\<close>

definition AddStringMapKeys :: "string \<Rightarrow> (string, 'v) gomap \<Rightarrow> hash_builder \<Rightarrow> hash_builder" where
  "AddStringMapKeys itemName m = add_item itemName (if m = [] then None else Some (StringMapKeys m))"

definition AddStringList :: "string \<Rightarrow> string list \<Rightarrow> hash_builder \<Rightarrow> hash_builder" where
  "AddStringList itemName xs = add_item itemName (if xs = [] then None else Some (StringList xs))"

definition AddContainersUpdates :: "string \<Rightarrow> container list \<Rightarrow> hash_builder \<Rightarrow> hash_builder" where
  "AddContainersUpdates itemName cs = add_item itemName (if cs = [] then None else Some (ContainersUpdates cs))"

definition AddTolerations :: "string \<Rightarrow> toleration list \<Rightarrow> hash_builder \<Rightarrow> hash_builder" where
  "AddTolerations itemName tols = add_item itemName (if tols = [] then None else Some (hash_Tolerations tols))"

definition AddTopologySpreadConstraints ::
    "selector_map \<Rightarrow> string \<Rightarrow> topology_spread_constraint list \<Rightarrow> hash_builder \<Rightarrow> hash_builder"
where
  "AddTopologySpreadConstraints f itemName tscs =
     add_item itemName (if tscs = [] then None else Some (hash_TopologySpreadConstraints f tscs))"

definition AddVolumeNames :: "string \<Rightarrow> volume list \<Rightarrow> hash_builder \<Rightarrow> hash_builder" where
  "AddVolumeNames itemName vols = AddStringList itemName (map vol_name vols)"

definition AddString :: "string \<Rightarrow> string \<Rightarrow> hash_builder \<Rightarrow> hash_builder" where
  "AddString itemName v = add_item itemName (if v = [] then None else Some v)"

section \<open>What equal hashes mean\<close>

text \<open>Two different strings of a set with the same digest.\<close>

definition collide :: "string set \<Rightarrow> bool" where
  "collide A \<longleftrightarrow> (\<exists>x \<in> A. \<exists>y \<in> A. x \<noteq> y \<and> md5_Sum x = md5_Sum y)"

lemma collide_mono: "collide A \<Longrightarrow> A \<subseteq> B \<Longrightarrow> collide B"
  by (auto simp: collide_def)

lemma no_collide_mono: "\<not> collide (A' \<union> B') \<Longrightarrow> A \<subseteq> A' \<Longrightarrow> B \<subseteq> B' \<Longrightarrow> \<not> collide (A \<union> B)"
  by (meson Un_mono collide_mono)

lemma collideI: "x \<in> A \<Longrightarrow> y \<in> A \<Longrightarrow> md5_Sum x = md5_Sum y \<Longrightarrow> x \<noteq> y \<Longrightarrow> collide A"
  by (auto simp: collide_def)

lemma concat_blocks:
  "\<forall>b \<in> set xs \<union> set ys. length b = n \<Longrightarrow> 0 < n \<Longrightarrow> concat xs = concat ys \<Longrightarrow> xs = ys"
proof (induction xs arbitrary: ys)
  case Nil
  then show ?case by (cases ys) auto
next
  case (Cons x xs)
  then obtain y ys' where y: "ys = y # ys'" by (cases ys) auto
  with Cons.prems have "x = y \<and> concat xs = concat ys'" by (simp add: append_eq_append_conv)
  with Cons y show ?case by simp
qed

lemma hex_char_inj: "d < 16 \<Longrightarrow> e < 16 \<Longrightarrow> hex_char d = hex_char e \<Longrightarrow> d = e"
proof -
  have "distinct ''0123456789abcdef''" by simp
  moreover assume "d < 16" "e < 16" "hex_char d = hex_char e"
  ultimately show "d = e" unfolding hex_char_def by (subst (asm) nth_eq_iff_index_eq) simp_all
qed

lemma hex_byte_inj: "hex_byte c = hex_byte d \<Longrightarrow> c = d"
proof -
  have half: "of_char x div 16 < (16 :: nat)" for x :: char using of_char_less_256 [of x] by linarith
  assume "hex_byte c = hex_byte d"
  then have "of_char c div 16 = (of_char d div 16 :: nat)" "of_char c mod 16 = (of_char d mod 16 :: nat)"
    unfolding hex_byte_def using half by (auto intro!: hex_char_inj)
  then have "of_char c = (of_char d :: nat)" by (metis div_mult_mod_eq)
  then show "c = d" by simp
qed

lemma hex_encode_inj: "hex_encode s = hex_encode t \<Longrightarrow> s = t"
proof -
  assume "hex_encode s = hex_encode t"
  then have "map hex_byte s = map hex_byte t"
    unfolding hex_encode_def by (rule concat_blocks [of _ _ 2, rotated 2]) (auto simp: hex_byte_def)
  then show "s = t" using hex_byte_inj by (metis inj_onI inj_map_eq_map)
qed

definition list_inputs :: "string list \<Rightarrow> string set" where
  "list_inputs xs = insert (concat (map md5_Sum xs)) (set xs)"

lemma map_md5_inj: "map md5_Sum xs = map md5_Sum ys \<Longrightarrow> xs = ys \<or> collide (set xs \<union> set ys)"
proof (induction xs ys rule: list_induct2')
  case (4 x xs y ys)
  then consider "xs = ys" | "collide (set xs \<union> set ys)" by auto
  then show ?case
  proof cases
    case 1
    with 4 show ?thesis by (auto intro: collideI)
  next
    case 2
    then have "collide (set (x # xs) \<union> set (y # ys))" by (rule collide_mono) auto
    then show ?thesis ..
  qed
qed simp_all

lemma StringList_eq:
  assumes "StringList xs = StringList ys"
  shows "xs = ys \<or> collide (list_inputs xs \<union> list_inputs ys)"
proof -
  let ?cx = "concat (map md5_Sum xs)" and ?cy = "concat (map md5_Sum ys)"
  have digest: "md5_Sum ?cx = md5_Sum ?cy" using assms unfolding StringList_def by (rule hex_encode_inj)
  show ?thesis
  proof (cases "?cx = ?cy")
    case True
    then have "map md5_Sum xs = map md5_Sum ys"
      by (rule concat_blocks [of _ _ 16, rotated 2]) auto
    from map_md5_inj [OF this] show ?thesis
      using collide_mono [of "set xs \<union> set ys" "list_inputs xs \<union> list_inputs ys"] by (auto simp: list_inputs_def)
  next
    case False
    with digest show ?thesis by (auto simp: list_inputs_def intro: collideI)
  qed
qed

text \<open>A map is hashed as the list of its keys and values in the order of the keys.\<close>

definition flat :: "(string, string) gomap \<Rightarrow> string list" where
  "flat m = concat (map (\<lambda>k. [k, the (map_of m k)]) (sorted_keys m))"

lemma hash_StringMap_flat: "hash_StringMap m = StringList (flat m)"
proof -
  have "concat (map (\<lambda>k. md5_Sum k @ md5_Sum (v k)) ks) = concat (map md5_Sum (concat (map (\<lambda>k. [k, v k]) ks)))" for v ks
    by (induction ks) simp_all
  then show ?thesis by (simp only: hash_StringMap_def StringList_def flat_def)
qed

lemma hash_Tolerations_flat: "hash_Tolerations ts = StringList (concat (map toleration_strings ts))"
  by (simp add: hash_Tolerations_def StringList_def)

lemma hash_constraints_flat:
  "hash_TopologySpreadConstraints f ts = StringList (concat (map (constraint_strings f) ts))"
  by (simp add: hash_TopologySpreadConstraints_def StringList_def)

lemma flat_inj:
  assumes "flat m = flat m'"
  shows "map_of m = map_of m'"
proof -
  have "map (\<lambda>k. [k, the (map_of m k)]) (sorted_keys m) = map (\<lambda>k. [k, the (map_of m' k)]) (sorted_keys m')"
    using assms unfolding flat_def by (rule concat_blocks [of _ _ 2, rotated 2]) auto
  then have keys: "sorted_keys m = sorted_keys m'" by (drule_tac f = "map hd" in arg_cong) (simp add: comp_def)
  with \<open>map _ _ = map _ _\<close> have vals: "\<forall>k \<in> set (sorted_keys m). the (map_of m k) = the (map_of m' k)"
    by simp
  from keys
  have "dom (map_of m) = dom (map_of m')" by (metis set_sorted_keys)
  show ?thesis
  proof (rule ext)
    fix k
    show "map_of m k = map_of m' k"
    proof (cases "k \<in> dom (map_of m)")
      case True
      with \<open>dom (map_of m) = dom (map_of m')\<close> obtain v v' where "map_of m k = Some v" "map_of m' k = Some v'" by blast
      moreover from vals True have "the (map_of m k) = the (map_of m' k)" by simp
      ultimately show ?thesis by simp
    next
      case False
      with \<open>dom (map_of m) = dom (map_of m')\<close> show ?thesis by (metis domIff)
    qed
  qed
qed

definition map_inputs :: "(string, string) gomap \<Rightarrow> string set" where
  "map_inputs m = list_inputs (flat m)"

lemma StringMap_hash_eq:
  "hash_StringMap m = hash_StringMap m' \<Longrightarrow> map_of m = map_of m' \<or> collide (map_inputs m \<union> map_inputs m')"
  unfolding hash_StringMap_flat map_inputs_def by (auto dest: StringList_eq flat_inj)

section \<open>What the hash of containers notices\<close>

text \<open>Two containers that \<open>PodContainers\<close> can turn into one another without leaving anything behind.\<close>

definition same_shape :: "container \<Rightarrow> container \<Rightarrow> bool" where
  "same_shape c d \<longleftrightarrow>
     mset (map vm_mountPath (c_volumeMounts c)) = mset (map vm_mountPath (c_volumeMounts d))
     \<and> resource_keys (limits (c_resources c)) = resource_keys (limits (c_resources d))
     \<and> resource_keys (requests (c_resources c)) = resource_keys (requests (c_resources d))"

definition container_inputs :: "container \<Rightarrow> string set" where
  "container_inputs c =
     map_inputs (container_content c) \<union> list_inputs (sort (map vm_mountPath (c_volumeMounts c)))
     \<union> list_inputs (resource_keys (limits (c_resources c))) \<union> list_inputs (resource_keys (requests (c_resources c)))"

lemma container_content_lookup:
  "map_of (container_content c) ''VolumeMounts'' = Some (volumeMountUpdates (c_volumeMounts c))"
  "map_of (container_content c) ''ResourceLimits'' =
     (if resource_keys (limits (c_resources c)) \<noteq> [] then Some (resourceListKeys (limits (c_resources c))) else None)"
  "map_of (container_content c) ''ResourceRequests'' =
     (if resource_keys (requests (c_resources c)) \<noteq> [] then Some (resourceListKeys (requests (c_resources c))) else None)"
  by (simp_all add: container_content_def)

lemma ContainerUpdates_eq:
  assumes "ContainerUpdates c = ContainerUpdates d" "\<not> collide (container_inputs c \<union> container_inputs d)"
  shows "same_shape c d"
proof -
  have no: "\<not> collide (A \<union> B)" if "A \<subseteq> container_inputs c" "B \<subseteq> container_inputs d" for A B
    by (rule no_collide_mono [OF assms(2) that])
  have "map_of (container_content c) = map_of (container_content d)"
    using StringMap_hash_eq [OF assms(1) [unfolded ContainerUpdates_def]]
  proof (rule disjE)
    assume "collide (map_inputs (container_content c) \<union> map_inputs (container_content d))"
    moreover have "\<not> collide (map_inputs (container_content c) \<union> map_inputs (container_content d))"
      by (rule no) (simp_all add: container_inputs_def le_supI1)
    ultimately show ?thesis by blast
  qed
  then have eq: "map_of (container_content c) k = map_of (container_content d) k" for k by simp
  have mounts: "sort (map vm_mountPath (c_volumeMounts c)) = sort (map vm_mountPath (c_volumeMounts d))"
    using eq [of "''VolumeMounts''"] no [of "list_inputs (sort (map vm_mountPath (c_volumeMounts c)))"
        "list_inputs (sort (map vm_mountPath (c_volumeMounts d)))"]
    by (auto simp: container_content_lookup volumeMountUpdates_def container_inputs_def dest: StringList_eq)
  have "resource_keys (limits (c_resources c)) = resource_keys (limits (c_resources d))"
    using eq [of "''ResourceLimits''"] no [of "list_inputs (resource_keys (limits (c_resources c)))"
        "list_inputs (resource_keys (limits (c_resources d)))"]
    by (auto simp: container_content_lookup resourceListKeys_def container_inputs_def dest: StringList_eq split: if_splits)
  moreover have "resource_keys (requests (c_resources c)) = resource_keys (requests (c_resources d))"
    using eq [of "''ResourceRequests''"] no [of "list_inputs (resource_keys (requests (c_resources c)))"
        "list_inputs (resource_keys (requests (c_resources d)))"]
    by (auto simp: container_content_lookup resourceListKeys_def container_inputs_def dest: StringList_eq split: if_splits)
  ultimately show ?thesis using mounts by (metis same_shape_def mset_sort)
qed

lemma containers_content_lookup:
  assumes "distinct (map c_name cs)"
  shows "map_of (containers_content cs) n = map_of (map (\<lambda>c. (c_name c, ContainerUpdates c)) cs) n"
proof -
  have "map_of (fold (\<lambda>c m. AList.update (c_name c) (ContainerUpdates c) m) cs m) n =
      (map_of m ++ map_of (map (\<lambda>c. (c_name c, ContainerUpdates c)) cs)) n" if "distinct (map c_name cs)" for m
    using that
  proof (induction cs arbitrary: m)
    case (Cons c cs)
    then have "c_name c \<notin> dom (map_of (map (\<lambda>c. (c_name c, ContainerUpdates c)) cs))"
      by (auto simp: dom_map_of_conv_image_fst)
    with Cons show ?case by (auto simp: update_conv' map_add_def domIff split: option.split)
  qed simp
  from this [OF assms, of "[]"] show ?thesis by (simp add: containers_content_def)
qed

definition containers_inputs :: "container list \<Rightarrow> string set" where
  "containers_inputs cs = map_inputs (containers_content cs) \<union> \<Union> (container_inputs ` set cs)"

lemma map_of_named:
  "distinct (map c_name cs) \<Longrightarrow> c \<in> set cs \<Longrightarrow> map_of (map (\<lambda>c. (c_name c, f c)) cs) (c_name c) = Some (f c)"
  by (induction cs) (auto simp: image_iff)

lemma ContainersUpdates_eq:
  assumes "ContainersUpdates cs = ContainersUpdates ds" "distinct (map c_name cs)" "distinct (map c_name ds)"
    and "\<not> collide (containers_inputs cs \<union> containers_inputs ds)"
  shows "c_name ` set cs = c_name ` set ds \<and> (\<forall>c \<in> set cs. \<forall>d \<in> set ds. c_name c = c_name d \<longrightarrow> same_shape c d)"
proof -
  have no: "\<not> collide (A \<union> B)" if "A \<subseteq> containers_inputs cs" "B \<subseteq> containers_inputs ds" for A B
    by (rule no_collide_mono [OF assms(4) that])
  have "map_of (containers_content cs) = map_of (containers_content ds)"
    using StringMap_hash_eq [OF assms(1) [unfolded ContainersUpdates_def]]
  proof (rule disjE)
    assume "collide (map_inputs (containers_content cs) \<union> map_inputs (containers_content ds))"
    moreover have "\<not> collide (map_inputs (containers_content cs) \<union> map_inputs (containers_content ds))"
      by (rule no) (simp_all add: containers_inputs_def)
    ultimately show ?thesis by blast
  qed
  then have eq: "map_of (map (\<lambda>c. (c_name c, ContainerUpdates c)) cs) n = map_of (map (\<lambda>c. (c_name c, ContainerUpdates c)) ds) n" for n
    using containers_content_lookup [OF assms(2), of n] containers_content_lookup [OF assms(3), of n] by simp
  then have "dom (map_of (map (\<lambda>c. (c_name c, ContainerUpdates c)) cs)) = dom (map_of (map (\<lambda>c. (c_name c, ContainerUpdates c)) ds))"
    unfolding dom_def by simp
  then have "c_name ` set cs = c_name ` set ds" by (simp add: dom_map_of_conv_image_fst image_image)
  moreover have "same_shape c d" if "c \<in> set cs" "d \<in> set ds" "c_name c = c_name d" for c d
  proof (rule ContainerUpdates_eq)
    show "ContainerUpdates c = ContainerUpdates d"
      using eq [of "c_name c"] map_of_named [OF assms(2) that(1), of ContainerUpdates]
        map_of_named [OF assms(3) that(2), of ContainerUpdates] that(3) by simp
    show "\<not> collide (container_inputs c \<union> container_inputs d)"
      using that by (intro no) (auto simp: containers_inputs_def)
  qed
  ultimately show ?thesis by blast
qed

section \<open>Nothing is left behind\<close>

text \<open>The mount paths of a container differ, as Kubernetes demands, and its resource lists are finite, as every Go map.\<close>

definition container_ok :: "container \<Rightarrow> bool" where
  "container_ok c \<longleftrightarrow> distinct (map vm_mountPath (c_volumeMounts c)) \<and> finite (dom (nil_safe (limits (c_resources c))))
     \<and> finite (dom (nil_safe (requests (c_resources c))))"

lemma resource_keys_dom:
  assumes "finite (dom (nil_safe a))" "finite (dom (nil_safe b))" "resource_keys a = resource_keys b"
  shows "dom (nil_safe a) = dom (nil_safe b)"
proof -
  have "set (resource_keys a) = set (resource_keys b)" by (simp add: assms(3))
  then show ?thesis unfolding resource_keys_def set_sorted_list_of_set [OF assms(1)] set_sorted_list_of_set [OF assms(2)] .
qed

lemma same_keys_overwrite: "dom a = dom b \<Longrightarrow> a ++ b = b"
proof (rule ext)
  fix x
  assume "dom a = dom b"
  then have "x \<in> dom a \<longleftrightarrow> x \<in> dom b" by simp
  then show "(a ++ b) x = b x" by (cases "b x") (simp_all add: map_add_def domIff)
qed

lemma VolumeMounts_same_paths:
  assumes "distinct (map vm_mountPath dst)" "distinct (map vm_mountPath src)"
    and "vm_mountPath ` set dst = vm_mountPath ` set src"
  shows "mset (VolumeMounts dst src) = mset src"
proof -
  have dist: "distinct (map vm_mountPath (VolumeMounts dst src))" by (rule volume_mounts.distinct_merge [OF assms(1)])
  have sub: "set src \<subseteq> set (VolumeMounts dst src)"
  proof
    fix m assume m: "m \<in> set src"
    then have "vm_mountPath m \<in> vm_mountPath ` set dst" using assms(3) by simp
    then obtain d where "d \<in> set dst" "vm_mountPath d = vm_mountPath m" by (metis imageE)
    with volume_mounts.merge_desired [OF assms(1,2) m] show "m \<in> set (VolumeMounts dst src)" by blast
  qed
  have "m \<in> set src" if "m \<in> set (VolumeMounts dst src)" for m
  proof -
    have "vm_mountPath m \<in> vm_mountPath ` set src"
      using that volume_mounts.keys_merge [of dst src] assms(3) by (metis Un_absorb image_eqI)
    then obtain s where "s \<in> set src" "vm_mountPath s = vm_mountPath m" by (metis imageE)
    moreover from this(1) have "s \<in> set (VolumeMounts dst src)" using sub by blast
    moreover have "inj_on vm_mountPath (set (VolumeMounts dst src))" using dist by (simp add: distinct_map)
    ultimately show ?thesis using that by (metis inj_onD)
  qed
  with sub have "set (VolumeMounts dst src) = set src" by blast
  with dist assms(2) show ?thesis by (metis distinct_map set_eq_iff_mset_eq_distinct)
qed

text \<open>
  What merging \<open>s\<close> into the container \<open>d\<close> may leave of \<open>d\<close> in the result \<open>c\<close>: the pull policy, where \<open>s\<close> has none, and five
  fields of the security context, where \<open>s\<close> has a context that leaves them unset.
\<close>

definition inherited :: "('a \<Rightarrow> 'b option) \<Rightarrow> 'a option \<Rightarrow> 'a \<Rightarrow> 'a \<Rightarrow> bool" where
  "inherited field old new result \<longleftrightarrow> field result = (if field new = None then Option.bind old field else field new)"

definition clean_security :: "security_context option \<Rightarrow> security_context option \<Rightarrow> security_context option \<Rightarrow> bool" where
  "clean_security old result new \<longleftrightarrow>
     (case new of
        None \<Rightarrow> result = None
      | Some n \<Rightarrow>
          (\<exists>r. result = Some r
             \<and> inherited procMount old n r \<and> inherited allowPrivilegeEscalation old n r \<and> inherited capabilities old n r
             \<and> inherited readOnlyRootFilesystem old n r \<and> inherited runAsGroup old n r
             \<and> r = n\<lparr>procMount := procMount r, allowPrivilegeEscalation := allowPrivilegeEscalation r, capabilities := capabilities r,
                  readOnlyRootFilesystem := readOnlyRootFilesystem r, runAsGroup := runAsGroup r\<rparr>))"

definition clean_update :: "container \<Rightarrow> container \<Rightarrow> container \<Rightarrow> bool" where
  "clean_update d c s \<longleftrightarrow> mset (c_volumeMounts c) = mset (c_volumeMounts s)
     \<and> clean_security (c_securityContext d) (c_securityContext c) (c_securityContext s)
     \<and> c_imagePullPolicy c = (if c_imagePullPolicy s = [] then c_imagePullPolicy d else c_imagePullPolicy s)
     \<and> c = (allocated s)\<lparr>c_volumeMounts := c_volumeMounts c, c_securityContext := c_securityContext c,
          c_imagePullPolicy := c_imagePullPolicy c\<rparr>"

lemma SecurityContext_clean: "clean_security old (SecurityContext old new) new"
  by (cases old; cases new) (simp_all add: clean_security_def SecurityContext_def inherited_def)

lemma PodContainer_clean:
  assumes "same_shape d s" "container_ok d" "container_ok s"
  shows "clean_update d (PodContainer d s) s"
proof -
  have "nil_safe (limits (c_resources d)) ++ nil_safe (limits (c_resources s)) = nil_safe (limits (c_resources s))"
    "nil_safe (requests (c_resources d)) ++ nil_safe (requests (c_resources s)) = nil_safe (requests (c_resources s))"
    using assms by (simp_all add: same_keys_overwrite resource_keys_dom same_shape_def container_ok_def)
  then have res: "ResourceRequirements (c_resources d) (c_resources s) = c_resources (allocated s)"
    by (simp add: ResourceRequirements_def ResourceList_def allocated_def)
  have "mset (VolumeMounts (c_volumeMounts d) (c_volumeMounts s)) = mset (c_volumeMounts s)"
  proof (rule VolumeMounts_same_paths)
    have "mset (map vm_mountPath (c_volumeMounts d)) = mset (map vm_mountPath (c_volumeMounts s))"
      using assms(1) by (simp add: same_shape_def)
    then show "vm_mountPath ` set (c_volumeMounts d) = vm_mountPath ` set (c_volumeMounts s)"
      by (metis list.set_map mset_eq_setD)
  qed (use assms in \<open>simp_all add: container_ok_def\<close>)
  with res show ?thesis by (simp add: clean_update_def PodContainer_def SecurityContext_clean allocated_def)
qed

text \<open>The annotation does not see those: capabilities that the user takes away stay in the Pod, and nothing asks for its recreation.\<close>

lemma removed_capabilities_stay:
  assumes "c_securityContext d = Some old" "capabilities new = None" "s = d\<lparr>c_securityContext := Some new\<rparr>"
  shows "ContainerUpdates s = ContainerUpdates d"
    and "map_option capabilities (c_securityContext (PodContainer d s)) = Some (capabilities old)"
  using assms by (simp_all add: ContainerUpdates_def container_content_def PodContainer_def SecurityContext_def)

text \<open>C26: The desired-state hash makes merging safe.  If the hash of the wanted containers is the one recorded for the containers
  that a Pod has, merging leaves nothing of the old ones behind: every container of the result is a wanted one, with its
  resources, mounts, command and all else, up to the order of the mounts; or the code has just hashed two different strings
  to the same MD5 digest.  So a mount, a resource or a container that merging could not take away always shows in the annotation, and forces
  the Pod to be recreated.  The exceptions are a pull policy and five fields of the security context that the wanted container
  leaves unset: it inherits those of the old one, and they are not hashed.\<close>

theorem containers_hash_sound:
  assumes "ContainersUpdates old = ContainersUpdates new"
    and "distinct (map c_name old)" "distinct (map c_name new)"
    and "\<forall>c \<in> set old. container_ok c" "\<forall>c \<in> set new. container_ok c"
  shows "(\<forall>c \<in> set (PodContainers old new). \<exists>d \<in> set old. \<exists>s \<in> set new. c_name d = c_name c \<and> c_name s = c_name c \<and> clean_update d c s)
    \<or> collide (containers_inputs old \<union> containers_inputs new)"
proof (rule disjCI)
  assume "\<not> collide (containers_inputs old \<union> containers_inputs new)"
  from ContainersUpdates_eq [OF assms(1-3) this]
  have names: "c_name ` set old = c_name ` set new"
    and shape: "\<forall>d \<in> set old. \<forall>s \<in> set new. c_name d = c_name s \<longrightarrow> same_shape d s" by blast+
  show "\<forall>c \<in> set (PodContainers old new). \<exists>d \<in> set old. \<exists>s \<in> set new. c_name d = c_name c \<and> c_name s = c_name c \<and> clean_update d c s"
  proof
    fix c assume c: "c \<in> set (PodContainers old new)"
    then have "c_name c \<in> c_name ` set new" using pod_containers.keys_merge [of old new] names by (metis Un_absorb image_eqI)
    then obtain s where s: "s \<in> set new" "c_name s = c_name c" by (metis imageE)
    obtain d where d: "d \<in> set old" "c_name d = c_name s" using names s(1) by (metis image_iff)
    have "PodContainer d s \<in> set (PodContainers old new)"
      using pod_containers.merge_desired [OF assms(2,3) s(1)] d by blast
    moreover have "c_name (PodContainer d s) = c_name s" by (simp add: PodContainer_def)
    ultimately have "c = PodContainer d s"
      using pod_containers.distinct_merge [OF assms(2), of new] c s(2) by (metis distinct_map inj_on_eq_iff)
    moreover have "clean_update d (PodContainer d s) s"
      using shape d s(1) assms(4,5) by (intro PodContainer_clean) auto
    ultimately show "\<exists>d \<in> set old. \<exists>s \<in> set new. c_name d = c_name c \<and> c_name s = c_name c \<and> clean_update d c s" using s d by metis
  qed
qed

lemma containers_hash_sound_witness:
  "(\<forall>c \<in> set (PodContainers [example_container ''vttablet''] [example_container ''vttablet''\<lparr>c_image := ''new''\<rparr>]).
      \<exists>d \<in> set [example_container ''vttablet'']. \<exists>s \<in> set [example_container ''vttablet''\<lparr>c_image := ''new''\<rparr>].
        c_name d = c_name c \<and> c_name s = c_name c \<and> clean_update d c s)
   \<or> collide (containers_inputs [example_container ''vttablet''] \<union> containers_inputs [example_container ''vttablet''\<lparr>c_image := ''new''\<rparr>])"
  by (rule containers_hash_sound)
    (simp_all add: ContainersUpdates_def containers_content_def ContainerUpdates_def container_content_def
      example_container_def container_ok_def)

end
