(* ===== verification/Tablet_Spec.thy ===== *)
theory Tablet_Spec
  imports Defaults Vitess_Flags Content_Hash Drain_Reconcile
begin

text \<open>
  What a tablet is made of, \<open>pkg/operator/vttablet\<close>: its identity (\<open>uid.go\<close>), its specification (\<open>spec.go\<close>) and
  the parts of its Pod that the files of the package register as providers at start: volumes, mounts, variables, flags and
  annotations (\<open>backup.go\<close>, \<open>datastore.go\<close>, \<open>env_vars.go\<close>, \<open>flags.go\<close>, \<open>mysqlctld.go\<close>,
  \<open>mysqld_config_overrides.go\<close>, \<open>volumes.go\<close>, \<open>annotations.go\<close>).  Go runs the \<open>init\<close> functions of a package in the
  order of the file names, which is the order of the lists here.
\<close>

section \<open>Identity\<close>

text \<open>\<open>fmt.Fprintln\<close> separates its operands by spaces and ends the line.\<close>

definition Fprintln :: "string list \<Rightarrow> string" where
  "Fprintln operands = join_with '' '' operands @ [CHR 0x0A]"

definition BigEndian_Uint32 :: "string \<Rightarrow> 32 word" where
  "BigEndian_Uint32 bs = fold (\<lambda>b n. 256 * n + of_char b) (take 4 bs) 0"

definition UID :: "string \<Rightarrow> string \<Rightarrow> VitessKeyRange \<Rightarrow> string \<Rightarrow> 32 word \<Rightarrow> 32 word" where
  "UID cellName keyspaceName shardKeyRange tabletPoolType tabletIndex =
     BigEndian_Uint32 (md5_Sum (Fprintln
       [cellName, keyspaceName, KeyRange_String shardKeyRange, tabletPoolType, dec_int (uint tabletIndex)]))"

definition UIDWithPoolName :: "string \<Rightarrow> string \<Rightarrow> VitessKeyRange \<Rightarrow> string \<Rightarrow> 32 word \<Rightarrow> string \<Rightarrow> 32 word" where
  "UIDWithPoolName cellName keyspaceName shardKeyRange tabletPoolType tabletName poolName =
     BigEndian_Uint32 (md5_Sum (Fprintln
       [cellName, keyspaceName, KeyRange_String shardKeyRange, tabletPoolType, dec_int (uint tabletName), poolName]))"

text \<open>The format is ten digits with leading zeros, and no 32-bit number has more.\<close>

definition UIDString :: "32 word \<Rightarrow> string" where
  "UIDString uid = dec_digits 10 (uint uid)"

section \<open>The specification\<close>

record TabletSpec =
  sp_Alias :: tablet_alias
  sp_AliasStr :: string
  sp_Type :: string
  sp_Zone :: string
  sp_Labels :: "(string, string) gomap"
  sp_Images :: VitessKeyspaceImages
  sp_ImagePullPolicies :: VitessImagePullPolicies
  sp_ImagePullSecrets :: "string list"
  sp_Index :: "32 word"
  sp_KeyRange :: VitessKeyRange
  sp_KeyspaceName :: string
  sp_DatabaseName :: string
  sp_Vttablet :: vttablet_spec
  sp_Mysqld :: "mysqld_spec option"
  sp_MysqldExporter :: "exporter_spec option"
  sp_ExternalDatastore :: "external_datastore option"
  sp_DataVolumePVCSpec :: "pvc_spec option"
  sp_DataVolumePVCName :: string
  sp_GlobalLockserver :: params
  sp_DatabaseInitScriptSecret :: SecretSource
  sp_Annotations :: "(string, string) gomap"
  sp_ExtraLabels :: "(string, string) gomap"
  sp_BackupLocation :: "backup_location option"
  sp_BackupEngine :: string
  sp_Affinity :: "opaque option"
  sp_ExtraEnv :: "env_var list"
  sp_ExtraVolumes :: "volume list"
  sp_ExtraVolumeMounts :: "volume_mount list"
  sp_InitContainers :: "container list"
  sp_SidecarContainers :: "container list"
  sp_Tolerations :: "toleration list"
  sp_TopologySpreadConstraints :: "topology_spread_constraint list"

definition spec_label :: "TabletSpec \<Rightarrow> string \<Rightarrow> string" where
  "spec_label spec k = (case map_of (sp_Labels spec) k of None \<Rightarrow> [] | Some v \<Rightarrow> v)"

definition localDatabaseName :: "TabletSpec \<Rightarrow> string" where
  "localDatabaseName spec = (if sp_DatabaseName spec \<noteq> [] then sp_DatabaseName spec else ''vt_'' @ sp_KeyspaceName spec)"

definition shardLabels :: "TabletSpec \<Rightarrow> (string, string) gomap" where
  "shardLabels spec = map (\<lambda>k. (k, spec_label spec k)) [ComponentLabel, ClusterLabel, KeyspaceLabel, ShardLabel]"

definition poolLabels :: "TabletSpec \<Rightarrow> (string, string) gomap" where
  "poolLabels spec = shardLabels spec @ map (\<lambda>k. (k, spec_label spec k)) [CellLabel, TabletTypeLabel]"

definition dbConfigCharset :: "TabletSpec \<Rightarrow> string" where
  "dbConfigCharset spec =
     (if \<exists>image \<in> set_option (ki_Mysqld (sp_Images spec)). mi_Mysql80Compatible image \<noteq> [] then ''utf8mb4'' else ''utf8'')"

section \<open>Constants\<close>

definition vtDataRootPath :: string where "vtDataRootPath = ''/vt/vtdataroot''"
definition vtConfigPath :: string where "vtConfigPath = ''/vt/config''"
definition vtMycnfPath :: string where "vtMycnfPath = ''/vt/config/mycnf''"
definition vtBinPath :: string where "vtBinPath = ''/vt/bin''"
definition vtSocketPath :: string where "vtSocketPath = ''/vt/socket''"
definition vtRootVolumeName :: string where "vtRootVolumeName = ''vt-root''"
definition pvcVolumeName :: string where "pvcVolumeName = ''persistent-volume-claim''"
definition mysqlctlSocketPath :: string where "mysqlctlSocketPath = ''/vt/socket/mysqlctl.sock''"
definition mysqlSocketPath :: string where "mysqlSocketPath = ''/vt/socket/mysql.sock''"
definition dbConfigDbaUname :: string where "dbConfigDbaUname = ''vt_dba''"
definition dbInitScriptDirName :: string where "dbInitScriptDirName = ''db-init-script''"

definition externalDatastoreCredentialsDirName :: string where
  "externalDatastoreCredentialsDirName = ''external-datastore-credentials''"

definition externalDatastoreCACertDirName :: string where
  "externalDatastoreCACertDirName = ''external-datastore-ca-cert''"

definition mysqldConfigOverridesAnnotationName :: string where
  "mysqldConfigOverridesAnnotationName = ''planetscale.com/mysqld-config-overrides''"

definition mysqldConfigOverridesAnnotationFieldPath :: string where
  "mysqldConfigOverridesAnnotationFieldPath =
     concat [''metadata.annotations['', [CHR 0x27], mysqldConfigOverridesAnnotationName, [CHR 0x27], '']'']"

definition mysqlshellExtraFlags :: string where
  "mysqlshellExtraFlags = concat [''--defaults-file=/dev/null --no-password --js -u '', ''vt_dba'', '' -S '', mysqlSocketPath]"

definition VitessBackupEngineXtraBackup :: string where "VitessBackupEngineXtraBackup = ''xtrabackup''"
definition VitessBackupEngineMySQLShell :: string where "VitessBackupEngineMySQLShell = ''mysqlshell''"

definition DefaultWebPort :: int where "DefaultWebPort = 15000"
definition DefaultGrpcPort :: int where "DefaultGrpcPort = 15999"

section \<open>datastore.go\<close>

definition datastoreVolumes :: "TabletSpec \<Rightarrow> volume list" where
  "datastoreVolumes spec =
     (case sp_ExternalDatastore spec of
        None \<Rightarrow> []
      | Some ds \<Rightarrow>
          PodVolumes (secret_Mount (ed_CredentialsSecret ds) externalDatastoreCredentialsDirName)
          @ concat (map PodVolumes (optional_secret externalDatastoreCACertDirName (ed_ServerCACertSecret ds))))"

definition datastoreVolumeMounts :: "TabletSpec \<Rightarrow> volume_mount list" where
  "datastoreVolumeMounts spec =
     (case sp_ExternalDatastore spec of
        None \<Rightarrow> []
      | Some ds \<Rightarrow>
          ContainerVolumeMount (secret_Mount (ed_CredentialsSecret ds) externalDatastoreCredentialsDirName)
          # map ContainerVolumeMount (optional_secret externalDatastoreCACertDirName (ed_ServerCACertSecret ds)))"

definition localDatastoreFlags :: "TabletSpec \<Rightarrow> flags" where
  "localDatastoreFlags spec =
     [(''db_charset'', FString (dbConfigCharset spec)),
      (''db_app_user'', FString ''vt_app''),
      (''db_dba_user'', FString dbConfigDbaUname),
      (''db_repl_user'', FString ''vt_repl''),
      (''db_filtered_user'', FString ''vt_filtered''),
      (''init_db_name_override'', FString (localDatabaseName spec)),
      (''enforce_strict_trans_tables'', FBool True),
      (''enable_replication_reporter'', FBool True),
      (''mysqlctl_socket'', FString mysqlctlSocketPath),
      (''mycnf_socket_file'', FString mysqlSocketPath)]"

definition externalDatastoreSSLCAFlags :: "SecretSource \<Rightarrow> flags" where
  "externalDatastoreSSLCAFlags cert =
     [(''db_ssl_ca'', FString (FilePath (secret_Mount cert externalDatastoreCACertDirName))), (''db_flags'', FInt 2048)]"

definition externalDatastoreFlags :: "external_datastore \<Rightarrow> flags" where
  "externalDatastoreFlags ds =
     [(''unmanaged'', FBool True),
      (''restore_from_backup'', FBool False),
      (''db_app_user'', FString (ed_User ds)),
      (''db_appdebug_user'', FString (ed_User ds)),
      (''db_allprivs_user'', FString (ed_User ds)),
      (''db_dba_user'', FString (ed_User ds)),
      (''db_filtered_user'', FString (ed_User ds)),
      (''db_repl_user'', FString (ed_User ds)),
      (''db-credentials-file'', FString (FilePath (secret_Mount (ed_CredentialsSecret ds) externalDatastoreCredentialsDirName))),
      (''db_host'', FString (ed_Host ds)),
      (''db_port'', FInt (sint (ed_Port ds))),
      (''init_db_name_override'', FString (ed_Database ds)),
      (''enable_replication_reporter'', FBool False),
      (''enforce_strict_trans_tables'', FBool False)]"

definition datastoreFlags :: "TabletSpec \<Rightarrow> flags" where
  "datastoreFlags spec =
     (case sp_ExternalDatastore spec of
        Some ds \<Rightarrow>
          (case ed_ServerCACertSecret ds of
             Some cert \<Rightarrow> flags_Merge (externalDatastoreFlags ds) (externalDatastoreSSLCAFlags cert)
           | None \<Rightarrow> externalDatastoreFlags ds)
      | None \<Rightarrow> localDatastoreFlags spec)"

section \<open>backup.go\<close>

definition cpu_requests :: "resource_requirements \<Rightarrow> int" where
  "cpu_requests r = (case nil_safe (requests r) ''cpu'' of None \<Rightarrow> 0 | Some q \<Rightarrow> Quantity_Value q)"

definition xtrabackupFlags :: "int \<Rightarrow> int \<Rightarrow> flags" where
  "xtrabackupFlags backupThreads restoreThreads =
     [(''xtrabackup_user'', FString ''vt_dba''),
      (''xtrabackup_stream_mode'', FString ''xbstream''),
      (''xtrabackup_stripes'', FInt 8),
      (''xtrabackup_backup_flags'', FString (''--parallel='' @ dec_int backupThreads)),
      (''xbstream_restore_flags'', FString (''--parallel='' @ dec_int restoreThreads)),
      (''backup_storage_compress'', FBool True)]"

definition mysqlshellFlags :: "string \<Rightarrow> flags" where
  "mysqlshellFlags backupLocation =
     [(''mysql-shell-backup-location'', FString backupLocation), (''mysql-shell-flags'', FString mysqlshellExtraFlags)]"

text \<open>The location of a tablet with a local MySQL, if it has one.\<close>

definition backup_target :: "TabletSpec \<Rightarrow> (backup_location \<times> mysqld_spec) option" where
  "backup_target spec =
     (case (sp_BackupLocation spec, sp_Mysqld spec) of (Some l, Some mysqld) \<Rightarrow> Some (l, mysqld) | _ \<Rightarrow> None)"

text \<open>\<open>svm[0]\<close> panics if the location mounts nothing: \<open>None\<close>.\<close>

definition backupFlags :: "TabletSpec \<Rightarrow> flags option" where
  "backupFlags spec =
     (case backup_target spec of
        None \<Rightarrow> Some []
      | Some (location, mysqld) \<Rightarrow>
          (let flags = [(''restore_from_backup'', FBool True),
                 (''restore_concurrency'', FInt 10),
                 (''wait_for_backup_interval'', FDuration 10000000000),
                 (''backup_engine_implementation'', FString (sp_BackupEngine spec))];
               withEngine =
                 (if sp_BackupEngine spec = VitessBackupEngineXtraBackup then
                    Some (flags_Merge flags (xtrabackupFlags 1
                      (max 1 (cpu_requests (my_resources mysqld) + cpu_requests (vt_resources (sp_Vttablet spec))))))
                  else if sp_BackupEngine spec = VitessBackupEngineMySQLShell then
                    (case StorageVolumeMounts location of
                       [] \<Rightarrow> None
                     | m # _ \<Rightarrow> Some (flags_Merge flags (mysqlshellFlags (vm_mountPath m))))
                  else Some flags)
           in map_option (\<lambda>f. flags_Merge f (StorageFlags location (spec_label spec ClusterLabel))) withEngine))"

definition backupVolumes :: "TabletSpec \<Rightarrow> volume list" where
  "backupVolumes spec = (case backup_target spec of None \<Rightarrow> [] | Some (l, _) \<Rightarrow> StorageVolumes l)"

definition backupVolumeMounts :: "TabletSpec \<Rightarrow> volume_mount list" where
  "backupVolumeMounts spec = (case backup_target spec of None \<Rightarrow> [] | Some (l, _) \<Rightarrow> StorageVolumeMounts l)"

definition backupEnvVars :: "TabletSpec \<Rightarrow> env_var list" where
  "backupEnvVars spec = (case backup_target spec of None \<Rightarrow> [] | Some (l, _) \<Rightarrow> StorageEnvVars l)"

section \<open>mysqld\_config\_overrides.go\<close>

definition config_overrides :: "TabletSpec \<Rightarrow> string" where
  "config_overrides spec = (case sp_Mysqld spec of None \<Rightarrow> [] | Some m \<Rightarrow> my_configOverrides m)"

definition overridesAnnotations :: "TabletSpec \<Rightarrow> (string, string) gomap" where
  "overridesAnnotations spec =
     (if config_overrides spec = [] then [] else [(mysqldConfigOverridesAnnotationName, config_overrides spec)])"

definition overridesMyCnf :: "TabletSpec \<Rightarrow> string list" where
  "overridesMyCnf spec =
     (if config_overrides spec = [] then [] else [''/pod-config/mysqld-config-overrides'', vtMycnfPath @ ''/vtbackup.cnf''])"

definition overridesVolumes :: "TabletSpec \<Rightarrow> volume list" where
  "overridesVolumes spec =
     (if config_overrides spec = [] then []
      else [\<lparr>vol_name = ''pod-config'',
              vol_source = DownwardAPI [(''mysqld-config-overrides'', mysqldConfigOverridesAnnotationFieldPath)]\<rparr>])"

definition overridesVolumeMounts :: "TabletSpec \<Rightarrow> volume_mount list" where
  "overridesVolumeMounts spec =
     (if config_overrides spec = [] then []
      else [\<lparr>vm_name = ''pod-config'', vm_mountPath = ''/pod-config'', vm_readOnly = True, vm_subPath = [], vm_rest = []\<rparr>])"

section \<open>mysqlctld.go and volumes.go\<close>

definition mount :: "string \<Rightarrow> bool \<Rightarrow> string \<Rightarrow> string \<Rightarrow> volume_mount" where
  "mount name readOnly path sub =
     \<lparr>vm_name = name, vm_mountPath = path, vm_readOnly = readOnly, vm_subPath = sub, vm_rest = []\<rparr>"

definition rootVolumes :: "TabletSpec \<Rightarrow> volume list" where
  "rootVolumes spec = [\<lparr>vol_name = vtRootVolumeName, vol_source = EmptyDir\<rparr>]"

definition mysqldVolumeMounts :: "TabletSpec \<Rightarrow> volume_mount list" where
  "mysqldVolumeMounts spec = [mount vtRootVolumeName True vtBinPath ''bin'']"

definition configVolumeMounts :: "TabletSpec \<Rightarrow> volume_mount list" where
  "configVolumeMounts spec =
     [mount vtRootVolumeName True vtConfigPath ''config'', mount vtRootVolumeName False vtSocketPath ''socket'']"

definition dataVolumes :: "TabletSpec \<Rightarrow> volume list" where
  "dataVolumes spec =
     (if sp_DataVolumePVCSpec spec = None then []
      else [\<lparr>vol_name = pvcVolumeName, vol_source = ClaimVolume (sp_DataVolumePVCName spec)\<rparr>])"

definition dataVolumeMounts :: "TabletSpec \<Rightarrow> volume_mount list" where
  "dataVolumeMounts spec =
     [mount (if sp_DataVolumePVCSpec spec = None then vtRootVolumeName else pvcVolumeName) False vtDataRootPath ''vtdataroot'']"

definition dbInitScript :: "TabletSpec \<Rightarrow> VolumeMount" where
  "dbInitScript spec = secret_Mount (sp_DatabaseInitScriptSecret spec) dbInitScriptDirName"

definition secretVolumes :: "TabletSpec \<Rightarrow> volume list" where
  "secretVolumes spec = PodVolumes (dbInitScript spec)"

definition secretVolumeMounts :: "TabletSpec \<Rightarrow> volume_mount list" where
  "secretVolumeMounts spec = [ContainerVolumeMount (dbInitScript spec)]"

section \<open>The lazy values\<close>

definition tabletVolumes :: "TabletSpec \<Rightarrow> volume list" where
  "tabletVolumes = lazy_concat [backupVolumes, datastoreVolumes, rootVolumes, overridesVolumes, dataVolumes, secretVolumes]"

definition tabletVolumeMounts :: "TabletSpec \<Rightarrow> volume_mount list" where
  "tabletVolumeMounts =
     lazy_concat [datastoreVolumeMounts, configVolumeMounts, overridesVolumeMounts, dataVolumeMounts, secretVolumeMounts]"

definition vttabletVolumeMounts :: "TabletSpec \<Rightarrow> volume_mount list" where
  "vttabletVolumeMounts = lazy_concat [backupVolumeMounts]"

definition tabletAnnotations :: "TabletSpec \<Rightarrow> (string, string) gomap" where
  "tabletAnnotations = lazy_merge [sp_Annotations, overridesAnnotations]"

definition extraMyCnf :: "TabletSpec \<Rightarrow> string list" where
  "extraMyCnf =
     lazy_concat [\<lambda>_. [vtMycnfPath @ ''/rbr.cnf''], \<lambda>_. [vtMycnfPath @ ''/log-error.cnf'', vtMycnfPath @ ''/socket.cnf''],
       overridesMyCnf]"

definition plain_env :: "string \<Rightarrow> string \<Rightarrow> env_var" where
  "plain_env name v = \<lparr>ev_name = name, ev_value = v, ev_valueFrom = None\<rparr>"

text \<open>\<open>spec.Images.Mysqld\<close> is dereferenced: the image is an argument here, and a missing one panics at the call.\<close>

definition tabletEnvVars :: "MysqldImage \<Rightarrow> TabletSpec \<Rightarrow> env_var list" where
  "tabletEnvVars mysqldImage =
     lazy_concat
       [\<lambda>spec. [plain_env ''VTROOT'' ''/vt'', plain_env ''VTDATAROOT'' vtDataRootPath, plain_env ''VT_MYSQL_ROOT'' ''/usr'',
          plain_env ''MYSQL_FLAVOR'' (MysqldImage_Flavor mysqldImage),
          plain_env ''EXTRA_MY_CNF'' (join_with '':'' (extraMyCnf spec))],
        \<lambda>spec. [\<lparr>ev_name = ''POD_IP'', ev_value = [], ev_valueFrom = Some (FieldRef ''status.podIP'')\<rparr>]]"

definition vttabletEnvVars :: "TabletSpec \<Rightarrow> env_var list" where
  "vttabletEnvVars = lazy_concat [backupEnvVars]"

definition mysqldExporterEnvVars :: "TabletSpec \<Rightarrow> env_var list" where
  "mysqldExporterEnvVars =
     lazy_concat [\<lambda>spec. [plain_env ''DATA_SOURCE_NAME'' (concat [''vt_dba'', ''@unix('', mysqlSocketPath, '')/''])]]"

text \<open>The base flags; \<open>tablet-path\<close> is the alias as the Vitess library prints it, which the spec has as \<open>AliasStr\<close>.\<close>

definition baseTabletFlags :: "TabletSpec \<Rightarrow> flags" where
  "baseTabletFlags spec =
     [(''logtostderr'', FBool True),
      (''topo_implementation'', FString (Implementation (sp_GlobalLockserver spec))),
      (''topo_global_server_address'', FString (Address (sp_GlobalLockserver spec))),
      (''topo_global_root'', FString (RootPath (sp_GlobalLockserver spec))),
      (''grpc_max_message_size'', FInt 67108864),
      (''service_map'', FString ''grpc-queryservice,grpc-tabletmanager,grpc-updatestream''),
      (''port'', FInt DefaultWebPort),
      (''grpc_port'', FInt DefaultGrpcPort),
      (''tablet-path'', FString (sp_AliasStr spec)),
      (''tablet_hostname'', FString ''$(POD_IP)''),
      (''init_keyspace'', FString (sp_KeyspaceName spec)),
      (''init_shard'', FString (KeyRange_String (sp_KeyRange spec))),
      (''init_tablet_type'', FString (InitTabletType (sp_Type spec))),
      (''health_check_interval'', FDuration 5000000000),
      (''queryserver-config-max-result-size'', FInt 100000),
      (''queryserver-config-query-timeout'', FString ''900s''),
      (''queryserver-config-pool-size'', FInt 96),
      (''queryserver-config-stream-pool-size'', FInt 96),
      (''queryserver-config-transaction-cap'', FInt 300)]"

definition vttabletFlags :: "TabletSpec \<Rightarrow> flags option" where
  "vttabletFlags spec = map_option (\<lambda>backup. lazy_merge [\<lambda>_. backup, datastoreFlags, baseTabletFlags] spec) (backupFlags spec)"

definition mysqlctldFlags :: "TabletSpec \<Rightarrow> flags" where
  "mysqlctldFlags =
     lazy_merge [\<lambda>spec.
       [(''logtostderr'', FBool True),
        (''tablet_uid'', FInt (uint (snd (sp_Alias spec)))),
        (''socket_file'', FString mysqlctlSocketPath),
        (''mysql_socket'', FString mysqlSocketPath),
        (''db_dba_user'', FString dbConfigDbaUname),
        (''db_charset'', FString (dbConfigCharset spec)),
        (''init_db_sql_file'', FString (FilePath (dbInitScript spec))),
        (''wait_time'', FDuration 7200000000000)]]"

definition mysqldExporterFlags :: "TabletSpec \<Rightarrow> flags" where
  "mysqldExporterFlags =
     lazy_merge [\<lambda>spec.
       [(''config.my-cnf'', FString (filepath_Join [vtMycnfPath, ''client.cnf''])),
        (''collect.info_schema.tables.databases'', FString ''sys,_vt'')]]"

section \<open>The shard a tablet belongs to\<close>

text \<open>The fields of \<open>VitessShardSpec\<close> that the builders of tablets read besides those of \<open>Shard\<close>.\<close>

record tablet_shard_spec = shard_spec +
  ss_GlobalLockserver :: params
  ss_Images :: VitessKeyspaceImages
  ss_ImagePullPolicies :: VitessImagePullPolicies
  ss_ImagePullSecrets :: "string list"
  ss_DatabaseName :: string
  ss_BackupEngine :: string
  ss_ExtraVitessFlags :: "(string, string) gomap"

definition set_entries :: "('k, 'v) gomap \<Rightarrow> ('k, 'v) gomap \<Rightarrow> ('k, 'v) gomap" where
  "set_entries src dst = fold (\<lambda>(k, v). AList.update k v) src dst"

lemma gomap_wf_set_entries: "gomap_wf dst \<Longrightarrow> gomap_wf (set_entries src dst)"
  unfolding set_entries_def by (rule fold_update_wf)

lemma map_of_set_entries: "gomap_wf src \<Longrightarrow> map_of (set_entries src dst) = map_of dst ++ map_of src"
  unfolding set_entries_def by (rule map_of_set_all)

end
