(* ===== verification/Tablet_Pod.thy ===== *)
theory Tablet_Pod
  imports Tablet_Spec Mysql Reconciler Keyspace
begin

text \<open>
  The Pods and volume claims of tablets and of backup jobs: \<open>pod.go\<close>, \<open>vtbackup_pod.go\<close> and \<open>pvc.go\<close> of
  \<open>pkg/operator/vttablet\<close>, with \<open>UpdateMySQLServerVersion\<close> of \<open>pkg/operator/mysql\<close>.  A dereference of a nil pointer panics,
  which is \<open>None\<close>.
\<close>

section \<open>What the builders depend on\<close>

text \<open>
  The settings are package variables that the flags of the operator set (\<open>DefaultVitessRunAsUser\<close>, \<open>DefaultVitessFSGroup\<close>,
  \<open>DefaultVitessPriorityClass\<close>, \<open>DefaultVitessServiceAccount\<close>).  The other fields are code of libraries: the order of a
  range over a map, whether the Vitess parser accepts a MySQL version, the text of the storage request of a claim,
  the matching of tolerations and of selectors, and the text of an alias.
\<close>

record tablet_lib =
  tl_RunAsUser :: int
  tl_FSGroup :: int
  tl_PriorityClass :: string
  tl_ServiceAccount :: string
  tl_visit :: visit_order
  tl_conv_ok :: "string \<Rightarrow> bool"
  tl_storage_String :: "pvc_spec \<Rightarrow> string"
  tl_MatchToleration :: "toleration \<Rightarrow> toleration \<Rightarrow> bool"
  tl_LabelSelectorAsMap :: selector_map
  tl_AliasString :: "tablet_alias \<Rightarrow> string"

section \<open>Pods\<close>

record pod_security_context =
  psc_FSGroup :: "int option"
  psc_rest :: opaque

text \<open>
  The affinity the operator builds: preferred anti-affinity terms (weight, labels of the other Pods, topology key) and the
  required value of a node label.
\<close>

datatype affinity =
    UserAffinity opaque
  | OperatorAffinity "(int \<times> (string, string) gomap \<times> string) list" "(string \<times> string) option"

record pod_spec =
  psp_InitContainers :: "container list"
  psp_Containers :: "container list"
  psp_Volumes :: "volume list"
  psp_ImagePullSecrets :: "string list"
  psp_Tolerations :: "toleration list"
  psp_TopologySpreadConstraints :: "topology_spread_constraint list"
  psp_SecurityContext :: "pod_security_context option"
  psp_TerminationGracePeriodSeconds :: "int option"
  psp_Affinity :: "affinity option"
  psp_PriorityClassName :: string
  psp_ServiceAccountName :: string
  psp_RestartPolicy :: string
  psp_Hostname :: string
  psp_Subdomain :: string
  psp_rest :: opaque

text \<open>The phase is of the status; \<open>tpb_Ready\<close> is the answer of \<open>podutils.IsPodReady\<close>.\<close>

record tablet_pod_body =
  tpb_Spec :: pod_spec
  tpb_Phase :: string
  tpb_Ready :: bool

type_synonym tablet_pod = "tablet_pod_body kobj"

definition empty_pod_spec :: pod_spec where
  "empty_pod_spec =
     \<lparr>psp_InitContainers = [], psp_Containers = [], psp_Volumes = [], psp_ImagePullSecrets = [], psp_Tolerations = [],
      psp_TopologySpreadConstraints = [], psp_SecurityContext = None, psp_TerminationGracePeriodSeconds = None,
      psp_Affinity = None, psp_PriorityClassName = [], psp_ServiceAccountName = [], psp_RestartPolicy = [],
      psp_Hostname = [], psp_Subdomain = [], psp_rest = []\<rparr>"

definition empty_pod :: "object_key \<Rightarrow> tablet_pod" where
  "empty_pod key =
     \<lparr>annotations = None, ko_key = key, ko_labels = Map.empty, ko_UID = [], ko_deleting = False, ko_evictable = False,
      ko_body = \<lparr>tpb_Spec = empty_pod_spec, tpb_Phase = [], tpb_Ready = False\<rparr>\<rparr>"

abbreviation update_labels :: "(string, string) gomap \<Rightarrow> 'b kobj \<Rightarrow> 'b kobj" where
  "update_labels src obj \<equiv> obj\<lparr>ko_labels := nil_safe (Labels (Some (ko_labels obj)) src)\<rparr>"

abbreviation update_annotations :: "(string, string) gomap \<Rightarrow> 'b kobj \<Rightarrow> 'b kobj" where
  "update_annotations src obj \<equiv> obj\<lparr>annotations := Annotations (annotations obj) src\<rparr>"

section \<open>Constants\<close>

definition VttabletComponentName :: string where "VttabletComponentName = ''vttablet''"
definition HostnameLabel :: string where "HostnameLabel = ''kubernetes.io/hostname''"
definition ZoneFailureDomainLabel :: string where "ZoneFailureDomainLabel = ''failure-domain.beta.kubernetes.io/zone''"
definition DesiredStateAnnotation :: string where "DesiredStateAnnotation = ''planetscale.com/desired-state-hash''"

abbreviation (input) newline :: string where "newline \<equiv> [CHR 0x0A]"

definition vtRootInitScript :: string where
  "vtRootInitScript = concat (map (\<lambda>line. line @ newline)
     [''set -ex'',
      ''mkdir -p /mnt/vt/bin'',
      ''cp --no-clobber /vt/bin/mysqlctld /mnt/vt/bin/'',
      ''mkdir -p /mnt/vt/config'',
      ''if [[ -d /vt/config/mycnf ]]; then'',
      ''  cp --no-clobber -R /vt/config/mycnf /mnt/vt/config/'',
      ''else'',
      ''  mkdir -p /mnt/vt/config/mycnf'',
      ''fi'',
      ''mkdir -p /mnt/vt/vtdataroot'',
      ''ln -sf /dev/stderr /mnt/vt/config/stderr.symlink'',
      ''echo \"log-error = /vt/config/stderr.symlink\" > /mnt/vt/config/mycnf/log-error.cnf'',
      ''echo \"binlog_format=row\" > /mnt/vt/config/mycnf/rbr.cnf'',
      concat [''echo \"socket = '', mysqlSocketPath, ''\" > /mnt/vt/config/mycnf/socket.cnf''],
      concat [''echo -e \"[client]'', [CHR 0x5C], ''nuser='', ''vt_dba'', [CHR 0x5C], ''nsocket='', mysqlSocketPath,
        [CHR 0x5C], ''n\" > /mnt/vt/config/mycnf/'', ''client.cnf'']])"

definition mysqlSocketInitScript :: string where
  "mysqlSocketInitScript = concat (map (\<lambda>line. line @ newline)
     [''set -ex'',
      ''cd '' @ vtDataRootPath,
      concat [''for mycnf in $(find . -mindepth 2 -maxdepth 2 -path '', [CHR 0x27], ''./vt_*/my.cnf'', [CHR 0x27], ''); do''],
      concat [''  sed -i -e '', [CHR 0x27], ''s,^socket[ '', [CHR 0x5C], ''t]*=.*$,socket = '', mysqlSocketPath, '','', [CHR 0x27],
        '' \"${mycnf}\"''],
      ''done''])"

definition vtbackupInitScript :: string where
  "vtbackupInitScript = concat (map (\<lambda>line. line @ newline)
     [''set -ex'',
      ''mkdir -p /mnt/vt/bin'',
      ''cp --no-clobber /vt/bin/vtbackup /mnt/vt/bin/'',
      ''mkdir -p /mnt/vt/config'',
      ''if [[ -d /vt/config/mycnf ]]; then'',
      ''  cp --no-clobber -R /vt/config/mycnf /mnt/vt/config/'',
      ''else'',
      ''  mkdir -p /mnt/vt/config/mycnf'',
      ''fi'',
      ''ln -sf /dev/stderr /mnt/vt/config/stderr.symlink'',
      ''echo \"log-error = /vt/config/stderr.symlink\" > /mnt/vt/config/mycnf/log-error.cnf'',
      ''echo \"binlog_format=row\" > /mnt/vt/config/mycnf/rbr.cnf'',
      concat [''echo -e \"sync_binlog=0'', [CHR 0x5C], ''ninnodb_flush_log_at_trx_commit=0\" > /mnt/vt/config/mycnf/vtbackup.cnf''],
      ''mkdir -p /mnt/vt/certs'',
      ''cp --no-clobber /etc/ssl/certs/ca-certificates.crt /mnt/vt/certs/'',
      concat [''echo \"socket = '', mysqlSocketPath, ''\" > /mnt/vt/config/mycnf/socket.cnf'']])"

section \<open>Flags\<close>

text \<open>
  The version a MySQL image stands for overrides the flag, whatever it was; the second component is what the code also
  writes to the package variable \<open>environment.MySQLServerVersion\<close>, which no modelled code reads.
\<close>

definition UpdateMySQLServerVersion :: "(string \<Rightarrow> bool) \<Rightarrow> flags \<Rightarrow> string \<Rightarrow> flags \<times> string option" where
  "UpdateMySQLServerVersion conv_ok flags mysqldImage =
     (case dockerImageGetVersionToString conv_ok mysqldImage of
        None \<Rightarrow> (flags, None)
      | Some v \<Rightarrow> (set_flag ''mysql_server_version'' (FString v) flags, Some v))"

definition trim_flag :: "string \<Rightarrow> string" where
  "trim_flag key = dropWhile (\<lambda>c. c = CHR ''-'') key"

text \<open>A range over the user's flags, in any order, with leading dashes dropped.\<close>

definition user_flags :: "(string, string) gomap \<Rightarrow> flags \<Rightarrow> flags" where
  "user_flags extra f = fold (\<lambda>(key, value). set_flag (trim_flag key) (FString value)) extra f"

definition default_restore_path :: "flags \<Rightarrow> flags" where
  "default_restore_path f =
     (if map_of f ''builtinbackup-incremental-restore-path'' = None
      then set_flag ''builtinbackup-incremental-restore-path'' (FString vtDataRootPath) f else f)"

definition vttabletAllFlags :: "tablet_lib \<Rightarrow> TabletSpec \<Rightarrow> MysqldImage \<Rightarrow> flags option" where
  "vttabletAllFlags lib spec img =
     map_option (\<lambda>f. fst (UpdateMySQLServerVersion (tl_conv_ok lib)
         (default_restore_path (user_flags (range_of (tl_visit lib) 0 (vt_extraFlags (sp_Vttablet spec))) f))
         (MysqldImage_Image img)))
       (vttabletFlags spec)"

definition mysqlctldAllFlags :: "tablet_lib \<Rightarrow> TabletSpec \<Rightarrow> MysqldImage \<Rightarrow> flags" where
  "mysqlctldAllFlags lib spec img =
     fst (UpdateMySQLServerVersion (tl_conv_ok lib) (mysqlctldFlags spec) (MysqldImage_Image img))"

definition mysqldExporterAllFlags :: "tablet_lib \<Rightarrow> TabletSpec \<Rightarrow> flags" where
  "mysqldExporterAllFlags lib spec =
     (case sp_MysqldExporter spec of
        None \<Rightarrow> mysqldExporterFlags spec
      | Some e \<Rightarrow> user_flags (range_of (tl_visit lib) 1 (me_extraFlags e)) (mysqldExporterFlags spec))"

section \<open>Containers\<close>

definition operator_security_context :: "tablet_lib \<Rightarrow> security_context" where
  "operator_security_context lib =
     \<lparr>procMount = None, allowPrivilegeEscalation = None, capabilities = None, readOnlyRootFilesystem = None, runAsGroup = None,
      runAsUser = (if tl_RunAsUser lib \<ge> 0 then Some (tl_RunAsUser lib) else None), sc_rest = []\<rparr>"

definition empty_resources :: resource_requirements where
  "empty_resources = \<lparr>limits = None, requests = None\<rparr>"

text \<open>A container with the fields every one of the operator's containers sets, and the others at their zero values.\<close>

definition new_container ::
    "tablet_lib \<Rightarrow> string \<Rightarrow> string \<Rightarrow> string \<Rightarrow> string list \<Rightarrow> string list \<Rightarrow> volume_mount list \<Rightarrow> container"
where
  "new_container lib name img pullPolicy command args mounts =
     \<lparr>c_name = name, c_image = img, c_imagePullPolicy = pullPolicy, c_command = command, c_args = args, c_ports = [],
      c_resources = empty_resources, c_securityContext = Some (operator_security_context lib), c_volumeMounts = mounts,
      c_env = [], c_readinessProbe = None, c_livenessProbe = None, c_lifecycle = None, c_rest = []\<rparr>"

definition http_probe :: "string \<Rightarrow> int \<Rightarrow> int \<Rightarrow> probe" where
  "http_probe path delay failures =
     \<lparr>pr_handler = HTTPGet path ''web'', pr_initialDelaySeconds = delay, pr_periodSeconds = 0, pr_failureThreshold = failures,
      pr_successThreshold = 0, pr_timeoutSeconds = 0\<rparr>"

definition tablet_env :: "TabletSpec \<Rightarrow> MysqldImage \<Rightarrow> env_var list" where
  "tablet_env spec img = Env (tabletEnvVars img spec) (sp_ExtraEnv spec)"

definition vttablet_env :: "TabletSpec \<Rightarrow> MysqldImage \<Rightarrow> env_var list" where
  "vttablet_env spec img =
     Env (GOMAXPROCS (vttabletEnvVars spec @ tabletEnvVars img spec) (vt_resources (sp_Vttablet spec))) (sp_ExtraEnv spec)"

definition mysqldMounts :: "TabletSpec \<Rightarrow> volume_mount list" where
  "mysqldMounts spec = VolumeMounts (mysqldVolumeMounts spec @ tabletVolumeMounts spec) (sp_ExtraVolumeMounts spec)"

definition vttabletMounts :: "TabletSpec \<Rightarrow> volume_mount list" where
  "vttabletMounts spec = VolumeMounts (vttabletVolumeMounts spec @ tabletVolumeMounts spec) (sp_ExtraVolumeMounts spec)"

definition vttabletContainer :: "tablet_lib \<Rightarrow> TabletSpec \<Rightarrow> MysqldImage \<Rightarrow> container option" where
  "vttabletContainer lib spec img =
     map_option (\<lambda>fl.
       (new_container lib ''vttablet'' (ki_Vttablet (sp_Images spec)) (ip_Vttablet (sp_ImagePullPolicies spec))
          [''/vt/bin/vttablet''] (FormatArgs fl) (vttabletMounts spec))
       \<lparr>c_ports := [\<lparr>cp_name = ''web'', cp_protocol = ''TCP'', cp_port = DefaultWebPort\<rparr>,
                    \<lparr>cp_name = ''grpc'', cp_protocol = ''TCP'', cp_port = DefaultGrpcPort\<rparr>],
        c_readinessProbe := Some (http_probe ''/healthz'' 0 0),
        c_livenessProbe := Some (http_probe ''/debug/status'' 300 30),
        c_lifecycle := Some (vt_lifecycle (sp_Vttablet spec)),
        c_env := vttablet_env spec img,
        c_resources := ResourceRequirements empty_resources (vt_resources (sp_Vttablet spec))\<rparr>)
     (vttabletAllFlags lib spec img)"

definition mysqldContainer :: "tablet_lib \<Rightarrow> TabletSpec \<Rightarrow> mysqld_spec \<Rightarrow> MysqldImage \<Rightarrow> container" where
  "mysqldContainer lib spec mysqld img =
     (new_container lib MysqldContainerName (MysqldImage_Image img) (ip_Mysqld (sp_ImagePullPolicies spec))
        [''/vt/bin/mysqlctld''] (FormatArgs (mysqlctldAllFlags lib spec img)) (mysqldMounts spec))
     \<lparr>c_ports := [\<lparr>cp_name = ''mysql'', cp_protocol = ''TCP'', cp_port = 3306\<rparr>],
      c_readinessProbe := Some \<lparr>pr_handler = TCPSocket 3306, pr_initialDelaySeconds = 0, pr_periodSeconds = 2,
        pr_failureThreshold = 0, pr_successThreshold = 0, pr_timeoutSeconds = 0\<rparr>,
      c_env := tablet_env spec img,
      c_resources := ResourceRequirements empty_resources (my_resources mysqld)\<rparr>"

definition listed_requirements :: "listed_resources \<Rightarrow> resource_requirements" where
  "listed_requirements r = \<lparr>limits = Some (map_of (lr_limits r)), requests = Some (map_of (lr_requests r))\<rparr>"

text \<open>Requests and limits of the user count only if he gives any.\<close>

definition exporter_resources :: "exporter_spec option \<Rightarrow> resource_requirements" where
  "exporter_resources exporter =
     (let configured = (case exporter of
            None \<Rightarrow> None
          | Some e \<Rightarrow> if lr_limits (me_resources e) \<noteq> [] \<or> lr_requests (me_resources e) \<noteq> []
                      then Some (listed_requirements (me_resources e)) else None)
      in case configured of
           Some r \<Rightarrow> ResourceRequirements (ResourceRequirements empty_resources r) r
         | None \<Rightarrow>
             \<lparr>limits = Some [''cpu'' \<mapsto> NewMilliQuantity 100, ''memory'' \<mapsto> NewQuantity (128 * 1048576)],
              requests = Some [''cpu'' \<mapsto> NewMilliQuantity 10, ''memory'' \<mapsto> NewQuantity (32 * 1048576)]\<rparr>)"

definition mysqldExporterContainer :: "tablet_lib \<Rightarrow> TabletSpec \<Rightarrow> container option" where
  "mysqldExporterContainer lib spec =
     map_option (\<lambda>args.
       (new_container lib ''mysqld-exporter'' (ki_MysqldExporter (sp_Images spec))
          (ip_MysqldExporter (sp_ImagePullPolicies spec)) [''/bin/mysqld_exporter''] args (mysqldMounts spec))
       \<lparr>c_ports := [\<lparr>cp_name = ''metrics'', cp_protocol = [], cp_port = 9104\<rparr>],
        c_env := Env (mysqldExporterEnvVars spec) (sp_ExtraEnv spec),
        c_resources := exporter_resources (sp_MysqldExporter spec)\<rparr>)
     (FormatArgsConvertBoolean (mysqldExporterAllFlags lib spec))"

definition init_resources :: resource_requirements where
  "init_resources =
     \<lparr>limits = None, requests = Some [''cpu'' \<mapsto> NewMilliQuantity 100, ''memory'' \<mapsto> NewQuantity (32 * 1048576)]\<rparr>"

definition tabletInitContainers :: "tablet_lib \<Rightarrow> TabletSpec \<Rightarrow> container list" where
  "tabletInitContainers lib =
     lazy_concat [\<lambda>spec.
       (let init = (\<lambda>name script mounts.
              (new_container lib name (ki_Vttablet (sp_Images spec)) (ip_Vttablet (sp_ImagePullPolicies spec))
                 [''bash'', ''-c''] [script] mounts)\<lparr>c_resources := init_resources\<rparr>)
        in init ''init-vt-root'' vtRootInitScript [mount vtRootVolumeName False ''/mnt/vt'' []]
           # (if sp_DataVolumePVCSpec spec = None then []
              else [init ''init-mysql-socket'' mysqlSocketInitScript [mount pvcVolumeName False vtDataRootPath ''vtdataroot'']]))]"

text \<open>The init containers get the resources of vttablet on top of their own.\<close>

definition initContainers :: "tablet_lib \<Rightarrow> TabletSpec \<Rightarrow> container list" where
  "initContainers lib spec =
     map (\<lambda>c. c\<lparr>c_resources := ResourceRequirements (c_resources c) (vt_resources (sp_Vttablet spec))\<rparr>)
       (tabletInitContainers lib spec)
     @ sp_InitContainers spec"

definition tabletContainers :: "tablet_lib \<Rightarrow> TabletSpec \<Rightarrow> MysqldImage \<Rightarrow> container list option" where
  "tabletContainers lib spec img =
     (case vttabletContainer lib spec img of
        None \<Rightarrow> None
      | Some vttablet \<Rightarrow>
          (case sp_Mysqld spec of
             None \<Rightarrow> Some [vttablet]
           | Some mysqld \<Rightarrow>
               (case mysqldExporterContainer lib spec of
                  None \<Rightarrow> None
                | Some exporter \<Rightarrow>
                    Some ([vttablet, mysqldContainer lib spec mysqld img]
                      @ (if c_image exporter \<noteq> [] then [exporter] else [])))))"

section \<open>Updating a Pod\<close>

definition storage_request :: "pvc_spec \<Rightarrow> quantity option" where
  "storage_request pvc = nil_safe (pvc_requests pvc) ''storage''"

definition desiredStateHash :: "tablet_lib \<Rightarrow> TabletSpec \<Rightarrow> container list \<Rightarrow> container list \<Rightarrow> string" where
  "desiredStateHash lib spec inits containers =
     (let b = AddStringMapKeys ''labels-keys'' (sp_ExtraLabels spec) NewBuilder;
          b = AddStringMapKeys ''annotations-keys'' (sp_Annotations spec) b;
          b = (case sp_DataVolumePVCSpec spec of
                 None \<Rightarrow> b
               | Some pvc \<Rightarrow> if storage_request pvc = None then b
                             else AddString ''data-volume-size'' (tl_storage_String lib pvc) b);
          b = AddContainersUpdates ''init-containers'' inits b;
          b = AddContainersUpdates ''containers'' containers b;
          b = AddTolerations ''tolerations'' (sp_Tolerations spec) b;
          b = AddTopologySpreadConstraints (tl_LabelSelectorAsMap lib) ''topologySpreadConstraints''
                (sp_TopologySpreadConstraints spec) b
      in Builder_String b)"

definition tablet_affinity :: "TabletSpec \<Rightarrow> affinity" where
  "tablet_affinity spec =
     (case sp_Affinity spec of
        Some a \<Rightarrow> UserAffinity a
      | None \<Rightarrow>
          OperatorAffinity [(2, shardLabels spec, HostnameLabel), (1, poolLabels spec, HostnameLabel)]
            (if sp_Zone spec \<noteq> [] then Some (ZoneFailureDomainLabel, sp_Zone spec) else None))"

definition defaultTerminationGracePeriodSeconds :: int where
  "defaultTerminationGracePeriodSeconds = 1800"

definition update_pod_spec :: "tablet_lib \<Rightarrow> TabletSpec \<Rightarrow> container list \<Rightarrow> container list \<Rightarrow> pod_spec \<Rightarrow> pod_spec" where
  "update_pod_spec lib spec inits containers s =
     s\<lparr>psp_InitContainers := PodContainers (psp_InitContainers s) inits,
       psp_Containers := PodContainers (PodContainers (psp_Containers s) (sp_SidecarContainers spec)) containers,
       psp_ImagePullSecrets := sp_ImagePullSecrets spec,
       psp_Volumes := Volumes (Volumes (psp_Volumes s) (tabletVolumes spec)) (sp_ExtraVolumes spec),
       psp_Tolerations := Tolerations (tl_MatchToleration lib) (psp_Tolerations s) (sp_Tolerations spec),
       psp_TopologySpreadConstraints :=
         TopologySpreadConstraints (tl_LabelSelectorAsMap lib) (psp_TopologySpreadConstraints s) (sp_TopologySpreadConstraints spec),
       psp_SecurityContext :=
         (let sc = (case psp_SecurityContext s of None \<Rightarrow> \<lparr>psc_FSGroup = None, psc_rest = []\<rparr> | Some sc \<Rightarrow> sc)
          in Some (if tl_FSGroup lib \<ge> 0 then sc\<lparr>psc_FSGroup := Some (tl_FSGroup lib)\<rparr> else sc)),
       psp_TerminationGracePeriodSeconds :=
         Some (case vt_terminationGracePeriod (sp_Vttablet spec) of
                 Some t \<Rightarrow> t | None \<Rightarrow> defaultTerminationGracePeriodSeconds),
       psp_Affinity := Some (tablet_affinity spec),
       psp_PriorityClassName := (if tl_PriorityClass lib \<noteq> [] then tl_PriorityClass lib else psp_PriorityClassName s),
       psp_ServiceAccountName := (if tl_ServiceAccount lib \<noteq> [] then tl_ServiceAccount lib else psp_ServiceAccountName s)\<rparr>"

text \<open>The metadata and the spec of the Pod, once the containers are known.\<close>

definition updated_pod :: "tablet_lib \<Rightarrow> TabletSpec \<Rightarrow> container list \<Rightarrow> tablet_pod \<Rightarrow> tablet_pod" where
  "updated_pod lib spec containers obj =
     (let obj = update_labels (sp_Labels spec) obj;
          obj = update_labels (sp_ExtraLabels spec) obj;
          obj = update_annotations (sp_Annotations spec) obj;
          inits = initContainers lib spec;
          obj = update_annotations [(DesiredStateAnnotation, desiredStateHash lib spec inits containers)] obj;
          obj = update_annotations (tabletAnnotations spec) obj
      in obj\<lparr>ko_body := (ko_body obj)\<lparr>tpb_Spec := update_pod_spec lib spec inits containers (tpb_Spec (ko_body obj))\<rparr>\<rparr>)"

definition UpdatePod :: "tablet_lib \<Rightarrow> TabletSpec \<Rightarrow> tablet_pod \<Rightarrow> tablet_pod option" where
  "UpdatePod lib spec obj =
     (case ki_Mysqld (sp_Images spec) of
        None \<Rightarrow> None
      | Some img \<Rightarrow> map_option (\<lambda>containers. updated_pod lib spec containers obj) (tabletContainers lib spec img))"

definition NewPod :: "tablet_lib \<Rightarrow> object_key \<Rightarrow> TabletSpec \<Rightarrow> tablet_pod option" where
  "NewPod lib key spec = UpdatePod lib spec (empty_pod key)"

definition UpdatePodInPlace :: "TabletSpec \<Rightarrow> 'b kobj \<Rightarrow> 'b kobj" where
  "UpdatePodInPlace spec obj = update_labels (sp_Labels spec) obj"

definition PodName :: "tablet_lib \<Rightarrow> string \<Rightarrow> tablet_alias \<Rightarrow> string option" where
  "PodName lib clusterName tabletAlias =
     JoinWithConstraints DefaultConstraints [clusterName, VttabletComponentName, tl_AliasString lib tabletAlias]"

definition AliasFromTabletPod :: "'b kobj \<Rightarrow> tablet_alias" where
  "AliasFromTabletPod obj =
     (let label = (\<lambda>k. case ko_labels obj k of None \<Rightarrow> [] | Some v \<Rightarrow> v)
      in (label CellLabel, word_of_int (ParseUint_loop 0 (label TabletUidLabel))))"

section \<open>Volume claims\<close>

record pvc_body =
  pvb_Spec :: pvc_spec
  pvb_Phase :: string
  pvb_Conditions :: "(string \<times> cond_status) list"

type_synonym pvc_kobj = "pvc_body kobj"

definition NewPVC :: "object_key \<Rightarrow> TabletSpec \<Rightarrow> pvc_kobj option" where
  "NewPVC key spec =
     map_option (\<lambda>pvc.
       update_labels (sp_ExtraLabels spec) (update_labels (sp_Labels spec)
         \<lparr>annotations = None, ko_key = key, ko_labels = Map.empty, ko_UID = [], ko_deleting = False, ko_evictable = False,
          ko_body = \<lparr>pvb_Spec = pvc, pvb_Phase = [], pvb_Conditions = []\<rparr>\<rparr>))
     (sp_DataVolumePVCSpec spec)"

definition quantity_or_zero :: "quantity option \<Rightarrow> quantity" where
  "quantity_or_zero q = (case q of None \<Rightarrow> 0 | Some q \<Rightarrow> q)"

text \<open>A claim only grows.  Writing the request into a nil list panics, and so does a spec without a claim.\<close>

definition UpdatePVCInPlace :: "TabletSpec \<Rightarrow> pvc_kobj \<Rightarrow> pvc_kobj option" where
  "UpdatePVCInPlace spec obj =
     (case sp_DataVolumePVCSpec spec of
        None \<Rightarrow> None
      | Some pvc \<Rightarrow>
          (let obj = update_labels (sp_ExtraLabels spec) (update_labels (sp_Labels spec) obj);
               body = ko_body obj; cur = pvb_Spec body; newSize = quantity_or_zero (storage_request pvc)
           in if newSize > quantity_or_zero (storage_request cur)
              then (case pvc_requests cur of
                      None \<Rightarrow> None
                    | Some m \<Rightarrow>
                        Some (obj\<lparr>ko_body := body\<lparr>pvb_Spec := cur\<lparr>pvc_requests := Some (m(''storage'' \<mapsto> newSize))\<rparr>\<rparr>\<rparr>))
              else Some obj))"

section \<open>Pods of backup jobs\<close>

record BackupSpec =
  bsp_TabletSpec :: TabletSpec
  bsp_InitialBackup :: bool
  bsp_MinBackupInterval :: int
  bsp_MinRetentionTime :: int
  bsp_MinRetentionCount :: int

definition VtbackupComponentName :: string where "VtbackupComponentName = ''vtbackup''"

text \<open>\<open>strconv.FormatInt(seconds, 16)\<close>.\<close>

fun hex_nat :: "nat \<Rightarrow> string" where
  "hex_nat n = (if n < 16 then [hex_char n] else hex_nat (n div 16) @ [hex_char (n mod 16)])"

declare hex_nat.simps [simp del]

definition FormatInt_16 :: "int \<Rightarrow> string" where
  "FormatInt_16 i = (if i < 0 then CHR ''-'' # hex_nat (nat (- i)) else hex_nat (nat i))"

definition BackupPodName :: "string \<Rightarrow> string \<Rightarrow> VitessKeyRange \<Rightarrow> string \<Rightarrow> int \<Rightarrow> string option" where
  "BackupPodName clusterName keyspaceName keyRange backupLocationName lastBackupTime =
     (let timestamp = FormatInt_16 lastBackupTime
      in if backupLocationName = []
         then JoinWithConstraints DefaultConstraints
                [clusterName, keyspaceName, KeyRange_SafeName keyRange, VtbackupComponentName, timestamp]
         else JoinWithConstraints DefaultConstraints
                [clusterName, keyspaceName, KeyRange_SafeName keyRange, VtbackupComponentName, backupLocationName, timestamp])"

definition InitialBackupPodName :: "string \<Rightarrow> string \<Rightarrow> VitessKeyRange \<Rightarrow> string option" where
  "InitialBackupPodName clusterName keyspaceName keyRange =
     JoinWithConstraints DefaultConstraints
       [clusterName, keyspaceName, KeyRange_SafeName keyRange, VtbackupComponentName, ''init'']"

definition backup_vtbackupFlags :: "tablet_lib \<Rightarrow> BackupSpec \<Rightarrow> flags" where
  "backup_vtbackupFlags lib backupSpec =
     (let spec = bsp_TabletSpec backupSpec
      in case backup_target spec of
           None \<Rightarrow> []
         | Some (location, mysqld) \<Rightarrow>
             (let flags = [(''backup_engine_implementation'', FString (sp_BackupEngine spec))];
                  threads = max 1 (cpu_requests (my_resources mysqld));
                  flags = (if sp_BackupEngine spec = VitessBackupEngineXtraBackup
                           then flags_Merge flags (xtrabackupFlags threads threads) else flags);
                  flags = flags_Merge flags
                    (user_flags (range_of (tl_visit lib) 2 (vt_vtbackupExtraFlags (sp_Vttablet spec))) [])
              in flags_Merge flags (StorageFlags location (spec_label spec ClusterLabel))))"

definition base_vtbackupFlags :: "BackupSpec \<Rightarrow> flags" where
  "base_vtbackupFlags backupSpec =
     (let spec = bsp_TabletSpec backupSpec
      in [(''concurrency'', FInt 10),
          (''initial_backup'', FBool (bsp_InitialBackup backupSpec)),
          (''min_backup_interval'', FDuration (bsp_MinBackupInterval backupSpec)),
          (''min_retention_time'', FDuration (bsp_MinRetentionTime backupSpec)),
          (''min_retention_count'', FInt (bsp_MinRetentionCount backupSpec)),
          (''logtostderr'', FBool True),
          (''topo_implementation'', FString (Implementation (sp_GlobalLockserver spec))),
          (''topo_global_server_address'', FString (Address (sp_GlobalLockserver spec))),
          (''topo_global_root'', FString (RootPath (sp_GlobalLockserver spec))),
          (''init_keyspace'', FString (sp_KeyspaceName spec)),
          (''init_shard'', FString (KeyRange_String (sp_KeyRange spec))),
          (''init_db_name_override'', FString (localDatabaseName spec)),
          (''db_dba_user'', FString dbConfigDbaUname),
          (''db_charset'', FString (dbConfigCharset spec)),
          (''init_db_sql_file'', FString (FilePath (dbInitScript spec))),
          (''mysql_socket'', FString mysqlSocketPath)])"

definition vtbackupFlags :: "tablet_lib \<Rightarrow> BackupSpec \<Rightarrow> flags" where
  "vtbackupFlags lib = lazy_merge [backup_vtbackupFlags lib, base_vtbackupFlags]"

definition vtbackup_mounts :: "TabletSpec \<Rightarrow> volume_mount list" where
  "vtbackup_mounts spec =
     VolumeMounts ([mount vtRootVolumeName True ''/etc/ssl/certs'' ''certs'']
       @ mysqldVolumeMounts spec @ tabletVolumeMounts spec @ vttabletVolumeMounts spec) (sp_ExtraVolumeMounts spec)"

definition vtbackup_env :: "TabletSpec \<Rightarrow> MysqldImage \<Rightarrow> env_var list" where
  "vtbackup_env spec img =
     Env (vttabletEnvVars spec @ tabletEnvVars img spec @ [plain_env ''HOME'' ''/home/vitess'']) (sp_ExtraEnv spec)"

definition vtbackupContainer :: "tablet_lib \<Rightarrow> BackupSpec \<Rightarrow> mysqld_spec \<Rightarrow> MysqldImage \<Rightarrow> string \<Rightarrow> container" where
  "vtbackupContainer lib backupSpec mysqld img mysqldImage =
     (let spec = bsp_TabletSpec backupSpec;
          flags = fst (UpdateMySQLServerVersion (tl_conv_ok lib) (default_restore_path (vtbackupFlags lib backupSpec)) mysqldImage)
      in (new_container lib ''vtbackup'' (MysqldImage_Image img) (ip_Mysqld (sp_ImagePullPolicies spec))
            [''/vt/bin/vtbackup''] (FormatArgs flags) (vtbackup_mounts spec))
         \<lparr>c_env := vtbackup_env spec img, c_resources := ResourceRequirements empty_resources (my_resources mysqld)\<rparr>)"

definition backup_pod_spec :: "tablet_lib \<Rightarrow> BackupSpec \<Rightarrow> mysqld_spec \<Rightarrow> MysqldImage \<Rightarrow> string \<Rightarrow> pod_spec" where
  "backup_pod_spec lib backupSpec mysqld img mysqldImage =
     (let spec = bsp_TabletSpec backupSpec
      in empty_pod_spec
           \<lparr>psp_ImagePullSecrets := sp_ImagePullSecrets spec,
            psp_RestartPolicy := ''OnFailure'',
            psp_Volumes := Volumes (tabletVolumes spec) (sp_ExtraVolumes spec),
            psp_SecurityContext :=
              Some \<lparr>psc_FSGroup = (if tl_FSGroup lib \<ge> 0 then Some (tl_FSGroup lib) else None), psc_rest = []\<rparr>,
            psp_Affinity := map_option UserAffinity (sp_Affinity spec),
            psp_Tolerations := sp_Tolerations spec,
            psp_ServiceAccountName := tl_ServiceAccount lib,
            psp_InitContainers := PodContainers
              [new_container lib ''init-vt-root'' (ki_Vtbackup (sp_Images spec)) (ip_Vtbackup (sp_ImagePullPolicies spec))
                 [''bash'', ''-c''] [vtbackupInitScript] [mount vtRootVolumeName False ''/mnt/vt'' []]]
              (sp_InitContainers spec),
            psp_Containers := PodContainers [vtbackupContainer lib backupSpec mysqld img mysqldImage]
              (sp_SidecarContainers spec)\<rparr>)"

text \<open>A nil spec panics, and so do one without a local MySQL and images without one for it.\<close>

definition NewBackupPod :: "tablet_lib \<Rightarrow> object_key \<Rightarrow> BackupSpec option \<Rightarrow> string \<Rightarrow> tablet_pod option" where
  "NewBackupPod lib key backup mysqldImage =
     (case backup of
        None \<Rightarrow> None
      | Some backupSpec \<Rightarrow>
          (let spec = bsp_TabletSpec backupSpec
           in case (sp_Mysqld spec, ki_Mysqld (sp_Images spec)) of
                (Some mysqld, Some img) \<Rightarrow>
                  Some \<lparr>annotations = Some (map_of (tabletAnnotations spec)), ko_key = key, ko_labels = map_of (sp_Labels spec),
                    ko_UID = [], ko_deleting = False, ko_evictable = False,
                    ko_body = \<lparr>tpb_Spec = backup_pod_spec lib backupSpec mysqld img mysqldImage, tpb_Phase = [], tpb_Ready = False\<rparr>\<rparr>
              | _ \<Rightarrow> None))"

end
