(* ===== verification/Tablet_Pod_Laws.thy ===== *)
theory Tablet_Pod_Laws
  imports Tablet_Pod
begin

text \<open>
  What the builders of \<open>Tablet_Pod\<close> promise: every mount of an operator container has its volume, a Pod that was just built
  needs no update, the user's flags win over the operator's, a claim only grows.
\<close>

section \<open>Merged lists\<close>

lemma set_upsert_replace: "set (upsert same (\<lambda>d s. s) ds s) \<subseteq> insert s (set ds)"
  by (induction ds) auto

lemma set_merge_replace: "set (foldl (upsert same (\<lambda>d s. s)) dst src) \<subseteq> set dst \<union> set src"
proof (induction src arbitrary: dst)
  case (Cons s src)
  have "set (foldl (upsert same (\<lambda>d s. s)) dst (s # src)) \<subseteq> set (upsert same (\<lambda>d s. s) dst s) \<union> set src"
    using Cons.IH by simp
  then show ?case using set_upsert_replace [of same dst s] by auto
qed simp

lemma set_VolumeMounts: "set (VolumeMounts dst src) \<subseteq> set dst \<union> set src"
  unfolding VolumeMounts_def by (rule set_merge_replace)

text \<open>The mounts of a merged container come from the containers of its name.\<close>

definition mounts_of :: "string \<Rightarrow> container list \<Rightarrow> volume_mount set" where
  "mounts_of n cs = \<Union> (set ` c_volumeMounts ` {c \<in> set cs. c_name c = n})"

lemma mounts_of_simps [simp]:
  "mounts_of n [] = {}" "mounts_of n (c # cs) = (if c_name c = n then set (c_volumeMounts c) else {}) \<union> mounts_of n cs"
  "mounts_of n (cs @ ds) = mounts_of n cs \<union> mounts_of n ds"
  by (auto simp: mounts_of_def)

lemma mounts_of_upsert:
  "mounts_of n (upsert (\<lambda>d s. c_name d = c_name s) PodContainer ds s) \<subseteq> mounts_of n ds \<union> mounts_of n [s]"
proof (induction ds)
  case (Cons d ds)
  have "set (c_volumeMounts (PodContainer d s)) \<subseteq> set (c_volumeMounts d) \<union> set (c_volumeMounts s)"
    using set_VolumeMounts by (simp add: PodContainer_def)
  then show ?case using Cons by (auto simp: PodContainer_def)
qed simp

lemma mounts_of_PodContainers: "mounts_of n (PodContainers dst src) \<subseteq> mounts_of n dst \<union> mounts_of n src"
proof (induction src arbitrary: dst)
  case (Cons s src)
  show ?case unfolding pod_containers.merge_Cons
    using Cons [of "upsert (\<lambda>d s. c_name d = c_name s) PodContainer dst s"] mounts_of_upsert [of n dst s] by auto
qed (simp add: PodContainers_def)

lemma mounts_of_member: "c \<in> set cs \<Longrightarrow> set (c_volumeMounts c) \<subseteq> mounts_of (c_name c) cs"
  by (auto simp: mounts_of_def)

lemma mounts_of_foreign: "n \<notin> c_name ` set cs \<Longrightarrow> mounts_of n cs = {}"
  by (auto simp: mounts_of_def)

section \<open>Every mount has its volume\<close>

text \<open>A secret is mounted from a volume of its own, or from one that the user adds under the name given in the secret.\<close>

definition secret_provided :: "string set \<Rightarrow> SecretSource \<Rightarrow> bool" where
  "secret_provided extra s \<longleftrightarrow> sec_Name s \<noteq> [] \<or> sec_VolumeName s \<noteq> [] \<and> sec_VolumeName s \<in> extra"

definition location_secrets :: "backup_location \<Rightarrow> SecretSource list" where
  "location_secrets l =
     (case bl_GCS l of Some gcs \<Rightarrow> (case gcs_AuthSecret gcs of None \<Rightarrow> [] | Some s \<Rightarrow> [s])
      | None \<Rightarrow> (case bl_S3 l of Some s3 \<Rightarrow> (case s3_AuthSecret s3 of None \<Rightarrow> [] | Some s \<Rightarrow> [s])
      | None \<Rightarrow> (case bl_Azblob l of Some az \<Rightarrow> [az_AuthSecret az]
      | None \<Rightarrow> (case bl_Ceph l of Some s \<Rightarrow> [s] | None \<Rightarrow> []))))"

definition spec_secrets :: "TabletSpec \<Rightarrow> SecretSource list" where
  "spec_secrets spec =
     sp_DatabaseInitScriptSecret spec
     # (case sp_ExternalDatastore spec of None \<Rightarrow> []
        | Some ds \<Rightarrow> ed_CredentialsSecret ds # (case ed_ServerCACertSecret ds of None \<Rightarrow> [] | Some s \<Rightarrow> [s]))
     @ (case sp_BackupLocation spec of None \<Rightarrow> [] | Some l \<Rightarrow> location_secrets l)"

lemma secret_volume:
  "secret_provided extra s \<Longrightarrow> vm_name (ContainerVolumeMount (secret_Mount s d)) \<in> vol_name ` set (PodVolumes (secret_Mount s d)) \<union> extra"
  by (auto simp: secret_provided_def ContainerVolumeMount_def PodVolumes_def VolumeName_def secret_Mount_def)

lemma optional_secret_named:
  assumes "\<forall>s \<in> set_option secret. secret_provided extra s" "m \<in> set (map ContainerVolumeMount (optional_secret d secret))"
  shows "vm_name m \<in> vol_name ` set (concat (map PodVolumes (optional_secret d secret))) \<union> extra"
  using assms secret_volume [of extra _ d] by (cases secret) (simp_all add: optional_secret_def)

lemma storage_mounts_named:
  assumes "\<forall>s \<in> set (location_secrets l). secret_provided extra s" "m \<in> set (StorageVolumeMounts l)"
  shows "vm_name m \<in> vol_name ` set (StorageVolumes l) \<union> extra"
proof -
  consider (gcs) gcs where "bl_GCS l = Some gcs" | (s3) s3 where "bl_GCS l = None" "bl_S3 l = Some s3"
    | (az) az where "bl_GCS l = None" "bl_S3 l = None" "bl_Azblob l = Some az"
    | (ceph) ceph where "bl_GCS l = None" "bl_S3 l = None" "bl_Azblob l = None" "bl_Ceph l = Some ceph"
    | (other) "bl_GCS l = None" "bl_S3 l = None" "bl_Azblob l = None" "bl_Ceph l = None"
    by (cases "bl_GCS l"; cases "bl_S3 l"; cases "bl_Azblob l"; cases "bl_Ceph l") auto
  then show ?thesis
  proof cases
    case gcs
    then show ?thesis using assms optional_secret_named [of "gcs_AuthSecret gcs" extra m gcsAuthDirName]
      by (cases "gcs_AuthSecret gcs")
        (simp_all add: StorageVolumeMounts_def StorageVolumes_def location_secrets_def gcsBackupVolumeMounts_def
          gcsBackupVolumes_def optional_secret_def)
  next
    case s3
    then show ?thesis using assms optional_secret_named [of "s3_AuthSecret s3" extra m s3AuthDirName]
      by (cases "s3_AuthSecret s3")
        (simp_all add: StorageVolumeMounts_def StorageVolumes_def location_secrets_def s3BackupVolumeMounts_def
          s3BackupVolumes_def optional_secret_def)
  next
    case az
    then show ?thesis using assms secret_volume [of extra "az_AuthSecret az" azblobAuthDirName]
      by (simp add: StorageVolumeMounts_def StorageVolumes_def location_secrets_def)
  next
    case ceph
    then show ?thesis using assms secret_volume [of extra ceph cephAuthDirName]
      by (simp add: StorageVolumeMounts_def StorageVolumes_def location_secrets_def)
  next
    case other
    then show ?thesis using assms(2)
      by (cases "bl_Volume l")
        (simp_all add: StorageVolumeMounts_def StorageVolumes_def fileBackupVolumeMounts_def fileBackupVolumes_def)
  qed
qed

lemma datastore_mounts_named:
  assumes "\<forall>s \<in> set (spec_secrets spec). secret_provided extra s" "m \<in> set (datastoreVolumeMounts spec)"
  shows "vm_name m \<in> vol_name ` set (datastoreVolumes spec) \<union> extra"
proof (cases "sp_ExternalDatastore spec")
  case (Some ds)
  then have "secret_provided extra (ed_CredentialsSecret ds)" "\<forall>s \<in> set_option (ed_ServerCACertSecret ds). secret_provided extra s"
    using assms(1) by (auto simp: spec_secrets_def split: option.splits)
  with Some assms(2) show ?thesis
    using secret_volume [of extra "ed_CredentialsSecret ds" externalDatastoreCredentialsDirName]
      optional_secret_named [of "ed_ServerCACertSecret ds" extra m externalDatastoreCACertDirName]
    by (auto simp: datastoreVolumeMounts_def datastoreVolumes_def image_Un simp del: set_map set_concat)
qed (use assms in \<open>simp add: datastoreVolumeMounts_def\<close>)

lemma operator_mounts_named:
  assumes "\<forall>s \<in> set (spec_secrets spec). secret_provided extra s"
    and "m \<in> set (vttabletVolumeMounts spec) \<union> set (mysqldVolumeMounts spec) \<union> set (tabletVolumeMounts spec)"
  shows "vm_name m \<in> vol_name ` set (tabletVolumes spec) \<union> extra"
proof -
  have vols: "vol_name ` set (tabletVolumes spec) =
      vol_name ` set (backupVolumes spec) \<union> vol_name ` set (datastoreVolumes spec) \<union> {vtRootVolumeName}
      \<union> vol_name ` set (overridesVolumes spec) \<union> vol_name ` set (dataVolumes spec) \<union> vol_name ` set (secretVolumes spec)"
    by (auto simp: tabletVolumes_def lazy_concat_def rootVolumes_def)
  have init: "secret_provided extra (sp_DatabaseInitScriptSecret spec)" using assms(1) by (simp add: spec_secrets_def)
  have loc: "\<forall>s \<in> set (location_secrets l). secret_provided extra s" if "sp_BackupLocation spec = Some l" for l
    using assms(1) that by (simp add: spec_secrets_def)
  from assms(2) consider
    "m \<in> set (backupVolumeMounts spec)" | "m \<in> set (datastoreVolumeMounts spec)" | "vm_name m = vtRootVolumeName"
    | "m \<in> set (overridesVolumeMounts spec)" | "m \<in> set (dataVolumeMounts spec)" | "m \<in> set (secretVolumeMounts spec)"
    by (auto simp: vttabletVolumeMounts_def mysqldVolumeMounts_def tabletVolumeMounts_def lazy_concat_def
        configVolumeMounts_def mount_def)
  then show ?thesis
  proof cases
    case 1
    then have "vm_name m \<in> vol_name ` set (backupVolumes spec) \<union> extra"
      using storage_mounts_named [OF loc]
      by (auto simp: backupVolumeMounts_def backupVolumes_def backup_target_def split: option.splits)
    then show ?thesis unfolding vols by blast
  next
    case 2
    from datastore_mounts_named [OF assms(1) this] show ?thesis unfolding vols by blast
  next
    case 6
    then have "vm_name m \<in> vol_name ` set (secretVolumes spec) \<union> extra"
      using secret_volume [OF init] by (simp add: secretVolumeMounts_def secretVolumes_def dbInitScript_def)
    then show ?thesis unfolding vols by blast
  qed (auto simp: vols overridesVolumeMounts_def overridesVolumes_def dataVolumeMounts_def dataVolumes_def mount_def
      split: if_splits)
qed

text \<open>The mounts that the operator and the user's settings put into the operator's containers.\<close>

definition mounts_provided :: "TabletSpec \<Rightarrow> bool" where
  "mounts_provided spec \<longleftrightarrow>
     (\<forall>s \<in> set (spec_secrets spec). secret_provided (vol_name ` set (sp_ExtraVolumes spec)) s)
     \<and> (\<forall>m \<in> set (sp_ExtraVolumeMounts spec). vm_name m \<in> vol_name ` (set (tabletVolumes spec) \<union> set (sp_ExtraVolumes spec)))"

definition user_containers :: "TabletSpec \<Rightarrow> string set" where
  "user_containers spec = c_name ` (set (sp_InitContainers spec) \<union> set (sp_SidecarContainers spec))"

definition mounts_have_volumes :: "TabletSpec \<Rightarrow> tablet_pod \<Rightarrow> bool" where
  "mounts_have_volumes spec pod =
     (let ps = tpb_Spec (ko_body pod)
      in \<forall>c \<in> set (psp_InitContainers ps) \<union> set (psp_Containers ps). c_name c \<notin> user_containers spec
           \<longrightarrow> (\<forall>m \<in> set (c_volumeMounts c). vm_name m \<in> vol_name ` set (psp_Volumes ps)))"

definition declared :: "TabletSpec \<Rightarrow> string set" where
  "declared spec = vol_name ` set (tabletVolumes spec) \<union> vol_name ` set (sp_ExtraVolumes spec)"

lemma merged_mounts_named:
  assumes "mounts_provided spec"
    and "set ms \<subseteq> set (vttabletVolumeMounts spec) \<union> set (mysqldVolumeMounts spec) \<union> set (tabletVolumeMounts spec)
           \<union> {mount vtRootVolumeName True ''/etc/ssl/certs'' ''certs''}"
  shows "vm_name ` set (VolumeMounts ms (sp_ExtraVolumeMounts spec)) \<subseteq> declared spec"
proof
  fix n assume "n \<in> vm_name ` set (VolumeMounts ms (sp_ExtraVolumeMounts spec))"
  then obtain m where m: "n = vm_name m" "m \<in> set ms \<union> set (sp_ExtraVolumeMounts spec)"
    using set_VolumeMounts [of ms "sp_ExtraVolumeMounts spec"] by blast
  have root: "vtRootVolumeName \<in> vol_name ` set (tabletVolumes spec)"
    by (simp add: tabletVolumes_def lazy_concat_def rootVolumes_def)
  from m(2) show "n \<in> declared spec"
  proof
    assume "m \<in> set ms"
    with assms(2) consider "m \<in> set (vttabletVolumeMounts spec) \<union> set (mysqldVolumeMounts spec) \<union> set (tabletVolumeMounts spec)"
      | "vm_name m = vtRootVolumeName" by (auto simp: mount_def)
    then show ?thesis using operator_mounts_named [of spec _ m] assms(1) root
      by cases (auto simp: m(1) declared_def mounts_provided_def)
  qed (use assms(1) m(1) in \<open>auto simp: declared_def mounts_provided_def\<close>)
qed

lemma init_mounts_named: "c \<in> set (tabletInitContainers lib spec) \<Longrightarrow> vm_name ` set (c_volumeMounts c) \<subseteq> declared spec"
  by (auto simp: tabletInitContainers_def lazy_concat_def new_container_def mount_def declared_def tabletVolumes_def
      rootVolumes_def dataVolumes_def Let_def split: if_splits)

lemma initContainers_mounts:
  assumes "c \<in> set (initContainers lib spec)" "c_name c \<notin> user_containers spec"
  shows "vm_name ` set (c_volumeMounts c) \<subseteq> declared spec"
proof -
  have "c \<notin> set (sp_InitContainers spec)" using assms(2) by (auto simp: user_containers_def)
  with assms(1) obtain d where "d \<in> set (tabletInitContainers lib spec)" "c_volumeMounts c = c_volumeMounts d"
    by (auto simp: initContainers_def)
  then show ?thesis using init_mounts_named by simp
qed

lemma tabletContainers_mounts:
  assumes "tabletContainers lib spec img = Some cs" "c \<in> set cs"
  shows "c_volumeMounts c \<in> {vttabletMounts spec, mysqldMounts spec}"
  using assms by (auto simp: tabletContainers_def vttabletContainer_def mysqldContainer_def mysqldExporterContainer_def
      new_container_def split: option.splits if_splits)

lemma mounts_of_declared:
  "(\<And>c. c \<in> set cs \<Longrightarrow> c_name c = n \<Longrightarrow> vm_name ` set (c_volumeMounts c) \<subseteq> D) \<Longrightarrow> vm_name ` mounts_of n cs \<subseteq> D"
  by (fastforce simp: mounts_of_def)

lemma mounts_of_merge:
  "vm_name ` mounts_of n dst \<subseteq> D \<Longrightarrow> vm_name ` mounts_of n src \<subseteq> D \<Longrightarrow> vm_name ` mounts_of n (PodContainers dst src) \<subseteq> D"
  using mounts_of_PodContainers [of n dst src] by blast

lemma mounts_have_volumesI:
  assumes "vol_name ` set (psp_Volumes (tpb_Spec (ko_body pod))) = declared spec"
    and "\<And>n. n \<notin> user_containers spec \<Longrightarrow> vm_name ` mounts_of n (psp_InitContainers (tpb_Spec (ko_body pod))) \<subseteq> declared spec"
    and "\<And>n. n \<notin> user_containers spec \<Longrightarrow> vm_name ` mounts_of n (psp_Containers (tpb_Spec (ko_body pod))) \<subseteq> declared spec"
  shows "mounts_have_volumes spec pod"
proof -
  have "vm_name m \<in> declared spec" if "c \<in> set cs" "m \<in> set (c_volumeMounts c)" "vm_name ` mounts_of (c_name c) cs \<subseteq> declared spec" for c cs m
    using that mounts_of_member [OF that(1)] by blast
  then show ?thesis unfolding mounts_have_volumes_def Let_def assms(1) ball_Un using assms(2,3) by simp
qed

lemma user_mounts:
  assumes "n \<notin> user_containers spec"
  shows "mounts_of n (sp_InitContainers spec) = {}" "mounts_of n (sp_SidecarContainers spec) = {}"
  using assms by (auto simp: user_containers_def intro!: mounts_of_foreign)

lemma updated_pod_spec:
  "tpb_Spec (ko_body (updated_pod lib spec cs obj)) =
     update_pod_spec lib spec (initContainers lib spec) cs (tpb_Spec (ko_body obj))"
  by (simp add: updated_pod_def Let_def)

lemma UpdatePod_parts:
  assumes "UpdatePod lib spec obj = Some pod"
  obtains img cs where "ki_Mysqld (sp_Images spec) = Some img" "tabletContainers lib spec img = Some cs"
    "pod = updated_pod lib spec cs obj"
    "tpb_Spec (ko_body pod) = update_pod_spec lib spec (initContainers lib spec) cs (tpb_Spec (ko_body obj))"
  using assms by (auto simp: UpdatePod_def updated_pod_spec split: option.splits)

lemma NewPod_mounts:
  assumes "mounts_provided spec" "NewPod lib key spec = Some pod"
  shows "mounts_have_volumes spec pod"
proof -
  have vt: "vm_name ` set (vttabletMounts spec) \<subseteq> declared spec" "vm_name ` set (mysqldMounts spec) \<subseteq> declared spec"
    unfolding vttabletMounts_def mysqldMounts_def by (rule merged_mounts_named [OF assms(1)]; auto)+
  obtain img cs where cs: "tabletContainers lib spec img = Some cs"
    and pod: "tpb_Spec (ko_body pod) = update_pod_spec lib spec (initContainers lib spec) cs empty_pod_spec"
    using assms(2) unfolding NewPod_def by (elim UpdatePod_parts) (simp add: empty_pod_def)
  show ?thesis
  proof (rule mounts_have_volumesI)
    fix n assume n: "n \<notin> user_containers spec"
    have main: "vm_name ` mounts_of n cs \<subseteq> declared spec"
    proof (rule mounts_of_declared)
      fix c assume "c \<in> set cs"
      then have "c_volumeMounts c \<in> {vttabletMounts spec, mysqldMounts spec}" by (rule tabletContainers_mounts [OF cs])
      then show "vm_name ` set (c_volumeMounts c) \<subseteq> declared spec" using vt by (elim insertE emptyE) simp_all
    qed
    have "vm_name ` mounts_of n (initContainers lib spec) \<subseteq> declared spec"
      by (rule mounts_of_declared) (use n initContainers_mounts in blast)
    then show "vm_name ` mounts_of n (psp_InitContainers (tpb_Spec (ko_body pod))) \<subseteq> declared spec"
      by (simp add: pod update_pod_spec_def empty_pod_spec_def mounts_of_merge)
    show "vm_name ` mounts_of n (psp_Containers (tpb_Spec (ko_body pod))) \<subseteq> declared spec"
      using main user_mounts(2) [OF n] by (simp add: pod update_pod_spec_def empty_pod_spec_def mounts_of_merge)
  qed (simp add: pod update_pod_spec_def empty_pod_spec_def volumes.keys_merge declared_def)
qed

lemma NewBackupPod_mounts:
  assumes "mounts_provided (bsp_TabletSpec backup)" "NewBackupPod lib key (Some backup) mysqldImage = Some pod"
  shows "mounts_have_volumes (bsp_TabletSpec backup) pod"
proof -
  let ?spec = "bsp_TabletSpec backup"
  obtain mysqld img where spec: "tpb_Spec (ko_body pod) = backup_pod_spec lib backup mysqld img mysqldImage"
    using assms(2) by (auto simp: NewBackupPod_def Let_def split: option.splits)
  have pod: "psp_InitContainers (tpb_Spec (ko_body pod)) = PodContainers
        [new_container lib ''init-vt-root'' (ki_Vtbackup (sp_Images ?spec)) (ip_Vtbackup (sp_ImagePullPolicies ?spec))
           [''bash'', ''-c''] [vtbackupInitScript] [mount vtRootVolumeName False ''/mnt/vt'' []]] (sp_InitContainers ?spec)"
    "psp_Containers (tpb_Spec (ko_body pod)) =
        PodContainers [vtbackupContainer lib backup mysqld img mysqldImage] (sp_SidecarContainers ?spec)"
    "psp_Volumes (tpb_Spec (ko_body pod)) = Volumes (tabletVolumes ?spec) (sp_ExtraVolumes ?spec)"
    by (simp_all add: spec backup_pod_spec_def Let_def)
  have "vm_name ` set (vtbackup_mounts ?spec) \<subseteq> declared ?spec"
    unfolding vtbackup_mounts_def by (rule merged_mounts_named [OF assms(1)]) auto
  then have main: "vm_name ` mounts_of n [vtbackupContainer lib backup mysqld img mysqldImage] \<subseteq> declared ?spec" for n
    by (simp add: vtbackupContainer_def Let_def new_container_def)
  show ?thesis
  proof (rule mounts_have_volumesI)
    fix n assume n: "n \<notin> user_containers ?spec"
    show "vm_name ` mounts_of n (psp_InitContainers (tpb_Spec (ko_body pod))) \<subseteq> declared ?spec"
      unfolding pod using user_mounts(1) [OF n]
      by (intro mounts_of_merge) (simp_all add: new_container_def mount_def declared_def tabletVolumes_def lazy_concat_def rootVolumes_def)
    show "vm_name ` mounts_of n (psp_Containers (tpb_Spec (ko_body pod))) \<subseteq> declared ?spec"
      unfolding pod using main user_mounts(2) [OF n] by (intro mounts_of_merge) simp_all
  qed (simp add: pod volumes.keys_merge declared_def)
qed

text \<open>C23: The Pods of tablets and of backup jobs are complete: in a new Pod, every mount of a container that the operator
  builds names a volume that the Pod declares, with a local MySQL or an external one, with or without a volume claim and
  for every kind of backup location, provided that each secret names its object or a volume of the user, and the
  user's own mounts name declared volumes.\<close>

theorem new_pod_mounts:
  assumes "mounts_provided spec"
  shows "(\<forall>pod. NewPod lib key spec = Some pod \<longrightarrow> mounts_have_volumes spec pod)
    \<and> (\<forall>backup pod. NewBackupPod lib key (Some backup) mysqldImage = Some pod \<and> bsp_TabletSpec backup = spec
         \<longrightarrow> mounts_have_volumes spec pod)"
  using NewPod_mounts [OF assms] NewBackupPod_mounts assms by (metis (no_types))

section \<open>When the builders panic\<close>

definition string_flags :: "flags \<Rightarrow> bool" where
  "string_flags f \<longleftrightarrow> (\<forall>k v. map_of f k = Some v \<longrightarrow> (\<exists>s. v = FString s))"

lemma string_flags_set: "string_flags f \<Longrightarrow> string_flags (set_flag k (FString s) f)"
  by (simp add: string_flags_def)

lemma string_flags_user: "string_flags f \<Longrightarrow> string_flags (user_flags extra f)"
  unfolding user_flags_def by (induction extra arbitrary: f) (simp_all add: string_flags_set split_beta)

lemma FormatArgsConvertBoolean_total: "string_flags f \<Longrightarrow> FormatArgsConvertBoolean f \<noteq> None"
  unfolding FormatArgsConvertBoolean_def by (rule map_opt_total) (fastforce simp: string_flags_def)

lemma mysqldExporterContainer_total: "mysqldExporterContainer lib spec \<noteq> None"
proof -
  have "string_flags (mysqldExporterFlags spec)"
    by (simp add: string_flags_def mysqldExporterFlags_def lazy_merge_def update_conv' split: if_splits)
  then have "string_flags (mysqldExporterAllFlags lib spec)"
    by (simp add: mysqldExporterAllFlags_def string_flags_user split: option.split)
  then show ?thesis using FormatArgsConvertBoolean_total by (simp add: mysqldExporterContainer_def)
qed

lemma backupFlags_None:
  "backupFlags spec = None \<longleftrightarrow>
     (\<exists>l mysqld. sp_BackupLocation spec = Some l \<and> sp_Mysqld spec = Some mysqld
        \<and> sp_BackupEngine spec = VitessBackupEngineMySQLShell \<and> StorageVolumeMounts l = [])"
  by (auto simp: backupFlags_def backup_target_def Let_def VitessBackupEngineXtraBackup_def VitessBackupEngineMySQLShell_def
      split: option.splits list.splits)

lemma tabletContainers_None: "tabletContainers lib spec img = None \<longleftrightarrow> backupFlags spec = None"
  using mysqldExporterContainer_total [of lib spec]
  by (auto simp: tabletContainers_def vttabletContainer_def vttabletAllFlags_def vttabletFlags_def split: option.splits)

text \<open>C40: Building or updating the Pod of a tablet panics in exactly two cases: the shard has no MySQL image, or the tablet runs
  its own MySQL with the backup engine \<open>mysqlshell\<close> and its backup location mounts nothing, as a GCS or S3 location without an
  authentication secret does.\<close>

theorem UpdatePod_panics:
  "UpdatePod lib spec obj = None \<longleftrightarrow>
     ki_Mysqld (sp_Images spec) = None
     \<or> (\<exists>l mysqld. sp_BackupLocation spec = Some l \<and> sp_Mysqld spec = Some mysqld
          \<and> sp_BackupEngine spec = VitessBackupEngineMySQLShell \<and> StorageVolumeMounts l = [])"
  unfolding backupFlags_None [symmetric] tabletContainers_None [symmetric, where lib = lib]
  by (auto simp: UpdatePod_def tabletContainers_None split: option.splits)

section \<open>A Pod that was just built needs no update\<close>

text \<open>
  All mount paths of the operator are different.  A short key tells them apart, so that no two long strings need to be
  compared.
\<close>

definition path_key :: "string \<Rightarrow> nat \<times> char \<times> char" where
  "path_key p = (length p, p ! 4, if 12 < length p then p ! 12 else CHR ''-'')"

lemma distinct_path_keys: "distinct (map (path_key \<circ> vm_mountPath) ms) \<Longrightarrow> distinct (map vm_mountPath ms)"
  by (metis distinct_map map_map)

lemma secret_paths:
  "filepath_Join [VolumeMountRootDir, gcsAuthDirName] = ''/vt/secrets/gcs-backup-auth''"
  "filepath_Join [VolumeMountRootDir, s3AuthDirName] = ''/vt/secrets/s3-backup-auth''"
  "filepath_Join [VolumeMountRootDir, azblobAuthDirName] = ''/vt/secrets/azblob-backup-auth''"
  "filepath_Join [VolumeMountRootDir, cephAuthDirName] = ''/vt/secrets/ceph-backup-auth''"
  "filepath_Join [VolumeMountRootDir, dbInitScriptDirName] = ''/vt/secrets/db-init-script''"
  "filepath_Join [VolumeMountRootDir, externalDatastoreCredentialsDirName] = ''/vt/secrets/external-datastore-credentials''"
  "filepath_Join [VolumeMountRootDir, externalDatastoreCACertDirName] = ''/vt/secrets/external-datastore-ca-cert''"
  by code_simp+

lemma secret_mount_path: "vm_mountPath (ContainerVolumeMount (secret_Mount s d)) = filepath_Join [VolumeMountRootDir, d]"
  by (simp add: ContainerVolumeMount_def secret_Mount_def DirPath_def)

lemmas mount_paths = secret_mount_path secret_paths

abbreviation mount_keys :: "volume_mount list \<Rightarrow> (nat \<times> char \<times> char) list" where
  "mount_keys ms \<equiv> map (path_key \<circ> vm_mountPath) ms"

lemma storage_mount_keys:
  "mount_keys (vttabletVolumeMounts spec) \<in>
     {[], [(27, CHR ''s'', CHR ''g'')], [(26, CHR ''s'', CHR ''s'')], [(30, CHR ''s'', CHR ''a'')], [(28, CHR ''s'', CHR ''c'')],
      [(11, CHR ''b'', CHR ''-'')]}"
proof -
  have "mount_keys (StorageVolumeMounts l) \<in>
     {[], [(27, CHR ''s'', CHR ''g'')], [(26, CHR ''s'', CHR ''s'')], [(30, CHR ''s'', CHR ''a'')], [(28, CHR ''s'', CHR ''c'')],
      [(11, CHR ''b'', CHR ''-'')]}" for l
    by (simp add: StorageVolumeMounts_def gcsBackupVolumeMounts_def s3BackupVolumeMounts_def optional_secret_def
        fileBackupVolumeMounts_def fileBackupStorageMountPath_def mount_paths path_key_def split: option.split)
  then show ?thesis by (simp add: vttabletVolumeMounts_def lazy_concat_def backupVolumeMounts_def split: option.split prod.split)
qed

lemma tablet_mount_keys:
  "mount_keys (datastoreVolumeMounts spec) \<in> {[], [(42, CHR ''s'', CHR ''e'')], [(42, CHR ''s'', CHR ''e''), (38, CHR ''s'', CHR ''e'')]}"
  "mount_keys (overridesVolumeMounts spec) \<in> {[], [(11, CHR ''-'', CHR ''-'')]}"
  "mount_keys (configVolumeMounts spec) = [(10, CHR ''c'', CHR ''-''), (10, CHR ''s'', CHR ''-'')]"
  "mount_keys (dataVolumeMounts spec) = [(14, CHR ''v'', CHR ''o'')]"
  "mount_keys (secretVolumeMounts spec) = [(26, CHR ''s'', CHR ''d'')]"
  "mount_keys (mysqldVolumeMounts spec) = [(7, CHR ''b'', CHR ''-'')]"
  by (simp_all add: datastoreVolumeMounts_def optional_secret_def overridesVolumeMounts_def configVolumeMounts_def
      dataVolumeMounts_def secretVolumeMounts_def mysqldVolumeMounts_def dbInitScript_def mount_def mount_paths path_key_def
      vtConfigPath_def vtSocketPath_def vtDataRootPath_def vtBinPath_def split: option.split)

lemma tabletVolumeMounts_keys:
  "mount_keys (tabletVolumeMounts spec) = mount_keys (datastoreVolumeMounts spec)
     @ [(10, CHR ''c'', CHR ''-''), (10, CHR ''s'', CHR ''-'')] @ mount_keys (overridesVolumeMounts spec)
     @ [(14, CHR ''v'', CHR ''o''), (26, CHR ''s'', CHR ''d'')]"
  by (simp only: tabletVolumeMounts_def lazy_concat_def list.map concat.simps map_append tablet_mount_keys append.simps append_Nil2)

lemma operator_mount_paths:
  "distinct (map vm_mountPath (vttabletMounts spec))" "distinct (map vm_mountPath (mysqldMounts spec))"
proof -
  have "distinct (mount_keys (vttabletVolumeMounts spec @ tabletVolumeMounts spec))"
    unfolding map_append tabletVolumeMounts_keys
    using storage_mount_keys [of spec] tablet_mount_keys(1) [of spec] tablet_mount_keys(2) [of spec]
    by (elim insertE emptyE) (simp_all only: append.simps distinct.simps list.set, simp_all)
  then show "distinct (map vm_mountPath (vttabletMounts spec))"
    unfolding vttabletMounts_def by (intro volume_mounts.distinct_merge distinct_path_keys)
  have "distinct (mount_keys (mysqldVolumeMounts spec @ tabletVolumeMounts spec))"
    unfolding map_append tabletVolumeMounts_keys tablet_mount_keys(6)
    using tablet_mount_keys(1) [of spec] tablet_mount_keys(2) [of spec]
    by (elim insertE emptyE) (simp_all only: append.simps distinct.simps list.set, simp_all)
  then show "distinct (map vm_mountPath (mysqldMounts spec))"
    unfolding mysqldMounts_def by (intro volume_mounts.distinct_merge distinct_path_keys)
qed

lemma resources_allocated:
  "limits (ResourceRequirements a b) = Some (nil_safe (limits a) ++ nil_safe (limits b))"
  "requests (ResourceRequirements a b) = Some (nil_safe (requests a) ++ nil_safe (requests b))"
  by (simp_all add: ResourceRequirements_def ResourceList_def)

lemma tabletContainers_wf:
  assumes "tabletContainers lib spec img = Some cs"
  shows "distinct (map c_name cs)" "c_name ` set cs \<subseteq> {''vttablet'', ''mysqld'', ''mysqld-exporter''}"
    "\<forall>c \<in> set cs. container_wf c"
  using assms operator_mount_paths [of spec]
  by (auto simp: tabletContainers_def vttabletContainer_def mysqldContainer_def mysqldExporterContainer_def
      new_container_def MysqldContainerName_def container_wf_def resources_allocated exporter_resources_def Let_def
      split: option.splits if_splits)

lemma tabletInitContainers_names:
  "distinct (map c_name (tabletInitContainers lib spec))"
  "c_name ` set (tabletInitContainers lib spec) \<subseteq> {''init-vt-root'', ''init-mysql-socket''}"
  "c \<in> set (tabletInitContainers lib spec) \<Longrightarrow> distinct (map vm_mountPath (c_volumeMounts c))"
  by (auto simp: tabletInitContainers_def lazy_concat_def new_container_def Let_def split: if_splits)

text \<open>The documented identity of tolerations.\<close>

definition toleration_id :: "toleration \<Rightarrow> string \<times> string \<times> string \<times> string" where
  "toleration_id t = (tol_key t, tol_effect t, tol_operator t, tol_value t)"

definition matches_by_id :: "tablet_lib \<Rightarrow> bool" where
  "matches_by_id lib \<longleftrightarrow> (\<forall>a b. tl_MatchToleration lib a b \<longleftrightarrow> toleration_id a = toleration_id b)"

interpretation tolerations: replacing_merge toleration_id "Tolerations (\<lambda>a b. toleration_id a = toleration_id b)"
  by unfold_locales (simp_all add: Tolerations_def)

text \<open>Flags of the user that are different stay different without their dashes.\<close>

definition user_flags_ok :: "(string, string) gomap \<Rightarrow> bool" where
  "user_flags_ok extra \<longleftrightarrow> distinct (map (trim_flag \<circ> fst) extra)"

definition labels_agree :: "TabletSpec \<Rightarrow> bool" where
  "labels_agree spec \<longleftrightarrow>
     (\<forall>k v w. map_of (sp_Labels spec) k = Some v \<longrightarrow> map_of (sp_ExtraLabels spec) k = Some w \<longrightarrow> v = w)"

text \<open>
  The maps of a spec are maps; the user's flags stay different without their dashes; and, as Kubernetes demands of every Pod, no
  two containers have the same name, and no two mounts of a container the same path.
\<close>

definition spec_wf :: "TabletSpec \<Rightarrow> bool" where
  "spec_wf spec \<longleftrightarrow>
     gomap_wf (sp_Labels spec) \<and> gomap_wf (sp_ExtraLabels spec) \<and> gomap_wf (sp_Annotations spec)
     \<and> user_flags_ok (vt_extraFlags (sp_Vttablet spec))
     \<and> (\<forall>e \<in> set_option (sp_MysqldExporter spec). user_flags_ok (me_extraFlags e))
     \<and> distinct (map c_name (sp_InitContainers spec)) \<and> distinct (map c_name (sp_SidecarContainers spec))
     \<and> c_name ` set (sp_InitContainers spec) \<inter> {''init-vt-root'', ''init-mysql-socket''} = {}
     \<and> c_name ` set (sp_SidecarContainers spec) \<inter> {''vttablet'', ''mysqld'', ''mysqld-exporter''} = {}
     \<and> (\<forall>c \<in> set (sp_InitContainers spec) \<union> set (sp_SidecarContainers spec). distinct (map vm_mountPath (c_volumeMounts c)))"

lemma user_flags_map:
  "user_flags extra f = fold (\<lambda>(k, v). AList.update k v) (map (\<lambda>(k, v). (trim_flag k, FString v)) extra) f"
  unfolding user_flags_def set_flag_def by (induction extra arbitrary: f) auto

lemma trimmed_keys: "map fst (map (\<lambda>(k, v). (trim_flag k, FString v)) extra) = map (trim_flag \<circ> fst) extra"
  by auto

lemma user_flags_wf: "gomap_wf f \<Longrightarrow> gomap_wf (user_flags extra f)"
  unfolding user_flags_map by (rule fold_update_wf)

lemma map_of_user_flags:
  assumes "user_flags_ok extra"
  shows "map_of (user_flags extra f) = map_of f ++ map_of (map (\<lambda>(k, v). (trim_flag k, FString v)) extra)"
  unfolding user_flags_map by (rule map_of_set_all) (use assms in \<open>simp only: trimmed_keys user_flags_ok_def\<close>)

lemma user_flags_ok_wf: "user_flags_ok extra \<Longrightarrow> gomap_wf extra"
  unfolding user_flags_ok_def map_map [symmetric] by (metis distinct_map)

lemma user_flags_ok_range:
  assumes "user_flags_ok extra" "visits visit"
  shows "user_flags_ok (range_of visit n extra)"
proof -
  have wf: "gomap_wf extra" by (rule user_flags_ok_wf [OF assms(1)])
  then have eq: "set (range_of visit n extra) = set extra" "gomap_wf (range_of visit n extra)"
    using assms(2) by simp_all
  have "inj_on (trim_flag \<circ> fst) (set extra)" using assms(1) by (simp add: user_flags_ok_def distinct_map)
  then show ?thesis using eq by (simp add: user_flags_ok_def distinct_map)
qed

text \<open>The order in which the user's flags are visited does not matter.\<close>

lemma map_of_user_flags_range:
  assumes "user_flags_ok extra" "visits visit"
  shows "map_of (user_flags (range_of visit n extra) f) = map_of (user_flags extra f)"
proof -
  have "set (range_of visit n extra) = set extra" using user_flags_ok_wf [OF assms(1)] assms(2) by simp
  then have "set (map (\<lambda>(k, v). (trim_flag k, FString v)) (range_of visit n extra)) = set (map (\<lambda>(k, v). (trim_flag k, FString v)) extra)"
    by (simp only: set_map)
  moreover have "gomap_wf (map (\<lambda>(k, v). (trim_flag k, FString v)) (range_of visit n extra))"
    "gomap_wf (map (\<lambda>(k, v). (trim_flag k, FString v)) extra)"
    using user_flags_ok_range [OF assms] assms(1) by (simp_all only: trimmed_keys user_flags_ok_def)
  ultimately show ?thesis
    using map_of_user_flags [OF assms(1)] map_of_user_flags [OF user_flags_ok_range [OF assms]]
    by (metis (no_types, lifting) map_of_inject_set)
qed

lemma default_restore_path_facts:
  "gomap_wf f \<Longrightarrow> gomap_wf (default_restore_path f)"
  "map_of f = map_of g \<Longrightarrow> map_of (default_restore_path f) = map_of (default_restore_path g)"
  by (simp_all add: default_restore_path_def gomap_wf_set_flag)

lemma UpdateMySQLServerVersion_facts:
  "gomap_wf f \<Longrightarrow> gomap_wf (fst (UpdateMySQLServerVersion conv f img))"
  "map_of f = map_of g \<Longrightarrow> map_of (fst (UpdateMySQLServerVersion conv f img)) = map_of (fst (UpdateMySQLServerVersion conv g img))"
  by (simp_all add: UpdateMySQLServerVersion_def gomap_wf_set_flag split: option.split)

lemma FormatArgsConvertBoolean_cong [order_free]:
  assumes "gomap_wf f" "gomap_wf g" "map_of f = map_of g"
  shows "FormatArgsConvertBoolean f = FormatArgsConvertBoolean g"
proof -
  have "sorted_keys f = sorted_keys g" by (rule sorted_keys_cong [OF assms])
  then show ?thesis by (simp add: FormatArgsConvertBoolean_def assms(3))
qed

text \<open>Two libraries that differ only in the orders in which maps are visited.\<close>

abbreviation revisit :: "visit_order \<Rightarrow> tablet_lib \<Rightarrow> tablet_lib" where
  "revisit visit lib \<equiv> lib\<lparr>tl_visit := visit\<rparr>"

lemma vttabletFlags_wf: "vttabletFlags spec = Some f \<Longrightarrow> gomap_wf f"
  by (auto simp: vttabletFlags_def lazy_merge_wf)

lemma vttabletContainer_revisit:
  assumes "spec_wf spec" "visits (tl_visit lib)" "visits visit"
  shows "vttabletContainer (revisit visit lib) spec img = vttabletContainer lib spec img"
proof (cases "vttabletFlags spec")
  case (Some f)
  let ?all = "\<lambda>v. fst (UpdateMySQLServerVersion (tl_conv_ok lib)
      (default_restore_path (user_flags (range_of v 0 (vt_extraFlags (sp_Vttablet spec))) f)) (MysqldImage_Image img))"
  have ok: "user_flags_ok (vt_extraFlags (sp_Vttablet spec))" using assms(1) by (simp add: spec_wf_def)
  have wf: "gomap_wf (?all v)" for v
    by (intro UpdateMySQLServerVersion_facts default_restore_path_facts user_flags_wf vttabletFlags_wf [OF Some])
  have "map_of (?all visit) = map_of (?all (tl_visit lib))"
    by (intro UpdateMySQLServerVersion_facts(2) default_restore_path_facts(2))
      (simp only: map_of_user_flags_range [OF ok] assms(2,3))
  from FormatArgs_cong [OF wf wf this] Some show ?thesis
    by (simp add: vttabletContainer_def vttabletAllFlags_def new_container_def operator_security_context_def)
qed (simp add: vttabletContainer_def vttabletAllFlags_def)

lemma mysqldExporterContainer_revisit:
  assumes "spec_wf spec" "visits (tl_visit lib)" "visits visit"
  shows "mysqldExporterContainer (revisit visit lib) spec = mysqldExporterContainer lib spec"
proof (cases "sp_MysqldExporter spec")
  case (Some e)
  then have ok: "user_flags_ok (me_extraFlags e)" using assms(1) by (simp add: spec_wf_def)
  have wf: "gomap_wf (user_flags x (mysqldExporterFlags spec))" for x
    by (rule user_flags_wf) (simp add: mysqldExporterFlags_def lazy_merge_wf)
  have "map_of (user_flags (range_of visit 1 (me_extraFlags e)) (mysqldExporterFlags spec)) =
      map_of (user_flags (range_of (tl_visit lib) 1 (me_extraFlags e)) (mysqldExporterFlags spec))"
    by (simp only: map_of_user_flags_range [OF ok] assms(2,3))
  from FormatArgsConvertBoolean_cong [OF wf wf this] Some show ?thesis
    by (simp add: mysqldExporterContainer_def mysqldExporterAllFlags_def new_container_def operator_security_context_def)
qed (simp add: mysqldExporterContainer_def mysqldExporterAllFlags_def new_container_def operator_security_context_def)

lemma tabletContainers_revisit:
  assumes "spec_wf spec" "visits (tl_visit lib)" "visits visit"
  shows "tabletContainers (revisit visit lib) spec img = tabletContainers lib spec img"
proof -
  have "mysqldContainer (revisit visit lib) spec m img = mysqldContainer lib spec m img" for m
    by (simp add: mysqldContainer_def mysqlctldAllFlags_def new_container_def operator_security_context_def)
  from this show ?thesis
    by (simp add: tabletContainers_def vttabletContainer_revisit [OF assms] mysqldExporterContainer_revisit [OF assms]
        cong: option.case_cong)
qed

lemma updated_pod_revisit: "updated_pod (revisit visit lib) spec cs obj = updated_pod lib spec cs obj"
proof -
  have "initContainers (revisit visit lib) spec = initContainers lib spec"
    by (simp add: initContainers_def tabletInitContainers_def lazy_concat_def new_container_def operator_security_context_def)
  moreover have "desiredStateHash (revisit visit lib) spec inits cs = desiredStateHash lib spec inits cs" for inits
    by (simp add: desiredStateHash_def Let_def split: option.split)
  moreover have "update_pod_spec (revisit visit lib) spec = update_pod_spec lib spec"
    by (simp add: update_pod_spec_def fun_eq_iff Let_def)
  ultimately show ?thesis by (simp add: updated_pod_def)
qed

text \<open>The parts of a Pod settle one by one.\<close>

lemma map_add_twice: "m ++ a ++ b ++ a ++ b = m ++ a ++ b" for m :: "'a \<rightharpoonup> 'b"
  by (auto simp: fun_eq_iff map_add_def split: option.split)

lemma map_add_thrice: "m ++ a ++ b ++ c ++ a ++ b ++ c = m ++ a ++ b ++ c" for m :: "'a \<rightharpoonup> 'b"
  by (auto simp: fun_eq_iff map_add_def split: option.split)

lemma initContainers_wf:
  assumes "spec_wf spec"
  shows "distinct (map c_name (initContainers lib spec))"
    "\<forall>c \<in> set (initContainers lib spec). distinct (map vm_mountPath (c_volumeMounts c))"
proof -
  let ?own = "map (\<lambda>c. c\<lparr>c_resources := ResourceRequirements (c_resources c) (vt_resources (sp_Vttablet spec))\<rparr>)
    (tabletInitContainers lib spec)"
  have names: "map c_name ?own = map c_name (tabletInitContainers lib spec)" by simp
  have "distinct (map c_name ?own)" unfolding names by (rule tabletInitContainers_names)
  moreover have "c_name ` set ?own \<inter> c_name ` set (sp_InitContainers spec) = {}"
    using assms tabletInitContainers_names(2) [of lib spec] unfolding set_map [symmetric] names spec_wf_def by auto
  moreover have "distinct (map c_name (sp_InitContainers spec))" using assms by (simp add: spec_wf_def)
  ultimately show "distinct (map c_name (initContainers lib spec))"
    unfolding initContainers_def map_append distinct_append set_map by blast
  show "\<forall>c \<in> set (initContainers lib spec). distinct (map vm_mountPath (c_volumeMounts c))"
    using assms by (auto simp: initContainers_def spec_wf_def dest: tabletInitContainers_names(3))
qed

lemma disjoint_subset: "A \<inter> C = {} \<Longrightarrow> B \<subseteq> C \<Longrightarrow> A \<inter> B = {}"
  by blast

lemma sidecars_wf:
  assumes "spec_wf spec" "tabletContainers lib spec img = Some cs"
  shows "distinct (map c_name (sp_SidecarContainers spec @ cs))"
    "\<forall>c \<in> set (sp_SidecarContainers spec @ cs). distinct (map vm_mountPath (c_volumeMounts c))"
proof -
  have "c_name ` set (sp_SidecarContainers spec) \<inter> {''vttablet'', ''mysqld'', ''mysqld-exporter''} = {}"
    using assms(1) unfolding spec_wf_def by (elim conjE)
  then have "c_name ` set (sp_SidecarContainers spec) \<inter> c_name ` set cs = {}"
    by (rule disjoint_subset) (rule tabletContainers_wf(2) [OF assms(2)])
  then show "distinct (map c_name (sp_SidecarContainers spec @ cs))"
    using assms(1) tabletContainers_wf(1) [OF assms(2)] unfolding map_append distinct_append set_map spec_wf_def by blast
  show "\<forall>c \<in> set (sp_SidecarContainers spec @ cs). distinct (map vm_mountPath (c_volumeMounts c))"
    using assms(1) tabletContainers_wf(3) [OF assms(2)] by (auto simp: spec_wf_def container_wf_def)
qed

text \<open>Two Pods are the same if they are once the resource lists of their containers are allocated.\<close>

definition spec_allocated :: "pod_spec \<Rightarrow> pod_spec" where
  "spec_allocated s =
     s\<lparr>psp_InitContainers := map allocated (psp_InitContainers s), psp_Containers := map allocated (psp_Containers s)\<rparr>"

definition pod_allocated :: "tablet_pod \<Rightarrow> tablet_pod" where
  "pod_allocated pod = pod\<lparr>ko_body := (ko_body pod)\<lparr>tpb_Spec := spec_allocated (tpb_Spec (ko_body pod))\<rparr>\<rparr>"

lemma update_pod_spec_settles:
  assumes "spec_wf spec" "tabletContainers lib spec img = Some cs" "matches_by_id lib"
  shows "spec_allocated (update_pod_spec lib spec (initContainers lib spec) cs (update_pod_spec lib spec (initContainers lib spec) cs s)) =
     spec_allocated (update_pod_spec lib spec (initContainers lib spec) cs s)"
proof -
  have "tl_MatchToleration lib = (\<lambda>a b. toleration_id a = toleration_id b)"
    using assms(3) by (simp add: matches_by_id_def fun_eq_iff)
  then show ?thesis
    by (simp add: update_pod_spec_def spec_allocated_def Let_def volumes.settles_twice tolerations.settles spread.settles
        PodContainers_settles [OF initContainers_wf [OF assms(1)]] PodContainers_settles_twice [OF sidecars_wf [OF assms(1,2)]]
        split: option.split)
qed

lemma updated_pod_settles:
  assumes "spec_wf spec" "tabletContainers lib spec img = Some cs" "matches_by_id lib"
  shows "pod_allocated (updated_pod lib spec cs (updated_pod lib spec cs obj)) = pod_allocated (updated_pod lib spec cs obj)"
proof -
  have "gomap_wf (sp_Labels spec)" "gomap_wf (sp_ExtraLabels spec)" "gomap_wf (sp_Annotations spec)"
    using assms(1) by (simp_all add: spec_wf_def)
  moreover have "gomap_wf (tabletAnnotations spec)" by (simp add: tabletAnnotations_def lazy_merge_wf)
  ultimately show ?thesis
    using update_pod_spec_settles [OF assms]
    by (simp add: pod_allocated_def updated_pod_def Let_def Labels_def Annotations_def StringMap_eq map_add_twice map_add_thrice
        del: map_add_upd map_add_empty)
qed

lemma UpdatePodInPlace_updated:
  assumes "spec_wf spec" "labels_agree spec"
  shows "UpdatePodInPlace spec (updated_pod lib spec cs obj) = updated_pod lib spec cs obj"
proof -
  have wf: "gomap_wf (sp_Labels spec)" "gomap_wf (sp_ExtraLabels spec)" using assms(1) by (simp_all add: spec_wf_def)
  have "(m ++ map_of (sp_Labels spec) ++ map_of (sp_ExtraLabels spec)) ++ map_of (sp_Labels spec) =
      m ++ map_of (sp_Labels spec) ++ map_of (sp_ExtraLabels spec)" for m
    using assms(2) by (fastforce simp: labels_agree_def fun_eq_iff map_add_def split: option.split)
  then show ?thesis by (simp add: UpdatePodInPlace_def updated_pod_def Let_def Labels_def StringMap_eq wf)
qed

text \<open>C24: A tablet Pod that was brought up to date stays as it is: the in-place step of the next pass leaves it alone, and the Pod
  that a rolling update would then give is the same, in whatever order the pass visits the maps, so that it schedules no
  update.  The same means equal, but for a resource list of a container that is nil instead of empty.  It holds for specs whose
  user labels do not contradict the operator's, whose user flags stay different without their leading dashes, and which obey
  Kubernetes in giving the containers different names and the mounts of a container different paths; tolerations match by
  key, effect, operator and value, as the library documents.\<close>

theorem UpdatePod_settles:
  assumes "UpdatePod lib spec obj = Some pod" "spec_wf spec" "labels_agree spec" "matches_by_id lib"
    and "visits (tl_visit lib)" "visits visit"
  shows "UpdatePodInPlace spec pod = pod
    \<and> (\<exists>pod'. UpdatePod (revisit visit lib) spec pod = Some pod' \<and> pod_allocated pod' = pod_allocated pod)"
proof -
  obtain img cs where img: "ki_Mysqld (sp_Images spec) = Some img" and cs: "tabletContainers lib spec img = Some cs"
    and pod: "pod = updated_pod lib spec cs obj"
    using assms(1) by (elim UpdatePod_parts) simp
  have "UpdatePod (revisit visit lib) spec pod = Some (updated_pod lib spec cs pod)"
    using img cs tabletContainers_revisit [OF assms(2,5,6)] by (simp add: UpdatePod_def updated_pod_revisit)
  then show ?thesis
    using updated_pod_settles [OF assms(2) cs assms(4)] UpdatePodInPlace_updated [OF assms(2,3)] by (simp add: pod)
qed

text \<open>The user's labels are applied after the operator's by one step and not at all by the other, so a label the user sets to
  another value than the operator never settles: whatever the Pod is, the in-place step followed by the rolling step
  changes it, and a rolling recreation stays due for ever.\<close>

theorem contradicting_labels_never_settle:
  assumes "map_of (sp_Labels spec) k = Some v" "map_of (sp_ExtraLabels spec) k = Some w" "v \<noteq> w"
    and "gomap_wf (sp_Labels spec)" "gomap_wf (sp_ExtraLabels spec)"
  shows "UpdatePod lib spec (UpdatePodInPlace spec pod) \<noteq> Some (UpdatePodInPlace spec pod)"
proof
  assume "UpdatePod lib spec (UpdatePodInPlace spec pod) = Some (UpdatePodInPlace spec pod)"
  then obtain cs where eq: "updated_pod lib spec cs (UpdatePodInPlace spec pod) = UpdatePodInPlace spec pod"
    by (elim UpdatePod_parts) (metis that)
  have "ko_labels (updated_pod lib spec cs (UpdatePodInPlace spec pod)) k = ko_labels (UpdatePodInPlace spec pod) k"
    by (simp only: eq)
  then show False
    using assms by (simp add: updated_pod_def Let_def UpdatePodInPlace_def Labels_def StringMap_eq)
qed

section \<open>The user's flags\<close>

text \<open>C25: The user's flags win: for every flag he sets, with or without leading dashes, the arguments of the vttablet container
  give that flag his value, once, whatever the operator had computed for it; the one exception is the
  MySQL version, which is that of the MySQL image whenever the image has one, and overrides even the user's.\<close>

theorem user_flags_win:
  assumes "vttabletContainer lib spec img = Some c" "user_flags_ok (vt_extraFlags (sp_Vttablet spec))" "visits (tl_visit lib)"
  shows "\<exists>f. c_args c = FormatArgs f \<and> gomap_wf f
    \<and> (\<forall>(k, v) \<in> set (vt_extraFlags (sp_Vttablet spec)).
         trim_flag k \<noteq> ''mysql_server_version'' \<or> dockerImageGetVersionToString (tl_conv_ok lib) (MysqldImage_Image img) = None
         \<longrightarrow> map_of f (trim_flag k) = Some (FString v) \<and> flag_arg (trim_flag k) v \<in> set (c_args c))
    \<and> (\<forall>version. dockerImageGetVersionToString (tl_conv_ok lib) (MysqldImage_Image img) = Some version
         \<longrightarrow> map_of f ''mysql_server_version'' = Some (FString version))"
proof -
  let ?extra = "vt_extraFlags (sp_Vttablet spec)"
  obtain f0 where f0: "vttabletFlags spec = Some f0"
    and args: "c_args c = FormatArgs (fst (UpdateMySQLServerVersion (tl_conv_ok lib)
      (default_restore_path (user_flags (range_of (tl_visit lib) 0 ?extra) f0)) (MysqldImage_Image img)))" (is "_ = FormatArgs ?f")
    using assms(1) by (auto simp: vttabletContainer_def vttabletAllFlags_def new_container_def)
  have wf: "gomap_wf ?f"
    by (intro UpdateMySQLServerVersion_facts default_restore_path_facts user_flags_wf vttabletFlags_wf [OF f0])
  have keys: "gomap_wf (map (\<lambda>(k, v). (trim_flag k, FString v)) ?extra)"
    using assms(2) by (simp only: trimmed_keys user_flags_ok_def)
  have user: "map_of ?f (trim_flag k) = Some (FString v)"
    if "(k, v) \<in> set ?extra" "trim_flag k \<noteq> ''mysql_server_version''
      \<or> dockerImageGetVersionToString (tl_conv_ok lib) (MysqldImage_Image img) = None" for k v
  proof -
    have "map_of (map (\<lambda>(k, v). (trim_flag k, FString v)) ?extra) (trim_flag k) = Some (FString v)"
      using that(1) by (intro map_of_is_SomeI [OF keys]) (force simp: image_iff)
    then have "map_of (user_flags (range_of (tl_visit lib) 0 ?extra) f0) (trim_flag k) = Some (FString v)"
      by (simp add: map_of_user_flags_range [OF assms(2,3)] map_of_user_flags [OF assms(2)])
    with that(2) show ?thesis
      by (auto simp: UpdateMySQLServerVersion_def default_restore_path_def split: option.split)
  qed
  have member: "flag_arg key v \<in> set (FormatArgs ?f)" if "map_of ?f key = Some (FString v)" for key v
  proof -
    have "key \<in> set (sorted_keys ?f)" using that by auto
    then show ?thesis using that by (force simp: FormatArgs_def image_iff)
  qed
  have "map_of ?f ''mysql_server_version'' = Some (FString version)"
    if "dockerImageGetVersionToString (tl_conv_ok lib) (MysqldImage_Image img) = Some version" for version
    using that by (simp add: UpdateMySQLServerVersion_def)
  then show ?thesis unfolding args using wf user member by blast
qed

section \<open>An example\<close>

text \<open>A tablet with a local MySQL, a volume claim and a flag of the user.\<close>

definition example_lib :: tablet_lib where
  "example_lib = \<lparr>tl_RunAsUser = 999, tl_FSGroup = 999, tl_PriorityClass = ''vitess'', tl_ServiceAccount = [],
     tl_visit = (\<lambda>n ks. ks), tl_conv_ok = (\<lambda>v. True), tl_storage_String = (\<lambda>p. ''1Gi''),
     tl_MatchToleration = (\<lambda>a b. toleration_id a = toleration_id b), tl_LabelSelectorAsMap = (\<lambda>s. Some None),
     tl_AliasString = fst\<rparr>"

definition example_image :: MysqldImage where
  "example_image = \<lparr>mi_Mysql56Compatible = [], mi_Mysql80Compatible = ''mysql:8.0.40'', mi_MariadbCompatible = [],
     mi_Mariadb103Compatible = []\<rparr>"

definition example_tablet :: "(string, string) gomap \<Rightarrow> TabletSpec" where
  "example_tablet extraLabels = \<lparr>sp_Alias = (''zone1'', 7), sp_AliasStr = ''zone1-0000000007'', sp_Type = ''replica'', sp_Zone = [],
     sp_Labels = [(ComponentLabel, ''vttablet'')],
     sp_Images = \<lparr>ki_Vttablet = ''vt'', ki_Vtorc = ''vt'', ki_Vtbackup = ''vt'', ki_Mysqld = Some example_image, ki_MysqldExporter = []\<rparr>,
     sp_ImagePullPolicies = no_pull_policies, sp_ImagePullSecrets = [], sp_Index = 1, sp_KeyRange = VitessKeyRange [] [],
     sp_KeyspaceName = ''commerce'', sp_DatabaseName = [],
     sp_Vttablet = \<lparr>vt_resources = \<lparr>limits = None, requests = None\<rparr>, vt_extraFlags = [(''--port'', ''1'')],
       vt_vtbackupExtraFlags = [], vt_lifecycle = [], vt_terminationGracePeriod = None\<rparr>,
     sp_Mysqld = Some \<lparr>my_resources = \<lparr>limits = None, requests = None\<rparr>, my_configOverrides = []\<rparr>,
     sp_MysqldExporter = None, sp_ExternalDatastore = None,
     sp_DataVolumePVCSpec = Some \<lparr>pvc_requests = Some [''storage'' \<mapsto> 1], pvc_rest = []\<rparr>, sp_DataVolumePVCName = ''pod'',
     sp_GlobalLockserver = \<lparr>Implementation = ''etcd2'', Address = ''etcd'', RootPath = ''/vitess''\<rparr>,
     sp_DatabaseInitScriptSecret = \<lparr>sec_Name = ''init'', sec_VolumeName = [], sec_Key = ''init.sql''\<rparr>,
     sp_Annotations = [], sp_ExtraLabels = extraLabels, sp_BackupLocation = None, sp_BackupEngine = [], sp_Affinity = None,
     sp_ExtraEnv = [], sp_ExtraVolumes = [], sp_ExtraVolumeMounts = [], sp_InitContainers = [], sp_SidecarContainers = [],
     sp_Tolerations = [], sp_TopologySpreadConstraints = []\<rparr>"

lemma example_tablet_facts:
  "sp_BackupLocation (example_tablet l) = None" "sp_ExternalDatastore (example_tablet l) = None"
  "sp_Images (example_tablet l) = \<lparr>ki_Vttablet = ''vt'', ki_Vtorc = ''vt'', ki_Vtbackup = ''vt'', ki_Mysqld = Some example_image,
     ki_MysqldExporter = []\<rparr>"
  "sp_ExtraLabels (example_tablet l) = l" "sp_Labels (example_tablet l) = [(ComponentLabel, ''vttablet'')]"
  "sp_ExtraVolumes (example_tablet l) = []" "sp_ExtraVolumeMounts (example_tablet l) = []"
  "sp_DatabaseInitScriptSecret (example_tablet l) = \<lparr>sec_Name = ''init'', sec_VolumeName = [], sec_Key = ''init.sql''\<rparr>"
  "vt_extraFlags (sp_Vttablet (example_tablet l)) = [(''--port'', ''1'')]"
  by (simp_all add: example_tablet_def)

lemma example_containers: "\<exists>cs. tabletContainers example_lib (example_tablet l) example_image = Some cs"
proof -
  have "tabletContainers example_lib (example_tablet l) example_image \<noteq> None"
    unfolding tabletContainers_None backupFlags_None by (simp add: example_tablet_facts)
  then show ?thesis by simp
qed

lemma example_UpdatePod: "\<exists>pod. UpdatePod example_lib (example_tablet l) obj = Some pod"
  using example_containers [of l] by (auto simp: UpdatePod_def example_tablet_facts)

lemma example_volumes: "map vol_name (tabletVolumes (example_tablet l)) = [''vt-root'', ''persistent-volume-claim'', ''db-init-script-secret'']"
  by (simp add: tabletVolumes_def lazy_concat_def backupVolumes_def backup_target_def datastoreVolumes_def rootVolumes_def
      overridesVolumes_def config_overrides_def dataVolumes_def secretVolumes_def dbInitScript_def secret_Mount_def PodVolumes_def
      VolumeName_def vtRootVolumeName_def pvcVolumeName_def dbInitScriptDirName_def example_tablet_def)

lemma example_lib_facts: "visits (tl_visit example_lib)" "matches_by_id example_lib"
  by (simp_all add: example_lib_def visits_def matches_by_id_def)

lemma visits_rev: "visits (\<lambda>n. rev)"
  by (simp add: visits_def)

text \<open>A tablet of a user with a sidecar without resources, and with two spread constraints for the same Pods.\<close>

definition example_crowd :: TabletSpec where
  "example_crowd = (example_tablet [])\<lparr>
     sp_SidecarContainers := [example_container ''proxy''\<lparr>c_resources := \<lparr>limits = None, requests = None\<rparr>\<rparr>],
     sp_TopologySpreadConstraints := map (\<lambda>k. \<lparr>tsc_maxSkew = 1, tsc_topologyKey = k, tsc_whenUnsatisfiable = ''DoNotSchedule'',
       tsc_labelSelector = [], tsc_rest = []\<rparr>) [''zone'', ''host'']\<rparr>"

lemma example_crowd_facts: "spec_wf example_crowd" "labels_agree example_crowd" "\<exists>pod. UpdatePod example_lib example_crowd obj = Some pod"
proof -
  show "spec_wf example_crowd"
    by (simp add: spec_wf_def example_crowd_def example_tablet_def user_flags_ok_def example_container_def)
  show "labels_agree example_crowd"
    by (simp add: labels_agree_def example_crowd_def example_tablet_facts)
  have "tabletContainers example_lib example_crowd example_image \<noteq> None"
    unfolding tabletContainers_None backupFlags_None by (simp add: example_crowd_def example_tablet_facts)
  then show "\<exists>pod. UpdatePod example_lib example_crowd obj = Some pod"
    by (auto simp: UpdatePod_def example_crowd_def example_tablet_facts)
qed

theorem new_pod_mounts_witness:
  "\<exists>pod. NewPod example_lib (''ns'', ''pod'') (example_tablet []) = Some pod \<and> mounts_have_volumes (example_tablet []) pod"
proof -
  have "mounts_provided (example_tablet [])"
    by (simp add: mounts_provided_def spec_secrets_def example_tablet_facts secret_provided_def)
  from new_pod_mounts [OF this, of example_lib "(''ns'', ''pod'')" "[]"] show ?thesis
    using example_UpdatePod [of "[]" "empty_pod (''ns'', ''pod'')"] by (auto simp: NewPod_def)
qed

theorem UpdatePod_settles_witness:
  "\<exists>pod pod'. NewPod example_lib (''ns'', ''pod'') example_crowd = Some pod
     \<and> UpdatePod (revisit (\<lambda>n. rev) example_lib) example_crowd pod = Some pod' \<and> pod_allocated pod' = pod_allocated pod"
proof -
  obtain pod where pod: "UpdatePod example_lib example_crowd (empty_pod (''ns'', ''pod'')) = Some pod"
    using example_crowd_facts(3) by blast
  from UpdatePod_settles [OF pod example_crowd_facts(1,2) example_lib_facts(2) example_lib_facts(1) visits_rev] pod
  show ?thesis by (auto simp: NewPod_def)
qed

theorem contradicting_labels_never_settle_witness:
  "UpdatePod example_lib (example_tablet [(ComponentLabel, ''mine'')])
       (UpdatePodInPlace (example_tablet [(ComponentLabel, ''mine'')]) (empty_pod (''ns'', ''pod'')))
     \<noteq> Some (UpdatePodInPlace (example_tablet [(ComponentLabel, ''mine'')]) (empty_pod (''ns'', ''pod'')))"
  by (rule contradicting_labels_never_settle [of _ ComponentLabel "''vttablet''" "''mine''"]) (simp_all add: example_tablet_facts)

theorem user_flags_win_witness:
  "\<exists>c. vttabletContainer example_lib (example_tablet []) example_image = Some c \<and> flag_arg ''port'' ''1'' \<in> set (c_args c)"
proof -
  obtain c where c: "vttabletContainer example_lib (example_tablet []) example_image = Some c"
    using example_containers [of "[]"] by (auto simp: tabletContainers_def split: option.splits)
  have "user_flags_ok (vt_extraFlags (sp_Vttablet (example_tablet [])))"
    by (simp add: example_tablet_facts user_flags_ok_def)
  from user_flags_win [OF c this example_lib_facts(1)] have "flag_arg ''port'' ''1'' \<in> set (c_args c)"
    by (auto simp: example_tablet_facts trim_flag_def)
  with c show ?thesis by blast
qed

end
