(* ===== verification/Backup_Job.thy ===== *)
theory Backup_Job
  imports Tablet_Pod_Laws
begin

text \<open>
  The initial backup of a shard, \<open>pkg/controller/vitessshard/reconcile_backup_job.go\<close>, with the parts of
  \<open>pkg/operator/vitessbackup/object.go\<close> and \<open>pkg/operator/vttablet/pvc.go\<close> it uses.

  The Pod and its volume claim go through \<open>ReconcileObjectSet\<close>, so a pass is two of its traces and
  the status the hooks leave.  \<open>NewBackupPod\<close> of \<open>Tablet_Pod\<close> builds the Pod from the \<open>vttablet.Spec\<close> composed here.
\<close>

section \<open>Backups\<close>

record vitess_backup =
  vbk_Labels :: "string \<rightharpoonup> string"
  vbk_Complete :: bool
  vbk_StartTime :: int

definition LocationLabel :: string where "LocationLabel = ''backup.planetscale.com/location''"
definition TypeLabel :: string where "TypeLabel = ''backup.planetscale.com/type''"
definition TypeInit :: string where "TypeInit = ''init''"
definition TypeUpdate :: string where "TypeUpdate = ''update''"

definition backup_location_of :: "vitess_backup \<Rightarrow> string" where
  "backup_location_of backup = (case vbk_Labels backup LocationLabel of None \<Rightarrow> [] | Some l \<Rightarrow> l)"

definition getCompleteBackups :: "vitess_backup list \<Rightarrow> vitess_backup list" where
  "getCompleteBackups backups = filter vbk_Complete backups"

text \<open>The listing is by label selector; its answer is the argument.\<close>

definition GetBackups :: "string + vitess_backup list \<Rightarrow> string + (vitess_backup list \<times> vitess_backup list)" where
  "GetBackups listed =
     (case listed of Inl err \<Rightarrow> Inl err | Inr allBackups \<Rightarrow> Inr (allBackups, getCompleteBackups allBackups))"

definition LatestForLocation :: "string \<Rightarrow> vitess_backup list \<Rightarrow> vitess_backup option" where
  "LatestForLocation locationName backups =
     fold (\<lambda>backup latest.
         if backup_location_of backup \<noteq> locationName then latest
         else (case latest of
                 None \<Rightarrow> Some backup
               | Some l \<Rightarrow> if vbk_StartTime backup > vbk_StartTime l then Some backup else latest))
       backups None"

section \<open>Status of the locations\<close>

record location_status =
  ls_Name :: string
  ls_CompleteBackups :: "32 word"
  ls_IncompleteBackups :: "32 word"
  ls_LatestCompleteBackupTime :: "int option"

definition NewShardBackupLocationStatus :: "string \<Rightarrow> location_status" where
  "NewShardBackupLocationStatus name =
     \<lparr>ls_Name = name, ls_CompleteBackups = 0, ls_IncompleteBackups = 0, ls_LatestCompleteBackupTime = None\<rparr>"

text \<open>
  The map from names to pointers, as positions in the status list: a name that occurs twice stands for its
  last position.
\<close>

fun location_index :: "string \<Rightarrow> location_status list \<Rightarrow> nat option" where
  "location_index name [] = None"
| "location_index name (l # ls) =
     (case location_index name ls of
        Some i \<Rightarrow> Some (Suc i)
      | None \<Rightarrow> if ls_Name l = name then Some 0 else None)"

definition count_backup :: "vitess_backup \<Rightarrow> location_status \<Rightarrow> location_status" where
  "count_backup backup location =
     (if vbk_Complete backup
      then let location = location\<lparr>ls_CompleteBackups := ls_CompleteBackups location + 1\<rparr>
           in if (case ls_LatestCompleteBackupTime location of None \<Rightarrow> True | Some t \<Rightarrow> vbk_StartTime backup > t)
              then location\<lparr>ls_LatestCompleteBackupTime := Some (vbk_StartTime backup)\<rparr> else location
      else location\<lparr>ls_IncompleteBackups := ls_IncompleteBackups location + 1\<rparr>)"

definition report_backup :: "vitess_backup \<Rightarrow> location_status list \<Rightarrow> location_status list" where
  "report_backup backup ls =
     (case location_index (backup_location_of backup) ls of
        None \<Rightarrow> ls
      | Some i \<Rightarrow> ls[i := count_backup backup (ls ! i)])"

definition updateBackupStatus :: "backup_location list \<Rightarrow> vitess_backup list \<Rightarrow> location_status list" where
  "updateBackupStatus locations allBackups =
     (if locations = [] then []
      else fold report_backup allBackups (map (\<lambda>l. NewShardBackupLocationStatus (bl_Name l)) locations))"

section \<open>The spec of a vtbackup Pod\<close>

text \<open>The shard as far as the job looks at it: its labels, spec and status.\<close>

record backup_shard =
  bsh_Namespace :: string
  bsh_Labels :: "string \<rightharpoonup> string"
  bsh_Spec :: tablet_shard_spec
  bsh_Status :: shard_status

definition bsh_label :: "string \<Rightarrow> backup_shard \<Rightarrow> string" where
  "bsh_label k vts = (case bsh_Labels vts k of None \<Rightarrow> [] | Some v \<Rightarrow> v)"

abbreviation map_entries :: "(string \<rightharpoonup> string) option \<Rightarrow> string \<rightharpoonup> string" where
  "map_entries m \<equiv> (case m of None \<Rightarrow> Map.empty | Some x \<Rightarrow> x)"

text \<open>
  The tablet spec of a backup job: \<open>Alias\<close>, \<open>Type\<close>, \<open>Zone\<close>, \<open>Index\<close>, the pull policies, the external datastore, the
  extra labels and the spread constraints are not set.
\<close>

definition vtbackup_tablet_spec ::
    "object_key \<Rightarrow> backup_shard \<Rightarrow> (string, string) gomap \<Rightarrow> tablet_pool \<Rightarrow> backup_location \<Rightarrow> TabletSpec"
where
  "vtbackup_tablet_spec key vts labels pool backupLocation =
     (let spec = bsh_Spec vts
      in \<lparr>sp_Alias = ([], 0), sp_AliasStr = [], sp_Type = [], sp_Zone = [], sp_Labels = labels, sp_Images = ss_Images spec,
          sp_ImagePullPolicies = no_pull_policies, sp_ImagePullSecrets = ss_ImagePullSecrets spec, sp_Index = 0,
          sp_KeyRange = ss_KeyRange spec, sp_KeyspaceName = bsh_label KeyspaceLabel vts,
          sp_DatabaseName = ss_DatabaseName spec, sp_Vttablet = tp_Vttablet pool, sp_Mysqld = tp_Mysqld pool,
          sp_MysqldExporter = tp_MysqldExporter pool, sp_ExternalDatastore = None,
          sp_DataVolumePVCSpec = tp_DataVolumeClaimTemplate pool, sp_DataVolumePVCName = snd key,
          sp_GlobalLockserver = ss_GlobalLockserver spec, sp_DatabaseInitScriptSecret = st_DatabaseInitScriptSecret spec,
          sp_Annotations = set_entries (bl_Annotations backupLocation) (set_entries (tp_Annotations pool) []),
          sp_ExtraLabels = [], sp_BackupLocation = Some backupLocation, sp_BackupEngine = ss_BackupEngine spec,
          sp_Affinity = tp_Affinity pool, sp_ExtraEnv = tp_ExtraEnv pool, sp_ExtraVolumes = tp_ExtraVolumes pool,
          sp_ExtraVolumeMounts = tp_ExtraVolumeMounts pool, sp_InitContainers = tp_InitContainers pool,
          sp_SidecarContainers = tp_SidecarContainers pool, sp_Tolerations = tp_Tolerations pool,
          sp_TopologySpreadConstraints = []\<rparr>)"

definition vtbackupSpec ::
    "object_key \<Rightarrow> backup_shard \<Rightarrow> (string, string) gomap \<Rightarrow> tablet_pool \<Rightarrow> string \<Rightarrow> BackupSpec option"
where
  "vtbackupSpec key vts parentLabels pool backupType =
     (case BackupLocation (bsh_Spec vts) (tp_BackupLocationName pool) of
        None \<Rightarrow> None
      | Some backupLocation \<Rightarrow>
          (let labels = set_entries parentLabels [(LocationLabel, bl_Name backupLocation), (TypeLabel, backupType)]
           in Some \<lparr>bsp_TabletSpec = vtbackup_tablet_spec key vts labels pool backupLocation,
                bsp_InitialBackup = (backupType = TypeInit), bsp_MinBackupInterval = 0, bsp_MinRetentionTime = 0,
                bsp_MinRetentionCount = 1\<rparr>))"

text \<open>\<open>*vts.Spec.Replication.InitializeBackup\<close> panics on nil: \<open>None\<close>; \<open>Some None\<close> is a nil spec.\<close>

definition MakeVtbackupSpec ::
    "object_key \<Rightarrow> backup_shard \<Rightarrow> (string, string) gomap \<Rightarrow> string \<Rightarrow> BackupSpec option option"
where
  "MakeVtbackupSpec key vts parentLabels typ =
     (case rs_InitializeBackup (st_Replication (bsh_Spec vts)) of
        None \<Rightarrow> None
      | Some False \<Rightarrow> Some None
      | Some True \<Rightarrow>
          (case st_TabletPools (bsh_Spec vts) of
             [] \<Rightarrow> Some None
           | pool # _ \<Rightarrow> Some (vtbackupSpec key vts parentLabels pool typ)))"

section \<open>The pass\<close>

record backup_job_env =
  bj_list_backups :: "string + vitess_backup list"
  bj_pvcs :: "(pvc_body, string) kube_env"
  bj_pods :: "(tablet_pod_body, string) kube_env"
  bj_lib :: tablet_lib

datatype backup_effect = PvcEffect "pvc_body kube_effect" | PodEffect "tablet_pod_body kube_effect"

definition empty_pvc :: "object_key \<Rightarrow> pvc_kobj" where
  "empty_pvc key =
     \<lparr>annotations = None, ko_key = key, ko_labels = Map.empty, ko_UID = [], ko_deleting = False, ko_evictable = False,
      ko_body = \<lparr>pvb_Spec = \<lparr>pvc_requests = None, pvc_rest = []\<rparr>, pvb_Phase = [], pvb_Conditions = []\<rparr>\<rparr>"

text \<open>The hooks are total: where the code panics they give an empty object, and \<open>backup_panics\<close> says when that is.\<close>

definition new_backup_pvc :: "BackupSpec option \<Rightarrow> object_key \<Rightarrow> pvc_kobj option" where
  "new_backup_pvc spec key = (case spec of None \<Rightarrow> None | Some sp \<Rightarrow> NewPVC key (bsp_TabletSpec sp))"

definition shard_mysqld_image :: "backup_shard \<Rightarrow> string" where
  "shard_mysqld_image vts = (case ki_Mysqld (ss_Images (bsh_Spec vts)) of None \<Rightarrow> [] | Some img \<Rightarrow> MysqldImage_Image img)"

definition new_backup_pod :: "backup_job_env \<Rightarrow> backup_shard \<Rightarrow> BackupSpec option \<Rightarrow> object_key \<Rightarrow> tablet_pod option" where
  "new_backup_pod env vts spec key = NewBackupPod (bj_lib env) key spec (shard_mysqld_image vts)"

definition backup_pvc_strategy :: "backup_job_env \<Rightarrow> BackupSpec option \<Rightarrow> pvc_body strategy" where
  "backup_pvc_strategy env spec =
     \<lparr>New = (\<lambda>key. case new_backup_pvc spec key of None \<Rightarrow> empty_pvc key | Some pvc \<Rightarrow> pvc),
      UpdateInPlace = None, UpdateRollingInPlace = None, UpdateRecreate = None, UpdateRollingRecreate = None,
      has_Status = False, has_OrphanStatus = False,
      PrepareForTurndown = Some (\<lambda>key obj.
        (obj, if kget (bj_pods env) key \<noteq> NotFound
              then Some \<lparr>os_Reason = ''BackupRunning'',
                os_Message = ''Not deleting vtbackup PVC because vtbackup Pod still exists''\<rparr>
              else None))\<rparr>"

definition backup_pod_strategy :: "backup_job_env \<Rightarrow> backup_shard \<Rightarrow> BackupSpec option \<Rightarrow> tablet_pod_body strategy" where
  "backup_pod_strategy env vts spec =
     \<lparr>New = (\<lambda>key. case new_backup_pod env vts spec key of None \<Rightarrow> empty_pod key | Some pod \<Rightarrow> pod),
      UpdateInPlace = None, UpdateRollingInPlace = None, UpdateRecreate = None, UpdateRollingRecreate = None,
      has_Status = True, has_OrphanStatus = False,
      PrepareForTurndown = Some (\<lambda>key obj.
        (obj, if tpb_Phase (ko_body obj) = ''Running''
              then Some \<lparr>os_Reason = ''BackupRunning'',
                os_Message = ''Not deleting vtbackup Pod while it's still running''\<rparr>
              else None))\<rparr>"

text \<open>The Status hook, for each call the set reconciler makes of it.\<close>

fun backup_status_hook :: "object_key \<Rightarrow> tablet_pod_body kube_effect \<Rightarrow> cond_status \<Rightarrow> cond_status" where
  "backup_status_hook initPodKey (CallStatus key pod) st =
     (if key = initPodKey then
        (if tpb_Phase (ko_body pod) = ''Succeeded'' then CondTrue
         else if tpb_Phase (ko_body pod) = ''Failed'' then CondFalse else st)
      else st)"
| "backup_status_hook initPodKey _ st = st"

definition backup_labels :: "backup_shard \<Rightarrow> (string, string) gomap" where
  "backup_labels vts =
     [(ComponentLabel, VtbackupComponentName), (ClusterLabel, bsh_label ClusterLabel vts),
      (KeyspaceLabel, bsh_label KeyspaceLabel vts), (ShardLabel, KeyRange_SafeName (ss_KeyRange (bsh_Spec vts))),
      (TypeLabel, TypeInit)]"

type_synonym backup_job_result =
  "backup_effect list \<times> cond_status \<times> location_status list \<times> reconcile_result \<times> string option"

text \<open>Both sets are reconciled, whatever errors the first one has.\<close>

definition reconcile_backup_objects ::
    "backup_job_env \<Rightarrow> backup_shard \<Rightarrow> object_key \<Rightarrow> BackupSpec option \<Rightarrow> cond_status \<Rightarrow> location_status list \<Rightarrow> backup_job_result"
where
  "reconcile_backup_objects env vts initPodKey spec hasInitialBackup locations =
     (let podKeys = (case spec of None \<Rightarrow> [] | Some _ \<Rightarrow> [initPodKey]);
          pvcKeys = (case spec of None \<Rightarrow> []
                     | Some sp \<Rightarrow> if sp_DataVolumePVCSpec (bsp_TabletSpec sp) \<noteq> None then [initPodKey] else []);
          (pvcEffects, pvcErr) = ReconcileObjectSet (bj_pvcs env) (backup_pvc_strategy env spec) (backup_labels vts) pvcKeys;
          b = (if pvcErr \<noteq> None then builder_Error pvcErr empty_builder else empty_builder);
          (podEffects, podErr) = ReconcileObjectSet (bj_pods env) (backup_pod_strategy env vts spec) (backup_labels vts) podKeys;
          b = (if podErr \<noteq> None then builder_Error podErr b else b)
      in (map PvcEffect pvcEffects @ map PodEffect podEffects,
          fold (backup_status_hook initPodKey) podEffects hasInitialBackup, locations, builder_Result b))"

text \<open>A hook panicked: a Pod or a claim was asked for that cannot be built.\<close>

definition backup_panics :: "backup_job_env \<Rightarrow> backup_shard \<Rightarrow> BackupSpec option \<Rightarrow> backup_effect list \<Rightarrow> bool" where
  "backup_panics env vts spec es =
     list_ex (\<lambda>e. case e of
         PodEffect (CallNew key) \<Rightarrow> new_backup_pod env vts spec key = None
       | PvcEffect (CallNew key) \<Rightarrow> new_backup_pvc spec key = None
       | _ \<Rightarrow> False) es"

definition run_backup_objects ::
    "backup_job_env \<Rightarrow> backup_shard \<Rightarrow> object_key \<Rightarrow> BackupSpec option \<Rightarrow> cond_status \<Rightarrow> location_status list
     \<Rightarrow> backup_job_result option"
where
  "run_backup_objects env vts initPodKey spec hasInitialBackup locations =
     (let r = reconcile_backup_objects env vts initPodKey spec hasInitialBackup locations
      in if backup_panics env vts spec (fst r) then None else Some r)"

definition reconcileBackupJob :: "backup_job_env \<Rightarrow> backup_shard \<Rightarrow> backup_job_result option" where
  "reconcileBackupJob env vts =
     (let status = sh_HasInitialBackup (bsh_Status vts)
      in if UsingExternalDatastore (bsh_Spec vts) \<or> \<not> AllPoolsUsingMysqld (bsh_Spec vts)
         then Some ([], status, [], builder_Result empty_builder)
         else (case GetBackups (bj_list_backups env) of
             Inl err \<Rightarrow> Some ([], status, [], builder_Result (builder_Error (Some err) empty_builder))
           | Inr (allBackups, completeBackups) \<Rightarrow>
               (let locations = updateBackupStatus (ss_BackupLocations (bsh_Spec vts)) allBackups
                in case InitialBackupPodName (bsh_label ClusterLabel vts) (bsh_label KeyspaceLabel vts)
                          (ss_KeyRange (bsh_Spec vts)) of
                     None \<Rightarrow> None
                   | Some initPodName \<Rightarrow>
                       (let initPodKey = (bsh_Namespace vts, initPodName)
                        in if completeBackups = [] \<and> sh_HasMaster (bsh_Status vts) \<noteq> CondTrue
                           then (case MakeVtbackupSpec initPodKey vts (backup_labels vts) TypeInit of
                                   None \<Rightarrow> None
                                 | Some spec \<Rightarrow> run_backup_objects env vts initPodKey spec status locations)
                           else run_backup_objects env vts initPodKey None CondTrue locations))))"

section \<open>What a pass creates and deletes\<close>

lemma backup_strategies:
  "UpdateRecreate (backup_pvc_strategy env spec) = None" "UpdateRollingRecreate (backup_pvc_strategy env spec) = None"
  "UpdateRecreate (backup_pod_strategy env vts spec) = None" "UpdateRollingRecreate (backup_pod_strategy env vts spec) = None"
  by (simp_all add: backup_pvc_strategy_def backup_pod_strategy_def)

lemma backup_pvc_deleted:
  assumes "may_delete kenv (backup_pvc_strategy env spec) labels key wanted obj"
  shows "kget kenv key = Found obj \<and> (ko_evictable obj \<or> hasMatchingLabels obj labels \<and> \<not> wanted \<and> kget (bj_pods env) key = NotFound)"
  using assms by (auto simp: may_delete_def backup_strategies split: if_splits) (auto simp: backup_pvc_strategy_def split: if_splits)

lemma backup_pod_deleted:
  assumes "may_delete kenv (backup_pod_strategy env vts spec) labels key wanted obj"
  shows "kget kenv key = Found obj
    \<and> (ko_evictable obj \<or> hasMatchingLabels obj labels \<and> \<not> wanted \<and> tpb_Phase (ko_body obj) \<noteq> ''Running'')"
  using assms by (auto simp: may_delete_def backup_strategies split: if_splits) (auto simp: backup_pod_strategy_def split: if_splits)

definition initial_backup_due :: "backup_job_env \<Rightarrow> backup_shard \<Rightarrow> bool" where
  "initial_backup_due env vts \<longleftrightarrow>
     \<not> UsingExternalDatastore (bsh_Spec vts) \<and> AllPoolsUsingMysqld (bsh_Spec vts)
     \<and> (\<exists>backups. bj_list_backups env = Inr backups \<and> (\<forall>b \<in> set backups. \<not> vbk_Complete b))
     \<and> sh_HasMaster (bsh_Status vts) \<noteq> CondTrue \<and> rs_InitializeBackup (st_Replication (bsh_Spec vts)) = Some True
     \<and> (\<exists>pool rest. st_TabletPools (bsh_Spec vts) = pool # rest
          \<and> BackupLocation (bsh_Spec vts) (tp_BackupLocationName pool) \<noteq> None)"

lemma MakeVtbackupSpec_Some:
  "MakeVtbackupSpec key vts labels typ = Some (Some spec) \<Longrightarrow>
     rs_InitializeBackup (st_Replication (bsh_Spec vts)) = Some True
     \<and> (\<exists>pool rest. st_TabletPools (bsh_Spec vts) = pool # rest
          \<and> BackupLocation (bsh_Spec vts) (tp_BackupLocationName pool) \<noteq> None)"
  by (auto simp: MakeVtbackupSpec_def vtbackupSpec_def split: option.splits bool.splits list.splits)

text \<open>The spec of the initial backup, while it is due.\<close>

definition initial_backup_spec :: "backup_job_env \<Rightarrow> backup_shard \<Rightarrow> string \<Rightarrow> BackupSpec option" where
  "initial_backup_spec env vts name =
     (if initial_backup_due env vts
      then Option.bind (MakeVtbackupSpec (bsh_Namespace vts, name) vts (backup_labels vts) TypeInit) (\<lambda>spec. spec) else None)"

lemma initial_backup_spec_due: "initial_backup_spec env vts name \<noteq> None \<longleftrightarrow> initial_backup_due env vts"
  by (auto simp: initial_backup_spec_def initial_backup_due_def MakeVtbackupSpec_def vtbackupSpec_def Let_def)

abbreviation backup_name :: "backup_shard \<Rightarrow> string option" where
  "backup_name vts \<equiv> InitialBackupPodName (bsh_label ClusterLabel vts) (bsh_label KeyspaceLabel vts) (ss_KeyRange (bsh_Spec vts))"

definition backup_pod_keys :: "BackupSpec option \<Rightarrow> object_key \<Rightarrow> object_key list" where
  "backup_pod_keys spec key = (case spec of None \<Rightarrow> [] | Some _ \<Rightarrow> [key])"

definition backup_claim_keys :: "BackupSpec option \<Rightarrow> object_key \<Rightarrow> object_key list" where
  "backup_claim_keys spec key =
     (case spec of None \<Rightarrow> [] | Some sp \<Rightarrow> if sp_DataVolumePVCSpec (bsp_TabletSpec sp) \<noteq> None then [key] else [])"

lemma run_backup_objects_Some:
  "run_backup_objects env vts key spec st locs = Some r \<Longrightarrow>
     fst r = fst (reconcile_backup_objects env vts key spec st locs) \<and> \<not> backup_panics env vts spec (fst r)"
  by (auto simp: run_backup_objects_def Let_def split: if_splits)

text \<open>Every pass with effects reconciles the two sets, with the spec of the initial backup while that is due.\<close>

lemma reconcile_backup_objects_effects:
  "fst (reconcile_backup_objects env vts key spec st ls) =
     map PvcEffect (fst (ReconcileObjectSet (bj_pvcs env) (backup_pvc_strategy env spec) (backup_labels vts) (backup_claim_keys spec key)))
     @ map PodEffect (fst (ReconcileObjectSet (bj_pods env) (backup_pod_strategy env vts spec) (backup_labels vts)
         (backup_pod_keys spec key)))"
  by (simp add: reconcile_backup_objects_def backup_claim_keys_def backup_pod_keys_def Let_def split: prod.split)

lemma reconcileBackupJob_spec:
  assumes "reconcileBackupJob env vts = Some (es, st, ls, r)" "e \<in> set es"
  shows "\<exists>name st' ls'. backup_name vts = Some name
      \<and> es = fst (reconcile_backup_objects env vts (bsh_Namespace vts, name) (initial_backup_spec env vts name) st' ls')
      \<and> \<not> backup_panics env vts (initial_backup_spec env vts name) es"
proof -
  obtain backups name where *: "\<not> UsingExternalDatastore (bsh_Spec vts)" "AllPoolsUsingMysqld (bsh_Spec vts)"
    "bj_list_backups env = Inr backups" "backup_name vts = Some name"
    using assms by (auto simp: reconcileBackupJob_def GetBackups_def Let_def split: if_splits sum.splits option.splits)
  let ?ls = "updateBackupStatus (ss_BackupLocations (bsh_Spec vts)) backups"
  let ?need = "getCompleteBackups backups = [] \<and> sh_HasMaster (bsh_Status vts) \<noteq> CondTrue"
  have due: "initial_backup_due env vts \<longleftrightarrow> ?need \<and> rs_InitializeBackup (st_Replication (bsh_Spec vts)) = Some True
      \<and> (\<exists>pool rest. st_TabletPools (bsh_Spec vts) = pool # rest \<and> BackupLocation (bsh_Spec vts) (tp_BackupLocationName pool) \<noteq> None)"
    using *(1-3) by (simp add: initial_backup_due_def getCompleteBackups_def filter_empty_conv)
  obtain spec st' where run: "run_backup_objects env vts (bsh_Namespace vts, name) spec st' ?ls = Some (es, st, ls, r)"
    and spec: "spec = initial_backup_spec env vts name"
  proof (cases ?need)
    case True
    then obtain spec where spec: "MakeVtbackupSpec (bsh_Namespace vts, name) vts (backup_labels vts) TypeInit = Some spec"
      "run_backup_objects env vts (bsh_Namespace vts, name) spec (sh_HasInitialBackup (bsh_Status vts)) ?ls = Some (es, st, ls, r)"
      using assms(1) * by (auto simp: reconcileBackupJob_def GetBackups_def Let_def split: option.splits)
    moreover have "spec = initial_backup_spec env vts name"
      using spec(1) MakeVtbackupSpec_Some True unfolding initial_backup_spec_def due by (cases spec) auto
    ultimately show thesis using that by blast
  next
    case False
    then have "run_backup_objects env vts (bsh_Namespace vts, name) None CondTrue ?ls = Some (es, st, ls, r)"
      using assms(1) * by (auto simp: reconcileBackupJob_def GetBackups_def Let_def)
    moreover have "None = initial_backup_spec env vts name" using False by (auto simp: initial_backup_spec_def due)
    ultimately show thesis using that by blast
  qed
  from run_backup_objects_Some [OF run] show ?thesis unfolding fst_conv spec using *(4) by blast
qed

text \<open>What a pass does to Pods and claims, traced back to the set reconciler.\<close>

lemma backup_job_effects:
  assumes "reconcileBackupJob env vts = Some (es, st, ls, r)" "e \<in> set es"
  obtains name spec ce pe where "backup_name vts = Some name" "spec = initial_backup_spec env vts name"
    "ce = fst (ReconcileObjectSet (bj_pvcs env) (backup_pvc_strategy env spec) (backup_labels vts)
       (backup_claim_keys spec (bsh_Namespace vts, name)))"
    "pe = fst (ReconcileObjectSet (bj_pods env) (backup_pod_strategy env vts spec) (backup_labels vts)
       (backup_pod_keys spec (bsh_Namespace vts, name)))"
    "\<And>f. PvcEffect f \<in> set es \<longleftrightarrow> f \<in> set ce" "\<And>f. PodEffect f \<in> set es \<longleftrightarrow> f \<in> set pe"
    "\<And>k. CallNew k \<in> set ce \<Longrightarrow> new_backup_pvc spec k \<noteq> None" "\<And>k. CallNew k \<in> set pe \<Longrightarrow> new_backup_pod env vts spec k \<noteq> None"
proof -
  from reconcileBackupJob_spec [OF assms] obtain name st' ls' where name: "backup_name vts = Some name"
    and es: "es = fst (reconcile_backup_objects env vts (bsh_Namespace vts, name) (initial_backup_spec env vts name) st' ls')"
    and np: "\<not> backup_panics env vts (initial_backup_spec env vts name) es" by blast
  show thesis
  proof (rule that [OF name refl refl refl])
    fix f k
    let ?s = "initial_backup_spec env vts name" and ?k = "(bsh_Namespace vts, name)"
    let ?ce = "fst (ReconcileObjectSet (bj_pvcs env) (backup_pvc_strategy env ?s) (backup_labels vts) (backup_claim_keys ?s ?k))"
    show pvc: "PvcEffect f \<in> set es \<longleftrightarrow> f \<in> set ?ce" for f
      unfolding es reconcile_backup_objects_effects by auto
    let ?pe = "fst (ReconcileObjectSet (bj_pods env) (backup_pod_strategy env vts ?s) (backup_labels vts) (backup_pod_keys ?s ?k))"
    show pod: "PodEffect f \<in> set es \<longleftrightarrow> f \<in> set ?pe" for f
      unfolding es reconcile_backup_objects_effects by auto
    show "new_backup_pvc ?s k \<noteq> None" if "CallNew k \<in> set ?ce"
      using np that [folded pvc] by (auto simp: backup_panics_def list_ex_iff)
    show "new_backup_pod env vts ?s k \<noteq> None" if "CallNew k \<in> set ?pe"
      using np that [folded pod] by (auto simp: backup_panics_def list_ex_iff)
  qed
qed

lemma backup_pod_created:
  assumes "pe = fst (ReconcileObjectSet (bj_pods env) (backup_pod_strategy env vts spec) labels (backup_pod_keys spec key))"
    and "CreateObj pod \<in> set pe" "\<And>k. CallNew k \<in> set pe \<Longrightarrow> new_backup_pod env vts spec k \<noteq> None"
  shows "\<exists>sp built. spec = Some sp \<and> NewBackupPod (bj_lib env) key (Some sp) (shard_mysqld_image vts) = Some built
    \<and> set_owner (bj_pods env) (built\<lparr>ko_key := key\<rparr>) = Inr pod
    \<and> (kget (bj_pods env) key = NotFound \<or> (\<exists>old. kget (bj_pods env) key = Found old \<and> ko_evictable old))"
proof -
  from ReconcileObjectSet_creates [OF assms(2) [unfolded assms(1)]] obtain sp where sp: "spec = Some sp" "CallNew key \<in> set pe"
    "set_owner (bj_pods env) ((New (backup_pod_strategy env vts spec) key)\<lparr>ko_key := key\<rparr>) = Inr pod"
    "kget (bj_pods env) key = NotFound \<or> (\<exists>old. kget (bj_pods env) key = Found old \<and> ko_evictable old)"
    unfolding assms(1) by (cases spec) (auto simp: backup_pod_keys_def)
  obtain built where "new_backup_pod env vts spec key = Some built" using assms(3) [OF sp(2)] by auto
  then show ?thesis using sp by (auto simp: new_backup_pod_def backup_pod_strategy_def)
qed

lemma backup_claim_created:
  assumes "ce = fst (ReconcileObjectSet (bj_pvcs env) (backup_pvc_strategy env spec) labels (backup_claim_keys spec key))"
    and "CreateObj pvc \<in> set ce" "\<And>k. CallNew k \<in> set ce \<Longrightarrow> new_backup_pvc spec k \<noteq> None"
  shows "\<exists>sp built. spec = Some sp \<and> NewPVC key (bsp_TabletSpec sp) = Some built
    \<and> set_owner (bj_pvcs env) (built\<lparr>ko_key := key\<rparr>) = Inr pvc
    \<and> (kget (bj_pvcs env) key = NotFound \<or> (\<exists>old. kget (bj_pvcs env) key = Found old \<and> ko_evictable old))"
proof -
  from ReconcileObjectSet_creates [OF assms(2) [unfolded assms(1)]] obtain sp where sp: "spec = Some sp" "CallNew key \<in> set ce"
    "set_owner (bj_pvcs env) ((New (backup_pvc_strategy env spec) key)\<lparr>ko_key := key\<rparr>) = Inr pvc"
    "kget (bj_pvcs env) key = NotFound \<or> (\<exists>old. kget (bj_pvcs env) key = Found old \<and> ko_evictable old)"
    unfolding assms(1) by (cases spec) (auto simp: backup_claim_keys_def split: if_splits)
  obtain built where "new_backup_pvc spec key = Some built" using assms(3) [OF sp(2)] by auto
  then show ?thesis using sp by (auto simp: new_backup_pvc_def backup_pvc_strategy_def)
qed

lemma backup_pod_pass:
  assumes "reconcileBackupJob env vts = Some (es, st, ls, r)"
  shows "\<forall>pod. PodEffect (CreateObj pod) \<in> set es \<longrightarrow> initial_backup_due env vts
      \<and> (\<exists>name spec built. backup_name vts = Some name \<and> initial_backup_spec env vts name = Some spec
           \<and> NewBackupPod (bj_lib env) (bsh_Namespace vts, name) (Some spec) (shard_mysqld_image vts) = Some built
           \<and> set_owner (bj_pods env) (built\<lparr>ko_key := (bsh_Namespace vts, name)\<rparr>) = Inr pod
           \<and> (kget (bj_pods env) (bsh_Namespace vts, name) = NotFound
              \<or> (\<exists>old. kget (bj_pods env) (bsh_Namespace vts, name) = Found old \<and> ko_evictable old)))" (is "\<forall>x. _ x \<longrightarrow> ?concl x")
proof (intro allI impI)
  fix pod assume mem: "PodEffect (CreateObj pod) \<in> set es"
  from backup_job_effects [OF assms(1) mem] obtain name pe where name: "backup_name vts = Some name"
    and pe: "pe = fst (ReconcileObjectSet (bj_pods env) (backup_pod_strategy env vts (initial_backup_spec env vts name)) (backup_labels vts)
       (backup_pod_keys (initial_backup_spec env vts name) (bsh_Namespace vts, name)))"
    and pod: "CreateObj pod \<in> set pe"
    and np: "\<And>k. CallNew k \<in> set pe \<Longrightarrow> new_backup_pod env vts (initial_backup_spec env vts name) k \<noteq> None"
    using mem by metis
  from backup_pod_created [OF pe pod np] name initial_backup_spec_due [of env vts name] show "?concl pod" by auto
qed

lemma backup_claim_pass:
  assumes "reconcileBackupJob env vts = Some (es, st, ls, r)"
    and "\<forall>key pvc. kget (bj_pvcs env) key = Found pvc \<longrightarrow> \<not> ko_evictable pvc"
  shows "\<forall>pvc. PvcEffect (CreateObj pvc) \<in> set es \<longrightarrow> initial_backup_due env vts
      \<and> (\<exists>name spec built. backup_name vts = Some name \<and> initial_backup_spec env vts name = Some spec
           \<and> NewPVC (bsh_Namespace vts, name) (bsp_TabletSpec spec) = Some built
           \<and> set_owner (bj_pvcs env) (built\<lparr>ko_key := (bsh_Namespace vts, name)\<rparr>) = Inr pvc
           \<and> kget (bj_pvcs env) (bsh_Namespace vts, name) = NotFound)" (is "\<forall>x. _ x \<longrightarrow> ?concl x")
proof (intro allI impI)
  fix pvc assume mem: "PvcEffect (CreateObj pvc) \<in> set es"
  from backup_job_effects [OF assms(1) mem] obtain name ce where name: "backup_name vts = Some name"
    and ce: "ce = fst (ReconcileObjectSet (bj_pvcs env) (backup_pvc_strategy env (initial_backup_spec env vts name)) (backup_labels vts)
       (backup_claim_keys (initial_backup_spec env vts name) (bsh_Namespace vts, name)))"
    and pvc: "CreateObj pvc \<in> set ce"
    and np: "\<And>k. CallNew k \<in> set ce \<Longrightarrow> new_backup_pvc (initial_backup_spec env vts name) k \<noteq> None"
    using mem by metis
  from backup_claim_created [OF ce pvc np] name assms(2) initial_backup_spec_due [of env vts name] show "?concl pvc" by auto
qed

lemma backup_pod_removal:
  assumes "reconcileBackupJob env vts = Some (es, st, ls, r)"
  shows "\<forall>pod. PodEffect (DeleteObj pod) \<in> set es \<longrightarrow>
         (\<exists>key name. kget (bj_pods env) key = Found pod \<and> backup_name vts = Some name
            \<and> (ko_evictable pod
               \<or> hasMatchingLabels pod (backup_labels vts) \<and> tpb_Phase (ko_body pod) \<noteq> ''Running''
                 \<and> \<not> (initial_backup_due env vts \<and> key = (bsh_Namespace vts, name))))" (is "\<forall>x. _ x \<longrightarrow> ?concl x")
proof (intro allI impI)
  fix pod assume mem: "PodEffect (DeleteObj pod) \<in> set es"
  from backup_job_effects [OF assms(1) mem] obtain name where name: "backup_name vts = Some name"
    and pod: "DeleteObj pod \<in> set (fst (ReconcileObjectSet (bj_pods env) (backup_pod_strategy env vts (initial_backup_spec env vts name))
       (backup_labels vts) (backup_pod_keys (initial_backup_spec env vts name) (bsh_Namespace vts, name))))"
    using mem by metis
  from ReconcileObjectSet_may_delete [OF pod] obtain key where "kget (bj_pods env) key = Found pod" "ko_evictable pod
      \<or> hasMatchingLabels pod (backup_labels vts) \<and> tpb_Phase (ko_body pod) \<noteq> ''Running''
        \<and> key \<notin> set (backup_pod_keys (initial_backup_spec env vts name) (bsh_Namespace vts, name))"
    using backup_pod_deleted by blast
  moreover have "(bsh_Namespace vts, name) \<in> set (backup_pod_keys (initial_backup_spec env vts name) (bsh_Namespace vts, name))"
    if "initial_backup_due env vts"
    using that initial_backup_spec_due [of env vts name] by (auto simp: backup_pod_keys_def)
  ultimately show "?concl pod" using name by metis
qed

lemma backup_claim_removal:
  assumes "reconcileBackupJob env vts = Some (es, st, ls, r)"
    and "\<forall>key pvc. kget (bj_pvcs env) key = Found pvc \<longrightarrow> \<not> ko_evictable pvc"
  shows "\<forall>pvc. PvcEffect (DeleteObj pvc) \<in> set es \<longrightarrow>
         (\<exists>key name. kget (bj_pvcs env) key = Found pvc \<and> backup_name vts = Some name
            \<and> hasMatchingLabels pvc (backup_labels vts) \<and> kget (bj_pods env) key = NotFound
            \<and> \<not> (\<exists>spec. initial_backup_spec env vts name = Some spec \<and> sp_DataVolumePVCSpec (bsp_TabletSpec spec) \<noteq> None
                  \<and> key = (bsh_Namespace vts, name)))" (is "\<forall>x. _ x \<longrightarrow> ?concl x")
proof (intro allI impI)
  fix pvc assume mem: "PvcEffect (DeleteObj pvc) \<in> set es"
  from backup_job_effects [OF assms(1) mem] obtain name where name: "backup_name vts = Some name"
    and pvc: "DeleteObj pvc \<in> set (fst (ReconcileObjectSet (bj_pvcs env) (backup_pvc_strategy env (initial_backup_spec env vts name))
       (backup_labels vts) (backup_claim_keys (initial_backup_spec env vts name) (bsh_Namespace vts, name))))"
    using mem by metis
  from ReconcileObjectSet_may_delete [OF pvc] assms(2) obtain key where key: "kget (bj_pvcs env) key = Found pvc"
    "hasMatchingLabels pvc (backup_labels vts)" "kget (bj_pods env) key = NotFound"
    "key \<notin> set (backup_claim_keys (initial_backup_spec env vts name) (bsh_Namespace vts, name))"
    using backup_pvc_deleted by blast
  from key(4) have "\<not> (\<exists>spec. initial_backup_spec env vts name = Some spec \<and> sp_DataVolumePVCSpec (bsp_TabletSpec spec) \<noteq> None
      \<and> key = (bsh_Namespace vts, name))" by (auto simp: backup_claim_keys_def)
  then show "?concl pvc" using key(1-3) name by blast
qed

text \<open>C39: The initial backup is taken only when it is needed and nothing that runs is lost.  A pass creates a vtbackup Pod or its volume
  claim only if the shard runs its own MySQL, no complete backup of it exists, it is not known to have a primary, initial backups are
  enabled and its first pool has a backup location; the object is the one \<open>NewBackupPod\<close> or \<open>NewPVC\<close> builds from the spec of that pool, has
  the shard's initial backup name, and no live object of its kind has that name.  The pass deletes a vtbackup Pod only if it was evicted, or
  if it is not the Pod of a backup that is due and is not running; and a volume claim only if it is not wanted by a due
  backup and its Pod is known not to exist.  Only claims that were not evicted are considered: eviction is for Pods.\<close>

theorem reconcileBackupJob_safe:
  assumes "reconcileBackupJob env vts = Some (es, st, ls, r)"
    and claims: "\<forall>key pvc. kget (bj_pvcs env) key = Found pvc \<longrightarrow> \<not> ko_evictable pvc"
  shows "(\<forall>pod. PodEffect (CreateObj pod) \<in> set es \<longrightarrow> initial_backup_due env vts
      \<and> (\<exists>name spec built. backup_name vts = Some name \<and> initial_backup_spec env vts name = Some spec
           \<and> NewBackupPod (bj_lib env) (bsh_Namespace vts, name) (Some spec) (shard_mysqld_image vts) = Some built
           \<and> set_owner (bj_pods env) (built\<lparr>ko_key := (bsh_Namespace vts, name)\<rparr>) = Inr pod
           \<and> (kget (bj_pods env) (bsh_Namespace vts, name) = NotFound
              \<or> (\<exists>old. kget (bj_pods env) (bsh_Namespace vts, name) = Found old \<and> ko_evictable old))))
    \<and> (\<forall>pvc. PvcEffect (CreateObj pvc) \<in> set es \<longrightarrow> initial_backup_due env vts
      \<and> (\<exists>name spec built. backup_name vts = Some name \<and> initial_backup_spec env vts name = Some spec
           \<and> NewPVC (bsh_Namespace vts, name) (bsp_TabletSpec spec) = Some built
           \<and> set_owner (bj_pvcs env) (built\<lparr>ko_key := (bsh_Namespace vts, name)\<rparr>) = Inr pvc
           \<and> kget (bj_pvcs env) (bsh_Namespace vts, name) = NotFound))
    \<and> (\<forall>pod. PodEffect (DeleteObj pod) \<in> set es \<longrightarrow>
         (\<exists>key name. kget (bj_pods env) key = Found pod \<and> backup_name vts = Some name
            \<and> (ko_evictable pod
               \<or> hasMatchingLabels pod (backup_labels vts) \<and> tpb_Phase (ko_body pod) \<noteq> ''Running''
                 \<and> \<not> (initial_backup_due env vts \<and> key = (bsh_Namespace vts, name)))))
    \<and> (\<forall>pvc. PvcEffect (DeleteObj pvc) \<in> set es \<longrightarrow>
         (\<exists>key name. kget (bj_pvcs env) key = Found pvc \<and> backup_name vts = Some name
            \<and> hasMatchingLabels pvc (backup_labels vts) \<and> kget (bj_pods env) key = NotFound
            \<and> \<not> (\<exists>spec. initial_backup_spec env vts name = Some spec \<and> sp_DataVolumePVCSpec (bsp_TabletSpec spec) \<noteq> None
                  \<and> key = (bsh_Namespace vts, name))))"
  by (intro conjI backup_pod_pass [OF assms(1)] backup_claim_pass [OF assms] backup_pod_removal [OF assms(1)]
      backup_claim_removal [OF assms])

definition backup_example_pool :: tablet_pool where
  "backup_example_pool = \<lparr>tp_Cell = ''zone1'', tp_Type = ''replica'', tp_Name = [], tp_Replicas = 2,
     tp_DataVolumeClaimTemplate = None, tp_BackupLocationName = [],
     tp_Vttablet = \<lparr>vt_resources = \<lparr>limits = None, requests = None\<rparr>, vt_extraFlags = [],
       vt_vtbackupExtraFlags = [], vt_lifecycle = [], vt_terminationGracePeriod = None\<rparr>,
     tp_Mysqld = Some \<lparr>my_resources = \<lparr>limits = None, requests = None\<rparr>, my_configOverrides = []\<rparr>,
     tp_MysqldExporter = None, tp_ExternalDatastore = None, tp_Annotations = [], tp_ExtraLabels = [], tp_Affinity = None, tp_ExtraEnv = [],
      tp_ExtraVolumes = [], tp_ExtraVolumeMounts = [], tp_InitContainers = [], tp_SidecarContainers = [],
      tp_Tolerations = [], tp_TopologySpreadConstraints = []\<rparr>"

definition backup_example_shard :: backup_shard where
  "backup_example_shard = \<lparr>bsh_Namespace = ''ns'', bsh_Labels = Map.empty,
     bsh_Spec = \<lparr>st_TabletPools = [backup_example_pool], st_DatabaseInitScriptSecret = no_secret,
       st_Replication = \<lparr>rs_InitializeMaster = None, rs_InitializeBackup = Some True, rs_RecoverRestartedMaster = None\<rparr>,
       st_Annotations = None, ss_Name = ''-'', ss_ZoneMap = Map.empty, ss_KeyRange = VitessKeyRange [] [],
       ss_BackupLocations = [backup_location_named []],
       ss_GlobalLockserver = \<lparr>Implementation = ''etcd2'', Address = ''etcd'', RootPath = ''/vitess''\<rparr>,
       ss_Images = \<lparr>ki_Vttablet = ''vt'', ki_Vtorc = ''vt'', ki_Vtbackup = ''vt'', ki_Mysqld = Some example_image,
         ki_MysqldExporter = []\<rparr>,
       ss_ImagePullPolicies = no_pull_policies, ss_ImagePullSecrets = [], ss_DatabaseName = [], ss_BackupEngine = [],
       ss_ExtraVitessFlags = []\<rparr>,
     bsh_Status = NewVitessShardStatus\<rparr>"

definition backup_example_env :: backup_job_env where
  "backup_example_env =
     \<lparr>bj_list_backups = Inr [],
      bj_pvcs = \<lparr>kget = (\<lambda>k. NotFound), kdelete = (\<lambda>x. None), kcreate = (\<lambda>x. None), kupdate = (\<lambda>x. None),
        klist = Inr [], set_owner = Inr, defaulted = (\<lambda>x. x), semantic_equal = (=), describe = (\<lambda>a b. []), collision = []\<rparr>,
      bj_pods = \<lparr>kget = (\<lambda>k. NotFound), kdelete = (\<lambda>x. None), kcreate = (\<lambda>x. None), kupdate = (\<lambda>x. None),
        klist = Inr [], set_owner = Inr, defaulted = (\<lambda>x. x), semantic_equal = (=), describe = (\<lambda>a b. []), collision = []\<rparr>,
      bj_lib = example_lib\<rparr>"

theorem reconcileBackupJob_safe_witness:
  "\<exists>es st ls r pod. reconcileBackupJob backup_example_env backup_example_shard = Some (es, st, ls, r)
     \<and> PodEffect (CreateObj pod) \<in> set es \<and> initial_backup_due backup_example_env backup_example_shard"
proof -
  let ?env = backup_example_env and ?vts = backup_example_shard
  obtain name where name: "InitialBackupPodName (bsh_label ClusterLabel ?vts) (bsh_label KeyspaceLabel ?vts)
      (ss_KeyRange (bsh_Spec ?vts)) = Some name"
    using Join_total [of DefaultConstraints] by (auto simp: InitialBackupPodName_def JoinWithConstraints_def DefaultConstraints_def hash_consts)
  have "\<exists>es st ls r pod. reconcileBackupJob ?env ?vts = Some (es, st, ls, r) \<and> PodEffect (CreateObj pod) \<in> set es"
    using name
    by (simp add: reconcileBackupJob_def GetBackups_def getCompleteBackups_def Let_def backup_example_env_def
          backup_example_shard_def backup_example_pool_def UsingExternalDatastore_def AllPoolsUsingMysqld_def
          NewVitessShardStatus_def MakeVtbackupSpec_def vtbackupSpec_def BackupLocation_def reconcile_backup_objects_def
          ReconcileObjectSet_def ReconcileObject_def remove_evicted_def reconcile_wanted_def create_object_def
          backup_pod_strategy_def run_backup_objects_def backup_panics_def new_backup_pod_def NewBackupPod_def vtbackup_tablet_spec_def)
  then obtain es st ls r pod where run: "reconcileBackupJob ?env ?vts = Some (es, st, ls, r)" "PodEffect (CreateObj pod) \<in> set es"
    by blast
  have "\<forall>key pvc. kget (bj_pvcs ?env) key = Found pvc \<longrightarrow> \<not> ko_evictable pvc"
    by (simp add: backup_example_env_def)
  from reconcileBackupJob_safe [OF run(1) this] run show ?thesis by blast
qed

section \<open>What the location status reports\<close>

lemma location_index_distinct:
  "distinct (map ls_Name ls) \<Longrightarrow> i < length ls \<Longrightarrow> location_index name ls = Some i \<longleftrightarrow> ls_Name (ls ! i) = name"
  "location_index name ls = None \<longleftrightarrow> name \<notin> ls_Name ` set ls"
proof -
  show none: "location_index name ls = None \<longleftrightarrow> name \<notin> ls_Name ` set ls" for ls
    by (induction ls) (auto split: option.splits)
  show "distinct (map ls_Name ls) \<Longrightarrow> i < length ls \<Longrightarrow> location_index name ls = Some i \<longleftrightarrow> ls_Name (ls ! i) = name"
  proof (induction ls arbitrary: i)
    case (Cons l ls)
    show ?case
    proof (cases i)
      case 0
      then show ?thesis using Cons.prems none [of ls] by (cases "location_index name ls") (auto split: option.splits)
    next
      case (Suc j)
      then have IH: "location_index name ls = Some j \<longleftrightarrow> ls_Name (ls ! j) = name" using Cons by simp
      have "location_index name ls = None \<Longrightarrow> ls_Name (ls ! j) \<noteq> name"
        using none [of ls] Cons.prems(2) Suc by auto
      then show ?thesis using IH Suc by (cases "location_index name ls") auto
    qed
  qed simp
qed

definition latest_start :: "vitess_backup list \<Rightarrow> int option" where
  "latest_start bs = (if bs = [] then None else Some (Max (vbk_StartTime ` set bs)))"

lemma latest_start_snoc:
  "latest_start (bs @ [b]) =
     (if (case latest_start bs of None \<Rightarrow> True | Some t \<Rightarrow> vbk_StartTime b > t) then Some (vbk_StartTime b) else latest_start bs)"
  by (cases "bs = []") (auto simp: latest_start_def max_def not_less simp del: Max_less_iff Max_le_iff Max_ge_iff)

definition location_report :: "vitess_backup list \<Rightarrow> string \<Rightarrow> location_status" where
  "location_report backups name =
     (let here = filter (\<lambda>b. backup_location_of b = name) backups; complete = filter vbk_Complete here
      in \<lparr>ls_Name = name, ls_CompleteBackups = of_nat (length complete),
          ls_IncompleteBackups = of_nat (length (filter (\<lambda>b. \<not> vbk_Complete b) here)),
          ls_LatestCompleteBackupTime = latest_start complete\<rparr>)"

lemma location_report_snoc:
  "location_report (bs @ [b]) name =
     (if backup_location_of b = name then count_backup b (location_report bs name) else location_report bs name)"
  by (simp add: location_report_def count_backup_def Let_def latest_start_snoc)

text \<open>With distinct location names, the status reports for each configured location, in order, how many complete and
  incomplete backups it holds, as \<open>int32\<close> counts, and the start of its latest complete one.\<close>

theorem updateBackupStatus_spec:
  assumes "distinct (map bl_Name locations)"
  shows "updateBackupStatus locations backups = map (\<lambda>l. location_report backups (bl_Name l)) locations"
proof (cases "locations = []")
  case False
  let ?start = "map (\<lambda>l. NewShardBackupLocationStatus (bl_Name l)) locations"
  have "fold report_backup backups ?start = map (\<lambda>l. location_report backups (bl_Name l)) locations"
  proof (induction backups rule: rev_induct)
    case Nil
    show ?case by (simp add: location_report_def NewShardBackupLocationStatus_def latest_start_def)
  next
    case (snoc b bs)
    let ?ls = "map (\<lambda>l. location_report bs (bl_Name l)) locations"
    have names: "map ls_Name ?ls = map bl_Name locations" by (simp add: location_report_def Let_def)
    have name: "ls_Name (?ls ! i) = bl_Name (locations ! i)" if "i < length locations" for i
      using that by (simp add: location_report_def Let_def)
    have dist: "distinct (map ls_Name ?ls)" unfolding names by (rule assms)
    have "report_backup b ?ls ! i = location_report (bs @ [b]) (bl_Name (locations ! i))" if i: "i < length locations" for i
    proof (cases "location_index (backup_location_of b) ?ls")
      case None
      then have "backup_location_of b \<noteq> bl_Name (locations ! i)"
        using location_index_distinct(2) [of "backup_location_of b" ?ls] i
        by (auto simp: location_report_def Let_def image_image)
      then show ?thesis using None i by (simp add: report_backup_def location_report_snoc)
    next
      case (Some j)
      have eq: "j = i \<longleftrightarrow> backup_location_of b = bl_Name (locations ! i)"
        using location_index_distinct(1) [OF dist, of i "backup_location_of b"] Some i name by auto
      have "report_backup b ?ls ! i = (if j = i then count_backup b (?ls ! i) else ?ls ! i)"
        using Some i by (simp add: report_backup_def nth_list_update)
      then show ?thesis unfolding eq location_report_snoc using i by simp
    qed
    then have "report_backup b ?ls = map (\<lambda>l. location_report (bs @ [b]) (bl_Name l)) locations"
      by (intro nth_equalityI) (auto simp: report_backup_def split: option.split)
    then show ?case using snoc.IH by simp
  qed
  then show ?thesis using False by (simp add: updateBackupStatus_def)
qed (simp add: updateBackupStatus_def)

theorem updateBackupStatus_spec_witness:
  "updateBackupStatus [backup_location_named ''s3'']
     [\<lparr>vbk_Labels = [LocationLabel \<mapsto> ''s3''], vbk_Complete = True, vbk_StartTime = 5\<rparr>,
      \<lparr>vbk_Labels = [LocationLabel \<mapsto> ''s3''], vbk_Complete = True, vbk_StartTime = 3\<rparr>]
   = [\<lparr>ls_Name = ''s3'', ls_CompleteBackups = 2, ls_IncompleteBackups = 0, ls_LatestCompleteBackupTime = Some 5\<rparr>]"
  by (subst updateBackupStatus_spec) (simp_all add: location_report_def backup_location_of_def latest_start_def)

end
