(* ===== verification/Backup_Controller.thy ===== *)
theory Backup_Controller
  imports Backup_Schedule Backup_Job Defaults "HOL-Library.Option_ord"
begin

text \<open>
  The VitessBackupSchedule controller,
  \<open>pkg/controller/vitessbackupschedule/vitessbackupschedule_controller.go\<close>: which shards a schedule
  targets, which jobs are removed, when a job is created and what it runs.

  The answers of the API server and the clock are fields of \<open>schedule_env\<close>; a listing that a pass makes twice
  can answer differently, so it is indexed by the call.  Deletions whose errors are only logged have no
  answer.  The vtbackup Pod built by \<open>vttablet.NewBackupPod\<close> is a parameter; what the controller changes in it is not.
\<close>

section \<open>Jobs\<close>

definition BackupScheduleLabel :: string where "BackupScheduleLabel = ''planetscale.com/backup-schedule''"
definition BackupMethodLabel :: string where "BackupMethodLabel = ''planetscale.com/backup-method''"
definition scheduledTimeAnnotation :: string where "scheduledTimeAnnotation = ''planetscale.com/backup-scheduled-at''"
definition vtctldclientPath :: string where "vtctldclientPath = ''/vt/bin/vtctldclient''"
definition DefaultGrpcPortName :: string where "DefaultGrpcPortName = ''grpc''"

record kjob =
  jb_Name :: string
  jb_Labels :: "string \<rightharpoonup> string"
  jb_Annotations :: "string \<rightharpoonup> string"
  jb_StartTime :: "int option"
  jb_Conditions :: "(string \<times> cond_status) list"

record jobs_list =
  jl_active :: "kjob list"
  jl_successful :: "kjob list"
  jl_failed :: "kjob list"

record created_job =
  cj_Name :: string
  cj_Namespace :: string
  cj_Labels :: "string \<rightharpoonup> string"
  cj_Annotations :: "string \<rightharpoonup> string"
  cj_Pod :: pod_spec

datatype api_error = ApiNotFound | ApiConflict | ApiAlreadyExists | ApiOther string

datatype schedule_error = TerminalErr string | PlainErr string | ApiErr api_error

datatype job_error = WaitingForShardBootstrap | JobError string

datatype 'o fetched = NoSuch | FetchFailed api_error | Fetched 'o

record schedule_env =
  be_now :: "string \<Rightarrow> nat \<Rightarrow> int"
  be_ParseStandard :: cron_parser
  be_ParseDuration :: "string \<Rightarrow> string + int"
  be_ParseTime :: "string \<Rightarrow> string + int"
  be_FormatTime :: "int \<Rightarrow> string"
  be_rand :: "nat \<Rightarrow> nat"
  be_get :: "backup_schedule fetched"
  be_list_jobs :: "string \<Rightarrow> string \<Rightarrow> api_error + kjob list"
  be_list_keyspaces :: "nat \<Rightarrow> string \<Rightarrow> string + (string \<times> string list) list"
  be_list_schedules :: "nat \<Rightarrow> string + backup_schedule list"
  be_list_shards :: "string \<Rightarrow> string + backup_shard list"
  be_list_backups :: "string \<Rightarrow> string \<Rightarrow> string + vitess_backup list"
  be_list_services :: "string + (string \<times> (string \<times> int) list) list"
  be_get_cluster :: "string + VitessClusterSpec"
  be_DefaultEtcdImage :: string
  be_get_pvc :: "string \<Rightarrow> api_error option"
  be_create_pvc :: "string \<Rightarrow> api_error option"
  be_create_job :: "string \<Rightarrow> api_error option"
  be_set_owner :: "bool \<Rightarrow> string \<Rightarrow> string option"
  be_update_status :: "api_error option"
  be_lib :: tablet_lib

datatype schedule_effect =
    DeleteJob string
  | DeletePVC string
  | CreatePVC string pvc_kobj
  | CreateJob created_job
  | UpdateScheduleStatus schedule_maps
  | EnqueueResync

section \<open>The targets of a schedule\<close>

record strategy_expansion =
  sx_allKeyspaces :: "(string \<times> string list) list"
  sx_excludedKeyspaces :: "string list"
  sx_shardsByKeyspace :: "string \<rightharpoonup> string list"

definition shardSafeName :: "string \<Rightarrow> string" where
  "shardSafeName shard =
     (case cut_at CHR ''-'' shard of
        None \<Rightarrow> shard
      | Some (start, stop) \<Rightarrow> KeyRange_SafeName (VitessKeyRange start stop))"

definition expandToShards :: "backup_strategy \<Rightarrow> string \<Rightarrow> string list \<Rightarrow> backup_strategy list" where
  "expandToShards base ksName shards =
     map (\<lambda>shard. \<lparr>sg_Name = sg_Name base @ ''-'' @ ksName @ ''-'' @ shardSafeName shard, sg_Scope = BackupScopeShard,
                    sg_Keyspace = ksName, sg_Shard = shard, sg_ExtraFlags = sg_ExtraFlags base\<rparr>) shards"

definition newStrategyExpansionContext :: "(string \<times> string list) list \<Rightarrow> string list \<Rightarrow> strategy_expansion" where
  "newStrategyExpansionContext allKeyspaces excluded =
     \<lparr>sx_allKeyspaces = allKeyspaces, sx_excludedKeyspaces = excluded,
      sx_shardsByKeyspace = fold (\<lambda>(name, shards) m. m(name \<mapsto> shards)) allKeyspaces Map.empty\<rparr>"

definition expandStrategy :: "backup_strategy \<Rightarrow> strategy_expansion \<Rightarrow> string + backup_strategy list" where
  "expandStrategy strategy expansionCtx =
     (let scope = (if sg_Scope strategy = [] then BackupScopeShard else sg_Scope strategy)
      in if scope = BackupScopeShard then Inr [strategy]
         else if scope = BackupScopeKeyspace then
           (let shards = (case sx_shardsByKeyspace expansionCtx (sg_Keyspace strategy) of None \<Rightarrow> [] | Some s \<Rightarrow> s)
            in if shards = [] then Inr [] else Inr (expandToShards strategy (sg_Keyspace strategy) shards))
         else if scope = BackupScopeCluster then
           Inr (concat (map (\<lambda>(name, shards). expandToShards strategy name shards)
                  (filter (\<lambda>(name, shards). name \<notin> set (sx_excludedKeyspaces expansionCtx)) (sx_allKeyspaces expansionCtx))))
         else Inl (''unknown scope for strategy '' @ sg_Name strategy))"

text \<open>The keyspaces with shards, sorted by name, each with its shards sorted.\<close>

definition getAllShardsInCluster :: "schedule_env \<Rightarrow> nat \<Rightarrow> string \<Rightarrow> string + (string \<times> string list) list" where
  "getAllShardsInCluster env call cluster =
     (case be_list_keyspaces env call cluster of
        Inl err \<Rightarrow> Inl (''unable to list shards: '' @ err)
      | Inr items \<Rightarrow>
          Inr (sort_key fst (map (\<lambda>(name, shards). (name, sort shards)) (filter (\<lambda>(name, shards). shards \<noteq> []) items))))"

definition localExcludedKeyspaces :: "backup_schedule \<Rightarrow> string list" where
  "localExcludedKeyspaces vbsc =
     map sg_Keyspace (filter (\<lambda>s. sg_Scope s = BackupScopeKeyspace \<and> sg_Keyspace s \<noteq> []) (bt_Strategy (vb_Spec vbsc)))"

definition scheduleSuspended :: "backup_schedule \<Rightarrow> bool" where
  "scheduleSuspended vbsc \<longleftrightarrow> bt_Suspend (vb_Spec vbsc) = Some True"

definition strategy_target :: "backup_strategy \<Rightarrow> string" where
  "strategy_target s = sg_Keyspace s @ ''/'' @ sg_Shard s"

fun mark_targets :: "backup_strategy list \<Rightarrow> string list \<Rightarrow> string + string list" where
  "mark_targets [] seenTargets = Inr seenTargets"
| "mark_targets (s # rest) seenTargets =
     (if strategy_target s \<in> set seenTargets then Inl (''duplicate effective shard target '' @ strategy_target s)
      else mark_targets rest (strategy_target s # seenTargets))"

fun check_targets :: "strategy_expansion \<Rightarrow> backup_strategy list \<Rightarrow> string list \<Rightarrow> string option" where
  "check_targets expansionCtx [] seenTargets = None"
| "check_targets expansionCtx (strategy # rest) seenTargets =
     (case expandStrategy strategy expansionCtx of
        Inl err \<Rightarrow> Some err
      | Inr expanded \<Rightarrow>
          (case mark_targets expanded seenTargets of
             Inl err \<Rightarrow> Some err
           | Inr seen \<Rightarrow> check_targets expansionCtx rest seen))"

definition validateNoDuplicateExpandedShardTargets :: "backup_schedule \<Rightarrow> strategy_expansion \<Rightarrow> string option" where
  "validateNoDuplicateExpandedShardTargets vbsc expansionCtx = check_targets expansionCtx (bt_Strategy (vb_Spec vbsc)) []"

definition buildStrategyExpansionContextWithoutPeerExclusions ::
    "schedule_env \<Rightarrow> nat \<Rightarrow> backup_schedule \<Rightarrow> string + strategy_expansion"
where
  "buildStrategyExpansionContextWithoutPeerExclusions env call vbsc =
     (case getAllShardsInCluster env call (bs_Cluster (vb_Spec vbsc)) of
        Inl err \<Rightarrow> Inl err
      | Inr allKeyspaces \<Rightarrow> Inr (newStrategyExpansionContext allKeyspaces (localExcludedKeyspaces vbsc)))"

text \<open>The exclusions that the other schedules of the namespace add: active, valid and of the same cluster.\<close>

fun peer_exclusions :: "schedule_env \<Rightarrow> nat \<Rightarrow> backup_schedule \<Rightarrow> backup_schedule list \<Rightarrow> string list \<Rightarrow> string + string list" where
  "peer_exclusions env call vbsc [] excluded = Inr excluded"
| "peer_exclusions env call vbsc (sched # rest) excluded =
     (if vb_Name sched = vb_Name vbsc then peer_exclusions env call vbsc rest excluded
      else if bs_Cluster (vb_Spec sched) \<noteq> bs_Cluster (vb_Spec vbsc) \<or> scheduleSuspended sched
      then peer_exclusions env call vbsc rest excluded
      else if ValidateScheduleConfig (be_ParseDuration env) (vb_Spec sched) \<noteq> None
      then peer_exclusions env call vbsc rest excluded
      else if ValidateStrategies (vb_Spec sched) \<noteq> None then peer_exclusions env call vbsc rest excluded
      else (case buildStrategyExpansionContextWithoutPeerExclusions env call sched of
              Inl err \<Rightarrow> Inl err
            | Inr peerExpansionCtx \<Rightarrow>
                if validateNoDuplicateExpandedShardTargets sched peerExpansionCtx \<noteq> None
                then peer_exclusions env call vbsc rest excluded
                else peer_exclusions env call vbsc rest (excluded @ localExcludedKeyspaces sched)))"

definition getExcludedKeyspaces :: "schedule_env \<Rightarrow> nat \<Rightarrow> backup_schedule \<Rightarrow> string + string list" where
  "getExcludedKeyspaces env call vbsc =
     (let excluded = (if scheduleSuspended vbsc then [] else localExcludedKeyspaces vbsc)
      in case be_list_schedules env call of
           Inl err \<Rightarrow> Inl (''unable to list VitessBackupSchedules: '' @ err)
         | Inr allSchedules \<Rightarrow> peer_exclusions env call vbsc allSchedules excluded)"

definition buildStrategyExpansionContext :: "schedule_env \<Rightarrow> nat \<Rightarrow> backup_schedule \<Rightarrow> string + strategy_expansion" where
  "buildStrategyExpansionContext env call vbsc =
     (case getAllShardsInCluster env call (bs_Cluster (vb_Spec vbsc)) of
        Inl err \<Rightarrow> Inl err
      | Inr allKeyspaces \<Rightarrow>
          (case getExcludedKeyspaces env call vbsc of
             Inl err \<Rightarrow> Inl err
           | Inr excluded \<Rightarrow> Inr (newStrategyExpansionContext allKeyspaces excluded)))"

definition validateNoDuplicateEffectiveShardTargets :: "schedule_env \<Rightarrow> backup_schedule \<Rightarrow> string option" where
  "validateNoDuplicateEffectiveShardTargets env vbsc =
     (case buildStrategyExpansionContext env 0 vbsc of
        Inl err \<Rightarrow> Some err
      | Inr expansionCtx \<Rightarrow> validateNoDuplicateExpandedShardTargets vbsc expansionCtx)"

section \<open>The jobs that exist\<close>

fun isJobFinished :: "(string \<times> cond_status) list \<Rightarrow> bool \<times> string" where
  "isJobFinished [] = (False, [])"
| "isJobFinished ((type', status) # rest) =
     (if (type' = ''Complete'' \<or> type' = ''Failed'') \<and> status = CondTrue then (True, type')
      else isJobFinished rest)"

text \<open>\<open>Inr None\<close>: the annotation is missing or empty.\<close>

definition getScheduledTimeForJob :: "schedule_env \<Rightarrow> kjob \<Rightarrow> string + int option" where
  "getScheduledTimeForJob env job =
     (let timeRaw = (case jb_Annotations job scheduledTimeAnnotation of None \<Rightarrow> [] | Some t \<Rightarrow> t)
      in if timeRaw = [] then Inr None
         else (case be_ParseTime env timeRaw of Inl err \<Rightarrow> Inl err | Inr t \<Rightarrow> Inr (Some t)))"

definition later_time :: "int option \<Rightarrow> int option \<Rightarrow> int option" where
  "later_time mostRecent scheduled =
     (case scheduled of
        None \<Rightarrow> mostRecent
      | Some t \<Rightarrow> (case mostRecent of None \<Rightarrow> Some t | Some m \<Rightarrow> if m < t then Some t else Some m))"

text \<open>One job of the listing; a type that no condition scan returns would be an error.\<close>

definition classify_job :: "schedule_env \<Rightarrow> kjob \<Rightarrow> jobs_list \<times> int option \<Rightarrow> string + jobs_list \<times> int option" where
  "classify_job env job acc =
     (case acc of (jobs, mostRecentTime) \<Rightarrow>
        let jobType = snd (isJobFinished (jb_Conditions job));
            mostRecentTime = (case getScheduledTimeForJob env job of
                Inl err \<Rightarrow> mostRecentTime | Inr t \<Rightarrow> later_time mostRecentTime t)
        in if jobType = ''Failed'' \<or> jobType = ''FailureTarget'' then Inr (jobs\<lparr>jl_failed := jl_failed jobs @ [job]\<rparr>, mostRecentTime)
           else if jobType = ''Complete'' then Inr (jobs\<lparr>jl_successful := jl_successful jobs @ [job]\<rparr>, mostRecentTime)
           else if jobType = ''Suspended'' \<or> jobType = [] then Inr (jobs\<lparr>jl_active := jl_active jobs @ [job]\<rparr>, mostRecentTime)
           else Inl (''unknown job type: '' @ jobType))"

fun classify_jobs :: "schedule_env \<Rightarrow> kjob list \<Rightarrow> jobs_list \<times> int option \<Rightarrow> string + jobs_list \<times> int option" where
  "classify_jobs env [] acc = Inr acc"
| "classify_jobs env (job # rest) acc =
     (case classify_job env job acc of Inl err \<Rightarrow> Inl err | Inr acc' \<Rightarrow> classify_jobs env rest acc')"

definition getJobsList :: "schedule_env \<Rightarrow> string \<Rightarrow> string \<Rightarrow> schedule_error + jobs_list \<times> int option" where
  "getJobsList env keyspace safeName =
     (let classify = (\<lambda>items. (case classify_jobs env items
             (\<lparr>jl_active = [], jl_successful = [], jl_failed = []\<rparr>, None) of
           Inl err \<Rightarrow> Inl (PlainErr err) | Inr r \<Rightarrow> Inr r))
      in case be_list_jobs env keyspace safeName of
           Inl ApiNotFound \<Rightarrow> classify []
         | Inl err \<Rightarrow> Inl (ApiErr err)
         | Inr items \<Rightarrow> classify items)"

text \<open>
  The volume claim of a removed job: none for vtctldclient; after a failed lookup the claim is the empty
  object, unless the lookup said that it does not exist.
\<close>

definition remove_pvc :: "schedule_env \<Rightarrow> kjob \<Rightarrow> schedule_effect list" where
  "remove_pvc env job =
     (if jb_Labels job BackupMethodLabel = Some BackupMethodVtctldclient then []
      else (case be_get_pvc env (jb_Name job) of
              None \<Rightarrow> [DeletePVC (jb_Name job)]
            | Some ApiNotFound \<Rightarrow> []
            | Some err \<Rightarrow> [DeletePVC []]))"

definition remove_job :: "schedule_env \<Rightarrow> kjob \<Rightarrow> schedule_effect list" where
  "remove_job env job = DeleteJob (jb_Name job) # remove_pvc env job"

fun cleanup_loop :: "schedule_env \<Rightarrow> 32 word \<Rightarrow> nat \<Rightarrow> nat \<Rightarrow> kjob list \<Rightarrow> schedule_effect list" where
  "cleanup_loop env limit n i [] = []"
| "cleanup_loop env limit n i (job # rest) =
     (if sint (of_nat i :: 32 word) \<ge> sint (of_nat n - limit) then []
      else remove_job env job @ cleanup_loop env limit n (Suc i) rest)"

text \<open>The stable sort by start time has jobs that have not started first.\<close>

definition cleanupJobsWithLimit :: "schedule_env \<Rightarrow> kjob list \<Rightarrow> 32 word \<Rightarrow> schedule_effect list" where
  "cleanupJobsWithLimit env jobs limit =
     (if limit = - 1 then [] else cleanup_loop env limit (length jobs) 0 (sort_key jb_StartTime jobs))"

text \<open>A job without the annotation is a nil time, which panics: \<open>None\<close>.\<close>

fun timeout_loop ::
    "schedule_env \<Rightarrow> string \<Rightarrow> 32 word \<Rightarrow> nat \<Rightarrow> kjob list \<Rightarrow> (schedule_effect list \<times> string option) option"
where
  "timeout_loop env sname timeout i [] = Some ([], None)"
| "timeout_loop env sname timeout i (job # rest) =
     (case getScheduledTimeForJob env job of
        Inl err \<Rightarrow> Some ([], Some err)
      | Inr None \<Rightarrow> None
      | Inr (Some jobStartTime) \<Rightarrow>
          (case timeout_loop env sname timeout (Suc i) rest of
             None \<Rightarrow> None
           | Some (es, err) \<Rightarrow>
               if jobStartTime + int64 (60000000000 * sint timeout) < be_now env sname (4 + i)
               then Some (remove_job env job @ es, err) else Some (es, err)))"

definition removeTimeoutJobs :: "schedule_env \<Rightarrow> string \<Rightarrow> kjob list \<Rightarrow> 32 word \<Rightarrow> (schedule_effect list \<times> string option) option" where
  "removeTimeoutJobs env sname jobs timeout =
     (if timeout = - 1 then Some ([], None) else timeout_loop env sname timeout 0 jobs)"

section \<open>The job to create\<close>

definition resolveBackupJobTolerations :: "toleration list option \<Rightarrow> toleration list \<Rightarrow> toleration list" where
  "resolveBackupJobTolerations override defaults = (case override of Some ts \<Rightarrow> ts | None \<Rightarrow> defaults)"

definition shardReadyForScheduledBackup :: "backup_shard \<Rightarrow> bool" where
  "shardReadyForScheduledBackup vts =
     (if sh_HasMaster (bsh_Status vts) \<noteq> CondTrue \<or> sh_HasInitialBackup (bsh_Status vts) \<noteq> CondTrue then False
      else if sh_Tablets (bsh_Status vts) = [] then False
      else list_all (\<lambda>(name, tablet). ts_Ready tablet = CondTrue) (sh_Tablets (bsh_Status vts)))"

definition getShardFromKeyspace :: "schedule_env \<Rightarrow> string \<Rightarrow> string \<Rightarrow> string + backup_shard" where
  "getShardFromKeyspace env keyspace shard =
     (case be_list_shards env keyspace of
        Inl err \<Rightarrow> Inl (''unable to list shards of keyspace: '' @ err)
      | Inr items \<Rightarrow>
          (case find (\<lambda>item. KeyRange_String (ss_KeyRange (bsh_Spec item)) = shard) items of
             None \<Rightarrow> Inl (''unable to find shard '' @ shard)
           | Some item \<Rightarrow> Inr item))"

text \<open>\<open>be_set_owner\<close> answers for the claim and for the job.  A nil spec, which \<open>MakeVtbackupSpec\<close> may return, is looked into by \<open>NewBackupPod\<close>: \<open>None\<close>.\<close>

definition createVtbackupJobPod ::
    "schedule_env \<Rightarrow> backup_schedule \<Rightarrow> backup_strategy \<Rightarrow> string \<Rightarrow> VitessKeyRange \<Rightarrow> (string, string) gomap
     \<Rightarrow> (job_error + pod_spec \<times> BackupSpec) option"
where
  "createVtbackupJobPod env vbsc strategy name vkr labels =
     (case getShardFromKeyspace env (sg_Keyspace strategy) (sg_Shard strategy) of
        Inl err \<Rightarrow> Some (Inl (JobError err))
      | Inr vts \<Rightarrow>
     (case GetBackups (be_list_backups env (sg_Keyspace strategy) (KeyRange_SafeName vkr)) of
        Inl err \<Rightarrow> Some (Inl (JobError err))
      | Inr (_, completedBackups) \<Rightarrow>
          if completedBackups = [] \<and> \<not> shardReadyForScheduledBackup vts then Some (Inl WaitingForShardBootstrap)
          else (let podKey = (vb_Namespace vbsc, name)
                in case MakeVtbackupSpec podKey vts labels TypeUpdate of
                     None \<Rightarrow> None
                   | Some None \<Rightarrow> None
                   | Some (Some vspec) \<Rightarrow>
                       (case NewBackupPod (be_lib env) podKey (Some vspec) (shard_mysqld_image vts) of
                          None \<Rightarrow> None
                        | Some pod \<Rightarrow>
                            (let p = tpb_Spec (ko_body pod)
                             in Some (Inr (p\<lparr>psp_RestartPolicy := ''Never'',
                                    psp_Affinity := map_option UserAffinity (bt_Affinity (vb_Spec vbsc)),
                                    psp_Tolerations := resolveBackupJobTolerations (bt_Tolerations (vb_Spec vbsc)) (psp_Tolerations p)\<rparr>,
                                  vspec)))))))"

text \<open>The image, pull policy, pull secrets and tolerations of a vtctldclient Pod.\<close>

definition getVtctldclientJobPodConfig ::
    "schedule_env \<Rightarrow> backup_schedule \<Rightarrow> (string + string \<times> string \<times> string list \<times> toleration list) option"
where
  "getVtctldclientJobPodConfig env vbsc =
     (case be_get_cluster env of
        Inl err \<Rightarrow> Some (Inl (''unable to get VitessCluster: '' @ err))
      | Inr vt \<Rightarrow>
          (let vt = DefaultVitessCluster (be_DefaultEtcdImage env) vt
           in case vc_VitessDashboard vt of
                None \<Rightarrow> None
              | Some dashboard \<Rightarrow>
                  (let img = (if bs_Image (vb_Spec vbsc) = [] then im_Vtctld (vc_Images vt) else bs_Image (vb_Spec vbsc));
                       policy = (if bs_ImagePullPolicy (vb_Spec vbsc) = [] then ip_Vtctld (vc_ImagePullPolicies vt)
                                 else bs_ImagePullPolicy (vb_Spec vbsc))
                   in if img = [] then Some (Inl ''no vtctld image configured'')
                      else Some (Inr (img, policy, vc_ImagePullSecrets vt, px_Tolerations dashboard)))))"

definition getVtctldServiceName :: "schedule_env \<Rightarrow> string + string \<times> int" where
  "getVtctldServiceName env =
     (case be_list_services env of
        Inl err \<Rightarrow> Inl (''unable to list vtctld service: '' @ err)
      | Inr items \<Rightarrow>
          (let (svcName, svcPort) = (if items = [] then ([], 0)
                 else let service = items ! be_rand env (length items)
                      in (fst service, case find (\<lambda>p. fst p = DefaultGrpcPortName) (snd service) of
                                         None \<Rightarrow> 0 | Some p \<Rightarrow> snd p))
           in if svcName = [] \<or> svcPort = 0 then Inl ''no vtctld service found'' else Inr (svcName, svcPort)))"

definition flag_args :: "(string, string) gomap \<Rightarrow> string list" where
  "flag_args flags = map (\<lambda>k. ''--'' @ k @ ''='' @ the (map_of flags k)) (sorted_keys flags)"

definition vtctldclient_container ::
    "schedule_env \<Rightarrow> backup_schedule \<Rightarrow> backup_strategy \<Rightarrow> string \<Rightarrow> string \<Rightarrow> string \<Rightarrow> int \<Rightarrow> container"
where
  "vtctldclient_container env vbsc strategy img policy svcName svcPort =
     (new_container (be_lib env) ''vtctldclient'' img policy [vtctldclientPath]
        ([''--server='' @ svcName @ '':'' @ dec_int svcPort, ''BackupShard'']
          @ flag_args (sg_ExtraFlags strategy) @ [sg_Keyspace strategy @ ''/'' @ sg_Shard strategy]) [])
     \<lparr>c_resources := bt_Resources (vb_Spec vbsc)\<rparr>"

definition createVtctldclientJobPod :: "schedule_env \<Rightarrow> backup_schedule \<Rightarrow> backup_strategy \<Rightarrow> (job_error + pod_spec) option" where
  "createVtctldclientJobPod env vbsc strategy =
     (case getVtctldclientJobPodConfig env vbsc of
        None \<Rightarrow> None
      | Some (Inl err) \<Rightarrow> Some (Inl (JobError err))
      | Some (Inr (img, policy, secrets, tolerations)) \<Rightarrow>
          (case getVtctldServiceName env of
             Inl err \<Rightarrow> Some (Inl (JobError err))
           | Inr (svcName, svcPort) \<Rightarrow>
               (let lib = be_lib env
                in Some (Inr (empty_pod_spec
                 \<lparr>psp_RestartPolicy := ''Never'', psp_ImagePullSecrets := secrets,
                  psp_SecurityContext :=
                    Some \<lparr>psc_FSGroup = (if tl_FSGroup lib \<ge> 0 then Some (tl_FSGroup lib) else None), psc_rest = []\<rparr>,
                  psp_Affinity := map_option UserAffinity (bt_Affinity (vb_Spec vbsc)),
                  psp_PriorityClassName := tl_PriorityClass lib,
                  psp_Tolerations := resolveBackupJobTolerations (bt_Tolerations (vb_Spec vbsc)) tolerations,
                  psp_Containers := [vtctldclient_container env vbsc strategy img policy svcName svcPort],
                  psp_ServiceAccountName := tl_ServiceAccount lib\<rparr>)))))"

text \<open>The job of a Pod; the metadata of the job is that of its Pod template as well.\<close>

definition createVtctldclientJob ::
    "schedule_env \<Rightarrow> backup_schedule \<Rightarrow> backup_strategy \<Rightarrow> (pod_spec \<Rightarrow> created_job) \<Rightarrow> string
     \<Rightarrow> (schedule_effect list \<times> (job_error + created_job)) option"
where
  "createVtctldclientJob env vbsc strategy job name =
     (case createVtctldclientJobPod env vbsc strategy of
        None \<Rightarrow> None
      | Some (Inl err) \<Rightarrow> Some ([], Inl err)
      | Some (Inr pod) \<Rightarrow>
          (case be_set_owner env False name of
             Some err \<Rightarrow> Some ([], Inl (JobError err))
           | None \<Rightarrow> Some ([], Inr (job pod))))"

definition createVtbackupJob ::
    "schedule_env \<Rightarrow> backup_schedule \<Rightarrow> backup_strategy \<Rightarrow> (pod_spec \<Rightarrow> created_job) \<Rightarrow> string \<Rightarrow> VitessKeyRange
     \<Rightarrow> (string, string) gomap \<Rightarrow> (schedule_effect list \<times> (job_error + created_job)) option"
where
  "createVtbackupJob env vbsc strategy job name vkr labels =
     (case createVtbackupJobPod env vbsc strategy name vkr labels of
        None \<Rightarrow> None
      | Some (Inl err) \<Rightarrow> Some ([], Inl err)
      | Some (Inr (pod, vspec)) \<Rightarrow>
     (case be_set_owner env False name of
        Some err \<Rightarrow> Some ([], Inl (JobError err))
      | None \<Rightarrow>
     (case be_get_pvc env name of
        None \<Rightarrow> Some ([], Inl (JobError (''PVC already exists for job '' @ name)))
      | Some ApiNotFound \<Rightarrow>
          (case NewPVC (vb_Namespace vbsc, name) (bsp_TabletSpec vspec) of
             None \<Rightarrow> None
           | Some template \<Rightarrow>
               if be_set_owner env True name \<noteq> None then Some ([], Inl (JobError ''unable to own PVC''))
               else (case be_create_pvc env name of
                  Some err \<Rightarrow> Some ([CreatePVC name template], Inl (JobError ''unable to create PVC''))
                | None \<Rightarrow> Some ([CreatePVC name template], Inr (job pod))))
      | Some err \<Rightarrow> Some ([], Inl (JobError ''unable to get PVC'')))))"

definition backup_method :: "backup_schedule \<Rightarrow> string" where
  "backup_method vbsc =
     (if bt_BackupMethod (vb_Spec vbsc) = [] then BackupMethodVtbackup else bt_BackupMethod (vb_Spec vbsc))"

definition backup_job_name :: "backup_schedule \<Rightarrow> backup_strategy \<Rightarrow> int \<Rightarrow> VitessKeyRange \<Rightarrow> string option" where
  "backup_job_name vbsc strategy scheduledTime vkr =
     JoinWithConstraints ServiceConstraints
       [vb_Name vbsc, sg_Keyspace strategy, KeyRange_SafeName vkr, dec_int (scheduledTime div 1000000000)]"

definition backup_job_labels :: "backup_schedule \<Rightarrow> backup_strategy \<Rightarrow> VitessKeyRange \<Rightarrow> (string, string) gomap" where
  "backup_job_labels vbsc strategy vkr =
     [(BackupScheduleLabel, vb_Name vbsc), (ClusterLabel, bs_Cluster (vb_Spec vbsc)),
      (KeyspaceLabel, sg_Keyspace strategy), (ShardLabel, KeyRange_SafeName vkr),
      (BackupMethodLabel, backup_method vbsc)]"

definition createJob ::
    "schedule_env \<Rightarrow> backup_schedule \<Rightarrow> backup_strategy \<Rightarrow> int \<Rightarrow> VitessKeyRange
     \<Rightarrow> (schedule_effect list \<times> (job_error + created_job)) option"
where
  "createJob env vbsc strategy scheduledTime vkr =
     (case backup_job_name vbsc strategy scheduledTime vkr of
        None \<Rightarrow> None
      | Some name \<Rightarrow>
          (let labels = backup_job_labels vbsc strategy vkr;
               job = (\<lambda>pod. \<lparr>cj_Name = name, cj_Namespace = vb_Namespace vbsc,
                        cj_Labels = map_of labels ++ map_entries (vb_Labels vbsc) ++ map_of labels,
                        cj_Annotations = (map_entries (vb_Annotations vbsc) ++ map_entries (bt_Annotations (vb_Spec vbsc)))
                          (scheduledTimeAnnotation \<mapsto> be_FormatTime env scheduledTime),
                        cj_Pod = pod\<rparr>)
           in if backup_method vbsc = BackupMethodVtctldclient
              then createVtctldclientJob env vbsc strategy job name
              else createVtbackupJob env vbsc strategy job name vkr labels))"

section \<open>The pass over one strategy\<close>

type_synonym strategy_result = "schedule_effect list \<times> schedule_maps \<times> schedule_error builder"

text \<open>The cron expression, and the status that shows a generated one.\<close>

definition effective_schedule ::
    "schedule_env \<Rightarrow> backup_schedule \<Rightarrow> backup_strategy \<Rightarrow> schedule_maps \<Rightarrow> (schedule_error + string) \<times> schedule_maps"
where
  "effective_schedule env vbsc strategy st =
     (if bt_Frequency (vb_Spec vbsc) \<noteq> [] then
        (case be_ParseDuration env (bt_Frequency (vb_Spec vbsc)) of
           Inl err \<Rightarrow> (Inl (TerminalErr (''invalid frequency: '' @ err)), st)
         | Inr freq \<Rightarrow>
             (case generateCronFromFrequency (be_ParseStandard env) freq (bs_Cluster (vb_Spec vbsc))
                     (sg_Keyspace strategy) (sg_Shard strategy) (sg_Name strategy) of
                Inl err \<Rightarrow> (Inl (TerminalErr err), st)
              | Inr generated \<Rightarrow>
                  (Inr generated,
                   st\<lparr>sm_GeneratedSchedules := AList.update (sg_Name strategy) generated (sm_GeneratedSchedules st)\<rparr>)))
      else (Inr (bt_Schedule (vb_Spec vbsc)),
            st\<lparr>sm_GeneratedSchedules := AList.delete (sg_Name strategy) (sm_GeneratedSchedules st)\<rparr>))"

abbreviation set_next :: "backup_strategy \<Rightarrow> int \<Rightarrow> schedule_maps \<Rightarrow> schedule_maps" where
  "set_next strategy t st \<equiv> st\<lparr>sm_NextScheduledTimes := AList.update (sg_Name strategy) t (sm_NextScheduledTimes st)\<rparr>"

abbreviation set_last :: "backup_strategy \<Rightarrow> int \<Rightarrow> schedule_maps \<Rightarrow> schedule_maps" where
  "set_last strategy t st \<equiv> st\<lparr>sm_LastScheduledTimes := AList.update (sg_Name strategy) t (sm_LastScheduledTimes st)\<rparr>"

definition job_phase ::
    "schedule_env \<Rightarrow> backup_schedule \<Rightarrow> backup_strategy \<Rightarrow> VitessKeyRange \<Rightarrow> int \<Rightarrow> int \<Rightarrow> schedule_maps
     \<Rightarrow> schedule_error builder \<Rightarrow> strategy_result option"
where
  "job_phase env vbsc strategy vkr missedRun nextRun st b =
     (case createJob env vbsc strategy missedRun vkr of
        None \<Rightarrow> None
      | Some (es, Inl WaitingForShardBootstrap) \<Rightarrow> Some (es, set_next strategy nextRun st, b)
      | Some (es, Inl (JobError err)) \<Rightarrow> Some (es, st, builder_Error (Some (TerminalErr err)) b)
      | Some (es, Inr job) \<Rightarrow>
          (case be_create_job env (cj_Name job) of
             Some ApiAlreadyExists \<Rightarrow> Some (es @ [CreateJob job], st, b)
           | Some err \<Rightarrow> Some (es @ [CreateJob job], st, builder_Error (Some (ApiErr err)) b)
           | None \<Rightarrow> Some (es @ [CreateJob job], set_next strategy nextRun (set_last strategy missedRun st), b)))"

definition too_late :: "schedule_env \<Rightarrow> backup_schedule \<Rightarrow> backup_strategy \<Rightarrow> int \<Rightarrow> bool" where
  "too_late env vbsc strategy missedRun =
     (case bt_StartingDeadlineSeconds (vb_Spec vbsc) of
        None \<Rightarrow> False
      | Some s \<Rightarrow> missedRun + int64 (1000000000 * s) < be_now env (sg_Name strategy) 2)"

definition schedule_phase ::
    "schedule_env \<Rightarrow> backup_schedule \<Rightarrow> backup_strategy \<Rightarrow> VitessKeyRange \<Rightarrow> jobs_list \<Rightarrow> int option \<Rightarrow> schedule_maps
     \<Rightarrow> strategy_result option"
where
  "schedule_phase env vbsc strategy vkr jobs mostRecentTime st =
     (case effective_schedule env vbsc strategy st of
        (Inl err, st) \<Rightarrow> Some ([], st, builder_Error (Some err) empty_builder)
      | (Inr effectiveSchedule, st) \<Rightarrow>
          (case getNextSchedule (be_ParseStandard env) effectiveSchedule vbsc (be_now env (sg_Name strategy) 0) mostRecentTime of
             Inl err \<Rightarrow> Some ([], st, builder_Error (Some (TerminalErr err)) empty_builder)
           | Inr (missedRun, nextRun) \<Rightarrow>
               if missedRun = zero_time then Some ([], set_next strategy nextRun st, empty_builder)
               else
                 (let requeueAfter = nextRun - be_now env (sg_Name strategy) 1;
                      b = builder_RequeueAfter requeueAfter empty_builder
                  in if too_late env vbsc strategy missedRun then Some ([], set_next strategy nextRun st, b)
                     else if bt_ConcurrencyPolicy (vb_Spec vbsc) = ForbidConcurrent \<and> jl_active jobs \<noteq> []
                     then Some ([], set_next strategy nextRun st, b)
                     else job_phase env vbsc strategy vkr missedRun nextRun st b)))"

definition reconcileStrategy ::
    "schedule_env \<Rightarrow> backup_schedule \<Rightarrow> backup_strategy \<Rightarrow> schedule_maps \<Rightarrow> strategy_result option"
where
  "reconcileStrategy env vbsc strategy st =
     (case cut_at CHR ''-'' (sg_Shard strategy) of
        None \<Rightarrow> Some ([], st, builder_Error (Some (PlainErr (''invalid strategy shard: '' @ sg_Shard strategy))) empty_builder)
      | Some (start, stop) \<Rightarrow>
          (let vkr = VitessKeyRange start stop
           in case getJobsList env (sg_Keyspace strategy) (KeyRange_SafeName vkr) of
                Inl err \<Rightarrow> Some ([], st, builder_Error (Some err) empty_builder)
              | Inr (jobs, mostRecentTime) \<Rightarrow>
                  (let es1 = cleanupJobsWithLimit env (jl_failed jobs) (GetFailedJobsLimit (vb_Spec vbsc))
                             @ cleanupJobsWithLimit env (jl_successful jobs) (GetSuccessfulJobsLimit (vb_Spec vbsc))
                   in case removeTimeoutJobs env (sg_Name strategy) (jl_active jobs) (bt_JobTimeoutMinutes (vb_Spec vbsc)) of
                        None \<Rightarrow> None
                      | Some (es2, Some err) \<Rightarrow> Some (es1 @ es2, st, builder_Error (Some (PlainErr err)) empty_builder)
                      | Some (es2, None) \<Rightarrow>
                          (case schedule_phase env vbsc strategy vkr jobs mostRecentTime st of
                             None \<Rightarrow> None
                           | Some (es3, st, b) \<Rightarrow> Some (es1 @ es2 @ es3, st, b)))))"

section \<open>The pass over a schedule\<close>

abbreviation merge_builder :: "'e builder \<Rightarrow> 'e builder \<Rightarrow> 'e builder" where
  "merge_builder r b \<equiv> builder_Merge (result r) (firstErr r) b"

fun run_strategies ::
    "schedule_env \<Rightarrow> backup_schedule \<Rightarrow> backup_strategy list \<Rightarrow> strategy_result \<Rightarrow> strategy_result option"
where
  "run_strategies env vbsc [] acc = Some acc"
| "run_strategies env vbsc (s # rest) (es, st, b) =
     (case reconcileStrategy env vbsc s st of
        None \<Rightarrow> None
      | Some (es', st', r) \<Rightarrow> run_strategies env vbsc rest (es @ es', st', merge_builder r b))"

text \<open>The loop over the strategies of the schedule, and the names it has seen.\<close>

fun expand_loop ::
    "schedule_env \<Rightarrow> backup_schedule \<Rightarrow> strategy_expansion \<Rightarrow> backup_strategy list \<Rightarrow> string list \<Rightarrow> strategy_result
     \<Rightarrow> (strategy_result \<times> string list) option"
where
  "expand_loop env vbsc ctx [] active acc = Some (acc, active)"
| "expand_loop env vbsc ctx (s # rest) active (es, st, b) =
     (case expandStrategy s ctx of
        Inl err \<Rightarrow> expand_loop env vbsc ctx rest active (es, st, builder_Error (Some (PlainErr err)) b)
      | Inr expanded \<Rightarrow>
          (case run_strategies env vbsc expanded (es, st, b) of
             None \<Rightarrow> None
           | Some acc \<Rightarrow> expand_loop env vbsc ctx rest (active @ map sg_Name expanded) acc))"

definition drop_stale :: "string list \<Rightarrow> schedule_maps \<Rightarrow> schedule_maps" where
  "drop_stale active st =
     \<lparr>sm_LastScheduledTimes = filter (\<lambda>(name, _). name \<in> set active) (sm_LastScheduledTimes st),
      sm_GeneratedSchedules = filter (\<lambda>(name, _). name \<in> set active) (sm_GeneratedSchedules st),
      sm_NextScheduledTimes = filter (\<lambda>(name, _). name \<in> set active) (sm_NextScheduledTimes st)\<rparr>"

definition reconcileStrategies :: "schedule_env \<Rightarrow> backup_schedule \<Rightarrow> schedule_maps \<Rightarrow> strategy_result option" where
  "reconcileStrategies env vbsc st =
     (let fail = (\<lambda>err. Some ([], st, builder_Error (Some err) empty_builder))
      in case ValidateScheduleConfig (be_ParseDuration env) (vb_Spec vbsc) of
           Some err \<Rightarrow> fail (TerminalErr err)
         | None \<Rightarrow>
      (case ValidateStrategies (vb_Spec vbsc) of
           Some err \<Rightarrow> fail (TerminalErr err)
         | None \<Rightarrow>
      (case validateNoDuplicateEffectiveShardTargets env vbsc of
           Some err \<Rightarrow> fail (TerminalErr err)
         | None \<Rightarrow>
      (case buildStrategyExpansionContext env 1 vbsc of
           Inl err \<Rightarrow> fail (PlainErr err)
         | Inr ctx \<Rightarrow>
             (case expand_loop env vbsc ctx (bt_Strategy (vb_Spec vbsc)) [] ([], st, empty_builder) of
                None \<Rightarrow> None
              | Some ((es, st, b), active) \<Rightarrow> Some (es, drop_stale active st, b))))))"

text \<open>
  The saved status is compared with a copy of the whole object, which is of another type, so it is always
  written.
\<close>

definition schedule_Reconcile ::
    "schedule_env \<Rightarrow> (schedule_effect list \<times> reconcile_result \<times> schedule_error option) option"
where
  "schedule_Reconcile env =
     (case be_get env of
        NoSuch \<Rightarrow> Some ([], builder_Result empty_builder)
      | FetchFailed err \<Rightarrow> Some ([], builder_Result (builder_Error (Some (ApiErr err)) empty_builder))
      | Fetched vbsc \<Rightarrow>
          if scheduleSuspended vbsc then Some ([], builder_Result empty_builder)
          else (case reconcileStrategies env vbsc (NewVitessBackupScheduleStatus (vb_Status vbsc)) of
              None \<Rightarrow> None
            | Some (es, st, r) \<Rightarrow>
                (let b = merge_builder r empty_builder;
                     b = (case be_update_status env of None \<Rightarrow> b | Some err \<Rightarrow> builder_Error (Some (ApiErr err)) b)
                 in Some (es @ [UpdateScheduleStatus st, EnqueueResync], builder_Result b))))"

section \<open>Every target once\<close>

lemma mark_targets_Inr:
  "mark_targets ss seen = Inr seen' \<longleftrightarrow>
     distinct (map strategy_target ss) \<and> set (map strategy_target ss) \<inter> set seen = {}
     \<and> seen' = rev (map strategy_target ss) @ seen"
  by (induction ss arbitrary: seen) auto

lemma check_targets_None:
  assumes "check_targets ctx ss seen = None"
  shows "\<exists>ess. map (\<lambda>s. expandStrategy s ctx) ss = map Inr ess \<and> distinct (map strategy_target (concat ess))
    \<and> set (map strategy_target (concat ess)) \<inter> set seen = {}"
  using assms
proof (induction ss arbitrary: seen)
  case Nil
  show ?case by (rule exI [of _ "[]"]) simp
next
  case (Cons s ss)
  then obtain es seen' where s: "expandStrategy s ctx = Inr es" "mark_targets es seen = Inr seen'" "check_targets ctx ss seen' = None"
    by (auto split: sum.splits)
  obtain ess where ess: "map (\<lambda>s. expandStrategy s ctx) ss = map Inr ess" "distinct (map strategy_target (concat ess))"
    "set (map strategy_target (concat ess)) \<inter> set seen' = {}"
    using Cons.IH [OF s(3)] by blast
  show ?case
    using s ess by (intro exI [of _ "es # ess"]) (auto simp: mark_targets_Inr)
qed

lemma expandToShards_expanded:
  "e \<in> set (expandToShards base ks shards) \<Longrightarrow>
     sg_Scope e = BackupScopeShard \<and> sg_Keyspace e = ks \<and> sg_Shard e \<in> set shards \<and> sg_ExtraFlags e = sg_ExtraFlags base"
  by (auto simp: expandToShards_def)

text \<open>Once a schedule passes validation, its strategies expand to pairwise different shards, whatever scopes they combine, so
  no shard is backed up twice in a pass; and a cluster-wide strategy leaves out every excluded keyspace, expanding only to
  shards that exist.\<close>

theorem schedule_targets_distinct:
  assumes "validateNoDuplicateExpandedShardTargets vbsc ctx = None"
  shows "\<exists>ess. map (\<lambda>s. expandStrategy s ctx) (bt_Strategy (vb_Spec vbsc)) = map Inr ess
    \<and> distinct (map (\<lambda>e. (sg_Keyspace e, sg_Shard e)) (concat ess))
    \<and> (\<forall>s es e. s \<in> set (bt_Strategy (vb_Spec vbsc)) \<longrightarrow> sg_Scope s = BackupScopeCluster \<longrightarrow>
         expandStrategy s ctx = Inr es \<longrightarrow> e \<in> set es \<longrightarrow>
         sg_Keyspace e \<notin> set (sx_excludedKeyspaces ctx)
         \<and> (\<exists>shards. (sg_Keyspace e, shards) \<in> set (sx_allKeyspaces ctx) \<and> sg_Shard e \<in> set shards))"
proof -
  obtain ess where ess: "map (\<lambda>s. expandStrategy s ctx) (bt_Strategy (vb_Spec vbsc)) = map Inr ess"
    "distinct (map strategy_target (concat ess))"
    using check_targets_None assms unfolding validateNoDuplicateExpandedShardTargets_def by blast
  have "distinct (map (\<lambda>e. (sg_Keyspace e, sg_Shard e)) (concat ess))"
  proof (rule distinct_map [THEN iffD2], intro conjI)
    show "distinct (concat ess)" using ess(2) unfolding distinct_map by blast
    show "inj_on (\<lambda>e. (sg_Keyspace e, sg_Shard e)) (set (concat ess))"
    proof (rule inj_onI)
      fix e f assume "e \<in> set (concat ess)" "f \<in> set (concat ess)" "(sg_Keyspace e, sg_Shard e) = (sg_Keyspace f, sg_Shard f)"
      moreover from this have "strategy_target e = strategy_target f" by (simp add: strategy_target_def)
      ultimately show "e = f" using ess(2) unfolding distinct_map by (auto dest: inj_onD)
    qed
  qed
  then show ?thesis
    using ess(1)
    by (intro exI [of _ ess])
      (auto simp: expandStrategy_def Let_def BackupScopeShard_def BackupScopeKeyspace_def BackupScopeCluster_def
        dest!: expandToShards_expanded)
qed

section \<open>Removing old jobs\<close>

lemma cleanup_loop_take:
  assumes "0 \<le> sint limit" "int n < 2 ^ 31" "i + length jobs = n" "m = n - nat (sint limit) - i"
  shows "cleanup_loop env limit n i jobs = concat (map (remove_job env) (take m jobs))"
  using assms(3,4)
proof (induction jobs arbitrary: i m)
  case (Cons job jobs)
  have i: "sint (of_nat i :: 32 word) = int i"
    using Cons.prems assms(2) sint_of_int32 [of "int i"] by simp
  have "- (2 ^ 31) \<le> int n - sint limit" "int n - sint limit < 2 ^ 31"
    using assms(1,2) sint_range_size [of limit] by (auto simp: word_size)
  then have n: "sint (of_nat n - limit) = int n - sint limit"
    using sint_of_int32 [of "int n - sint limit"] by simp
  show ?case
  proof (cases "int i \<ge> int n - sint limit")
    case True
    then have "m = 0" using Cons.prems by simp
    then show ?thesis using True by (simp add: i n)
  next
    case False
    then obtain k where k: "m = Suc k" "k = n - nat (sint limit) - Suc i"
      using Cons.prems by (cases m) auto
    then show ?thesis using False Cons.IH [of "Suc i" k] Cons.prems by (simp add: i n)
  qed
qed simp

text \<open>C36: With a limit of \<open>L\<close> jobs, the cleanup removes the oldest jobs, in order of their start with the ones that never
  started first, and keeps exactly the \<open>L\<close> newest, or all if there are fewer; without a limit it removes none.\<close>

theorem cleanupJobsWithLimit_spec:
  assumes "int (length jobs) < 2 ^ 31"
  shows "cleanupJobsWithLimit env jobs (- 1) = []
    \<and> (0 \<le> sint limit \<longrightarrow> cleanupJobsWithLimit env jobs limit =
        concat (map (remove_job env) (take (length jobs - nat (sint limit)) (sort_key jb_StartTime jobs))))"
proof (intro conjI impI)
  show "cleanupJobsWithLimit env jobs (- 1) = []" by (simp add: cleanupJobsWithLimit_def)
  assume limit: "0 \<le> sint limit"
  then have "limit \<noteq> - 1" by auto
  then show "cleanupJobsWithLimit env jobs limit =
      concat (map (remove_job env) (take (length jobs - nat (sint limit)) (sort_key jb_StartTime jobs)))"
    using cleanup_loop_take [OF limit assms, of 0 "sort_key jb_StartTime jobs"] by (simp add: cleanupJobsWithLimit_def)
qed

section \<open>When a job is created\<close>

text \<open>The effects of the parts, as far as jobs are concerned.\<close>

lemma remove_job_effects:
  "CreateJob j \<notin> set (remove_job env job)" "DeleteJob n \<in> set (remove_job env job) \<longleftrightarrow> n = jb_Name job"
  by (auto simp: remove_job_def remove_pvc_def split: option.split api_error.split)

lemma cleanup_loop_effects:
  "CreateJob j \<notin> set (cleanup_loop env limit n i jobs)"
  "DeleteJob name \<in> set (cleanup_loop env limit n i jobs) \<Longrightarrow> name \<in> jb_Name ` set jobs"
  by (induction jobs arbitrary: i) (auto simp: remove_job_effects split: if_splits)

lemma cleanup_effects:
  "CreateJob j \<notin> set (cleanupJobsWithLimit env jobs limit)"
  "DeleteJob name \<in> set (cleanupJobsWithLimit env jobs limit) \<Longrightarrow> name \<in> jb_Name ` set jobs"
  by (auto simp: cleanupJobsWithLimit_def cleanup_loop_effects(1) dest!: cleanup_loop_effects(2) split: if_splits)

definition timed_out :: "schedule_env \<Rightarrow> string \<Rightarrow> 32 word \<Rightarrow> kjob \<Rightarrow> bool" where
  "timed_out env sname timeout job \<longleftrightarrow> (\<exists>t i. getScheduledTimeForJob env job = Inr (Some t)
     \<and> t + int64 (60000000000 * sint timeout) < be_now env sname (4 + i))"

lemma timeout_loop_effects:
  assumes "timeout_loop env sname timeout i jobs = Some (es, err)"
  shows "CreateJob j \<notin> set es"
    and "DeleteJob name \<in> set es \<Longrightarrow> \<exists>job \<in> set jobs. name = jb_Name job \<and> timed_out env sname timeout job"
  using assms
proof (induction jobs arbitrary: i es err)
  case (Cons job jobs)
  { case 1 then show ?case using Cons.IH(1) by (auto simp: remove_job_effects split: sum.splits option.splits if_splits) }
  { case 2 then show ?case using Cons.IH(2)
      by (fastforce simp: remove_job_effects timed_out_def split: sum.splits option.splits if_splits) }
qed auto

lemma removeTimeoutJobs_effects:
  assumes "removeTimeoutJobs env sname jobs timeout = Some (es, err)"
  shows "CreateJob j \<notin> set es"
    and "DeleteJob name \<in> set es \<Longrightarrow> \<exists>job \<in> set jobs. name = jb_Name job \<and> timed_out env sname timeout job"
  using assms timeout_loop_effects [of env sname timeout 0 jobs es err]
  by (auto simp: removeTimeoutJobs_def split: if_splits)

lemma createJob_effects:
  assumes "createJob env vbsc s missedRun vkr = Some (es, r)"
  shows "CreateJob j \<notin> set es" "DeleteJob n \<notin> set es"
  using assms
  by (auto simp: createJob_def createVtctldclientJob_def createVtbackupJob_def Let_def
      split: option.splits sum.splits if_splits prod.splits api_error.splits)

text \<open>A run is due: it was missed, it is not too late for it, and concurrency does not forbid it.\<close>

definition due_run ::
    "schedule_env \<Rightarrow> backup_schedule \<Rightarrow> backup_strategy \<Rightarrow> schedule_maps \<Rightarrow> jobs_list \<Rightarrow> int option \<Rightarrow> int \<Rightarrow> int \<Rightarrow> bool"
where
  "due_run env vbsc s st jobs mostRecentTime missedRun nextRun \<longleftrightarrow>
     (\<exists>cron. fst (effective_schedule env vbsc s st) = Inr cron
        \<and> getNextSchedule (be_ParseStandard env) cron vbsc (be_now env (sg_Name s) 0) mostRecentTime = Inr (missedRun, nextRun))
     \<and> missedRun \<noteq> zero_time \<and> \<not> too_late env vbsc s missedRun
     \<and> \<not> (bt_ConcurrencyPolicy (vb_Spec vbsc) = ForbidConcurrent \<and> jl_active jobs \<noteq> [])"

fun creates :: "schedule_effect \<Rightarrow> bool" where
  "creates (CreateJob j) = True" | "creates _ = False"

lemma filter_creates_none: "(\<And>j. CreateJob j \<notin> set es) \<Longrightarrow> filter creates es = []"
  by (auto simp: filter_empty_conv elim: creates.elims)

lemma effective_schedule_last:
  "sm_LastScheduledTimes (snd (effective_schedule env vbsc s st)) = sm_LastScheduledTimes st"
  by (auto simp: effective_schedule_def split: sum.splits)

lemma schedule_phase_spec:
  assumes "schedule_phase env vbsc s vkr jobs mr st = Some (es, st', b)"
  shows "filter creates es = [] \<and> sm_LastScheduledTimes st' = sm_LastScheduledTimes st
    \<or> (\<exists>missedRun nextRun es' job. due_run env vbsc s st jobs mr missedRun nextRun
         \<and> createJob env vbsc s missedRun vkr = Some (es', Inr job) \<and> filter creates es = [CreateJob job]
         \<and> (sm_LastScheduledTimes st' =
             (if be_create_job env (cj_Name job) = None
              then AList.update (sg_Name s) missedRun (sm_LastScheduledTimes st) else sm_LastScheduledTimes st)))"
    and "DeleteJob n \<notin> set es"
proof -
  obtain r st1 where eff: "effective_schedule env vbsc s st = (r, st1)" by fastforce
  have last: "sm_LastScheduledTimes st1 = sm_LastScheduledTimes st"
    using effective_schedule_last [of env vbsc s st] eff by simp
  have phase: "(filter creates es = [] \<and> sm_LastScheduledTimes st' = sm_LastScheduledTimes st \<and> DeleteJob n \<notin> set es)
      \<or> (\<exists>missedRun nextRun cron b'. r = Inr cron
          \<and> getNextSchedule (be_ParseStandard env) cron vbsc (be_now env (sg_Name s) 0) mr = Inr (missedRun, nextRun)
          \<and> missedRun \<noteq> zero_time \<and> \<not> too_late env vbsc s missedRun
          \<and> \<not> (bt_ConcurrencyPolicy (vb_Spec vbsc) = ForbidConcurrent \<and> jl_active jobs \<noteq> [])
          \<and> job_phase env vbsc s vkr missedRun nextRun st1 b' = Some (es, st', b))"
    using assms eff last by (auto simp: schedule_phase_def Let_def split: sum.splits if_splits prod.splits)
  have job: "DeleteJob n \<notin> set es \<and> (filter creates es = [] \<and> sm_LastScheduledTimes st' = sm_LastScheduledTimes st
      \<or> (\<exists>es' job. createJob env vbsc s missedRun vkr = Some (es', Inr job) \<and> filter creates es = [CreateJob job]
         \<and> (sm_LastScheduledTimes st' =
             (if be_create_job env (cj_Name job) = None
              then AList.update (sg_Name s) missedRun (sm_LastScheduledTimes st) else sm_LastScheduledTimes st))))"
    if job: "job_phase env vbsc s vkr missedRun nextRun st1 b' = Some (es, st', b)" for missedRun nextRun b'
  proof (cases "createJob env vbsc s missedRun vkr")
    case (Some x)
    obtain es' res where x: "x = (es', res)" by (cases x)
    note eff = createJob_effects [OF Some [unfolded x]]
    show ?thesis
      using job Some x eff filter_creates_none [of es'] last
      by (auto simp: job_phase_def split: sum.splits job_error.splits option.splits api_error.splits)
  qed (use job in \<open>simp add: job_phase_def\<close>)
  show "DeleteJob n \<notin> set es" using phase job by blast
  show "filter creates es = [] \<and> sm_LastScheduledTimes st' = sm_LastScheduledTimes st
    \<or> (\<exists>missedRun nextRun es' job. due_run env vbsc s st jobs mr missedRun nextRun
         \<and> createJob env vbsc s missedRun vkr = Some (es', Inr job) \<and> filter creates es = [CreateJob job]
         \<and> (sm_LastScheduledTimes st' =
             (if be_create_job env (cj_Name job) = None
              then AList.update (sg_Name s) missedRun (sm_LastScheduledTimes st) else sm_LastScheduledTimes st)))"
    using phase
  proof (elim disjE exE conjE)
    fix missedRun nextRun cron b'
    assume *: "r = Inr cron"
      "getNextSchedule (be_ParseStandard env) cron vbsc (be_now env (sg_Name s) 0) mr = Inr (missedRun, nextRun)"
      "missedRun \<noteq> zero_time" "\<not> too_late env vbsc s missedRun"
      "\<not> (bt_ConcurrencyPolicy (vb_Spec vbsc) = ForbidConcurrent \<and> jl_active jobs \<noteq> [])"
      "job_phase env vbsc s vkr missedRun nextRun st1 b' = Some (es, st', b)"
    have "due_run env vbsc s st jobs mr missedRun nextRun"
      using * eff by (simp add: due_run_def)
    then show ?thesis using job [OF *(6)] by blast
  qed simp
qed


lemma schedule_phase_live:
  assumes "due_run env vbsc s st jobs mr missedRun nextRun" "createJob env vbsc s missedRun vkr = Some (es', Inr job)"
  shows "\<exists>st' b. schedule_phase env vbsc s vkr jobs mr st = Some (es' @ [CreateJob job], st', b)"
proof -
  obtain r st1 where eff: "effective_schedule env vbsc s st = (r, st1)" by fastforce
  have "schedule_phase env vbsc s vkr jobs mr st = job_phase env vbsc s vkr missedRun nextRun st1
      (builder_RequeueAfter (nextRun - be_now env (sg_Name s) 1) empty_builder)"
    using assms(1) eff by (auto simp: due_run_def schedule_phase_def Let_def)
  then show ?thesis using assms(2) by (auto simp: job_phase_def split: option.split api_error.split)
qed

definition schedule_jobs :: "schedule_env \<Rightarrow> backup_strategy \<Rightarrow> VitessKeyRange \<Rightarrow> jobs_list \<Rightarrow> int option \<Rightarrow> bool" where
  "schedule_jobs env s vkr jobs mostRecentTime \<longleftrightarrow>
     cut_at CHR ''-'' (sg_Shard s) = Some (kr_Start vkr, kr_End vkr)
     \<and> getJobsList env (sg_Keyspace s) (KeyRange_SafeName vkr) = Inr (jobs, mostRecentTime)"

lemma reconcileStrategy_run:
  assumes "reconcileStrategy env vbsc s st = Some (es, st', b)"
  shows "es = [] \<and> st' = st \<or> (\<exists>vkr jobs mr es2 err. schedule_jobs env s vkr jobs mr
    \<and> removeTimeoutJobs env (sg_Name s) (jl_active jobs) (bt_JobTimeoutMinutes (vb_Spec vbsc)) = Some (es2, err)
    \<and> (let es1 = cleanupJobsWithLimit env (jl_failed jobs) (GetFailedJobsLimit (vb_Spec vbsc))
               @ cleanupJobsWithLimit env (jl_successful jobs) (GetSuccessfulJobsLimit (vb_Spec vbsc))
       in if err = None then \<exists>es3 b'. schedule_phase env vbsc s vkr jobs mr st = Some (es3, st', b') \<and> es = es1 @ es2 @ es3
          else es = es1 @ es2 \<and> st' = st))"
proof -
  consider "es = []" "st' = st" | start stop where "cut_at CHR ''-'' (sg_Shard s) = Some (start, stop)"
    "\<exists>x. getJobsList env (sg_Keyspace s) (KeyRange_SafeName (VitessKeyRange start stop)) = Inr x"
    using assms by (auto simp: reconcileStrategy_def Let_def split: option.splits sum.splits prod.splits)
  then show ?thesis
  proof cases
    case (2 start stop)
    then obtain jobs mr where jobs: "schedule_jobs env s (VitessKeyRange start stop) jobs mr"
      by (auto simp: schedule_jobs_def)
    obtain es2 err where rem: "removeTimeoutJobs env (sg_Name s) (jl_active jobs) (bt_JobTimeoutMinutes (vb_Spec vbsc)) = Some (es2, err)"
      using assms jobs by (auto simp: reconcileStrategy_def schedule_jobs_def Let_def split: option.splits)
    show ?thesis
      using assms jobs rem
      by (intro disjI2 exI [of _ "VitessKeyRange start stop"] exI [of _ jobs] exI [of _ mr] exI [of _ es2] exI [of _ err])
        (auto simp: reconcileStrategy_def schedule_jobs_def Let_def split: option.splits)
  qed simp
qed

lemma cleanup_creates_none: "filter creates (cleanupJobsWithLimit env jobs limit) = []"
  by (rule filter_creates_none [OF cleanup_effects(1)])

lemma removeTimeoutJobs_creates_none:
  "removeTimeoutJobs env sname jobs timeout = Some (es, err) \<Longrightarrow> filter creates es = []"
  by (rule filter_creates_none [OF removeTimeoutJobs_effects(1)])

lemma reconcileStrategy_creates:
  assumes run: "reconcileStrategy env vbsc s st = Some (es, st', b)"
  shows "filter creates es = [] \<and> sm_LastScheduledTimes st' = sm_LastScheduledTimes st
      \<or> (\<exists>vkr jobs mr missedRun nextRun es' job. schedule_jobs env s vkr jobs mr
           \<and> due_run env vbsc s st jobs mr missedRun nextRun
           \<and> createJob env vbsc s missedRun vkr = Some (es', Inr job) \<and> filter creates es = [CreateJob job]
           \<and> (sm_LastScheduledTimes st' =
               (if be_create_job env (cj_Name job) = None
                then AList.update (sg_Name s) missedRun (sm_LastScheduledTimes st) else sm_LastScheduledTimes st)))"
  using reconcileStrategy_run [OF run]
proof (elim disjE exE conjE)
  fix vkr mr es2 err and jobs :: jobs_list
  let ?es1 = "cleanupJobsWithLimit env (jl_failed jobs) (GetFailedJobsLimit (vb_Spec vbsc))
              @ cleanupJobsWithLimit env (jl_successful jobs) (GetSuccessfulJobsLimit (vb_Spec vbsc))"
  assume jobs: "schedule_jobs env s vkr jobs mr"
    and rem: "removeTimeoutJobs env (sg_Name s) (jl_active jobs) (bt_JobTimeoutMinutes (vb_Spec vbsc)) = Some (es2, err)"
    and es: "let es1 = ?es1 in if err = None
        then \<exists>es3 b'. schedule_phase env vbsc s vkr jobs mr st = Some (es3, st', b') \<and> es = es1 @ es2 @ es3
        else es = es1 @ es2 \<and> st' = st"
  have none: "filter creates (?es1 @ es2) = []"
    by (simp add: cleanup_creates_none removeTimeoutJobs_creates_none [OF rem])
  show ?thesis
  proof (cases err)
    case None
    then obtain es3 b' where es3: "schedule_phase env vbsc s vkr jobs mr st = Some (es3, st', b')" "es = (?es1 @ es2) @ es3"
      using es by (auto simp: Let_def)
    have "filter creates es = filter creates es3" using none by (simp add: es3(2))
    then show ?thesis using schedule_phase_spec(1) [OF es3(1)] jobs by metis
  next
    case (Some e)
    then have "es = ?es1 @ es2 \<and> st' = st" using es by (simp add: Let_def)
    then show ?thesis using none by metis
  qed
qed simp

lemma reconcileStrategy_deletes:
  assumes run: "reconcileStrategy env vbsc s st = Some (es, st', b)" and n: "DeleteJob n \<in> set es"
  shows "\<exists>vkr jobs mr job. schedule_jobs env s vkr jobs mr \<and> n = jb_Name job
    \<and> (job \<in> set (jl_failed jobs) \<or> job \<in> set (jl_successful jobs)
       \<or> job \<in> set (jl_active jobs) \<and> timed_out env (sg_Name s) (bt_JobTimeoutMinutes (vb_Spec vbsc)) job)"
  using reconcileStrategy_run [OF run]
proof (elim disjE exE conjE)
  fix vkr mr es2 err and jobs :: jobs_list
  let ?es1 = "cleanupJobsWithLimit env (jl_failed jobs) (GetFailedJobsLimit (vb_Spec vbsc))
              @ cleanupJobsWithLimit env (jl_successful jobs) (GetSuccessfulJobsLimit (vb_Spec vbsc))"
  assume jobs: "schedule_jobs env s vkr jobs mr"
    and rem: "removeTimeoutJobs env (sg_Name s) (jl_active jobs) (bt_JobTimeoutMinutes (vb_Spec vbsc)) = Some (es2, err)"
    and es: "let es1 = ?es1 in if err = None
        then \<exists>es3 b'. schedule_phase env vbsc s vkr jobs mr st = Some (es3, st', b') \<and> es = es1 @ es2 @ es3
        else es = es1 @ es2 \<and> st' = st"
  have "DeleteJob n \<in> set (?es1 @ es2)"
    using es n schedule_phase_spec(2) by (auto simp: Let_def split: if_splits)
  then consider "n \<in> jb_Name ` set (jl_failed jobs)" | "n \<in> jb_Name ` set (jl_successful jobs)"
    | job where "job \<in> set (jl_active jobs)" "n = jb_Name job"
        "timed_out env (sg_Name s) (bt_JobTimeoutMinutes (vb_Spec vbsc)) job"
    by (auto dest!: cleanup_effects(2) removeTimeoutJobs_effects(2) [OF rem])
  then show ?thesis using jobs by cases blast+
qed (use n in simp)

lemma reconcileStrategy_phase:
  assumes "schedule_jobs env s vkr jobs mr"
    and "removeTimeoutJobs env (sg_Name s) (jl_active jobs) (bt_JobTimeoutMinutes (vb_Spec vbsc)) = Some (es2, None)"
    and "schedule_phase env vbsc s vkr jobs mr st = Some (es3, st', b)"
  shows "reconcileStrategy env vbsc s st =
    Some (cleanupJobsWithLimit env (jl_failed jobs) (GetFailedJobsLimit (vb_Spec vbsc))
          @ cleanupJobsWithLimit env (jl_successful jobs) (GetSuccessfulJobsLimit (vb_Spec vbsc)) @ es2 @ es3, st', b)"
proof -
  have "vkr = VitessKeyRange (kr_Start vkr) (kr_End vkr)" by simp
  then show ?thesis using assms by (auto simp: reconcileStrategy_def schedule_jobs_def Let_def)
qed

text \<open>C34: A pass over a strategy creates at most one job, and only when a run is due: a firing time was missed, its starting
  deadline has not passed, and no job is active if the concurrency policy is \<open>Forbid\<close>; the job is then the one built for that run.
  The last scheduled time of the strategy moves only to the run of a job whose creation succeeded.  The pass deletes a job
  only if it finished, or it is active and its timeout has passed.  That is so whatever the policy: the API documentation describes a
  policy \<open>Replace\<close> that cancels the running job and replaces it, but the code knows no such policy and never
  cancels an active job before its timeout; every value but \<open>Forbid\<close> acts as \<open>Allow\<close>.\<close>

theorem reconcileStrategy_safe:
  assumes "reconcileStrategy env vbsc s st = Some (es, st', b)"
  shows "(filter creates es = [] \<and> sm_LastScheduledTimes st' = sm_LastScheduledTimes st
      \<or> (\<exists>vkr jobs mr missedRun nextRun es' job. schedule_jobs env s vkr jobs mr
           \<and> due_run env vbsc s st jobs mr missedRun nextRun
           \<and> createJob env vbsc s missedRun vkr = Some (es', Inr job) \<and> filter creates es = [CreateJob job]
           \<and> (sm_LastScheduledTimes st' =
               (if be_create_job env (cj_Name job) = None
                then AList.update (sg_Name s) missedRun (sm_LastScheduledTimes st) else sm_LastScheduledTimes st))))
    \<and> (\<forall>n. DeleteJob n \<in> set es \<longrightarrow> (\<exists>vkr jobs mr job. schedule_jobs env s vkr jobs mr \<and> n = jb_Name job
         \<and> (job \<in> set (jl_failed jobs) \<or> job \<in> set (jl_successful jobs)
            \<or> job \<in> set (jl_active jobs) \<and> timed_out env (sg_Name s) (bt_JobTimeoutMinutes (vb_Spec vbsc)) job)))"
  using reconcileStrategy_creates [OF assms] reconcileStrategy_deletes [OF assms] by (intro conjI allI impI) assumption+

text \<open>C35: Conversely no due run is forgotten: when the jobs of the shard can be listed and the timed-out ones removed, and the job
  of the due run can be built, the pass returns and asks for that job to be created, as its last effect.\<close>

theorem reconcileStrategy_live:
  assumes "schedule_jobs env s vkr jobs mr"
    and "removeTimeoutJobs env (sg_Name s) (jl_active jobs) (bt_JobTimeoutMinutes (vb_Spec vbsc)) = Some (es2, None)"
    and "due_run env vbsc s st jobs mr missedRun nextRun"
    and "createJob env vbsc s missedRun vkr = Some (es', Inr job)"
  shows "\<exists>es st' b. reconcileStrategy env vbsc s st = Some (es @ [CreateJob job], st', b)"
proof -
  obtain st' b where "schedule_phase env vbsc s vkr jobs mr st = Some (es' @ [CreateJob job], st', b)"
    using schedule_phase_live [OF assms(3,4)] by blast
  from reconcileStrategy_phase [OF assms(1,2) this] show ?thesis by (auto simp flip: append_assoc)
qed

text \<open>C37: A vtbackup run cannot be retried once its volume claim exists: building its job makes the claim first, and whenever a
  later pass finds that claim, as it does when the creation of the job failed, it builds no job for the run again.\<close>

theorem vtbackup_retry_blocked:
  assumes "createJob env vbsc s missedRun vkr = Some (es, Inr job)"
    and "backup_method vbsc \<noteq> BackupMethodVtctldclient"
  shows "(\<exists>template. es = [CreatePVC (cj_Name job) template])
    \<and> (\<forall>env'. be_get_pvc env' (cj_Name job) = None \<longrightarrow>
         (case createJob env' vbsc s missedRun vkr of None \<Rightarrow> True | Some (es', r) \<Rightarrow> es' = [] \<and> (\<exists>err. r = Inl err)))"
proof -
  obtain name where name: "backup_job_name vbsc s missedRun vkr = Some name"
    using assms(1) by (auto simp: createJob_def split: option.splits)
  have "cj_Name job = name \<and> (\<exists>template. es = [CreatePVC name template])"
    using assms name
    by (auto simp: createJob_def createVtbackupJob_def Let_def
        split: option.splits sum.splits prod.splits if_splits api_error.splits)
  then show ?thesis
    using assms(2) name
    by (auto simp: createJob_def createVtbackupJob_def Let_def split: option.splits sum.splits prod.splits)
qed

section \<open>A schedule at work\<close>

definition schedule_example :: backup_schedule where
  "schedule_example = \<lparr>vb_Name = ''nightly'', vb_Namespace = ''ns'', vb_Labels = None, vb_Annotations = None,
    vb_CreationTimestamp = 5, vb_Spec = \<lparr>bt_Name = ''nightly'', bt_Schedule = ''x'', bt_Frequency = [], bt_BackupMethod = [],
      bt_Strategy = [\<lparr>sg_Name = ''s'', sg_Scope = [], sg_Keyspace = ''k'', sg_Shard = ''-'', sg_ExtraFlags = []\<rparr>],
      bt_Resources = \<lparr>limits = None, requests = None\<rparr>, bt_SuccessfulJobsHistoryLimit = None, bt_FailedJobsHistoryLimit = None,
      bt_Suspend = None, bt_StartingDeadlineSeconds = None, bt_ConcurrencyPolicy = ForbidConcurrent, bt_AllowedMissedRuns = None,
      bt_JobTimeoutMinutes = 10, bt_Annotations = None, bt_Affinity = None, bt_Tolerations = None,
      bs_Cluster = ''c'', bs_Image = [], bs_ImagePullPolicy = []\<rparr>,
    vb_Status = \<lparr>bk_LastScheduledTimes = None, bk_GeneratedSchedules = None, bk_NextScheduledTimes = None\<rparr>\<rparr>"

definition schedule_example_shard :: backup_shard where
  "schedule_example_shard = backup_example_shard\<lparr>bsh_Spec := bsh_Spec backup_example_shard
     \<lparr>st_TabletPools := [backup_example_pool\<lparr>tp_DataVolumeClaimTemplate := Some \<lparr>pvc_requests = None, pvc_rest = []\<rparr>\<rparr>]\<rparr>\<rparr>"

definition schedule_example_env :: schedule_env where
  "schedule_example_env =
     \<lparr>be_now = (\<lambda>s i. 34), be_ParseStandard = (\<lambda>s. Inr (\<lambda>t. 10 * (t div 10 + 1))), be_ParseDuration = (\<lambda>s. Inl []),
      be_ParseTime = (\<lambda>s. Inl []), be_FormatTime = (\<lambda>t. ''30''), be_rand = (\<lambda>n. 0),
      be_get = Fetched schedule_example, be_list_jobs = (\<lambda>k s. Inl ApiNotFound), be_list_keyspaces = (\<lambda>i c. Inr []),
      be_list_schedules = (\<lambda>i. Inr []), be_list_shards = (\<lambda>k. Inr [schedule_example_shard]),
      be_list_backups = (\<lambda>k s. Inr [\<lparr>vbk_Labels = Map.empty, vbk_Complete = True, vbk_StartTime = 1\<rparr>]),
      be_list_services = Inr [], be_get_cluster = Inl [], be_DefaultEtcdImage = ''etcd'',
      be_get_pvc = (\<lambda>n. Some ApiNotFound), be_create_pvc = (\<lambda>n. None), be_create_job = (\<lambda>n. None),
      be_set_owner = (\<lambda>b n. None), be_update_status = None,
      be_lib = example_lib\<rparr>"

lemmas schedule_example_defs =
  schedule_example_def schedule_example_env_def schedule_example_shard_def backup_example_shard_def backup_example_pool_def
  NewBackupPod_def vtbackup_tablet_spec_def NewPVC_def

abbreviation nightly_strategy :: backup_strategy where
  "nightly_strategy \<equiv> \<lparr>sg_Name = ''s'', sg_Scope = [], sg_Keyspace = ''k'', sg_Shard = ''-'', sg_ExtraFlags = []\<rparr>"

abbreviation example_maps :: schedule_maps where
  "example_maps \<equiv> \<lparr>sm_LastScheduledTimes = [], sm_GeneratedSchedules = [], sm_NextScheduledTimes = []\<rparr>"

abbreviation no_jobs :: jobs_list where
  "no_jobs \<equiv> \<lparr>jl_active = [], jl_successful = [], jl_failed = []\<rparr>"

lemma example_jobs:
  "schedule_jobs schedule_example_env nightly_strategy (VitessKeyRange [] []) no_jobs None"
  by (simp add: schedule_jobs_def getJobsList_def schedule_example_env_def)

lemma example_due:
  "due_run schedule_example_env schedule_example nightly_strategy example_maps no_jobs None 30 40"
  by (simp add: due_run_def effective_schedule_def schedule_example_defs getNextSchedule_def zero_time_def too_late_def
      missed_loop.simps GetMissedRunsLimit_def DefaultAllowedMissedRuns_def)

lemma example_job:
  "\<exists>es job. createJob schedule_example_env schedule_example nightly_strategy 30 (VitessKeyRange [] []) = Some (es, Inr job)"
proof -
  obtain name where name: "backup_job_name schedule_example nightly_strategy 30 (VitessKeyRange [] []) = Some name"
    using Join_total [of ServiceConstraints]
    by (auto simp: backup_job_name_def JoinWithConstraints_def ServiceConstraints_def hash_consts)
  then show ?thesis
    by (simp add: createJob_def createVtbackupJob_def createVtbackupJobPod_def schedule_example_defs getShardFromKeyspace_def
        KeyRange_String_def GetBackups_def getCompleteBackups_def MakeVtbackupSpec_def vtbackupSpec_def BackupLocation_def
        backup_method_def BackupMethodVtbackup_def BackupMethodVtctldclient_def Let_def)
qed

theorem reconcileStrategy_live_witness:
  "\<exists>es job st' b. reconcileStrategy schedule_example_env schedule_example nightly_strategy example_maps
     = Some (es @ [CreateJob job], st', b)"
proof -
  obtain es job where "createJob schedule_example_env schedule_example nightly_strategy 30 (VitessKeyRange [] []) = Some (es, Inr job)"
    using example_job by blast
  moreover have "removeTimeoutJobs schedule_example_env (sg_Name nightly_strategy) (jl_active no_jobs)
      (bt_JobTimeoutMinutes (vb_Spec schedule_example)) = Some ([], None)"
    by (simp add: removeTimeoutJobs_def)
  ultimately show ?thesis using reconcileStrategy_live [OF example_jobs _ example_due] by blast
qed

theorem reconcileStrategy_safe_witness:
  "\<exists>es st' b. reconcileStrategy schedule_example_env schedule_example nightly_strategy example_maps = Some (es, st', b)
     \<and> length (filter creates es) \<le> 1"
proof -
  obtain es st' b where run: "reconcileStrategy schedule_example_env schedule_example nightly_strategy example_maps = Some (es, st', b)"
  proof -
    obtain es3 st' b where "schedule_phase schedule_example_env schedule_example nightly_strategy (VitessKeyRange [] []) no_jobs None
        example_maps = Some (es3, st', b)"
      using example_job schedule_phase_live [OF example_due] by blast
    from reconcileStrategy_phase [OF example_jobs _ this] that show ?thesis by (simp add: removeTimeoutJobs_def)
  qed
  have "length (filter creates es) \<le> 1"
    using conjunct1 [OF reconcileStrategy_safe [OF run]] by auto
  then show ?thesis using run by blast
qed

theorem vtbackup_retry_blocked_witness:
  "\<exists>es job. createJob schedule_example_env schedule_example nightly_strategy 30 (VitessKeyRange [] []) = Some (es, Inr job)
     \<and> (case createJob (schedule_example_env\<lparr>be_get_pvc := \<lambda>n. None\<rparr>) schedule_example nightly_strategy 30 (VitessKeyRange [] []) of
          None \<Rightarrow> True | Some (es', r) \<Rightarrow> es' = [] \<and> (\<exists>err. r = Inl err))"
proof -
  obtain es job where job: "createJob schedule_example_env schedule_example nightly_strategy 30 (VitessKeyRange [] []) = Some (es, Inr job)"
    using example_job by blast
  have "backup_method schedule_example \<noteq> BackupMethodVtctldclient"
    by (simp add: backup_method_def schedule_example_def BackupMethodVtbackup_def BackupMethodVtctldclient_def)
  from conjunct2 [OF vtbackup_retry_blocked [OF job this], THEN spec, of "schedule_example_env\<lparr>be_get_pvc := \<lambda>n. None\<rparr>"] job
  show ?thesis by simp
qed

theorem schedule_targets_distinct_witness:
  "\<exists>ess. map (\<lambda>s. expandStrategy s (newStrategyExpansionContext [(''k'', [''-'']), (''l'', [''-80'', ''80-''])] [''k'']))
      [\<lparr>sg_Name = ''a'', sg_Scope = BackupScopeKeyspace, sg_Keyspace = ''k'', sg_Shard = [], sg_ExtraFlags = []\<rparr>,
       \<lparr>sg_Name = ''b'', sg_Scope = BackupScopeCluster, sg_Keyspace = [], sg_Shard = [], sg_ExtraFlags = []\<rparr>] = map Inr ess
    \<and> distinct (map (\<lambda>e. (sg_Keyspace e, sg_Shard e)) (concat ess))"
proof -
  let ?ctx = "newStrategyExpansionContext [(''k'', [''-'']), (''l'', [''-80'', ''80-''])] [''k'']"
  let ?ss = "[\<lparr>sg_Name = ''a'', sg_Scope = BackupScopeKeyspace, sg_Keyspace = ''k'', sg_Shard = [], sg_ExtraFlags = []\<rparr>,
       \<lparr>sg_Name = ''b'', sg_Scope = BackupScopeCluster, sg_Keyspace = [], sg_Shard = [], sg_ExtraFlags = []\<rparr>]"
  let ?v = "schedule_example\<lparr>vb_Spec := vb_Spec schedule_example\<lparr>bt_Strategy := ?ss\<rparr>\<rparr>"
  have "validateNoDuplicateExpandedShardTargets ?v ?ctx = None"
    by (simp add: validateNoDuplicateExpandedShardTargets_def schedule_example_def expandStrategy_def newStrategyExpansionContext_def
        expandToShards_def strategy_target_def BackupScopeShard_def BackupScopeKeyspace_def BackupScopeCluster_def)
  from schedule_targets_distinct [OF this] obtain ess where
    "map (\<lambda>s. expandStrategy s ?ctx) (bt_Strategy (vb_Spec ?v)) = map Inr ess"
    "distinct (map (\<lambda>e. (sg_Keyspace e, sg_Shard e)) (concat ess))" by blast
  moreover have "bt_Strategy (vb_Spec ?v) = ?ss" by simp
  ultimately show ?thesis by metis
qed

theorem cleanupJobsWithLimit_spec_witness:
  "cleanupJobsWithLimit schedule_example_env
     (map (\<lambda>t. \<lparr>jb_Name = [], jb_Labels = Map.empty, jb_Annotations = Map.empty, jb_StartTime = Some t, jb_Conditions = []\<rparr>) [3, 1]) 1
   = [DeleteJob []]"
proof -
  let ?job = "\<lambda>t :: int. \<lparr>jb_Name = [], jb_Labels = Map.empty, jb_Annotations = Map.empty, jb_StartTime = Some t, jb_Conditions = []\<rparr> :: kjob"
  have "int (length (map ?job [3, 1])) < 2 ^ 31" by simp
  from conjunct2 [OF cleanupJobsWithLimit_spec [OF this, of schedule_example_env 1]] show ?thesis
    by (simp add: remove_job_def remove_pvc_def schedule_example_env_def)
qed

end
