(* ===== verification/Float64.thy ===== *)
theory Float64
  imports Complex_Main "HOL-Library.Word"
begin

text \<open>
  The part of Go's \<open>float64\<close> arithmetic that the operator uses: conversions from \<open>uint64\<close>, quotients, products and the
  conversion back to \<open>int\<close>.  A float is the rational number it stands for, and every operation rounds its exact
  result to the nearest number with a 53 bit significand, ties to even, as IEEE 754 and the Go specification say.  All values
  are nonnegative and between \<open>2 ^ - 65\<close> and \<open>2 ^ 72\<close> or zero, far from overflow, subnormal numbers and NaN.
\<close>

section \<open>Rounding\<close>

fun bit_length :: "nat \<Rightarrow> nat" where
  "bit_length n = (if n = 0 then 0 else Suc (bit_length (n div 2)))"

declare bit_length.simps [simp del]

definition nearest_even :: "rat \<Rightarrow> int" where
  "nearest_even y =
     (let f = \<lfloor>y\<rfloor>; d = y - of_int f in if d < 1 / 2 \<or> d = 1 / 2 \<and> even f then f else f + 1)"

text \<open>The largest \<open>e\<close> with \<open>2 powi e \<le> x\<close>, for a positive number.\<close>

definition binary_exponent :: "rat \<Rightarrow> int" where
  "binary_exponent x =
     (if 1 \<le> x then int (bit_length (nat \<lfloor>x\<rfloor>)) - 1 else - int (bit_length (nat \<lceil>1 / x\<rceil> - 1)))"

definition round64 :: "rat \<Rightarrow> rat" where
  "round64 x =
     (if x = 0 then 0
      else let u = 2 powi (binary_exponent x - 52) in of_int (nearest_even (x / u)) * u)"

section \<open>Operations\<close>

definition float64_of_uint64 :: "64 word \<Rightarrow> rat" where
  "float64_of_uint64 w = round64 (of_nat (unat w))"

definition float64_div :: "rat \<Rightarrow> rat \<Rightarrow> rat" where
  "float64_div x y = round64 (x / y)"

definition float64_mul :: "rat \<Rightarrow> rat \<Rightarrow> rat" where
  "float64_mul x y = round64 (x * y)"

text \<open>
  The fraction is discarded.  What becomes of a value that the type cannot represent, Go leaves to the implementation: the
  argument \<open>out_of_range\<close>.
\<close>

definition int_of_float64 :: "(rat \<Rightarrow> int) \<Rightarrow> rat \<Rightarrow> int" where
  "int_of_float64 out_of_range x =
     (let n = (if x < 0 then \<lceil>x\<rceil> else \<lfloor>x\<rfloor>) in if - (2 ^ 63) \<le> n \<and> n < 2 ^ 63 then n else out_of_range x)"

section \<open>Bounds\<close>

lemma bit_length_upper: "n < 2 ^ bit_length n"
proof (induction n rule: bit_length.induct)
  case (1 n)
  then show ?case by (cases "n = 0") (simp_all add: bit_length.simps [of n])
qed

lemma bit_length_lower: "0 < n \<Longrightarrow> 2 ^ (bit_length n - 1) \<le> n"
proof (induction n rule: bit_length.induct)
  case (1 n)
  show ?case
  proof (cases "n div 2 = 0")
    case True
    then show ?thesis using 1(2) by (simp add: bit_length.simps [of n] bit_length.simps [of 0])
  next
    case False
    then have "bit_length (n div 2) = Suc (bit_length (n div 2 div 2))" by (simp add: bit_length.simps [of "n div 2"])
    moreover have "2 ^ (bit_length (n div 2) - 1) \<le> n div 2" using 1 False by simp
    ultimately show ?thesis using 1(2) by (simp add: bit_length.simps [of n])
  qed
qed

lemma binary_exponent_lower:
  assumes "0 < x"
  shows "2 powi binary_exponent x \<le> x"
proof (cases "1 \<le> x")
  case True
  let ?n = "nat \<lfloor>x\<rfloor>"
  have n: "0 < ?n" using True by simp
  then have "0 < bit_length ?n" by (simp add: bit_length.simps)
  then have "2 powi binary_exponent x = (2::rat) ^ (bit_length ?n - 1)"
    using True by (simp add: binary_exponent_def power_int_def nat_diff_distrib)
  also have "\<dots> = of_nat (2 ^ (bit_length ?n - 1))" by simp
  also have "\<dots> \<le> of_nat ?n" by (rule of_nat_mono) (rule bit_length_lower [OF n])
  also have "\<dots> \<le> x" using True by simp
  finally show ?thesis .
next
  case False
  let ?n = "nat \<lceil>1 / x\<rceil> - 1"
  have "1 < 1 / x" using False assms by (simp add: field_simps)
  then have c: "1 < \<lceil>1 / x\<rceil>" by (simp add: less_ceiling_iff)
  have "nat \<lceil>1 / x\<rceil> \<le> 2 ^ bit_length ?n" using bit_length_upper [of ?n] by linarith
  then have "(of_nat (nat \<lceil>1 / x\<rceil>) :: rat) \<le> of_nat (2 ^ bit_length ?n)" by (rule of_nat_mono)
  moreover have "1 / x \<le> of_nat (nat \<lceil>1 / x\<rceil>)" using c by (simp add: le_of_int_ceiling)
  ultimately have le: "1 / x \<le> 2 ^ bit_length ?n"
    unfolding of_nat_power of_nat_numeral by (rule order_trans [rotated])
  have "2 powi binary_exponent x = inverse ((2::rat) ^ bit_length ?n)"
    using False by (simp add: binary_exponent_def power_int_minus)
  also have "\<dots> \<le> inverse (1 / x)" using le assms by (intro le_imp_inverse_le) simp_all
  finally show ?thesis by simp
qed

lemma nearest_even_error: "\<bar>of_int (nearest_even y) - y\<bar> \<le> 1 / 2"
proof -
  have "of_int \<lfloor>y\<rfloor> \<le> y" "y < of_int \<lfloor>y\<rfloor> + 1" by linarith+
  then show ?thesis by (auto simp: nearest_even_def Let_def abs_le_iff)
qed

text \<open>The relative error of an operation is at most half a unit in the last place.\<close>

lemma round64_error:
  assumes "0 \<le> x"
  shows "\<bar>round64 x - x\<bar> \<le> x / 2 ^ 53"
proof (cases "x = 0")
  case False
  then have pos: "0 < x" using assms by simp
  let ?u = "2 powi (binary_exponent x - 52) :: rat"
  have u: "0 < ?u" by simp
  have "?u = 2 powi binary_exponent x / 2 ^ 52" by (simp add: power_int_diff)
  also have "\<dots> \<le> x / 2 ^ 52" using binary_exponent_lower [OF pos] by (simp add: divide_right_mono)
  finally have le: "?u \<le> x / 2 ^ 52" .
  have "round64 x - x = (of_int (nearest_even (x / ?u)) - x / ?u) * ?u"
    using False u by (simp add: round64_def Let_def left_diff_distrib)
  then have "\<bar>round64 x - x\<bar> = \<bar>of_int (nearest_even (x / ?u)) - x / ?u\<bar> * ?u" using u by (simp add: abs_mult)
  also have "\<dots> \<le> 1 / 2 * ?u" using u by (intro mult_right_mono nearest_even_error) simp
  also have "\<dots> \<le> x / 2 ^ 53" using le by simp
  finally show ?thesis .
qed (simp add: round64_def)

lemma round64_bounds:
  assumes "0 \<le> x"
  shows "0 \<le> round64 x" "99 / 100 * x \<le> round64 x" "round64 x \<le> 101 / 100 * x"
proof -
  have "x / 2 ^ 53 \<le> x / 100" using assms by (intro divide_left_mono) simp_all
  then show "99 / 100 * x \<le> round64 x" "round64 x \<le> 101 / 100 * x"
    using round64_error [OF assms] unfolding abs_le_iff by linarith+
  then show "0 \<le> round64 x" using assms by simp
qed

lemma int_of_float64_nonneg: "0 \<le> x \<Longrightarrow> x < 2 ^ 63 \<Longrightarrow> int_of_float64 f x = \<lfloor>x\<rfloor>"
  by (simp add: int_of_float64_def Let_def floor_less_iff le_floor_iff)

lemma int_of_float64_overflow: "2 ^ 63 \<le> x \<Longrightarrow> int_of_float64 f x = f x"
  by (simp add: int_of_float64_def Let_def floor_less_iff)

end
