(* ===== verification/Keyspace_Controller.thy ===== *)
theory Keyspace_Controller
  imports Topo_Controllers Reconciler Names Float64
begin

text \<open>
  The VitessKeyspace controller, \<open>pkg/controller/vitesskeyspace\<close>: it writes the keyspace record of the topology server, keeps
  one VitessShard object per key range of the partitionings, prunes shard records and reports on resharding.  First the
  objects, then the four passes over a handler, then the whole reconciliation.
\<close>

section \<open>The objects\<close>

record VitessKeyspaceSpec = VitessKeyspaceTemplate +
  kp_GlobalLockserver :: params
  kp_Images :: VitessKeyspaceImages
  kp_ImagePullPolicies :: VitessImagePullPolicies
  kp_ImagePullSecrets :: "string list"
  kp_ZoneMap :: "string \<rightharpoonup> string"
  kp_BackupLocations :: "backup_location list"
  kp_BackupEngine :: string
  kp_ExtraVitessFlags :: "(string, string) gomap"
  kp_TopologyReconciliation :: "TopoReconcileConfig option"
  kp_UpdateStrategy :: "VitessClusterUpdateStrategy option"

record VitessShardSpec = shard_spec +
  vs_DatabaseName :: string
  vs_Images :: VitessKeyspaceImages
  vs_ImagePullPolicies :: VitessImagePullPolicies
  vs_ImagePullSecrets :: "string list"
  vs_GlobalLockserver :: params
  vs_VitessOrchestrator :: "VitessOrchestratorSpec option"
  vs_BackupEngine :: string
  vs_ExtraVitessFlags :: "(string, string) gomap"
  vs_TopologyReconciliation :: "TopoReconcileConfig option"
  vs_UpdateStrategy :: "VitessClusterUpdateStrategy option"

record vitess_keyspace =
  vk_Namespace :: string
  vk_Labels :: "string \<rightharpoonup> string"
  vk_Spec :: VitessKeyspaceSpec
  vk_Status :: keyspace_status

record shard_body =
  sb_Spec :: VitessShardSpec
  sb_Status :: shard_status
  sb_Generation :: int

type_synonym vitess_shard = "shard_body kobj"

definition DefaultVitessKeyspace :: "vitess_keyspace \<Rightarrow> vitess_keyspace" where
  "DefaultVitessKeyspace dst =
     dst\<lparr>vk_Spec := (vk_Spec dst)
       \<lparr>kt_VitessOrchestrator := DefaultVitessOrchestrator (kt_VitessOrchestrator (vk_Spec dst)),
        kp_TopologyReconciliation := DefaultTopoReconcileConfig (kp_TopologyReconciliation (vk_Spec dst)),
        kp_UpdateStrategy := DefaultUpdateStrategy (kp_UpdateStrategy (vk_Spec dst))\<rparr>\<rparr>"

definition vitessshard_Name :: "string \<Rightarrow> string \<Rightarrow> VitessKeyRange \<Rightarrow> string option" where
  "vitessshard_Name clusterName keyspaceName keyRange =
     JoinWithConstraints DefaultConstraints [clusterName, keyspaceName, KeyRange_SafeName keyRange]"

section \<open>The shard object of a template\<close>

text \<open>\<open>VitessShardStatus{}\<close>: the zero value.\<close>

definition zero_shard_status :: shard_status where
  "zero_shard_status =
     \<lparr>sh_Tablets = [], sh_OrphanedTablets = [], sh_Cells = [], sh_VtorcAvailable = CondUnset, sh_HasMaster = CondUnset,
      sh_HasInitialBackup = CondUnset, sh_ServingWrites = CondUnset, sh_Idle = CondUnset, sh_Conditions = None,
      sh_MasterAlias = [], sh_LowestPodGeneration = 0\<rparr>"

definition newVitessShard ::
    "object_key \<Rightarrow> vitess_keyspace \<Rightarrow> (string, string) gomap \<Rightarrow> keyrange_shard \<Rightarrow> vitess_shard"
where
  "newVitessShard key vtk parentLabels shard =
     (let spec = vk_Spec vtk
      in \<lparr>annotations = st_Annotations shard, ko_key = key,
          ko_labels = (map_of parentLabels)(ShardLabel \<mapsto> KeyRange_SafeName (ks_KeyRange shard)),
          ko_UID = [], ko_deleting = False, ko_evictable = False,
          ko_body = \<lparr>sb_Spec = \<lparr>st_TabletPools = st_TabletPools shard,
                st_DatabaseInitScriptSecret = st_DatabaseInitScriptSecret shard, st_Replication = st_Replication shard,
                st_Annotations = st_Annotations shard, ss_Name = KeyRange_String (ks_KeyRange shard),
                ss_ZoneMap = kp_ZoneMap spec, ss_KeyRange = ks_KeyRange shard, ss_BackupLocations = kp_BackupLocations spec,
                vs_DatabaseName = kt_DatabaseName spec, vs_Images = kp_Images spec,
                vs_ImagePullPolicies = kp_ImagePullPolicies spec, vs_ImagePullSecrets = kp_ImagePullSecrets spec,
                vs_GlobalLockserver = kp_GlobalLockserver spec, vs_VitessOrchestrator = kt_VitessOrchestrator spec,
                vs_BackupEngine = kp_BackupEngine spec, vs_ExtraVitessFlags = kp_ExtraVitessFlags spec,
                vs_TopologyReconciliation = kp_TopologyReconciliation spec, vs_UpdateStrategy = kp_UpdateStrategy spec\<rparr>,
              sb_Status = zero_shard_status, sb_Generation = 0\<rparr>\<rparr>)"

abbreviation update_spec :: "(VitessShardSpec \<Rightarrow> VitessShardSpec) \<Rightarrow> vitess_shard \<Rightarrow> vitess_shard" where
  "update_spec f vts \<equiv> vts\<lparr>ko_body := (ko_body vts)\<lparr>sb_Spec := f (sb_Spec (ko_body vts))\<rparr>\<rparr>"

abbreviation shard_spec_of :: "vitess_shard \<Rightarrow> VitessShardSpec" where
  "shard_spec_of vts \<equiv> sb_Spec (ko_body vts)"

text \<open>The keys of the old map that the new one lacks.\<close>

definition differentKeys :: "(string \<rightharpoonup> string) \<Rightarrow> (string \<rightharpoonup> string) \<Rightarrow> string set" where
  "differentKeys oldMap newMap = dom oldMap - dom newMap"

text \<open>
  Annotations that are no longer asked for are deleted, then \<open>update.Annotations\<close> copies the new ones, whatever the
  order of its range, into a map that is allocated if it was nil.
\<close>

definition updateVitessShardAnnotations :: "vitess_shard \<Rightarrow> vitess_shard \<Rightarrow> vitess_shard" where
  "updateVitessShardAnnotations vts newShard =
     (let dropped = differentKeys (nil_safe (st_Annotations (shard_spec_of vts))) (nil_safe (st_Annotations (shard_spec_of newShard)));
          kept = map_option (\<lambda>m k. if k \<in> dropped then None else m k) (annotations vts)
      in update_spec (st_Annotations_update (\<lambda>_. st_Annotations (shard_spec_of newShard)))
           (vts\<lparr>annotations := Some (nil_safe kept ++ nil_safe (annotations newShard))\<rparr>))"

definition updateVitessShard ::
    "object_key \<Rightarrow> vitess_shard \<Rightarrow> vitess_keyspace \<Rightarrow> (string, string) gomap \<Rightarrow> keyrange_shard \<Rightarrow> vitess_shard"
where
  "updateVitessShard key vts vtk parentLabels shard =
     (let newShard = newVitessShard key vtk parentLabels shard;
          vts = vts\<lparr>ko_labels := ko_labels vts ++ ko_labels newShard\<rparr>
      in update_spec (\<lambda>_. shard_spec_of newShard) (updateVitessShardAnnotations vts newShard))"

text \<open>\<open>None\<close>: the type or the external options are nil, or \<open>ShardDiskSize\<close> panics.\<close>

definition updateVitessShardInPlace ::
    "object_key \<Rightarrow> vitess_shard \<Rightarrow> vitess_keyspace \<Rightarrow> (string, string) gomap \<Rightarrow> keyrange_shard \<Rightarrow> vitess_shard option"
where
  "updateVitessShardInPlace key vts vtk parentLabels shard =
     (let newShard = newVitessShard key vtk parentLabels shard;
          vts = update_spec (vs_UpdateStrategy_update (\<lambda>_. vs_UpdateStrategy (shard_spec_of newShard))) vts;
          resized = (case vs_UpdateStrategy (shard_spec_of vts) of
              None \<Rightarrow> None
            | Some u \<Rightarrow>
                (case us_Type u of
                   None \<Rightarrow> None
                 | Some t \<Rightarrow>
                     if t = ExternalVitessClusterUpdateStrategyType then
                       (case us_External u of
                          None \<Rightarrow> None
                        | Some allowed \<Rightarrow>
                            if list_ex (\<lambda>resource. resource = ''storage'') allowed
                            then map_option (\<lambda>pools. update_spec (st_TabletPools_update (\<lambda>_. pools)) vts)
                                   (ShardDiskSize (st_TabletPools (shard_spec_of vts)) (st_TabletPools (shard_spec_of newShard)))
                            else Some vts)
                     else Some vts))
      in map_option (\<lambda>vts. updateVitessShardAnnotations vts newShard) resized)"

text \<open>The two update hooks; \<open>None\<close> is a panic.\<close>

definition shard_in_place ::
    "vitess_keyspace \<Rightarrow> (string, string) gomap \<Rightarrow> keyrange_shard \<Rightarrow> object_key \<Rightarrow> vitess_shard \<Rightarrow> vitess_shard option"
where
  "shard_in_place vtk labels shard key obj =
     (case kp_UpdateStrategy (vk_Spec vtk) of
        None \<Rightarrow> None
      | Some u \<Rightarrow>
          (case us_Type u of
             None \<Rightarrow> None
           | Some t \<Rightarrow>
               if t = ExternalVitessClusterUpdateStrategyType then updateVitessShardInPlace key obj vtk labels shard
               else
                 (let newObj = updateVitessShard key obj vtk labels shard
                  in if sh_LowestPodGeneration (sb_Status (ko_body newObj)) \<noteq> sb_Generation (ko_body newObj) then Some newObj
                     else if list_ex (\<lambda>(_, tabletStatus). ts_PendingChanges tabletStatus \<noteq> []) (sh_Tablets (sb_Status (ko_body newObj)))
                     then Some (rollout_Cascade newObj)
                     else Some newObj)))"

definition shard_rolling_in_place ::
    "vitess_keyspace \<Rightarrow> (string, string) gomap \<Rightarrow> keyrange_shard \<Rightarrow> object_key \<Rightarrow> vitess_shard \<Rightarrow> vitess_shard option"
where
  "shard_rolling_in_place vtk labels shard key obj =
     (case kp_UpdateStrategy (vk_Spec vtk) of
        None \<Rightarrow> None
      | Some u \<Rightarrow>
          (case us_Type u of
             None \<Rightarrow> None
           | Some t \<Rightarrow>
               if t = ImmediateVitessClusterUpdateStrategyType then Some obj
               else Some (updateVitessShard key obj vtk labels shard)))"

section \<open>The handler of a pass\<close>

definition VitessKeyspaceReady :: string where "VitessKeyspaceReady = ''Ready''"
definition VitessKeyspaceReshardingActive :: string where "VitessKeyspaceReshardingActive = ''ReshardingActive''"
definition VitessKeyspaceReshardingInSync :: string where "VitessKeyspaceReshardingInSync = ''ReshardingInSync''"

definition keyspaceConditions :: "string list" where
  "keyspaceConditions = [VitessKeyspaceReshardingActive, VitessKeyspaceReshardingInSync, VitessKeyspaceReady]"

text \<open>
  \<open>kh_ts\<close> and \<open>kh_wr\<close>: the topology connection and the wrangler have been set.  The set of untouched conditions is the list
  of its members.
\<close>

record keyspace_handler =
  kh_vtk :: vitess_keyspace
  kh_oldStatus :: keyspace_status
  kh_untouched :: "string list"
  kh_ts :: bool
  kh_wr :: bool

record workflow =
  wf_Workflow :: string
  wf_SourceKeyspace :: string
  wf_SourceShards :: "string list option"
  wf_TargetKeyspace :: string
  wf_TargetShards :: "string list option"
  wf_MaxVReplicationLag :: int
  wf_ShardStatuses :: "(string, (string \<times> string) list) gomap"

datatype keyspace_effect =
    ShardEffect "shard_body kube_effect"
  | KeyspaceTopo topo_effect
  | OpenTopo
  | CloseTopo
  | CreateKeyspace string string string
  | SetKeyspaceDurabilityPolicy string string
  | UpdateKeyspaceStatus keyspace_status
  | KeyspaceResync

text \<open>
  The answers of a pass: the object; the shard objects; opening the topology server and building the Vitess environment
  (numbered by the call); its records; the wrangler, which is nil if the flag is false, its panics being \<open>None\<close>;
  the clock of a condition's change; \<open>kx_out_of_range\<close> is what the platform makes of a float that does not fit into an \<open>int\<close>.
\<close>

record keyspace_env =
  kx_get :: "string + vitess_keyspace option"
  kx_shards :: "(shard_body, string) kube_env"
  kx_gen :: range_generator
  kx_key_order :: "VitessKeyRange list \<Rightarrow> VitessKeyRange list"
  kx_string_order :: "string list \<Rightarrow> string list"
  kx_visit :: visit_order
  kx_now :: "string \<Rightarrow> nat \<Rightarrow> int"
  kx_open :: "nat \<Rightarrow> string option"
  kx_vtenv :: "nat \<Rightarrow> string option"
  kx_GetKeyspace :: "topo_error + string"
  kx_CreateKeyspace :: "bool \<Rightarrow> string option option"
  kx_SetDurability :: "bool \<Rightarrow> string option option"
  kx_vtEnvErr :: "string option"
  kx_topo :: topo_replies
  kx_GetShardNames :: "string + string list"
  kx_ListAllWorkflows :: "bool \<Rightarrow> (string + string list) option"
  kx_ShowWorkflow :: "string \<Rightarrow> string + workflow"
  kx_GetShard :: "string \<Rightarrow> string + string option"
  kx_GetSchema :: "string \<Rightarrow> string + 64 word list"
  kx_out_of_range :: "rat \<Rightarrow> int"
  kx_status_changed :: "keyspace_status \<Rightarrow> bool"
  kx_update_status :: "string option"

abbreviation kh_spec :: "keyspace_handler \<Rightarrow> VitessKeyspaceSpec" where
  "kh_spec h \<equiv> vk_Spec (kh_vtk h)"

abbreviation kh_status :: "keyspace_handler \<Rightarrow> keyspace_status" where
  "kh_status h \<equiv> vk_Status (kh_vtk h)"

abbreviation with_status :: "(keyspace_status \<Rightarrow> keyspace_status) \<Rightarrow> keyspace_handler \<Rightarrow> keyspace_handler" where
  "with_status f h \<equiv> h\<lparr>kh_vtk := (kh_vtk h)\<lparr>vk_Status := f (kh_status h)\<rparr>\<rparr>"

definition setConditionStatus ::
    "keyspace_env \<Rightarrow> nat \<Rightarrow> string \<Rightarrow> cond_status \<Rightarrow> string \<Rightarrow> string \<Rightarrow> keyspace_handler \<Rightarrow> keyspace_handler"
where
  "setConditionStatus env i condType newStatus reason message h =
     with_status (keyspace_SetConditionStatus (kx_now env condType i) condType newStatus reason message)
       (h\<lparr>kh_untouched := filter (\<lambda>c. c \<noteq> condType) (kh_untouched h)\<rparr>)"

text \<open>The connection is kept even if the environment that the wrangler needs cannot be built.\<close>

definition tsInit ::
    "keyspace_env \<Rightarrow> nat \<Rightarrow> keyspace_handler \<Rightarrow> keyspace_effect list \<times> keyspace_handler \<times> string option"
where
  "tsInit env i h =
     (if kh_ts h then ([], h, None)
      else (case kx_open env i of
              Some err \<Rightarrow> ([], h, Some err)
            | None \<Rightarrow>
                (let h = h\<lparr>kh_ts := True\<rparr>
                 in case kx_vtenv env i of
                      Some err \<Rightarrow> ([OpenTopo], h, Some err)
                    | None \<Rightarrow> ([OpenTopo], h\<lparr>kh_wr := True\<rparr>, None))))"

definition handler_close :: "keyspace_handler \<Rightarrow> keyspace_effect list" where
  "handler_close h = (if kh_ts h then [CloseTopo] else [])"

type_synonym keyspace_pass =
  "keyspace_effect list \<times> keyspace_handler \<times> reconcile_result \<times> string option"

abbreviation requeue_pass :: "keyspace_effect list \<Rightarrow> keyspace_handler \<Rightarrow> keyspace_pass" where
  "requeue_pass es h \<equiv> (es, h, builder_Result (builder_RequeueAfter topoRequeueDelay empty_builder))"

section \<open>The keyspace record\<close>

definition reconcileKeyspaceInformation :: "keyspace_env \<Rightarrow> keyspace_handler \<Rightarrow> keyspace_pass option" where
  "reconcileKeyspaceInformation env h =
     (case tsInit env 0 h of
        (es, h, Some err) \<Rightarrow> Some (requeue_pass es h)
      | (es, h, None) \<Rightarrow>
          (let keyspaceName = kt_Name (kh_spec h); durabilityPolicy = kt_DurabilityPolicy (kh_spec h);
               finish = (\<lambda>call err. (es @ [call], h, builder_Result
                  (case err of None \<Rightarrow> empty_builder | Some _ \<Rightarrow> builder_Error err empty_builder)))
           in case kx_GetKeyspace env of
                Inl NoNode \<Rightarrow>
                  map_option (finish (CreateKeyspace keyspaceName durabilityPolicy (kt_SidecarDbName (kh_spec h))))
                    (kx_CreateKeyspace env (kh_wr h))
              | Inl (TopoErr err) \<Rightarrow> Some (requeue_pass es h)
              | Inr current \<Rightarrow>
                  if durabilityPolicy \<noteq> [] \<and> current \<noteq> durabilityPolicy
                  then map_option (finish (SetKeyspaceDurabilityPolicy keyspaceName durabilityPolicy)) (kx_SetDurability env (kh_wr h))
                  else Some (es, h, builder_Result empty_builder)))"

section \<open>The shards\<close>

definition keyspace_labels :: "vitess_keyspace \<Rightarrow> (string, string) gomap" where
  "keyspace_labels vtk =
     [(ClusterLabel, case vk_Labels vtk ClusterLabel of None \<Rightarrow> [] | Some l \<Rightarrow> l), (KeyspaceLabel, kt_Name (vk_Spec vtk))]"

text \<open>The names of the wanted shard objects with their templates.\<close>

definition shard_keys :: "vitess_keyspace \<Rightarrow> keyrange_shard list \<Rightarrow> (object_key \<times> keyrange_shard) list option" where
  "shard_keys vtk shards =
     map_opt (\<lambda>shard. map_option (\<lambda>name. ((vk_Namespace vtk, name), shard))
       (vitessshard_Name (case vk_Labels vtk ClusterLabel of None \<Rightarrow> [] | Some l \<Rightarrow> l) (kt_Name (vk_Spec vtk)) (ks_KeyRange shard))) shards"

definition shard_of :: "(object_key \<times> keyrange_shard) list \<Rightarrow> object_key \<Rightarrow> keyrange_shard" where
  "shard_of shardMap key = the (map_of (rev shardMap) key)"

abbreviation hook_result :: "'o \<Rightarrow> 'o option \<Rightarrow> 'o" where
  "hook_result obj r \<equiv> (case r of None \<Rightarrow> obj | Some obj' \<Rightarrow> obj')"

text \<open>A hook that panics is stated as \<open>hooks_panic\<close>; here it leaves the object alone.\<close>

definition shard_strategy :: "vitess_keyspace \<Rightarrow> (object_key \<times> keyrange_shard) list \<Rightarrow> shard_body strategy" where
  "shard_strategy vtk shardMap =
     (let labels = keyspace_labels vtk
      in \<lparr>New = (\<lambda>key. newVitessShard key vtk labels (shard_of shardMap key)),
          UpdateInPlace = Some (\<lambda>key obj. hook_result obj (shard_in_place vtk labels (shard_of shardMap key) key obj)),
          UpdateRollingInPlace = Some (\<lambda>key obj. hook_result obj (shard_rolling_in_place vtk labels (shard_of shardMap key) key obj)),
          UpdateRecreate = None, UpdateRollingRecreate = None, has_Status = True, has_OrphanStatus = True,
          PrepareForTurndown = Some (\<lambda>key obj.
            (obj, if sh_Idle (sb_Status (ko_body obj)) = CondTrue then None
                  else Some \<lparr>os_Reason = ''Serving'',
                    os_Message = ''The shard can't be turned down because it's potentially in the serving set. You must migrate all served types in all cells to another shard before removing this shard.''\<rparr>))\<rparr>)"

text \<open>The wanted objects that the update hooks see, and whether one of the hooks panics on them.\<close>

definition hooked :: "keyspace_env \<Rightarrow> (string, string) gomap \<Rightarrow> object_key \<Rightarrow> vitess_shard option" where
  "hooked env labels key =
     (case kget (kx_shards env) key of
        Found obj \<Rightarrow> if \<not> ko_evictable obj \<and> hasMatchingLabels obj labels \<and> \<not> ko_deleting obj then Some obj else None
      | _ \<Rightarrow> None)"

definition hooks_panic :: "keyspace_env \<Rightarrow> vitess_keyspace \<Rightarrow> (object_key \<times> keyrange_shard) list \<Rightarrow> bool" where
  "hooks_panic env vtk shardMap =
     list_ex (\<lambda>(key, _). (case hooked env (keyspace_labels vtk) key of
         None \<Rightarrow> False
       | Some obj \<Rightarrow> shard_in_place vtk (keyspace_labels vtk) (shard_of shardMap key) key obj = None
            \<or> shard_rolling_in_place vtk (keyspace_labels vtk) (shard_of shardMap key) key obj = None)) shardMap"

text \<open>A shard status that is missing reads as the zero value.\<close>

definition zero_keyspace_shard_status :: keyspace_shard_status where
  "zero_keyspace_shard_status =
     \<lparr>kss_HasMaster = CondUnset, kss_ServingWrites = CondUnset, kss_DesiredTablets = 0, kss_Tablets = 0,
      kss_ReadyTablets = 0, kss_UpdatedTablets = 0, kss_PendingChanges = [], kss_Cells = []\<rparr>"

definition shard_status_at :: "(string, keyspace_shard_status) gomap \<Rightarrow> string \<Rightarrow> keyspace_shard_status" where
  "shard_status_at m shard = (case map_of m shard of None \<Rightarrow> zero_keyspace_shard_status | Some s \<Rightarrow> s)"

abbreviation count_tablets :: "(tablet_status \<Rightarrow> bool) \<Rightarrow> (string, tablet_status) gomap \<Rightarrow> 32 word" where
  "count_tablets P tablets \<equiv> fold (\<lambda>(_, t) n. if P t then n + 1 else n) tablets 0"

definition report_shard :: "vitess_shard \<Rightarrow> keyspace_shard_status \<Rightarrow> keyspace_shard_status" where
  "report_shard curObj status =
     (let cur = sb_Status (ko_body curObj)
      in status\<lparr>kss_Cells := sh_Cells cur,
          kss_HasMaster := (if sh_HasMaster cur \<noteq> CondUnset then sh_HasMaster cur else kss_HasMaster status),
          kss_ServingWrites := (if sh_ServingWrites cur \<noteq> CondUnset then sh_ServingWrites cur else kss_ServingWrites status),
          kss_Tablets := of_nat (length (sh_Tablets cur)),
          kss_PendingChanges := ann_get rollout_ScheduledAnnotation curObj,
          kss_ReadyTablets := count_tablets (\<lambda>t. ts_Ready t = CondTrue) (sh_Tablets cur),
          kss_UpdatedTablets := count_tablets (\<lambda>t. ts_PendingChanges t = []) (sh_Tablets cur)\<rparr>)"

text \<open>The Status and OrphanStatus hooks, for each call the set reconciler makes of them.\<close>

fun shard_hook :: "shard_body kube_effect \<Rightarrow> keyspace_status \<Rightarrow> keyspace_status" where
  "shard_hook (CallStatus key curObj) st =
     (let keyRange = KeyRange_String (ss_KeyRange (shard_spec_of curObj))
      in st\<lparr>kst_Shards := AList.update keyRange (report_shard curObj (shard_status_at (kst_Shards st) keyRange)) (kst_Shards st)\<rparr>)"
| "shard_hook (CallOrphanStatus key curObj orphanStatus) st =
     st\<lparr>kst_OrphanedShards := AList.update (ss_Name (shard_spec_of curObj)) orphanStatus (kst_OrphanedShards st)\<rparr>"
| "shard_hook _ st = st"

fun serving_loop :: "(string \<Rightarrow> cond_status) \<Rightarrow> string list \<Rightarrow> cond_status \<Rightarrow> cond_status" where
  "serving_loop serving [] acc = acc"
| "serving_loop serving (shard # rest) acc =
     (case serving shard of
        CondTrue \<Rightarrow> serving_loop serving rest acc
      | CondFalse \<Rightarrow> CondFalse
      | _ \<Rightarrow> serving_loop serving rest CondUnknown)"

definition allShardsServingWrites :: "string list \<Rightarrow> (string, keyspace_shard_status) gomap \<Rightarrow> cond_status" where
  "allShardsServingWrites shardNames shardStatus =
     (if shardNames = [] then CondFalse
      else serving_loop (\<lambda>shard. kss_ServingWrites (shard_status_at shardStatus shard)) shardNames CondTrue)"

abbreviation total :: "(keyspace_shard_status \<Rightarrow> 32 word) \<Rightarrow> string list \<Rightarrow> (string, keyspace_shard_status) gomap \<Rightarrow> 32 word" where
  "total f shardNames shardStatus \<equiv> fold (\<lambda>shard n. n + f (shard_status_at shardStatus shard)) shardNames 0"

definition totalReadyTablets :: "string list \<Rightarrow> (string, keyspace_shard_status) gomap \<Rightarrow> 32 word" where
  "totalReadyTablets = total kss_ReadyTablets"

definition totalTablets :: "string list \<Rightarrow> (string, keyspace_shard_status) gomap \<Rightarrow> 32 word" where
  "totalTablets = total kss_Tablets"

definition totalUpdatedTablets :: "string list \<Rightarrow> (string, keyspace_shard_status) gomap \<Rightarrow> 32 word" where
  "totalUpdatedTablets = total kss_UpdatedTablets"

definition totalReadyShards :: "string list \<Rightarrow> (string, keyspace_shard_status) gomap \<Rightarrow> 32 word" where
  "totalReadyShards = total (\<lambda>s. if kss_ReadyTablets s = kss_DesiredTablets s then 1 else 0)"

definition report_partitioning :: "(string, keyspace_shard_status) gomap \<Rightarrow> partitioning_status \<Rightarrow> partitioning_status" where
  "report_partitioning shards status =
     status\<lparr>ps_ServingWrites := allShardsServingWrites (ps_ShardNames status) shards,
       ps_Tablets := totalTablets (ps_ShardNames status) shards,
       ps_ReadyTablets := totalReadyTablets (ps_ShardNames status) shards,
       ps_UpdatedTablets := totalUpdatedTablets (ps_ShardNames status) shards,
       ps_ReadyShards := totalReadyShards (ps_ShardNames status) shards\<rparr>"

text \<open>The loop that aggregates the partitionings; the flag is \<open>foundServingPartitioning\<close>.\<close>

fun aggregate_loop ::
    "keyspace_env \<Rightarrow> nat \<Rightarrow> partitioning_status list \<Rightarrow> keyspace_handler \<times> bool \<Rightarrow> partitioning_status list \<times> keyspace_handler \<times> bool"
where
  "aggregate_loop env i [] (h, found) = ([], h, found)"
| "aggregate_loop env i (p # ps) (h, found) =
     (let status = report_partitioning (kst_Shards (kh_status h)) p;
          (h', found') =
            (if ps_ServingWrites status = CondTrue then
               (if ps_ReadyTablets status \<noteq> ps_DesiredTablets status
                then setConditionStatus env i VitessKeyspaceReady CondFalse ''TabletsNotReady''
                       ''Some tablet Pods for the serving partitioning are not Ready.'' h
                else setConditionStatus env i VitessKeyspaceReady CondTrue ''TabletsReady''
                       ''All tablet Pods for the serving partitioning are Ready.'' h, True)
             else (h, found));
          (ps', acc) = aggregate_loop env (Suc i) ps (h', found')
      in (status # ps', acc))"

definition aggregate_partitionings :: "keyspace_env \<Rightarrow> keyspace_handler \<Rightarrow> keyspace_handler" where
  "aggregate_partitionings env h =
     (case aggregate_loop env 0 (kst_Partitionings (kh_status h)) (h, False) of
        (ps, h, foundServingPartitioning) \<Rightarrow>
          (let h = with_status (kst_Partitionings_update (\<lambda>_. ps)) h
           in if foundServingPartitioning then h
              else setConditionStatus env (length ps) VitessKeyspaceReady CondFalse ''NoServingPartitioning''
                     ''No partitioning in this keyspace is serving write traffic.'' h))"

definition reconcileShards ::
    "keyspace_env \<Rightarrow> keyspace_handler \<Rightarrow> (keyspace_effect list \<times> keyspace_handler \<times> string option) option"
where
  "reconcileShards env h =
     (case ShardTemplates (kx_gen env) (kx_key_order env) (kt_Partitionings (kh_spec h)) of
        None \<Rightarrow> None
      | Some shards \<Rightarrow>
     (case shard_keys (kh_vtk h) shards of
        None \<Rightarrow> None
      | Some shardMap \<Rightarrow>
     (case map_opt (NewVitessKeyspacePartitioningStatus (kx_gen env)) (kt_Partitionings (kh_spec h)) of
        None \<Rightarrow> None
      | Some partitionings \<Rightarrow>
          if hooks_panic env (kh_vtk h) shardMap then None
          else
            (let st = (kh_status h)\<lparr>kst_Shards := fold (\<lambda>shard. AList.update (KeyRange_String (ks_KeyRange shard))
                          (NewVitessKeyspaceShardStatus shard)) shards (kst_Shards (kh_status h)),
                        kst_Partitionings := partitionings\<rparr>;
                 (es, err) = ReconcileObjectSet (kx_shards env) (shard_strategy (kh_vtk h) shardMap)
                               (keyspace_labels (kh_vtk h)) (map fst shardMap);
                 h = with_status (\<lambda>_. fold shard_hook es st) h
             in if err \<noteq> None then Some (map ShardEffect es, h, err)
                else Some (map ShardEffect es, aggregate_partitionings env h, None)))))"

section \<open>The shard records\<close>

definition keyspace_reconcileTopology :: "keyspace_env \<Rightarrow> keyspace_handler \<Rightarrow> keyspace_pass option" where
  "keyspace_reconcileTopology env h =
     (case (case kp_TopologyReconciliation (kh_spec h) of None \<Rightarrow> None | Some c \<Rightarrow> tr_PruneShards c) of
        None \<Rightarrow> None
      | Some False \<Rightarrow> Some ([], h, builder_Result empty_builder)
      | Some True \<Rightarrow>
          (case tsInit env 1 h of
             (es, h, Some err) \<Rightarrow> Some (requeue_pass es h)
           | (es, h, None) \<Rightarrow>
               (case merged (PruneShards (kx_vtEnvErr env) (kx_topo env) (kx_GetShardNames env) (kt_Name (kh_spec h))
                        (set (map fst (kst_Shards (kh_status h)))) (kst_OrphanedShards (kh_status h))) empty_builder of
                  (topoEffects, b) \<Rightarrow> Some (es @ map KeyspaceTopo topoEffects, h, builder_Result b))))"

section \<open>Resharding\<close>

definition maxSafeVReplicationLag :: int where "maxSafeVReplicationLag = 10"

fun sum_rows :: "keyspace_env \<Rightarrow> string list \<Rightarrow> 64 word \<Rightarrow> string + 64 word" where
  "sum_rows env [] rowCount = Inr rowCount"
| "sum_rows env (shardName # rest) rowCount =
     (case kx_GetShard env shardName of
        Inl err \<Rightarrow> Inl (''failed to get tablets for shard '' @ shardName @ '': '' @ err)
      | Inr None \<Rightarrow> Inl (''could not find primary tablet alias for determining row count of shard '' @ shardName)
      | Inr (Some primaryAlias) \<Rightarrow>
          (case kx_GetSchema env primaryAlias of
             Inl err \<Rightarrow> Inl (''failed to get schema for shard '' @ shardName @ '': '' @ err)
           | Inr tables \<Rightarrow> sum_rows env rest (fold (\<lambda>rows n. n + rows) tables rowCount)))"

definition shardsRowCount :: "keyspace_env \<Rightarrow> string list \<Rightarrow> string + 64 word" where
  "shardsRowCount env shardNames = sum_rows env shardNames 0"

text \<open>\<open>int((float64(targetRowCount) / float64(sourceRowCount)) * 100.0)\<close>, with every rounding step.\<close>

definition percent_complete :: "(rat \<Rightarrow> int) \<Rightarrow> 64 word \<Rightarrow> 64 word \<Rightarrow> int" where
  "percent_complete out_of_range targetRowCount sourceRowCount =
     int_of_float64 out_of_range
       (float64_mul (float64_div (float64_of_uint64 targetRowCount) (float64_of_uint64 sourceRowCount)) 100)"

definition percentCopied :: "keyspace_env \<Rightarrow> string list \<Rightarrow> string list \<Rightarrow> int" where
  "percentCopied env sourceShards targetShards =
     (case shardsRowCount env sourceShards of
        Inl err \<Rightarrow> - 1
      | Inr sourceRowCount \<Rightarrow>
          if sourceRowCount = 0 then 99
          else (case shardsRowCount env targetShards of
                  Inl err \<Rightarrow> - 1
                | Inr targetRowCount \<Rightarrow>
                    (let percentComplete = percent_complete (kx_out_of_range env) targetRowCount sourceRowCount
                     in if percentComplete > 99 then 99 else percentComplete)))"

definition resharding :: "workflow \<Rightarrow> bool" where
  "resharding w \<longleftrightarrow> \<not> (wf_SourceKeyspace w \<noteq> wf_TargetKeyspace w \<or> wf_SourceShards w = wf_TargetShards w)"

datatype workflow_scan = ScanFailed | MoreThanOne | OneOrNone "workflow option"

fun scan_workflows :: "keyspace_env \<Rightarrow> string list \<Rightarrow> workflow option \<Rightarrow> workflow_scan" where
  "scan_workflows env [] reshardingWorkflow = OneOrNone reshardingWorkflow"
| "scan_workflows env (workflowName # rest) reshardingWorkflow =
     (case kx_ShowWorkflow env workflowName of
        Inl err \<Rightarrow> ScanFailed
      | Inr w \<Rightarrow>
          if \<not> resharding w then scan_workflows env rest reshardingWorkflow
          else if reshardingWorkflow \<noteq> None then MoreThanOne
          else scan_workflows env rest (Some w))"

text \<open>The rows of one shard, until the first error.\<close>

fun row_states :: "(string \<times> string) list \<Rightarrow> WorkflowState \<times> string list \<Rightarrow> WorkflowState \<times> string list" where
  "row_states [] acc = acc"
| "row_states ((rowState, message) # rest) (state, errorMsgs) =
     (if rowState = ''Error'' then (WorkflowError, errorMsgs @ [message])
      else
        (let state = (if rowState = ''Copying'' \<and> state \<noteq> WorkflowError then WorkflowCopying else state);
             state = (if (rowState = ''Running'' \<or> rowState = ''Lagging'') \<and> state = WorkflowUnknown then WorkflowRunning else state)
         in row_states rest (state, errorMsgs)))"

definition workflow_state :: "keyspace_env \<Rightarrow> workflow \<Rightarrow> WorkflowState \<times> string list" where
  "workflow_state env w =
     fold (\<lambda>(_, rows) acc. row_states rows acc) (range_of (kx_visit env) 0 (wf_ShardStatuses w)) (WorkflowUnknown, [])"

abbreviation nil_list :: "'x list option \<Rightarrow> 'x list" where
  "nil_list xs \<equiv> (case xs of None \<Rightarrow> [] | Some ys \<Rightarrow> ys)"

definition set_InSync :: "keyspace_env \<Rightarrow> nat \<Rightarrow> cond_status \<Rightarrow> string \<Rightarrow> string \<Rightarrow> keyspace_handler \<Rightarrow> keyspace_handler" where
  "set_InSync env i = setConditionStatus env i VitessKeyspaceReshardingInSync"

text \<open>The messages that name a workflow.\<close>

definition changed_message :: "string \<Rightarrow> string \<Rightarrow> string" where
  "changed_message workflow old = ''VReplication workflow '' @ workflow @ '' is different from previous workflow '' @ old @ ''.''"

definition active_message :: "string \<Rightarrow> string" where
  "active_message workflow = ''One active resharding workflow was found: '' @ workflow"

definition error_message :: "string list \<Rightarrow> string" where
  "error_message errorMsgs = ''VReplication reported an error: '' @ sort errorMsgs ! 0"

definition unknown_message :: "string \<Rightarrow> string" where
  "unknown_message workflow = ''VReplication workflow '' @ workflow @ '' is in an unknown state.''"

definition report_workflow :: "keyspace_env \<Rightarrow> workflow \<Rightarrow> keyspace_handler \<Rightarrow> keyspace_handler" where
  "report_workflow env w h =
     (let h = (case kst_Resharding (kh_oldStatus h) of
            None \<Rightarrow> h
          | Some old \<Rightarrow>
              if wf_Workflow w \<noteq> rsh_Workflow old
              then set_InSync env 0 CondUnknown ''UnknownWorkflowState'' (changed_message (wf_Workflow w) (rsh_Workflow old)) h
              else h);
          h = setConditionStatus env 0 VitessKeyspaceReshardingActive CondTrue ''ActiveReshardingWorkflow''
                (active_message (wf_Workflow w)) h;
          source = nil_list (wf_SourceShards w); target = nil_list (wf_TargetShards w);
          (state, errorMsgs) = workflow_state env w;
          (progress, h) = (case state of
              WorkflowError \<Rightarrow> (percentCopied env source target,
                set_InSync env 1 CondFalse ''Error'' (error_message errorMsgs) h)
            | WorkflowCopying \<Rightarrow> (percentCopied env source target,
                set_InSync env 1 CondFalse ''Copying''
                  ''Existing data from the source shards is being backfilled on target shards'' h)
            | WorkflowRunning \<Rightarrow> (100,
                if wf_MaxVReplicationLag w < maxSafeVReplicationLag
                then set_InSync env 1 CondTrue ''CaughtUp'' ''VReplication on target shards is caught up to within 10 seconds of real-time changes happening on source shards'' h
                else set_InSync env 1 CondFalse ''Lagging'' ''VReplication on one or more target shards is lagging behind real-time changes happening on source shards by 10 or more seconds'' h)
            | WorkflowUnknown \<Rightarrow> (- 1,
                set_InSync env 1 CondUnknown ''UnknownWorkflowState'' (unknown_message (wf_Workflow w)) h))
      in with_status (kst_Resharding_update (\<lambda>_. Some \<lparr>rsh_Workflow = wf_Workflow w, rsh_State = state,
           rsh_SourceShards = source, rsh_TargetShards = target, rsh_CopyProgress = progress\<rparr>)) h)"

definition reconcileResharding :: "keyspace_env \<Rightarrow> keyspace_handler \<Rightarrow> keyspace_pass option" where
  "reconcileResharding env h =
     (case tsInit env 2 h of
        (es, h, Some err) \<Rightarrow> Some (requeue_pass es h)
      | (es, h, None) \<Rightarrow>
          (case kx_ListAllWorkflows env (kh_wr h) of
             None \<Rightarrow> None
           | Some (Inl err) \<Rightarrow> Some (requeue_pass es h)
           | Some (Inr workflowList) \<Rightarrow>
               (case scan_workflows env workflowList None of
                  ScanFailed \<Rightarrow> Some (requeue_pass es h)
                | MoreThanOne \<Rightarrow>
                    Some (es, set_InSync env 0 CondUnknown ''MoreThanOneActiveReshardingWorkflow''
                        ''More than one resharding workflow. Can't determine which one follow for determining whether we are in sync or not.''
                      (setConditionStatus env 0 VitessKeyspaceReshardingActive CondUnknown ''MoreThanOneActiveReshardingWorkflow''
                        ''There is currently more than one active resharding workflow, and we don't know how to handle this situation.'' h),
                      builder_Result empty_builder)
                | OneOrNone None \<Rightarrow>
                    Some (es, set_InSync env 0 CondFalse ''NoActiveReshardingWorkflow'' ''No active resharding workflow found.''
                      (setConditionStatus env 0 VitessKeyspaceReshardingActive CondFalse ''NoActiveReshardingWorkflow''
                        ''No active resharding workflow found.'' h), builder_Result empty_builder)
                | OneOrNone (Some w) \<Rightarrow> Some (es, report_workflow env w h, builder_Result empty_builder))))"

section \<open>The whole reconciliation\<close>

text \<open>The conditions that no pass has set become unknown, in the order of the range over the set.\<close>

definition keyspace_updateStatus ::
    "keyspace_env \<Rightarrow> keyspace_handler \<Rightarrow> keyspace_effect list \<times> keyspace_handler \<times> string option"
where
  "keyspace_updateStatus env h =
     (let h = fold (\<lambda>condition. setConditionStatus env 9 condition CondUnknown ''ReconcileFailed''
                ''Failed to determine status of the condition.'') (kx_string_order env (kh_untouched h)) h
      in if kx_status_changed env (kh_status h) then ([UpdateKeyspaceStatus (kh_status h)], h, kx_update_status env)
         else ([], h, None))"

definition NewReconcileHandler :: "keyspace_env \<Rightarrow> vitess_keyspace \<Rightarrow> keyspace_handler" where
  "NewReconcileHandler env vtk =
     (let vtk = DefaultVitessKeyspace vtk; oldStatus = vk_Status vtk
      in \<lparr>kh_vtk = vtk\<lparr>vk_Status := NewVitessKeyspaceStatus\<lparr>kst_Conditions := kst_Conditions oldStatus,
             kst_Idle := ConditionStatus (CellNames (kx_string_order env) (kt_Partitionings (vk_Spec vtk)) = [])\<rparr>\<rparr>,
          kh_oldStatus = oldStatus, kh_untouched = keyspaceConditions, kh_ts = False, kh_wr = False\<rparr>)"

type_synonym keyspace_outcome = "keyspace_effect list \<times> reconcile_result \<times> string option"

text \<open>The passes in their order; the result is \<open>None\<close> if one of them panics.\<close>

definition keyspace_passes ::
    "keyspace_env \<Rightarrow> keyspace_handler \<Rightarrow> (keyspace_effect list \<times> keyspace_handler \<times> string builder) option"
where
  "keyspace_passes env h =
     (case reconcileKeyspaceInformation env h of
        None \<Rightarrow> None
      | Some (es1, h, res, err) \<Rightarrow>
          (let b = builder_Merge res err empty_builder
           in case reconcileShards env h of
                None \<Rightarrow> None
              | Some (es2, h, err) \<Rightarrow>
                  (let b = (if err = None then b else builder_Error err b)
                   in case keyspace_reconcileTopology env h of
                        None \<Rightarrow> None
                      | Some (es3, h, res, err) \<Rightarrow>
                          (let b = builder_Merge res err b
                           in case reconcileResharding env h of
                                None \<Rightarrow> None
                              | Some (es4, h, res, err) \<Rightarrow> Some (es1 @ es2 @ es3 @ es4, h, builder_Merge res err b)))))"

definition keyspace_Reconcile :: "keyspace_env \<Rightarrow> keyspace_outcome option" where
  "keyspace_Reconcile env =
     (case kx_get env of
        Inl err \<Rightarrow> Some ([], builder_Result (builder_Error (Some err) empty_builder))
      | Inr None \<Rightarrow> Some ([], builder_Result empty_builder)
      | Inr (Some vtk) \<Rightarrow>
          (case keyspace_passes env (NewReconcileHandler env vtk) of
             None \<Rightarrow> None
           | Some (es, h, b) \<Rightarrow>
               (case keyspace_updateStatus env h of
                  (es', h, err) \<Rightarrow>
                    Some (es @ [KeyspaceResync] @ es' @ handler_close h,
                      builder_Result (if err = None then b else builder_Error err b)))))"

end
