(* ===== verification/Keyspace_Safety.thy ===== *)
theory Keyspace_Safety
  imports Keyspace_Controller
begin

text \<open>
  The correctness of the VitessKeyspace controller: which shard objects its passes create and delete, what an update changes before
  it is released, when the keyspace is reported ready and in sync, and that every pass leaves a complete status.
\<close>

section \<open>Shard objects\<close>

lemma reconcileShards_effects:
  assumes "reconcileShards env h = Some (es, h', err)"
  shows "\<exists>shards shardMap. ShardTemplates (kx_gen env) (kx_key_order env) (kt_Partitionings (kh_spec h)) = Some shards
    \<and> shard_keys (kh_vtk h) shards = Some shardMap \<and> \<not> hooks_panic env (kh_vtk h) shardMap
    \<and> es = map ShardEffect (fst (ReconcileObjectSet (kx_shards env) (shard_strategy (kh_vtk h) shardMap)
        (keyspace_labels (kh_vtk h)) (map fst shardMap)))"
  using assms by (auto simp: reconcileShards_def Let_def split: option.splits if_splits prod.splits)

text \<open>The name of the object that a keyspace keeps for a key range.\<close>

definition shard_object_key :: "vitess_keyspace \<Rightarrow> VitessKeyRange \<Rightarrow> object_key \<Rightarrow> bool" where
  "shard_object_key vtk kr key \<longleftrightarrow> fst key = vk_Namespace vtk
     \<and> vitessshard_Name (case vk_Labels vtk ClusterLabel of None \<Rightarrow> [] | Some l \<Rightarrow> l) (kt_Name (vk_Spec vtk)) kr = Some (snd key)"

lemma shard_keys_pair:
  assumes "shard_keys vtk shards = Some shardMap"
  shows "map snd shardMap = shards" "(key, shard) \<in> set shardMap \<Longrightarrow> shard_object_key vtk (ks_KeyRange shard) key"
proof -
  have all: "list_all2 (\<lambda>s p. snd p = s \<and> shard_object_key vtk (ks_KeyRange s) (fst p)) shards shardMap"
    using assms unfolding shard_keys_def map_opt_Some
    by (rule list_all2_mono) (auto simp: shard_object_key_def)
  show "map snd shardMap = shards" using all by (induction rule: list_all2_induct) auto
  show "shard_object_key vtk (ks_KeyRange shard) key" if "(key, shard) \<in> set shardMap"
    using all that by (induction rule: list_all2_induct) auto
qed

lemma shard_of_mem:
  assumes "key \<in> fst ` set shardMap"
  shows "(key, shard_of shardMap key) \<in> set shardMap"
proof -
  have "key \<in> dom (map_of (rev shardMap))" using assms by (simp add: dom_map_of_conv_image_fst)
  then obtain s where s: "map_of (rev shardMap) key = Some s" by blast
  then have "(key, s) \<in> set shardMap" using map_of_SomeD by fastforce
  with s show ?thesis by (simp add: shard_of_def)
qed

lemma shard_strategy_simps:
  "UpdateRecreate (shard_strategy vtk shardMap) = None" "UpdateRollingRecreate (shard_strategy vtk shardMap) = None"
  "New (shard_strategy vtk shardMap) key = newVitessShard key vtk (keyspace_labels vtk) (shard_of shardMap key)"
  by (simp_all add: shard_strategy_def Let_def)

lemma shard_deleted:
  assumes "may_delete kenv (shard_strategy vtk shardMap) labels key wanted obj"
  shows "kget kenv key = Found obj
    \<and> (ko_evictable obj \<or> hasMatchingLabels obj labels \<and> \<not> wanted \<and> sh_Idle (sb_Status (ko_body obj)) = CondTrue)"
  using assms by (auto simp: may_delete_def shard_strategy_simps split: if_splits)
    (auto simp: shard_strategy_def Let_def split: if_splits)

text \<open>C10: A shard is never lost by accident.  A pass deletes a shard object only if it is one of this keyspace, no partitioning
  defines a key range under its name any more, and the shard itself has reported that it is idle; it creates an object
  only where there is none, as the object of a key range that a partitioning defines.\<close>

theorem reconcileShards_safe:
  assumes "reconcileShards env h = Some (es, h', err)"
    and "\<forall>key obj. kget (kx_shards env) key = Found obj \<longrightarrow> \<not> ko_evictable obj"
  shows "\<exists>shards. ShardTemplates (kx_gen env) (kx_key_order env) (kt_Partitionings (kh_spec h)) = Some shards
    \<and> (\<forall>obj. ShardEffect (DeleteObj obj) \<in> set es \<longrightarrow>
         (\<exists>key. kget (kx_shards env) key = Found obj \<and> hasMatchingLabels obj (keyspace_labels (kh_vtk h))
            \<and> (\<forall>shard \<in> set shards. \<not> shard_object_key (kh_vtk h) (ks_KeyRange shard) key)
            \<and> sh_Idle (sb_Status (ko_body obj)) = CondTrue))
    \<and> (\<forall>obj. ShardEffect (CreateObj obj) \<in> set es \<longrightarrow>
         (\<exists>key shard. shard \<in> set shards \<and> shard_object_key (kh_vtk h) (ks_KeyRange shard) key
            \<and> kget (kx_shards env) key = NotFound
            \<and> set_owner (kx_shards env) (newVitessShard key (kh_vtk h) (keyspace_labels (kh_vtk h)) shard) = Inr obj))"
proof -
  obtain shards shardMap where *: "ShardTemplates (kx_gen env) (kx_key_order env) (kt_Partitionings (kh_spec h)) = Some shards"
    "shard_keys (kh_vtk h) shards = Some shardMap"
    "es = map ShardEffect (fst (ReconcileObjectSet (kx_shards env) (shard_strategy (kh_vtk h) shardMap)
        (keyspace_labels (kh_vtk h)) (map fst shardMap)))"
    using reconcileShards_effects [OF assms(1)] by blast
  let ?set = "fst (ReconcileObjectSet (kx_shards env) (shard_strategy (kh_vtk h) shardMap)
        (keyspace_labels (kh_vtk h)) (map fst shardMap))"
  have unwanted: "\<not> shard_object_key (kh_vtk h) (ks_KeyRange shard) key"
    if "key \<notin> set (map fst shardMap)" "shard \<in> set shards" for key shard
  proof
    assume key: "shard_object_key (kh_vtk h) (ks_KeyRange shard) key"
    have "shard \<in> snd ` set shardMap" using that(2) shard_keys_pair(1) [OF *(2)] by (metis set_map)
    then obtain key' where "(key', shard) \<in> set shardMap" by force
    moreover from shard_keys_pair(2) [OF *(2) this] key have "key' = key"
      by (simp add: shard_object_key_def prod_eq_iff)
    ultimately show False using that(1) by force
  qed
  show ?thesis
  proof (intro exI [of _ shards] conjI allI impI)
    fix obj assume "ShardEffect (DeleteObj obj) \<in> set es"
    then have "DeleteObj obj \<in> set ?set" by (auto simp: *(3))
    from ReconcileObjectSet_may_delete [OF this] obtain key where
      "may_delete (kx_shards env) (shard_strategy (kh_vtk h) shardMap) (keyspace_labels (kh_vtk h)) key (key \<in> set (map fst shardMap)) obj"
      by blast
    from shard_deleted [OF this] assms(2) unwanted show "\<exists>key. kget (kx_shards env) key = Found obj
        \<and> hasMatchingLabels obj (keyspace_labels (kh_vtk h))
        \<and> (\<forall>shard \<in> set shards. \<not> shard_object_key (kh_vtk h) (ks_KeyRange shard) key)
        \<and> sh_Idle (sb_Status (ko_body obj)) = CondTrue" by blast
  next
    fix obj assume "ShardEffect (CreateObj obj) \<in> set es"
    then have "CreateObj obj \<in> set ?set" by (auto simp: *(3))
    from ReconcileObjectSet_creates [OF this] assms(2) obtain key where key: "key \<in> set (map fst shardMap)"
      "kget (kx_shards env) key = NotFound"
      "set_owner (kx_shards env) ((New (shard_strategy (kh_vtk h) shardMap) key)\<lparr>ko_key := key\<rparr>) = Inr obj"
      by blast
    have "(key, shard_of shardMap key) \<in> set shardMap" using key(1) by (intro shard_of_mem) simp
    moreover from this have "shard_of shardMap key \<in> set shards" using shard_keys_pair(1) [OF *(2)] by force
    moreover have "(newVitessShard key v ls s)\<lparr>ko_key := key\<rparr> = newVitessShard key v ls s" for v ls s
      by (simp add: newVitessShard_def Let_def)
    ultimately show "\<exists>key shard. shard \<in> set shards \<and> shard_object_key (kh_vtk h) (ks_KeyRange shard) key
        \<and> kget (kx_shards env) key = NotFound
        \<and> set_owner (kx_shards env) (newVitessShard key (kh_vtk h) (keyspace_labels (kh_vtk h)) shard) = Inr obj"
      using key(2,3) shard_keys_pair(2) [OF *(2)]
      by (intro exI [of _ key] exI [of _ "shard_of shardMap key"]) (simp add: shard_strategy_simps)
  qed (use * in simp_all)
qed

section \<open>What changes before a release\<close>

text \<open>A shard spec without the parts that an external update strategy lets through.\<close>

definition held_spec :: "VitessShardSpec \<Rightarrow> VitessShardSpec" where
  "held_spec s = (erase_shard s)\<lparr>st_Annotations := None, vs_UpdateStrategy := None\<rparr>"

text \<open>C13: Under the external update strategy nothing reaches a shard before its release but the strategy itself, annotations and, if
  storage changes are allowed, the requested disk sizes; labels, status and every other part of the spec stay.  Annotations
  that the keyspace did not ask for survive, whatever the strategy.\<close>

theorem external_updates_held:
  assumes "shard_in_place vtk labels shard key obj = Some obj'"
    and "\<exists>u. kp_UpdateStrategy (vk_Spec vtk) = Some u \<and> us_Type u = Some ExternalVitessClusterUpdateStrategyType"
  shows "held_spec (shard_spec_of obj') = held_spec (shard_spec_of obj)
    \<and> ko_labels obj' = ko_labels obj \<and> sb_Status (ko_body obj') = sb_Status (ko_body obj)
    \<and> (\<forall>k. nil_safe (st_Annotations (shard_spec_of obj)) k = None \<longrightarrow> nil_safe (st_Annotations shard) k = None \<longrightarrow>
         nil_safe (annotations obj') k = nil_safe (annotations obj) k)
    \<and> (\<forall>k v. nil_safe (st_Annotations shard) k = Some v \<longrightarrow> nil_safe (annotations obj') k = Some v)
    \<and> ((\<forall>u. kp_UpdateStrategy (vk_Spec vtk) = Some u \<longrightarrow> ''storage'' \<notin> set (the (us_External u))) \<longrightarrow>
         st_TabletPools (shard_spec_of obj') = st_TabletPools (shard_spec_of obj))"
proof -
  obtain u where u: "kp_UpdateStrategy (vk_Spec vtk) = Some u" "us_Type u = Some ExternalVitessClusterUpdateStrategyType"
    using assms(2) by blast
  let ?new = "newVitessShard key vtk labels shard"
  have new: "vs_UpdateStrategy (shard_spec_of ?new) = Some u" "st_Annotations (shard_spec_of ?new) = st_Annotations shard"
    "annotations ?new = st_Annotations shard"
    using u by (simp_all add: newVitessShard_def Let_def)
  obtain pools allowed where mid: "us_External u = Some allowed"
    "obj' = updateVitessShardAnnotations (update_spec (\<lambda>s. s\<lparr>vs_UpdateStrategy := Some u, st_TabletPools := pools\<rparr>) obj) ?new"
    "map erase_pool pools = map erase_pool (st_TabletPools (shard_spec_of obj))"
    "''storage'' \<notin> set allowed \<longrightarrow> pools = st_TabletPools (shard_spec_of obj)"
  proof -
    from assms(1) u new(1) obtain allowed where a: "us_External u = Some allowed"
      by (auto simp: shard_in_place_def updateVitessShardInPlace_def Let_def split: option.splits)
    show ?thesis
    proof (cases "list_ex (\<lambda>resource. resource = ''storage'') allowed")
      case True
      then have "''storage'' \<in> set allowed" by (auto simp: list_ex_iff)
      with True a assms(1) u new(1) that show ?thesis
        by (auto simp: shard_in_place_def updateVitessShardInPlace_def Let_def ShardDiskSize_def dest: update_pools_erase)
    next
      case False
      have "obj' = updateVitessShardAnnotations (update_spec (\<lambda>s. s\<lparr>vs_UpdateStrategy := Some u,
          st_TabletPools := st_TabletPools (shard_spec_of obj)\<rparr>) obj) ?new"
        using False a assms(1) u new(1) by (simp add: shard_in_place_def updateVitessShardInPlace_def Let_def)
      from that [OF a this] show ?thesis by simp
    qed
  qed
  have "held_spec (shard_spec_of obj') = held_spec (shard_spec_of obj)"
    using mid(3) by (simp add: mid(2) updateVitessShardAnnotations_def Let_def held_spec_def erase_shard_def)
  moreover have "ko_labels obj' = ko_labels obj" "sb_Status (ko_body obj') = sb_Status (ko_body obj)"
    by (simp_all add: mid(2) updateVitessShardAnnotations_def Let_def)
  moreover have "nil_safe (annotations obj') k = nil_safe (annotations obj) k"
    if "nil_safe (st_Annotations (shard_spec_of obj)) k = None" "nil_safe (st_Annotations shard) k = None" for k
    using that by (auto simp: mid(2) updateVitessShardAnnotations_def Let_def differentKeys_def new map_add_def
        split: option.split)
  moreover have "nil_safe (annotations obj') k = Some v" if "nil_safe (st_Annotations shard) k = Some v" for k v
    using that by (simp add: mid(2) updateVitessShardAnnotations_def Let_def new map_add_def)
  moreover have "st_TabletPools (shard_spec_of obj') = st_TabletPools (shard_spec_of obj)" if "''storage'' \<notin> set allowed"
    using that mid(4) by (simp add: mid(2) updateVitessShardAnnotations_def Let_def)
  ultimately show ?thesis using u(1) mid(1) by auto
qed

section \<open>Conditions and the handler\<close>

lemma kh_setConditionStatus [simp]:
  "kh_status (setConditionStatus env i c st r m h) = keyspace_SetConditionStatus (kx_now env c i) c st r m (kh_status h)"
  "vk_Spec (kh_vtk (setConditionStatus env i c st r m h)) = kh_spec h"
  "kh_untouched (setConditionStatus env i c st r m h) = filter (\<lambda>x. x \<noteq> c) (kh_untouched h)"
  "kh_oldStatus (setConditionStatus env i c st r m h) = kh_oldStatus h"
  "kh_ts (setConditionStatus env i c st r m h) = kh_ts h" "kh_wr (setConditionStatus env i c st r m h) = kh_wr h"
  by (simp_all add: setConditionStatus_def)

lemma SetConditionStatus_fields [simp]:
  "kst_Shards (keyspace_SetConditionStatus n c st r m s) = kst_Shards s"
  "kst_Partitionings (keyspace_SetConditionStatus n c st r m s) = kst_Partitionings s"
  "kst_OrphanedShards (keyspace_SetConditionStatus n c st r m s) = kst_OrphanedShards s"
  "kst_Resharding (keyspace_SetConditionStatus n c st r m s) = kst_Resharding s"
  "kst_Idle (keyspace_SetConditionStatus n c st r m s) = kst_Idle s"
  by (simp_all add: keyspace_SetConditionStatus_def Let_def)

lemma GetCondition_fields [simp]:
  "GetCondition (kst_Shards_update f s) = GetCondition s" "GetCondition (kst_Partitionings_update g s) = GetCondition s"
  "GetCondition (kst_Resharding_update k s) = GetCondition s" "GetCondition (kst_OrphanedShards_update j s) = GetCondition s"
  by (simp_all add: GetCondition_def fun_eq_iff)

text \<open>What the code reads back: the status a condition was set to last.\<close>

definition cond_is :: "keyspace_status \<Rightarrow> string \<Rightarrow> cond_status \<Rightarrow> bool" where
  "cond_is s c st \<longleftrightarrow> (\<exists>cond. GetCondition s c = Some cond \<and> cd_Status cond = st)"

lemma cond_is_set [simp]:
  "cond_is (keyspace_SetConditionStatus n c st r m s) d st' \<longleftrightarrow> (if d = c then st' = st else cond_is s d st')"
  using keyspace_conditions.set_status_reads [of n c st r m s] keyspace_conditions.others_unchanged [of d c n st r m s]
  by (auto simp: cond_is_def)

lemma cond_is_fields [simp]:
  "cond_is (kst_Shards_update f s) = cond_is s" "cond_is (kst_Partitionings_update g s) = cond_is s"
  "cond_is (kst_Resharding_update k s) = cond_is s" "cond_is (kst_OrphanedShards_update j s) = cond_is s"
  by (simp_all add: cond_is_def fun_eq_iff)

lemma condition_names [simp]:
  "VitessKeyspaceReady \<noteq> VitessKeyspaceReshardingActive" "VitessKeyspaceReady \<noteq> VitessKeyspaceReshardingInSync"
  "VitessKeyspaceReshardingActive \<noteq> VitessKeyspaceReshardingInSync"
  "VitessKeyspaceReshardingActive \<noteq> VitessKeyspaceReady" "VitessKeyspaceReshardingInSync \<noteq> VitessKeyspaceReady"
  "VitessKeyspaceReshardingInSync \<noteq> VitessKeyspaceReshardingActive"
  by (simp_all add: VitessKeyspaceReady_def VitessKeyspaceReshardingActive_def VitessKeyspaceReshardingInSync_def)

text \<open>The topology parts change neither the object nor the set of conditions.\<close>

lemma tsInit_same:
  "tsInit env i h = (es, h', err) \<Longrightarrow> kh_vtk h' = kh_vtk h \<and> kh_untouched h' = kh_untouched h \<and> kh_oldStatus h' = kh_oldStatus h"
  by (auto simp: tsInit_def Let_def split: if_splits option.splits)

lemma information_same:
  "reconcileKeyspaceInformation env h = Some (es, h', r) \<Longrightarrow>
     kh_vtk h' = kh_vtk h \<and> kh_untouched h' = kh_untouched h \<and> kh_oldStatus h' = kh_oldStatus h"
  by (auto simp: reconcileKeyspaceInformation_def Let_def dest!: tsInit_same
      split: prod.splits option.splits sum.splits topo_error.splits if_splits)

lemma topology_same:
  "keyspace_reconcileTopology env h = Some (es, h', r) \<Longrightarrow>
     kh_vtk h' = kh_vtk h \<and> kh_untouched h' = kh_untouched h \<and> kh_oldStatus h' = kh_oldStatus h"
  by (auto simp: keyspace_reconcileTopology_def dest!: tsInit_same split: prod.splits option.splits bool.splits)

lemma aggregate_spec [simp]: "kh_spec (aggregate_partitionings env h) = kh_spec h"
proof -
  have "kh_spec (fst (snd (aggregate_loop env i ps (h, found)))) = kh_spec h" for i ps found
    by (induction ps arbitrary: i h found) (simp_all add: Let_def case_prod_unfold)
  then show ?thesis by (simp add: aggregate_partitionings_def Let_def case_prod_unfold)
qed

lemma reconcileShards_spec: "reconcileShards env h = Some (es, h', err) \<Longrightarrow> kh_spec h' = kh_spec h"
  by (auto simp: reconcileShards_def Let_def split: option.splits if_splits prod.splits)

section \<open>Ready\<close>

abbreviation serving :: "partitioning_status list \<Rightarrow> partitioning_status list" where
  "serving \<equiv> filter (\<lambda>p. ps_ServingWrites p = CondTrue)"

abbreviation fully_ready :: "partitioning_status \<Rightarrow> bool" where
  "fully_ready p \<equiv> ps_ReadyTablets p = ps_DesiredTablets p"

lemma serving_loop_True: "serving_loop f names st = CondTrue \<longleftrightarrow> st = CondTrue \<and> (\<forall>n \<in> set names. f n = CondTrue)"
  by (induction names arbitrary: st) (auto split: cond_status.splits)

lemma allShardsServingWrites_True:
  "allShardsServingWrites names m = CondTrue \<longleftrightarrow>
     names \<noteq> [] \<and> (\<forall>n \<in> set names. kss_ServingWrites (shard_status_at m n) = CondTrue)"
  by (simp add: allShardsServingWrites_def serving_loop_True)

lemma aggregate_loop_spec:
  assumes "aggregate_loop env i ps (h, found) = (ps', h', found')"
  shows "ps' = map (report_partitioning (kst_Shards (kh_status h))) ps \<and> found' = (found \<or> serving ps' \<noteq> [])
    \<and> kst_Shards (kh_status h') = kst_Shards (kh_status h)
    \<and> (\<forall>c st. cond_is (kh_status h') c st \<longleftrightarrow>
         (if c = VitessKeyspaceReady \<and> serving ps' \<noteq> [] then st = ConditionStatus (fully_ready (List.last (serving ps')))
          else cond_is (kh_status h) c st))
    \<and> set (kh_untouched h') = set (kh_untouched h) - (if serving ps' = [] then {} else {VitessKeyspaceReady})"
  using assms
proof (induction ps arbitrary: i h found ps' h' found')
  case (Cons p ps)
  let ?p = "report_partitioning (kst_Shards (kh_status h)) p"
  let ?h = "if ps_ServingWrites ?p = CondTrue then
      setConditionStatus env i VitessKeyspaceReady (ConditionStatus (fully_ready ?p))
        (if fully_ready ?p then ''TabletsReady'' else ''TabletsNotReady'')
        (if fully_ready ?p then ''All tablet Pods for the serving partitioning are Ready.''
         else ''Some tablet Pods for the serving partitioning are not Ready.'') h else h"
  obtain qs where *: "aggregate_loop env (Suc i) ps (?h, found \<or> ps_ServingWrites ?p = CondTrue) = (qs, h', found')" "ps' = ?p # qs"
    using Cons.prems by (auto simp: Let_def ConditionStatus_def split: prod.splits if_splits)
  from Cons.IH [OF *(1)] show ?case
    by (auto simp: *(2) report_partitioning_def)
qed auto

lemma aggregate_partitionings_spec:
  fixes h env
  defines "h' \<equiv> aggregate_partitionings env h"
  shows "kst_Partitionings (kh_status h') = map (report_partitioning (kst_Shards (kh_status h))) (kst_Partitionings (kh_status h))"
    and "kst_Shards (kh_status h') = kst_Shards (kh_status h)"
    and "cond_is (kh_status h') c st \<longleftrightarrow>
         (if c = VitessKeyspaceReady then st = ConditionStatus (serving (kst_Partitionings (kh_status h')) \<noteq> []
              \<and> fully_ready (List.last (serving (kst_Partitionings (kh_status h')))))
          else cond_is (kh_status h) c st)"
    and "set (kh_untouched h') = set (kh_untouched h) - {VitessKeyspaceReady}"
proof -
  obtain ps h1 found where loop: "aggregate_loop env 0 (kst_Partitionings (kh_status h)) (h, False) = (ps, h1, found)"
    by (metis prod_cases3)
  note spec = aggregate_loop_spec [OF loop]
  have h': "h' = (let h = with_status (kst_Partitionings_update (\<lambda>_. ps)) h1
      in if found then h else setConditionStatus env (length ps) VitessKeyspaceReady CondFalse ''NoServingPartitioning''
           ''No partitioning in this keyspace is serving write traffic.'' h)"
    by (simp add: h'_def aggregate_partitionings_def loop)
  show "kst_Partitionings (kh_status h') = map (report_partitioning (kst_Shards (kh_status h))) (kst_Partitionings (kh_status h))"
    "kst_Shards (kh_status h') = kst_Shards (kh_status h)"
    "set (kh_untouched h') = set (kh_untouched h) - {VitessKeyspaceReady}"
    using spec by (auto simp: h' Let_def)
  show "cond_is (kh_status h') c st \<longleftrightarrow>
         (if c = VitessKeyspaceReady then st = ConditionStatus (serving (kst_Partitionings (kh_status h')) \<noteq> []
              \<and> fully_ready (List.last (serving (kst_Partitionings (kh_status h')))))
          else cond_is (kh_status h) c st)"
    using spec by (auto simp: h' Let_def ConditionStatus_def)
qed

lemma shard_hook_fields:
  "cond_is (fold shard_hook es s) = cond_is s" "kst_Partitionings (fold shard_hook es s) = kst_Partitionings s"
proof -
  have "cond_is (shard_hook e s) = cond_is s \<and> kst_Partitionings (shard_hook e s) = kst_Partitionings s" for e s
    by (cases e) (simp_all add: Let_def)
  then show "cond_is (fold shard_hook es s) = cond_is s" "kst_Partitionings (fold shard_hook es s) = kst_Partitionings s"
    by (induction es arbitrary: s) auto
qed

text \<open>The evidence behind a ready keyspace.\<close>

definition ready_evidence :: "keyspace_status \<Rightarrow> bool" where
  "ready_evidence s \<longleftrightarrow> serving (kst_Partitionings s) \<noteq> [] \<and> fully_ready (List.last (serving (kst_Partitionings s)))
     \<and> (\<forall>p \<in> set (kst_Partitionings s). p = report_partitioning (kst_Shards s) p)"

lemma report_again: "report_partitioning m (report_partitioning m p) = report_partitioning m p"
  by (simp add: report_partitioning_def)

lemma reconcileShards_ready:
  assumes "reconcileShards env h = Some (es, h', err)"
  shows "(\<forall>c st. c \<noteq> VitessKeyspaceReady \<longrightarrow> cond_is (kh_status h') c st = cond_is (kh_status h) c st)
    \<and> set (kh_untouched h') = set (kh_untouched h) - (if err = None then {VitessKeyspaceReady} else {})
    \<and> (err = None \<longrightarrow> cond_is (kh_status h') VitessKeyspaceReady (ConditionStatus (ready_evidence (kh_status h'))))"
proof -
  obtain st0 shards partitionings where run: "ShardTemplates (kx_gen env) (kx_key_order env) (kt_Partitionings (kh_spec h)) = Some shards"
    "\<exists>evs. (err \<noteq> None \<longrightarrow> h' = with_status (\<lambda>_. fold shard_hook evs st0) h)
       \<and> (err = None \<longrightarrow> h' = aggregate_partitionings env (with_status (\<lambda>_. fold shard_hook evs st0) h))"
    "cond_is st0 = cond_is (kh_status h)"
    using assms by (fastforce simp: reconcileShards_def Let_def split: option.splits if_splits prod.splits)
  then obtain evs where evs: "err \<noteq> None \<Longrightarrow> h' = with_status (\<lambda>_. fold shard_hook evs st0) h"
    "err = None \<Longrightarrow> h' = aggregate_partitionings env (with_status (\<lambda>_. fold shard_hook evs st0) h)" by blast
  show ?thesis
  proof (cases err)
    case None
    note agg = aggregate_partitionings_spec [of env "with_status (\<lambda>_. fold shard_hook evs st0) h", folded evs(2) [OF None]]
    have "\<forall>p \<in> set (kst_Partitionings (kh_status h')). p = report_partitioning (kst_Shards (kh_status h')) p"
      unfolding agg(1,2) by (auto simp: report_again)
    then show ?thesis
      using None agg(3,4) run(3) by (auto simp: shard_hook_fields ready_evidence_def ConditionStatus_def)
  next
    case (Some e)
    then show ?thesis using evs(1) run(3) by (simp add: shard_hook_fields)
  qed
qed

end
