(* ===== verification/Keyspace_Status.thy ===== *)
theory Keyspace_Status
  imports Keyspace_Safety
begin

text \<open>
  What the VitessKeyspace controller reports: the evidence behind the conditions Ready and ReshardingInSync, followed through all
  the passes of a reconciliation to the status that is written, and the well-formedness of that status.
\<close>

section \<open>Resharding\<close>

definition replicating :: "string \<Rightarrow> bool" where "replicating st \<longleftrightarrow> st = ''Running'' \<or> st = ''Lagging''"

definition row_failed :: "string \<Rightarrow> bool" where "row_failed st \<longleftrightarrow> st = ''Error''"

definition row_copying :: "string \<Rightarrow> bool" where "row_copying st \<longleftrightarrow> st = ''Copying''"

lemma row_states_step:
  "row_states ((st, message) # rest) (state, msgs) =
     (if row_failed st then (WorkflowError, msgs @ [message])
      else row_states rest (if row_copying st \<and> state \<noteq> WorkflowError then WorkflowCopying
        else if replicating st \<and> state = WorkflowUnknown then WorkflowRunning else state, msgs))"
  by (auto simp: Let_def row_failed_def row_copying_def replicating_def)

lemma row_kinds:
  "replicating st \<Longrightarrow> \<not> row_failed st" "replicating st \<Longrightarrow> \<not> row_copying st" "row_copying st \<Longrightarrow> \<not> row_failed st"
  by (auto simp: row_failed_def row_copying_def replicating_def)

declare row_states.simps(2) [simp del]

lemma row_states_Running:
  "(fst (row_states rows (state, msgs)) = WorkflowRunning \<longleftrightarrow>
     (state = WorkflowRunning \<or> state = WorkflowUnknown \<and> (\<exists>r \<in> set rows. replicating (fst r)))
     \<and> (\<forall>r \<in> set rows. \<not> row_failed (fst r) \<and> \<not> row_copying (fst r)))
   \<and> (fst (row_states rows (state, msgs)) = WorkflowUnknown \<longleftrightarrow>
     state = WorkflowUnknown \<and> (\<forall>r \<in> set rows. \<not> replicating (fst r) \<and> \<not> row_failed (fst r) \<and> \<not> row_copying (fst r)))"
proof (induction rows arbitrary: state)
  case (Cons r rows)
  obtain st m where r: "r = (st, m)" by (cases r)
  consider "row_failed st" | "row_copying st" "\<not> row_failed st" "\<not> replicating st"
    | "replicating st" "\<not> row_failed st" "\<not> row_copying st" | "\<not> replicating st" "\<not> row_failed st" "\<not> row_copying st"
    using row_kinds by blast
  then show ?case
  proof cases
    case 2
    then show ?thesis using Cons.IH [of WorkflowCopying] Cons.IH [of WorkflowError] by (cases state) (simp_all add: r row_states_step)
  next
    case 3
    then show ?thesis using Cons.IH [of WorkflowRunning] Cons.IH [of state] by (cases state) (simp_all add: r row_states_step)
  next
    case 4
    then show ?thesis using Cons.IH [of state] by (simp add: r row_states_step)
  qed (simp add: r row_states_step)
qed simp

lemma fold_row_states:
  "fst (fold (\<lambda>(_, rows) acc. row_states rows acc) ms (state, msgs)) = WorkflowRunning \<longleftrightarrow>
     (state = WorkflowRunning \<or> state = WorkflowUnknown \<and> (\<exists>(s, rows) \<in> set ms. \<exists>r \<in> set rows. replicating (fst r)))
     \<and> (\<forall>(s, rows) \<in> set ms. \<forall>r \<in> set rows. \<not> row_failed (fst r) \<and> \<not> row_copying (fst r))"
proof (induction ms arbitrary: state msgs)
  case (Cons m ms)
  obtain s rows where m: "m = (s, rows)" by (cases m)
  obtain state' msgs' where st: "row_states rows (state, msgs) = (state', msgs')" by fastforce
  define A where "A \<longleftrightarrow> (\<exists>r \<in> set rows. replicating (fst r))"
  define B where "B \<longleftrightarrow> (\<forall>r \<in> set rows. \<not> row_failed (fst r) \<and> \<not> row_copying (fst r))"
  define X where "X \<longleftrightarrow> (\<exists>(s, rows) \<in> set ms. \<exists>r \<in> set rows. replicating (fst r))"
  define Y where "Y \<longleftrightarrow> (\<forall>(s, rows) \<in> set ms. \<forall>r \<in> set rows. \<not> row_failed (fst r) \<and> \<not> row_copying (fst r))"
  have R: "state' = WorkflowRunning \<longleftrightarrow> (state = WorkflowRunning \<or> state = WorkflowUnknown \<and> A) \<and> B"
    "state' = WorkflowUnknown \<longleftrightarrow> state = WorkflowUnknown \<and> \<not> A \<and> B"
    using row_states_Running [of rows state msgs] unfolding st fst_conv A_def B_def by blast+
  have "fst (fold (\<lambda>(_, rows) acc. row_states rows acc) (m # ms) (state, msgs)) = WorkflowRunning \<longleftrightarrow>
      (state' = WorkflowRunning \<or> state' = WorkflowUnknown \<and> X) \<and> Y"
    unfolding m fold_Cons comp_apply prod.case st Cons.IH X_def Y_def by (rule refl)
  moreover have "(\<exists>(s, rows) \<in> set (m # ms). \<exists>r \<in> set rows. replicating (fst r)) \<longleftrightarrow> A \<or> X"
    "(\<forall>(s, rows) \<in> set (m # ms). \<forall>r \<in> set rows. \<not> row_failed (fst r) \<and> \<not> row_copying (fst r)) \<longleftrightarrow> B \<and> Y"
    by (simp_all add: m A_def B_def X_def Y_def)
  ultimately show ?case using R by blast
qed simp

text \<open>The workflow is replicating: it is known, no shard is copying or in error, and the lag is small.\<close>

definition caught_up :: "workflow \<Rightarrow> bool" where
  "caught_up w \<longleftrightarrow> wf_MaxVReplicationLag w < 10
     \<and> (\<exists>(s, rows) \<in> set (wf_ShardStatuses w). \<exists>r \<in> set rows. replicating (fst r))
     \<and> (\<forall>(s, rows) \<in> set (wf_ShardStatuses w). \<forall>r \<in> set rows. \<not> row_failed (fst r) \<and> \<not> row_copying (fst r))"

lemma workflow_state_Running:
  assumes "visits (kx_visit env)" "gomap_wf (wf_ShardStatuses w)"
  shows "fst (workflow_state env w) = WorkflowRunning \<and> wf_MaxVReplicationLag w < maxSafeVReplicationLag \<longleftrightarrow> caught_up w"
  using assms by (auto simp: workflow_state_def fold_row_states caught_up_def maxSafeVReplicationLag_def)

lemma scan_workflows_One:
  assumes "scan_workflows env names acc = OneOrNone r"
  shows "\<exists>ws. map (kx_ShowWorkflow env) names = map Inr ws
    \<and> (case acc of None \<Rightarrow> filter resharding ws = (case r of None \<Rightarrow> [] | Some w \<Rightarrow> [w])
       | Some w \<Rightarrow> filter resharding ws = [] \<and> r = Some w)"
  using assms
proof (induction names arbitrary: acc)
  case Nil
  then show ?case by (cases acc) auto
next
  case (Cons name names)
  obtain w where w: "kx_ShowWorkflow env name = Inr w"
    using Cons.prems by (cases "kx_ShowWorkflow env name") auto
  show ?case
  proof (cases "resharding w")
    case True
    then have "acc = None" "scan_workflows env names (Some w) = OneOrNone r"
      using Cons.prems w by (auto split: if_splits)
    moreover from Cons.IH [OF this(2)] obtain ws where "map (kx_ShowWorkflow env) names = map Inr ws"
      "filter resharding ws = []" "r = Some w" by auto
    ultimately show ?thesis using True w by (intro exI [of _ "w # ws"]) simp
  next
    case False
    then have "scan_workflows env names acc = OneOrNone r" using Cons.prems w by simp
    from Cons.IH [OF this] obtain ws where "map (kx_ShowWorkflow env) names = map Inr ws"
      "case acc of None \<Rightarrow> filter resharding ws = (case r of None \<Rightarrow> [] | Some w \<Rightarrow> [w])
       | Some w \<Rightarrow> filter resharding ws = [] \<and> r = Some w" by blast
    with False w show ?thesis by (intro exI [of _ "w # ws"]) (auto split: option.splits)
  qed
qed

text \<open>The evidence behind \<open>ReshardingInSync\<close>: the wrangler listed the active workflows and showed each of them, exactly one of them
  reshards, and it is caught up.\<close>

definition in_sync_evidence :: "keyspace_env \<Rightarrow> bool" where
  "in_sync_evidence env \<longleftrightarrow> (\<exists>ready names ws w. kx_ListAllWorkflows env ready = Some (Inr names)
     \<and> map (kx_ShowWorkflow env) names = map Inr ws \<and> filter resharding ws = [w] \<and> caught_up w)"

definition shown_wf :: "keyspace_env \<Rightarrow> bool" where
  "shown_wf env \<longleftrightarrow> visits (kx_visit env) \<and> (\<forall>name w. kx_ShowWorkflow env name = Inr w \<longrightarrow> gomap_wf (wf_ShardStatuses w))"

lemma report_workflow_conditions:
  "cond_is (kh_status (report_workflow env w h)) c st \<longleftrightarrow>
     (if c = VitessKeyspaceReshardingInSync then st = (case fst (workflow_state env w) of
          WorkflowRunning \<Rightarrow> ConditionStatus (wf_MaxVReplicationLag w < maxSafeVReplicationLag)
        | WorkflowUnknown \<Rightarrow> CondUnknown | _ \<Rightarrow> CondFalse)
      else if c = VitessKeyspaceReshardingActive then st = CondTrue
      else cond_is (kh_status h) c st)"
  "set (kh_untouched (report_workflow env w h)) =
     set (kh_untouched h) - {VitessKeyspaceReshardingInSync, VitessKeyspaceReshardingActive}"
proof -
  obtain state msgs where st: "workflow_state env w = (state, msgs)" by (metis surj_pair)
  let ?h = "case kst_Resharding (kh_oldStatus h) of None \<Rightarrow> h
    | Some old \<Rightarrow> if wf_Workflow w \<noteq> rsh_Workflow old
        then set_InSync env 0 CondUnknown ''UnknownWorkflowState'' (changed_message (wf_Workflow w) (rsh_Workflow old)) h else h"
  have h: "cond_is (kh_status ?h) d s = (if d = VitessKeyspaceReshardingInSync then cond_is (kh_status ?h) d s else cond_is (kh_status h) d s)"
      "set (kh_untouched ?h) - {VitessKeyspaceReshardingInSync} = set (kh_untouched h) - {VitessKeyspaceReshardingInSync}" for d s
    by (auto simp: set_InSync_def split: option.split)
  show "cond_is (kh_status (report_workflow env w h)) c st \<longleftrightarrow>
     (if c = VitessKeyspaceReshardingInSync then st = (case fst (workflow_state env w) of
          WorkflowRunning \<Rightarrow> ConditionStatus (wf_MaxVReplicationLag w < maxSafeVReplicationLag)
        | WorkflowUnknown \<Rightarrow> CondUnknown | _ \<Rightarrow> CondFalse)
      else if c = VitessKeyspaceReshardingActive then st = CondTrue
      else cond_is (kh_status h) c st)"
    unfolding report_workflow_def Let_def st prod.case
    by (cases state) (simp_all add: h(1) set_InSync_def ConditionStatus_def)
  show "set (kh_untouched (report_workflow env w h)) =
     set (kh_untouched h) - {VitessKeyspaceReshardingInSync, VitessKeyspaceReshardingActive}"
    unfolding report_workflow_def Let_def st prod.case
    using h(2) by (cases state) (auto simp: set_InSync_def)
qed

lemma resharding_conditions:
  assumes "reconcileResharding env h = Some (es, h', r)" "shown_wf env"
  shows "(\<forall>st. cond_is (kh_status h') VitessKeyspaceReady st = cond_is (kh_status h) VitessKeyspaceReady st)
    \<and> (VitessKeyspaceReady \<in> set (kh_untouched h') \<longleftrightarrow> VitessKeyspaceReady \<in> set (kh_untouched h))
    \<and> (kh_untouched h' = kh_untouched h
       \<or> set (kh_untouched h') = set (kh_untouched h) - {VitessKeyspaceReshardingInSync, VitessKeyspaceReshardingActive}
         \<and> (\<exists>st. cond_is (kh_status h') VitessKeyspaceReshardingActive st)
         \<and> (\<exists>st. cond_is (kh_status h') VitessKeyspaceReshardingInSync st)
         \<and> (cond_is (kh_status h') VitessKeyspaceReshardingInSync CondTrue \<longrightarrow> in_sync_evidence env))"
proof -
  obtain es1 h1 e1 where init: "tsInit env 2 h = (es1, h1, e1)" by (metis prod_cases3)
  note same = tsInit_same [OF init]
  have early: "kh_vtk h' = kh_vtk h1 \<and> kh_untouched h' = kh_untouched h1 \<Longrightarrow> ?thesis" using same by simp
  have failed: ?thesis if "\<nexists>names. e1 = None \<and> kx_ListAllWorkflows env (kh_wr h1) = Some (Inr names)
      \<and> scan_workflows env names None \<noteq> ScanFailed"
    by (rule early) (use assms(1) that init in \<open>auto simp: reconcileResharding_def split: option.splits sum.splits workflow_scan.splits\<close>)
  show ?thesis
  proof (cases "\<exists>names. e1 = None \<and> kx_ListAllWorkflows env (kh_wr h1) = Some (Inr names)
      \<and> scan_workflows env names None \<noteq> ScanFailed")
    case True
    then obtain names where names: "e1 = None" "kx_ListAllWorkflows env (kh_wr h1) = Some (Inr names)"
      "scan_workflows env names None \<noteq> ScanFailed" by blast
    note run = assms(1) [unfolded reconcileResharding_def init names prod.case option.case sum.case]
    show ?thesis
    proof (cases "scan_workflows env names None")
      case MoreThanOne
      then show ?thesis using run same names(1,2) by (auto simp: set_InSync_def)
    next
      case (OneOrNone r)
      show ?thesis
      proof (cases r)
        case None
        then show ?thesis using run same names(1,2) OneOrNone by (auto simp: set_InSync_def)
      next
        case (Some w)
        then have h': "h' = report_workflow env w h1" using run OneOrNone names by simp
        obtain ws where ws: "map (kx_ShowWorkflow env) names = map Inr ws" "filter resharding ws = [w]"
          using scan_workflows_One [OF OneOrNone] Some by auto
        then have "Inr w \<in> set (map (kx_ShowWorkflow env) names)" by (metis filter_is_subset in_set_conv_decomp image_eqI in_mono list.set_map list.set_intros(1))
        then have wf: "gomap_wf (wf_ShardStatuses w)" "visits (kx_visit env)" using assms(2) by (auto simp: shown_wf_def)
        have "in_sync_evidence env" if "cond_is (kh_status h') VitessKeyspaceReshardingInSync CondTrue"
        proof -
          have "caught_up w"
            using that workflow_state_Running [OF wf(2,1)]
            by (auto simp: h' report_workflow_conditions ConditionStatus_def split: WorkflowState.splits if_splits)
          then show ?thesis using names(2) ws by (auto simp: in_sync_evidence_def)
        qed
        then show ?thesis using same by (auto simp: h' report_workflow_conditions)
      qed
    qed (use names in simp)
  qed (use failed in blast)
qed

section \<open>The whole reconciliation\<close>

lemma report_workflow_fields [simp]:
  "kst_Shards (kh_status (report_workflow env w h)) = kst_Shards (kh_status h)"
  "kst_Partitionings (kh_status (report_workflow env w h)) = kst_Partitionings (kh_status h)"
  "kst_OrphanedShards (kh_status (report_workflow env w h)) = kst_OrphanedShards (kh_status h)"
proof -
  obtain state msgs where st: "workflow_state env w = (state, msgs)" by (metis surj_pair)
  show "kst_Shards (kh_status (report_workflow env w h)) = kst_Shards (kh_status h)"
    "kst_Partitionings (kh_status (report_workflow env w h)) = kst_Partitionings (kh_status h)"
    "kst_OrphanedShards (kh_status (report_workflow env w h)) = kst_OrphanedShards (kh_status h)"
    unfolding report_workflow_def Let_def st prod.case
    by (cases state; auto simp: set_InSync_def split: option.split)+
qed

lemma resharding_fields:
  assumes "reconcileResharding env h = Some (es, h', r)"
  shows "kst_Shards (kh_status h') = kst_Shards (kh_status h) \<and> kst_Partitionings (kh_status h') = kst_Partitionings (kh_status h)
    \<and> kst_OrphanedShards (kh_status h') = kst_OrphanedShards (kh_status h)"
proof -
  obtain es1 h1 e1 where init: "tsInit env 2 h = (es1, h1, e1)" by (metis prod_cases3)
  have "kst_Shards (kh_status h') = kst_Shards (kh_status h1) \<and> kst_Partitionings (kh_status h') = kst_Partitionings (kh_status h1)
      \<and> kst_OrphanedShards (kh_status h') = kst_OrphanedShards (kh_status h1)"
    using assms unfolding reconcileResharding_def init
    by (auto simp: set_InSync_def split: option.splits sum.splits workflow_scan.splits)
  then show ?thesis using tsInit_same [OF init] by simp
qed

lemma ready_evidence_cong:
  "kst_Shards s = kst_Shards s' \<Longrightarrow> kst_Partitionings s = kst_Partitionings s' \<Longrightarrow> ready_evidence s = ready_evidence s'"
  by (simp add: ready_evidence_def)

lemma unknown_fold:
  fixes h env cs r m
  defines "h' \<equiv> fold (\<lambda>c. setConditionStatus env 9 c CondUnknown r m) cs h"
  shows "cond_is (kh_status h') d X = (if d \<in> set cs then X = CondUnknown else cond_is (kh_status h) d X)"
    "kst_Shards (kh_status h') = kst_Shards (kh_status h)"
    "kst_Partitionings (kh_status h') = kst_Partitionings (kh_status h)"
    "kst_OrphanedShards (kh_status h') = kst_OrphanedShards (kh_status h)"
    "kst_Resharding (kh_status h') = kst_Resharding (kh_status h)"
  unfolding h'_def by (induction cs arbitrary: h) auto

text \<open>What a handler knows of its conditions: each is still untouched or set, and a good one has its evidence.\<close>

definition handler_ok :: "keyspace_env \<Rightarrow> keyspace_handler \<Rightarrow> bool" where
  "handler_ok env h \<longleftrightarrow>
     (\<forall>c \<in> set keyspaceConditions. c \<in> set (kh_untouched h) \<or> (\<exists>st. cond_is (kh_status h) c st))
     \<and> (VitessKeyspaceReady \<in> set (kh_untouched h) \<or> \<not> cond_is (kh_status h) VitessKeyspaceReady CondTrue \<or> ready_evidence (kh_status h))
     \<and> (VitessKeyspaceReshardingInSync \<in> set (kh_untouched h)
        \<or> \<not> cond_is (kh_status h) VitessKeyspaceReshardingInSync CondTrue \<or> in_sync_evidence env)"

lemma cond_is_unique: "cond_is s c st \<Longrightarrow> cond_is s c st' \<Longrightarrow> st = st'"
  by (auto simp: cond_is_def)

lemma passes_ok:
  assumes run: "keyspace_passes env h = Some (es, h', b)" and wf: "shown_wf env"
    and start: "set (kh_untouched h) = set keyspaceConditions"
  shows "handler_ok env h'"
proof -
  obtain es1 h1 r1 es2 h2 e2 es3 h3 r3 es4 r4 where
    "reconcileKeyspaceInformation env h = Some (es1, h1, r1)" "reconcileShards env h1 = Some (es2, h2, e2)"
    "keyspace_reconcileTopology env h2 = Some (es3, h3, r3)" "reconcileResharding env h3 = Some (es4, h', r4)"
    using run by (auto simp: keyspace_passes_def Let_def split: option.splits prod.splits)
  note 1 = information_same [OF this(1)] and 2 = reconcileShards_ready [OF this(2)]
    and 3 = topology_same [OF this(3)] and 4 = resharding_conditions [OF this(4) wf] resharding_fields [OF this(4)]
  have evidence: "ready_evidence (kh_status h') = ready_evidence (kh_status h2)"
    by (rule ready_evidence_cong) (use 3 4(2) in auto)
  have untouched: "set (kh_untouched h3) = set keyspaceConditions - (if e2 = None then {VitessKeyspaceReady} else {})"
    using 1 2 3 start by simp
  have ready: "e2 = None \<Longrightarrow> cond_is (kh_status h') VitessKeyspaceReady (ConditionStatus (ready_evidence (kh_status h')))"
    using 2 3 4(1) evidence by simp
  show ?thesis
    unfolding handler_ok_def
  proof (intro conjI)
    have "VitessKeyspaceReady \<in> set (kh_untouched h') \<longleftrightarrow> e2 \<noteq> None"
      using 4(1) untouched by (auto simp: keyspaceConditions_def)
    then show "VitessKeyspaceReady \<in> set (kh_untouched h') \<or> \<not> cond_is (kh_status h') VitessKeyspaceReady CondTrue
        \<or> ready_evidence (kh_status h')"
      using ready cond_is_unique [of "kh_status h'" VitessKeyspaceReady] by (fastforce simp: ConditionStatus_def)
    show "\<forall>c \<in> set keyspaceConditions. c \<in> set (kh_untouched h') \<or> (\<exists>st. cond_is (kh_status h') c st)"
      using 4(1) untouched ready by (auto simp: keyspaceConditions_def)
    show "VitessKeyspaceReshardingInSync \<in> set (kh_untouched h')
        \<or> \<not> cond_is (kh_status h') VitessKeyspaceReshardingInSync CondTrue \<or> in_sync_evidence env"
      using 4(1) untouched by (auto simp: keyspaceConditions_def split: if_splits)
  qed
qed

lemma passes_no_update:
  assumes "keyspace_passes env h = Some (es, h', b)"
  shows "UpdateKeyspaceStatus st \<notin> set es"
proof -
  have init: "UpdateKeyspaceStatus st \<notin> set (fst (tsInit env i h))" for i h
    by (auto simp: tsInit_def Let_def split: option.splits)
  have "reconcileKeyspaceInformation env h = Some (es, h', r) \<Longrightarrow> UpdateKeyspaceStatus st \<notin> set es" for h es h' r
    using init [of 0 h] by (auto simp: reconcileKeyspaceInformation_def Let_def
        split: prod.splits option.splits sum.splits topo_error.splits if_splits)
  moreover have "reconcileShards env h = Some (es, h', e) \<Longrightarrow> UpdateKeyspaceStatus st \<notin> set es" for h es h' e
    by (auto dest: reconcileShards_effects)
  moreover have "keyspace_reconcileTopology env h = Some (es, h', r) \<Longrightarrow> UpdateKeyspaceStatus st \<notin> set es" for h es h' r
    using init [of 1 h] by (auto simp: keyspace_reconcileTopology_def split: prod.splits option.splits bool.splits)
  moreover have "reconcileResharding env h = Some (es, h', r) \<Longrightarrow> UpdateKeyspaceStatus st \<notin> set es" for h es h' r
    using init [of 2 h] by (auto simp: reconcileResharding_def split: prod.splits option.splits sum.splits workflow_scan.splits)
  moreover obtain es1 h1 r1 es2 h2 e2 es3 h3 r3 es4 r4 where
    "reconcileKeyspaceInformation env h = Some (es1, h1, r1)" "reconcileShards env h1 = Some (es2, h2, e2)"
    "keyspace_reconcileTopology env h2 = Some (es3, h3, r3)" "reconcileResharding env h3 = Some (es4, h', r4)"
    "es = es1 @ es2 @ es3 @ es4"
    using assms by (auto simp: keyspace_passes_def Let_def split: option.splits prod.splits)
  ultimately show ?thesis by (metis Un_iff set_append)
qed

lemma keyspace_Reconcile_update:
  assumes "keyspace_Reconcile env = Some (es, r)" "UpdateKeyspaceStatus st \<in> set es"
  shows "\<exists>vtk es1 h b h' es2 err. kx_get env = Inr (Some vtk)
    \<and> keyspace_passes env (NewReconcileHandler env vtk) = Some (es1, h, b)
    \<and> keyspace_updateStatus env h = (es2, h', err) \<and> st = kh_status h'"
proof -
  obtain vtk es1 h b es2 h' err where *: "kx_get env = Inr (Some vtk)"
    "keyspace_passes env (NewReconcileHandler env vtk) = Some (es1, h, b)" "keyspace_updateStatus env h = (es2, h', err)"
    "es = es1 @ [KeyspaceResync] @ es2 @ handler_close h'"
    using assms by (auto simp: keyspace_Reconcile_def split: sum.splits option.splits prod.splits)
  moreover have "UpdateKeyspaceStatus st \<in> set es2"
    using assms(2) passes_no_update [OF *(2)] by (auto simp: *(4) handler_close_def split: if_splits)
  ultimately show ?thesis
    by (intro exI) (auto simp: keyspace_updateStatus_def Let_def split: if_splits)
qed

text \<open>C11: The conditions that a keyspace reports are backed by what its pass has seen.  Every pass that writes a status decides each
  condition anew.  Ready is true only if some partitioning has all its shards serving writes and the last such one has all of
  its tablets ready, as counted from the status of the shards; and ReshardingInSync is true only if the wrangler showed every
  active workflow, exactly one of them reshards, none of its shards is copying or in error, and it lags by less than ten seconds.\<close>

theorem keyspace_conditions_sound:
  assumes "keyspace_Reconcile env = Some (es, r)" "UpdateKeyspaceStatus st \<in> set es"
    and "shown_wf env" "\<forall>xs. set (kx_string_order env xs) = set xs"
  shows "(\<forall>c \<in> set keyspaceConditions. \<exists>s. cond_is st c s)
    \<and> (cond_is st VitessKeyspaceReady CondTrue \<longrightarrow> ready_evidence st)
    \<and> (cond_is st VitessKeyspaceReshardingInSync CondTrue \<longrightarrow> in_sync_evidence env)"
proof -
  obtain vtk es1 h b h' es2 err where *: "keyspace_passes env (NewReconcileHandler env vtk) = Some (es1, h, b)"
    "keyspace_updateStatus env h = (es2, h', err)" "st = kh_status h'"
    using keyspace_Reconcile_update [OF assms(1,2)] by blast
  have ok: "handler_ok env h"
    using assms(3) by (intro passes_ok [OF *(1)]) (simp_all add: NewReconcileHandler_def Let_def)
  have h': "h' = fold (\<lambda>c. setConditionStatus env 9 c CondUnknown ''ReconcileFailed'' ''Failed to determine status of the condition.'')
      (kx_string_order env (kh_untouched h)) h"
    using *(2) by (auto simp: keyspace_updateStatus_def Let_def split: if_splits)
  have "ready_evidence st = ready_evidence (kh_status h)"
    by (rule ready_evidence_cong) (simp_all add: *(3) h' unknown_fold)
  moreover have set: "cond_is st d X = (if d \<in> set (kh_untouched h) then X = CondUnknown else cond_is (kh_status h) d X)" for d X
    unfolding *(3) h' unknown_fold(1) using assms(4) by simp
  have "\<exists>s. cond_is st c s" if "c \<in> set keyspaceConditions" for c
    using ok that by (cases "c \<in> set (kh_untouched h)") (auto simp: set handler_ok_def)
  moreover have "cond_is st VitessKeyspaceReady CondTrue \<longrightarrow> ready_evidence (kh_status h)"
    "cond_is st VitessKeyspaceReshardingInSync CondTrue \<longrightarrow> in_sync_evidence env"
    using ok unfolding set handler_ok_def by (simp_all split: if_splits) blast+
  ultimately show ?thesis by blast
qed

section \<open>A well-formed status\<close>

definition resharding_wf :: "resharding_status option \<Rightarrow> bool" where
  "resharding_wf r \<longleftrightarrow> (case r of None \<Rightarrow> True
     | Some s \<Rightarrow> - 1 \<le> rsh_CopyProgress s \<and> (rsh_CopyProgress s = 100 \<longleftrightarrow> rsh_State s = WorkflowRunning) \<and> rsh_CopyProgress s \<le> 100)"

definition keyspace_status_wf :: "keyspace_status \<Rightarrow> bool" where
  "keyspace_status_wf s \<longleftrightarrow> distinct (map fst (kst_Conditions s)) \<and> gomap_wf (kst_Shards s) \<and> gomap_wf (kst_OrphanedShards s)
     \<and> resharding_wf (kst_Resharding s)"

lemma distinct_set_condition: "distinct (map fst (set_condition new cs)) = distinct (map fst cs)"
  by (auto simp: set_condition_keys)

lemma status_wf_SetConditionStatus [simp]:
  "keyspace_status_wf (keyspace_SetConditionStatus n c st r m s) = keyspace_status_wf s"
  by (simp add: keyspace_status_wf_def) (simp add: keyspace_SetConditionStatus_def Let_def distinct_set_condition)

lemma status_wf_Partitionings [simp]: "keyspace_status_wf (kst_Partitionings_update f s) = keyspace_status_wf s"
  by (simp add: keyspace_status_wf_def)





lemma percent_rounding:
  fixes a b q m t :: rat
  assumes "0 \<le> t" "99 / 100 * t \<le> a" "a \<le> 101 / 100 * t" "99 / 100 \<le> b"
    and "99 / 100 * (a / b) \<le> q" "q \<le> 101 / 100 * (a / b)" "99 / 100 * (q * 100) \<le> m" "m \<le> 101 / 100 * (q * 100)"
  shows "m \<le> 105 * t" and "b \<le> 101 / 100 \<Longrightarrow> 95 * t \<le> m"
proof -
  have a: "0 \<le> a" using assms(1,2) by simp
  have "a / b \<le> a / (99 / 100)" using a assms(4) by (intro divide_left_mono) simp_all
  then show "m \<le> 105 * t" using assms by simp
  show "95 * t \<le> m" if "b \<le> 101 / 100"
  proof -
    have "a / (101 / 100) \<le> a / b" using a assms(4) that by (intro divide_left_mono) simp_all
    then show ?thesis using assms by simp
  qed
qed

lemma percent_float_bounds:
  fixes t s :: "64 word"
  assumes "s \<noteq> 0"
  defines "m \<equiv> float64_mul (float64_div (float64_of_uint64 t) (float64_of_uint64 s)) 100"
  shows "0 \<le> m" and "m \<le> 105 * of_nat (unat t)" and "s = 1 \<Longrightarrow> 95 * of_nat (unat t) \<le> m"
proof -
  let ?t = "of_nat (unat t) :: rat" and ?s = "of_nat (unat s) :: rat"
  let ?a = "float64_of_uint64 t" and ?b = "float64_of_uint64 s"
  let ?q = "float64_div ?a ?b"
  have "0 < unat s" using assms(1) by (simp add: unat_gt_0)
  then have s: "1 \<le> ?s" by (metis One_nat_def Suc_leI of_nat_1 of_nat_mono)
  note a = round64_bounds [OF of_nat_0_le_iff [of "unat t"], folded float64_of_uint64_def]
  note b = round64_bounds [OF of_nat_0_le_iff [of "unat s"], folded float64_of_uint64_def]
  have low: "99 / 100 \<le> ?b"
    by (rule order_trans [OF _ b(2)]) (use s in linarith)
  have high: "?b \<le> 101 / 100" if "s = 1"
    by (rule order_trans [OF b(3)]) (simp add: that)
  have ab: "0 \<le> ?a / ?b" using a(1) b(1) by (rule divide_nonneg_nonneg)
  note q = round64_bounds [OF ab, folded float64_div_def]
  have q100: "0 \<le> ?q * 100" using q(1) by simp
  note m = round64_bounds [OF q100, folded float64_mul_def, folded m_def]
  note rounding = percent_rounding [OF of_nat_0_le_iff a(2,3) low q(2,3) m(2,3)]
  show "0 \<le> m" by (rule m(1))
  show "m \<le> 105 * ?t" by (rule rounding(1))
  show "95 * ?t \<le> m" if "s = 1" by (rule rounding(2) [OF high [OF that]])
qed


text \<open>Beyond that bound the value written is the platform's: on amd64 the smallest \<open>int\<close>, which the check for nonsense lets pass.\<close>

lemma percent_complete_overflow: "2 ^ 62 \<le> unat t \<Longrightarrow> percent_complete (\<lambda>x. - (2 ^ 63)) t 1 = - (2 ^ 63)"
proof -
  assume "2 ^ 62 \<le> unat t"
  then have "(of_nat (2 ^ 62) :: rat) \<le> of_nat (unat t)" by (simp only: of_nat_le_iff)
  then have "2 ^ 63 \<le> float64_mul (float64_div (float64_of_uint64 t) (float64_of_uint64 1)) 100"
    using percent_float_bounds(3) [of 1 t] by simp
  then show ?thesis unfolding percent_complete_def by (rule int_of_float64_overflow)
qed





section \<open>A keyspace at work\<close>

text \<open>A keyspace that no partitioning is left of, while an idle shard object remains and a workflow is catching up.\<close>

definition example_keyspace :: vitess_keyspace where
  "example_keyspace = \<lparr>vk_Namespace = ''ns'', vk_Labels = [ClusterLabel \<mapsto> ''c''],
     vk_Spec = \<lparr>kt_Name = ''commerce'', kt_DatabaseName = [], kt_DurabilityPolicy = ''semi_sync'', kt_VitessOrchestrator = None,
       kt_Partitionings = [], kt_TurndownPolicy = [], kt_Annotations = None,
       kt_Images = \<lparr>kt_Vttablet = [], kt_Vtorc = [], kt_Vtbackup = [], kt_Mysqld = None, kt_MysqldExporter = []\<rparr>,
       kt_SidecarDbName = [], kp_GlobalLockserver = \<lparr>Implementation = [], Address = [], RootPath = []\<rparr>,
       kp_Images = \<lparr>ki_Vttablet = [], ki_Vtorc = [], ki_Vtbackup = [], ki_Mysqld = None, ki_MysqldExporter = []\<rparr>,
       kp_ImagePullPolicies = no_pull_policies, kp_ImagePullSecrets = [], kp_ZoneMap = Map.empty, kp_BackupLocations = [],
       kp_BackupEngine = [], kp_ExtraVitessFlags = [], kp_TopologyReconciliation = None, kp_UpdateStrategy = None\<rparr>,
     vk_Status = NewVitessKeyspaceStatus\<rparr>"

definition example_template_shard :: keyrange_shard where
  "example_template_shard = \<lparr>st_TabletPools = [], st_DatabaseInitScriptSecret = no_secret,
     st_Replication = \<lparr>rs_InitializeMaster = None, rs_InitializeBackup = None, rs_RecoverRestartedMaster = None\<rparr>,
     st_Annotations = Some [''a'' \<mapsto> ''b''], ks_KeyRange = VitessKeyRange [] ''80''\<rparr>"

definition idle_shard :: vitess_shard where
  "idle_shard = (newVitessShard (''ns'', ''old'') example_keyspace (keyspace_labels example_keyspace) example_template_shard)
     \<lparr>ko_body := \<lparr>sb_Spec = shard_spec_of (newVitessShard (''ns'', ''old'') example_keyspace [] example_template_shard),
        sb_Status = zero_shard_status\<lparr>sh_Idle := CondTrue\<rparr>, sb_Generation = 1\<rparr>\<rparr>"

definition example_keyspace_env :: keyspace_env where
  "example_keyspace_env =
     \<lparr>kx_get = Inr (Some example_keyspace),
      kx_shards = \<lparr>kget = (\<lambda>k. Found idle_shard), kdelete = (\<lambda>x. None), kcreate = (\<lambda>x. None), kupdate = (\<lambda>x. None),
        klist = Inr [idle_shard], set_owner = Inr, defaulted = (\<lambda>x. x), semantic_equal = (=), describe = (\<lambda>a b. []), collision = []\<rparr>,
      kx_gen = (\<lambda>n w. None), kx_key_order = (\<lambda>ks. ks), kx_string_order = (\<lambda>ks. ks), kx_visit = (\<lambda>n ks. ks), kx_now = (\<lambda>c i. 0),
      kx_open = (\<lambda>i. None), kx_vtenv = (\<lambda>i. None), kx_GetKeyspace = Inr ''none'', kx_CreateKeyspace = (\<lambda>b. Some None),
      kx_SetDurability = (\<lambda>b. Some None), kx_vtEnvErr = None, kx_topo = (\<lambda>c. None), kx_GetShardNames = Inr [],
      kx_ListAllWorkflows = (\<lambda>b. Some (Inr [''w''])),
      kx_ShowWorkflow = (\<lambda>n. Inr \<lparr>wf_Workflow = ''w'', wf_SourceKeyspace = ''commerce'', wf_SourceShards = Some [''-''],
        wf_TargetKeyspace = ''commerce'', wf_TargetShards = Some [''-80'', ''80-''], wf_MaxVReplicationLag = 3,
        wf_ShardStatuses = [(''-80'', [(''Running'', [])])]\<rparr>),
      kx_GetShard = (\<lambda>s. Inl []), kx_GetSchema = (\<lambda>a. Inl []), kx_out_of_range = (\<lambda>x. - (2 ^ 63)), kx_status_changed = (\<lambda>s. True),
      kx_update_status = None\<rparr>"

lemma example_keyspace_run:
  "\<exists>es r st. keyspace_Reconcile example_keyspace_env = Some (es, r) \<and> UpdateKeyspaceStatus st \<in> set es"
proof -
  let ?h = "NewReconcileHandler example_keyspace_env example_keyspace"
  have h: "kh_spec ?h = vk_Spec (DefaultVitessKeyspace example_keyspace)" by (simp add: NewReconcileHandler_def Let_def)
  have flag: "(case kp_TopologyReconciliation (kh_spec ?h) of None \<Rightarrow> None | Some c \<Rightarrow> tr_PruneShards c) = Some True"
    unfolding h by (simp add: example_keyspace_def DefaultVitessKeyspace_def DefaultTopoReconcileConfig_def empty_topo_config_def fill_def Let_def)
  have spec: "kt_Partitionings (kh_spec ?h) = []"
    unfolding h by (simp add: example_keyspace_def DefaultVitessKeyspace_def)
  have info: "\<exists>es h' r. reconcileKeyspaceInformation example_keyspace_env h = Some (es, h', r)" for h
    by (auto simp: reconcileKeyspaceInformation_def tsInit_def example_keyspace_env_def Let_def)
  have shards: "\<exists>es h' r. reconcileShards example_keyspace_env h = Some (es, h', r)" if "kt_Partitionings (kh_spec h) = []" for h
    using that
    by (auto simp: reconcileShards_def ShardTemplates_def SortKeyRanges_def shard_keys_def hooks_panic_def example_keyspace_env_def
        Let_def split: prod.split)
  have topo: "\<exists>es h' r. keyspace_reconcileTopology example_keyspace_env h = Some (es, h', r)"
    if "(case kp_TopologyReconciliation (kh_spec h) of None \<Rightarrow> None | Some c \<Rightarrow> tr_PruneShards c) = Some True" for h
    using that by (auto simp: keyspace_reconcileTopology_def tsInit_def example_keyspace_env_def Let_def split: prod.split option.splits)
  have resh: "\<exists>es h' r. reconcileResharding example_keyspace_env h = Some (es, h', r)" for h
    by (auto simp: reconcileResharding_def tsInit_def example_keyspace_env_def Let_def split: workflow_scan.split option.split)
  obtain es1 h1 r1 where 1: "reconcileKeyspaceInformation example_keyspace_env ?h = Some (es1, h1, r1)" using info by blast
  then have s1: "kh_spec h1 = kh_spec ?h" using information_same by metis
  have "kt_Partitionings (kh_spec h1) = []" using spec unfolding s1 .
  then obtain es2 h2 r2 where 2: "reconcileShards example_keyspace_env h1 = Some (es2, h2, r2)" using shards by blast
  have s2: "kh_spec h2 = kh_spec ?h" using reconcileShards_spec [OF 2] s1 by simp
  obtain es3 h3 r3 where 3: "keyspace_reconcileTopology example_keyspace_env h2 = Some (es3, h3, r3)"
    using topo [of h2] flag unfolding s2 by blast
  obtain es4 h4 r4 where 4: "reconcileResharding example_keyspace_env h3 = Some (es4, h4, r4)" using resh by blast
  have "\<exists>es b. keyspace_passes example_keyspace_env ?h = Some (es, h4, b)"
    by (simp add: keyspace_passes_def 1 2 3 4 Let_def split: prod.split)
  then obtain es5 b where 5: "keyspace_passes example_keyspace_env ?h = Some (es5, h4, b)" by blast
  have "kx_get example_keyspace_env = Inr (Some example_keyspace)" "kx_status_changed example_keyspace_env s" for s
    by (simp_all add: example_keyspace_env_def)
  with 5 show ?thesis by (auto simp: keyspace_Reconcile_def keyspace_updateStatus_def Let_def)
qed

text \<open>The conditions of the keyspace at work.\<close>

lemma keyspace_conditions_sound_witness:
  "\<exists>es r st. keyspace_Reconcile example_keyspace_env = Some (es, r) \<and> UpdateKeyspaceStatus st \<in> set es
     \<and> (\<forall>c \<in> set keyspaceConditions. \<exists>s. cond_is st c s)"
proof -
  obtain es r st where run: "keyspace_Reconcile example_keyspace_env = Some (es, r)" "UpdateKeyspaceStatus st \<in> set es"
    using example_keyspace_run by blast
  have "shown_wf example_keyspace_env" "\<forall>xs. set (kx_string_order example_keyspace_env xs) = set xs"
    by (simp_all add: shown_wf_def visits_def example_keyspace_env_def)
  from keyspace_conditions_sound [OF run this] run show ?thesis by blast
qed


text \<open>The idle shard that no partitioning names is deleted.\<close>

lemma idle_shard_deleted:
  "\<exists>es h' err. reconcileShards example_keyspace_env (NewReconcileHandler example_keyspace_env example_keyspace) = Some (es, h', err)
     \<and> ShardEffect (DeleteObj idle_shard) \<in> set es"
proof -
  let ?h = "NewReconcileHandler example_keyspace_env example_keyspace"
  have spec: "kt_Partitionings (kh_spec ?h) = []"
    by (simp add: NewReconcileHandler_def Let_def example_keyspace_def DefaultVitessKeyspace_def)
  have labels: "hasMatchingLabels idle_shard (keyspace_labels (kh_vtk ?h))"
    by (simp add: hasMatchingLabels_def NewReconcileHandler_def Let_def idle_shard_def newVitessShard_def
        keyspace_labels_def example_keyspace_def DefaultVitessKeyspace_def example_template_shard_def
        ClusterLabel_def KeyspaceLabel_def ShardLabel_def)
  have fields: "\<not> ko_evictable idle_shard" "\<not> ko_deleting idle_shard" "sh_Idle (sb_Status (ko_body idle_shard)) = CondTrue"
    by (simp_all add: idle_shard_def newVitessShard_def Let_def)
  have env: "klist (kx_shards example_keyspace_env) = Inr [idle_shard]" "kget (kx_shards example_keyspace_env) k = Found idle_shard"
    "kdelete (kx_shards example_keyspace_env) x = None" for k x
    by (simp_all add: example_keyspace_env_def)
  have "ShardEffect (DeleteObj idle_shard) \<in> set (map ShardEffect (fst (ReconcileObjectSet (kx_shards example_keyspace_env)
      (shard_strategy (kh_vtk ?h) []) (keyspace_labels (kh_vtk ?h)) [])))"
    using labels by (simp add: ReconcileObjectSet_def env fields ReconcileObject_def remove_evicted_def
      reconcile_unwanted_def shard_strategy_def Let_def drainAndDelete_def kube_delete_def split: prod.split)
  moreover have "\<not> hooks_panic example_keyspace_env (kh_vtk ?h) []" by (simp add: hooks_panic_def)
  moreover have "ShardTemplates (kx_gen example_keyspace_env) (kx_key_order example_keyspace_env) [] = Some []"
    by (simp add: ShardTemplates_def SortKeyRanges_def example_keyspace_env_def Let_def)
  ultimately show ?thesis
    by (simp add: reconcileShards_def spec shard_keys_def Let_def case_prod_unfold)
qed

text \<open>Its deletion is one that the rules allow: the shard said that it was idle.\<close>

lemma reconcileShards_safe_witness:
  "\<exists>es h' err. reconcileShards example_keyspace_env (NewReconcileHandler example_keyspace_env example_keyspace) = Some (es, h', err)
     \<and> ShardEffect (DeleteObj idle_shard) \<in> set es \<and> sh_Idle (sb_Status (ko_body idle_shard)) = CondTrue"
proof -
  obtain es h' err where run:
    "reconcileShards example_keyspace_env (NewReconcileHandler example_keyspace_env example_keyspace) = Some (es, h', err)"
    "ShardEffect (DeleteObj idle_shard) \<in> set es"
    using idle_shard_deleted by blast
  have "\<forall>key obj. kget (kx_shards example_keyspace_env) key = Found obj \<longrightarrow> \<not> ko_evictable obj"
    by (simp add: example_keyspace_env_def idle_shard_def newVitessShard_def Let_def)
  from reconcileShards_safe [OF run(1) this] run show ?thesis by blast
qed

text \<open>An operator that waits for an external tool to release changes adds an annotation, and holds back the new init script.\<close>

definition external_keyspace :: vitess_keyspace where
  "external_keyspace = example_keyspace\<lparr>vk_Spec := (vk_Spec example_keyspace)\<lparr>kp_UpdateStrategy :=
     Some \<lparr>us_Type = Some ExternalVitessClusterUpdateStrategyType, us_External = Some []\<rparr>\<rparr>\<rparr>"

definition changed_template_shard :: keyrange_shard where
  "changed_template_shard = example_template_shard\<lparr>st_DatabaseInitScriptSecret := \<lparr>sec_Name = ''s'', sec_VolumeName = [], sec_Key = ''k''\<rparr>, st_Annotations := Some [''k'' \<mapsto> ''v'']\<rparr>"

lemma external_updates_held_witness:
  "\<exists>obj'. shard_in_place external_keyspace [] changed_template_shard (''ns'', ''old'') idle_shard = Some obj'
     \<and> held_spec (shard_spec_of obj') = held_spec (shard_spec_of idle_shard) \<and> nil_safe (annotations obj') ''k'' = Some ''v''"
proof -
  have "\<exists>obj'. shard_in_place external_keyspace [] changed_template_shard (''ns'', ''old'') idle_shard = Some obj'"
    by (simp add: shard_in_place_def updateVitessShardInPlace_def Let_def external_keyspace_def newVitessShard_def)
  then obtain obj' where run: "shard_in_place external_keyspace [] changed_template_shard (''ns'', ''old'') idle_shard = Some obj'" by blast
  have ext: "\<exists>u. kp_UpdateStrategy (vk_Spec external_keyspace) = Some u \<and> us_Type u = Some ExternalVitessClusterUpdateStrategyType"
    by (simp add: external_keyspace_def)
  have "nil_safe (st_Annotations changed_template_shard) ''k'' = Some ''v''" by (simp add: changed_template_shard_def)
  with external_updates_held [OF run ext] run show ?thesis by blast
qed

end
