(* ===== verification/Tablets.thy ===== *)
theory Tablets
  imports Tablet_Pod_Laws Rollout
begin

text \<open>
  The tablets of a shard: \<open>pkg/controller/vitessshard/reconcile_tablets.go\<close>.  A pass computes the tablets that the pools of
  the shard ask for, reconciles their volume claims and then their Pods, and reports a status for each of them.  The hooks
  write into the status of the shard while the two sets are reconciled; here they are folds over the traces
  of the sets, in the order of the calls.
\<close>

section \<open>The tablets a shard asks for\<close>

text \<open>The shard as far as the pass looks at it.\<close>

record tablets_shard =
  vsh_Namespace :: string
  vsh_Labels :: "string \<rightharpoonup> string"
  vsh_Generation :: int
  vsh_Spec :: tablet_shard_spec
  vsh_Status :: shard_status

definition vsh_label :: "string \<Rightarrow> tablets_shard \<Rightarrow> string" where
  "vsh_label k vts = (case vsh_Labels vts k of None \<Rightarrow> [] | Some v \<Rightarrow> v)"

definition TabletPoolNameLabel :: string where "TabletPoolNameLabel = ''planetscale.com/pool-name''"
definition TabletIndexLabel :: string where "TabletIndexLabel = ''planetscale.com/tablet-index''"
definition observedShardGenerationAnnotationKey :: string where
  "observedShardGenerationAnnotationKey = ''planetscale.com/observed-shard-generation''"
definition pvcFilesystemResizeAnnotation :: string where
  "pvcFilesystemResizeAnnotation = ''planetscale.com/pvc-filesystem-resize''"
definition tabletAvailableSeconds :: int where "tabletAvailableSeconds = 30"

text \<open>
  The loop \<open>for tabletIndex := int32(1); tabletIndex <= pool.Replicas; tabletIndex++\<close>: the increment wraps, and a loop that does not
  end is \<open>None\<close>.
\<close>

partial_function (option) tablet_indices :: "32 word \<Rightarrow> 32 word \<Rightarrow> 32 word list option" where
  "tablet_indices tabletIndex replicas =
     (if tabletIndex \<le>s replicas
      then Option.bind (tablet_indices (tabletIndex + 1) replicas) (\<lambda>rest. Some (tabletIndex # rest))
      else Some [])"

definition pool_tablet_UID :: "tablets_shard \<Rightarrow> tablet_pool \<Rightarrow> 32 word \<Rightarrow> 32 word" where
  "pool_tablet_UID vts pool tabletIndex =
     (if tp_ExternalDatastore pool \<noteq> None \<and> tp_Name pool \<noteq> []
      then UIDWithPoolName (tp_Cell pool) (vsh_label KeyspaceLabel vts) (ss_KeyRange (vsh_Spec vts)) (tp_Type pool) tabletIndex (tp_Name pool)
      else UID (tp_Cell pool) (vsh_label KeyspaceLabel vts) (ss_KeyRange (vsh_Spec vts)) (tp_Type pool) tabletIndex)"

definition pool_tablet_labels ::
    "(string, string) gomap \<Rightarrow> tablet_pool \<Rightarrow> tablet_alias \<Rightarrow> 32 word \<Rightarrow> (string, string) gomap"
where
  "pool_tablet_labels parentLabels pool tabletAlias tabletIndex =
     (let labels = set_entries
            [(CellLabel, fst tabletAlias), (TabletUidLabel, UIDString (snd tabletAlias)), (TabletTypeLabel, tp_Type pool),
             (TabletIndexLabel, dec_int (uint (scast tabletIndex :: 64 word)))] parentLabels
      in if tp_ExternalDatastore pool \<noteq> None then AList.update TabletPoolNameLabel (tp_Name pool) labels else labels)"

definition pool_tablet_annotations :: "tablet_pool \<Rightarrow> backup_location option \<Rightarrow> (string, string) gomap" where
  "pool_tablet_annotations pool backupLocation =
     (let ann = set_entries (tp_Annotations pool) [(drain_SupportedAnnotation, ''ensure that the tablet is not a primary'')]
      in case backupLocation of None \<Rightarrow> ann | Some l \<Rightarrow> set_entries (bl_Annotations l) ann)"

definition pool_tablet :: "tablet_lib \<Rightarrow> tablets_shard \<Rightarrow> (string, string) gomap \<Rightarrow> tablet_pool \<Rightarrow> 32 word \<Rightarrow> TabletSpec" where
  "pool_tablet lib vts parentLabels pool tabletIndex =
     (let spec = vsh_Spec vts;
          backupLocation = BackupLocation spec (tp_BackupLocationName pool);
          tabletAlias = (tp_Cell pool, pool_tablet_UID vts pool tabletIndex);
          extraFlags = set_entries (vt_extraFlags (tp_Vttablet pool)) (set_entries (ss_ExtraVitessFlags spec) [])
      in \<lparr>sp_Alias = tabletAlias, sp_AliasStr = tl_AliasString lib tabletAlias, sp_Type = tp_Type pool,
          sp_Zone = (case ss_ZoneMap spec (fst tabletAlias) of None \<Rightarrow> [] | Some z \<Rightarrow> z),
          sp_Labels = pool_tablet_labels parentLabels pool tabletAlias tabletIndex, sp_Images = ss_Images spec,
          sp_ImagePullPolicies = ss_ImagePullPolicies spec, sp_ImagePullSecrets = ss_ImagePullSecrets spec,
          sp_Index = tabletIndex, sp_KeyRange = ss_KeyRange spec, sp_KeyspaceName = vsh_label KeyspaceLabel vts,
          sp_DatabaseName = ss_DatabaseName spec, sp_Vttablet = (tp_Vttablet pool)\<lparr>vt_extraFlags := extraFlags\<rparr>,
          sp_Mysqld = tp_Mysqld pool, sp_MysqldExporter = tp_MysqldExporter pool,
          sp_ExternalDatastore = tp_ExternalDatastore pool, sp_DataVolumePVCSpec = tp_DataVolumeClaimTemplate pool,
          sp_DataVolumePVCName = [], sp_GlobalLockserver = ss_GlobalLockserver spec,
          sp_DatabaseInitScriptSecret = st_DatabaseInitScriptSecret spec,
          sp_Annotations = pool_tablet_annotations pool backupLocation, sp_ExtraLabels = tp_ExtraLabels pool,
          sp_BackupLocation = backupLocation, sp_BackupEngine = ss_BackupEngine spec, sp_Affinity = tp_Affinity pool,
          sp_ExtraEnv = tp_ExtraEnv pool, sp_ExtraVolumes = tp_ExtraVolumes pool,
          sp_ExtraVolumeMounts = tp_ExtraVolumeMounts pool, sp_InitContainers = tp_InitContainers pool,
          sp_SidecarContainers = tp_SidecarContainers pool, sp_Tolerations = tp_Tolerations pool,
          sp_TopologySpreadConstraints = tp_TopologySpreadConstraints pool\<rparr>)"

definition vttabletSpecs :: "tablet_lib \<Rightarrow> tablets_shard \<Rightarrow> (string, string) gomap \<Rightarrow> TabletSpec list option" where
  "vttabletSpecs lib vts parentLabels =
     map_option concat
       (map_opt (\<lambda>pool. map_option (map (pool_tablet lib vts parentLabels pool)) (tablet_indices 1 (tp_Replicas pool)))
         (st_TabletPools (vsh_Spec vts)))"

section \<open>What the pass asks\<close>

text \<open>
  The sets of claims and of Pods, each with its API calls; the reads of single objects that the hooks make on their own (the Pod
  of an unwanted claim, the claim of a Pod); the topology server, which is opened anew for every Pod that is turned down, with
  \<open>topoproto.TabletAliasEqual\<close> for the primary of the shard record, which may be nil; and \<open>podutils.IsPodAvailable\<close>
  at the time of the call.
\<close>

record tablets_env =
  tb_lib :: tablet_lib
  tb_pvcs :: "(pvc_body, string) kube_env"
  tb_pods :: "(tablet_pod_body, string) kube_env"
  tb_get_pod :: "object_key \<Rightarrow> (tablet_pod_body, string) get_answer"
  tb_get_pvc :: "object_key \<Rightarrow> (pvc_body, string) get_answer"
  tb_Open :: "tablet_alias \<Rightarrow> string option"
  tb_GetShard :: "tablet_alias \<Rightarrow> string \<Rightarrow> string \<Rightarrow> string + tablet_alias option"
  tb_AliasEqual :: "tablet_alias option \<Rightarrow> tablet_alias \<Rightarrow> bool"
  tb_IsPodAvailable :: "tablet_pod \<Rightarrow> int \<Rightarrow> bool"

datatype tablets_effect = ClaimEffect "pvc_body kube_effect" | TabletEffect "tablet_pod_body kube_effect"

text \<open>On an error the first result is \<open>true\<close>, but the caller looks at the error first.\<close>

definition isTabletPrimary :: "tablets_env \<Rightarrow> tablets_shard \<Rightarrow> tablet_alias \<Rightarrow> string + bool" where
  "isTabletPrimary env vts tabletAlias =
     (case tb_Open env tabletAlias of
        Some err \<Rightarrow> Inl err
      | None \<Rightarrow>
          (case tb_GetShard env tabletAlias (vsh_label KeyspaceLabel vts) (ss_Name (vsh_Spec vts)) of
             Inl err \<Rightarrow> Inl err
           | Inr primaryAlias \<Rightarrow> Inr (tb_AliasEqual env primaryAlias tabletAlias)))"

definition checkPVCFileSystemResizeCondition :: "pvc_kobj \<Rightarrow> bool" where
  "checkPVCFileSystemResizeCondition pvc =
     (case find (\<lambda>c. fst c = ''FileSystemResizePending'') (pvb_Conditions (ko_body pvc)) of
        None \<Rightarrow> False
      | Some c \<Rightarrow> snd c = CondTrue)"

text \<open>The annotation is written into the spec of the tablet, and from there reaches its Pod.\<close>

definition updatePVCFilesystemResizeAnnotation :: "tablets_env \<Rightarrow> TabletSpec \<Rightarrow> tablet_pod \<Rightarrow> TabletSpec" where
  "updatePVCFilesystemResizeAnnotation env tabletSpec pod =
     (case sp_DataVolumePVCSpec tabletSpec of
        None \<Rightarrow> tabletSpec
      | Some claimSpec \<Rightarrow>
          (case tb_get_pvc env (fst (ko_key pod), sp_DataVolumePVCName tabletSpec) of
             Found pvc \<Rightarrow>
               (case storage_request claimSpec of
                  None \<Rightarrow> tabletSpec
                | Some requested \<Rightarrow>
                    if Quantity_Value (quantity_or_zero (storage_request (pvb_Spec (ko_body pvc)))) \<noteq> Quantity_Value requested
                    then tabletSpec
                    else if \<not> checkPVCFileSystemResizeCondition pvc then tabletSpec
                    else tabletSpec\<lparr>sp_Annotations :=
                      AList.update pvcFilesystemResizeAnnotation (tl_storage_String (tb_lib env) claimSpec) (sp_Annotations tabletSpec)\<rparr>)
           | _ \<Rightarrow> tabletSpec))"

definition tabletAvailableStatus :: "tablets_env \<Rightarrow> string builder \<Rightarrow> tablet_pod \<Rightarrow> cond_status \<times> string builder" where
  "tabletAvailableStatus env resultBuilder pod =
     (if ko_deleting pod then (CondFalse, resultBuilder)
      else if tb_IsPodAvailable env pod tabletAvailableSeconds then (CondTrue, resultBuilder)
      else (CondFalse, builder_RequeueAfter tabletAvailableSeconds resultBuilder))"

section \<open>The strategies\<close>

text \<open>The map from generated names back to tablets.\<close>

type_synonym tablet_map = "object_key \<rightharpoonup> TabletSpec"

definition pvc_strategy :: "tablets_env \<Rightarrow> tablet_map \<Rightarrow> pvc_body strategy" where
  "pvc_strategy env tabletMap =
     \<lparr>New = (\<lambda>key. case Option.bind (tabletMap key) (NewPVC key) of
         Some pvc \<Rightarrow> pvc
       | None \<Rightarrow> \<lparr>annotations = None, ko_key = key, ko_labels = Map.empty, ko_UID = [], ko_deleting = False, ko_evictable = False,
           ko_body = \<lparr>pvb_Spec = \<lparr>pvc_requests = None, pvc_rest = []\<rparr>, pvb_Phase = [], pvb_Conditions = []\<rparr>\<rparr>),
      UpdateInPlace = Some (\<lambda>key obj. case Option.bind (tabletMap key) (\<lambda>tablet. UpdatePVCInPlace tablet obj) of
         Some obj' \<Rightarrow> obj' | None \<Rightarrow> obj),
      UpdateRollingInPlace = None, UpdateRecreate = None, UpdateRollingRecreate = None,
      has_Status = True, has_OrphanStatus = False,
      PrepareForTurndown = Some (\<lambda>key obj.
        (obj, if tb_get_pod env key = NotFound then None
              else Some \<lparr>os_Reason = ''PodExists'',
                os_Message = ''not deleting tablet PVC because tablet Pod still exists''\<rparr>))\<rparr>"

text \<open>The Pod's hook, which also asks for a drain; \<open>tablets\<close> are the statuses when the first unwanted Pod is looked at.\<close>

definition prepare_tablet_turndown ::
    "tablets_env \<Rightarrow> tablets_shard \<Rightarrow> (string, tablet_status) gomap \<Rightarrow> tablet_pod \<Rightarrow> tablet_pod \<times> orphan_status option"
where
  "prepare_tablet_turndown env vts tablets obj =
     (if \<not> drain_Finished obj
      then (drain_Start obj ''turning down unwanted tablet'',
            Some \<lparr>os_Reason = ''Draining'', os_Message = ''waiting for the tablet to be drained before turn-down''\<rparr>)
      else (obj,
        (case isTabletPrimary env vts (AliasFromTabletPod obj) of
           Inl _ \<Rightarrow> Some \<lparr>os_Reason = ''PrimaryUnknown'',
             os_Message = ''unable to determine whether this tablet is the primary''\<rparr>
         | Inr isPrimary \<Rightarrow>
             if isPrimary then Some \<lparr>os_Reason = ''Primary'', os_Message = ''this tablet is the primary''\<rparr>
             else if list_ex (\<lambda>(_, tablet). ts_Ready tablet \<noteq> CondTrue) tablets
             then Some \<lparr>os_Reason = ''ShardNotHealthy'',
               os_Message = ''the remaining, desired tablets in the shard are not all healthy''\<rparr>
             else None)))"

definition tablet_in_place :: "tablets_shard \<Rightarrow> TabletSpec \<Rightarrow> tablet_pod \<Rightarrow> tablet_pod" where
  "tablet_in_place vts tablet obj =
     ann_put observedShardGenerationAnnotationKey (dec_int (vsh_Generation vts)) (UpdatePodInPlace tablet obj)"

definition tablet_recreate :: "tablets_env \<Rightarrow> TabletSpec \<Rightarrow> tablet_pod \<Rightarrow> tablet_pod option" where
  "tablet_recreate env tablet obj = UpdatePod (tb_lib env) (updatePVCFilesystemResizeAnnotation env tablet obj) obj"

definition pod_strategy ::
    "tablets_env \<Rightarrow> tablets_shard \<Rightarrow> tablet_map \<Rightarrow> (string, tablet_status) gomap \<Rightarrow> tablet_pod_body strategy"
where
  "pod_strategy env vts tabletMap tablets =
     \<lparr>New = (\<lambda>key. case Option.bind (tabletMap key) (NewPod (tb_lib env) key) of Some pod \<Rightarrow> pod | None \<Rightarrow> empty_pod key),
      UpdateInPlace = Some (\<lambda>key obj. case tabletMap key of Some tablet \<Rightarrow> tablet_in_place vts tablet obj | None \<Rightarrow> obj),
      UpdateRollingInPlace = None, UpdateRecreate = None,
      UpdateRollingRecreate = Some (\<lambda>key obj. case Option.bind (tabletMap key) (\<lambda>tablet. tablet_recreate env tablet obj) of
         Some pod \<Rightarrow> pod | None \<Rightarrow> obj),
      has_Status = True, has_OrphanStatus = True,
      PrepareForTurndown = Some (\<lambda>key. prepare_tablet_turndown env vts tablets)\<rparr>"

section \<open>The reports of the hooks\<close>

text \<open>A status entry is read from the map, zero if it is missing, and written back.\<close>

definition zero_tablet_status :: tablet_status where
  "zero_tablet_status =
     \<lparr>ts_PoolType = [], ts_Index = 0, ts_Running = CondUnset, ts_Ready = CondUnset, ts_Available = CondUnset,
      ts_DataVolumeBound = CondUnset, ts_Type = [], ts_PendingChanges = []\<rparr>"

definition set_tablet_status :: "string \<Rightarrow> (tablet_status \<Rightarrow> tablet_status) \<Rightarrow> shard_status \<Rightarrow> shard_status" where
  "set_tablet_status alias f st =
     (let cur = (case map_of (sh_Tablets st) alias of None \<Rightarrow> zero_tablet_status | Some t \<Rightarrow> t)
      in st\<lparr>sh_Tablets := AList.update alias (f cur) (sh_Tablets st)\<rparr>)"

definition with_tablet :: "tablet_map \<Rightarrow> object_key \<Rightarrow> (TabletSpec \<Rightarrow> 's \<Rightarrow> 's) \<Rightarrow> 's \<Rightarrow> 's" where
  "with_tablet tabletMap key f st = (case tabletMap key of None \<Rightarrow> st | Some tablet \<Rightarrow> f tablet st)"

fun pvc_hook :: "tablet_map \<Rightarrow> pvc_body kube_effect \<Rightarrow> shard_status \<Rightarrow> shard_status" where
  "pvc_hook tabletMap (CallNew key) =
     with_tablet tabletMap key (\<lambda>tablet. set_tablet_status (sp_AliasStr tablet) (\<lambda>t. t\<lparr>ts_DataVolumeBound := CondFalse\<rparr>))"
| "pvc_hook tabletMap (CallStatus key pvc) =
     with_tablet tabletMap key (\<lambda>tablet. set_tablet_status (sp_AliasStr tablet)
       (\<lambda>t. t\<lparr>ts_DataVolumeBound := ConditionStatus (pvb_Phase (ko_body pvc) = ''Bound'')\<rparr>))"
| "pvc_hook tabletMap _ = (\<lambda>st. st)"

text \<open>\<open>strconv.ParseInt(s, 10, 64)\<close>: an optional sign and digits, within the range of the type.\<close>

definition ParseInt_64 :: "string \<Rightarrow> int option" where
  "ParseInt_64 s =
     (let neg = (s \<noteq> [] \<and> hd s = CHR ''-'');
          digits = (if s \<noteq> [] \<and> (hd s = CHR ''-'' \<or> hd s = CHR ''+'') then tl s else s);
          n = decimal_value 0 digits; v = (if neg then - n else n)
      in if digits = [] \<or> \<not> list_all is_digit digits then None
         else if v < - 9223372036854775808 \<or> 9223372036854775807 < v then None
         else Some v)"

definition report_generation :: "tablet_pod \<Rightarrow> shard_status \<Rightarrow> shard_status" where
  "report_generation pod st =
     (let observed = ann_get observedShardGenerationAnnotationKey pod
      in if observed = [] then st
         else (case ParseInt_64 observed of
             None \<Rightarrow> st
           | Some generation \<Rightarrow>
               if sh_LowestPodGeneration st = 0 \<or> generation < sh_LowestPodGeneration st
               then st\<lparr>sh_LowestPodGeneration := generation\<rparr> else st))"

text \<open>What the Pods' hooks write: the status, the cells in use and the result of the pass.\<close>

type_synonym pod_reports = "shard_status \<times> string list \<times> string builder"

definition shown_pod :: "tablet_pod \<Rightarrow> cond_status option \<Rightarrow> tablet_status \<Rightarrow> tablet_status" where
  "shown_pod pod available t =
     (let t = t\<lparr>ts_Running := ConditionStatus (tpb_Phase (ko_body pod) = ''Running''),
                ts_PendingChanges := ann_get rollout_ScheduledAnnotation pod\<rparr>
      in case available of None \<Rightarrow> t | Some a \<Rightarrow> t\<lparr>ts_Ready := CondTrue, ts_Available := a\<rparr>)"

definition report_tablet :: "tablets_env \<Rightarrow> tablet_pod \<Rightarrow> TabletSpec \<Rightarrow> pod_reports \<Rightarrow> pod_reports" where
  "report_tablet env pod tablet r =
     (case r of (st, cells, b) \<Rightarrow>
        (let (available, b) = (if tpb_Ready (ko_body pod) then map_prod Some id (tabletAvailableStatus env b pod) else (None, b))
         in (report_generation pod (set_tablet_status (sp_AliasStr tablet) (shown_pod pod available) st), cells, b)))"

fun pod_hook :: "tablets_env \<Rightarrow> tablet_map \<Rightarrow> tablet_pod_body kube_effect \<Rightarrow> pod_reports \<Rightarrow> pod_reports" where
  "pod_hook env tabletMap (CallNew key) r =
     (case r of (st, rest) \<Rightarrow>
        (with_tablet tabletMap key (\<lambda>tablet. set_tablet_status (sp_AliasStr tablet)
           (\<lambda>t. t\<lparr>ts_Running := CondFalse, ts_Ready := CondFalse, ts_Available := CondFalse\<rparr>)) st, rest))"
| "pod_hook env tabletMap (CallStatus key pod) r = with_tablet tabletMap key (report_tablet env pod) r"
| "pod_hook env tabletMap (CallOrphanStatus key pod orphanStatus) r =
     (case r of (st, cells, b) \<Rightarrow>
        (st\<lparr>sh_OrphanedTablets := AList.update (tl_AliasString (tb_lib env) (AliasFromTabletPod pod)) orphanStatus (sh_OrphanedTablets st)\<rparr>,
         fst (AliasFromTabletPod pod) # cells, b))"
| "pod_hook env tabletMap _ r = r"

section \<open>The pass\<close>

definition tablets_labels :: "tablets_shard \<Rightarrow> (string, string) gomap" where
  "tablets_labels vts =
     [(ComponentLabel, VttabletComponentName), (ClusterLabel, vsh_label ClusterLabel vts),
      (KeyspaceLabel, vsh_label KeyspaceLabel vts), (ShardLabel, KeyRange_SafeName (ss_KeyRange (vsh_Spec vts)))]"

definition keyed_tablet :: "tablet_lib \<Rightarrow> tablets_shard \<Rightarrow> TabletSpec \<Rightarrow> (object_key \<times> TabletSpec) option" where
  "keyed_tablet lib vts tablet =
     map_option (\<lambda>podName. ((vsh_Namespace vts, podName),
         if sp_DataVolumePVCSpec tablet \<noteq> None then tablet\<lparr>sp_DataVolumePVCName := podName\<rparr> else tablet))
       (PodName lib (vsh_label ClusterLabel vts) (sp_Alias tablet))"

definition keyed_tablets :: "tablet_lib \<Rightarrow> tablets_shard \<Rightarrow> (object_key \<times> TabletSpec) list option" where
  "keyed_tablets lib vts = Option.bind (vttabletSpecs lib vts (tablets_labels vts)) (map_opt (keyed_tablet lib vts))"

definition listed_tablets :: "(object_key \<times> TabletSpec) list \<Rightarrow> shard_status \<Rightarrow> shard_status" where
  "listed_tablets tablets st =
     st\<lparr>sh_Tablets := fold (\<lambda>(_, tablet). AList.update (sp_AliasStr tablet) (NewVitessTabletStatus (sp_Type tablet) (sp_Index tablet)))
         tablets (sh_Tablets st)\<rparr>"

definition claim_keys :: "(object_key \<times> TabletSpec) list \<Rightarrow> object_key list" where
  "claim_keys tablets = map fst (filter (\<lambda>(_, tablet). sp_DataVolumePVCSpec tablet \<noteq> None) tablets)"

definition tablet_map_of :: "(object_key \<times> TabletSpec) list \<Rightarrow> tablet_map" where
  "tablet_map_of tablets = map_of (rev tablets)"

text \<open>A hook panicked: a tablet that has no spec, or a claim or Pod that cannot be built or brought up to date.\<close>

definition claim_panics :: "tablet_map \<Rightarrow> pvc_body kube_effect list \<Rightarrow> bool" where
  "claim_panics tabletMap es =
     list_ex (\<lambda>e. case e of
         CallNew key \<Rightarrow> Option.bind (tabletMap key) (NewPVC key) = None
       | CallStatus key pvc \<Rightarrow> tabletMap key = None
           \<or> \<not> ko_deleting pvc \<and> Option.bind (tabletMap key) (\<lambda>tablet. UpdatePVCInPlace tablet pvc) = None
       | _ \<Rightarrow> False) es"

definition tablet_panics :: "tablets_env \<Rightarrow> tablets_shard \<Rightarrow> tablet_map \<Rightarrow> tablet_pod_body kube_effect list \<Rightarrow> bool" where
  "tablet_panics env vts tabletMap es =
     list_ex (\<lambda>e. case e of
         CallNew key \<Rightarrow> Option.bind (tabletMap key) (NewPod (tb_lib env) key) = None
       | CallStatus key pod \<Rightarrow> tabletMap key = None
           \<or> \<not> ko_deleting pod
             \<and> Option.bind (tabletMap key) (\<lambda>tablet. tablet_recreate env tablet (tablet_in_place vts tablet pod)) = None
       | _ \<Rightarrow> False) es"

text \<open>The statuses of the tablets once all wanted Pods have been reconciled.\<close>

definition wanted_reports :: "tablets_env \<Rightarrow> tablets_shard \<Rightarrow> tablet_map \<Rightarrow> object_key list \<Rightarrow> pod_reports \<Rightarrow> pod_reports" where
  "wanted_reports env vts tabletMap podKeys =
     fold (pod_hook env tabletMap)
       (fst (reconcile_keys (tb_pods env) (pod_strategy env vts tabletMap []) (tablets_labels vts) True podKeys empty_builder))"

type_synonym tablets_result = "tablets_effect list \<times> shard_status \<times> reconcile_result \<times> string option"

definition reconcileTablets :: "tablets_env \<Rightarrow> tablets_shard \<Rightarrow> tablets_result option" where
  "reconcileTablets env vts =
     (case keyed_tablets (tb_lib env) vts of
        None \<Rightarrow> None
      | Some tablets \<Rightarrow>
          (let tabletMap = tablet_map_of tablets; podKeys = map fst tablets; labels = tablets_labels vts;
               st = listed_tablets tablets (vsh_Status vts);
               (claimEffects, claimErr) = ReconcileObjectSet (tb_pvcs env) (pvc_strategy env tabletMap) labels (claim_keys tablets);
               st = fold (pvc_hook tabletMap) claimEffects st;
               b = (if claimErr \<noteq> None then builder_Error claimErr empty_builder else empty_builder);
               cells = map (fst \<circ> sp_Alias \<circ> snd) tablets;
               wanted = sh_Tablets (fst (wanted_reports env vts tabletMap podKeys (st, cells, b)));
               (podEffects, podErr) = ReconcileObjectSet (tb_pods env) (pod_strategy env vts tabletMap wanted) labels podKeys;
               (st, cells, b) = fold (pod_hook env tabletMap) podEffects (st, cells, b);
               b = (if podErr \<noteq> None then builder_Error podErr b else b)
           in if claim_panics tabletMap claimEffects \<or> tablet_panics env vts tabletMap podEffects then None
              else Some (map ClaimEffect claimEffects @ map TabletEffect podEffects,
                     st\<lparr>sh_Cells := sort (remdups cells)\<rparr>, builder_Result b)))"

end
