(* ===== verification/Tablets_Laws.thy ===== *)
theory Tablets_Laws
  imports Tablets
begin

text \<open>
  What the pass over the tablets of a shard guarantees: the loop over a pool ends, a Pod carries the alias of its tablet,
  nothing that the shard still needs is deleted, and the reported status rests on what the pass has seen.
\<close>

section \<open>The loop over a pool\<close>

lemma tablet_indices_max: "tablet_indices i 0x7FFFFFFF = None"
proof (rule ccontr)
  assume "tablet_indices i 0x7FFFFFFF \<noteq> None"
  then obtain r where "tablet_indices i 0x7FFFFFFF = Some r" by blast
  from tablet_indices.raw_induct [where P = "\<lambda>i replicas r. replicas \<noteq> 0x7FFFFFFF", OF _ this] show False
  proof (rule notE)
    fix f i replicas r
    assume IH: "\<And>i replicas r. f i replicas = Some r \<Longrightarrow> replicas \<noteq> (0x7FFFFFFF :: 32 word)"
      and eq: "(if i \<le>s replicas then Option.bind (f (i + 1) replicas) (\<lambda>rest. Some (i # rest)) else Some []) = Some r"
    show "replicas \<noteq> 0x7FFFFFFF"
    proof (cases "i \<le>s replicas")
      case True
      then show ?thesis using eq IH by (auto simp: Option.bind_eq_Some_conv)
    next
      case False
      have "sint i \<le> 0x7FFFFFFF" using sint_lt [of i] by simp
      then show ?thesis using False by (auto simp: word_sle_eq)
    qed
  qed simp
qed

lemma sint_Suc32: "sint i < 0x7FFFFFFF \<Longrightarrow> sint (i + 1 :: 32 word) = sint i + 1"
proof -
  assume "sint i < 0x7FFFFFFF"
  moreover have "- (2 ^ 31) \<le> sint i" using sint_ge [of i] by simp
  moreover have "i + 1 = word_of_int (sint i + 1)" by simp
  ultimately show ?thesis using sint_of_int32 [of "sint i + 1"] by simp
qed

lemma tablet_indices_upto:
  assumes "replicas \<noteq> 0x7FFFFFFF"
  shows "tablet_indices i replicas = Some (map word_of_int [sint i..sint replicas])"
proof (induction "nat (sint replicas + 1 - sint i)" arbitrary: i rule: less_induct)
  case less
  have bound: "sint replicas < 0x7FFFFFFF"
  proof (rule ccontr)
    assume "\<not> sint replicas < 0x7FFFFFFF"
    then have "sint replicas = sint (0x7FFFFFFF :: 32 word)" using sint_lt [of replicas] by simp
    then have "replicas = 0x7FFFFFFF" by (rule signed_word_eqI)
    with assms show False by simp
  qed
  show ?case
  proof (cases "sint i \<le> sint replicas")
    case True
    then have next_i: "sint (i + 1) = sint i + 1" using bound by (simp add: sint_Suc32)
    then have "tablet_indices (i + 1) replicas = Some (map word_of_int [sint i + 1..sint replicas])"
      using less [of "i + 1"] True by simp
    then show ?thesis using True by (subst tablet_indices.simps) (simp add: word_sle_eq upto_rec1)
  next
    case False
    then show ?thesis by (subst tablet_indices.simps) (simp add: word_sle_eq)
  qed
qed

lemma tablet_indices_None: "tablet_indices i replicas = None \<longleftrightarrow> replicas = 0x7FFFFFFF"
  using tablet_indices_max tablet_indices_upto by (cases "replicas = 0x7FFFFFFF") auto

lemma map_opt_None: "map_opt f xs = None \<longleftrightarrow> (\<exists>x \<in> set xs. f x = None)"
  by (induction xs) (auto split: option.split)

text \<open>C28: The tablets of a shard are computed in finite time unless a pool asks for the largest \<open>int32\<close> number of replicas, in which
  case the index wraps and the loop never ends; otherwise each pool has exactly as many tablets as replicas, none if that is zero
  or negative, with the indices from 1 in order, one after the other in the order of the pools.\<close>

theorem vttabletSpecs_returns:
  "if \<exists>pool \<in> set (st_TabletPools (vsh_Spec vts)). tp_Replicas pool = 0x7FFFFFFF
   then vttabletSpecs lib vts labels = None
   else \<exists>tablets. vttabletSpecs lib vts labels = Some tablets
     \<and> tablets = concat (map (\<lambda>pool. map (\<lambda>i. pool_tablet lib vts labels pool (word_of_int i)) [1..sint (tp_Replicas pool)])
          (st_TabletPools (vsh_Spec vts)))
     \<and> length tablets = (\<Sum>pool \<leftarrow> st_TabletPools (vsh_Spec vts). nat (sint (tp_Replicas pool)))"
proof (cases "\<exists>pool \<in> set (st_TabletPools (vsh_Spec vts)). tp_Replicas pool = 0x7FFFFFFF")
  case True
  then show ?thesis by (auto simp: vttabletSpecs_def map_opt_None tablet_indices_None)
next
  case False
  have "map_opt (\<lambda>pool. map_option (map (pool_tablet lib vts labels pool)) (tablet_indices 1 (tp_Replicas pool))) pools =
      Some (map (\<lambda>pool. map (\<lambda>i. pool_tablet lib vts labels pool (word_of_int i)) [1..sint (tp_Replicas pool)]) pools)"
    if "\<forall>pool \<in> set pools. tp_Replicas pool \<noteq> 0x7FFFFFFF" for pools
    using that by (induction pools) (simp_all add: tablet_indices_upto)
  from this [of "st_TabletPools (vsh_Spec vts)"] False show ?thesis
    by (simp add: vttabletSpecs_def length_concat comp_def)
qed

section \<open>The alias of a Pod\<close>

lemma digit_char_value: "d < 10 \<Longrightarrow> digit_value (digit_char d) = int d \<and> is_digit (digit_char d)"
proof -
  assume "d < 10"
  then have "d \<in> {0, 1, 2, 3, 4, 5, 6, 7, 8, 9}" by auto
  then show ?thesis by (auto simp: digit_value_def digit_char_def is_digit_def)
qed

lemma digits_dec: "list_all is_digit (dec_digits w v)"
proof (induction w arbitrary: v)
  case (Suc w)
  have "nat (v mod 10) < 10" by (simp add: nat_less_iff)
  then show ?case using Suc by (simp add: digit_char_value)
qed simp

lemma decimal_value_append: "decimal_value n (xs @ ys) = decimal_value (decimal_value n xs) ys"
  by (induction xs arbitrary: n) simp_all

lemma decimal_value_dec: "decimal_value n (dec_digits w v) = n * 10 ^ w + v mod 10 ^ w"
proof (induction w arbitrary: v)
  case (Suc w)
  have "nat (v mod 10) < 10" by (simp add: nat_less_iff)
  then have "decimal_value n (dec_digits (Suc w) v) = 10 * (n * 10 ^ w + v div 10 mod 10 ^ w) + v mod 10"
    by (simp add: decimal_value_append Suc digit_char_value)
  also have "\<dots> = n * 10 ^ Suc w + v mod 10 ^ Suc w"
    using mod_mult2_eq' [of v 10 "10 ^ w"] by (simp add: algebra_simps)
  finally show ?case .
qed simp

lemma digit_value_bounds: "is_digit c \<Longrightarrow> 0 \<le> digit_value c"
  by (auto simp: is_digit_def digit_value_def)

lemma decimal_value_ge: "list_all is_digit s \<Longrightarrow> 0 \<le> n \<Longrightarrow> n \<le> decimal_value n s"
proof (induction s arbitrary: n)
  case (Cons c s)
  have "n \<le> 10 * n + digit_value c" using Cons.prems digit_value_bounds [of c] by simp
  also have "\<dots> \<le> decimal_value n (c # s)" using Cons digit_value_bounds [of c] by simp
  finally show ?case .
qed simp

lemma ParseUint_loop_decimal:
  "list_all is_digit s \<Longrightarrow> 0 \<le> n \<Longrightarrow> decimal_value n s \<le> 4294967295 \<Longrightarrow> ParseUint_loop n s = decimal_value n s"
proof (induction s arbitrary: n)
  case (Cons c s)
  have "10 * n + digit_value c \<le> decimal_value (10 * n + digit_value c) s"
    using Cons.prems digit_value_bounds [of c] by (intro decimal_value_ge) simp_all
  then show ?case using Cons digit_value_bounds [of c] by (simp add: Let_def)
qed simp

lemma ParseUint_UIDString: "ParseUint_loop 0 (UIDString uid) = uint uid"
proof -
  have b: "uint uid < 2 ^ 32" using uint_lt2p [of uid] by simp
  then have "decimal_value 0 (dec_digits 10 (uint uid)) = uint uid"
    unfolding decimal_value_dec by (simp add: mod_pos_pos_trivial)
  with b show ?thesis
    unfolding UIDString_def by (subst ParseUint_loop_decimal) (simp_all add: digits_dec)
qed

lemma map_opt_mem: "map_opt f xs = Some ys \<Longrightarrow> y \<in> set ys \<Longrightarrow> \<exists>x \<in> set xs. f x = Some y"
  by (induction xs arbitrary: ys) (auto split: option.splits)

lemma keyed_tablets_member:
  assumes "keyed_tablets lib vts = Some tablets" "(key, tablet) \<in> set tablets"
  shows "\<exists>pool \<in> set (st_TabletPools (vsh_Spec vts)). \<exists>i podName.
    PodName lib (vsh_label ClusterLabel vts) (sp_Alias (pool_tablet lib vts (tablets_labels vts) pool i)) = Some podName
    \<and> key = (vsh_Namespace vts, podName)
    \<and> tablet = (if tp_DataVolumeClaimTemplate pool \<noteq> None
        then (pool_tablet lib vts (tablets_labels vts) pool i)\<lparr>sp_DataVolumePVCName := podName\<rparr>
        else pool_tablet lib vts (tablets_labels vts) pool i)"
proof -
  obtain specs where specs: "vttabletSpecs lib vts (tablets_labels vts) = Some specs" "map_opt (keyed_tablet lib vts) specs = Some tablets"
    using assms(1) by (auto simp: keyed_tablets_def Option.bind_eq_Some_conv)
  from map_opt_mem [OF specs(2) assms(2)] obtain spec where spec: "spec \<in> set specs" "keyed_tablet lib vts spec = Some (key, tablet)" by blast
  obtain lists where "map_opt (\<lambda>pool. map_option (map (pool_tablet lib vts (tablets_labels vts) pool)) (tablet_indices 1 (tp_Replicas pool)))
      (st_TabletPools (vsh_Spec vts)) = Some lists" "specs = concat lists"
    using specs(1) by (auto simp: vttabletSpecs_def)
  then obtain pool i where pool: "pool \<in> set (st_TabletPools (vsh_Spec vts))" "spec = pool_tablet lib vts (tablets_labels vts) pool i"
    using spec(1) by (fastforce dest: map_opt_mem)
  moreover have "sp_DataVolumePVCSpec spec = tp_DataVolumeClaimTemplate pool" by (simp add: pool(2) pool_tablet_def Let_def)
  ultimately show ?thesis using spec(2) by (intro bexI [of _ pool] exI [of _ i]) (auto simp: keyed_tablet_def)
qed

lemma tablets_labels_wf: "gomap_wf (tablets_labels vts)"
  by (simp add: tablets_labels_def ComponentLabel_def ClusterLabel_def KeyspaceLabel_def ShardLabel_def)

lemma alias_labels_distinct: "distinct [CellLabel, TabletUidLabel, TabletTypeLabel, TabletIndexLabel, TabletPoolNameLabel]"
  by (simp add: CellLabel_def TabletUidLabel_def TabletTypeLabel_def TabletIndexLabel_def TabletPoolNameLabel_def)

lemma pool_tablet_labels_alias:
  assumes "gomap_wf parent"
  shows "gomap_wf (pool_tablet_labels parent pool a i)"
    and "map_of (pool_tablet_labels parent pool a i) CellLabel = Some (fst a)"
    and "map_of (pool_tablet_labels parent pool a i) TabletUidLabel = Some (UIDString (snd a))"
  using alias_labels_distinct alias_labels_distinct [THEN distinct_rev [THEN iffD2]] assms
  by (simp_all add: pool_tablet_labels_def Let_def gomap_wf_set_entries distinct_update map_of_set_entries update_conv'
      del: map_of_eq_Some_iff)

text \<open>What the pass may make of the Pod of a tablet: a new one, one with its labels brought up to date, or one brought up to date.\<close>

definition tablet_pod_for :: "tablets_env \<Rightarrow> tablets_shard \<Rightarrow> object_key \<Rightarrow> TabletSpec \<Rightarrow> tablet_pod \<Rightarrow> bool" where
  "tablet_pod_for env vts key tablet pod \<longleftrightarrow>
     NewPod (tb_lib env) key tablet = Some pod
     \<or> (\<exists>obj. pod = tablet_in_place vts tablet obj)
     \<or> (\<exists>obj. tablet_recreate env tablet obj = Some pod)"

lemma resize_labels [simp]:
  "sp_Labels (updatePVCFilesystemResizeAnnotation env tablet obj) = sp_Labels tablet"
  "sp_ExtraLabels (updatePVCFilesystemResizeAnnotation env tablet obj) = sp_ExtraLabels tablet"
  by (auto simp: updatePVCFilesystemResizeAnnotation_def split: option.split get_answer.split)

lemma UpdatePod_label:
  assumes "UpdatePod lib spec obj = Some pod" "gomap_wf (sp_Labels spec)" "gomap_wf (sp_ExtraLabels spec)"
    and "map_of (sp_Labels spec) k = Some v" "k \<notin> fst ` set (sp_ExtraLabels spec)"
  shows "ko_labels pod k = Some v"
proof -
  obtain cs where "pod = updated_pod lib spec cs obj" using assms(1) by (elim UpdatePod_parts) simp
  moreover have "map_of (sp_ExtraLabels spec) k = None" using assms(5) by (simp add: map_of_eq_None_iff)
  ultimately show ?thesis
    using assms(2-4) by (simp add: updated_pod_def Let_def Labels_def StringMap_eq map_add_def)
qed

lemma tablet_pod_label:
  assumes "tablet_pod_for env vts key tablet pod" "gomap_wf (sp_Labels tablet)" "gomap_wf (sp_ExtraLabels tablet)"
    and "map_of (sp_Labels tablet) k = Some v" "k \<notin> fst ` set (sp_ExtraLabels tablet)"
  shows "ko_labels pod k = Some v"
  using assms(1) unfolding tablet_pod_for_def
proof (elim disjE exE)
  assume "NewPod (tb_lib env) key tablet = Some pod"
  then show ?thesis unfolding NewPod_def by (rule UpdatePod_label) (use assms in simp_all)
next
  fix obj assume "pod = tablet_in_place vts tablet obj"
  then show ?thesis
    using assms(2,4) by (simp add: tablet_in_place_def ann_put_def Let_def UpdatePodInPlace_def Labels_def StringMap_eq map_add_def)
next
  fix obj assume "tablet_recreate env tablet obj = Some pod"
  then show ?thesis unfolding tablet_recreate_def by (rule UpdatePod_label) (use assms in simp_all)
qed

text \<open>C27: A Pod tells which tablet it is.  Whatever the pass makes of the Pod of a tablet, whether it creates it, changes it in place or
  brings it up to date, reading the alias back from its labels gives exactly the alias of the tablet, with every
  unique identifier of 32 bits, unless the user sets these labels himself.  The name of the Pod is a function of that alias.\<close>

theorem tablet_alias_roundtrip:
  assumes "keyed_tablets (tb_lib env) vts = Some tablets" "(key, tablet) \<in> set tablets"
    and "tablet_pod_for env vts key tablet pod"
    and "\<forall>pool \<in> set (st_TabletPools (vsh_Spec vts)). gomap_wf (tp_ExtraLabels pool)
       \<and> {CellLabel, TabletUidLabel} \<inter> fst ` set (tp_ExtraLabels pool) = {}"
  shows "AliasFromTabletPod pod = sp_Alias tablet
    \<and> PodName (tb_lib env) (vsh_label ClusterLabel vts) (AliasFromTabletPod pod) = Some (snd key)"
proof -
  from keyed_tablets_member [OF assms(1,2)] obtain pool i podName where pool: "pool \<in> set (st_TabletPools (vsh_Spec vts))"
    and name: "PodName (tb_lib env) (vsh_label ClusterLabel vts) (sp_Alias tablet) = Some podName" "snd key = podName"
    and parts: "sp_Labels tablet = pool_tablet_labels (tablets_labels vts) pool (sp_Alias tablet) i"
      "sp_ExtraLabels tablet = tp_ExtraLabels pool"
    by (auto simp: pool_tablet_def Let_def split: if_splits)
  have wf: "gomap_wf (sp_Labels tablet)" "gomap_wf (sp_ExtraLabels tablet)"
    using assms(4) pool by (simp_all add: parts pool_tablet_labels_alias tablets_labels_wf)
  have free: "CellLabel \<notin> fst ` set (sp_ExtraLabels tablet)" "TabletUidLabel \<notin> fst ` set (sp_ExtraLabels tablet)"
    using assms(4) pool unfolding parts by blast+
  have "ko_labels pod CellLabel = Some (fst (sp_Alias tablet))"
    by (rule tablet_pod_label [OF assms(3) wf _ free(1)]) (unfold parts, rule pool_tablet_labels_alias, rule tablets_labels_wf)
  moreover have "ko_labels pod TabletUidLabel = Some (UIDString (snd (sp_Alias tablet)))"
    by (rule tablet_pod_label [OF assms(3) wf _ free(2)]) (unfold parts, rule pool_tablet_labels_alias, rule tablets_labels_wf)
  ultimately have "AliasFromTabletPod pod = sp_Alias tablet"
    by (simp add: AliasFromTabletPod_def Let_def ParseUint_UIDString)
  with name show ?thesis by simp
qed

section \<open>The parts of a pass\<close>

definition pods_wanted :: "tablets_env \<Rightarrow> tablets_shard \<Rightarrow> (object_key \<times> TabletSpec) list \<Rightarrow> pvc_body kube_effect list
    \<Rightarrow> string builder \<Rightarrow> (string, tablet_status) gomap" where
  "pods_wanted env vts tablets claimEffects b =
     sh_Tablets (fst (wanted_reports env vts (tablet_map_of tablets) (map fst tablets)
       (fold (pvc_hook (tablet_map_of tablets)) claimEffects (listed_tablets tablets (vsh_Status vts)),
        map (fst \<circ> sp_Alias \<circ> snd) tablets, b)))"

lemma reconcileTablets_eq:
  assumes "keyed_tablets (tb_lib env) vts = Some tablets"
    and claims: "ReconcileObjectSet (tb_pvcs env) (pvc_strategy env (tablet_map_of tablets)) (tablets_labels vts) (claim_keys tablets) = (ce, cerr)"
    and b: "b = (if cerr \<noteq> None then builder_Error cerr empty_builder else empty_builder)"
    and pods: "ReconcileObjectSet (tb_pods env) (pod_strategy env vts (tablet_map_of tablets) (pods_wanted env vts tablets ce b))
      (tablets_labels vts) (map fst tablets) = (pe, perr)"
    and reports: "fold (pod_hook env (tablet_map_of tablets)) pe
      (fold (pvc_hook (tablet_map_of tablets)) ce (listed_tablets tablets (vsh_Status vts)), map (fst \<circ> sp_Alias \<circ> snd) tablets, b)
      = (st', cells, b')"
  shows "reconcileTablets env vts =
      (if claim_panics (tablet_map_of tablets) ce \<or> tablet_panics env vts (tablet_map_of tablets) pe then None
       else Some (map ClaimEffect ce @ map TabletEffect pe, st'\<lparr>sh_Cells := sort (remdups cells)\<rparr>,
         builder_Result (if perr \<noteq> None then builder_Error perr b' else b')))"
  unfolding reconcileTablets_def Let_def assms(1)
  by (simp only: option.case prod.case claims b [symmetric] pods_wanted_def [symmetric] pods reports)

lemma reconcileTablets_parts:
  assumes "reconcileTablets env vts = Some (es, st, r)"
  obtains tablets claimEffects podEffects b b' cells st' where
    "keyed_tablets (tb_lib env) vts = Some tablets"
    and "claimEffects = fst (ReconcileObjectSet (tb_pvcs env) (pvc_strategy env (tablet_map_of tablets)) (tablets_labels vts) (claim_keys tablets))"
    and "podEffects = fst (ReconcileObjectSet (tb_pods env)
        (pod_strategy env vts (tablet_map_of tablets) (pods_wanted env vts tablets claimEffects b)) (tablets_labels vts) (map fst tablets))"
    and "es = map ClaimEffect claimEffects @ map TabletEffect podEffects"
    and "fold (pod_hook env (tablet_map_of tablets)) podEffects
        (fold (pvc_hook (tablet_map_of tablets)) claimEffects (listed_tablets tablets (vsh_Status vts)),
         map (fst \<circ> sp_Alias \<circ> snd) tablets, b) = (st', cells, b')"
    and "st = st'\<lparr>sh_Cells := sort (remdups cells)\<rparr>"
    and "\<not> claim_panics (tablet_map_of tablets) claimEffects" "\<not> tablet_panics env vts (tablet_map_of tablets) podEffects"
proof -
  obtain tablets where tablets: "keyed_tablets (tb_lib env) vts = Some tablets"
    using assms by (auto simp: reconcileTablets_def split: option.splits)
  obtain ce cerr where claims: "ReconcileObjectSet (tb_pvcs env) (pvc_strategy env (tablet_map_of tablets)) (tablets_labels vts)
      (claim_keys tablets) = (ce, cerr)" by (cases "ReconcileObjectSet (tb_pvcs env) (pvc_strategy env (tablet_map_of tablets))
      (tablets_labels vts) (claim_keys tablets)")
  define b where "b = (if cerr \<noteq> None then builder_Error cerr empty_builder else empty_builder)"
  obtain pe perr where pods: "ReconcileObjectSet (tb_pods env)
      (pod_strategy env vts (tablet_map_of tablets) (pods_wanted env vts tablets ce b)) (tablets_labels vts) (map fst tablets) = (pe, perr)"
    by (cases "ReconcileObjectSet (tb_pods env) (pod_strategy env vts (tablet_map_of tablets) (pods_wanted env vts tablets ce b))
      (tablets_labels vts) (map fst tablets)")
  obtain st' cells b' where reports: "fold (pod_hook env (tablet_map_of tablets)) pe
      (fold (pvc_hook (tablet_map_of tablets)) ce (listed_tablets tablets (vsh_Status vts)), map (fst \<circ> sp_Alias \<circ> snd) tablets, b)
      = (st', cells, b')" by (metis prod_cases3)
  note eq = reconcileTablets_eq [OF tablets claims b_def pods reports]
  show thesis
    by (rule that [OF tablets _ _ _ reports]) (use assms eq in \<open>auto simp: claims pods split: if_splits\<close>)
qed

section \<open>The calls of the reconciler\<close>

lemma updateInPlace_calls: "CallStatus k obj \<notin> set (fst (updateInPlace env c n))"
  by (simp add: updateInPlace_def split: option.split sum.split)

lemma kube_delete_calls: "CallStatus k obj \<notin> set (fst (kube_delete env c))"
  by (simp add: kube_delete_def split: option.split)

lemma drainAndDelete_calls: "CallStatus k obj \<notin> set (fst (drainAndDelete env c u r))"
  by (simp add: drainAndDelete_def Let_def updateInPlace_calls kube_delete_calls)

lemma apply_rolling_calls: "CallStatus k obj \<notin> set (fst (apply_rolling env s k' c u))"
  by (simp add: apply_rolling_def Let_def updateInPlace_calls drainAndDelete_calls split: option.split)

lemma update_object_calls: "CallStatus k obj \<notin> set (fst (update_object env s k' c))"
  by (simp add: update_object_def Let_def apply_rolling_calls kube_delete_calls split: option.split)

lemma create_object_calls: "CallStatus k obj \<notin> set (fst (create_object env s k'))"
  by (simp add: create_object_def split: option.split sum.split)

lemma reconcile_unwanted_calls: "CallStatus k obj \<notin> set (fst (reconcile_unwanted env s labels k' oc))"
  by (simp add: reconcile_unwanted_def updateInPlace_calls kube_delete_calls split: option.split prod.split)

lemmas no_status_calls = update_object_calls create_object_calls reconcile_unwanted_calls

lemma status_call_found:
  "CallStatus k obj \<in> set (fst (ReconcileObject env s labels key wanted)) \<Longrightarrow>
     wanted \<and> k = key \<and> kget env key = Found obj \<and> \<not> ko_evictable obj \<and> hasMatchingLabels obj labels"
  by (auto simp: ReconcileObject_def remove_evicted_def reconcile_wanted_def no_status_calls
      split: get_answer.splits option.splits sum.splits if_splits prod.splits)

lemma ReconcileObject_wanted_turndown:
  assumes "New s = New s'" "UpdateInPlace s = UpdateInPlace s'" "UpdateRollingInPlace s = UpdateRollingInPlace s'"
    and "UpdateRecreate s = UpdateRecreate s'" "UpdateRollingRecreate s = UpdateRollingRecreate s'" "has_Status s = has_Status s'"
  shows "ReconcileObject env s labels key True = ReconcileObject env s' labels key True"
proof -
  have "create_object env s key = create_object env s' key" by (simp add: create_object_def assms)
  moreover have "apply_rolling env s key c u = apply_rolling env s' key c u" for c u by (simp add: apply_rolling_def assms)
  then have "update_object env s key c = update_object env s' key c" for c by (simp only: update_object_def assms)
  ultimately have "reconcile_wanted env s labels key c = reconcile_wanted env s' labels key c" for c
    by (simp only: reconcile_wanted_def assms)
  then show ?thesis by (simp add: ReconcileObject_def split: get_answer.split prod.split sum.split)
qed

lemma wanted_calls:
  assumes "CallStatus k obj \<in> set (fst (reconcile_keys env s labels True keys b))"
  shows "k \<in> set keys \<and> kget env k = Found obj \<and> hasMatchingLabels obj labels"
  using assms by (auto simp: reconcile_keys_trace dest: status_call_found)

lemma set_status_calls:
  assumes "CallStatus k obj \<in> set (fst (ReconcileObjectSet env s labels keys))"
  shows "k \<in> set keys \<and> kget env k = Found obj \<and> hasMatchingLabels obj labels"
  using ReconcileObjectSet_member [OF assms] by (auto dest: status_call_found)

section \<open>What a ready status rests on\<close>

text \<open>An entry says ready or available only after a call of the status hook with a Pod that is.\<close>

definition shows_up :: "tablet_status \<Rightarrow> bool" where
  "shows_up t \<longleftrightarrow> ts_Ready t = CondTrue \<or> ts_Available t = CondTrue"

definition evidence :: "tablets_env \<Rightarrow> tablet_map \<Rightarrow> tablet_pod_body kube_effect set \<Rightarrow> string \<Rightarrow> tablet_status \<Rightarrow> bool" where
  "evidence env m calls a t \<longleftrightarrow>
     (\<exists>key pod tablet. CallStatus key pod \<in> calls \<and> m key = Some tablet \<and> sp_AliasStr tablet = a \<and> tpb_Ready (ko_body pod)
        \<and> (ts_Available t = CondTrue \<longrightarrow> \<not> ko_deleting pod \<and> tb_IsPodAvailable env pod tabletAvailableSeconds))"

definition status_sound ::
    "tablets_env \<Rightarrow> tablet_map \<Rightarrow> tablet_pod_body kube_effect set \<Rightarrow> shard_status \<Rightarrow> bool"
where
  "status_sound env m calls st \<longleftrightarrow> (\<forall>a t. map_of (sh_Tablets st) a = Some t \<and> shows_up t \<longrightarrow> evidence env m calls a t)"

lemma evidence_mono: "evidence env m C a t \<Longrightarrow> C \<subseteq> C' \<Longrightarrow> ts_Available t' = ts_Available t \<Longrightarrow> evidence env m C' a t'"
  unfolding evidence_def by (metis subsetD)

lemma map_of_set_tablet_status:
  "map_of (sh_Tablets (set_tablet_status a f st)) =
     (map_of (sh_Tablets st))(a \<mapsto> f (case map_of (sh_Tablets st) a of None \<Rightarrow> zero_tablet_status | Some t \<Rightarrow> t))"
  by (simp add: set_tablet_status_def Let_def update_conv')

lemma report_generation_tablets [simp]: "sh_Tablets (report_generation pod st) = sh_Tablets st"
  by (simp add: report_generation_def Let_def split: option.split)

lemma status_sound_mono: "status_sound env m C st \<Longrightarrow> C \<subseteq> C' \<Longrightarrow> sh_Tablets st' = sh_Tablets st \<Longrightarrow> status_sound env m C' st'"
  unfolding status_sound_def by (auto intro: evidence_mono)

text \<open>Writing one entry: the new value says no more than the old one, or has its own evidence.\<close>

lemma status_sound_set:
  assumes "status_sound env m C st" "C \<subseteq> C'"
    and new: "\<And>t. shows_up (f t) \<Longrightarrow>
        ts_Ready (f t) = ts_Ready t \<and> ts_Available (f t) = ts_Available t \<or> evidence env m C' a (f t)"
  shows "status_sound env m C' (set_tablet_status a f st)"
  unfolding status_sound_def
proof (intro allI impI, elim conjE)
  fix a' t'
  assume t': "map_of (sh_Tablets (set_tablet_status a f st)) a' = Some t'" "shows_up t'"
  have old: "evidence env m C' a' u" if "map_of (sh_Tablets st) a' = Some t" "shows_up t" "ts_Available u = ts_Available t" for t u
    using assms(1,2) that by (auto simp: status_sound_def intro: evidence_mono)
  show "evidence env m C' a' t'"
  proof (cases "a' = a")
    case False
    then show ?thesis using old t' by (simp add: map_of_set_tablet_status)
  next
    case True
    define t where "t = (case map_of (sh_Tablets st) a of None \<Rightarrow> zero_tablet_status | Some t \<Rightarrow> t)"
    have ft: "t' = f t" using t' True by (simp add: map_of_set_tablet_status t_def)
    from new [OF t'(2) [unfolded ft]] show ?thesis
    proof
      assume same: "ts_Ready (f t) = ts_Ready t \<and> ts_Available (f t) = ts_Available t"
      then have up: "shows_up t" using t'(2) ft by (simp add: shows_up_def)
      then have "map_of (sh_Tablets st) a = Some t"
        by (auto simp: t_def shows_up_def zero_tablet_status_def split: option.splits)
      then show ?thesis using old [of t t'] True same up ft by simp
    qed (simp add: ft True)
  qed
qed

lemma sound_pvc_hook: "status_sound env m C st \<Longrightarrow> status_sound env m C (pvc_hook m e st)"
proof -
  assume sound: "status_sound env m C st"
  have "status_sound env m C (set_tablet_status a (\<lambda>t. t\<lparr>ts_DataVolumeBound := v\<rparr>) st)" for a v
    by (rule status_sound_set [OF sound order_refl]) simp
  then show ?thesis using sound by (cases e) (simp_all add: with_tablet_def split: option.split)
qed

lemma sound_pvc_hooks: "status_sound env m C st \<Longrightarrow> status_sound env m C (fold (pvc_hook m) es st)"
  by (induction es arbitrary: st) (auto intro: sound_pvc_hook)

lemma shown_pod_fields:
  "ts_Ready (shown_pod pod None t) = ts_Ready t" "ts_Available (shown_pod pod None t) = ts_Available t"
  "ts_Available (shown_pod pod (Some a) t) = a"
  by (simp_all add: shown_pod_def Let_def)

lemma tabletAvailableStatus_True:
  "fst (tabletAvailableStatus env b pod) = CondTrue \<longleftrightarrow> \<not> ko_deleting pod \<and> tb_IsPodAvailable env pod tabletAvailableSeconds"
  by (simp add: tabletAvailableStatus_def)

lemma report_tablet_status:
  "fst (report_tablet env pod tablet (st, cells, b)) =
     report_generation pod (set_tablet_status (sp_AliasStr tablet)
       (shown_pod pod (if tpb_Ready (ko_body pod) then Some (fst (tabletAvailableStatus env b pod)) else None)) st)"
  by (cases "tabletAvailableStatus env b pod") (simp add: report_tablet_def)

lemma sound_report_tablet:
  assumes "status_sound env m C st" "m key = Some tablet"
  shows "status_sound env m (insert (CallStatus key pod) C) (fst (report_tablet env pod tablet (st, cells, b)))"
proof -
  let ?C = "insert (CallStatus key pod) C"
  have "evidence env m ?C (sp_AliasStr tablet) (shown_pod pod (Some (fst (tabletAvailableStatus env b pod))) t)"
    if "tpb_Ready (ko_body pod)" for t
    unfolding evidence_def using that assms(2)
    by (intro exI [of _ key] exI [of _ pod] exI [of _ tablet]) (simp add: shown_pod_fields tabletAvailableStatus_True)
  then have "status_sound env m ?C (set_tablet_status (sp_AliasStr tablet)
      (shown_pod pod (if tpb_Ready (ko_body pod) then Some (fst (tabletAvailableStatus env b pod)) else None)) st)"
    by (intro status_sound_set [OF assms(1)]) (auto simp: shown_pod_fields)
  then show ?thesis unfolding report_tablet_status by (rule status_sound_mono) simp_all
qed

lemma sound_pod_hook:
  assumes "status_sound env m C (fst r)"
  shows "status_sound env m (insert e C) (fst (pod_hook env m e r))"
proof -
  obtain st cells b where r: "r = (st, cells, b)" by (cases r)
  have sound: "status_sound env m C st" using assms by (simp add: r)
  have same: "status_sound env m (insert e C) st'" if "sh_Tablets st' = sh_Tablets st" for st'
    using sound _ that by (rule status_sound_mono) blast
  have "status_sound env m (insert e C) (set_tablet_status a
      (\<lambda>t. t\<lparr>ts_Running := CondFalse, ts_Ready := CondFalse, ts_Available := CondFalse\<rparr>) st)" for a
    by (rule status_sound_set [OF sound]) (auto simp: shows_up_def)
  then show ?thesis
    using same sound_report_tablet [OF sound]
    unfolding r by (cases e) (simp_all add: with_tablet_def split: option.split)
qed

lemma sound_pod_hooks:
  "status_sound env m C (fst r) \<Longrightarrow> status_sound env m (set es \<union> C) (fst (fold (pod_hook env m) es r))"
proof (induction es arbitrary: r C)
  case (Cons e es)
  from Cons.IH [OF sound_pod_hook [OF Cons.prems], of e] show ?case by simp
qed simp

lemma listed_statuses:
  "map_of (sh_Tablets (listed_tablets tablets st)) = map_of (sh_Tablets st) ++
     map_of (rev (map (\<lambda>x. (sp_AliasStr (snd x), NewVitessTabletStatus (sp_Type (snd x)) (sp_Index (snd x)))) tablets))"
  by (simp add: listed_tablets_def case_prod_unfold Keyspace.map_of_fold_update)

lemma listed_sound: "sh_Tablets st = [] \<Longrightarrow> status_sound env m C (listed_tablets tablets st)"
  by (auto simp: status_sound_def shows_up_def listed_statuses NewVitessTabletStatus_def dest!: map_of_SomeD)

lemma listed_dom: "sh_Tablets st = [] \<Longrightarrow> dom (map_of (sh_Tablets (listed_tablets tablets st))) = (sp_AliasStr \<circ> snd) ` set tablets"
  by (auto simp: listed_statuses dom_map_of_conv_image_fst image_image)

text \<open>The hooks write only to entries of tablets; a pass whose hooks find their tablets keeps the set of entries.\<close>

definition tablet_entries :: "tablet_map \<Rightarrow> shard_status \<Rightarrow> bool" where
  "tablet_entries m st \<longleftrightarrow> (\<forall>key tablet. m key = Some tablet \<longrightarrow> sp_AliasStr tablet \<in> dom (map_of (sh_Tablets st)))"

lemma dom_set_tablet_status: "dom (map_of (sh_Tablets (set_tablet_status a f st))) = insert a (dom (map_of (sh_Tablets st)))"
  by (simp add: map_of_set_tablet_status)

lemma dom_pvc_hook: "tablet_entries m st \<Longrightarrow> dom (map_of (sh_Tablets (pvc_hook m e st))) = dom (map_of (sh_Tablets st))"
  by (cases e) (auto simp: tablet_entries_def with_tablet_def dom_set_tablet_status insert_absorb split: option.split)

lemma dom_report_tablet:
  "dom (map_of (sh_Tablets (fst (report_tablet env pod tablet r)))) = insert (sp_AliasStr tablet) (dom (map_of (sh_Tablets (fst r))))"
  by (cases r) (simp add: report_tablet_def dom_set_tablet_status split: prod.split)

lemma dom_pod_hook:
  "tablet_entries m (fst r) \<Longrightarrow> dom (map_of (sh_Tablets (fst (pod_hook env m e r)))) = dom (map_of (sh_Tablets (fst r)))"
  by (cases e; auto simp: tablet_entries_def with_tablet_def dom_set_tablet_status dom_report_tablet insert_absorb
      split: option.split prod.split; metis domD)

lemma dom_pvc_hooks: "tablet_entries m st \<Longrightarrow> dom (map_of (sh_Tablets (fold (pvc_hook m) es st))) = dom (map_of (sh_Tablets st))"
proof (induction es arbitrary: st)
  case (Cons e es)
  have "tablet_entries m (pvc_hook m e st)" using Cons.prems dom_pvc_hook [OF Cons.prems] by (simp add: tablet_entries_def)
  then show ?case using Cons.IH dom_pvc_hook [OF Cons.prems] by simp
qed simp

lemma dom_pod_hooks:
  "tablet_entries m (fst r) \<Longrightarrow> dom (map_of (sh_Tablets (fst (fold (pod_hook env m) es r)))) = dom (map_of (sh_Tablets (fst r)))"
proof (induction es arbitrary: r)
  case (Cons e es)
  have "tablet_entries m (fst (pod_hook env m e r))" using Cons.prems dom_pod_hook [OF Cons.prems] by (simp add: tablet_entries_def)
  then show ?case using Cons.IH dom_pod_hook [OF Cons.prems] by simp
qed simp

lemma tablet_map_of_mem: "tablet_map_of tablets key = Some tablet \<Longrightarrow> (key, tablet) \<in> set tablets"
  unfolding tablet_map_of_def by (drule map_of_SomeD) simp

lemma listed_entries: "sh_Tablets st = [] \<Longrightarrow> tablet_entries (tablet_map_of tablets) (listed_tablets tablets st)"
  by (force simp: tablet_entries_def listed_dom dest: tablet_map_of_mem)

text \<open>The name of a tablet's Pod is a function of the text of its alias.\<close>

lemma keyed_tablets_key:
  assumes "keyed_tablets lib vts = Some tablets" "(key, tablet) \<in> set tablets" "(key', tablet') \<in> set tablets"
    and "sp_AliasStr tablet = sp_AliasStr tablet'"
  shows "key = key'"
proof -
  have "\<exists>name. JoinWithConstraints DefaultConstraints [vsh_label ClusterLabel vts, VttabletComponentName, sp_AliasStr t] = Some name
      \<and> k = (vsh_Namespace vts, name)" if "(k, t) \<in> set tablets" for k t
    using keyed_tablets_member [OF assms(1) that] by (auto simp: PodName_def pool_tablet_def Let_def)
  from this [OF assms(2)] this [OF assms(3)] show ?thesis using assms(4) by auto
qed

definition healthy :: "tablets_env \<Rightarrow> tablets_shard \<Rightarrow> object_key \<Rightarrow> bool" where
  "healthy env vts key \<longleftrightarrow>
     (\<exists>pod. kget (tb_pods env) key = Found pod \<and> hasMatchingLabels pod (tablets_labels vts) \<and> tpb_Ready (ko_body pod))"

lemma desired_healthy:
  assumes "keyed_tablets (tb_lib env) vts = Some tablets" "sh_Tablets (vsh_Status vts) = []"
    and "\<not> list_ex (\<lambda>(_, tablet). ts_Ready tablet \<noteq> CondTrue) (pods_wanted env vts tablets claimEffects b)"
    and "(key, tablet) \<in> set tablets"
  shows "healthy env vts key"
proof -
  let ?m = "tablet_map_of tablets" and ?a = "sp_AliasStr tablet"
  define st where "st = fold (pvc_hook ?m) claimEffects (listed_tablets tablets (vsh_Status vts))"
  define r where "r = wanted_reports env vts ?m (map fst tablets) (st, map (fst \<circ> sp_Alias \<circ> snd) tablets, b)"
  have wanted: "pods_wanted env vts tablets claimEffects b = sh_Tablets (fst r)" by (simp add: pods_wanted_def r_def st_def)
  note entries = listed_entries [OF assms(2), of tablets]
  have dom_st: "dom (map_of (sh_Tablets st)) = (sp_AliasStr \<circ> snd) ` set tablets"
    unfolding st_def dom_pvc_hooks [OF entries] by (rule listed_dom [OF assms(2)])
  then have "tablet_entries ?m (fst (st, map (fst \<circ> sp_Alias \<circ> snd) tablets, b))"
    using entries listed_dom [OF assms(2), of tablets] by (simp add: tablet_entries_def)
  from dom_pod_hooks [OF this] have "dom (map_of (sh_Tablets (fst r))) = (sp_AliasStr \<circ> snd) ` set tablets"
    using dom_st by (simp add: r_def wanted_reports_def)
  then obtain t where t: "map_of (sh_Tablets (fst r)) ?a = Some t" using assms(4) by force
  then have "ts_Ready t = CondTrue" using assms(3) unfolding wanted by (fastforce simp: list_ex_iff dest: map_of_SomeD)
  moreover have "status_sound env ?m (set (fst (reconcile_keys (tb_pods env) (pod_strategy env vts ?m []) (tablets_labels vts) True
      (map fst tablets) empty_builder)) \<union> {}) (fst r)"
    unfolding r_def wanted_reports_def
    by (rule sound_pod_hooks) (simp add: st_def sound_pvc_hooks listed_sound assms(2))
  ultimately have "evidence env ?m (set (fst (reconcile_keys (tb_pods env) (pod_strategy env vts ?m []) (tablets_labels vts) True
      (map fst tablets) empty_builder)) \<union> {}) ?a t"
    using t unfolding status_sound_def shows_up_def by blast
  then obtain k pod t' where call: "CallStatus k pod \<in> set (fst (reconcile_keys (tb_pods env) (pod_strategy env vts ?m [])
        (tablets_labels vts) True (map fst tablets) empty_builder))"
    and t': "?m k = Some t'" "sp_AliasStr t' = ?a" and ready: "tpb_Ready (ko_body pod)"
    unfolding evidence_def by auto
  have "k = key" by (rule keyed_tablets_key [OF assms(1) tablet_map_of_mem [OF t'(1)] assms(4) t'(2)])
  with wanted_calls [OF call] ready show ?thesis by (auto simp: healthy_def)
qed

section \<open>What a pass creates and deletes\<close>

lemma tablet_strategies:
  "UpdateRecreate (pvc_strategy env m) = None" "UpdateRollingRecreate (pvc_strategy env m) = None"
  "PrepareForTurndown (pvc_strategy env m) = Some (\<lambda>key obj. (obj, if tb_get_pod env key = NotFound then None
     else Some \<lparr>os_Reason = ''PodExists'', os_Message = ''not deleting tablet PVC because tablet Pod still exists''\<rparr>))"
  "UpdateRecreate (pod_strategy env vts m tablets) = None"
  "PrepareForTurndown (pod_strategy env vts m tablets) = Some (\<lambda>key. prepare_tablet_turndown env vts tablets)"
  "New (pod_strategy env vts m tablets) key =
     (case Option.bind (m key) (NewPod (tb_lib env) key) of Some pod \<Rightarrow> pod | None \<Rightarrow> empty_pod key)"
  by (simp_all add: pvc_strategy_def pod_strategy_def)

lemma turndown_allowed:
  "snd (prepare_tablet_turndown env vts tablets pod) = None \<longleftrightarrow>
     drain_Finished pod \<and> isTabletPrimary env vts (AliasFromTabletPod pod) = Inr False
     \<and> \<not> list_ex (\<lambda>(_, tablet). ts_Ready tablet \<noteq> CondTrue) tablets"
  by (auto simp: prepare_tablet_turndown_def split: sum.split)

text \<open>
  The Pod may be deleted: evicted, due for a released recreation and drained if it supports that, or unwanted, drained and safe to
  lose.
\<close>

definition pod_may_go :: "tablets_env \<Rightarrow> tablets_shard \<Rightarrow> (object_key \<times> TabletSpec) list \<Rightarrow> object_key \<Rightarrow> tablet_pod \<Rightarrow> bool" where
  "pod_may_go env vts tablets key pod \<longleftrightarrow>
     kget (tb_pods env) key = Found pod \<and> (ko_evictable pod
       \<or> hasMatchingLabels pod (tablets_labels vts) \<and> \<not> ko_deleting pod
         \<and> (if key \<in> fst ` set tablets then rollout_Released pod \<and> (drain_Supported pod \<longrightarrow> drain_Finished pod)
            else drain_Finished pod \<and> isTabletPrimary env vts (AliasFromTabletPod pod) = Inr False
              \<and> (\<forall>k \<in> fst ` set tablets. healthy env vts k)))"

lemma pod_deleted:
  assumes "keyed_tablets (tb_lib env) vts = Some tablets" "sh_Tablets (vsh_Status vts) = []"
    and "DeleteObj pod \<in> set (fst (ReconcileObjectSet (tb_pods env)
        (pod_strategy env vts (tablet_map_of tablets) (pods_wanted env vts tablets claimEffects b)) (tablets_labels vts) (map fst tablets)))"
  shows "\<exists>key. pod_may_go env vts tablets key pod"
proof -
  from ReconcileObjectSet_may_delete [OF assms(3)] obtain key where
    key: "may_delete (tb_pods env) (pod_strategy env vts (tablet_map_of tablets) (pods_wanted env vts tablets claimEffects b))
      (tablets_labels vts) key (key \<in> set (map fst tablets)) pod" by blast
  have "\<forall>k \<in> fst ` set tablets. healthy env vts k"
    if "\<not> list_ex (\<lambda>(_, tablet). ts_Ready tablet \<noteq> CondTrue) (pods_wanted env vts tablets claimEffects b)"
    using desired_healthy [OF assms(1,2) that] by auto
  with key have "pod_may_go env vts tablets key pod"
    by (auto simp: may_delete_def pod_may_go_def tablet_strategies turndown_allowed split: if_splits)
  then show ?thesis by blast
qed

lemma claim_deleted:
  assumes "DeleteObj pvc \<in> set (fst (ReconcileObjectSet (tb_pvcs env) (pvc_strategy env m) labels keys))"
    and "\<forall>key pvc. kget (tb_pvcs env) key = Found pvc \<longrightarrow> \<not> ko_evictable pvc"
  shows "\<exists>key. kget (tb_pvcs env) key = Found pvc \<and> key \<notin> set keys \<and> hasMatchingLabels pvc labels \<and> tb_get_pod env key = NotFound"
  using ReconcileObjectSet_may_delete [OF assms(1)] assms(2)
  by (fastforce simp: may_delete_def tablet_strategies split: if_splits)

text \<open>The Pod of a tablet supports draining, whatever annotations the user and the backup location add.\<close>

lemma set_entries_key: "k \<in> fst ` set m \<Longrightarrow> k \<in> fst ` set (set_entries src m)"
  unfolding set_entries_def by (induction src arbitrary: m) (auto simp: AList.dom_update split_beta)

lemma annotation_added:
  "(case Annotations a src of None \<Rightarrow> False | Some m \<Rightarrow> m k \<noteq> None) \<longleftrightarrow>
     (case a of None \<Rightarrow> False | Some m \<Rightarrow> m k \<noteq> None) \<or> k \<in> fst ` set src"
proof -
  have "fold (\<lambda>(k, v) m. m(k \<mapsto> v)) src m k \<noteq> None \<longleftrightarrow> m k \<noteq> None \<or> k \<in> fst ` set src" for m :: "string \<rightharpoonup> string"
    by (induction src arbitrary: m) auto
  then show ?thesis by (simp add: Annotations_def StringMap_def split: option.split)
qed

lemma tablet_supports_drain:
  assumes "keyed_tablets (tb_lib env) vts = Some tablets" "(key, tablet) \<in> set tablets" "NewPod lib key tablet = Some built"
  shows "drain_Supported built"
proof -
  obtain pool l where ann: "sp_Annotations tablet = pool_tablet_annotations pool l"
    using keyed_tablets_member [OF assms(1,2)] by (auto simp: pool_tablet_def Let_def split: if_splits)
  have "drain_SupportedAnnotation \<in> fst ` set (pool_tablet_annotations pool l)"
    by (simp add: pool_tablet_annotations_def Let_def set_entries_key split: option.split)
  then have "drain_SupportedAnnotation \<in> fst ` set (sp_Annotations tablet)" by (simp add: ann)
  moreover obtain cs where "built = updated_pod lib tablet cs (empty_pod key)"
    using assms(3) unfolding NewPod_def by (elim UpdatePod_parts) simp
  ultimately show ?thesis
    by (simp add: drain_Supported_def updated_pod_def Let_def ann_has_def annotation_added)
qed

lemma pod_created:
  assumes tablets: "keyed_tablets (tb_lib env) vts = Some tablets"
    and pe: "pe = fst (ReconcileObjectSet (tb_pods env) (pod_strategy env vts (tablet_map_of tablets) w)
      (tablets_labels vts) (map fst tablets))"
    and "\<not> tablet_panics env vts (tablet_map_of tablets) pe" "CreateObj pod \<in> set pe"
  shows "\<exists>key tablet built. (key, tablet) \<in> set tablets \<and> NewPod (tb_lib env) key tablet = Some built \<and> drain_Supported built
    \<and> set_owner (tb_pods env) (built\<lparr>ko_key := key\<rparr>) = Inr pod
    \<and> (kget (tb_pods env) key = NotFound \<or> (\<exists>old. kget (tb_pods env) key = Found old \<and> ko_evictable old))"
proof -
  from ReconcileObjectSet_creates [OF assms(4) [unfolded pe]] obtain key where key: "CallNew key \<in> set pe"
    "set_owner (tb_pods env) ((New (pod_strategy env vts (tablet_map_of tablets) w) key)\<lparr>ko_key := key\<rparr>) = Inr pod"
    "kget (tb_pods env) key = NotFound \<or> (\<exists>old. kget (tb_pods env) key = Found old \<and> ko_evictable old)"
    unfolding pe by blast
  have "Option.bind (tablet_map_of tablets key) (NewPod (tb_lib env) key) \<noteq> None"
    using key(1) assms(3) by (auto simp: tablet_panics_def list_ex_iff)
  then obtain tablet built where built: "tablet_map_of tablets key = Some tablet" "NewPod (tb_lib env) key tablet = Some built"
    by (auto simp: Option.bind_eq_Some_conv)
  then show ?thesis
    using key tablet_map_of_mem [OF built(1)] tablet_supports_drain [OF tablets tablet_map_of_mem [OF built(1)] built(2)]
    by (intro exI [of _ key] exI [of _ tablet] exI [of _ built]) (simp add: tablet_strategies)
qed

text \<open>C3: A pass over the tablets of a shard loses nothing that is in use, whatever the API and topology servers answer.  It deletes a
  Pod only if it was evicted; or if the tablet is wanted, its recreation was released and, if the Pod supports draining, its drain has
  finished; or if the tablet is unwanted, its drain has finished, the topology says that it is not the primary, and the pass has
  seen a ready Pod for every tablet that is wanted.  It deletes a volume claim only if it is unwanted and the API server says that
  its Pod does not exist.  A Pod it creates is that of a wanted tablet which has no live Pod, and it supports draining.\<close>

theorem reconcileTablets_safe:
  assumes "reconcileTablets env vts = Some (es, st, r)" "sh_Tablets (vsh_Status vts) = []"
    and "\<forall>key pvc. kget (tb_pvcs env) key = Found pvc \<longrightarrow> \<not> ko_evictable pvc"
  shows "\<exists>tablets. keyed_tablets (tb_lib env) vts = Some tablets
    \<and> (\<forall>pod. TabletEffect (DeleteObj pod) \<in> set es \<longrightarrow> (\<exists>key. pod_may_go env vts tablets key pod))
    \<and> (\<forall>pvc. ClaimEffect (DeleteObj pvc) \<in> set es \<longrightarrow>
         (\<exists>key. kget (tb_pvcs env) key = Found pvc \<and> key \<notin> set (claim_keys tablets)
            \<and> hasMatchingLabels pvc (tablets_labels vts) \<and> tb_get_pod env key = NotFound))
    \<and> (\<forall>pod. TabletEffect (CreateObj pod) \<in> set es \<longrightarrow>
         (\<exists>key tablet built. (key, tablet) \<in> set tablets \<and> NewPod (tb_lib env) key tablet = Some built
            \<and> drain_Supported built \<and> set_owner (tb_pods env) (built\<lparr>ko_key := key\<rparr>) = Inr pod
            \<and> (kget (tb_pods env) key = NotFound \<or> (\<exists>old. kget (tb_pods env) key = Found old \<and> ko_evictable old))))"
proof -
  from assms(1) obtain tablets ce pe b where tablets: "keyed_tablets (tb_lib env) vts = Some tablets"
    and ce: "ce = fst (ReconcileObjectSet (tb_pvcs env) (pvc_strategy env (tablet_map_of tablets)) (tablets_labels vts) (claim_keys tablets))"
    and pe: "pe = fst (ReconcileObjectSet (tb_pods env)
        (pod_strategy env vts (tablet_map_of tablets) (pods_wanted env vts tablets ce b)) (tablets_labels vts) (map fst tablets))"
    and es: "es = map ClaimEffect ce @ map TabletEffect pe" and np: "\<not> tablet_panics env vts (tablet_map_of tablets) pe"
    by (rule reconcileTablets_parts) (rule that)
  have mem: "TabletEffect e \<in> set es \<longleftrightarrow> e \<in> set pe" "ClaimEffect f \<in> set es \<longleftrightarrow> f \<in> set ce" for e f unfolding es by auto
  show ?thesis
  proof (intro exI [of _ tablets] conjI allI impI)
    show "\<exists>key. pod_may_go env vts tablets key pod" if "TabletEffect (DeleteObj pod) \<in> set es" for pod
      by (rule pod_deleted [OF tablets assms(2)]) (use that mem in \<open>simp add: pe\<close>)
    show "\<exists>key. kget (tb_pvcs env) key = Found pvc \<and> key \<notin> set (claim_keys tablets)
        \<and> hasMatchingLabels pvc (tablets_labels vts) \<and> tb_get_pod env key = NotFound"
      if "ClaimEffect (DeleteObj pvc) \<in> set es" for pvc
      by (rule claim_deleted [OF _ assms(3)]) (use that mem in \<open>simp add: ce\<close>)
    show "\<exists>key tablet built. (key, tablet) \<in> set tablets \<and> NewPod (tb_lib env) key tablet = Some built
        \<and> drain_Supported built \<and> set_owner (tb_pods env) (built\<lparr>ko_key := key\<rparr>) = Inr pod
        \<and> (kget (tb_pods env) key = NotFound \<or> (\<exists>old. kget (tb_pods env) key = Found old \<and> ko_evictable old))"
      if "TabletEffect (CreateObj pod) \<in> set es" for pod
      by (rule pod_created [OF tablets pe np]) (use that mem in simp)
  qed (rule tablets)
qed

section \<open>What a pass reports\<close>

definition orphan_cells :: "tablet_pod_body kube_effect set \<Rightarrow> string set" where
  "orphan_cells es = {fst (AliasFromTabletPod pod) | key pod os. CallOrphanStatus key pod os \<in> es}"

lemma pod_hook_cells:
  "set (fst (snd (pod_hook env m e r))) = set (fst (snd r)) \<union> orphan_cells {e}"
proof (cases r)
  case (fields st cells b)
  then show ?thesis
    by (cases e) (auto simp: orphan_cells_def with_tablet_def report_tablet_def split: option.split prod.split)
qed

lemma pod_hooks_cells:
  "set (fst (snd (fold (pod_hook env m) es r))) = set (fst (snd r)) \<union> orphan_cells (set es)"
proof (induction es arbitrary: r)
  case (Cons e es)
  have "orphan_cells (set (e # es)) = orphan_cells {e} \<union> orphan_cells (set es)" by (auto simp: orphan_cells_def)
  then show ?case using Cons.IH by (simp add: pod_hook_cells Un_assoc)
qed (simp add: orphan_cells_def)

lemma reports_of_hooks:
  assumes "sh_Tablets (vsh_Status vts) = []"
    and "fold (pod_hook env (tablet_map_of tablets)) pe
        (fold (pvc_hook (tablet_map_of tablets)) ce (listed_tablets tablets (vsh_Status vts)),
         map (fst \<circ> sp_Alias \<circ> snd) tablets, b) = (st, cells, b')"
  shows "dom (map_of (sh_Tablets st)) = (sp_AliasStr \<circ> snd) ` set tablets"
    and "status_sound env (tablet_map_of tablets) (set pe) st"
    and "set cells = (fst \<circ> sp_Alias \<circ> snd) ` set tablets \<union> orphan_cells (set pe)"
proof -
  let ?m = "tablet_map_of tablets"
  let ?r = "(fold (pvc_hook ?m) ce (listed_tablets tablets (vsh_Status vts)), map (fst \<circ> sp_Alias \<circ> snd) tablets, b)"
  note entries = listed_entries [OF assms(1), of tablets]
  have dom: "dom (map_of (sh_Tablets (fst ?r))) = (sp_AliasStr \<circ> snd) ` set tablets"
    unfolding fst_conv dom_pvc_hooks [OF entries] by (rule listed_dom [OF assms(1)])
  then have "tablet_entries ?m (fst ?r)" using entries listed_dom [OF assms(1), of tablets] by (simp add: tablet_entries_def)
  from dom_pod_hooks [OF this, of env pe] show "dom (map_of (sh_Tablets st)) = (sp_AliasStr \<circ> snd) ` set tablets"
    unfolding assms(2) fst_conv using dom by simp
  have "status_sound env ?m {} (fst ?r)" by (simp add: sound_pvc_hooks listed_sound assms(1))
  from sound_pod_hooks [OF this, of pe] show "status_sound env ?m (set pe) st" by (simp add: assms(2))
  show "set cells = (fst \<circ> sp_Alias \<circ> snd) ` set tablets \<union> orphan_cells (set pe)"
    using pod_hooks_cells [of env ?m pe ?r] by (simp add: assms(2))
qed

lemma status_sound_found:
  assumes "keyed_tablets (tb_lib env) vts = Some tablets"
    and pe: "pe = fst (ReconcileObjectSet (tb_pods env) (pod_strategy env vts (tablet_map_of tablets) w) (tablets_labels vts) (map fst tablets))"
    and "status_sound env (tablet_map_of tablets) (set pe) st"
    and "(key, tablet) \<in> set tablets" "map_of (sh_Tablets st) (sp_AliasStr tablet) = Some t" "shows_up t"
  shows "healthy env vts key \<and> (ts_Available t = CondTrue \<longrightarrow> (\<exists>pod. kget (tb_pods env) key = Found pod \<and> tpb_Ready (ko_body pod)
      \<and> \<not> ko_deleting pod \<and> tb_IsPodAvailable env pod tabletAvailableSeconds))"
proof -
  have "evidence env (tablet_map_of tablets) (set pe) (sp_AliasStr tablet) t" using assms(3,5,6) by (simp add: status_sound_def)
  then obtain k pod t' where call: "CallStatus k pod \<in> set pe"
    and t': "tablet_map_of tablets k = Some t'" "sp_AliasStr t' = sp_AliasStr tablet"
    and pod: "tpb_Ready (ko_body pod)" "ts_Available t = CondTrue \<longrightarrow> \<not> ko_deleting pod \<and> tb_IsPodAvailable env pod tabletAvailableSeconds"
    unfolding evidence_def by blast
  have "k = key" by (rule keyed_tablets_key [OF assms(1) tablet_map_of_mem [OF t'(1)] assms(4) t'(2)])
  with set_status_calls [OF call [unfolded pe]] pod show ?thesis by (auto simp: healthy_def)
qed

text \<open>C15: The status a pass reports is complete and rests on evidence.  It has an entry for each wanted tablet and for no other.  A tablet
  is reported ready only if the pass found a ready Pod of it, and available only if that Pod is also not being deleted and has been
  ready for long enough.  The cells are reported sorted and without duplicates: those of the wanted tablets and those of the
  Pods that are kept although they are not wanted.\<close>

theorem reconcileTablets_reports:
  assumes "reconcileTablets env vts = Some (es, st, r)" "sh_Tablets (vsh_Status vts) = []"
  shows "\<exists>tablets. keyed_tablets (tb_lib env) vts = Some tablets
    \<and> dom (map_of (sh_Tablets st)) = (sp_AliasStr \<circ> snd) ` set tablets
    \<and> (\<forall>key tablet t. (key, tablet) \<in> set tablets \<and> map_of (sh_Tablets st) (sp_AliasStr tablet) = Some t \<longrightarrow>
         (ts_Ready t = CondTrue \<longrightarrow> healthy env vts key)
         \<and> (ts_Available t = CondTrue \<longrightarrow> (\<exists>pod. kget (tb_pods env) key = Found pod \<and> tpb_Ready (ko_body pod)
              \<and> \<not> ko_deleting pod \<and> tb_IsPodAvailable env pod tabletAvailableSeconds)))
    \<and> sorted (sh_Cells st) \<and> distinct (sh_Cells st)
    \<and> set (sh_Cells st) = (fst \<circ> sp_Alias \<circ> snd) ` set tablets
        \<union> {fst (AliasFromTabletPod pod) | key pod os. TabletEffect (CallOrphanStatus key pod os) \<in> set es}"
proof -
  from assms(1) obtain tablets ce pe b b' cells st' where tablets: "keyed_tablets (tb_lib env) vts = Some tablets"
    and pe: "pe = fst (ReconcileObjectSet (tb_pods env)
        (pod_strategy env vts (tablet_map_of tablets) (pods_wanted env vts tablets ce b)) (tablets_labels vts) (map fst tablets))"
    and es: "es = map ClaimEffect ce @ map TabletEffect pe"
    and fold: "fold (pod_hook env (tablet_map_of tablets)) pe
        (fold (pvc_hook (tablet_map_of tablets)) ce (listed_tablets tablets (vsh_Status vts)),
         map (fst \<circ> sp_Alias \<circ> snd) tablets, b) = (st', cells, b')"
    and st: "st = st'\<lparr>sh_Cells := sort (remdups cells)\<rparr>"
    by (rule reconcileTablets_parts) (rule that)
  note reports = reports_of_hooks [OF assms(2) fold]
  have "TabletEffect e \<in> set es \<longleftrightarrow> e \<in> set pe" for e by (auto simp: es)
  then have "set cells = (fst \<circ> sp_Alias \<circ> snd) ` set tablets
      \<union> {fst (AliasFromTabletPod pod) | key pod os. TabletEffect (CallOrphanStatus key pod os) \<in> set es}"
    using reports(3) by (simp add: orphan_cells_def)
  moreover have "sh_Tablets st = sh_Tablets st'" by (simp add: st)
  ultimately show ?thesis
    using tablets reports(1) status_sound_found [OF tablets pe reports(2)]
    by (intro exI [of _ tablets] conjI allI impI) (auto simp: st shows_up_def)
qed

section \<open>A pass that replaces a tablet\<close>

text \<open>A shard with one tablet, whose Pod is ready, and the drained Pod of a tablet that it no longer asks for.\<close>

definition example_shard :: tablets_shard where
  "example_shard =
     \<lparr>vsh_Namespace = ''ns'', vsh_Labels = [ClusterLabel \<mapsto> ''c'', KeyspaceLabel \<mapsto> ''k''], vsh_Generation = 3,
      vsh_Spec =
        \<lparr>st_TabletPools =
           [\<lparr>tp_Cell = ''zone1'', tp_Type = ''replica'', tp_Name = [], tp_Replicas = 1, tp_DataVolumeClaimTemplate = None,
             tp_BackupLocationName = [],
             tp_Vttablet = \<lparr>vt_resources = \<lparr>limits = None, requests = None\<rparr>, vt_extraFlags = [], vt_vtbackupExtraFlags = [],
               vt_lifecycle = [], vt_terminationGracePeriod = None\<rparr>,
             tp_Mysqld = Some \<lparr>my_resources = \<lparr>limits = None, requests = None\<rparr>, my_configOverrides = []\<rparr>,
             tp_MysqldExporter = None, tp_ExternalDatastore = None, tp_Annotations = [], tp_ExtraLabels = [], tp_Affinity = None,
             tp_ExtraEnv = [], tp_ExtraVolumes = [], tp_ExtraVolumeMounts = [], tp_InitContainers = [], tp_SidecarContainers = [],
             tp_Tolerations = [], tp_TopologySpreadConstraints = []\<rparr>],
         st_DatabaseInitScriptSecret = no_secret,
         st_Replication = \<lparr>rs_InitializeMaster = None, rs_InitializeBackup = None, rs_RecoverRestartedMaster = None\<rparr>,
         st_Annotations = None, ss_Name = ''-'', ss_ZoneMap = Map.empty, ss_KeyRange = VitessKeyRange [] [], ss_BackupLocations = [],
         ss_GlobalLockserver = \<lparr>Implementation = ''etcd2'', Address = ''etcd'', RootPath = ''/vitess''\<rparr>,
         ss_Images = \<lparr>ki_Vttablet = ''vt'', ki_Vtorc = ''vt'', ki_Vtbackup = ''vt'', ki_Mysqld = Some example_image,
           ki_MysqldExporter = []\<rparr>,
         ss_ImagePullPolicies = no_pull_policies, ss_ImagePullSecrets = [], ss_DatabaseName = [], ss_BackupEngine = [],
         ss_ExtraVitessFlags = []\<rparr>,
      vsh_Status = NewVitessShardStatus\<rparr>"

definition example_live_pod :: "object_key \<Rightarrow> string list \<Rightarrow> tablet_pod" where
  "example_live_pod key flags =
     (empty_pod key)\<lparr>annotations := Some (\<lambda>k. if k \<in> set flags then Some ''yes'' else None),
       ko_labels := map_of (tablets_labels example_shard),
       ko_body := \<lparr>tpb_Spec = empty_pod_spec, tpb_Phase = ''Running'', tpb_Ready = True\<rparr>\<rparr>"

definition example_old_pod :: tablet_pod where
  "example_old_pod = example_live_pod (''ns'', ''old'') [drain_FinishedAnnotation]"

definition example_tablets_env :: tablets_env where
  "example_tablets_env =
     \<lparr>tb_lib = example_lib,
      tb_pvcs = \<lparr>kget = (\<lambda>k. NotFound), kdelete = (\<lambda>x. None), kcreate = (\<lambda>x. None), kupdate = (\<lambda>x. None),
        klist = Inr [], set_owner = Inr, defaulted = (\<lambda>x. x), semantic_equal = (\<lambda>a b. True), describe = (\<lambda>a b. []), collision = []\<rparr>,
      tb_pods = \<lparr>kget = (\<lambda>k. Found (if k = (''ns'', ''old'') then example_old_pod else example_live_pod k [])),
        kdelete = (\<lambda>x. None), kcreate = (\<lambda>x. None), kupdate = (\<lambda>x. None), klist = Inr [example_old_pod], set_owner = Inr,
        defaulted = (\<lambda>x. x), semantic_equal = (\<lambda>a b. True), describe = (\<lambda>a b. []), collision = []\<rparr>,
      tb_get_pod = (\<lambda>k. NotFound), tb_get_pvc = (\<lambda>k. NotFound), tb_Open = (\<lambda>a. None), tb_GetShard = (\<lambda>a k s. Inr None),
      tb_AliasEqual = (\<lambda>p a. p = Some a), tb_IsPodAvailable = (\<lambda>p n. True)\<rparr>"

lemma example_name: "\<exists>name. PodName example_lib ''c'' a = Some name \<and> name \<noteq> ''old''"
proof -
  obtain name where name: "PodName example_lib ''c'' a = Some name"
    using Join_total [of DefaultConstraints] by (auto simp: PodName_def JoinWithConstraints_def DefaultConstraints_def)
  then have "drop (length name - 8) name = Hash (''c'' # VttabletComponentName # [tl_AliasString example_lib a])"
    unfolding PodName_def JoinWithConstraints_def by (drule_tac Join_suffix) simp_all
  then have "length (drop (length name - 8) name) = 8" by simp
  then have "name \<noteq> ''old''" by auto
  with name show ?thesis by blast
qed

lemma example_keyed:
  "\<exists>name tablet. keyed_tablets example_lib example_shard = Some [((''ns'', name), tablet)] \<and> name \<noteq> ''old''
     \<and> ki_Mysqld (sp_Images tablet) = Some example_image \<and> sp_BackupLocation tablet = None \<and> sp_DataVolumePVCSpec tablet = None"
proof -
  obtain pool where pools: "st_TabletPools (vsh_Spec example_shard) = [pool]" and pool: "tp_Replicas pool = 1"
      "tp_DataVolumeClaimTemplate pool = None" "tp_BackupLocationName pool = []"
    by (simp add: example_shard_def)
  let ?tablet = "pool_tablet example_lib example_shard (tablets_labels example_shard) pool 1"
  obtain name where name: "PodName example_lib ''c'' (sp_Alias ?tablet) = Some name" "name \<noteq> ''old''" using example_name by blast
  have label: "vsh_label ClusterLabel example_shard = ''c''" "vsh_Namespace example_shard = ''ns''"
    by (simp_all add: vsh_label_def example_shard_def ClusterLabel_def KeyspaceLabel_def)
  have "sp_DataVolumePVCSpec ?tablet = None" "sp_BackupLocation ?tablet = None" "ki_Mysqld (sp_Images ?tablet) = Some example_image"
    by (simp_all add: pool_tablet_def Let_def pool BackupLocation_def) (simp_all add: example_shard_def)
  moreover have "keyed_tablets example_lib example_shard = Some [((''ns'', name), ?tablet)]"
    using calculation name
    by (simp add: keyed_tablets_def vttabletSpecs_def pools pool tablet_indices_upto keyed_tablet_def label)
  ultimately show ?thesis using name(2) by blast
qed

lemma matching_map_of: "gomap_wf l \<Longrightarrow> ko_labels obj = map_of l \<Longrightarrow> hasMatchingLabels obj l"
  by (auto simp: hasMatchingLabels_def list_all_iff)

lemma tablet_recreate_total:
  assumes "ki_Mysqld (sp_Images tablet) = Some img" "sp_BackupLocation tablet = None"
  shows "\<exists>pod. tablet_recreate env tablet obj = Some pod"
proof -
  let ?t = "updatePVCFilesystemResizeAnnotation env tablet obj"
  have "sp_Images ?t = sp_Images tablet" "sp_BackupLocation ?t = sp_BackupLocation tablet"
    by (auto simp: updatePVCFilesystemResizeAnnotation_def split: option.split get_answer.split)
  then have "tabletContainers (tb_lib env) ?t img \<noteq> None" "ki_Mysqld (sp_Images ?t) = Some img"
    using assms by (simp_all add: tabletContainers_None backupFlags_None)
  then show ?thesis by (auto simp: tablet_recreate_def UpdatePod_def)
qed

lemma example_wanted:
  assumes "name \<noteq> ''old''"
  shows "ReconcileObject (tb_pods example_tablets_env) (pod_strategy example_tablets_env example_shard m w) (tablets_labels example_shard)
      (''ns'', name) True = ([CallStatus (''ns'', name) (example_live_pod (''ns'', name) [])], None)"
proof -
  have labels: "hasMatchingLabels (example_live_pod (''ns'', name) []) (tablets_labels example_shard)"
    by (rule matching_map_of [OF tablets_labels_wf]) (simp add: example_live_pod_def empty_pod_def)
  have plain: "\<not> ko_evictable (example_live_pod (''ns'', name) [])" "\<not> ko_deleting (example_live_pod (''ns'', name) [])"
    "\<not> rollout_Released (example_live_pod (''ns'', name) [])"
    by (simp_all add: example_live_pod_def empty_pod_def rollout_Released_def ann_has_def)
  show ?thesis
    using assms labels plain
    by (simp add: ReconcileObject_def example_tablets_env_def remove_evicted_def reconcile_wanted_def update_object_def
        apply_rolling_def pod_strategy_def updateInPlace_def deepEqual_def Let_def)
qed

lemma example_unwanted:
  assumes "\<forall>(a, t) \<in> set w. ts_Ready t = CondTrue"
  shows "ReconcileObject (tb_pods example_tablets_env) (pod_strategy example_tablets_env example_shard m w) (tablets_labels example_shard)
      (''ns'', ''old'') False = ([DeleteObj example_old_pod, RecordEvent ''Deleted''], None)"
proof -
  have labels: "hasMatchingLabels example_old_pod (tablets_labels example_shard)"
    by (rule matching_map_of [OF tablets_labels_wf]) (simp add: example_old_pod_def example_live_pod_def empty_pod_def)
  have plain: "\<not> ko_evictable example_old_pod" "\<not> ko_deleting example_old_pod" "drain_Finished example_old_pod"
    by (simp_all add: example_old_pod_def example_live_pod_def empty_pod_def drain_Finished_def ann_has_def)
  have "\<not> list_ex (\<lambda>(_, tablet). ts_Ready tablet \<noteq> CondTrue) w" using assms by (auto simp: list_ex_iff)
  then have "prepare_tablet_turndown example_tablets_env example_shard w example_old_pod = (example_old_pod, None)"
    using plain by (simp add: prepare_tablet_turndown_def isTabletPrimary_def example_tablets_env_def)
  moreover have "kget (tb_pods example_tablets_env) (''ns'', ''old'') = Found example_old_pod"
    "kdelete (tb_pods example_tablets_env) pod = None" for pod
    by (simp_all add: example_tablets_env_def)
  ultimately show ?thesis
    using labels plain
    by (simp add: ReconcileObject_def remove_evicted_def reconcile_unwanted_def pod_strategy_def kube_delete_def)
qed

lemma example_run:
  "\<exists>es st r. reconcileTablets example_tablets_env example_shard = Some (es, st, r)
     \<and> TabletEffect (DeleteObj example_old_pod) \<in> set es"
proof -
  let ?env = example_tablets_env and ?vts = example_shard
  obtain name tablet where keyed: "keyed_tablets example_lib ?vts = Some [((''ns'', name), tablet)]" and old: "name \<noteq> ''old''"
    and tablet: "ki_Mysqld (sp_Images tablet) = Some example_image" "sp_BackupLocation tablet = None" "sp_DataVolumePVCSpec tablet = None"
    using example_keyed by blast
  have lib: "tb_lib ?env = example_lib" "klist (tb_pvcs ?env) = Inr []" "klist (tb_pods ?env) = Inr [example_old_pod]"
    "ko_key example_old_pod = (''ns'', ''old'')"
    by (simp_all add: example_tablets_env_def example_old_pod_def example_live_pod_def empty_pod_def)
  have m: "tablet_map_of [((''ns'', name), tablet)] (''ns'', name) = Some tablet" by (simp add: tablet_map_of_def)
  have keys: "claim_keys [((''ns'', name), tablet)] = []" by (simp add: claim_keys_def tablet)
  have ready: "tpb_Ready (ko_body (example_live_pod k fl))" for k fl by (simp add: example_live_pod_def)
  let ?w = "pods_wanted ?env ?vts [((''ns'', name), tablet)] [] empty_builder"
  have "?w = [(sp_AliasStr tablet, shown_pod (example_live_pod (''ns'', name) [])
      (Some (fst (tabletAvailableStatus ?env empty_builder (example_live_pod (''ns'', name) []))))
      (NewVitessTabletStatus (sp_Type tablet) (sp_Index tablet)))]"
    by (simp add: pods_wanted_def wanted_reports_def example_wanted [OF old] with_tablet_def m report_tablet_status
        set_tablet_status_def Let_def listed_tablets_def, simp add: ready example_shard_def NewVitessShardStatus_def)
  then have "\<forall>(a, t) \<in> set ?w. ts_Ready t = CondTrue" by (simp add: shown_pod_def Let_def)
  note unwanted = example_unwanted [OF this]
  have no_error: "snd (builder_Result (empty_builder :: string builder)) = None" by (simp add: builder_Result_def empty_builder_def)
  let ?pe = "[CallStatus (''ns'', name) (example_live_pod (''ns'', name) []), DeleteObj example_old_pod, RecordEvent ''Deleted'']"
  have claims: "ReconcileObjectSet (tb_pvcs ?env) (pvc_strategy ?env (tablet_map_of [((''ns'', name), tablet)])) (tablets_labels ?vts)
      (claim_keys [((''ns'', name), tablet)]) = ([], None)"
    by (simp add: ReconcileObjectSet_def lib keys builder_Result_def empty_builder_def)
  have pods: "ReconcileObjectSet (tb_pods ?env) (pod_strategy ?env ?vts (tablet_map_of [((''ns'', name), tablet)]) ?w) (tablets_labels ?vts)
      (map fst [((''ns'', name), tablet)]) = (?pe, None)"
    using old by (simp add: ReconcileObjectSet_def lib example_wanted [OF old] unwanted no_error)
  have "\<not> tablet_panics ?env ?vts (tablet_map_of [((''ns'', name), tablet)]) ?pe"
    using tablet_recreate_total [OF tablet(1,2)] by (simp add: tablet_panics_def m)
  moreover have "\<not> claim_panics (tablet_map_of [((''ns'', name), tablet)]) []" by (simp add: claim_panics_def)
  moreover obtain st cells b where "fold (pod_hook ?env (tablet_map_of [((''ns'', name), tablet)])) ?pe
      (fold (pvc_hook (tablet_map_of [((''ns'', name), tablet)])) [] (listed_tablets [((''ns'', name), tablet)] (vsh_Status ?vts)),
       map (fst \<circ> sp_Alias \<circ> snd) [((''ns'', name), tablet)], empty_builder) = (st, cells, b)"
    by (metis prod_cases3)
  moreover have "empty_builder = (if None \<noteq> None then builder_Error None empty_builder else empty_builder)" by simp
  ultimately show ?thesis
    using reconcileTablets_eq [of ?env ?vts, unfolded lib(1), OF keyed claims _ pods] by auto
qed

theorem reconcileTablets_safe_witness:
  "\<exists>es st r tablets key. reconcileTablets example_tablets_env example_shard = Some (es, st, r)
     \<and> TabletEffect (DeleteObj example_old_pod) \<in> set es
     \<and> keyed_tablets example_lib example_shard = Some tablets \<and> pod_may_go example_tablets_env example_shard tablets key example_old_pod"
proof -
  obtain es st r where run: "reconcileTablets example_tablets_env example_shard = Some (es, st, r)"
    "TabletEffect (DeleteObj example_old_pod) \<in> set es" using example_run by blast
  have "sh_Tablets (vsh_Status example_shard) = []" by (simp add: example_shard_def NewVitessShardStatus_def)
  moreover have "\<forall>key pvc. kget (tb_pvcs example_tablets_env) key = Found pvc \<longrightarrow> \<not> ko_evictable pvc"
    and "tb_lib example_tablets_env = example_lib" by (simp_all add: example_tablets_env_def)
  ultimately show ?thesis using reconcileTablets_safe [OF run(1)] run by metis
qed

theorem reconcileTablets_reports_witness:
  "\<exists>es st r. reconcileTablets example_tablets_env example_shard = Some (es, st, r) \<and> sorted (sh_Cells st) \<and> ''zone1'' \<in> set (sh_Cells st)"
proof -
  obtain es st r where run: "reconcileTablets example_tablets_env example_shard = Some (es, st, r)" using example_run by blast
  have "sh_Tablets (vsh_Status example_shard) = []" by (simp add: example_shard_def NewVitessShardStatus_def)
  from reconcileTablets_reports [OF run this] obtain tablets where tablets: "keyed_tablets example_lib example_shard = Some tablets"
    "sorted (sh_Cells st)" "(fst \<circ> sp_Alias \<circ> snd) ` set tablets \<subseteq> set (sh_Cells st)"
    by (auto simp: example_tablets_env_def)
  obtain key tablet where "tablets = [(key, tablet)]" using example_keyed tablets(1) by auto
  with keyed_tablets_member [OF tablets(1)] have "fst (sp_Alias tablet) = ''zone1''"
    by (auto simp: pool_tablet_def Let_def example_shard_def split: if_splits)
  with run tablets \<open>tablets = [(key, tablet)]\<close> show ?thesis by auto
qed

theorem tablet_alias_roundtrip_witness:
  "\<exists>key tablet pod. keyed_tablets example_lib example_shard = Some [(key, tablet)]
     \<and> AliasFromTabletPod (tablet_in_place example_shard tablet (pod :: tablet_pod)) = sp_Alias tablet"
proof -
  obtain key tablet where keyed: "keyed_tablets (tb_lib example_tablets_env) example_shard = Some [(key, tablet)]"
    using example_keyed by (auto simp: example_tablets_env_def)
  let ?pod = "tablet_in_place example_shard tablet (empty_pod key)"
  have "tablet_pod_for example_tablets_env example_shard key tablet ?pod" by (auto simp: tablet_pod_for_def)
  moreover have "\<forall>pool \<in> set (st_TabletPools (vsh_Spec example_shard)). gomap_wf (tp_ExtraLabels pool)
      \<and> {CellLabel, TabletUidLabel} \<inter> fst ` set (tp_ExtraLabels pool) = {}"
    by (simp add: example_shard_def)
  ultimately have "AliasFromTabletPod ?pod = sp_Alias tablet"
    using tablet_alias_roundtrip [OF keyed, of key tablet ?pod] by simp
  with keyed show ?thesis by (auto simp: example_tablets_env_def)
qed

end
