(* ===== verification/Cluster_Objects.thy ===== *)
theory Cluster_Objects
  imports Keyspace_Controller Rollout
begin

text \<open>
  The cell and keyspace objects of a cluster: \<open>reconcile_cells.go\<close> and \<open>reconcile_keyspaces.go\<close> of
  \<open>pkg/controller/vitesscluster\<close>.  Each pass expands the templates of the cluster into child objects, keeps them up to date as the
  update strategy says and sums up their status.  A dereference of a nil pointer panics, which is \<open>None\<close>.
\<close>

section \<open>The objects\<close>

record VitessCellSpec = VitessCellTemplate +
  cp_GlobalLockserver :: params
  cp_AllCells :: "string list"
  cp_Vtgate :: string
  cp_ImagePullPolicies :: VitessImagePullPolicies
  cp_ImagePullSecrets :: "string list"
  cp_ExtraVitessFlags :: "(string, string) gomap"
  cp_TopologyReconciliation :: "TopoReconcileConfig option"

text \<open>Of the status of a child, what the cluster reads.\<close>

record cell_body =
  clb_Spec :: VitessCellSpec
  clb_GatewayAvailable :: cond_status
  clb_Idle :: cond_status

record keyspace_body =
  kyb_Spec :: VitessKeyspaceSpec
  kyb_Status :: keyspace_status

type_synonym vitess_cell = "cell_body kobj"
type_synonym keyspace_object = "keyspace_body kobj"

record cell_summary =
  cls_PendingChanges :: string
  cls_GatewayAvailable :: cond_status

definition NewVitessClusterCellStatus :: cell_summary where
  "NewVitessClusterCellStatus = \<lparr>cls_PendingChanges = [], cls_GatewayAvailable = CondUnknown\<rparr>"

record keyspace_summary =
  cks_PendingChanges :: string
  cks_DesiredShards :: "32 word"
  cks_Shards :: "32 word"
  cks_ReadyShards :: "32 word"
  cks_UpdatedShards :: "32 word"
  cks_DesiredTablets :: "32 word"
  cks_Tablets :: "32 word"
  cks_ReadyTablets :: "32 word"
  cks_UpdatedTablets :: "32 word"
  cks_Cells :: "string list"

definition zero_keyspace_summary :: keyspace_summary where
  "zero_keyspace_summary =
     \<lparr>cks_PendingChanges = [], cks_DesiredShards = 0, cks_Shards = 0, cks_ReadyShards = 0, cks_UpdatedShards = 0,
      cks_DesiredTablets = 0, cks_Tablets = 0, cks_ReadyTablets = 0, cks_UpdatedTablets = 0, cks_Cells = []\<rparr>"

record vitess_cluster = topo_cluster +
  vcl_Cells :: "(string, cell_summary) gomap"
  vcl_Keyspaces :: "(string, keyspace_summary) gomap"

text \<open>
  The API server's answers, the generator of key ranges and the orders of ranges over maps.  The last two fields stand for what
  a hook that panics would return; a pass in which that happens has no result.
\<close>

record cluster_env =
  ce_cells :: "(cell_body, string) kube_env"
  ce_keyspaces :: "(keyspace_body, string) kube_env"
  ce_gen :: range_generator
  ce_order :: "VitessKeyRange list \<Rightarrow> VitessKeyRange list"
  ce_visit :: visit_order
  ce_no_cell :: cell_body
  ce_no_keyspace :: keyspace_body

definition NewVitessClusterKeyspaceStatus :: "cluster_env \<Rightarrow> VitessKeyspaceTemplate \<Rightarrow> keyspace_summary option" where
  "NewVitessClusterKeyspaceStatus env spec =
     map_option (\<lambda>shards. zero_keyspace_summary
         \<lparr>cks_DesiredShards := of_nat (length shards),
          cks_DesiredTablets := fold (\<lambda>shard n. fold (\<lambda>pool n. n + tp_Replicas pool) (st_TabletPools shard) n) shards 0\<rparr>)
       (ShardTemplates (ce_gen env) (ce_order env) (kt_Partitionings spec))"

definition vitesscell_Name :: "string \<Rightarrow> string \<Rightarrow> string option" where
  "vitesscell_Name clusterName cellName = JoinWithConstraints DefaultConstraints [clusterName, cellName]"

definition vitesskeyspace_Name :: "string \<Rightarrow> string \<Rightarrow> string option" where
  "vitesskeyspace_Name clusterName keyspaceName = JoinWithConstraints DefaultConstraints [clusterName, keyspaceName]"

definition cluster_labels :: "vitess_cluster \<Rightarrow> (string, string) gomap" where
  "cluster_labels vt = [(ClusterLabel, tc_Name vt)]"

text \<open>The parameters of the global lockserver, which a child object holds by value.\<close>

definition global_params :: "vitess_cluster \<Rightarrow> params option" where
  "global_params vt =
     Option.bind (GlobalConnectionParams (vc_GlobalLockserver (tc_Spec vt)) (tc_Namespace vt) (tc_Name vt)) id"

abbreviation update_type :: "vitess_cluster \<Rightarrow> string option" where
  "update_type vt \<equiv> Option.bind (vc_UpdateStrategy (tc_Spec vt)) us_Type"

section \<open>Cells\<close>

definition newVitessCell ::
    "object_key \<Rightarrow> vitess_cluster \<Rightarrow> (string, string) gomap \<Rightarrow> VitessCellTemplate \<Rightarrow> vitess_cell option"
where
  "newVitessCell key vt parentLabels cell =
     map_option (\<lambda>params.
       \<lparr>annotations = None, ko_key = key, ko_labels = (map_of parentLabels)(CellLabel \<mapsto> ct_Name cell), ko_UID = [],
        ko_deleting = False, ko_evictable = False,
        ko_body = \<lparr>clb_Spec = \<lparr>ct_Name = ct_Name cell, ct_Zone = ct_Zone cell, ct_Lockserver = ct_Lockserver cell,
              ct_Gateway = ct_Gateway cell, cp_GlobalLockserver = params, cp_AllCells = map ct_Name (vc_Cells (tc_Spec vt)),
              cp_Vtgate = DefaultVitessCellImages [] (vc_Images (tc_Spec vt)),
              cp_ImagePullPolicies = vc_ImagePullPolicies (tc_Spec vt), cp_ImagePullSecrets = vc_ImagePullSecrets (tc_Spec vt),
              cp_ExtraVitessFlags = vc_ExtraVitessFlags (tc_Spec vt),
              cp_TopologyReconciliation = vc_TopologyReconciliation (tc_Spec vt)\<rparr>,
            clb_GatewayAvailable = CondUnset, clb_Idle = CondUnset\<rparr>\<rparr>)
     (global_params vt)"

abbreviation update_cell_spec :: "(VitessCellSpec \<Rightarrow> VitessCellSpec) \<Rightarrow> vitess_cell \<Rightarrow> vitess_cell" where
  "update_cell_spec f vtc \<equiv> vtc\<lparr>ko_body := (ko_body vtc)\<lparr>clb_Spec := f (clb_Spec (ko_body vtc))\<rparr>\<rparr>"

abbreviation gateway_of :: "vitess_cell \<Rightarrow> VitessCellGatewaySpec" where
  "gateway_of vtc \<equiv> ct_Gateway (clb_Spec (ko_body vtc))"

abbreviation set_replicas :: "32 word option \<Rightarrow> VitessCellSpec \<Rightarrow> VitessCellSpec" where
  "set_replicas n s \<equiv> s\<lparr>ct_Gateway := (ct_Gateway s)\<lparr>gw_Replicas := n\<rparr>\<rparr>"

definition updateVitessCellInPlace ::
    "object_key \<Rightarrow> vitess_cell \<Rightarrow> vitess_cluster \<Rightarrow> (string, string) gomap \<Rightarrow> VitessCellTemplate \<Rightarrow> vitess_cell option"
where
  "updateVitessCellInPlace key vtc vt parentLabels cell =
     map_option (\<lambda>newCell.
       (let vtc = vtc\<lparr>ko_labels := ko_labels vtc ++ ko_labels newCell\<rparr>
        in if gw_Autoscaler (gateway_of vtc) = None
           then update_cell_spec (set_replicas (gw_Replicas (gateway_of newCell))) vtc else vtc))
     (newVitessCell key vt parentLabels cell)"

definition updateVitessCell ::
    "object_key \<Rightarrow> vitess_cell \<Rightarrow> vitess_cluster \<Rightarrow> (string, string) gomap \<Rightarrow> VitessCellTemplate \<Rightarrow> vitess_cell option"
where
  "updateVitessCell key vtc vt parentLabels cell =
     map_option (\<lambda>newCell.
       (let vtc = vtc\<lparr>ko_labels := ko_labels vtc ++ ko_labels newCell\<rparr>;
            oldReplicas = gw_Replicas (gateway_of vtc);
            vtc = update_cell_spec (\<lambda>_. clb_Spec (ko_body newCell)) vtc
        in if gw_Autoscaler (gateway_of vtc) \<noteq> None then update_cell_spec (set_replicas oldReplicas) vtc else vtc))
     (newVitessCell key vt parentLabels cell)"

definition cell_in_place ::
    "vitess_cluster \<Rightarrow> (string, string) gomap \<Rightarrow> VitessCellTemplate \<Rightarrow> object_key \<Rightarrow> vitess_cell \<Rightarrow> vitess_cell option"
where
  "cell_in_place vt labels cell key obj =
     (case update_type vt of
        None \<Rightarrow> None
      | Some t \<Rightarrow> if t = ImmediateVitessClusterUpdateStrategyType then updateVitessCell key obj vt labels cell
                  else updateVitessCellInPlace key obj vt labels cell)"

definition cell_rolling_in_place ::
    "vitess_cluster \<Rightarrow> (string, string) gomap \<Rightarrow> VitessCellTemplate \<Rightarrow> object_key \<Rightarrow> vitess_cell \<Rightarrow> vitess_cell option"
where
  "cell_rolling_in_place vt labels cell key obj =
     (case update_type vt of
        None \<Rightarrow> None
      | Some t \<Rightarrow> if t = ImmediateVitessClusterUpdateStrategyType then Some obj
                  else updateVitessCell key obj vt labels cell)"

section \<open>Keyspaces\<close>

definition zero_keyspace_status :: keyspace_status where
  "zero_keyspace_status =
     \<lparr>kst_Shards = [], kst_Partitionings = [], kst_OrphanedShards = [], kst_Idle = CondUnset, kst_Resharding = None,
      kst_Conditions = []\<rparr>"

text \<open>The images panic when the template overrides a MySQL image that the cluster does not have.\<close>

definition newVitessKeyspace ::
    "object_key \<Rightarrow> vitess_cluster \<Rightarrow> (string, string) gomap \<Rightarrow> VitessKeyspaceTemplate \<Rightarrow> keyspace_object option"
where
  "newVitessKeyspace key vt parentLabels keyspace =
     (case MergeVitessKeyspaceTemplateImages
         (DefaultVitessKeyspaceImages
           \<lparr>ki_Vttablet = [], ki_Vtorc = [], ki_Vtbackup = [], ki_Mysqld = None, ki_MysqldExporter = []\<rparr> (vc_Images (tc_Spec vt)))
         (kt_Images keyspace) of
        None \<Rightarrow> None
      | Some images \<Rightarrow>
          map_option (\<lambda>params.
            \<lparr>annotations = kt_Annotations keyspace, ko_key = key,
             ko_labels = (map_of parentLabels)(KeyspaceLabel \<mapsto> kt_Name keyspace), ko_UID = [],
             ko_deleting = False, ko_evictable = False,
             ko_body = \<lparr>kyb_Spec = VitessKeyspaceTemplate.extend keyspace
               (VitessKeyspaceSpec.fields params images (vc_ImagePullPolicies (tc_Spec vt)) (vc_ImagePullSecrets (tc_Spec vt))
                 (ZoneMap (tc_Spec vt))
                 (case vc_Backup (tc_Spec vt) of None \<Rightarrow> [] | Some b \<Rightarrow> cb_Locations b)
                 (case vc_Backup (tc_Spec vt) of None \<Rightarrow> [] | Some b \<Rightarrow> cb_Engine b)
                 (vc_ExtraVitessFlags (tc_Spec vt)) (vc_TopologyReconciliation (tc_Spec vt)) (vc_UpdateStrategy (tc_Spec vt))),
               kyb_Status = zero_keyspace_status\<rparr>\<rparr>)
          (global_params vt))"

abbreviation keyspace_spec_of :: "keyspace_object \<Rightarrow> VitessKeyspaceSpec" where
  "keyspace_spec_of vtk \<equiv> kyb_Spec (ko_body vtk)"

abbreviation update_keyspace_spec :: "(VitessKeyspaceSpec \<Rightarrow> VitessKeyspaceSpec) \<Rightarrow> keyspace_object \<Rightarrow> keyspace_object" where
  "update_keyspace_spec f vtk \<equiv> vtk\<lparr>ko_body := (ko_body vtk)\<lparr>kyb_Spec := f (kyb_Spec (ko_body vtk))\<rparr>\<rparr>"

definition updateVitessKeyspaceAnnotations :: "keyspace_object \<Rightarrow> keyspace_object \<Rightarrow> keyspace_object" where
  "updateVitessKeyspaceAnnotations vtk newKeyspace =
     (let dropped = differentKeys (nil_safe (kt_Annotations (keyspace_spec_of vtk))) (nil_safe (kt_Annotations (keyspace_spec_of newKeyspace)));
          kept = map_option (\<lambda>m k. if k \<in> dropped then None else m k) (annotations vtk)
      in update_keyspace_spec (kt_Annotations_update (\<lambda>_. kt_Annotations (keyspace_spec_of newKeyspace)))
           (vtk\<lparr>annotations := Some (nil_safe kept ++ nil_safe (annotations newKeyspace))\<rparr>))"

definition updateVitessKeyspace ::
    "object_key \<Rightarrow> keyspace_object \<Rightarrow> vitess_cluster \<Rightarrow> (string, string) gomap \<Rightarrow> VitessKeyspaceTemplate \<Rightarrow> keyspace_object option"
where
  "updateVitessKeyspace key vtk vt parentLabels keyspace =
     map_option (\<lambda>newKeyspace.
       (let vtk = vtk\<lparr>ko_labels := ko_labels vtk ++ ko_labels newKeyspace\<rparr>;
            vtk = updateVitessKeyspaceAnnotations vtk newKeyspace
        in update_keyspace_spec (\<lambda>_. keyspace_spec_of newKeyspace) vtk))
     (newVitessKeyspace key vt parentLabels keyspace)"

text \<open>The disk sizes that the strategy of the keyspace lets through; nil types and options panic.\<close>

definition resized_partitionings :: "keyspace_object \<Rightarrow> keyspace_object \<Rightarrow> partitioning list option" where
  "resized_partitionings vtk newKeyspace =
     (let current = kt_Partitionings (keyspace_spec_of vtk)
      in case kp_UpdateStrategy (keyspace_spec_of vtk) of
           None \<Rightarrow> None
         | Some u \<Rightarrow>
             (case us_Type u of
                None \<Rightarrow> None
              | Some t \<Rightarrow>
                  if t = ExternalVitessClusterUpdateStrategyType then
                    (case us_External u of
                       None \<Rightarrow> None
                     | Some allowed \<Rightarrow>
                         if ResourceChangesAllowed allowed ''storage''
                         then KeyspaceDiskSize current (kt_Partitionings (keyspace_spec_of newKeyspace))
                         else Some current)
                  else Some current))"

definition updateVitessKeyspaceInPlace ::
    "range_generator \<Rightarrow> object_key \<Rightarrow> keyspace_object \<Rightarrow> vitess_cluster \<Rightarrow> (string, string) gomap \<Rightarrow> VitessKeyspaceTemplate
     \<Rightarrow> keyspace_object option"
where
  "updateVitessKeyspaceInPlace gen key vtk vt parentLabels keyspace =
     (case newVitessKeyspace key vt parentLabels keyspace of
        None \<Rightarrow> None
      | Some newKeyspace \<Rightarrow>
          (let vtk = vtk\<lparr>ko_labels := ko_labels vtk ++ ko_labels newKeyspace\<rparr>;
               vtk = update_keyspace_spec (kp_UpdateStrategy_update (\<lambda>_. kp_UpdateStrategy (keyspace_spec_of newKeyspace))) vtk
           in case Option.bind (resized_partitionings vtk newKeyspace)
                (\<lambda>current. PartitioningSet gen current (kt_Partitionings (keyspace_spec_of newKeyspace))) of
                None \<Rightarrow> None
              | Some partitionings \<Rightarrow>
                  (let vtk = update_keyspace_spec (\<lambda>s. s\<lparr>kt_Partitionings := partitionings,
                         kt_TurndownPolicy := kt_TurndownPolicy (keyspace_spec_of newKeyspace)\<rparr>) vtk
                   in Some (updateVitessKeyspaceAnnotations vtk newKeyspace))))"

definition keyspace_in_place ::
    "range_generator \<Rightarrow> vitess_cluster \<Rightarrow> (string, string) gomap \<Rightarrow> VitessKeyspaceTemplate \<Rightarrow> object_key \<Rightarrow> keyspace_object
     \<Rightarrow> keyspace_object option"
where
  "keyspace_in_place gen vt labels keyspace key obj =
     (case update_type vt of
        None \<Rightarrow> None
      | Some t \<Rightarrow> if t = ImmediateVitessClusterUpdateStrategyType then updateVitessKeyspace key obj vt labels keyspace
                  else updateVitessKeyspaceInPlace gen key obj vt labels keyspace)"

definition keyspace_rolling_in_place ::
    "vitess_cluster \<Rightarrow> (string, string) gomap \<Rightarrow> VitessKeyspaceTemplate \<Rightarrow> object_key \<Rightarrow> keyspace_object \<Rightarrow> keyspace_object option"
where
  "keyspace_rolling_in_place vt labels keyspace key obj =
     (case update_type vt of
        None \<Rightarrow> None
      | Some t \<Rightarrow> if t = ImmediateVitessClusterUpdateStrategyType then Some obj
                  else updateVitessKeyspace key obj vt labels keyspace)"

section \<open>The passes\<close>

text \<open>
  The map from generated names back to templates; a hook is asked only for a wanted key.  The hooks of both passes have
  one shape: \<open>new\<close>, \<open>in_place\<close> and \<open>rolling\<close> of a template, any of which may panic.
\<close>

definition template_at :: "(object_key \<times> 't) list \<Rightarrow> object_key \<Rightarrow> 't option" where
  "template_at templates key = map_of (rev templates) key"

definition hooks_fail ::
    "(object_key \<Rightarrow> 'b kobj option) \<Rightarrow> (object_key \<Rightarrow> 'b kobj \<Rightarrow> 'b kobj option) \<Rightarrow> (object_key \<Rightarrow> 'b kobj \<Rightarrow> 'b kobj option)
     \<Rightarrow> 'b kube_effect list \<Rightarrow> bool"
where
  "hooks_fail new in_place rolling es =
     list_ex (\<lambda>e. case e of
         CallNew key \<Rightarrow> new key = None
       | CallStatus key obj \<Rightarrow> \<not> ko_deleting obj
           \<and> (case in_place key obj of None \<Rightarrow> True | Some obj' \<Rightarrow> rolling key obj' = None)
       | _ \<Rightarrow> False) es"

definition cell_hooks ::
    "vitess_cluster \<Rightarrow> (object_key \<times> VitessCellTemplate) list \<Rightarrow>
     (object_key \<Rightarrow> vitess_cell option) \<times> (object_key \<Rightarrow> vitess_cell \<Rightarrow> vitess_cell option) \<times> (object_key \<Rightarrow> vitess_cell \<Rightarrow> vitess_cell option)"
where
  "cell_hooks vt cellMap =
     (let tmpl = template_at cellMap; labels = cluster_labels vt
      in (\<lambda>key. Option.bind (tmpl key) (newVitessCell key vt labels),
          \<lambda>key obj. Option.bind (tmpl key) (\<lambda>cell. cell_in_place vt labels cell key obj),
          \<lambda>key obj. Option.bind (tmpl key) (\<lambda>cell. cell_rolling_in_place vt labels cell key obj)))"

definition cell_strategy :: "cluster_env \<Rightarrow> vitess_cluster \<Rightarrow> (object_key \<times> VitessCellTemplate) list \<Rightarrow> cell_body strategy" where
  "cell_strategy env vt cellMap =
     (case cell_hooks vt cellMap of (new, in_place, rolling) \<Rightarrow>
       \<lparr>New = (\<lambda>key. hook_result (blank_object (ce_no_cell env) key) (new key)),
        UpdateInPlace = Some (\<lambda>key obj. hook_result obj (in_place key obj)),
        UpdateRollingInPlace = Some (\<lambda>key obj. hook_result obj (rolling key obj)),
        UpdateRecreate = None, UpdateRollingRecreate = None, has_Status = True, has_OrphanStatus = True,
        PrepareForTurndown = Some (\<lambda>key obj.
          (obj, if clb_Idle (ko_body obj) = CondTrue then None
                else Some \<lparr>os_Reason = ''NotIdle'',
                  os_Message = ''The cell can't be turned down because it's not idle. You must remove all keyspaces from the cell first before removing the cell.''\<rparr>))\<rparr>)"

definition VitessKeyspaceTurndownPolicyImmediate :: string where
  "VitessKeyspaceTurndownPolicyImmediate = ''Immediate''"

definition keyspace_hooks ::
    "cluster_env \<Rightarrow> vitess_cluster \<Rightarrow> (object_key \<times> VitessKeyspaceTemplate) list \<Rightarrow>
     (object_key \<Rightarrow> keyspace_object option) \<times> (object_key \<Rightarrow> keyspace_object \<Rightarrow> keyspace_object option)
       \<times> (object_key \<Rightarrow> keyspace_object \<Rightarrow> keyspace_object option)"
where
  "keyspace_hooks env vt keyspaceMap =
     (let tmpl = template_at keyspaceMap; labels = cluster_labels vt
      in (\<lambda>key. Option.bind (tmpl key) (newVitessKeyspace key vt labels),
          \<lambda>key obj. Option.bind (tmpl key) (\<lambda>keyspace. keyspace_in_place (ce_gen env) vt labels keyspace key obj),
          \<lambda>key obj. Option.bind (tmpl key) (\<lambda>keyspace. keyspace_rolling_in_place vt labels keyspace key obj)))"

definition keyspace_strategy ::
    "cluster_env \<Rightarrow> vitess_cluster \<Rightarrow> (object_key \<times> VitessKeyspaceTemplate) list \<Rightarrow> keyspace_body strategy"
where
  "keyspace_strategy env vt keyspaceMap =
     (case keyspace_hooks env vt keyspaceMap of (new, in_place, rolling) \<Rightarrow>
       \<lparr>New = (\<lambda>key. hook_result (blank_object (ce_no_keyspace env) key) (new key)),
        UpdateInPlace = Some (\<lambda>key obj. hook_result obj (in_place key obj)),
        UpdateRollingInPlace = Some (\<lambda>key obj. hook_result obj (rolling key obj)),
        UpdateRecreate = None, UpdateRollingRecreate = None, has_Status = True, has_OrphanStatus = True,
        PrepareForTurndown = Some (\<lambda>key obj.
          (obj, if kt_TurndownPolicy (keyspace_spec_of obj) = VitessKeyspaceTurndownPolicyImmediate then None
                else if kst_Idle (kyb_Status (ko_body obj)) = CondTrue then None
                else Some \<lparr>os_Reason = ''NotIdle'',
                  os_Message = ''The keyspace can't be turned down because it's not idle. You must remove all tablet pools before removing the keyspace.''\<rparr>))\<rparr>)"

fun cell_hook :: "cell_body kube_effect \<Rightarrow> vitess_cluster \<Rightarrow> vitess_cluster" where
  "cell_hook (CallStatus key obj) vt =
     vt\<lparr>vcl_Cells := AList.update (ct_Name (clb_Spec (ko_body obj)))
       \<lparr>cls_PendingChanges = ann_get rollout_ScheduledAnnotation obj, cls_GatewayAvailable = clb_GatewayAvailable (ko_body obj)\<rparr>
       (vcl_Cells vt)\<rparr>"
| "cell_hook (CallOrphanStatus key obj orphanStatus) vt =
     vt\<lparr>tc_OrphanedCells := AList.update (ct_Name (clb_Spec (ko_body obj))) orphanStatus (tc_OrphanedCells vt)\<rparr>"
| "cell_hook _ vt = vt"

definition count_shard :: "keyspace_shard_status \<Rightarrow> keyspace_summary \<Rightarrow> keyspace_summary" where
  "count_shard shard status =
     status\<lparr>cks_ReadyShards := (if kss_ReadyTablets shard = kss_DesiredTablets shard then cks_ReadyShards status + 1
                               else cks_ReadyShards status),
            cks_UpdatedShards := (if kss_UpdatedTablets shard = kss_Tablets shard then cks_UpdatedShards status + 1
                               else cks_UpdatedShards status),
            cks_Tablets := cks_Tablets status + kss_Tablets shard,
            cks_ReadyTablets := cks_ReadyTablets status + kss_ReadyTablets shard,
            cks_UpdatedTablets := cks_UpdatedTablets status + kss_UpdatedTablets shard\<rparr>"

definition summarize_keyspace :: "cluster_env \<Rightarrow> keyspace_object \<Rightarrow> keyspace_summary \<Rightarrow> keyspace_summary" where
  "summarize_keyspace env obj status =
     (let shards = map snd (range_of (ce_visit env) 0 (kst_Shards (kyb_Status (ko_body obj))));
          status = status\<lparr>cks_PendingChanges := ann_get rollout_ScheduledAnnotation obj, cks_Shards := of_nat (length shards),
            cks_ReadyShards := 0, cks_UpdatedShards := 0, cks_Tablets := 0, cks_ReadyTablets := 0, cks_UpdatedTablets := 0\<rparr>;
          status = fold count_shard shards status
      in status\<lparr>cks_Cells := sort (cks_Cells status @ ce_visit env 1 (remdups (concat (map kss_Cells shards))))\<rparr>)"

fun keyspace_hook :: "cluster_env \<Rightarrow> keyspace_body kube_effect \<Rightarrow> vitess_cluster \<Rightarrow> vitess_cluster" where
  "keyspace_hook env (CallStatus key obj) vt =
     (let name = kt_Name (keyspace_spec_of obj);
          status = (case map_of (vcl_Keyspaces vt) name of None \<Rightarrow> zero_keyspace_summary | Some s \<Rightarrow> s)
      in vt\<lparr>vcl_Keyspaces := AList.update name (summarize_keyspace env obj status) (vcl_Keyspaces vt)\<rparr>)"
| "keyspace_hook env (CallOrphanStatus key obj orphanStatus) vt =
     vt\<lparr>tc_OrphanedKeyspaces := AList.update (kt_Name (keyspace_spec_of obj)) orphanStatus (tc_OrphanedKeyspaces vt)\<rparr>"
| "keyspace_hook env _ vt = vt"

definition cell_keys :: "vitess_cluster \<Rightarrow> (object_key \<times> VitessCellTemplate) list option" where
  "cell_keys vt =
     map_opt (\<lambda>cell. map_option (\<lambda>name. ((tc_Namespace vt, name), cell)) (vitesscell_Name (tc_Name vt) (ct_Name cell)))
       (vc_Cells (tc_Spec vt))"

definition keyspace_keys :: "vitess_cluster \<Rightarrow> (object_key \<times> VitessKeyspaceTemplate) list option" where
  "keyspace_keys vt =
     map_opt (\<lambda>keyspace. map_option (\<lambda>name. ((tc_Namespace vt, name), keyspace)) (vitesskeyspace_Name (tc_Name vt) (kt_Name keyspace)))
       (vc_Keyspaces (tc_Spec vt))"

definition cluster_reconcileCells :: "cluster_env \<Rightarrow> vitess_cluster \<Rightarrow> (cell_body kube_effect list \<times> vitess_cluster \<times> string option) option" where
  "cluster_reconcileCells env vt =
     (case cell_keys vt of
        None \<Rightarrow> None
      | Some cellMap \<Rightarrow>
          (let vt' = vt\<lparr>vcl_Cells := fold (\<lambda>cell. AList.update (ct_Name cell) NewVitessClusterCellStatus) (vc_Cells (tc_Spec vt)) (vcl_Cells vt)\<rparr>;
               (new, in_place, rolling) = cell_hooks vt cellMap;
               (es, err) = ReconcileObjectSet (ce_cells env) (cell_strategy env vt cellMap) (cluster_labels vt) (map fst cellMap)
           in if hooks_fail new in_place rolling es then None else Some (es, fold cell_hook es vt', err)))"

definition cluster_reconcileKeyspaces ::
    "cluster_env \<Rightarrow> vitess_cluster \<Rightarrow> (keyspace_body kube_effect list \<times> vitess_cluster \<times> string option) option"
where
  "cluster_reconcileKeyspaces env vt =
     (case keyspace_keys vt of
        None \<Rightarrow> None
      | Some keyspaceMap \<Rightarrow>
          (case map_opt (NewVitessClusterKeyspaceStatus env) (vc_Keyspaces (tc_Spec vt)) of
             None \<Rightarrow> None
           | Some summaries \<Rightarrow>
               (let vt' = vt\<lparr>vcl_Keyspaces := fold (\<lambda>(keyspace, status). AList.update (kt_Name keyspace) status)
                           (zip (vc_Keyspaces (tc_Spec vt)) summaries) (vcl_Keyspaces vt)\<rparr>;
                    (new, in_place, rolling) = keyspace_hooks env vt keyspaceMap;
                    (es, err) = ReconcileObjectSet (ce_keyspaces env) (keyspace_strategy env vt keyspaceMap) (cluster_labels vt)
                      (map fst keyspaceMap)
                in if hooks_fail new in_place rolling es then None else Some (es, fold (keyspace_hook env) es vt', err))))"

section \<open>What an update holds back\<close>

lemma erase_shard_KeyRange: "ks_KeyRange (erase_shard s) = ks_KeyRange (s :: keyrange_shard)"
  by (simp add: erase_shard_def)

lemma partitioningKey_erase: "partitioningKey gen (erase_partitioning p) = partitioningKey gen p"
  by (cases "pt_Equal p"; cases "pt_Custom p")
    (auto simp: partitioningKey_def ShardNameSet_def erase_partitioning_def KeyRanges_def erase_shard_KeyRange comp_def image_image)

lemma partitioningKey_cong: "erase_partitioning p = erase_partitioning q \<Longrightarrow> partitioningKey gen p = partitioningKey gen q"
  by (metis partitioningKey_erase)

text \<open>Resizing leaves every live partitioning in its place, up to disk sizes, and does nothing unless the user allows it.\<close>

definition storage_allowed :: "VitessClusterUpdateStrategy option \<Rightarrow> bool" where
  "storage_allowed u = (case Option.bind u us_External of None \<Rightarrow> False | Some allowed \<Rightarrow> ''storage'' \<in> set allowed)"

lemma resized_partitionings_erase:
  assumes "resized_partitionings vtk newKeyspace = Some ps"
  shows "map erase_partitioning ps = map erase_partitioning (kt_Partitionings (keyspace_spec_of vtk))"
    "\<not> storage_allowed (kp_UpdateStrategy (keyspace_spec_of vtk)) \<Longrightarrow> ps = kt_Partitionings (keyspace_spec_of vtk)"
  using assms KeyspaceDiskSize_only_storage [of "kt_Partitionings (keyspace_spec_of vtk)" "kt_Partitionings (keyspace_spec_of newKeyspace)" ps]
  by (auto simp: resized_partitionings_def storage_allowed_def ResourceChangesAllowed_def list_ex_iff Let_def split: option.splits if_splits)

lemma PartitioningSet_members:
  assumes "PartitioningSet gen dst src = Some r" and "map erase_partitioning dst = map erase_partitioning live"
  shows "map (partitioningKey gen) r = map (partitioningKey gen) src"
    and "p \<in> set r \<Longrightarrow> (p \<in> set dst \<and> (\<exists>q \<in> set live. erase_partitioning p = erase_partitioning q))
          \<or> (p \<in> set src \<and> (\<forall>q \<in> set live. partitioningKey gen q \<noteq> partitioningKey gen p))"
proof -
  have keys: "partitioningKey gen ` set dst = partitioningKey gen ` set live"
    using arg_cong [OF assms(2), of "\<lambda>xs. partitioningKey gen ` set xs"] by (simp add: image_image partitioningKey_erase)
  have live: "\<exists>q \<in> set live. erase_partitioning p = erase_partitioning q" if "p \<in> set dst"
    using that arg_cong [OF assms(2), of set] by (metis image_iff image_set)
  note r = PartitioningSet_result(1) [OF assms(1)]
  show "map (partitioningKey gen) r = map (partitioningKey gen) src"
    unfolding r by (auto simp: find_Some_iff split: option.splits)
  assume "p \<in> set r"
  then obtain s where s: "s \<in> set src" and p: "p = (case find (\<lambda>q. partitioningKey gen q = partitioningKey gen s) (rev dst) of None \<Rightarrow> s | Some q \<Rightarrow> q)"
    unfolding r by auto
  show "(p \<in> set dst \<and> (\<exists>q \<in> set live. erase_partitioning p = erase_partitioning q))
    \<or> (p \<in> set src \<and> (\<forall>q \<in> set live. partitioningKey gen q \<noteq> partitioningKey gen p))"
  proof (cases "find (\<lambda>q. partitioningKey gen q = partitioningKey gen s) (rev dst)")
    case None
    then have "\<forall>q \<in> set dst. partitioningKey gen q \<noteq> partitioningKey gen s" by (auto simp: find_None_iff)
    then have "\<forall>q \<in> set live. partitioningKey gen q \<noteq> partitioningKey gen s" using keys by (metis imageE imageI)
    then show ?thesis using None p s by simp
  next
    case (Some q)
    then have "q \<in> set dst" by (metis find_Some_iff nth_mem set_rev)
    then show ?thesis using Some p live by simp
  qed
qed

lemma newVitessKeyspace_spec:
  assumes "newVitessKeyspace key vt labels keyspace = Some new"
  shows "kt_Partitionings (keyspace_spec_of new) = kt_Partitionings keyspace"
    "kt_TurndownPolicy (keyspace_spec_of new) = kt_TurndownPolicy keyspace"
    "kt_Annotations (keyspace_spec_of new) = kt_Annotations keyspace"
    "kp_UpdateStrategy (keyspace_spec_of new) = vc_UpdateStrategy (tc_Spec vt)"
  using assms by (auto simp: newVitessKeyspace_def VitessKeyspaceTemplate.defs VitessKeyspaceSpec.defs split: option.splits)

lemma updateVitessKeyspaceInPlace_spec:
  assumes "updateVitessKeyspaceInPlace gen key vtk vt labels keyspace = Some vtk'"
  obtains current ps where
    "resized_partitionings (update_keyspace_spec (kp_UpdateStrategy_update (\<lambda>_. vc_UpdateStrategy (tc_Spec vt))) vtk)
       (the (newVitessKeyspace key vt labels keyspace)) = Some current"
    "PartitioningSet gen current (kt_Partitionings keyspace) = Some ps"
    "keyspace_spec_of vtk' = (keyspace_spec_of vtk)\<lparr>kp_UpdateStrategy := vc_UpdateStrategy (tc_Spec vt), kt_Partitionings := ps,
       kt_TurndownPolicy := kt_TurndownPolicy keyspace, kt_Annotations := kt_Annotations keyspace\<rparr>"
    "kyb_Status (ko_body vtk') = kyb_Status (ko_body vtk)"
proof -
  from assms obtain new where new: "newVitessKeyspace key vt labels keyspace = Some new"
    by (auto simp: updateVitessKeyspaceInPlace_def split: option.splits)
  note spec = newVitessKeyspace_spec [OF new]
  let ?vtk = "update_keyspace_spec (kp_UpdateStrategy_update (\<lambda>_. vc_UpdateStrategy (tc_Spec vt))) vtk"
  let ?labelled = "update_keyspace_spec (kp_UpdateStrategy_update (\<lambda>_. vc_UpdateStrategy (tc_Spec vt)))
    (vtk\<lparr>ko_labels := ko_labels vtk ++ ko_labels new\<rparr>)"
  have same: "resized_partitionings ?labelled new = resized_partitionings ?vtk new"
    by (simp add: resized_partitionings_def)
  from assms obtain current ps where current: "resized_partitionings ?labelled new = Some current"
    and ps: "PartitioningSet gen current (kt_Partitionings keyspace) = Some ps"
    and vtk': "vtk' = updateVitessKeyspaceAnnotations (update_keyspace_spec (\<lambda>s. s\<lparr>kt_Partitionings := ps,
        kt_TurndownPolicy := kt_TurndownPolicy keyspace\<rparr>) ?labelled) new"
    by (simp add: updateVitessKeyspaceInPlace_def new spec Let_def split: option.splits Option.bind_splits)
  show thesis
    using current unfolding same by (rule that [unfolded new option.sel, OF _ ps])
      (simp_all add: vtk' updateVitessKeyspaceAnnotations_def spec)
qed

section \<open>What a pass deletes\<close>

lemma cell_strategy_hooks:
  "UpdateRecreate (cell_strategy env vt m) = None" "UpdateRollingRecreate (cell_strategy env vt m) = None"
  "New (cell_strategy env vt m) key =
     hook_result (blank_object (ce_no_cell env) key) (Option.bind (template_at m key) (newVitessCell key vt (cluster_labels vt)))"
  by (simp_all add: cell_strategy_def cell_hooks_def Let_def)

lemma keyspace_strategy_hooks:
  "UpdateRecreate (keyspace_strategy env vt m) = None" "UpdateRollingRecreate (keyspace_strategy env vt m) = None"
  "New (keyspace_strategy env vt m) key =
     hook_result (blank_object (ce_no_keyspace env) key) (Option.bind (template_at m key) (newVitessKeyspace key vt (cluster_labels vt)))"
  by (simp_all add: keyspace_strategy_def keyspace_hooks_def Let_def)

lemma cell_deleted:
  assumes "DeleteObj obj \<in> set (fst (ReconcileObjectSet kenv (cell_strategy env vt m) labels keys))"
    and "\<forall>key obj. kget kenv key = Found obj \<longrightarrow> \<not> ko_evictable obj"
  shows "\<exists>key. kget kenv key = Found obj \<and> key \<notin> set keys \<and> hasMatchingLabels obj labels \<and> clb_Idle (ko_body obj) = CondTrue"
proof -
  from ReconcileObjectSet_may_delete [OF assms(1)] obtain key where key: "may_delete kenv (cell_strategy env vt m) labels key (key \<in> set keys) obj" by blast
  then have "kget kenv key = Found obj" by (simp add: may_delete_def)
  moreover from this have "\<not> ko_evictable obj" using assms(2) by blast
  ultimately show ?thesis using key
    by (intro exI [of _ key]) (auto simp: may_delete_def cell_strategy_hooks cell_strategy_def cell_hooks_def Let_def split: if_splits)
qed

lemma keyspace_deleted:
  assumes "DeleteObj obj \<in> set (fst (ReconcileObjectSet kenv (keyspace_strategy env vt m) labels keys))"
    and "\<forall>key obj. kget kenv key = Found obj \<longrightarrow> \<not> ko_evictable obj"
  shows "\<exists>key. kget kenv key = Found obj \<and> key \<notin> set keys \<and> hasMatchingLabels obj labels
    \<and> (kt_TurndownPolicy (keyspace_spec_of obj) = VitessKeyspaceTurndownPolicyImmediate \<or> kst_Idle (kyb_Status (ko_body obj)) = CondTrue)"
proof -
  from ReconcileObjectSet_may_delete [OF assms(1)] obtain key where key: "may_delete kenv (keyspace_strategy env vt m) labels key (key \<in> set keys) obj" by blast
  then have "kget kenv key = Found obj" by (simp add: may_delete_def)
  moreover from this have "\<not> ko_evictable obj" using assms(2) by blast
  ultimately show ?thesis using key
    by (intro exI [of _ key]) (auto simp: may_delete_def keyspace_strategy_hooks keyspace_strategy_def keyspace_hooks_def Let_def
        split: if_splits)
qed

text \<open>A child that is created was built from a template of the cluster, and no live object of its name exists.\<close>

lemma child_created:
  assumes "CreateObj obj \<in> set es" "es = fst (ReconcileObjectSet kenv s labels (map fst templates))"
    and "\<And>key. New s key = hook_result (blank_object blank key) (Option.bind (template_at templates key) (build key))"
    and "\<not> hooks_fail (\<lambda>key. Option.bind (template_at templates key) (build key)) in_place rolling es"
    and "\<forall>key obj. kget kenv key = Found obj \<longrightarrow> \<not> ko_evictable obj"
  shows "\<exists>key t new. (key, t) \<in> set templates \<and> build key t = Some new \<and> set_owner kenv (new\<lparr>ko_key := key\<rparr>) = Inr obj \<and> kget kenv key = NotFound"
proof -
  from ReconcileObjectSet_creates [OF assms(1) [unfolded assms(2)]] obtain key where key: "CallNew key \<in> set es"
    "set_owner kenv ((New s key)\<lparr>ko_key := key\<rparr>) = Inr obj" "kget kenv key = NotFound"
    unfolding assms(2) using assms(5) by blast
  have "Option.bind (template_at templates key) (build key) \<noteq> None"
    using key(1) assms(4) by (auto simp: hooks_fail_def list_ex_iff)
  then obtain t new where t: "template_at templates key = Some t" "build key t = Some new" by (auto simp: Option.bind_eq_Some_conv)
  from t(1) have "(key, t) \<in> set templates" unfolding template_at_def by (drule_tac map_of_SomeD) simp
  with t key show ?thesis by (intro exI [of _ key] exI [of _ t] exI [of _ new]) (simp add: assms(3))
qed

section \<open>Examples\<close>

text \<open>A cluster that wants no cell, an idle cell of it that is still there, and a live version of a keyspace.\<close>

definition example_objects :: vitess_cluster where
  "example_objects =
     \<lparr>tc_Name = ''c'', tc_Namespace = ''ns'',
      tc_Spec = example_cluster\<lparr>
        vc_GlobalLockserver := \<lparr>lss_External = Some \<lparr>Implementation = ''etcd2'', Address = ''e:2379'', RootPath = ''/global''\<rparr>,
          lss_Etcd = None, lss_CellInfoAddress = []\<rparr>,
        vc_UpdateStrategy := Some \<lparr>us_Type = Some ExternalVitessClusterUpdateStrategyType, us_External = Some []\<rparr>\<rparr>,
      tc_OrphanedCells = [], tc_OrphanedKeyspaces = [], vcl_Cells = [], vcl_Keyspaces = []\<rparr>"

definition example_keyspace :: "partitioning list \<Rightarrow> VitessKeyspaceTemplate" where
  "example_keyspace ps =
     \<lparr>kt_Name = ''main'', kt_DatabaseName = [], kt_DurabilityPolicy = [], kt_VitessOrchestrator = None, kt_Partitionings = ps,
      kt_TurndownPolicy = [], kt_Annotations = None,
      kt_Images = \<lparr>kt_Vttablet = [], kt_Vtorc = [], kt_Vtbackup = [], kt_Mysqld = None, kt_MysqldExporter = []\<rparr>,
      kt_SidecarDbName = []\<rparr>"

definition example_cell :: "32 word \<Rightarrow> VitessCellTemplate" where
  "example_cell n =
     \<lparr>ct_Name = ''zone1'', ct_Zone = [], ct_Lockserver = \<lparr>lss_External = None, lss_Etcd = None, lss_CellInfoAddress = []\<rparr>,
      ct_Gateway = pod_extras.extend empty_extras
        (VitessCellGatewaySpec.fields (Some n) None no_resources None None None [] [] None [])\<rparr>"

definition example_cell_object :: "cond_status \<Rightarrow> vitess_cell" where
  "example_cell_object idle =
     (case newVitessCell (''ns'', ''c-zone1'') example_objects (cluster_labels example_objects) (example_cell 2) of
        Some obj \<Rightarrow> obj\<lparr>ko_body := (ko_body obj)\<lparr>clb_Idle := idle\<rparr>\<rparr>)"

definition example_objects_env :: "cond_status \<Rightarrow> cluster_env" where
  "example_objects_env idle =
     \<lparr>ce_cells = \<lparr>kget = (\<lambda>k. if k = (''ns'', ''c-zone1'') then Found (example_cell_object idle) else NotFound),
        kdelete = (\<lambda>x. None), kcreate = (\<lambda>x. None), kupdate = (\<lambda>x. None), klist = Inr [example_cell_object idle],
        set_owner = Inr, defaulted = (\<lambda>x. x), semantic_equal = (\<lambda>a b. True), describe = (\<lambda>a b. []), collision = ''collision''\<rparr>,
      ce_keyspaces = \<lparr>kget = (\<lambda>k. NotFound), kdelete = (\<lambda>x. None), kcreate = (\<lambda>x. None), kupdate = (\<lambda>x. None), klist = Inr [],
        set_owner = Inr, defaulted = (\<lambda>x. x), semantic_equal = (\<lambda>a b. True), describe = (\<lambda>a b. []), collision = ''collision''\<rparr>,
      ce_gen = example_gen, ce_order = rev, ce_visit = (\<lambda>n ks. ks),
      ce_no_cell = ko_body (example_cell_object idle),
      ce_no_keyspace = \<lparr>kyb_Spec = VitessKeyspaceTemplate.extend (example_keyspace [])
          (VitessKeyspaceSpec.fields \<lparr>Implementation = [], Address = [], RootPath = []\<rparr>
            \<lparr>ki_Vttablet = [], ki_Vtorc = [], ki_Vtbackup = [], ki_Mysqld = None, ki_MysqldExporter = []\<rparr>
            no_pull_policies [] Map.empty [] [] [] None None), kyb_Status = zero_keyspace_status\<rparr>\<rparr>"

lemma example_labels: "cluster_labels example_objects = [(ClusterLabel, ''c'')]"
  by (simp add: cluster_labels_def example_objects_def)

lemma example_cell_new:
  "newVitessCell (''ns'', ''c-zone1'') example_objects (cluster_labels example_objects) (example_cell 2) \<noteq> None"
  by (simp add: newVitessCell_def global_params_def GlobalConnectionParams_def example_objects_def)

lemma example_cell_facts:
  "ko_labels (example_cell_object idle) = [ClusterLabel \<mapsto> ''c'', CellLabel \<mapsto> ''zone1'']"
  "ko_key (example_cell_object idle) = (''ns'', ''c-zone1'')" "\<not> ko_deleting (example_cell_object idle)"
  "\<not> ko_evictable (example_cell_object idle)" "clb_Idle (ko_body (example_cell_object idle)) = idle"
  "annotations (example_cell_object idle) = None" "gw_Autoscaler (gateway_of (example_cell_object idle)) = None"
  by (simp_all add: example_cell_object_def newVitessCell_def global_params_def GlobalConnectionParams_def example_objects_def
      cluster_labels_def example_cell_def VitessCellGatewaySpec.defs pod_extras.defs)

lemma example_pass:
  "\<exists>vt. cluster_reconcileCells (example_objects_env CondTrue) example_objects
     = Some ([DeleteObj (example_cell_object CondTrue), RecordEvent ''Deleted''], vt, None)"
proof -
  have keys: "cell_keys example_objects = Some []" by (simp add: cell_keys_def example_objects_def example_cluster_def)
  have env: "kget (ce_cells (example_objects_env CondTrue)) (''ns'', ''c-zone1'') = Found (example_cell_object CondTrue)"
    "klist (ce_cells (example_objects_env CondTrue)) = Inr [example_cell_object CondTrue]"
    "kdelete (ce_cells (example_objects_env CondTrue)) = (\<lambda>x. None)"
    by (simp_all add: example_objects_env_def)
  show ?thesis
    by (simp add: cluster_reconcileCells_def keys env hooks_fail_def ReconcileObjectSet_def ReconcileObject_def remove_evicted_def
        reconcile_unwanted_def hasMatchingLabels_def example_labels ClusterLabel_def CellLabel_def builder_Result_def example_cell_facts cell_strategy_def cell_hooks_def kube_delete_def drainAndDelete_def Let_def)
qed

lemma example_keyspace_new:
  obtains new where "newVitessKeyspace key example_objects labels (example_keyspace ps) = Some new"
    "kt_Partitionings (keyspace_spec_of new) = ps"
    "kp_UpdateStrategy (keyspace_spec_of new) = Some \<lparr>us_Type = Some ExternalVitessClusterUpdateStrategyType, us_External = Some []\<rparr>"
proof -
  have "newVitessKeyspace key example_objects labels (example_keyspace ps) \<noteq> None"
    by (simp add: newVitessKeyspace_def global_params_def GlobalConnectionParams_def example_objects_def example_keyspace_def
        MergeVitessKeyspaceTemplateImages_def split: option.split)
  then obtain new where "newVitessKeyspace key example_objects labels (example_keyspace ps) = Some new" by blast
  with newVitessKeyspace_spec [OF this] show thesis
    by (intro that) (simp_all add: example_keyspace_def example_objects_def)
qed

text \<open>The live keyspace has two shards; a partitioning with one shard is added.\<close>

lemma example_upgrade:
  obtains live obj' where
    "newVitessKeyspace (''ns'', ''c-main'') example_objects labels (example_keyspace [example_equal 2]) = Some live"
    "kt_Partitionings (keyspace_spec_of live) = [example_equal 2]"
    "keyspace_in_place example_gen example_objects labels (example_keyspace [example_equal 1, example_equal 2]) (''ns'', ''c-main'') live
       = Some obj'"
proof -
  obtain live where live: "newVitessKeyspace (''ns'', ''c-main'') example_objects labels (example_keyspace [example_equal 2]) = Some live"
    "kt_Partitionings (keyspace_spec_of live) = [example_equal 2]"
    by (rule example_keyspace_new)
  obtain new where new: "newVitessKeyspace (''ns'', ''c-main'') example_objects labels (example_keyspace [example_equal 1, example_equal 2]) = Some new"
    "kt_Partitionings (keyspace_spec_of new) = [example_equal 1, example_equal 2]"
    "kp_UpdateStrategy (keyspace_spec_of new) = Some \<lparr>us_Type = Some ExternalVitessClusterUpdateStrategyType, us_External = Some []\<rparr>"
    by (rule example_keyspace_new)
  have "case PartitioningSet example_gen [example_equal 2] [example_equal 1, example_equal 2] of None \<Rightarrow> False | Some ps \<Rightarrow> True"
    by code_simp
  then have ps: "PartitioningSet example_gen [example_equal 2] [example_equal 1, example_equal 2] \<noteq> None"
    by (auto split: option.splits)
  have strategy: "update_type example_objects = Some ExternalVitessClusterUpdateStrategyType"
    "ExternalVitessClusterUpdateStrategyType \<noteq> ImmediateVitessClusterUpdateStrategyType"
    by (simp_all add: example_objects_def ExternalVitessClusterUpdateStrategyType_def ImmediateVitessClusterUpdateStrategyType_def)
  have "keyspace_in_place example_gen example_objects labels (example_keyspace [example_equal 1, example_equal 2]) (''ns'', ''c-main'') live \<noteq> None"
    using ps by (auto simp: keyspace_in_place_def strategy updateVitessKeyspaceInPlace_def new live resized_partitionings_def
        ResourceChangesAllowed_def Let_def)
  with that [OF live] show thesis by blast
qed

lemma example_cell_in_place: "cell_in_place example_objects labels (example_cell n) key obj \<noteq> None"
  by (simp add: cell_in_place_def updateVitessCellInPlace_def updateVitessCell_def newVitessCell_def global_params_def
      GlobalConnectionParams_def example_objects_def Let_def)

section \<open>Properties\<close>

text \<open>C14: The cluster never loses a cell or a keyspace that may be in use.  A pass deletes a cell object only if it belongs to this
  cluster, its cell is not asked for any more, and it is known to be idle; a keyspace object in the same way, except that the user
  may ask for an immediate turndown in its policy.  It creates an object only from a template of the cluster, under the
  template's name, when the API server says that none exists.\<close>

theorem cluster_children_safe:
  assumes "\<forall>key obj. kget (ce_cells env) key = Found obj \<longrightarrow> \<not> ko_evictable obj"
    and "\<forall>key obj. kget (ce_keyspaces env) key = Found obj \<longrightarrow> \<not> ko_evictable obj"
  shows "(\<forall>es vt' err. cluster_reconcileCells env vt = Some (es, vt', err) \<longrightarrow> (\<exists>cells. cell_keys vt = Some cells
      \<and> (\<forall>obj. DeleteObj obj \<in> set es \<longrightarrow> (\<exists>key. kget (ce_cells env) key = Found obj \<and> key \<notin> fst ` set cells
           \<and> hasMatchingLabels obj (cluster_labels vt) \<and> clb_Idle (ko_body obj) = CondTrue))
      \<and> (\<forall>obj. CreateObj obj \<in> set es \<longrightarrow> (\<exists>key cell new. (key, cell) \<in> set cells
           \<and> newVitessCell key vt (cluster_labels vt) cell = Some new
           \<and> set_owner (ce_cells env) (new\<lparr>ko_key := key\<rparr>) = Inr obj \<and> kget (ce_cells env) key = NotFound))))
    \<and> (\<forall>es vt' err. cluster_reconcileKeyspaces env vt = Some (es, vt', err) \<longrightarrow> (\<exists>keyspaces. keyspace_keys vt = Some keyspaces
      \<and> (\<forall>obj. DeleteObj obj \<in> set es \<longrightarrow> (\<exists>key. kget (ce_keyspaces env) key = Found obj \<and> key \<notin> fst ` set keyspaces
           \<and> hasMatchingLabels obj (cluster_labels vt)
           \<and> (kt_TurndownPolicy (keyspace_spec_of obj) = VitessKeyspaceTurndownPolicyImmediate
              \<or> kst_Idle (kyb_Status (ko_body obj)) = CondTrue)))
      \<and> (\<forall>obj. CreateObj obj \<in> set es \<longrightarrow> (\<exists>key keyspace new. (key, keyspace) \<in> set keyspaces
           \<and> newVitessKeyspace key vt (cluster_labels vt) keyspace = Some new
           \<and> set_owner (ce_keyspaces env) (new\<lparr>ko_key := key\<rparr>) = Inr obj \<and> kget (ce_keyspaces env) key = NotFound))))"
proof (intro conjI allI impI)
  fix es vt' err assume "cluster_reconcileCells env vt = Some (es, vt', err)"
  then obtain cells where cells: "cell_keys vt = Some cells"
    and es: "es = fst (ReconcileObjectSet (ce_cells env) (cell_strategy env vt cells) (cluster_labels vt) (map fst cells))"
    and ok: "\<not> hooks_fail (\<lambda>key. Option.bind (template_at cells key) (newVitessCell key vt (cluster_labels vt)))
        (fst (snd (cell_hooks vt cells))) (snd (snd (cell_hooks vt cells))) es"
    by (auto simp: cluster_reconcileCells_def Let_def cell_hooks_def split: option.splits prod.splits if_splits)
  show "\<exists>cells. cell_keys vt = Some cells
      \<and> (\<forall>obj. DeleteObj obj \<in> set es \<longrightarrow> (\<exists>key. kget (ce_cells env) key = Found obj \<and> key \<notin> fst ` set cells
           \<and> hasMatchingLabels obj (cluster_labels vt) \<and> clb_Idle (ko_body obj) = CondTrue))
      \<and> (\<forall>obj. CreateObj obj \<in> set es \<longrightarrow> (\<exists>key cell new. (key, cell) \<in> set cells
           \<and> newVitessCell key vt (cluster_labels vt) cell = Some new
           \<and> set_owner (ce_cells env) (new\<lparr>ko_key := key\<rparr>) = Inr obj \<and> kget (ce_cells env) key = NotFound))"
    using cells cell_deleted [OF _ assms(1), of _ env vt cells "cluster_labels vt" "map fst cells", folded es]
      child_created [OF _ es cell_strategy_hooks(3) ok assms(1)]
    by (simp only: set_map) blast
next
  fix es vt' err assume "cluster_reconcileKeyspaces env vt = Some (es, vt', err)"
  then obtain keyspaces where keyspaces: "keyspace_keys vt = Some keyspaces"
    and es: "es = fst (ReconcileObjectSet (ce_keyspaces env) (keyspace_strategy env vt keyspaces) (cluster_labels vt) (map fst keyspaces))"
    and ok: "\<not> hooks_fail (\<lambda>key. Option.bind (template_at keyspaces key) (newVitessKeyspace key vt (cluster_labels vt)))
        (fst (snd (keyspace_hooks env vt keyspaces))) (snd (snd (keyspace_hooks env vt keyspaces))) es"
    by (auto simp: cluster_reconcileKeyspaces_def Let_def keyspace_hooks_def split: option.splits prod.splits if_splits)
  show "\<exists>keyspaces. keyspace_keys vt = Some keyspaces
      \<and> (\<forall>obj. DeleteObj obj \<in> set es \<longrightarrow> (\<exists>key. kget (ce_keyspaces env) key = Found obj \<and> key \<notin> fst ` set keyspaces
           \<and> hasMatchingLabels obj (cluster_labels vt)
           \<and> (kt_TurndownPolicy (keyspace_spec_of obj) = VitessKeyspaceTurndownPolicyImmediate
              \<or> kst_Idle (kyb_Status (ko_body obj)) = CondTrue)))
      \<and> (\<forall>obj. CreateObj obj \<in> set es \<longrightarrow> (\<exists>key keyspace new. (key, keyspace) \<in> set keyspaces
           \<and> newVitessKeyspace key vt (cluster_labels vt) keyspace = Some new
           \<and> set_owner (ce_keyspaces env) (new\<lparr>ko_key := key\<rparr>) = Inr obj \<and> kget (ce_keyspaces env) key = NotFound))"
    using keyspaces keyspace_deleted [OF _ assms(2), of _ env vt keyspaces "cluster_labels vt" "map fst keyspaces", folded es]
      child_created [OF _ es keyspace_strategy_hooks(3) ok assms(2)]
    by (simp only: set_map) blast
qed

theorem cluster_children_safe_witness:
  "\<exists>key. kget (ce_cells (example_objects_env CondTrue)) key = Found (example_cell_object CondTrue)
     \<and> clb_Idle (ko_body (example_cell_object CondTrue)) = CondTrue"
proof -
  have live: "\<forall>key obj. kget (ce_cells (example_objects_env CondTrue)) key = Found obj \<longrightarrow> \<not> ko_evictable obj"
    "\<forall>key obj. kget (ce_keyspaces (example_objects_env CondTrue)) key = Found obj \<longrightarrow> \<not> ko_evictable obj"
    by (auto simp: example_objects_env_def example_cell_facts split: if_splits)
  obtain vt where "cluster_reconcileCells (example_objects_env CondTrue) example_objects
     = Some ([DeleteObj (example_cell_object CondTrue), RecordEvent ''Deleted''], vt, None)"
    using example_pass by blast
  with cluster_children_safe [OF live, of example_objects] show ?thesis by fastforce
qed

text \<open>C12: Under the external strategy nothing that restarts a serving process takes effect before it is released.  The immediate
  update of a keyspace object keeps its whole specification except the strategy itself, the turndown policy, the annotations
  and the set of partitionings; that set becomes the one asked for, where a partitioning that was live keeps its
  configuration up to disk sizes, and completely unless the user allows storage to change at once.  The immediate update
  of a cell keeps its whole specification but the replicas of its gateway, and those as well if it scales automatically.  The
  released update then brings the keyspace to the specification of a fresh object.\<close>

theorem cluster_updates_held:
  assumes "update_type vt = Some ExternalVitessClusterUpdateStrategyType"
    and "keyspace_in_place gen vt labels keyspace key obj = Some obj'"
    and "cell_in_place vt labels cell ckey c = Some c'"
  shows "keyspace_spec_of obj' = (keyspace_spec_of obj)\<lparr>kp_UpdateStrategy := vc_UpdateStrategy (tc_Spec vt),
       kt_Partitionings := kt_Partitionings (keyspace_spec_of obj'), kt_TurndownPolicy := kt_TurndownPolicy keyspace,
       kt_Annotations := kt_Annotations keyspace\<rparr>
    \<and> kyb_Status (ko_body obj') = kyb_Status (ko_body obj)
    \<and> map (partitioningKey gen) (kt_Partitionings (keyspace_spec_of obj')) = map (partitioningKey gen) (kt_Partitionings keyspace)
    \<and> (\<forall>p \<in> set (kt_Partitionings (keyspace_spec_of obj')).
        (\<exists>q \<in> set (kt_Partitionings (keyspace_spec_of obj)). erase_partitioning p = erase_partitioning q
            \<and> (storage_allowed (vc_UpdateStrategy (tc_Spec vt)) \<or> p = q))
        \<or> (p \<in> set (kt_Partitionings keyspace)
            \<and> (\<forall>q \<in> set (kt_Partitionings (keyspace_spec_of obj)). partitioningKey gen q \<noteq> partitioningKey gen p)))
    \<and> clb_Spec (ko_body c') = (if gw_Autoscaler (gateway_of c) = None
        then set_replicas (gw_Replicas (ct_Gateway cell)) (clb_Spec (ko_body c)) else clb_Spec (ko_body c))
    \<and> (\<forall>obj''. keyspace_rolling_in_place vt labels keyspace key obj' = Some obj'' \<longrightarrow>
        map_option keyspace_spec_of (newVitessKeyspace key vt labels keyspace) = Some (keyspace_spec_of obj''))"
proof -
  have strategy: "ExternalVitessClusterUpdateStrategyType \<noteq> ImmediateVitessClusterUpdateStrategyType"
    by (simp add: ExternalVitessClusterUpdateStrategyType_def ImmediateVitessClusterUpdateStrategyType_def)
  have "updateVitessKeyspaceInPlace gen key obj vt labels keyspace = Some obj'"
    using assms(1,2) strategy by (simp add: keyspace_in_place_def)
  then obtain current ps where
    current: "resized_partitionings (update_keyspace_spec (kp_UpdateStrategy_update (\<lambda>_. vc_UpdateStrategy (tc_Spec vt))) obj)
       (the (newVitessKeyspace key vt labels keyspace)) = Some current"
    and ps: "PartitioningSet gen current (kt_Partitionings keyspace) = Some ps"
    and spec: "keyspace_spec_of obj' = (keyspace_spec_of obj)\<lparr>kp_UpdateStrategy := vc_UpdateStrategy (tc_Spec vt), kt_Partitionings := ps,
       kt_TurndownPolicy := kt_TurndownPolicy keyspace, kt_Annotations := kt_Annotations keyspace\<rparr>"
    and status: "kyb_Status (ko_body obj') = kyb_Status (ko_body obj)"
    by (rule updateVitessKeyspaceInPlace_spec)
  note erase = resized_partitionings_erase [OF current, simplified]
  note members = PartitioningSet_members [OF ps erase(1)]
  have parts: "kt_Partitionings (keyspace_spec_of obj') = ps" by (simp add: spec)
  have cell: "clb_Spec (ko_body c') = (if gw_Autoscaler (gateway_of c) = None
        then set_replicas (gw_Replicas (ct_Gateway cell)) (clb_Spec (ko_body c)) else clb_Spec (ko_body c))"
    using assms(1,3) strategy by (auto simp: cell_in_place_def updateVitessCellInPlace_def newVitessCell_def Let_def)
  have rolling: "\<forall>obj''. keyspace_rolling_in_place vt labels keyspace key obj' = Some obj'' \<longrightarrow>
        map_option keyspace_spec_of (newVitessKeyspace key vt labels keyspace) = Some (keyspace_spec_of obj'')"
    using assms(1) strategy by (auto simp: keyspace_rolling_in_place_def updateVitessKeyspace_def updateVitessKeyspaceAnnotations_def Let_def)
  have held: "\<forall>p \<in> set ps.
        (\<exists>q \<in> set (kt_Partitionings (keyspace_spec_of obj)). erase_partitioning p = erase_partitioning q
            \<and> (storage_allowed (vc_UpdateStrategy (tc_Spec vt)) \<or> p = q))
        \<or> (p \<in> set (kt_Partitionings keyspace)
            \<and> (\<forall>q \<in> set (kt_Partitionings (keyspace_spec_of obj)). partitioningKey gen q \<noteq> partitioningKey gen p))"
    using members(2) erase(2) by blast
  show ?thesis unfolding parts using spec status members(1) held cell rolling by (simp add: parts)
qed

theorem cluster_updates_held_witness:
  "\<exists>live obj' c'. kt_Partitionings (keyspace_spec_of live) = [example_equal 2]
     \<and> keyspace_in_place example_gen example_objects [] (example_keyspace [example_equal 1, example_equal 2]) (''ns'', ''c-main'') live
         = Some obj'
     \<and> map (partitioningKey example_gen) (kt_Partitionings (keyspace_spec_of obj')) = [Some ''-'', Some ''-80,80-'']
     \<and> cell_in_place example_objects [] (example_cell 3) (''ns'', ''c-zone1'') (example_cell_object CondFalse) = Some c'
     \<and> gw_Replicas (gateway_of c') = Some 3"
proof -
  have strategy: "update_type example_objects = Some ExternalVitessClusterUpdateStrategyType"
    by (simp add: example_objects_def)
  obtain live obj' where live: "kt_Partitionings (keyspace_spec_of live) = [example_equal 2]"
    "keyspace_in_place example_gen example_objects [] (example_keyspace [example_equal 1, example_equal 2]) (''ns'', ''c-main'') live
       = Some obj'"
    by (rule example_upgrade)
  obtain c' where c': "cell_in_place example_objects [] (example_cell 3) (''ns'', ''c-zone1'') (example_cell_object CondFalse) = Some c'"
    using example_cell_in_place by blast
  have gateway: "gw_Autoscaler (gateway_of (example_cell_object CondFalse)) = None" "gw_Replicas (ct_Gateway (example_cell 3)) = Some 3"
    by (simp_all add: example_cell_facts example_cell_def VitessCellGatewaySpec.defs pod_extras.defs)
  have "map (partitioningKey example_gen) [example_equal 1, example_equal 2] = [Some ''-'', Some ''-80,80-'']"
    by code_simp
  with live c' gateway cluster_updates_held [OF strategy live(2) c'] show ?thesis
    by (intro exI [of _ live] exI [of _ obj'] exI [of _ c']) (simp add: example_keyspace_def)
qed

end
