(* ===== verification/Etcd.thy ===== *)
theory Etcd
  imports Tablet_Pod Defaults
begin

text \<open>
  The objects of an etcd cluster: \<open>pkg/operator/etcd\<close> with its Pods, claims, Services and disruption budget, the overrides of
  Services in \<open>pkg/operator/update/service.go\<close>, and the EtcdLockserver object of \<open>pkg/operator/lockserver/etcd.go\<close>.  A
  dereference of a nil pointer or an index out of range panics, which is \<open>None\<close>.
\<close>

section \<open>Names and sizes\<close>

definition LockserverLabel :: string where "LockserverLabel = ''etcd.planetscale.com/lockserver''"
definition IndexLabel :: string where "IndexLabel = ''etcd.planetscale.com/index''"
definition NumReplicas :: nat where "NumReplicas = 3"
definition QuorumSize :: nat where "QuorumSize = NumReplicas div 2 + 1"
definition etcdContainerName :: string where "etcdContainerName = ''etcd''"
definition etcdCommand :: string where "etcdCommand = ''/usr/local/bin/etcd''"
definition dataVolumeName :: string where "dataVolumeName = ''data''"
definition dataVolumeMountPath :: string where "dataVolumeMountPath = ''/var/etcd''"
definition dataVolumeSubPath :: string where "dataVolumeSubPath = ''etcd''"
definition ClientPortName :: string where "ClientPortName = ''client''"
definition ClientPortNumber :: int where "ClientPortNumber = 2379"
definition PeerPortName :: string where "PeerPortName = ''peer''"
definition PeerPortNumber :: int where "PeerPortNumber = 2380"

definition etcd_PodName :: "string \<Rightarrow> int \<Rightarrow> string" where
  "etcd_PodName lockserverName index = lockserverName @ ''-'' @ dec_int index"

definition ClientServiceName :: "string \<Rightarrow> string" where
  "ClientServiceName lockserverName = lockserverName @ ''-client''"

definition PeerServiceName :: "string \<Rightarrow> string" where
  "PeerServiceName lockserverName = lockserverName @ ''-peer''"

definition PDBName :: "string \<Rightarrow> string" where
  "PDBName lockserverName = ''etcd-lockserver-'' @ lockserverName"

section \<open>The specification of a member\<close>

text \<open>The claim that the template of a lockserver asks for; \<open>ecl_rest\<close> is what the code only copies.\<close>

record etcd_claim =
  ecl_AccessModes :: "string list"
  ecl_Requests :: resource_list
  ecl_rest :: opaque

record EtcdSpec =
  es_LockserverName :: string
  es_Image :: string
  es_ImagePullPolicy :: string
  es_ImagePullSecrets :: "string list"
  es_Resources :: resource_requirements
  es_Labels :: "(string, string) gomap"
  es_Zone :: string
  es_Index :: int
  es_DataVolumePVCName :: string
  es_DataVolumePVCSpec :: etcd_claim
  es_ExtraFlags :: "(string, string) gomap"
  es_ExtraEnv :: "env_var list"
  es_ExtraVolumes :: "volume list"
  es_ExtraVolumeMounts :: "volume_mount list"
  es_InitContainers :: "container list"
  es_SidecarContainers :: "container list"
  es_Affinity :: "opaque option"
  es_Annotations :: "(string, string) gomap"
  es_ExtraLabels :: "(string, string) gomap"
  es_AdvertisePeerURLs :: "string list"
  es_Tolerations :: "toleration list"

text \<open>
  Settings of the operator (\<open>DefaultEtcdRunAsUser\<close>, \<open>DefaultEtcdFSGroup\<close>, \<open>DefaultEtcdServiceAccount\<close>,
  \<open>DefaultVitessPriorityClass\<close>, \<open>DefaultEtcdImage\<close>), the order of a range over a map and the matching of tolerations.
\<close>

record etcd_lib =
  el_RunAsUser :: int
  el_FSGroup :: int
  el_ServiceAccount :: string
  el_PriorityClass :: string
  el_Image :: string
  el_visit :: visit_order
  el_MatchToleration :: "toleration \<Rightarrow> toleration \<Rightarrow> bool"

section \<open>Arguments\<close>

definition peer_url :: "EtcdSpec \<Rightarrow> int \<Rightarrow> string" where
  "peer_url spec index =
     concat [''http://'', etcd_PodName (es_LockserverName spec) index, ''.'', PeerServiceName (es_LockserverName spec),
       '':'', dec_int PeerPortNumber]"

definition member_indices :: "int list" where
  "member_indices = map (\<lambda>i. int i + 1) [0..<NumReplicas]"

definition advertise_urls :: "EtcdSpec \<Rightarrow> string list" where
  "advertise_urls spec =
     (if length (es_AdvertisePeerURLs spec) \<noteq> NumReplicas then map (peer_url spec) member_indices
      else es_AdvertisePeerURLs spec)"

definition initial_cluster :: "EtcdSpec \<Rightarrow> string list" where
  "initial_cluster spec =
     map (\<lambda>i. etcd_PodName (es_LockserverName spec) (int i + 1) @ ''='' @ advertise_urls spec ! i) [0..<NumReplicas]"

definition etcd_flags :: "EtcdSpec \<Rightarrow> flags option" where
  "etcd_flags spec =
     (let hostname = etcd_PodName (es_LockserverName spec) (es_Index spec);
          subdomain = PeerServiceName (es_LockserverName spec);
          urls = advertise_urls spec
      in if es_Index spec < 1 \<or> int (length urls) < es_Index spec then None
         else Some
           [(''data-dir'', FString dataVolumeMountPath),
            (''name'', FString hostname),
            (''listen-peer-urls'', FString (''http://0.0.0.0:'' @ dec_int PeerPortNumber)),
            (''listen-client-urls'', FString (''http://0.0.0.0:'' @ dec_int ClientPortNumber)),
            (''advertise-client-urls'', FString (concat [''http://'', hostname, ''.'', subdomain, '':'', dec_int ClientPortNumber])),
            (''initial-cluster-state'', FString ''new''),
            (''initial-cluster-token'', FString (es_LockserverName spec)),
            (''initial-advertise-peer-urls'', FString (urls ! nat (es_Index spec - 1))),
            (''initial-cluster'', FString (join_with '','' (initial_cluster spec)))])"

definition etcd_all_flags :: "etcd_lib \<Rightarrow> EtcdSpec \<Rightarrow> flags option" where
  "etcd_all_flags lib spec = map_option (user_flags (range_of (el_visit lib) 0 (es_ExtraFlags spec))) (etcd_flags spec)"

definition etcd_Args :: "etcd_lib \<Rightarrow> EtcdSpec \<Rightarrow> string list option" where
  "etcd_Args lib spec = map_option FormatArgs (etcd_all_flags lib spec)"

section \<open>Pods\<close>

definition etcd_env :: "EtcdSpec \<Rightarrow> env_var list" where
  "etcd_env spec =
     Env [plain_env ''ETCD_AUTO_COMPACTION_MODE'' ''revision'',
          plain_env ''ETCD_AUTO_COMPACTION_RETENTION'' ''1000'',
          plain_env ''ETCD_QUOTA_BACKEND_BYTES'' ''8589934592'',
          plain_env ''ETCD_MAX_REQUEST_BYTES'' ''8388608'',
          plain_env ''ETCDCTL_API'' ''3'']
       (es_ExtraEnv spec)"

definition etcd_mounts :: "EtcdSpec \<Rightarrow> volume_mount list" where
  "etcd_mounts spec =
     VolumeMounts [mount dataVolumeName False dataVolumeMountPath dataVolumeSubPath] (es_ExtraVolumeMounts spec)"

definition etcd_probe :: "string list \<Rightarrow> int \<Rightarrow> int \<Rightarrow> probe" where
  "etcd_probe command failures delay =
     \<lparr>pr_handler = Exec command, pr_initialDelaySeconds = delay, pr_periodSeconds = 5, pr_failureThreshold = failures,
      pr_successThreshold = 1, pr_timeoutSeconds = 5\<rparr>"

definition etcdContainer :: "etcd_lib \<Rightarrow> EtcdSpec \<Rightarrow> string list \<Rightarrow> container" where
  "etcdContainer lib spec args =
     \<lparr>c_name = etcdContainerName, c_image = es_Image spec, c_imagePullPolicy = es_ImagePullPolicy spec,
      c_command = [etcdCommand], c_args = args,
      c_ports = [\<lparr>cp_name = ClientPortName, cp_protocol = ''TCP'', cp_port = ClientPortNumber\<rparr>,
                 \<lparr>cp_name = PeerPortName, cp_protocol = ''TCP'', cp_port = PeerPortNumber\<rparr>],
      c_resources = ResourceRequirements empty_resources (es_Resources spec),
      c_securityContext =
        (if el_RunAsUser lib \<ge> 0
         then Some \<lparr>procMount = None, allowPrivilegeEscalation = None, capabilities = None, readOnlyRootFilesystem = None,
                runAsGroup = None, runAsUser = Some (el_RunAsUser lib), sc_rest = []\<rparr>
         else None),
      c_volumeMounts = etcd_mounts spec,
      c_env = etcd_env spec,
      c_readinessProbe = Some (etcd_probe [''etcdctl'', ''endpoint'', ''health''] 3 1),
      c_livenessProbe = Some (etcd_probe [''etcdctl'', ''endpoint'', ''status''] 30 300),
      c_lifecycle = None, c_rest = []\<rparr>"

definition etcd_affinity :: "EtcdSpec \<Rightarrow> affinity" where
  "etcd_affinity spec =
     (let members = [(LockserverLabel, es_LockserverName spec)]
      in case es_Affinity spec of
           Some a \<Rightarrow> UserAffinity a
         | None \<Rightarrow>
             if es_Zone spec \<noteq> []
             then OperatorAffinity [(2, members, HostnameLabel)] (Some (ZoneFailureDomainLabel, es_Zone spec))
             else OperatorAffinity [(2, members, HostnameLabel), (1, members, ZoneFailureDomainLabel)] None)"

definition etcd_state_hash :: "EtcdSpec \<Rightarrow> container list \<Rightarrow> string" where
  "etcd_state_hash spec containers =
     (let b = AddStringMapKeys ''labels-keys'' (es_ExtraLabels spec) NewBuilder;
          b = AddStringMapKeys ''annotations-keys'' (es_Annotations spec) b;
          b = AddContainersUpdates ''init-containers'' (es_InitContainers spec) b;
          b = AddContainersUpdates ''containers'' containers b;
          b = AddTolerations ''tolerations'' (es_Tolerations spec) b
      in Builder_String b)"

definition etcd_pod_spec :: "etcd_lib \<Rightarrow> EtcdSpec \<Rightarrow> container list \<Rightarrow> pod_spec \<Rightarrow> pod_spec" where
  "etcd_pod_spec lib spec containers s =
     s\<lparr>psp_Volumes := Volumes (Volumes (psp_Volumes s)
         [\<lparr>vol_name = dataVolumeName, vol_source = ClaimVolume (es_DataVolumePVCName spec)\<rparr>]) (es_ExtraVolumes spec),
       psp_Hostname := etcd_PodName (es_LockserverName spec) (es_Index spec),
       psp_Subdomain := PeerServiceName (es_LockserverName spec),
       psp_ImagePullSecrets := es_ImagePullSecrets spec,
       psp_SecurityContext :=
         (if el_FSGroup lib \<ge> 0
          then Some ((case psp_SecurityContext s of None \<Rightarrow> \<lparr>psc_FSGroup = None, psc_rest = []\<rparr> | Some sc \<Rightarrow> sc)
                 \<lparr>psc_FSGroup := Some (el_FSGroup lib)\<rparr>)
          else psp_SecurityContext s),
       psp_ServiceAccountName := (if el_ServiceAccount lib \<noteq> [] then el_ServiceAccount lib else psp_ServiceAccountName s),
       psp_Affinity := Some (etcd_affinity spec),
       psp_Tolerations := Tolerations (el_MatchToleration lib) (psp_Tolerations s) (es_Tolerations spec),
       psp_PriorityClassName := (if el_PriorityClass lib \<noteq> [] then el_PriorityClass lib else psp_PriorityClassName s),
       psp_InitContainers := PodContainers (psp_InitContainers s) (es_InitContainers spec),
       psp_Containers := PodContainers (PodContainers (psp_Containers s) (es_SidecarContainers spec)) containers\<rparr>"

definition etcd_UpdatePod :: "etcd_lib \<Rightarrow> EtcdSpec \<Rightarrow> tablet_pod \<Rightarrow> tablet_pod option" where
  "etcd_UpdatePod lib spec obj =
     map_option (\<lambda>args.
       (let obj = update_labels (es_Labels spec) obj;
            obj = update_labels (es_ExtraLabels spec) obj;
            obj = update_annotations (es_Annotations spec) obj;
            containers = [etcdContainer lib spec args];
            obj = update_annotations [(DesiredStateAnnotation, etcd_state_hash spec containers)] obj
        in obj\<lparr>ko_body := (ko_body obj)\<lparr>tpb_Spec := etcd_pod_spec lib spec containers (tpb_Spec (ko_body obj))\<rparr>\<rparr>))
     (etcd_Args lib spec)"

definition etcd_NewPod :: "etcd_lib \<Rightarrow> object_key \<Rightarrow> EtcdSpec \<Rightarrow> tablet_pod option" where
  "etcd_NewPod lib key spec = etcd_UpdatePod lib spec (empty_pod key)"

definition etcd_UpdatePodInPlace :: "EtcdSpec \<Rightarrow> 'b kobj \<Rightarrow> 'b kobj" where
  "etcd_UpdatePodInPlace spec obj = update_labels (es_Labels spec) obj"

section \<open>Claims\<close>

type_synonym etcd_pvc = "etcd_claim kobj"

definition etcd_NewPVC :: "object_key \<Rightarrow> EtcdSpec \<Rightarrow> etcd_pvc" where
  "etcd_NewPVC key spec =
     update_labels (es_ExtraLabels spec) (update_labels (es_Labels spec) (blank_object (es_DataVolumePVCSpec spec) key))"

definition etcd_UpdatePVCInPlace :: "EtcdSpec \<Rightarrow> etcd_pvc \<Rightarrow> etcd_pvc option" where
  "etcd_UpdatePVCInPlace spec obj =
     (let obj = update_labels (es_ExtraLabels spec) (update_labels (es_Labels spec) obj);
          size = (\<lambda>claim. quantity_or_zero (nil_safe (ecl_Requests claim) ''storage''));
          curSize = size (ko_body obj); newSize = size (es_DataVolumePVCSpec spec)
      in if newSize > curSize
         then (case ecl_Requests (ko_body obj) of
                 None \<Rightarrow> None
               | Some m \<Rightarrow> Some (obj\<lparr>ko_body := (ko_body obj)\<lparr>ecl_Requests := Some (m(''storage'' \<mapsto> newSize))\<rparr>\<rparr>))
         else Some obj)"

section \<open>Services\<close>

record service_port =
  spo_Name :: string
  spo_Protocol :: string
  spo_Port :: int
  spo_TargetPort :: string

record service_body =
  svb_Type :: string
  svb_ClusterIP :: string
  svb_PublishNotReadyAddresses :: bool
  svb_Selector :: "(string, string) gomap"
  svb_Ports :: "service_port list"
  svb_rest :: opaque

type_synonym service = "service_body kobj"

definition empty_service :: service_body where
  "empty_service =
     \<lparr>svb_Type = [], svb_ClusterIP = [], svb_PublishNotReadyAddresses = False, svb_Selector = [], svb_Ports = [], svb_rest = []\<rparr>"

definition UpdateClientService :: "service \<Rightarrow> (string, string) gomap \<Rightarrow> service" where
  "UpdateClientService svc labels =
     (let svc = update_labels labels svc
      in svc\<lparr>ko_body := (ko_body svc)\<lparr>svb_Selector := labels,
           svb_Ports := [\<lparr>spo_Name = ClientPortName, spo_Protocol = ''TCP'', spo_Port = ClientPortNumber,
             spo_TargetPort = ClientPortName\<rparr>]\<rparr>\<rparr>)"

definition NewClientService :: "object_key \<Rightarrow> (string, string) gomap \<Rightarrow> service" where
  "NewClientService key labels = UpdateClientService (blank_object empty_service key) labels"

definition UpdatePeerService :: "service \<Rightarrow> (string, string) gomap \<Rightarrow> service" where
  "UpdatePeerService svc labels =
     (let svc = update_labels labels svc
      in svc\<lparr>ko_body := (ko_body svc)\<lparr>svb_Selector := labels,
           svb_Ports := [\<lparr>spo_Name = PeerPortName, spo_Protocol = ''TCP'', spo_Port = PeerPortNumber,
             spo_TargetPort = PeerPortName\<rparr>]\<rparr>\<rparr>)"

definition NewPeerService :: "object_key \<Rightarrow> (string, string) gomap \<Rightarrow> service" where
  "NewPeerService key labels =
     UpdatePeerService (blank_object
       (empty_service\<lparr>svb_Type := ''ClusterIP'', svb_ClusterIP := ''None'', svb_PublishNotReadyAddresses := True\<rparr>) key) labels"

definition InPlaceServiceOverrides :: "service_overrides option \<Rightarrow> service \<Rightarrow> service" where
  "InPlaceServiceOverrides so svc =
     (case so of
        None \<Rightarrow> svc
      | Some so \<Rightarrow> if so_Annotations so \<noteq> [] then update_annotations (so_Annotations so) svc else svc)"

definition ServiceOverrides :: "service_overrides option \<Rightarrow> service \<Rightarrow> service" where
  "ServiceOverrides so svc =
     (case so of
        None \<Rightarrow> svc
      | Some so \<Rightarrow>
          (let svc = (if so_Annotations so \<noteq> [] then update_annotations (so_Annotations so) svc else svc)
           in if so_ClusterIP so \<noteq> [] then svc\<lparr>ko_body := (ko_body svc)\<lparr>svb_ClusterIP := so_ClusterIP so\<rparr>\<rparr> else svc))"

section \<open>The disruption budget\<close>

record pdb_body =
  pdb_Selector :: "(string, string) gomap"
  pdb_MinAvailable :: int

type_synonym pdb = "pdb_body kobj"

definition NewPDB :: "object_key \<Rightarrow> (string, string) gomap \<Rightarrow> pdb" where
  "NewPDB key labels =
     (blank_object \<lparr>pdb_Selector = labels, pdb_MinAvailable = int QuorumSize\<rparr> key)\<lparr>ko_labels := map_of labels\<rparr>"

definition UpdatePDBInPlace :: "(string, string) gomap \<Rightarrow> pdb \<Rightarrow> pdb" where
  "UpdatePDBInPlace labels obj = update_labels labels obj"

section \<open>The lockserver object\<close>

record EtcdLockserverStatus =
  est_ObservedGeneration :: int
  est_Available :: cond_status
  est_ClientServiceName :: string

definition NewEtcdLockserverStatus :: EtcdLockserverStatus where
  "NewEtcdLockserverStatus = \<lparr>est_ObservedGeneration = 0, est_Available = CondUnknown, est_ClientServiceName = []\<rparr>"

record EtcdLockserver_body =
  elb_Template :: etcd_template
  elb_Zone :: string
  elb_Generation :: int
  elb_Status :: EtcdLockserverStatus

type_synonym EtcdLockserver = "EtcdLockserver_body kobj"

definition UpdateEtcdLockserver ::
    "EtcdLockserver \<Rightarrow> etcd_template \<Rightarrow> (string, string) gomap \<Rightarrow> string \<Rightarrow> EtcdLockserver"
where
  "UpdateEtcdLockserver obj tpl labels zone =
     (let obj = update_labels labels obj
      in obj\<lparr>ko_body := (ko_body obj)\<lparr>elb_Template := tpl, elb_Zone := zone\<rparr>\<rparr>)"

definition NewEtcdLockserver ::
    "object_key \<Rightarrow> etcd_template \<Rightarrow> (string, string) gomap \<Rightarrow> string \<Rightarrow> EtcdLockserver"
where
  "NewEtcdLockserver key tpl labels zone =
     UpdateEtcdLockserver (blank_object
       \<lparr>elb_Template = empty_etcd_template, elb_Zone = [], elb_Generation = 0,
        elb_Status = \<lparr>est_ObservedGeneration = 0, est_Available = CondUnset, est_ClientServiceName = []\<rparr>\<rparr> key)
       tpl labels zone"

definition DefaultEtcdLockserver :: "etcd_lib \<Rightarrow> EtcdLockserver \<Rightarrow> EtcdLockserver" where
  "DefaultEtcdLockserver lib ls =
     ls\<lparr>ko_body := (ko_body ls)\<lparr>elb_Template := DefaultEtcdLockserverTemplate (el_Image lib) (elb_Template (ko_body ls))\<rparr>\<rparr>"

end
