(* ===== verification/Etcd_Controller.thy ===== *)
theory Etcd_Controller
  imports Etcd Tablets_Laws Keyspace_Controller
begin

text \<open>
  The controller of etcd clusters, \<open>pkg/controller/etcdlockserver\<close>, and the passes of the cluster and cell controllers that keep
  the EtcdLockserver objects, \<open>reconcile_etcd.go\<close> of \<open>pkg/controller/vitesscluster\<close> and \<open>pkg/controller/vitesscell\<close>.
\<close>

section \<open>Members\<close>

abbreviation template_of :: "EtcdLockserver \<Rightarrow> etcd_template" where
  "template_of ls \<equiv> elb_Template (ko_body ls)"

abbreviation lockserver_name :: "EtcdLockserver \<Rightarrow> string" where
  "lockserver_name ls \<equiv> snd (ko_key ls)"

abbreviation lockserver_namespace :: "EtcdLockserver \<Rightarrow> string" where
  "lockserver_namespace ls \<equiv> fst (ko_key ls)"

definition lockserver_labels :: "EtcdLockserver \<Rightarrow> (string, string) gomap" where
  "lockserver_labels ls = [(LockserverLabel, lockserver_name ls)]"

definition add_cluster_label :: "EtcdLockserver \<Rightarrow> (string, string) gomap \<Rightarrow> (string, string) gomap" where
  "add_cluster_label ls labels =
     (case ko_labels ls ClusterLabel of None \<Rightarrow> labels | Some c \<Rightarrow> AList.update ClusterLabel c labels)"

definition member_labels :: "EtcdLockserver \<Rightarrow> (string, string) gomap \<Rightarrow> int \<Rightarrow> (string, string) gomap" where
  "member_labels ls parentLabels i =
     add_cluster_label ls (AList.update ComponentLabel EtcdComponentName (set_entries parentLabels [(IndexLabel, dec_int i)]))"

definition member_spec :: "EtcdLockserver \<Rightarrow> (string, string) gomap \<Rightarrow> int \<Rightarrow> EtcdSpec" where
  "member_spec ls parentLabels i =
     (let t = template_of ls
      in \<lparr>es_LockserverName = lockserver_name ls, es_Image = et_Image t, es_ImagePullPolicy = et_ImagePullPolicy t,
          es_ImagePullSecrets = et_ImagePullSecrets t, es_Resources = listed_requirements (et_Resources t),
          es_Labels = member_labels ls parentLabels i, es_Zone = elb_Zone (ko_body ls), es_Index = i, es_DataVolumePVCName = [],
          es_DataVolumePVCSpec = \<lparr>ecl_AccessModes = et_AccessModes t, ecl_Requests = Some (map_of (et_StorageRequests t)),
            ecl_rest = et_ClaimRest t\<rparr>,
          es_ExtraFlags = px_ExtraFlags t, es_ExtraEnv = px_ExtraEnv t, es_ExtraVolumes = px_ExtraVolumes t,
          es_ExtraVolumeMounts = px_ExtraVolumeMounts t, es_InitContainers = px_InitContainers t,
          es_SidecarContainers = px_SidecarContainers t, es_Affinity = px_Affinity t, es_Annotations = px_Annotations t,
          es_ExtraLabels = px_ExtraLabels t, es_AdvertisePeerURLs = et_AdvertisePeerURLs t,
          es_Tolerations = px_Tolerations t\<rparr>)"

definition memberSpecs :: "EtcdLockserver \<Rightarrow> (string, string) gomap \<Rightarrow> EtcdSpec list" where
  "memberSpecs ls parentLabels =
     map (member_spec ls parentLabels)
       (filter (\<lambda>i. case et_LocalMemberIndex (template_of ls) of None \<Rightarrow> True | Some local \<Rightarrow> word_of_int i = local) member_indices)"

definition keyed_members :: "EtcdLockserver \<Rightarrow> (object_key \<times> EtcdSpec) list" where
  "keyed_members ls =
     map (\<lambda>member. let podName = etcd_PodName (lockserver_name ls) (es_Index member)
            in ((lockserver_namespace ls, podName), member\<lparr>es_DataVolumePVCName := podName\<rparr>))
       (memberSpecs ls (lockserver_labels ls))"

section \<open>The environment\<close>

text \<open>
  \<open>ec_get\<close> is the answer for the lockserver itself, \<open>ec_status_error\<close> that of the write of its status, and \<open>ec_conflict\<close> tells
  whether an error is a conflict.  \<open>ec_no_claim\<close> only completes a function of the model.
\<close>

record etcd_controller_env =
  ec_lib :: etcd_lib
  ec_get :: "(EtcdLockserver_body, string) get_answer"
  ec_services :: "(service_body, string) kube_env"
  ec_claims :: "(etcd_claim, string) kube_env"
  ec_pods :: "(tablet_pod_body, string) kube_env"
  ec_budgets :: "(pdb_body, string) kube_env"
  ec_status_error :: "EtcdLockserver \<Rightarrow> string option"
  ec_conflict :: "string \<Rightarrow> bool"

datatype etcd_effect =
    EtcdService "service_body kube_effect"
  | EtcdClaim "etcd_claim kube_effect"
  | EtcdPod "tablet_pod_body kube_effect"
  | EtcdBudget "pdb_body kube_effect"
  | EtcdStatus EtcdLockserver
  | EtcdEvent string

type_synonym etcd_outcome = "etcd_effect list \<times> reconcile_result \<times> string option"

text \<open>A step of a pass that reconciles one object or set: its effects, and its error if there is one.\<close>

definition error_step :: "string option \<Rightarrow> string builder \<Rightarrow> string builder" where
  "error_step err b = (if err \<noteq> None then builder_Error err b else b)"

definition in_place_only :: "(object_key \<Rightarrow> 'b kobj) \<Rightarrow> (object_key \<Rightarrow> 'b kobj \<Rightarrow> 'b kobj) \<Rightarrow> 'b strategy" where
  "in_place_only new update =
     \<lparr>New = new, UpdateInPlace = Some update, UpdateRollingInPlace = None, UpdateRecreate = None, UpdateRollingRecreate = None,
      has_Status = False, has_OrphanStatus = False, PrepareForTurndown = None\<rparr>"

section \<open>Services and the disruption budget\<close>

definition extended_labels :: "EtcdLockserver \<Rightarrow> (string, string) gomap" where
  "extended_labels ls =
     add_cluster_label ls [(LockserverLabel, lockserver_name ls), (ComponentLabel, EtcdComponentName)]"

definition client_strategy :: "EtcdLockserver \<Rightarrow> service_body strategy" where
  "client_strategy ls =
     in_place_only (\<lambda>key. ServiceOverrides (et_ClientService (template_of ls)) (NewClientService key (extended_labels ls)))
       (\<lambda>key svc. InPlaceServiceOverrides (et_ClientService (template_of ls)) (UpdateClientService svc (extended_labels ls)))"

definition peer_strategy :: "EtcdLockserver \<Rightarrow> service_body strategy" where
  "peer_strategy ls =
     in_place_only (\<lambda>key. ServiceOverrides (et_PeerService (template_of ls)) (NewPeerService key (extended_labels ls)))
       (\<lambda>key svc. InPlaceServiceOverrides (et_PeerService (template_of ls)) (UpdatePeerService svc (extended_labels ls)))"

text \<open>A flag that is nil panics.\<close>

definition reconcileServices :: "etcd_controller_env \<Rightarrow> EtcdLockserver \<Rightarrow> etcd_outcome option" where
  "reconcileServices env ls =
     (let t = template_of ls; labels = lockserver_labels ls; ns = lockserver_namespace ls;
          step = (\<lambda>create strategy name.
            if create then ReconcileObject (ec_services env) strategy labels (ns, name) True else ([], None))
      in case (et_CreateClientService t, et_CreatePeerService t) of
           (Some client, Some peer) \<Rightarrow>
             (let (es, err) = step client (client_strategy ls) (ClientServiceName (lockserver_name ls));
                  (es', err') = step peer (peer_strategy ls) (PeerServiceName (lockserver_name ls))
              in Some (map EtcdService (es @ es'), builder_Result (error_step err' (error_step err empty_builder))))
         | _ \<Rightarrow> None)"

definition budget_strategy :: "EtcdLockserver \<Rightarrow> pdb_body strategy" where
  "budget_strategy ls =
     in_place_only (\<lambda>key. NewPDB key (lockserver_labels ls)) (\<lambda>key. UpdatePDBInPlace (lockserver_labels ls))"

definition reconcilePodDisruptionBudget :: "etcd_controller_env \<Rightarrow> EtcdLockserver \<Rightarrow> etcd_outcome option" where
  "reconcilePodDisruptionBudget env ls =
     (case et_CreatePDB (template_of ls) of
        None \<Rightarrow> None
      | Some False \<Rightarrow> Some ([], builder_Result empty_builder)
      | Some True \<Rightarrow>
          (case ReconcileObject (ec_budgets env) (budget_strategy ls) (lockserver_labels ls)
              (lockserver_namespace ls, PDBName (lockserver_name ls)) True of
             (es, err) \<Rightarrow> Some (map EtcdBudget es, builder_Result (error_step err empty_builder))))"

section \<open>Claims and Pods\<close>

type_synonym member_map = "object_key \<rightharpoonup> EtcdSpec"

definition member_map_of :: "(object_key \<times> EtcdSpec) list \<Rightarrow> member_map" where
  "member_map_of members = map_of (rev members)"

abbreviation no_claim :: etcd_claim where
  "no_claim \<equiv> \<lparr>ecl_AccessModes = [], ecl_Requests = None, ecl_rest = []\<rparr>"

definition claim_strategy :: "member_map \<Rightarrow> etcd_claim strategy" where
  "claim_strategy members =
     in_place_only (\<lambda>key. hook_result (blank_object no_claim key) (map_option (etcd_NewPVC key) (members key)))
       (\<lambda>key obj. hook_result obj (Option.bind (members key) (\<lambda>spec. etcd_UpdatePVCInPlace spec obj)))"

text \<open>The update hook of a live claim panics.\<close>

definition claim_hook_panics ::
    "etcd_controller_env \<Rightarrow> (string, string) gomap \<Rightarrow> member_map \<Rightarrow> object_key list \<Rightarrow> bool"
where
  "claim_hook_panics env labels members keys =
     (case klist (ec_claims env) of
        Inl _ \<Rightarrow> False
      | Inr _ \<Rightarrow> list_ex (\<lambda>key. case kget (ec_claims env) key of
            Found obj \<Rightarrow> \<not> ko_evictable obj \<and> hasMatchingLabels obj labels \<and> \<not> ko_deleting obj
              \<and> Option.bind (members key) (\<lambda>spec. etcd_UpdatePVCInPlace spec obj) = None
          | _ \<Rightarrow> False) keys)"

definition member_strategy :: "etcd_lib \<Rightarrow> member_map \<Rightarrow> tablet_pod_body strategy" where
  "member_strategy lib members =
     \<lparr>New = (\<lambda>key. hook_result (empty_pod key) (Option.bind (members key) (etcd_NewPod lib key))),
      UpdateInPlace = Some (\<lambda>key obj. hook_result obj (map_option (\<lambda>spec. etcd_UpdatePodInPlace spec obj) (members key))),
      UpdateRollingInPlace = None, UpdateRecreate = None,
      UpdateRollingRecreate = Some (\<lambda>key obj. hook_result obj (Option.bind (members key) (\<lambda>spec. etcd_UpdatePod lib spec obj))),
      has_Status = True, has_OrphanStatus = False, PrepareForTurndown = None\<rparr>"

definition member_hook_panics :: "etcd_lib \<Rightarrow> member_map \<Rightarrow> tablet_pod_body kube_effect list \<Rightarrow> bool" where
  "member_hook_panics lib members es =
     list_ex (\<lambda>e. case e of
         CallNew key \<Rightarrow> Option.bind (members key) (etcd_NewPod lib key) = None
       | CallStatus key obj \<Rightarrow> \<not> ko_deleting obj
           \<and> Option.bind (members key) (\<lambda>spec. etcd_UpdatePod lib spec (etcd_UpdatePodInPlace spec obj)) = None
       | _ \<Rightarrow> False) es"

text \<open>The status hook counts the Pods that are ready.\<close>

fun count_ready :: "tablet_pod_body kube_effect \<Rightarrow> nat \<Rightarrow> nat" where
  "count_ready (CallStatus key obj) n = (if tpb_Ready (ko_body obj) then n + 1 else n)"
| "count_ready _ n = n"

definition etcd_available :: "EtcdLockserver \<Rightarrow> nat \<Rightarrow> cond_status" where
  "etcd_available ls numPodsReady =
     (if et_LocalMemberIndex (template_of ls) = None then ConditionStatus (numPodsReady \<ge> QuorumSize)
      else ConditionStatus (numPodsReady > 0))"

definition set_available :: "cond_status \<Rightarrow> EtcdLockserver \<Rightarrow> EtcdLockserver" where
  "set_available a ls = ls\<lparr>ko_body := (ko_body ls)\<lparr>elb_Status := (elb_Status (ko_body ls))\<lparr>est_Available := a\<rparr>\<rparr>\<rparr>"

definition reconcileMembers :: "etcd_controller_env \<Rightarrow> EtcdLockserver \<Rightarrow> (etcd_outcome \<times> EtcdLockserver) option" where
  "reconcileMembers env ls =
     (let labels = lockserver_labels ls; members = keyed_members ls; keys = map fst members; memberMap = member_map_of members;
          (ce, cerr) = ReconcileObjectSet (ec_claims env) (claim_strategy memberMap) labels keys;
          (pe, perr) = ReconcileObjectSet (ec_pods env) (member_strategy (ec_lib env) memberMap) labels keys
      in if claim_hook_panics env labels memberMap keys \<or> member_hook_panics (ec_lib env) memberMap pe then None
         else Some ((map EtcdClaim ce @ map EtcdPod pe, builder_Result (error_step perr (error_step cerr empty_builder))),
                set_available (etcd_available ls (fold count_ready pe 0)) ls))"

section \<open>The reconciliation\<close>

definition merge_outcome :: "etcd_outcome \<Rightarrow> string builder \<Rightarrow> string builder" where
  "merge_outcome out b = builder_Merge (fst (snd out)) (snd (snd out)) b"

definition write_status :: "etcd_controller_env \<Rightarrow> EtcdLockserver \<Rightarrow> string builder \<Rightarrow> etcd_effect list \<times> string builder" where
  "write_status env ls b =
     (case ec_status_error env ls of
        None \<Rightarrow> ([EtcdStatus ls], b)
      | Some err \<Rightarrow>
          (EtcdStatus ls # (if ec_conflict env err then [] else [EtcdEvent ''StatusUpdateFailed'']), builder_Error (Some err) b))"

definition etcd_Reconcile :: "etcd_controller_env \<Rightarrow> etcd_outcome option" where
  "etcd_Reconcile env =
     (case ec_get env of
        NotFound \<Rightarrow> Some ([], builder_Result empty_builder)
      | GetError err \<Rightarrow> Some ([], builder_Result (builder_Error (Some err) empty_builder))
      | Found obj \<Rightarrow>
          (let ls = DefaultEtcdLockserver (ec_lib env) obj;
               oldStatus = elb_Status (ko_body ls);
               ls = ls\<lparr>ko_body := (ko_body ls)\<lparr>elb_Status := NewEtcdLockserverStatus\<rparr>\<rparr>
           in case reconcileServices env ls of
                None \<Rightarrow> None
              | Some svc \<Rightarrow>
                  (case reconcileMembers env ls of
                     None \<Rightarrow> None
                   | Some (members, ls) \<Rightarrow>
                       (case reconcilePodDisruptionBudget env ls of
                          None \<Rightarrow> None
                        | Some budget \<Rightarrow>
                            (let b = merge_outcome budget (merge_outcome members (merge_outcome svc empty_builder));
                                 status = (elb_Status (ko_body ls))\<lparr>est_ObservedGeneration := elb_Generation (ko_body ls)\<rparr>;
                                 ls = ls\<lparr>ko_body := (ko_body ls)\<lparr>elb_Status := status\<rparr>\<rparr>;
                                 (es, b) = (if status = oldStatus then ([], b) else write_status env ls b)
                             in Some (fst svc @ fst members @ fst budget @ es, builder_Result b))))))"

section \<open>The owners of the lockserver\<close>

text \<open>
  The strategy of both passes; the template is there whenever \<open>New\<close> or \<open>UpdateInPlace\<close> is called.  The object is never given up.
\<close>

definition owner_strategy :: "etcd_template option \<Rightarrow> (string, string) gomap \<Rightarrow> string \<Rightarrow> EtcdLockserver_body strategy" where
  "owner_strategy tpl labels zone =
     (let tpl = (case tpl of None \<Rightarrow> empty_etcd_template | Some t \<Rightarrow> t)
      in \<lparr>New = (\<lambda>key. NewEtcdLockserver key tpl labels zone),
          UpdateInPlace = Some (\<lambda>key obj. UpdateEtcdLockserver obj tpl labels zone),
          UpdateRollingInPlace = None, UpdateRecreate = None, UpdateRollingRecreate = None,
          has_Status = True, has_OrphanStatus = False,
          PrepareForTurndown = Some (\<lambda>key obj. (obj, Some \<lparr>os_Reason = ''NotSupported'',
            os_Message = ''Automatic turndown is not supported for etcd for safety reasons. The EtcdLockserver instance must be deleted manually.''\<rparr>))\<rparr>)"

fun lockserver_hook ::
    "EtcdLockserver_body kube_effect \<Rightarrow> EtcdLockserverStatus option \<Rightarrow> EtcdLockserverStatus option"
where
  "lockserver_hook (CallStatus key obj) st = Some ((elb_Status (ko_body obj))\<lparr>est_ObservedGeneration := 0\<rparr>)"
| "lockserver_hook _ st = st"

type_synonym owner_result = "EtcdLockserver_body kube_effect list \<times> EtcdLockserverStatus option \<times> string option"

definition keep_lockserver ::
    "(EtcdLockserver_body, string) kube_env \<Rightarrow> etcd_template option \<Rightarrow> (string, string) gomap \<Rightarrow> string \<Rightarrow> object_key
     \<Rightarrow> EtcdLockserverStatus option \<Rightarrow> owner_result"
where
  "keep_lockserver env tpl labels zone key st =
     (let st = (if tpl \<noteq> None then Some NewEtcdLockserverStatus else st);
          (es, err) = ReconcileObject env (owner_strategy tpl labels zone) labels key (tpl \<noteq> None)
      in (es, fold lockserver_hook es st, err))"

definition reconcileGlobalEtcd ::
    "(EtcdLockserver_body, string) kube_env \<Rightarrow> 'a topo_cluster_scheme \<Rightarrow> EtcdLockserverStatus option \<Rightarrow> owner_result option"
where
  "reconcileGlobalEtcd env vt st =
     map_option (\<lambda>name. keep_lockserver env (lss_Etcd (vc_GlobalLockserver (tc_Spec vt)))
         [(ClusterLabel, tc_Name vt), (ComponentLabel, EtcdComponentName)] [] (tc_Namespace vt, name) st)
       (GlobalEtcdName (tc_Name vt))"

text \<open>The cell: its namespace and labels, and its spec, which contains the template.\<close>

definition reconcileLocalEtcd ::
    "(EtcdLockserver_body, string) kube_env \<Rightarrow> 'a VitessCellTemplate_scheme kobj \<Rightarrow> EtcdLockserverStatus option \<Rightarrow> owner_result option"
where
  "reconcileLocalEtcd env vtc st =
     (let clusterName = (case ko_labels vtc ClusterLabel of None \<Rightarrow> [] | Some c \<Rightarrow> c); spec = ko_body vtc
      in map_option (\<lambda>name. keep_lockserver env (lss_Etcd (ct_Lockserver spec))
             [(ClusterLabel, clusterName), (CellLabel, ct_Name spec), (ComponentLabel, EtcdComponentName)]
             (ct_Zone spec) (fst (ko_key vtc), name) st)
           (LocalEtcdName clusterName (ct_Name spec)))"

end
