(* ===== verification/Etcd_Laws.thy ===== *)
theory Etcd_Laws
  imports Etcd_Controller
begin

text \<open>
  What the etcd controller guarantees: its members find each other, its objects fit together, nothing it needs is
  deleted, and the lockserver is reported available exactly when a quorum is.
\<close>

section \<open>Members\<close>

lemma member_indices_eq: "member_indices = [1, 2, 3]"
  by (simp add: member_indices_def NumReplicas_def upt_rec)

definition is_local :: "EtcdLockserver \<Rightarrow> int \<Rightarrow> bool" where
  "is_local ls i = (case et_LocalMemberIndex (template_of ls) of None \<Rightarrow> True | Some local \<Rightarrow> word_of_int i = local)"

definition member_key :: "EtcdLockserver \<Rightarrow> int \<Rightarrow> object_key" where
  "member_key ls i = (lockserver_namespace ls, etcd_PodName (lockserver_name ls) i)"

definition member_at :: "EtcdLockserver \<Rightarrow> int \<Rightarrow> EtcdSpec" where
  "member_at ls i = (member_spec ls (lockserver_labels ls) i)\<lparr>es_DataVolumePVCName := etcd_PodName (lockserver_name ls) i\<rparr>"

lemma member_spec_facts [simp]:
  "es_Index (member_spec ls labels i) = i" "es_LockserverName (member_spec ls labels i) = lockserver_name ls"
  "es_Labels (member_spec ls labels i) = member_labels ls labels i" "es_ExtraFlags (member_spec ls labels i) = px_ExtraFlags (template_of ls)"
  "es_ExtraLabels (member_spec ls labels i) = px_ExtraLabels (template_of ls)"
  "es_AdvertisePeerURLs (member_spec ls labels i) = et_AdvertisePeerURLs (template_of ls)"
  by (simp_all add: member_spec_def Let_def)

lemma keyed_members_eq: "keyed_members ls = map (\<lambda>i. (member_key ls i, member_at ls i)) (filter (is_local ls) [1, 2, 3])"
  by (simp add: keyed_members_def memberSpecs_def member_indices_eq member_key_def member_at_def is_local_def Let_def cong: option.case_cong)

lemma etcd_PodName_inj: "i \<in> {1, 2, 3} \<Longrightarrow> j \<in> {1, 2, 3} \<Longrightarrow> etcd_PodName n i = etcd_PodName n j \<longleftrightarrow> i = j"
proof -
  have "dec_int 1 = ''1''" "dec_int 2 = ''2''" "dec_int 3 = ''3''" by code_simp+
  then show "i \<in> {1, 2, 3} \<Longrightarrow> j \<in> {1, 2, 3} \<Longrightarrow> etcd_PodName n i = etcd_PodName n j \<longleftrightarrow> i = j"
    by (auto simp: etcd_PodName_def)
qed

lemma keyed_members_distinct: "distinct (map fst (keyed_members ls))"
  by (simp add: keyed_members_eq member_key_def etcd_PodName_inj)

lemma member_map_members: "(key, spec) \<in> set (keyed_members ls) \<longleftrightarrow> member_map_of (keyed_members ls) key = Some spec"
  using keyed_members_distinct [of ls] by (simp add: member_map_of_def rev_map [symmetric])

lemma keyed_member:
  assumes "(key, spec) \<in> set (keyed_members ls)"
  obtains i where "i \<in> {1, 2, 3}" "is_local ls i" "key = member_key ls i" "spec = member_at ls i"
  using assms by (auto simp: keyed_members_eq split: if_splits)

section \<open>Arguments\<close>

lemma etcd_flags_member: "i \<in> {1, 2, 3} \<Longrightarrow> etcd_flags (member_at ls i) \<noteq> None"
  by (auto simp: etcd_flags_def member_at_def advertise_urls_def member_indices_eq NumReplicas_def Let_def)

lemma etcd_Args_member: "i \<in> {1, 2, 3} \<Longrightarrow> etcd_Args lib (member_at ls i) \<noteq> None"
  using etcd_flags_member by (simp add: etcd_Args_def etcd_all_flags_def)

text \<open>The user leaves a flag to the operator.\<close>

definition untouched :: "string \<Rightarrow> (string, string) gomap \<Rightarrow> bool" where
  "untouched flag extra \<longleftrightarrow> (\<forall>(k, v) \<in> set extra. trim_flag k \<noteq> flag)"

lemma user_flags_untouched: "untouched flag extra \<Longrightarrow> map_of (user_flags extra f) flag = map_of f flag"
  unfolding user_flags_def by (induction extra arbitrary: f) (auto simp: untouched_def set_flag_def update_conv')

lemma untouched_range: "untouched flag extra \<Longrightarrow> gomap_wf extra \<Longrightarrow> visits visit \<Longrightarrow> untouched flag (range_of visit n extra)"
  by (simp add: untouched_def)

text \<open>The user leaves bootstrapping to the operator.\<close>

definition bootstrap_untouched :: "EtcdLockserver \<Rightarrow> bool" where
  "bootstrap_untouched ls \<longleftrightarrow> gomap_wf (px_ExtraFlags (template_of ls))
     \<and> (\<forall>flag \<in> {''name'', ''initial-cluster'', ''initial-cluster-token'', ''initial-advertise-peer-urls''}.
          untouched flag (px_ExtraFlags (template_of ls)))"

lemma member_flags:
  assumes "i \<in> {1, 2, 3}" "bootstrap_untouched ls" "visits (el_visit lib)"
  shows "\<exists>f. etcd_all_flags lib (member_at ls i) = Some f
    \<and> map_of f ''initial-cluster'' = Some (FString (join_with '','' (initial_cluster (member_at ls i))))
    \<and> map_of f ''initial-cluster-token'' = Some (FString (lockserver_name ls))
    \<and> map_of f ''name'' = Some (FString (etcd_PodName (lockserver_name ls) i))
    \<and> map_of f ''initial-advertise-peer-urls'' = Some (FString (advertise_urls (member_at ls i) ! nat (i - 1)))"
proof -
  obtain g where g: "etcd_flags (member_at ls i) = Some g" using etcd_flags_member [OF assms(1)] by blast
  then have "g = the (etcd_flags (member_at ls i))" by simp
  moreover have "untouched flag (range_of (el_visit lib) 0 (es_ExtraFlags (member_at ls i)))"
    if "flag \<in> {''name'', ''initial-cluster'', ''initial-cluster-token'', ''initial-advertise-peer-urls''}" for flag
    using assms(2,3) that untouched_range by (simp add: bootstrap_untouched_def member_at_def) blast
  ultimately show ?thesis using g by (auto simp: etcd_all_flags_def user_flags_untouched etcd_flags_def member_at_def Let_def split: if_splits)
qed

lemma initial_cluster_nth:
  "i \<in> {1, 2, 3} \<Longrightarrow> initial_cluster (member_at ls i) ! nat (i - 1) =
     etcd_PodName (lockserver_name ls) i @ ''='' @ advertise_urls (member_at ls i) ! nat (i - 1)"
  by (auto simp: initial_cluster_def member_at_def NumReplicas_def eval_nat_numeral)

lemma initial_cluster_length: "length (initial_cluster spec) = 3"
  by (simp add: initial_cluster_def NumReplicas_def)

text \<open>Two members of lockservers with one name and one list of URLs, possibly on different Kubernetes clusters.\<close>

lemma initial_cluster_cong:
  assumes "lockserver_name ls = lockserver_name ls'"
    and "et_AdvertisePeerURLs (template_of ls) = et_AdvertisePeerURLs (template_of ls')"
  shows "initial_cluster (member_at ls i) = initial_cluster (member_at ls' j)"
  by (simp add: initial_cluster_def advertise_urls_def member_at_def peer_url_def [abs_def] assms)

lemma member_entry:
  assumes "i \<in> {1, 2, 3}"
  shows "etcd_PodName (lockserver_name ls) i @ ''='' @ advertise_urls (member_at ls i) ! nat (i - 1) \<in> set (initial_cluster (member_at ls i))"
  using assms unfolding initial_cluster_nth [OF assms, symmetric] by (intro nth_mem) (auto simp: initial_cluster_length)

section \<open>Labels, Services and the budget\<close>

lemma member_labels_wf: "gomap_wf (member_labels ls (lockserver_labels ls) i)"
  by (simp add: member_labels_def add_cluster_label_def gomap_wf_set_entries distinct_update split: option.split)

text \<open>The labels that Services and the controller itself select by.\<close>

definition selecting_labels :: "string set" where
  "selecting_labels = {LockserverLabel, ComponentLabel, ClusterLabel}"

lemmas label_names = LockserverLabel_def IndexLabel_def ComponentLabel_def ClusterLabel_def

lemma member_selected:
  assumes "(l, v) \<in> set (extended_labels ls)"
  shows "map_of (member_labels ls (lockserver_labels ls) i) l = Some v" "l \<in> selecting_labels"
proof -
  have "gomap_wf (extended_labels ls)"
    by (simp add: extended_labels_def add_cluster_label_def distinct_update label_names split: option.split)
  with assms have "map_of (extended_labels ls) l = Some v" by simp
  then show "map_of (member_labels ls (lockserver_labels ls) i) l = Some v" "l \<in> selecting_labels"
    by (auto simp: extended_labels_def member_labels_def add_cluster_label_def lockserver_labels_def map_of_set_entries
        selecting_labels_def update_conv' label_names split: option.splits if_splits)
qed

lemma new_pod_labels:
  assumes "etcd_NewPod lib key spec = Some pod" "gomap_wf (es_Labels spec)" "gomap_wf (es_ExtraLabels spec)"
  shows "ko_labels pod = map_of (es_Labels spec) ++ map_of (es_ExtraLabels spec)"
  using assms by (auto simp: etcd_NewPod_def etcd_UpdatePod_def empty_pod_def Labels_def StringMap_eq Let_def)

lemma new_pod_address:
  assumes "etcd_NewPod lib key spec = Some pod"
  shows "psp_Hostname (tpb_Spec (ko_body pod)) = etcd_PodName (es_LockserverName spec) (es_Index spec)"
    "psp_Subdomain (tpb_Spec (ko_body pod)) = PeerServiceName (es_LockserverName spec)"
  using assms by (auto simp: etcd_NewPod_def etcd_UpdatePod_def etcd_pod_spec_def Let_def)

lemma ServiceOverrides_body:
  "svb_Selector (ko_body (ServiceOverrides so svc)) = svb_Selector (ko_body svc)"
  "svb_Ports (ko_body (ServiceOverrides so svc)) = svb_Ports (ko_body svc)"
  by (simp_all add: ServiceOverrides_def Let_def split: option.split)

lemma new_service_bodies:
  "svb_Selector (ko_body (New (client_strategy ls) ck)) = extended_labels ls"
  "svb_Selector (ko_body (New (peer_strategy ls) pk)) = extended_labels ls"
  "svb_Ports (ko_body (New (client_strategy ls) ck)) = [\<lparr>spo_Name = ClientPortName, spo_Protocol = ''TCP'', spo_Port = ClientPortNumber,
     spo_TargetPort = ClientPortName\<rparr>]"
  "svb_Ports (ko_body (New (peer_strategy ls) pk)) = [\<lparr>spo_Name = PeerPortName, spo_Protocol = ''TCP'', spo_Port = PeerPortNumber,
     spo_TargetPort = PeerPortName\<rparr>]"
  by (simp_all add: client_strategy_def peer_strategy_def in_place_only_def ServiceOverrides_body NewClientService_def
      NewPeerService_def UpdateClientService_def UpdatePeerService_def Let_def)

lemma new_services:
  assumes "svc \<in> {New (client_strategy ls) ck, New (peer_strategy ls) pk}"
  shows "svb_Selector (ko_body svc) = extended_labels ls"
    "port \<in> set (svb_Ports (ko_body svc)) \<Longrightarrow>
       \<exists>p \<in> set (c_ports (etcdContainer lib spec args)). cp_name p = spo_TargetPort port \<and> cp_port p = spo_Port port"
  using assms by (auto simp: new_service_bodies etcdContainer_def)

lemma member_pod:
  assumes "(key, spec) \<in> set (keyed_members ls)"
  obtains pod where "etcd_NewPod lib key spec = Some pod" "New (member_strategy lib (member_map_of (keyed_members ls))) key = pod"
proof -
  obtain i where "i \<in> {1, 2, 3}" "spec = member_at ls i" using assms by (rule keyed_member)
  then have "etcd_Args lib spec \<noteq> None" using etcd_Args_member by blast
  then show thesis using assms that by (auto simp: member_strategy_def member_map_members etcd_NewPod_def etcd_UpdatePod_def)
qed

section \<open>Availability\<close>

text \<open>The controller sees a member as ready if its Pod exists under its name, belongs to the lockserver and is ready.\<close>

definition member_ready :: "etcd_controller_env \<Rightarrow> EtcdLockserver \<Rightarrow> object_key \<Rightarrow> bool" where
  "member_ready env ls key =
     (case kget (ec_pods env) key of
        Found pod \<Rightarrow> \<not> ko_evictable pod \<and> hasMatchingLabels pod (lockserver_labels ls) \<and> tpb_Ready (ko_body pod)
      | _ \<Rightarrow> False)"

lemma count_none: "(\<And>k obj. CallStatus k obj \<notin> set es) \<Longrightarrow> fold count_ready es n = n"
proof (induction es arbitrary: n)
  case (Cons e es)
  have "count_ready e n = n" using Cons.prems by (cases e) auto
  moreover have "fold count_ready es n = n" using Cons.prems by (intro Cons.IH) auto
  ultimately show ?case by simp
qed simp

lemma count_object:
  assumes "has_Status s"
  shows "fold count_ready (fst (ReconcileObject (ec_pods env) s (lockserver_labels ls) key True)) n =
     (if member_ready env ls key then n + 1 else n)"
proof (cases "kget (ec_pods env) key")
  case NotFound
  then show ?thesis
    by (simp add: ReconcileObject_def remove_evicted_def reconcile_wanted_def member_ready_def count_none no_status_calls)
next
  case (GetError e)
  then show ?thesis by (simp add: ReconcileObject_def member_ready_def)
next
  case (Found pod)
  then show ?thesis using assms
    by (auto simp: ReconcileObject_def remove_evicted_def reconcile_wanted_def member_ready_def count_none no_status_calls
        split: option.split)
qed

lemma count_unwanted: "fold count_ready (fst (reconcile_keys env s labels False keys b)) n = n"
  by (rule count_none) (auto simp: reconcile_keys_trace dest: status_call_found)

lemma count_wanted:
  assumes "has_Status s"
  shows "fold count_ready (fst (reconcile_keys (ec_pods env) s (lockserver_labels ls) True keys b)) n =
     n + length (filter (member_ready env ls) keys)"
proof (induction keys arbitrary: b n)
  case (Cons key keys)
  then show ?case using count_object [OF assms, of env ls key n]
    by (cases "ReconcileObject (ec_pods env) s (lockserver_labels ls) key True")
      (auto simp: split_beta)
qed simp

lemma count_members:
  assumes "has_Status s"
  shows "fold count_ready (fst (ReconcileObjectSet (ec_pods env) s (lockserver_labels ls) keys)) 0 =
     (case klist (ec_pods env) of Inl _ \<Rightarrow> 0 | Inr _ \<Rightarrow> length (filter (member_ready env ls) keys))"
  using count_wanted [OF assms, of env ls keys empty_builder 0]
  by (simp add: ReconcileObjectSet_def split_beta count_unwanted split: sum.split)

lemma at_most_one_local: "et_LocalMemberIndex (template_of ls) \<noteq> None \<Longrightarrow> length (keyed_members ls) \<le> 1"
  by (auto simp: keyed_members_eq is_local_def)

lemma all_local: "et_LocalMemberIndex (template_of ls) = None \<Longrightarrow> length (keyed_members ls) = NumReplicas"
  by (simp add: keyed_members_eq is_local_def NumReplicas_def)

lemma ready_keys: "length (filter P (map fst (keyed_members ls))) = card {key \<in> fst ` set (keyed_members ls). P key}"
proof -
  have "distinct (filter P (map fst (keyed_members ls)))" using keyed_members_distinct by (rule distinct_filter)
  from distinct_card [OF this] show ?thesis by (simp only: set_filter set_map)
qed

section \<open>What is deleted\<close>

text \<open>Only Pods can be evicted.\<close>

definition never_evictable :: "('b, 'e) kube_env \<Rightarrow> bool" where
  "never_evictable env \<longleftrightarrow> (\<forall>key obj. kget env key = Found obj \<longrightarrow> \<not> ko_evictable obj)"

lemma may_delete_reasons:
  assumes "may_delete env s labels key wanted obj" "never_evictable env"
  shows "kget env key = Found obj" "hasMatchingLabels obj labels"
    "wanted \<Longrightarrow> UpdateRecreate s = None \<Longrightarrow> UpdateRollingRecreate s \<noteq> None"
    "\<not> wanted \<Longrightarrow> PrepareForTurndown s = Some prepare \<Longrightarrow> snd (prepare key obj) = None"
proof -
  show "kget env key = Found obj" using assms(1) by (simp add: may_delete_def)
  then have "\<not> ko_evictable obj" using assms(2) unfolding never_evictable_def by blast
  then show "hasMatchingLabels obj labels" "wanted \<Longrightarrow> UpdateRecreate s = None \<Longrightarrow> UpdateRollingRecreate s \<noteq> None"
    "\<not> wanted \<Longrightarrow> PrepareForTurndown s = Some prepare \<Longrightarrow> snd (prepare key obj) = None"
    using assms(1) by (simp_all add: may_delete_def)
qed

lemma in_place_only_keeps:
  assumes "never_evictable env"
  shows "DeleteObj obj \<notin> set (fst (ReconcileObject env (in_place_only new update) labels key True))"
  using may_delete_reasons(3) [OF ReconcileObject_may_delete assms] by (fastforce simp: in_place_only_def)

lemma owner_keeps:
  assumes "never_evictable env"
  shows "DeleteObj obj \<notin> set (fst (ReconcileObject env (owner_strategy tpl labels zone) labels key wanted))"
proof
  assume "DeleteObj obj \<in> set (fst (ReconcileObject env (owner_strategy tpl labels zone) labels key wanted))"
  note may = ReconcileObject_may_delete [OF this]
  show False
    using may_delete_reasons(3) [OF may assms] may_delete_reasons(4) [OF may assms] by (cases wanted) (auto simp: owner_strategy_def Let_def)
qed

lemma claim_member_deleted:
  assumes "DeleteObj obj \<in> set (fst (ReconcileObjectSet env (claim_strategy members) labels keys))" "never_evictable env"
  shows "\<exists>key. kget env key = Found obj \<and> key \<notin> set keys \<and> hasMatchingLabels obj labels"
proof -
  from ReconcileObjectSet_may_delete [OF assms(1)] obtain key
    where may: "may_delete env (claim_strategy members) labels key (key \<in> set keys) obj" by blast
  have "key \<notin> set keys" using may_delete_reasons(3) [OF may assms(2)] by (auto simp: claim_strategy_def in_place_only_def)
  then show ?thesis using may_delete_reasons(1,2) [OF may assms(2)] by blast
qed

lemma member_deleted:
  assumes "DeleteObj obj \<in> set (fst (ReconcileObjectSet env (member_strategy lib members) labels keys))"
  shows "\<exists>key. kget env key = Found obj \<and> (ko_evictable obj \<or> hasMatchingLabels obj labels
    \<and> (key \<in> set keys \<longrightarrow> rollout_Released obj \<and> (drain_Supported obj \<longrightarrow> drain_Finished obj)))"
proof -
  from ReconcileObjectSet_may_delete [OF assms(1)] obtain key where "may_delete env (member_strategy lib members) labels key (key \<in> set keys) obj" by blast
  then show ?thesis by (intro exI [of _ key]) (auto simp: may_delete_def member_strategy_def split: if_splits)
qed

lemma keyed_members_status: "keyed_members (ls\<lparr>ko_body := (ko_body ls)\<lparr>elb_Status := st\<rparr>\<rparr>) = keyed_members ls"
  by (simp add: keyed_members_eq is_local_def member_key_def member_at_def member_spec_def member_labels_def
      add_cluster_label_def lockserver_labels_def Let_def [abs_def] cong: filter_cong)

text \<open>The effects of a reconciliation that found its lockserver.\<close>

lemma etcd_Reconcile_parts:
  assumes "etcd_Reconcile env = Some (es, out)" "e \<in> set es"
  obtains obj ls svc members ls' budget where "ec_get env = Found obj"
    "ls = (DefaultEtcdLockserver (ec_lib env) obj)\<lparr>ko_body := (ko_body (DefaultEtcdLockserver (ec_lib env) obj))\<lparr>elb_Status := NewEtcdLockserverStatus\<rparr>\<rparr>"
    "reconcileServices env ls = Some svc" "reconcileMembers env ls = Some (members, ls')"
    "reconcilePodDisruptionBudget env ls' = Some budget"
    "e \<in> set (fst svc) \<or> e \<in> set (fst members) \<or> e \<in> set (fst budget) \<or> e \<in> range EtcdStatus \<or> e \<in> range EtcdEvent"
  using assms by (auto simp: etcd_Reconcile_def Let_def write_status_def split: get_answer.splits option.splits prod.splits if_splits)

lemma in_place_only_trace:
  "ReconcileObject env (client_strategy ls) labels key True = (es, err) \<Longrightarrow> never_evictable env \<Longrightarrow> DeleteObj obj \<notin> set es"
  "ReconcileObject env (peer_strategy ls) labels key True = (es, err) \<Longrightarrow> never_evictable env \<Longrightarrow> DeleteObj obj \<notin> set es"
  "ReconcileObject env' (budget_strategy ls) labels key True = (es', err) \<Longrightarrow> never_evictable env' \<Longrightarrow> DeleteObj obj' \<notin> set es'"
  using in_place_only_keeps [of env obj] in_place_only_keeps [of env' obj']
  unfolding client_strategy_def peer_strategy_def budget_strategy_def by (metis fst_conv)+

lemma services_effects:
  assumes "reconcileServices env ls = Some svc" "never_evictable (ec_services env)" "e \<in> set (fst svc)"
  shows "\<exists>x. e = EtcdService x \<and> (\<forall>obj. x \<noteq> DeleteObj obj)"
  using assms by (auto simp: reconcileServices_def Let_def split: option.splits prod.splits if_splits) (metis in_place_only_trace)+

lemma budget_effects:
  assumes "reconcilePodDisruptionBudget env ls = Some b" "never_evictable (ec_budgets env)" "e \<in> set (fst b)"
  shows "\<exists>x. e = EtcdBudget x \<and> (\<forall>obj. x \<noteq> DeleteObj obj)"
  using assms by (auto simp: reconcilePodDisruptionBudget_def split: option.splits prod.splits bool.splits) (metis in_place_only_trace(3))

lemma members_effects:
  assumes "reconcileMembers env ls = Some (m, ls')" "e \<in> set (fst m)"
  shows "(\<exists>x. e = EtcdClaim x \<and> x \<in> set (fst (ReconcileObjectSet (ec_claims env) (claim_strategy (member_map_of (keyed_members ls)))
         (lockserver_labels ls) (map fst (keyed_members ls)))))
    \<or> (\<exists>x. e = EtcdPod x \<and> x \<in> set (fst (ReconcileObjectSet (ec_pods env) (member_strategy (ec_lib env) (member_map_of (keyed_members ls)))
         (lockserver_labels ls) (map fst (keyed_members ls)))))"
  using assms by (auto simp: reconcileMembers_def Let_def split: prod.splits if_splits)

lemma etcd_Reconcile_effects:
  assumes "etcd_Reconcile env = Some (es, out)" "e \<in> set es" "never_evictable (ec_services env)" "never_evictable (ec_budgets env)"
  obtains obj where "ec_get env = Found obj"
    "(\<exists>x. e = EtcdService x \<and> (\<forall>o'. x \<noteq> DeleteObj o')) \<or> (\<exists>x. e = EtcdBudget x \<and> (\<forall>o'. x \<noteq> DeleteObj o'))
     \<or> (\<exists>x m. e = EtcdClaim x \<and> x \<in> set (fst (ReconcileObjectSet (ec_claims env) (claim_strategy m) (lockserver_labels obj)
          (map fst (keyed_members (DefaultEtcdLockserver (ec_lib env) obj))))))
     \<or> (\<exists>x m. e = EtcdPod x \<and> x \<in> set (fst (ReconcileObjectSet (ec_pods env) (member_strategy (ec_lib env) m) (lockserver_labels obj)
          (map fst (keyed_members (DefaultEtcdLockserver (ec_lib env) obj))))))
     \<or> e \<in> range EtcdStatus \<or> e \<in> range EtcdEvent"
proof -
  obtain obj ls svc members ls' budget where get: "ec_get env = Found obj"
    and ls: "ls = (DefaultEtcdLockserver (ec_lib env) obj)\<lparr>ko_body := (ko_body (DefaultEtcdLockserver (ec_lib env) obj))\<lparr>elb_Status := NewEtcdLockserverStatus\<rparr>\<rparr>"
    and parts: "reconcileServices env ls = Some svc" "reconcileMembers env ls = Some (members, ls')"
      "reconcilePodDisruptionBudget env ls' = Some budget"
      "e \<in> set (fst svc) \<or> e \<in> set (fst members) \<or> e \<in> set (fst budget) \<or> e \<in> range EtcdStatus \<or> e \<in> range EtcdEvent"
    by (rule etcd_Reconcile_parts [OF assms(1,2)])
  have labels: "lockserver_labels ls = lockserver_labels obj" by (simp add: ls lockserver_labels_def DefaultEtcdLockserver_def)
  have keyed: "keyed_members ls = keyed_members (DefaultEtcdLockserver (ec_lib env) obj)" unfolding ls by (rule keyed_members_status)
  from parts(4) show thesis
    using services_effects [OF parts(1) assms(3), of e] budget_effects [OF parts(3) assms(4), of e]
      members_effects [OF parts(2), of e, unfolded labels keyed]
    by (elim disjE; intro that [OF get]) blast+
qed

lemma owner_trace:
  "keep_lockserver env tpl labels zone key st = (es, st', err) \<Longrightarrow> never_evictable env \<Longrightarrow> DeleteObj obj \<notin> set es"
  using owner_keeps [of env obj tpl labels zone key "tpl \<noteq> None"] by (auto simp: keep_lockserver_def Let_def split: prod.splits)

section \<open>Examples\<close>

definition example_lockserver :: "32 word option \<Rightarrow> EtcdLockserver" where
  "example_lockserver local =
     blank_object \<lparr>elb_Template = empty_etcd_template\<lparr>et_LocalMemberIndex := local, et_CreatePDB := Some False,
         et_CreateClientService := Some False, et_CreatePeerService := Some False\<rparr>,
       elb_Zone = [], elb_Generation = 1, elb_Status = NewEtcdLockserverStatus\<rparr> (''ns'', ''c-etcd'')"

definition example_etcd_lib :: etcd_lib where
  "example_etcd_lib = \<lparr>el_RunAsUser = -1, el_FSGroup = -1, el_ServiceAccount = [], el_PriorityClass = [], el_Image = ''etcd:v3'',
     el_visit = (\<lambda>n ks. ks), el_MatchToleration = (=)\<rparr>"

lemma example_template:
  "template_of (example_lockserver local) = empty_etcd_template\<lparr>et_LocalMemberIndex := local, et_CreatePDB := Some False,
     et_CreateClientService := Some False, et_CreatePeerService := Some False\<rparr>"
  "ko_key (example_lockserver local) = (''ns'', ''c-etcd'')"
  by (simp_all add: example_lockserver_def blank_object_def)

lemma empty_template:
  "px_ExtraFlags empty_etcd_template = []" "px_ExtraLabels empty_etcd_template = []" "et_AdvertisePeerURLs empty_etcd_template = []"
  by (simp_all add: empty_etcd_template_def etcd_template.defs pod_extras.defs empty_extras_def)

lemma example_members:
  "keyed_members (example_lockserver None) = map (\<lambda>i. (member_key (example_lockserver None) i, member_at (example_lockserver None) i)) [1, 2, 3]"
  "keyed_members (example_lockserver (Some 2)) = [(member_key (example_lockserver (Some 2)) 2, member_at (example_lockserver (Some 2)) 2)]"
  by (simp_all add: keyed_members_eq is_local_def example_template)

lemma example_untouched: "bootstrap_untouched (example_lockserver local)"
  by (simp add: bootstrap_untouched_def untouched_def example_template empty_template)

text \<open>A live claim and a live Pod of a member; the Pod is being deleted already.\<close>

definition example_etcd_claim :: "int \<Rightarrow> etcd_pvc" where
  "example_etcd_claim i = (blank_object no_claim (member_key (example_lockserver None) i))\<lparr>ko_labels := [LockserverLabel \<mapsto> ''c-etcd'']\<rparr>"

definition example_etcd_pod :: "int \<Rightarrow> tablet_pod" where
  "example_etcd_pod i = (empty_pod (member_key (example_lockserver None) i))\<lparr>ko_labels := [LockserverLabel \<mapsto> ''c-etcd''],
     ko_deleting := True, ko_body := \<lparr>tpb_Spec = empty_pod_spec, tpb_Phase = ''Running'', tpb_Ready = True\<rparr>\<rparr>"

definition example_api :: "(object_key \<Rightarrow> ('b, string) get_answer) \<Rightarrow> string + 'b kobj list \<Rightarrow> ('b, string) kube_env" where
  "example_api get list = \<lparr>kget = get, kdelete = (\<lambda>x. None), kcreate = (\<lambda>x. None), kupdate = (\<lambda>x. None), klist = list,
     set_owner = Inr, defaulted = (\<lambda>x. x), semantic_equal = (\<lambda>a b. True), describe = (\<lambda>a b. []), collision = ''collision''\<rparr>"

text \<open>Only member 2 is local; the claim of member 1 is left over, and member 2's Pod is ready.\<close>

definition example_etcd_env :: etcd_controller_env where
  "example_etcd_env =
     \<lparr>ec_lib = example_etcd_lib, ec_get = Found (example_lockserver (Some 2)),
      ec_services = example_api (\<lambda>k. NotFound) (Inr []),
      ec_claims = example_api (\<lambda>k. if k = member_key (example_lockserver None) 1 then Found (example_etcd_claim 1) else GetError ''slow'')
        (Inr [example_etcd_claim 1]),
      ec_pods = example_api (\<lambda>k. if k = member_key (example_lockserver None) 2 then Found (example_etcd_pod 2) else NotFound) (Inr []),
      ec_budgets = example_api (\<lambda>k. NotFound) (Inr []), ec_status_error = (\<lambda>ls. None), ec_conflict = (\<lambda>e. False)\<rparr>"

lemma example_keys: "member_key (example_lockserver local) i = (''ns'', etcd_PodName ''c-etcd'' i)"
  by (simp add: member_key_def example_template)

lemma example_claim_pass:
  assumes "labels = [(LockserverLabel, ''c-etcd'')]"
  shows "ReconcileObjectSet (ec_claims example_etcd_env) (claim_strategy m) labels [member_key (example_lockserver None) 2]
     = ([RecordEvent ''GetFailed'', DeleteObj (example_etcd_claim 1), RecordEvent ''Deleted''], Some ''slow'')"
  by (simp add: assms ReconcileObjectSet_def example_etcd_env_def example_api_def example_keys example_etcd_claim_def blank_object_def
      etcd_PodName_inj ReconcileObject_def remove_evicted_def reconcile_unwanted_def hasMatchingLabels_def claim_strategy_def
      in_place_only_def kube_delete_def builder_Result_def builder_Error_def empty_builder_def)

lemma example_pod_pass:
  assumes "labels = [(LockserverLabel, ''c-etcd'')]"
  shows "ReconcileObjectSet (ec_pods example_etcd_env) (member_strategy lib m) labels [member_key (example_lockserver None) 2]
     = ([CallStatus (member_key (example_lockserver None) 2) (example_etcd_pod 2)], None)"
  by (simp add: assms ReconcileObjectSet_def example_etcd_env_def example_api_def example_keys example_etcd_pod_def empty_pod_def
      ReconcileObject_def remove_evicted_def reconcile_wanted_def hasMatchingLabels_def member_strategy_def
      builder_Result_def empty_builder_def)

lemma example_panic_free:
  "\<not> claim_hook_panics example_etcd_env labels m [member_key (example_lockserver None) 2]"
  "\<not> member_hook_panics lib m [CallStatus (member_key (example_lockserver None) 2) (example_etcd_pod 2)]"
  by (simp_all add: claim_hook_panics_def member_hook_panics_def example_etcd_env_def example_api_def example_keys etcd_PodName_inj
      example_etcd_pod_def)

lemma example_members_pass:
  assumes "template_of ls = template_of (DefaultEtcdLockserver example_etcd_lib (example_lockserver (Some 2)))" "ko_key ls = (''ns'', ''c-etcd'')"
  shows "\<exists>r. reconcileMembers example_etcd_env ls =
     Some ((map EtcdClaim [RecordEvent ''GetFailed'', DeleteObj (example_etcd_claim 1), RecordEvent ''Deleted'']
        @ [EtcdPod (CallStatus (member_key (example_lockserver None) 2) (example_etcd_pod 2))], r), set_available CondTrue ls)"
proof -
  have local: "et_LocalMemberIndex (template_of ls) = Some 2"
    by (simp add: assms(1) DefaultEtcdLockserver_def DefaultEtcdLockserverTemplate_def example_template)
  have keys: "map fst (keyed_members ls) = [member_key (example_lockserver None) 2]"
    by (simp add: keyed_members_eq is_local_def local member_key_def assms(2) example_template)
  have labels: "lockserver_labels ls = [(LockserverLabel, ''c-etcd'')]" by (simp add: lockserver_labels_def assms(2))
  have "tpb_Ready (ko_body (example_etcd_pod 2))" by (simp add: example_etcd_pod_def)
  then show ?thesis
    by (simp add: reconcileMembers_def Let_def keys example_claim_pass [OF labels] example_pod_pass [OF labels]
        example_panic_free etcd_available_def local ConditionStatus_def)
qed

lemma example_reconcile:
  "\<exists>es out. etcd_Reconcile example_etcd_env = Some (es, out) \<and> EtcdClaim (DeleteObj (example_etcd_claim 1)) \<in> set es"
proof -
  let ?ls = "DefaultEtcdLockserver example_etcd_lib (example_lockserver (Some 2))"
  let ?ls' = "?ls\<lparr>ko_body := (ko_body ?ls)\<lparr>elb_Status := NewEtcdLockserverStatus\<rparr>\<rparr>"
  have get: "ec_get example_etcd_env = Found (example_lockserver (Some 2))" "ec_lib example_etcd_env = example_etcd_lib"
    "ec_status_error example_etcd_env = (\<lambda>ls. None)"
    by (simp_all add: example_etcd_env_def)
  have flags: "et_CreatePDB (template_of ?ls) = Some False" "et_CreateClientService (template_of ?ls) = Some False"
    "et_CreatePeerService (template_of ?ls) = Some False"
    by (simp_all add: DefaultEtcdLockserver_def DefaultEtcdLockserverTemplate_def example_template)
  have "ko_key ?ls' = (''ns'', ''c-etcd'')" by (simp add: DefaultEtcdLockserver_def example_template)
  then obtain r where members: "reconcileMembers example_etcd_env ?ls' =
     Some ((map EtcdClaim [RecordEvent ''GetFailed'', DeleteObj (example_etcd_claim 1), RecordEvent ''Deleted'']
        @ [EtcdPod (CallStatus (member_key (example_lockserver None) 2) (example_etcd_pod 2))], r), set_available CondTrue ?ls')"
    using example_members_pass [of ?ls'] by auto
  have services: "reconcileServices example_etcd_env ?ls' = Some ([], builder_Result (error_step None (error_step None empty_builder)))"
    using flags by (simp add: reconcileServices_def Let_def)
  have budget: "reconcilePodDisruptionBudget example_etcd_env (set_available CondTrue ?ls') = Some ([], builder_Result empty_builder)"
    using flags by (simp add: reconcilePodDisruptionBudget_def set_available_def)
  show ?thesis
    by (simp add: etcd_Reconcile_def get Let_def services members budget split_beta del: kobj.update_convs)
qed

section \<open>Properties\<close>

text \<open>C17: Static bootstrapping works.  Any two members of one lockserver, even when each is deployed by a lockserver object of its
  own on another Kubernetes cluster, get the same list of three initial members and the same token; the name and the peer
  URL of each are an entry of that list, and members of different indices have different names, unless the user
  overrides these flags.\<close>

theorem etcd_members_agree:
  assumes "(key, spec) \<in> set (keyed_members ls)" "(key', spec') \<in> set (keyed_members ls')"
    and "lockserver_name ls = lockserver_name ls'"
    and "et_AdvertisePeerURLs (template_of ls) = et_AdvertisePeerURLs (template_of ls')"
    and "bootstrap_untouched ls" "bootstrap_untouched ls'" "visits (el_visit lib)"
  shows "\<exists>f f' cluster n n' u u'. etcd_all_flags lib spec = Some f \<and> etcd_all_flags lib spec' = Some f' \<and> length cluster = 3
    \<and> (\<forall>g \<in> {f, f'}. map_of g ''initial-cluster'' = Some (FString (join_with '','' cluster))
         \<and> map_of g ''initial-cluster-token'' = Some (FString (lockserver_name ls)))
    \<and> map_of f ''name'' = Some (FString n) \<and> map_of f ''initial-advertise-peer-urls'' = Some (FString u) \<and> n @ ''='' @ u \<in> set cluster
    \<and> map_of f' ''name'' = Some (FString n') \<and> map_of f' ''initial-advertise-peer-urls'' = Some (FString u') \<and> n' @ ''='' @ u' \<in> set cluster
    \<and> (n = n' \<longleftrightarrow> es_Index spec = es_Index spec')"
proof -
  from assms(1) obtain i where i: "i \<in> {1, 2, 3}" "spec = member_at ls i" by (rule keyed_member)
  from assms(2) obtain j where j: "j \<in> {1, 2, 3}" "spec' = member_at ls' j" by (rule keyed_member)
  let ?cluster = "initial_cluster (member_at ls i)"
  have cluster: "initial_cluster (member_at ls' j) = ?cluster" by (rule initial_cluster_cong [OF assms(3,4), symmetric])
  obtain f where f: "etcd_all_flags lib spec = Some f" "map_of f ''initial-cluster'' = Some (FString (join_with '','' ?cluster))"
    "map_of f ''initial-cluster-token'' = Some (FString (lockserver_name ls))"
    "map_of f ''name'' = Some (FString (etcd_PodName (lockserver_name ls) i))"
    "map_of f ''initial-advertise-peer-urls'' = Some (FString (advertise_urls (member_at ls i) ! nat (i - 1)))"
    using member_flags [OF i(1) assms(5,7)] unfolding i(2) by blast
  obtain f' where f': "etcd_all_flags lib spec' = Some f'" "map_of f' ''initial-cluster'' = Some (FString (join_with '','' ?cluster))"
    "map_of f' ''initial-cluster-token'' = Some (FString (lockserver_name ls))"
    "map_of f' ''name'' = Some (FString (etcd_PodName (lockserver_name ls) j))"
    "map_of f' ''initial-advertise-peer-urls'' = Some (FString (advertise_urls (member_at ls' j) ! nat (j - 1)))"
    using member_flags [OF j(1) assms(6,7)] unfolding j(2) cluster assms(3) [symmetric] by blast
  have index: "es_Index spec = i" "es_Index spec' = j" by (simp_all add: i(2) j(2) member_at_def)
  have agree: "\<forall>g \<in> {f, f'}. map_of g ''initial-cluster'' = Some (FString (join_with '','' ?cluster))
      \<and> map_of g ''initial-cluster-token'' = Some (FString (lockserver_name ls))"
    using f(2,3) f'(2,3) by blast
  have entries: "etcd_PodName (lockserver_name ls) i @ ''='' @ advertise_urls (member_at ls i) ! nat (i - 1) \<in> set ?cluster"
    "etcd_PodName (lockserver_name ls) j @ ''='' @ advertise_urls (member_at ls' j) ! nat (j - 1) \<in> set ?cluster"
    using member_entry [OF i(1), of ls] member_entry [OF j(1), of ls'] unfolding cluster assms(3) [symmetric] .
  have names: "etcd_PodName (lockserver_name ls) i = etcd_PodName (lockserver_name ls) j \<longleftrightarrow> es_Index spec = es_Index spec'"
    unfolding index by (rule etcd_PodName_inj [OF i(1) j(1)])
  show ?thesis by (intro exI conjI) (rule f f' agree entries names initial_cluster_length)+
qed

theorem etcd_members_agree_witness:
  "\<exists>f f'. etcd_all_flags example_etcd_lib (member_at (example_lockserver None) 1) = Some f
     \<and> etcd_all_flags example_etcd_lib (member_at (example_lockserver (Some 2)) 2) = Some f'
     \<and> map_of f ''initial-cluster'' = map_of f' ''initial-cluster'' \<and> map_of f ''name'' \<noteq> map_of f' ''name''"
proof -
  have members: "(member_key (example_lockserver None) 1, member_at (example_lockserver None) 1) \<in> set (keyed_members (example_lockserver None))"
    "(member_key (example_lockserver (Some 2)) 2, member_at (example_lockserver (Some 2)) 2) \<in> set (keyed_members (example_lockserver (Some 2)))"
    by (simp_all add: example_members)
  have same: "lockserver_name (example_lockserver None) = lockserver_name (example_lockserver (Some 2))"
    "et_AdvertisePeerURLs (template_of (example_lockserver None)) = et_AdvertisePeerURLs (template_of (example_lockserver (Some 2)))"
    by (simp_all add: example_template)
  have visits: "visits (el_visit example_etcd_lib)" by (simp add: example_etcd_lib_def visits_def)
  have "es_Index (member_at (example_lockserver None) 1) \<noteq> es_Index (member_at (example_lockserver (Some 2)) 2)"
    by (simp add: member_at_def)
  with etcd_members_agree [OF members same example_untouched example_untouched visits] show ?thesis
    by (elim exE conjE) (intro exI conjI, assumption+, simp_all)
qed

text \<open>C20: The objects of an etcd cluster fit together.  The Pod that the controller creates for a member carries every label
  by which the Services, the disruption budget and the controller itself select it; the Services lead to ports that its
  container opens; and the peer URL that the member advertises by default is the DNS name that the Pod gets from the
  headless peer Service.  The user's labels must not hide the selecting ones.\<close>

theorem etcd_objects_fit:
  assumes "(key, spec) \<in> set (keyed_members ls)"
    and "gomap_wf (px_ExtraLabels (template_of ls))" "fst ` set (px_ExtraLabels (template_of ls)) \<inter> selecting_labels = {}"
    and "pod = New (member_strategy lib (member_map_of (keyed_members ls))) key"
  shows "(\<forall>svc \<in> {New (client_strategy ls) ck, New (peer_strategy ls) pk}.
      (\<forall>(l, v) \<in> set (svb_Selector (ko_body svc)). ko_labels pod l = Some v)
      \<and> (\<forall>port \<in> set (svb_Ports (ko_body svc)).
           \<exists>p \<in> set (c_ports (etcdContainer lib spec args)). cp_name p = spo_TargetPort port \<and> cp_port p = spo_Port port))
    \<and> (\<forall>(l, v) \<in> set (pdb_Selector (ko_body (New (budget_strategy ls) bk))). ko_labels pod l = Some v)
    \<and> hasMatchingLabels pod (lockserver_labels ls)
    \<and> psp_Subdomain (tpb_Spec (ko_body pod)) = PeerServiceName (lockserver_name ls)
    \<and> (length (et_AdvertisePeerURLs (template_of ls)) \<noteq> NumReplicas \<longrightarrow>
        advertise_urls spec ! nat (es_Index spec - 1) =
          concat [''http://'', psp_Hostname (tpb_Spec (ko_body pod)), ''.'', psp_Subdomain (tpb_Spec (ko_body pod)), '':'',
            dec_int PeerPortNumber])"
proof -
  obtain i where i: "i \<in> {1, 2, 3}" "spec = member_at ls i" using assms(1) by (rule keyed_member)
  obtain pod' where pod': "etcd_NewPod lib key spec = Some pod'"
    "New (member_strategy lib (member_map_of (keyed_members ls))) key = pod'" by (rule member_pod [OF assms(1)])
  have pod: "etcd_NewPod lib key spec = Some pod" using pod' assms(4) by simp
  have labels: "ko_labels pod = map_of (member_labels ls (lockserver_labels ls) i) ++ map_of (px_ExtraLabels (template_of ls))"
    using new_pod_labels [OF pod] assms(2) member_labels_wf [of ls i] by (simp add: i(2) member_at_def)
  have selected: "ko_labels pod l = Some v" if "(l, v) \<in> set (extended_labels ls)" for l v
  proof -
    have "l \<notin> dom (map_of (px_ExtraLabels (template_of ls)))"
      using member_selected(2) [OF that] assms(3) by (auto simp: dom_map_of_conv_image_fst)
    then show ?thesis by (simp add: labels map_add_dom_app_simps member_selected(1) [OF that])
  qed
  moreover have "set (lockserver_labels ls) \<subseteq> set (extended_labels ls)"
    by (auto simp: lockserver_labels_def extended_labels_def add_cluster_label_def label_names split: option.split)
  ultimately have own: "ko_labels pod l = Some v" if "(l, v) \<in> set (lockserver_labels ls)" for l v using that by blast
  have address: "psp_Subdomain (tpb_Spec (ko_body pod)) = PeerServiceName (lockserver_name ls)"
    "peer_url spec i = concat [''http://'', psp_Hostname (tpb_Spec (ko_body pod)), ''.'', psp_Subdomain (tpb_Spec (ko_body pod)), '':'',
      dec_int PeerPortNumber]"
    by (simp_all add: peer_url_def new_pod_address [OF pod] i(2) member_at_def)
  have url: "length (et_AdvertisePeerURLs (template_of ls)) \<noteq> NumReplicas \<longrightarrow>
      advertise_urls spec ! nat (es_Index spec - 1) = concat [''http://'', psp_Hostname (tpb_Spec (ko_body pod)), ''.'',
        psp_Subdomain (tpb_Spec (ko_body pod)), '':'', dec_int PeerPortNumber]"
    unfolding address(2) [symmetric] using i by (auto simp: advertise_urls_def member_indices_eq member_at_def eval_nat_numeral)
  have matching: "hasMatchingLabels pod (lockserver_labels ls)" using own by (auto simp: hasMatchingLabels_def list_all_iff)
  have budget: "\<forall>(l, v) \<in> set (pdb_Selector (ko_body (New (budget_strategy ls) bk))). ko_labels pod l = Some v"
    using own by (auto simp: budget_strategy_def in_place_only_def NewPDB_def blank_object_def)
  have services: "(\<forall>(l, v) \<in> set (svb_Selector (ko_body svc)). ko_labels pod l = Some v)
      \<and> (\<forall>port \<in> set (svb_Ports (ko_body svc)).
           \<exists>p \<in> set (c_ports (etcdContainer lib spec args)). cp_name p = spo_TargetPort port \<and> cp_port p = spo_Port port)"
    if "svc \<in> {New (client_strategy ls) ck, New (peer_strategy ls) pk}" for svc
    using new_services [OF that] selected by auto
  show ?thesis using services budget matching address(1) url by blast
qed

theorem etcd_objects_fit_witness:
  "hasMatchingLabels (New (member_strategy example_etcd_lib (member_map_of (keyed_members (example_lockserver None))))
      (member_key (example_lockserver None) 3)) (lockserver_labels (example_lockserver None))"
proof -
  have "(member_key (example_lockserver None) 3, member_at (example_lockserver None) 3) \<in> set (keyed_members (example_lockserver None))"
    by (simp add: example_members)
  from etcd_objects_fit [OF this _ _ refl, where lib = example_etcd_lib] show ?thesis
    by (simp add: example_template empty_template)
qed

text \<open>C18: The lockserver is reported available exactly when it can serve: if all members are local, a majority of the three is
  ready, and if only one is, that one; nobody is counted when the list of Pods could not be read, and the report is never
  unknown.  The disruption budget asks for just that majority, so it lets one of three Pods go; on a cluster with one local
  member it asks for more Pods than there are and blocks every voluntary eviction.\<close>

theorem etcd_availability_exact:
  assumes "reconcileMembers env ls = Some (out, ls')"
  shows "(est_Available (elb_Status (ko_body ls')) = CondTrue \<longleftrightarrow>
      (\<exists>objs. klist (ec_pods env) = Inr objs)
      \<and> (let ready = card {key \<in> fst ` set (keyed_members ls). member_ready env ls key}
          in if et_LocalMemberIndex (template_of ls) = None then NumReplicas < 2 * ready else ready > 0))
    \<and> est_Available (elb_Status (ko_body ls')) \<in> {CondTrue, CondFalse}
    \<and> pdb_MinAvailable (ko_body (New (budget_strategy ls) key)) =
        (LEAST n. int NumReplicas < 2 * n)
    \<and> (if et_LocalMemberIndex (template_of ls) = None
        then int (length (keyed_members ls)) = pdb_MinAvailable (ko_body (New (budget_strategy ls) key)) + 1
        else int (length (keyed_members ls)) < pdb_MinAvailable (ko_body (New (budget_strategy ls) key)))"
proof -
  define ready where "ready = card {key \<in> fst ` set (keyed_members ls). member_ready env ls key}"
  let ?n = "case klist (ec_pods env) of Inl _ \<Rightarrow> 0 | Inr _ \<Rightarrow> ready"
  have "has_Status (member_strategy (ec_lib env) (member_map_of (keyed_members ls)))" by (simp add: member_strategy_def)
  from count_members [OF this, of env ls "map fst (keyed_members ls)", unfolded ready_keys, folded ready_def]
  have ls': "ls' = set_available (etcd_available ls ?n) ls"
    using assms by (auto simp: reconcileMembers_def Let_def split: prod.splits if_splits)
  have min: "pdb_MinAvailable (ko_body (New (budget_strategy ls) key)) = 2"
    by (simp add: budget_strategy_def in_place_only_def NewPDB_def blank_object_def QuorumSize_def NumReplicas_def)
  have least: "(LEAST n. int NumReplicas < 2 * n) = 2"
    by (rule Least_equality) (simp_all add: NumReplicas_def)
  have members: "if et_LocalMemberIndex (template_of ls) = None then int (length (keyed_members ls)) = 2 + 1
      else int (length (keyed_members ls)) < 2"
    using at_most_one_local [of ls] all_local [of ls] by (auto simp: NumReplicas_def)
  have status: "est_Available (elb_Status (ko_body ls')) = etcd_available ls ?n" by (simp add: ls' set_available_def)
  show ?thesis
    unfolding status min least ready_def [symmetric] using members
    by (auto simp: etcd_available_def ConditionStatus_def QuorumSize_def NumReplicas_def Let_def split: sum.splits if_splits)
qed

theorem etcd_availability_exact_witness:
  "\<exists>out ls'. reconcileMembers example_etcd_env (DefaultEtcdLockserver example_etcd_lib (example_lockserver (Some 2))) = Some (out, ls')
     \<and> est_Available (elb_Status (ko_body ls')) = CondTrue
     \<and> (\<exists>objs. klist (ec_pods example_etcd_env) = Inr objs)"
proof -
  let ?ls = "DefaultEtcdLockserver example_etcd_lib (example_lockserver (Some 2))"
  have "ko_key ?ls = (''ns'', ''c-etcd'')" by (simp add: DefaultEtcdLockserver_def example_template)
  then obtain out where run: "reconcileMembers example_etcd_env ?ls = Some (out, set_available CondTrue ?ls)"
    using example_members_pass [of ?ls] by auto
  have "est_Available (elb_Status (ko_body (set_available CondTrue ?ls))) = CondTrue" by (simp add: set_available_def)
  with run etcd_availability_exact [OF run] show ?thesis by blast
qed

text \<open>C19: Nothing that an etcd cluster stands on is deleted behind the user's back.  The owners of a lockserver never delete it,
  wanted or not.  Its controller never deletes a Service or the disruption budget; it deletes a volume claim only if it
  carries the lockserver's label and belongs to no member that this object deploys, and a Pod only if it was evicted, or
  likewise belongs to no such member, or has been released for a rolling update, after its drain if it supports one.\<close>

theorem etcd_deletes_safe:
  assumes "never_evictable (ec_services env)" "never_evictable (ec_claims env)" "never_evictable (ec_budgets env)" "never_evictable kenv"
  shows "(\<forall>vt st es st' err obj. reconcileGlobalEtcd kenv (vt :: topo_cluster) st = Some (es, st', err) \<longrightarrow> DeleteObj obj \<notin> set es)
    \<and> (\<forall>vtc st es st' err obj. reconcileLocalEtcd kenv (vtc :: VitessCellTemplate kobj) st = Some (es, st', err) \<longrightarrow> DeleteObj obj \<notin> set es)
    \<and> (\<forall>es out. etcd_Reconcile env = Some (es, out) \<longrightarrow>
        (\<forall>obj. EtcdService (DeleteObj obj) \<notin> set es) \<and> (\<forall>obj. EtcdBudget (DeleteObj obj) \<notin> set es)
        \<and> (\<forall>c. EtcdClaim (DeleteObj c) \<in> set es \<longrightarrow> (\<exists>ls key. ec_get env = Found ls \<and> kget (ec_claims env) key = Found c
             \<and> key \<notin> fst ` set (keyed_members (DefaultEtcdLockserver (ec_lib env) ls)) \<and> hasMatchingLabels c (lockserver_labels ls)))
        \<and> (\<forall>p. EtcdPod (DeleteObj p) \<in> set es \<longrightarrow> (\<exists>ls key. ec_get env = Found ls \<and> kget (ec_pods env) key = Found p
             \<and> (ko_evictable p \<or> hasMatchingLabels p (lockserver_labels ls)
                 \<and> (key \<in> fst ` set (keyed_members (DefaultEtcdLockserver (ec_lib env) ls)) \<longrightarrow>
                      rollout_Released p \<and> (drain_Supported p \<longrightarrow> drain_Finished p))))))"
proof (intro conjI allI impI)
  fix vt st es st' err obj assume "reconcileGlobalEtcd kenv (vt :: topo_cluster) st = Some (es, st', err)"
  then show "DeleteObj obj \<notin> set es" using owner_trace [OF _ assms(4)] by (auto simp: reconcileGlobalEtcd_def)
next
  fix vtc st es st' err obj assume "reconcileLocalEtcd kenv (vtc :: VitessCellTemplate kobj) st = Some (es, st', err)"
  then show "DeleteObj obj \<notin> set es" using owner_trace [OF _ assms(4)] by (auto simp: reconcileLocalEtcd_def Let_def)
next
  fix es out x assume run: "etcd_Reconcile env = Some (es, out)"
  show "EtcdService (DeleteObj x) \<notin> set es" by (rule notI, rule etcd_Reconcile_effects [OF run _ assms(1,3)]) auto
  show "EtcdBudget (DeleteObj y) \<notin> set es" for y by (rule notI, rule etcd_Reconcile_effects [OF run _ assms(1,3)]) auto
next
  fix es out c assume run: "etcd_Reconcile env = Some (es, out)" and c: "EtcdClaim (DeleteObj c) \<in> set es"
  obtain obj m where get: "ec_get env = Found obj"
    and set: "DeleteObj c \<in> set (fst (ReconcileObjectSet (ec_claims env) (claim_strategy m) (lockserver_labels obj)
        (map fst (keyed_members (DefaultEtcdLockserver (ec_lib env) obj)))))"
    by (rule etcd_Reconcile_effects [OF run c assms(1,3)]) auto
  from claim_member_deleted [OF set assms(2)] get
  show "\<exists>ls key. ec_get env = Found ls \<and> kget (ec_claims env) key = Found c
      \<and> key \<notin> fst ` set (keyed_members (DefaultEtcdLockserver (ec_lib env) ls)) \<and> hasMatchingLabels c (lockserver_labels ls)"
    unfolding set_map by blast
next
  fix es out p assume run: "etcd_Reconcile env = Some (es, out)" and p: "EtcdPod (DeleteObj p) \<in> set es"
  obtain obj m where get: "ec_get env = Found obj"
    and set: "DeleteObj p \<in> set (fst (ReconcileObjectSet (ec_pods env) (member_strategy (ec_lib env) m) (lockserver_labels obj)
        (map fst (keyed_members (DefaultEtcdLockserver (ec_lib env) obj)))))"
    by (rule etcd_Reconcile_effects [OF run p assms(1,3)]) auto
  from member_deleted [OF set] get
  show "\<exists>ls key. ec_get env = Found ls \<and> kget (ec_pods env) key = Found p
      \<and> (ko_evictable p \<or> hasMatchingLabels p (lockserver_labels ls)
          \<and> (key \<in> fst ` set (keyed_members (DefaultEtcdLockserver (ec_lib env) ls)) \<longrightarrow>
               rollout_Released p \<and> (drain_Supported p \<longrightarrow> drain_Finished p)))"
    unfolding set_map by blast
qed

theorem etcd_deletes_safe_witness:
  "\<exists>es out ls key. etcd_Reconcile example_etcd_env = Some (es, out) \<and> EtcdClaim (DeleteObj (example_etcd_claim 1)) \<in> set es
     \<and> ec_get example_etcd_env = Found ls \<and> kget (ec_claims example_etcd_env) key = Found (example_etcd_claim 1)
     \<and> key \<notin> fst ` set (keyed_members (DefaultEtcdLockserver (ec_lib example_etcd_env) ls))"
proof -
  have "never_evictable (ec_services example_etcd_env)" "never_evictable (ec_claims example_etcd_env)"
    "never_evictable (ec_budgets example_etcd_env)"
    by (simp_all add: never_evictable_def example_etcd_env_def example_api_def example_etcd_claim_def blank_object_def)
  moreover have "never_evictable (example_api (\<lambda>k. NotFound) (Inr []) :: (EtcdLockserver_body, string) kube_env)"
    by (simp add: never_evictable_def example_api_def)
  ultimately show ?thesis using etcd_deletes_safe example_reconcile by meson
qed

end
