(* ===== verification/Spec2Isabelle.thy ===== *)
theory Spec2Isabelle
  imports Drain_Protocol Reconciler Rollout Replication_Init ConnPool Topo_Controllers Backup_Controller Keyspace_Status Tablets_Laws
    Cluster_Objects Etcd_Laws
begin

text \<open>
  A verification development for the Vitess operator, \<open>planetscale/vitess-operator\<close>.

  \<^bold>\<open>The program.\<close>  The operator keeps Vitess clusters on Kubernetes in the state that their VitessCluster objects ask
  for.  A tree of controllers (cluster, cell, keyspace, shard, shard replication, backup schedule, ...) each reconciles
  one kind of object: a pass reads the API server and the topology server, computes what should exist, issues the
  creations, updates and deletions that are missing and reports a status and the time of the next pass.  Rolling
  changes and drains are negotiated over annotations of the Pods, by parties that share no lock.

  \<^bold>\<open>How code becomes definitions.\<close>  A pass is a function from the answers of the API server, the topology server, the
  clock, random choice and the order in which Go ranges over a map (a record of functions, one per kind of call) to
  the trace of its effects, its status and its result.  A panic is \<open>None\<close>, an error is \<open>Inl\<close>, a nil
  pointer or nil map is \<open>None\<close> of an option type.  A Go map that is only looked up is a HOL map; one that is ranged over is
  an association list, visited in the order the environment chooses.  An \<open>int32\<close> is a \<open>32 word\<close>, a duration and a time
  are nanoseconds.  Every theorem about a pass holds for all answers, all orders and all errors.

  \<^bold>\<open>The theories\<close>, and what each models under \<open>src/pkg\<close>:

  \<^item> \<open>Prelude\<close>, \<open>Kube\<close>: strings, Go maps, the fields of Kubernetes objects.  \<open>Md5\<close>, \<open>Sha256\<close>: the digests of Go's
    library, written out.
  \<^item> \<open>Names\<close>: \<open>operator/names\<close>, deterministic object names.  Names are valid, bounded, end in the hash of their
    parts, and agree with the frozen older join.
  \<^item> \<open>KeyRange\<close>, \<open>Shard\<close>, \<open>Keyspace\<close>, \<open>Defaults\<close>, \<open>Backup_Schedule\<close>: the API types \<open>apis/planetscale/v2\<close> with their
    methods and defaults.  Safe names determine the range; \<open>ShardTemplates\<close> lists exactly the shards that the
    partitionings define; defaulting is idempotent, establishes what the controllers dereference and keeps what the user set; generated cron
    expressions fire exactly at their offset; the search for missed runs ends.
  \<^item> \<open>Update\<close>: \<open>operator/update\<close>, merging a desired object into a live one.  A locale for keyed merges carries
    containers, volumes and environment variables: foreign entries stay, the merge is idempotent.  Where an item replaces the old one,
    that needs no assumption on the keys.
  \<^item> \<open>Results\<close>: \<open>operator/results\<close>, the builder of a pass's result.
  \<^item> \<open>Reconciler\<close>: \<open>operator/reconciler\<close>, one object and a set of objects against a strategy of hooks.  Nothing is
    deleted without its owner's consent; rolling changes wait for a release.
  \<^item> \<open>Drain\<close>, \<open>Drain_Protocol\<close>, \<open>Drain_Reconcile\<close>: \<open>operator/drain\<close> and \<open>operator/rollout\<close>, the annotation protocols;
    the protocol as a distributed system with a stale cache, as an inductive step relation; and the pass of the
    replication controller that runs it.  At most one tablet of a shard is ever released, under every interleaving.
  \<^item> \<open>Replication_Init\<close>: the other passes of \<open>controller/vitessshardreplication\<close>, which give a new shard its first
    primary: at most one, and only in the way that suits the data it holds.
  \<^item> \<open>Rollout\<close>: \<open>reconcile_rollout.go\<close> and \<open>reconcile_disk.go\<close> of \<open>controller/vitessshard\<close>.
  \<^item> \<open>Tablets\<close>, \<open>Tablets_Laws\<close>: \<open>reconcile_tablets.go\<close> of \<open>controller/vitessshard\<close>, which turns the pools of a shard into volume
    claims and Pods.  Nothing in use is deleted, a Pod carries the alias of its tablet, the status rests on evidence, and the
    loop over a pool ends unless it asks for the largest \<open>int32\<close>.
  \<^item> \<open>Mysql\<close>: \<open>operator/mysql\<close>, safe upgrades of the database image.
  \<^item> \<open>ConnPool\<close>: \<open>operator/toposerver\<close>, the shared topology connections as a concurrent system.
  \<^item> \<open>Lockserver\<close>: \<open>operator/lockserver\<close>, names and connection parameters.
  \<^item> \<open>Topo\<close>, \<open>Topo_Controllers\<close>: \<open>operator/vitesstopo\<close>, \<open>operator/stringsets\<close> and the topology passes of the cluster,
    cell and shard controllers.  A locale for sweeps over records carries the pruning functions.
  \<^item> \<open>Keyspace_Controller\<close>, \<open>Keyspace_Safety\<close>, \<open>Keyspace_Status\<close>: \<open>controller/vitesskeyspace\<close> with all its passes, on top of
    the reconciler, the partitionings and the pruning of shards.  Shard objects are deleted only when idle and unwanted, an
    external update strategy holds changes back, and the conditions of a reported status rest on evidence.  \<open>Float64\<close>: the
    rounded arithmetic of Go's \<open>float64\<close> behind the copy progress of a resharding.
  \<^item> \<open>Cluster_Objects\<close>: \<open>reconcile_cells.go\<close> and \<open>reconcile_keyspaces.go\<close> of \<open>controller/vitesscluster\<close>, which expand the
    templates of a cluster into cell and keyspace objects.  They are deleted only when idle and unwanted, and an external
    update strategy holds back what is not known to be harmless.
  \<^item> \<open>Etcd\<close>, \<open>Etcd_Controller\<close>, \<open>Etcd_Laws\<close>: \<open>operator/etcd\<close>, \<open>controller/etcdlockserver\<close> and the passes of the cluster and the cell
    that own a lockserver (\<open>reconcile_etcd.go\<close>).  Members agree on their cluster, objects select each other, a quorum is
    reported exactly, and nothing that holds data is deleted behind the user's back.
  \<^item> \<open>Content_Hash\<close>: \<open>operator/contenthash\<close> and \<open>operator/desiredstatehash\<close>.  Containers with the recorded hash merge into
    the wanted ones, but for a pull policy and security settings that these leave unset.  \<open>Vitess_Flags\<close>: \<open>operator/vitess\<close>, \<open>operator/lazy\<close> and \<open>operator/secrets\<close>, flags, providers
    registered for a Pod and mounted secrets.
  \<^item> \<open>Tablet_Spec\<close>, \<open>Tablet_Pod\<close>, \<open>Tablet_Pod_Laws\<close>: \<open>operator/vttablet\<close> and the storage locations of
    \<open>operator/vitessbackup\<close>.  Every mount has a volume, the user's flags win, a Pod that was brought up to date stays as it is, up to
    resource lists that are nil instead of empty.
  \<^item> \<open>Backup_Job\<close>, \<open>Backup_Controller\<close>: the initial backup of a shard, \<open>reconcile_backup_job.go\<close>, and the backup
    schedule controller.  A strategy creates a job exactly when a run is due, and shards are targeted once.

  \<^bold>\<open>Interfaces.\<close>  Contracts that several operations share are locales, each interpreted on the code's model: presence
  flags and their protocol (\<open>Drain\<close>), keyed and replacing merges (\<open>Update\<close>), defaulting (\<open>Defaults\<close>), condition maps (\<open>Shard\<close>),
  sweeps of topology records (\<open>Topo\<close>).

  \<^bold>\<open>Termination.\<close>  No definition uses fuel.  The loop over the tablets of a pool may not end, and is a partial function that returns
  \<open>None\<close> then.  Recursion is structural except there, in the loop over missed runs, whose measure is the
  number of runs still allowed, and in a few string functions measured by their length; \<open>missed_loop\<close> therefore ends even
  if the cron library returned a time that does not move on.

  \<^bold>\<open>Parameters.\<close>  The API server, the topology server, tablet RPCs, the clock, randomness, the cron parser, time formatting,
  the admission defaults that a dry-run update applies, the operator's own command-line flags, what the platform makes of a float that no \<open>int\<close> can hold, and a few helpers of
  Kubernetes and Vitess (the record \<open>tablet_lib\<close>) are arguments.  What a theorem
  needs of them is a hypothesis in its statement, met by a concrete instance in its witness.

  \<^bold>\<open>Not modelled.\<close>  The generated deep copies (\<open>zz_generated.deepcopy.go\<close>); the builders of the other Pods, Deployments and Services
  (\<open>operator/vtadmin\<close>, \<open>vtctld\<close>, \<open>vtgate\<close>, \<open>vtorc\<close>), which copy fields into Kubernetes literals and flag lists; the controllers that only feed such literals to the generic reconciler; metrics, logging, events, command-line
  flags and the start of the process; and the integration test framework.  The list of components of the manifest names
  each of them.  Of the modelled components, the registration of watches and the texts of log lines and event messages
  are left out, as is timing inside a pass: a timeout shows as an error of the call it interrupts.
\<close>

end
